(* ===== verification/Prelude.thy ===== *)
theory Prelude
  imports Complex_Main "HOL-Library.Word" "HOL-Library.Char_ord" "HOL-Library.List_Lexorder"
begin

text \<open>
  Shared vocabulary of the development: the integer widths and error values of the Rust code,
  the standard-library functions it calls (\<open>Iterator::find_map\<close>, \<open>str::split\<close>,
  \<open>str::to_lowercase\<close>, \<open>eq_ignore_ascii_case\<close>, \<open>str::parse::<i32>\<close>), JSON values as
  \<open>serde_json::Value\<close> has them, and SQL tables as lists of rows with the
  \<open>INSERT .. ON CONFLICT\<close> statement every storer issues.  The locale \<open>keyed_upsert\<close> is
  the contract of such a statement; each table of the model interprets it.

  Code outside the repository enters as the fields of the record \<open>extern\<close>: the JSON
  parser, the hex codec, the SDK's \<open>standardize_address\<close>, the \<open>BigDecimal\<close> parser.
\<close>

section \<open>Collections of facts\<close>

named_theorems rust_defs \<open>definitions that mirror small Rust helpers\<close>
named_theorems table_simps \<open>lookup and key equations of SQL tables\<close>
named_theorems wf_intros \<open>well-formedness of the states the operations build\<close>

section \<open>Types of the Rust code\<close>

type_synonym u8 = "8 word"
type_synonym u32 = "32 word"
type_synonym i32 = "32 word"
type_synonym i64 = "64 word"
type_synonym u64 = "64 word"
type_synonym u128 = "128 word"
type_synonym bytes = "u8 list"
type_synonym decimal = rat
type_synonym datetime = int

text \<open>
  \<open>i64\<close> and \<open>u64\<close> are both 64-bit words, so the casts \<open>as i64\<close> and \<open>as u64\<close>, which keep
  the bits, are the identity; signed comparisons are written with \<open>sint\<close>.  A \<open>BigDecimal\<close>
  is its rational value, a \<open>NaiveDateTime\<close> a number of microseconds.
\<close>

datatype error = ProcessError string | DBStoreError string | Panic string

type_synonym 'a result = "error + 'a"

primrec fold_result :: "('a \<Rightarrow> 's \<Rightarrow> 's result) \<Rightarrow> 'a list \<Rightarrow> 's \<Rightarrow> 's result" where
  "fold_result f [] s = Inr s"
| "fold_result f (x # xs) s = (case f x s of Inl e \<Rightarrow> Inl e | Inr t \<Rightarrow> fold_result f xs t)"

primrec map_result :: "('a \<Rightarrow> 'b result) \<Rightarrow> 'a list \<Rightarrow> 'b list result" where
  "map_result f [] = Inr []"
| "map_result f (x # xs) =
     (case f x of
        Inl e \<Rightarrow> Inl e
      | Inr y \<Rightarrow> (case map_result f xs of Inl e \<Rightarrow> Inl e | Inr ys \<Rightarrow> Inr (y # ys)))"

primrec find_map_result :: "('a \<Rightarrow> 'b option result) \<Rightarrow> 'a list \<Rightarrow> 'b option result" where
  "find_map_result f [] = Inr None"
| "find_map_result f (x # xs) =
     (case f x of
        Inl e \<Rightarrow> Inl e
      | Inr (Some y) \<Rightarrow> Inr (Some y)
      | Inr None \<Rightarrow> find_map_result f xs)"

definition unwrap :: "'a option \<Rightarrow> 'a result" where
  "unwrap x = (case x of None \<Rightarrow> Inl (Panic ''called Option::unwrap() on a None value'') | Some v \<Rightarrow> Inr v)"

section \<open>Standard library\<close>

definition and_then :: "'a result \<Rightarrow> ('a \<Rightarrow> 'b result) \<Rightarrow> 'b result" where
  "and_then r f = (case r of Inl e \<Rightarrow> Inl e | Inr x \<Rightarrow> f x)"

primrec find_map :: "('a \<Rightarrow> 'b option) \<Rightarrow> 'a list \<Rightarrow> 'b option" where
  "find_map f [] = None"
| "find_map f (x # xs) = (case f x of Some y \<Rightarrow> Some y | None \<Rightarrow> find_map f xs)"

definition opt_and_then :: "'a option \<Rightarrow> ('a \<Rightarrow> 'b option) \<Rightarrow> 'b option" where
  [rust_defs]: "opt_and_then x f = (case x of None \<Rightarrow> None | Some y \<Rightarrow> f y)"

definition opt_or :: "'a option \<Rightarrow> 'a option \<Rightarrow> 'a option" where
  [rust_defs]: "opt_or x y = (case x of None \<Rightarrow> y | Some v \<Rightarrow> Some v)"

definition unwrap_or :: "'a option \<Rightarrow> 'a \<Rightarrow> 'a" where
  [rust_defs]: "unwrap_or x d = (case x of None \<Rightarrow> d | Some v \<Rightarrow> v)"

primrec split_aux :: "char \<Rightarrow> string \<Rightarrow> string \<Rightarrow> string list" where
  "split_aux d cur [] = [rev cur]"
| "split_aux d cur (c # cs) =
     (if c = d then rev cur # split_aux d [] cs else split_aux d (c # cur) cs)"

definition str_split :: "char \<Rightarrow> string \<Rightarrow> string list" where
  "str_split d s = split_aux d [] s"

definition char_lower :: "char \<Rightarrow> char" where
  "char_lower c = (if CHR ''A'' \<le> c \<and> c \<le> CHR ''Z''
     then char_of (of_char c + 32 :: nat) else c)"

definition to_lowercase :: "string \<Rightarrow> string" where
  "to_lowercase = map char_lower"

definition eq_ignore_ascii_case :: "string \<Rightarrow> string \<Rightarrow> bool" where
  "eq_ignore_ascii_case s t \<longleftrightarrow> to_lowercase s = to_lowercase t"

definition strip_prefix :: "string \<Rightarrow> string \<Rightarrow> string option" where
  "strip_prefix p s = (if take (length p) s = p then Some (drop (length p) s) else None)"

definition is_digit :: "char \<Rightarrow> bool" where
  "is_digit c \<longleftrightarrow> CHR ''0'' \<le> c \<and> c \<le> CHR ''9''"

definition digit_val :: "char \<Rightarrow> int" where
  "digit_val c = of_char c - 48"

definition digits_val :: "string \<Rightarrow> int" where
  "digits_val s = foldl (\<lambda>a c. 10 * a + digit_val c) 0 s"

definition parse_digits :: "string \<Rightarrow> int option" where
  "parse_digits s = (if s \<noteq> [] \<and> list_all is_digit s then Some (digits_val s) else None)"

definition parse_i32 :: "string \<Rightarrow> int option" where
  "parse_i32 s =
     (let v = (case s of
          CHR ''+'' # r \<Rightarrow> parse_digits r
        | CHR ''-'' # r \<Rightarrow> map_option uminus (parse_digits r)
        | _ \<Rightarrow> parse_digits s)
      in case v of
           None \<Rightarrow> None
         | Some n \<Rightarrow> if - (2 ^ 31) \<le> n \<and> n < 2 ^ 31 then Some n else None)"

text \<open>
  A string is its list of bytes.  \<open>to_lowercase\<close> is exact on ASCII text, which is what the
  addresses, labels and table names it is applied to are made of.
\<close>

section \<open>JSON values\<close>

datatype json =
    JNull
  | JBool bool
  | JNumber string
  | JString string
  | JArray "json list"
  | JObject "(string \<times> json) list"

fun json_get :: "json \<Rightarrow> string \<Rightarrow> json option" where
  "json_get (JObject kvs) k = map_of kvs k"
| "json_get _ k = None"

fun json_index :: "json \<Rightarrow> nat \<Rightarrow> json option" where
  "json_index (JArray xs) i = (if i < length xs then Some (xs ! i) else None)"
| "json_index _ i = None"

fun json_as_str :: "json \<Rightarrow> string option" where
  "json_as_str (JString s) = Some s"
| "json_as_str _ = None"

fun json_as_array :: "json \<Rightarrow> json list option" where
  "json_as_array (JArray xs) = Some xs"
| "json_as_array _ = None"

fun nat_to_string :: "nat \<Rightarrow> string" where
  "nat_to_string n =
     (if n < 10 then [char_of (48 + n)]
      else nat_to_string (n div 10) @ [char_of (48 + n mod 10)])"

declare nat_to_string.simps [simp del]

definition json_numbers :: "nat list \<Rightarrow> json" where
  "json_numbers ns = JArray (map (\<lambda>n. JNumber (nat_to_string n)) ns)"

section \<open>Code outside the repository\<close>

record extern =
  json_from_str :: "string \<Rightarrow> json option"
  hex_encode :: "bytes \<Rightarrow> string"
  hex_decode :: "string \<Rightarrow> bytes option"
  standardize_address :: "string \<Rightarrow> string"
  decimal_from_str :: "string \<Rightarrow> decimal option"
  parse_timestamp :: "int \<times> int \<Rightarrow> i64 \<Rightarrow> datetime"

text \<open>
  \<open>TransactionMetadata\<close> of the SDK: the version range a batch covers, the timestamps of its
  first and last transaction (seconds and nanoseconds) and its size.
\<close>

record txn_metadata =
  tm_start_version :: u64
  tm_end_version :: u64
  tm_start_transaction_timestamp :: "(int \<times> int) option"
  tm_end_transaction_timestamp :: "(int \<times> int) option"
  tm_total_size_in_bytes :: u64

definition default_txn_metadata :: txn_metadata where
  "default_txn_metadata =
     \<lparr>tm_start_version = 0, tm_end_version = 0, tm_start_transaction_timestamp = None,
      tm_end_transaction_timestamp = None, tm_total_size_in_bytes = 0\<rparr>"

section \<open>SQL tables\<close>

text \<open>
  A table is the list of its rows.  \<open>upsert key merge n rows\<close> is
  \<open>INSERT .. VALUES n ON CONFLICT (key) ..\<close>: \<open>merge old n\<close> is what the conflict clause
  makes of the stored row, so \<open>DO NOTHING\<close> is \<open>\<lambda>old n. old\<close> and a \<open>WHERE\<close> on
  \<open>DO UPDATE\<close> is an \<open>if\<close> inside \<open>merge\<close>.
\<close>

primrec upsert :: "('r \<Rightarrow> 'k) \<Rightarrow> ('r \<Rightarrow> 'r \<Rightarrow> 'r) \<Rightarrow> 'r \<Rightarrow> 'r list \<Rightarrow> 'r list" where
  "upsert key merge n [] = [n]"
| "upsert key merge n (r # rs) =
     (if key r = key n then merge r n # rs else r # upsert key merge n rs)"

definition insert_ignore :: "('r \<Rightarrow> 'k) \<Rightarrow> 'r \<Rightarrow> 'r list \<Rightarrow> 'r list" where
  "insert_ignore key = upsert key (\<lambda>old n. old)"

definition find_row :: "('r \<Rightarrow> 'k) \<Rightarrow> 'k \<Rightarrow> 'r list \<Rightarrow> 'r option" where
  "find_row key k rows = find (\<lambda>r. key r = k) rows"

definition unique_keys :: "('r \<Rightarrow> 'k) \<Rightarrow> 'r list \<Rightarrow> bool" where
  "unique_keys key rows \<longleftrightarrow> distinct (map key rows)"

section \<open>Lemmas\<close>

lemma and_then_simps [simp]: "and_then (Inr x) f = f x" "and_then (Inl e) f = Inl e"
  by (simp_all add: and_then_def)

lemma and_then_Inr_iff: "and_then r f = Inr y \<longleftrightarrow> (\<exists>x. r = Inr x \<and> f x = Inr y)"
  by (cases r) simp_all

lemma and_then_InrE:
  assumes "and_then r f = Inr y" obtains x where "r = Inr x" "f x = Inr y"
  using assms by (cases r) simp_all

lemma fold_result_inv:
  assumes "\<And>x s t. x \<in> set xs \<Longrightarrow> P s \<Longrightarrow> f x s = Inr t \<Longrightarrow> P t"
    and "fold_result f xs s = Inr t" and "P s"
  shows "P t"
  using assms
proof (induction xs arbitrary: s)
  case Nil
  then show ?case by simp
next
  case (Cons x xs)
  then obtain u where u: "f x s = Inr u" "fold_result f xs u = Inr t"
    by (auto split: sum.splits)
  with Cons.prems have "P u" by (meson list.set_intros(1))
  with Cons.IH [of u] u Cons.prems show ?case by (meson list.set_intros(2))
qed

lemma fold_result_append:
  "fold_result f (xs @ ys) s =
     (case fold_result f xs s of Inl e \<Rightarrow> Inl e | Inr t \<Rightarrow> fold_result f ys t)"
  by (induction xs arbitrary: s) (auto split: sum.splits)

lemma fold_result_fails_iff:
  assumes "\<And>x s. (\<exists>e. f x s = Inl e) \<longleftrightarrow> bad x"
  shows "(\<exists>e. fold_result f xs s = Inl e) \<longleftrightarrow> (\<exists>x \<in> set xs. bad x)"
proof (induction xs arbitrary: s)
  case (Cons x xs)
  with assms [of x s] show ?case by (cases "f x s") auto
qed simp

lemma map_result_Inr_iff:
  "map_result f xs = Inr ys \<longleftrightarrow> list_all2 (\<lambda>x y. f x = Inr y) xs ys"
proof (induction xs arbitrary: ys)
  case (Cons x xs)
  have "map_result f (x # xs) = Inr ys \<longleftrightarrow>
      (\<exists>z zs. ys = z # zs \<and> f x = Inr z \<and> map_result f xs = Inr zs)"
    by (auto split: sum.splits)
  then show ?case by (simp add: Cons list_all2_Cons1)
qed auto

lemma map_result_total:
  "(\<And>x. x \<in> set xs \<Longrightarrow> f x = Inr (g x)) \<Longrightarrow> map_result f xs = Inr (map g xs)"
  by (induction xs) auto

lemma map_result_fails_iff:
  "(\<exists>e. map_result f xs = Inl e) \<longleftrightarrow> (\<exists>x \<in> set xs. \<exists>e. f x = Inl e)"
  by (induction xs) (auto split: sum.splits)

lemma map_result_keys:
  assumes "map_result f xs = Inr ys" and "\<And>x y. f x = Inr y \<Longrightarrow> key y = k x"
  shows "map key ys = map k xs"
proof -
  have "list_all2 (\<lambda>x y. f x = Inr y) xs ys" using assms(1) by (simp add: map_result_Inr_iff)
  then show ?thesis by (induction rule: list_all2_induct) (simp_all add: assms(2))
qed

lemma unwrap_Inr [simp]: "unwrap x = Inr y \<longleftrightarrow> x = Some y"
  by (auto simp: unwrap_def split: option.splits)

lemma unwrap_Some [simp]: "unwrap (Some y) = Inr y"
  by simp

lemma find_append:
  "find P (xs @ ys) = (case find P xs of None \<Rightarrow> find P ys | Some x \<Rightarrow> Some x)"
  by (induction xs) auto

lemma find_map_None_iff: "find_map f xs = None \<longleftrightarrow> (\<forall>x \<in> set xs. f x = None)"
  by (induction xs) (auto split: option.splits)

lemma find_map_append:
  "find_map f (xs @ ys) = (case find_map f xs of None \<Rightarrow> find_map f ys | Some y \<Rightarrow> Some y)"
  by (induction xs) (auto split: option.splits)

lemma find_map_SomeD:
  "find_map f xs = Some y \<Longrightarrow>
     \<exists>ys x zs. xs = ys @ x # zs \<and> f x = Some y \<and> (\<forall>z \<in> set ys. f z = None)"
proof (induction xs)
  case Nil
  then show ?case by simp
next
  case (Cons x xs)
  show ?case
  proof (cases "f x")
    case None
    with Cons obtain ys z zs where
      "xs = ys @ z # zs" "f z = Some y" "\<forall>w \<in> set ys. f w = None" by auto
    with None have "x # xs = (x # ys) @ z # zs" "\<forall>w \<in> set (x # ys). f w = None" by auto
    with \<open>f z = Some y\<close> show ?thesis by blast
  next
    case (Some z)
    with Cons.prems have "x # xs = [] @ x # xs \<and> f x = Some y" by simp
    then show ?thesis by (metis empty_iff list.set(1))
  qed
qed

lemma find_map_Some_iff:
  "find_map f xs = Some y \<longleftrightarrow>
     (\<exists>ys x zs. xs = ys @ x # zs \<and> f x = Some y \<and> (\<forall>z \<in> set ys. f z = None))"
proof
  assume "\<exists>ys x zs. xs = ys @ x # zs \<and> f x = Some y \<and> (\<forall>z \<in> set ys. f z = None)"
  then obtain ys x zs where xs: "xs = ys @ x # zs" "f x = Some y" "\<forall>z \<in> set ys. f z = None"
    by blast
  then have "find_map f ys = None" by (simp add: find_map_None_iff)
  with xs show "find_map f xs = Some y" by (simp add: find_map_append)
qed (rule find_map_SomeD)

lemma uint_eq_sint: "0 \<le> sint (w :: i64) \<Longrightarrow> uint w = sint w"
  by (subst uint_sint) (use sint_lt [of w] in \<open>simp add: take_bit_int_eq_self\<close>)

lemma sint_eq_uint_small: "uint (w :: i64) < 2 ^ 63 \<Longrightarrow> sint w = uint w"
proof (subst sint_uint, rule signed_take_bit_int_eq_self)
  assume "uint w < 2 ^ 63"
  then show "uint w < 2 ^ (LENGTH(64) - Suc 0)" by simp
  show "- (2 ^ (LENGTH(64) - Suc 0)) \<le> uint w"
    by (rule order_trans [OF _ uint_ge_0]) simp
qed

lemma uint_max: "uint (max a b) = max (uint a) (uint b)"
  by (simp add: max_def word_le_def)

lemma length_to_lowercase [simp]: "length (to_lowercase s) = length s"
  by (simp add: to_lowercase_def)

lemma eq_ignore_ascii_case_refl [simp]: "eq_ignore_ascii_case s s"
  by (simp add: eq_ignore_ascii_case_def)

lemma find_row_Nil [simp, table_simps]: "find_row key k [] = None"
  by (simp add: find_row_def)

lemma find_row_Cons [table_simps]:
  "find_row key k (r # rs) = (if key r = k then Some r else find_row key k rs)"
  by (simp add: find_row_def)

lemma find_row_SomeD: "find_row key k rows = Some r \<Longrightarrow> r \<in> set rows \<and> key r = k"
  by (induction rows) (auto simp: find_row_Cons split: if_splits)

lemma find_row_None: "find_row key k rows = None \<longleftrightarrow> k \<notin> key ` set rows"
  by (induction rows) (auto simp: find_row_Cons)

lemma find_row_unique:
  "unique_keys key rows \<Longrightarrow> r \<in> set rows \<Longrightarrow> find_row key (key r) rows = Some r"
  by (induction rows) (auto simp: find_row_Cons unique_keys_def)

section \<open>The contract of an upsert\<close>

text \<open>
  A conflict clause that never rewrites the key it conflicted on.  Under that law the table
  behaves as a map from keys to rows: keys stay unique, the row of the inserted key is the
  merged one and no other row moves.
\<close>

locale keyed_upsert =
  fixes key :: "'r \<Rightarrow> 'k" and merge :: "'r \<Rightarrow> 'r \<Rightarrow> 'r"
  assumes merge_key: "key n = key old \<Longrightarrow> key (merge old n) = key old"
begin

lemma keys_upsert:
  "map key (upsert key merge n rows) =
     (if key n \<in> key ` set rows then map key rows else map key rows @ [key n])"
  by (induction rows) (auto simp: merge_key)

lemma set_keys_upsert: "key ` set (upsert key merge n rows) = insert (key n) (key ` set rows)"
  by (induction rows) (auto simp: merge_key)

lemma unique_upsert: "unique_keys key rows \<Longrightarrow> unique_keys key (upsert key merge n rows)"
  unfolding unique_keys_def keys_upsert by auto

lemma find_upsert:
  "find_row key k (upsert key merge n rows) =
     (if k = key n
      then Some (case find_row key k rows of None \<Rightarrow> n | Some old \<Rightarrow> merge old n)
      else find_row key k rows)"
  by (induction rows) (auto simp: find_row_Cons merge_key)

lemma set_upsert_subset:
  "set (upsert key merge n rows) \<subseteq>
     insert n (set rows \<union> {merge r n | r. r \<in> set rows \<and> key r = key n})"
  by (induction rows) auto

lemma all_upsert:
  assumes "\<forall>r \<in> set rows. P r" and "P n"
    and "\<And>r. P r \<Longrightarrow> P n \<Longrightarrow> key r = key n \<Longrightarrow> P (merge r n)"
  shows "\<forall>r \<in> set (upsert key merge n rows). P r"
  using assms set_upsert_subset [of n rows] by auto

lemma sum_upsert:
  fixes f :: "'r \<Rightarrow> 'v :: comm_monoid_add"
  assumes "\<And>old. key old = key n \<Longrightarrow> f (merge old n) = f old + f n"
  shows "sum_list (map f (upsert key merge n rows)) = sum_list (map f rows) + f n"
  using assms by (induction rows) (auto simp: ac_simps)

lemma sum_fold_upsert:
  fixes f :: "'r \<Rightarrow> 'v :: comm_monoid_add"
  assumes "\<And>old n. n \<in> set ns \<Longrightarrow> key old = key n \<Longrightarrow> f (merge old n) = f old + f n"
  shows "sum_list (map f (fold (upsert key merge) ns rows)) = sum_list (map f rows) + sum_list (map f ns)"
  using assms by (induction ns arbitrary: rows) (auto simp: sum_upsert ac_simps)

lemma find_fold_upsert_other:
  "k \<notin> key ` set ns \<Longrightarrow> find_row key k (fold (upsert key merge) ns rows) = find_row key k rows"
  by (induction ns arbitrary: rows) (auto simp: find_upsert)

lemma unique_fold_upsert:
  "unique_keys key rows \<Longrightarrow> unique_keys key (fold (upsert key merge) ns rows)"
  by (induction ns arbitrary: rows) (auto intro: unique_upsert)

end

interpretation ignore: keyed_upsert key "\<lambda>old n. old" for key
  by unfold_locales simp

lemma unique_insert_ignore [wf_intros]:
  "unique_keys key rows \<Longrightarrow> unique_keys key (insert_ignore key n rows)"
  by (simp add: insert_ignore_def ignore.unique_upsert)

lemma find_insert_ignore [table_simps]:
  "find_row key k (insert_ignore key n rows) =
     (if k = key n \<and> find_row key k rows = None then Some n else find_row key k rows)"
  by (auto simp: insert_ignore_def ignore.find_upsert split: option.splits)

lemma insert_ignore_present:
  "key n \<in> key ` set rows \<Longrightarrow> insert_ignore key n rows = rows"
  unfolding insert_ignore_def by (induction rows) auto

lemma fold_insert_ignore_present:
  "\<forall>n \<in> set ns. key n \<in> key ` set rows \<Longrightarrow> fold (insert_ignore key) ns rows = rows"
  by (induction ns) (auto simp: insert_ignore_present)

lemma keys_fold_insert_ignore:
  "key ` set (fold (insert_ignore key) ns rows) = key ` set rows \<union> key ` set ns"
  by (induction ns arbitrary: rows)
    (auto simp: insert_ignore_def ignore.set_keys_upsert)

lemma insert_ignore_fresh: "key n \<notin> key ` set rows \<Longrightarrow> insert_ignore key n rows = rows @ [n]"
  unfolding insert_ignore_def by (induction rows) auto

lemma fold_insert_ignore_fresh:
  "distinct (map key ns) \<Longrightarrow> key ` set ns \<inter> key ` set rows = {} \<Longrightarrow>
     fold (insert_ignore key) ns rows = rows @ ns"
proof (induction ns arbitrary: rows)
  case (Cons n ns)
  have "key ` set ns \<inter> key ` set (rows @ [n]) = {}" using Cons.prems by auto
  with Cons show ?case by (simp add: insert_ignore_fresh)
qed simp

lemma of_nat_i64_eq_iff:
  "a < 2 ^ 64 \<Longrightarrow> b < 2 ^ 64 \<Longrightarrow> (of_nat a :: i64) = of_nat b \<longleftrightarrow> a = b"
  by (simp add: word_of_nat_eq_iff take_bit_nat_eq_self)

lemma of_nat_i64_inj:
  "a < 2 ^ 64 \<Longrightarrow> b < 2 ^ 64 \<Longrightarrow> (of_nat a :: i64) = of_nat b \<Longrightarrow> a = b"
  by (simp only: of_nat_i64_eq_iff)

end
