(* ===== verification/TableFlags.thy ===== *)
theory TableFlags
  imports Prelude
begin

text \<open>
  \<open>processor/src/utils/table_flags.rs\<close>: the 128-bit set of tables a processor writes, its
  construction from the table names of the configuration and the filters that use it
  (\<open>filter_data\<close> for the Postgres storers, \<open>add_to_map_if_opted_in_for_backfill\<close> and
  \<open>set_backfill_table_flag\<close> for the parquet pipelines).  A \<open>HashSet<String>\<close> is the list of
  its elements in the order the iteration visits them; the lemmas show that the order and the
  repetitions do not matter.
\<close>

unbundle bit_operations_syntax

section \<open>Definitions\<close>

definition flag_bits :: "(string \<times> nat) list" where
  "flag_bits = [
    (''TRANSACTIONS'', 1),
    (''WRITE_SET_CHANGES'', 2),
    (''MOVE_RESOURCES'', 3),
    (''TABLE_ITEMS'', 4),
    (''TABLE_METADATA'', 5),
    (''MOVE_MODULES'', 6),
    (''CURRENT_TABLE_ITEMS'', 7),
    (''BLOCK_METADATA_TRANSACTIONS'', 8),
    (''FUNGIBLE_ASSET_BALANCES'', 11),
    (''CURRENT_FUNGIBLE_ASSET_BALANCES'', 12),
    (''FUNGIBLE_ASSET_ACTIVITIES'', 13),
    (''FUNGIBLE_ASSET_METADATA'', 14),
    (''CURRENT_UNIFIED_FUNGIBLE_ASSET_BALANCES'', 15),
    (''CURRENT_FUNGIBLE_ASSET_BALANCES_LEGACY'', 16),
    (''FUNGIBLE_ASSET_TO_COIN_MAPPINGS'', 17),
    (''OBJECTS'', 21),
    (''CURRENT_OBJECTS'', 22),
    (''CURRENT_ANS_LOOKUP_V2'', 31),
    (''CURRENT_ANS_PRIMARY_NAME_V2'', 32),
    (''ANS_LOOKUP_V2'', 33),
    (''DELEGATED_STAKING_ACTIVITIES'', 41),
    (''DELEGATED_STAKING_POOLS'', 42),
    (''DELEGATED_STAKING_POOL_BALANCES'', 43),
    (''CURRENT_DELEGATED_STAKING_POOL_BALANCES'', 44),
    (''DELEGATOR_BALANCES'', 45),
    (''CURRENT_DELEGATOR_BALANCES'', 46),
    (''CURRENT_DELEGATED_VOTER'', 47),
    (''CURRENT_STAKING_POOL_VOTER'', 48),
    (''PROPOSAL_VOTES'', 49),
    (''TOKEN_ACTIVITIES_V2'', 51),
    (''CURRENT_TOKEN_OWNERSHIPS_V2'', 52),
    (''CURRENT_TOKEN_DATAS_V2'', 53),
    (''CURRENT_TOKEN_PENDING_CLAIMS'', 54),
    (''CURRENT_COLLECTIONS_V2'', 55),
    (''CURRENT_TOKEN_V2_METADATA'', 56),
    (''COLLECTIONS_V2'', 57),
    (''TOKEN_OWNERSHIPS_V2'', 58),
    (''TOKEN_DATAS_V2'', 59),
    (''CURRENT_TOKEN_ROYALTY_V1'', 60),
    (''USER_TRANSACTIONS'', 61),
    (''SIGNATURES'', 62),
    (''ACCOUNT_TRANSACTIONS'', 71),
    (''EVENTS'', 81),
    (''WRITE_SET_SIZE'', 91),
    (''COIN_SUPPLY'', 101),
    (''CURRENT_ANS_LOOKUP'', 102),
    (''CURRENT_ANS_PRIMARY_NAME'', 103),
    (''ANS_PRIMARY_NAME_V2'', 104),
    (''ANS_LOOKUP'', 105),
    (''ANS_PRIMARY_NAME'', 106),
    (''AUTH_KEY_ACCOUNT_ADDRESSES'', 111),
    (''PUBLIC_KEY_AUTH_KEYS'', 112),
    (''GAS_FEES'', 123),
    (''ADDRESS_TRANSFER_EDGES'', 124),
    (''BRIDGE_INFLOWS'', 125),
    (''ADDRESS_REPUTATION'', 126)]"

definition from_name :: "string \<Rightarrow> u128 option" where
  "from_name nm = map_option (\<lambda>n. push_bit n 1) (map_of flag_bits nm)"

definition flags_empty :: u128 where
  "flags_empty = 0"

definition flags_is_empty :: "u128 \<Rightarrow> bool" where
  "flags_is_empty fs \<longleftrightarrow> fs = 0"

definition flags_contains :: "u128 \<Rightarrow> u128 \<Rightarrow> bool" where
  "flags_contains fs f \<longleftrightarrow> fs AND f = f"

definition add_named_flag :: "string \<Rightarrow> u128 \<Rightarrow> u128" where
  "add_named_flag table flags =
     (case from_name table of Some flag \<Rightarrow> flags OR flag | None \<Rightarrow> flags)"

definition from_set :: "string list \<Rightarrow> u128" where
  "from_set tables = fold add_named_flag tables flags_empty"

definition filter_data :: "u128 \<Rightarrow> u128 \<Rightarrow> 'a list \<Rightarrow> 'a list" where
  "filter_data tables_to_write flag data =
     (if flags_is_empty tables_to_write \<or> flags_contains tables_to_write flag
      then data else [])"

definition set_backfill_table_flag :: "string list \<Rightarrow> u128" where
  "set_backfill_table_flag table_names = fold add_named_flag table_names flags_empty"

primrec add_to_map_if_opted_in_for_backfill ::
  "u128 \<Rightarrow> (u128 \<times> 'k \<times> 'v) list \<Rightarrow> ('k \<rightharpoonup> 'v) \<Rightarrow> ('k \<rightharpoonup> 'v)" where
  "add_to_map_if_opted_in_for_backfill opt_in [] m = m"
| "add_to_map_if_opted_in_for_backfill opt_in (d # ds) m =
     (case d of (table_flag, enum_type, data) \<Rightarrow>
        add_to_map_if_opted_in_for_backfill opt_in ds
          (if flags_is_empty opt_in \<or> flags_contains opt_in table_flag
           then m(enum_type \<mapsto> data) else m))"

definition has_lower :: "string \<Rightarrow> bool" where
  "has_lower s \<longleftrightarrow> list_ex (\<lambda>c. CHR ''a'' \<le> c \<and> c \<le> CHR ''z'') s"

section \<open>The bits of the table\<close>

lemma distinct_flag_names: "distinct (map fst flag_bits)"
  by (simp add: flag_bits_def)

lemma distinct_flag_bits: "distinct (map snd flag_bits)"
  by (simp add: flag_bits_def)

lemma flag_bits_below: "list_all (\<lambda>e. 0 < snd e \<and> snd e < 128) flag_bits"
  by (simp add: flag_bits_def)

lemma flag_bit_less: "map_of flag_bits nm = Some n \<Longrightarrow> n < 128"
  using flag_bits_below by (auto dest!: map_of_SomeD simp: list_all_iff)

lemma flag_bit_inj:
  assumes "map_of flag_bits nm = Some n" and "map_of flag_bits nm' = Some n"
  shows "nm = nm'"
proof -
  have "inj_on snd (set flag_bits)"
    using distinct_flag_bits by (simp add: distinct_map)
  moreover have "(nm, n) \<in> set flag_bits" "(nm', n) \<in> set flag_bits"
    using assms by (auto dest: map_of_SomeD)
  ultimately have "(nm, n) = (nm', n)" by (intro inj_onD [of snd]) auto
  then show ?thesis by simp
qed

lemma bit_single_u128: "bit (2 ^ n :: u128) k \<longleftrightarrow> k = n \<and> n < 128"
  by (auto simp: bit_exp_iff)

lemma contains_single:
  assumes "n < 128"
  shows "flags_contains fs (2 ^ n) \<longleftrightarrow> bit fs n"
proof
  assume "flags_contains fs (2 ^ n)"
  then have "bit (fs AND 2 ^ n) n = bit (2 ^ n :: u128) n" by (simp add: flags_contains_def)
  then show "bit fs n" using assms by (simp only: bit_and_iff bit_single_u128) simp
next
  assume "bit fs n"
  then show "flags_contains fs (2 ^ n)"
    unfolding flags_contains_def by (intro bit_eqI) (auto simp: bit_and_iff bit_single_u128)
qed

lemma bit_add_named_flag:
  "bit (add_named_flag nm fs) k \<longleftrightarrow> bit fs k \<or> map_of flag_bits nm = Some k"
proof (cases "map_of flag_bits nm")
  case None
  then show ?thesis by (simp add: add_named_flag_def from_name_def)
next
  case (Some n)
  then show ?thesis
    using flag_bit_less [OF Some]
    by (auto simp: add_named_flag_def from_name_def bit_or_iff bit_single_u128)
qed

lemma bit_fold_add_named_flag:
  "bit (fold add_named_flag nms fs) k \<longleftrightarrow>
     bit fs k \<or> (\<exists>nm \<in> set nms. map_of flag_bits nm = Some k)"
  by (induction nms arbitrary: fs) (auto simp: bit_add_named_flag)

lemma bit_from_set: "bit (from_set nms) k \<longleftrightarrow> (\<exists>nm \<in> set nms. map_of flag_bits nm = Some k)"
  by (simp add: from_set_def bit_fold_add_named_flag flags_empty_def)

lemma set_backfill_eq_from_set: "set_backfill_table_flag = from_set"
  by (simp add: fun_eq_iff set_backfill_table_flag_def from_set_def)

lemma from_set_empty_iff:
  "flags_is_empty (from_set nms) \<longleftrightarrow> (\<forall>nm \<in> set nms. from_name nm = None)"
proof -
  have "from_set nms = 0 \<longleftrightarrow> (\<forall>k. \<not> bit (from_set nms) k)"
    by (metis bit_0_eq bit_eqI bot_fun_def bot_bool_def)
  also have "\<dots> \<longleftrightarrow> (\<forall>nm \<in> set nms. map_of flag_bits nm = None)"
    by (simp add: bit_from_set) (metis not_None_eq)
  finally show ?thesis by (simp add: flags_is_empty_def from_name_def)
qed

lemma from_set_contains_iff:
  assumes "from_name nm = Some f"
  shows "flags_contains (from_set nms) f \<longleftrightarrow> nm \<in> set nms"
proof -
  from assms obtain n where n: "map_of flag_bits nm = Some n" "f = 2 ^ n"
    by (auto simp: from_name_def)
  then have "flags_contains (from_set nms) f \<longleftrightarrow>
      (\<exists>nm' \<in> set nms. map_of flag_bits nm' = Some n)"
    using flag_bit_less [OF n(1)] by (simp add: contains_single bit_from_set)
  with n flag_bit_inj show ?thesis by metis
qed

lemma from_set_cong: "set nms = set nms' \<Longrightarrow> from_set nms = from_set nms'"
  by (simp add: bit_eq_iff bit_from_set)

lemma add_to_map_lookup:
  assumes "distinct (map (\<lambda>(_, k, _). k) ds)" and "(f, k, v) \<in> set ds"
  shows "add_to_map_if_opted_in_for_backfill opt ds m k =
    (if flags_is_empty opt \<or> flags_contains opt f then Some v else m k)"
  using assms
proof (induction ds arbitrary: m)
  case Nil
  then show ?case by simp
next
  case (Cons d ds)
  have other: "k' \<notin> (\<lambda>(_, k, _). k) ` set ds \<Longrightarrow>
      add_to_map_if_opted_in_for_backfill opt ds m' k' = m' k'" for k' m'
    by (induction ds arbitrary: m') auto
  show ?case
  proof (cases "d = (f, k, v)")
    case True
    then show ?thesis using Cons.prems other [of k] by (force split: if_splits)
  next
    case False
    then have "(f, k, v) \<in> set ds" using Cons.prems by auto
    moreover obtain f' k' v' where d: "d = (f', k', v')" by (cases d)
    moreover from calculation Cons.prems have "k' \<noteq> k" by force
    ultimately show ?thesis using Cons by auto
  qed
qed

section \<open>Names and case\<close>

lemma flag_names_upper: "list_all (\<lambda>e. \<not> has_lower (fst e)) flag_bits"
  by (simp add: flag_bits_def has_lower_def)

lemma from_name_lower: "has_lower nm \<Longrightarrow> from_name nm = None"
  using flag_names_upper
  by (cases "map_of flag_bits nm")
    (auto simp: from_name_def list_all_iff dest!: map_of_SomeD)

section \<open>Properties\<close>

text \<open>
  Which rows a storer writes.  For a table whose flag name is \<open>nm\<close>, the rows
  survive \<open>filter_data\<close> exactly when the configured set names that table or names no table
  at all; in every other case nothing is written.  The order in which the set is iterated
  and repeated names make no difference.
\<close>

theorem filter_data_from_set:
  assumes "from_name nm = Some flag"
  shows "filter_data (from_set tables) flag rows =
    (if nm \<in> set tables \<or> (\<forall>t \<in> set tables. from_name t = None) then rows else [])"
  using assms by (auto simp: filter_data_def from_set_contains_iff from_set_empty_iff)

theorem filter_data_from_set_witness:
  "filter_data (from_set [''EVENTS'', ''GAS_FEES'']) (2 ^ 81) [7 :: nat] = [7] \<and>
   filter_data (from_set [''EVENTS'', ''GAS_FEES'']) (2 ^ 91) [7 :: nat] = []"
proof -
  have n: "from_name ''EVENTS'' = Some (2 ^ 81)" "from_name ''WRITE_SET_SIZE'' = Some (2 ^ 91)"
    "from_name ''GAS_FEES'' = Some (2 ^ 123)"
    by (simp_all add: from_name_def flag_bits_def)
  show ?thesis
    unfolding filter_data_from_set [OF n(1)] filter_data_from_set [OF n(2)] using n by simp
qed

text \<open>
  A configuration whose table names are all unknown (a misspelt or lower-case name:
  every flag name is upper case and \<open>from_name\<close> compares exactly) is treated as the empty set,
  which stands for every table: nothing is filtered out.
\<close>

theorem unknown_names_write_everything:
  assumes "\<forall>t \<in> set tables. has_lower t"
  shows "filter_data (from_set tables) flag rows = rows"
  using assms from_name_lower by (auto simp: filter_data_def from_set_empty_iff)

theorem unknown_names_write_everything_witness:
  "filter_data (from_set [''events'']) (2 ^ 91) [7 :: nat] = [7]"
  by (rule unknown_names_write_everything) (simp add: has_lower_def)

end
