(* ===== verification/SampleExtern.thy ===== *)
theory SampleExtern
  imports Prelude
begin

text \<open>
  A concrete environment for the code outside the repository, used by the witnesses: a
  lower-case hex codec, a reader for quoted JSON strings without escapes, the padding of
  addresses to 64 digits, decimal integers and microsecond timestamps.  No model definition
  depends on it.
\<close>

section \<open>Hex\<close>

definition hex_digit :: "nat \<Rightarrow> char" where
  "hex_digit n = ''0123456789abcdef'' ! n"

definition hex_value :: "char \<Rightarrow> nat option" where
  "hex_value c = map_of (zip ''0123456789abcdefABCDEF'' ([0..<16] @ [10..<16])) c"

definition sample_hex_encode :: "bytes \<Rightarrow> string" where
  "sample_hex_encode bs =
     concat (map (\<lambda>b. [hex_digit (unat b div 16), hex_digit (unat b mod 16)]) bs)"

fun sample_hex_decode :: "string \<Rightarrow> bytes option" where
  "sample_hex_decode [] = Some []"
| "sample_hex_decode [c] = None"
| "sample_hex_decode (c # d # cs) =
     (case (hex_value c, hex_value d, sample_hex_decode cs) of
        (Some h, Some l, Some bs) \<Rightarrow> Some (of_nat (16 * h + l) # bs)
      | _ \<Rightarrow> None)"

section \<open>Other readers\<close>

definition sample_json :: "string \<Rightarrow> json option" where
  "sample_json s =
     (if 2 \<le> length s \<and> hd s = CHR 0x22 \<and> last s = CHR 0x22
      then Some (JString (butlast (tl s))) else None)"

definition sample_standardize :: "string \<Rightarrow> string" where
  "sample_standardize a =
     (let h = (case strip_prefix ''0x'' a of None \<Rightarrow> a | Some r \<Rightarrow> r)
      in ''0x'' @ replicate (64 - length h) CHR ''0'' @ h)"

definition sample_extern :: extern where
  "sample_extern =
     \<lparr>json_from_str = sample_json, hex_encode = sample_hex_encode,
      hex_decode = sample_hex_decode, standardize_address = sample_standardize,
      decimal_from_str = (\<lambda>s. map_option of_int (parse_digits s)),
      parse_timestamp = (\<lambda>(s, n) v. 1000000 * s + n div 1000)\<rparr>"

section \<open>The codec\<close>

lemma hex_value_digit: "n < 16 \<Longrightarrow> hex_value (hex_digit n) = Some n"
proof -
  have "\<forall>n \<in> {0..<16}. hex_value (hex_digit n) = Some n" by code_simp
  then show "n < 16 \<Longrightarrow> hex_value (hex_digit n) = Some n" by simp
qed

lemma sample_hex_roundtrip: "sample_hex_decode (sample_hex_encode bs) = Some bs"
proof (induction bs)
  case Nil
  then show ?case by (simp add: sample_hex_encode_def)
next
  case (Cons b bs)
  have "unat b < 256" using unsigned_less [of b, where ?'a = nat] by simp
  then have "unat b div 16 < 16" "unat b mod 16 < 16" by auto
  moreover have "of_nat (16 * (unat b div 16) + unat b mod 16) = b"
    by (simp only: mult_div_mod_eq of_nat_unat ucast_id)
  ultimately show ?case
    using Cons by (simp add: sample_hex_encode_def hex_value_digit del: of_nat_add of_nat_mult)
qed

lemma length_sample_hex_encode: "length (sample_hex_encode bs) = 2 * length bs"
  by (induction bs) (auto simp: sample_hex_encode_def)

end
