(* ===== verification/ReputationModel.thy ===== *)
theory ReputationModel
  imports Prelude
begin

text \<open>
  The rows and the configuration of the address-reputation processor
  (\<open>address_reputation_model.rs\<close>, \<open>address_reputation_config.rs\<close> and the registry loader
  of \<open>address_reputation_processor.rs\<close>).  Field names carry a prefix per struct, because
  Isabelle's record fields share one name space.
\<close>

section \<open>Rows\<close>

record transfer_edge =
  te_transaction_version :: i64
  te_event_index :: i64
  te_from_address :: string
  te_to_address :: string
  te_asset_type :: "string option"
  te_amount :: decimal
  te_is_bridge_inflow :: bool
  te_bridge_name :: "string option"
  te_transaction_timestamp :: datetime

record bridge_inflow =
  bi_transaction_version :: i64
  bi_event_index :: i64
  bi_bridge_name :: string
  bi_aptos_recipient :: string
  bi_evm_source :: "string option"
  bi_src_chain_id :: "int option"
  bi_asset_type :: "string option"
  bi_amount :: decimal
  bi_lz_guid :: "string option"
  bi_transaction_timestamp :: datetime

record address_evm_source =
  aes_movement_address :: string
  aes_asset_type :: string
  aes_evm_address :: string
  aes_evm_fund :: decimal
  aes_transfer_fund :: decimal
  aes_first_seen_ord :: i64
  aes_last_seen_ord :: i64
  aes_hops_min :: int

record bridge_registry_entry =
  re_bridge_name :: string
  re_module_address :: string
  re_event_type :: string
  re_evm_source_field_path :: "string option"
  re_recipient_field_path :: string
  re_amount_field_path :: string
  re_chain_id_field_path :: "string option"
  re_payload_kind :: "string option"
  re_enabled :: bool

record evm_risk_score =
  rs_evm_address :: string
  rs_risk_score :: decimal
  rs_risk_label :: string
  rs_source :: string
  rs_recommendation :: string
  rs_severity :: string
  rs_fetched_at :: datetime
  rs_to_be_updated :: bool

section \<open>The reputation tables\<close>

record reputation_db =
  rd_edges :: "transfer_edge list"
  rd_inflows :: "bridge_inflow list"
  rd_sources :: "address_evm_source list"
  rd_scores :: "evm_risk_score list"

definition te_key :: "transfer_edge \<Rightarrow> i64 \<times> i64" where
  "te_key e = (te_transaction_version e, te_event_index e)"

definition bi_key :: "bridge_inflow \<Rightarrow> i64 \<times> i64" where
  "bi_key b = (bi_transaction_version b, bi_event_index b)"

definition aes_key :: "address_evm_source \<Rightarrow> string \<times> string \<times> string" where
  "aes_key r = (aes_movement_address r, aes_asset_type r, aes_evm_address r)"

section \<open>Configuration\<close>

record bridge_config =
  bc_name :: string
  bc_module_address :: string
  bc_event_type :: string
  bc_recipient_field_path :: string
  bc_amount_field_path :: string
  bc_chain_id_field_path :: "string option"
  bc_evm_source_field_path :: "string option"
  bc_payload_kind :: "string option"
  bc_enabled :: bool

record lz_enricher_config =
  lc_interval_ms :: nat
  lc_scan_api_base_url :: string

record hypernative_config =
  hc_client_id :: string
  hc_client_secret :: string
  hc_screener_policy_id :: "string option"
  hc_screener_url :: string
  hc_max_concurrent_requests :: nat
  hc_max_rps :: nat
  hc_ttl_secs :: nat

record address_reputation_config =
  rc_channel_size :: nat
  rc_bridges :: "bridge_config list"
  rc_propagate_evm_sources :: bool
  rc_lz_enricher :: lz_enricher_config
  rc_hypernative :: hypernative_config

definition default_lz_enricher_config :: lz_enricher_config where
  "default_lz_enricher_config =
     \<lparr>lc_interval_ms = 500,
      lc_scan_api_base_url = ''https://scan.layerzero-api.com/v1/messages/guid''\<rparr>"

definition default_hypernative_config :: hypernative_config where
  "default_hypernative_config =
     \<lparr>hc_client_id = [], hc_client_secret = [], hc_screener_policy_id = None,
      hc_screener_url = ''https://api.hypernative.xyz/screener/reputation'',
      hc_max_concurrent_requests = 4, hc_max_rps = 10, hc_ttl_secs = 3600\<rparr>"

definition default_address_reputation_config :: address_reputation_config where
  "default_address_reputation_config =
     \<lparr>rc_channel_size = 10, rc_bridges = [], rc_propagate_evm_sources = True,
      rc_lz_enricher = default_lz_enricher_config,
      rc_hypernative = default_hypernative_config\<rparr>"

definition load_bridge_registry_from_config :: "bridge_config list \<Rightarrow> bridge_registry_entry list" where
  "load_bridge_registry_from_config bridges =
     map (\<lambda>b. \<lparr>re_bridge_name = bc_name b, re_module_address = bc_module_address b,
             re_event_type = bc_event_type b,
             re_evm_source_field_path = bc_evm_source_field_path b,
             re_recipient_field_path = bc_recipient_field_path b,
             re_amount_field_path = bc_amount_field_path b,
             re_chain_id_field_path = bc_chain_id_field_path b,
             re_payload_kind = bc_payload_kind b,
             re_enabled = bc_enabled b\<rparr>)
       (filter bc_enabled bridges)"

lemma load_bridge_registry_enabled:
  "e \<in> set (load_bridge_registry_from_config bs) \<Longrightarrow> re_enabled e"
  by (auto simp: load_bridge_registry_from_config_def)

end
