(* ===== verification/ReputationStorer.thy ===== *)
theory ReputationStorer
  imports SampleExtern ReputationModel "HOL-Library.Product_Lexorder" "HOL-Library.Multiset"
begin

text \<open>
  \<open>address_reputation_storer.rs\<close>: the batch transaction that stores transfer edges and bridge
  inflows and rolls EVM funding sources forward along the edges.  The SQL statements are
  functions on the rows of \<open>address_evm_sources\<close>.  \<open>numeric_div\<close> is PostgreSQL's division of
  \<open>NUMERIC\<close> values, whose result scale the server chooses; it is a parameter.  A batch may
  fail at any statement, as \<open>faults\<close> says, and a failed transaction leaves the tables alone.
\<close>

section \<open>Statements on the rollup\<close>

definition numeric_round :: "nat \<Rightarrow> rat \<Rightarrow> rat" where
  "numeric_round n x =
     (if 0 \<le> x then of_int \<lfloor>x * 10 ^ n + 1 / 2\<rfloor> / 10 ^ n
      else - (of_int \<lfloor>- x * 10 ^ n + 1 / 2\<rfloor> / 10 ^ n))"

definition i64_least :: "i64 \<Rightarrow> i64 \<Rightarrow> i64" where
  "i64_least a b = (if sint a \<le> sint b then a else b)"

definition i64_greatest :: "i64 \<Rightarrow> i64 \<Rightarrow> i64" where
  "i64_greatest a b = (if sint a \<le> sint b then b else a)"

definition seen_ord :: "i64 \<Rightarrow> i64 \<Rightarrow> i64" where
  "seen_ord version event_index =
     Bit_Operations.or (push_bit 24 version) (Bit_Operations.and event_index 0x00FFFFFF)"

definition merge_bridge_seed :: "address_evm_source \<Rightarrow> address_evm_source \<Rightarrow> address_evm_source" where
  "merge_bridge_seed old n =
     old\<lparr>aes_evm_fund := aes_evm_fund old + aes_evm_fund n,
         aes_first_seen_ord := i64_least (aes_first_seen_ord old) (aes_first_seen_ord n),
         aes_last_seen_ord := i64_greatest (aes_last_seen_ord old) (aes_last_seen_ord n),
         aes_hops_min := 0\<rparr>"

definition bridge_seed :: "string \<Rightarrow> string \<Rightarrow> string \<Rightarrow> decimal \<Rightarrow> i64 \<Rightarrow> address_evm_source" where
  "bridge_seed recipient asset evm amount ord =
     \<lparr>aes_movement_address = recipient, aes_asset_type = asset, aes_evm_address = evm,
      aes_evm_fund = amount, aes_transfer_fund = 0, aes_first_seen_ord = ord,
      aes_last_seen_ord = ord, aes_hops_min = 0\<rparr>"

definition upsert_bridge_seed ::
  "string \<Rightarrow> string \<Rightarrow> string \<Rightarrow> decimal \<Rightarrow> i64 \<Rightarrow> address_evm_source list \<Rightarrow> address_evm_source list"
where
  "upsert_bridge_seed recipient asset evm amount ord =
     upsert aes_key merge_bridge_seed (bridge_seed recipient asset evm amount ord)"

definition merge_propagated :: "address_evm_source \<Rightarrow> address_evm_source \<Rightarrow> address_evm_source" where
  "merge_propagated old n =
     old\<lparr>aes_transfer_fund := aes_transfer_fund old + aes_transfer_fund n,
         aes_first_seen_ord := i64_least (aes_first_seen_ord old) (aes_first_seen_ord n),
         aes_last_seen_ord := i64_greatest (aes_last_seen_ord old) (aes_last_seen_ord n),
         aes_hops_min := min (aes_hops_min old) (aes_hops_min n)\<rparr>"

definition sources_of :: "string \<Rightarrow> string \<Rightarrow> address_evm_source list \<Rightarrow> address_evm_source list" where
  "sources_of addr asset = filter (\<lambda>r. aes_movement_address r = addr \<and> aes_asset_type r = asset)"

definition total_fund :: "address_evm_source list \<Rightarrow> decimal" where
  "total_fund src = sum_list (map aes_evm_fund src)"

definition propagated_row ::
  "(rat \<Rightarrow> rat \<Rightarrow> rat) \<Rightarrow> decimal \<Rightarrow> string \<Rightarrow> string \<Rightarrow> decimal \<Rightarrow> i64 \<Rightarrow> address_evm_source \<Rightarrow> address_evm_source"
where
  "propagated_row numeric_div t to_addr asset amount ord s =
     \<lparr>aes_movement_address = to_addr, aes_asset_type = asset,
      aes_evm_address = aes_evm_address s, aes_evm_fund = 0,
      aes_transfer_fund = numeric_round 9 (numeric_div amount t * aes_evm_fund s *
        numeric_div 1 (of_int (aes_hops_min s + 1))),
      aes_first_seen_ord = ord, aes_last_seen_ord = ord, aes_hops_min = aes_hops_min s + 1\<rparr>"

definition propagate_evm_sources ::
  "(rat \<Rightarrow> rat \<Rightarrow> rat) \<Rightarrow> string \<Rightarrow> string \<Rightarrow> string \<Rightarrow> decimal \<Rightarrow> i64 \<Rightarrow>
   address_evm_source list \<Rightarrow> address_evm_source list result"
where
  "propagate_evm_sources numeric_div from_addr to_addr asset amount ord sources =
     (let src = sources_of from_addr asset sources; t = total_fund src in
      if \<not> (src \<noteq> [] \<and> 0 < t) then Inr sources
      else if list_ex (\<lambda>s. 2 ^ 31 \<le> aes_hops_min s + 1) src
      then Inl (DBStoreError ''Failed to propagate evm sources'')
      else Inr (fold (upsert aes_key merge_propagated)
                  (map (propagated_row numeric_div t to_addr asset amount ord) src) sources))"

section \<open>The batch\<close>

datatype storer_call = StorerConn | InsertEdges | InsertInflows | Rollup nat | Commit | SendGuid nat

definition edge_evm_source :: "bridge_inflow list \<Rightarrow> transfer_edge \<Rightarrow> string option" where
  "edge_evm_source inflows edge =
     opt_and_then
       (find (\<lambda>bi. bi_transaction_version bi = te_transaction_version edge \<and>
                   bi_aptos_recipient bi = te_to_address edge \<and>
                   bi_amount bi = te_amount edge) inflows)
       bi_evm_source"

definition rollup_edge ::
  "(rat \<Rightarrow> rat \<Rightarrow> rat) \<Rightarrow> (storer_call \<Rightarrow> bool) \<Rightarrow> bridge_inflow list \<Rightarrow> nat \<times> transfer_edge \<Rightarrow>
   address_evm_source list \<Rightarrow> address_evm_source list result"
where
  "rollup_edge numeric_div faults inflows ie sources =
     (let edge = snd ie in
      case te_asset_type edge of
        None \<Rightarrow> Inr sources
      | Some asset \<Rightarrow>
          (let ord = seen_ord (te_transaction_version edge) (te_event_index edge) in
           if te_is_bridge_inflow edge then
             (case edge_evm_source inflows edge of
                None \<Rightarrow> Inr sources
              | Some evm \<Rightarrow>
                  if faults (Rollup (fst ie))
                  then Inl (DBStoreError ''Failed to upsert bridge evm seed'')
                  else Inr (upsert_bridge_seed (te_to_address edge) asset evm (te_amount edge) ord sources))
           else if faults (Rollup (fst ie))
           then Inl (DBStoreError ''Failed to propagate evm sources'')
           else propagate_evm_sources numeric_div (te_from_address edge) (te_to_address edge)
                  asset (te_amount edge) ord sources))"

definition batch_transaction ::
  "(rat \<Rightarrow> rat \<Rightarrow> rat) \<Rightarrow> address_reputation_config \<Rightarrow> (storer_call \<Rightarrow> bool) \<Rightarrow>
   transfer_edge list \<Rightarrow> bridge_inflow list \<Rightarrow> reputation_db \<Rightarrow> reputation_db result"
where
  "batch_transaction numeric_div config faults edges inflows db =
     (if edges \<noteq> [] \<and> faults InsertEdges
      then Inl (DBStoreError ''Failed to insert transfer edges'')
      else if inflows \<noteq> [] \<and> faults InsertInflows
      then Inl (DBStoreError ''Failed to insert bridge inflows'')
      else
        let db1 = db\<lparr>rd_edges := fold (insert_ignore te_key) edges (rd_edges db),
                     rd_inflows := fold (insert_ignore bi_key) inflows (rd_inflows db)\<rparr>
        in if \<not> rc_propagate_evm_sources config then Inr db1
           else case fold_result (rollup_edge numeric_div faults inflows)
                       (enumerate 0 edges) (rd_sources db1) of
                  Inl e \<Rightarrow> Inl e
                | Inr sources \<Rightarrow> Inr (db1\<lparr>rd_sources := sources\<rparr>))"

definition sort_edges :: "transfer_edge list \<Rightarrow> transfer_edge list" where
  "sort_edges = sort_key (\<lambda>e. (sint (te_transaction_version e), sint (te_event_index e)))"

definition forwarded_guids :: "(storer_call \<Rightarrow> bool) \<Rightarrow> bridge_inflow list \<Rightarrow> string list" where
  "forwarded_guids faults inflows =
     map snd (filter (\<lambda>(i, g). \<not> faults (SendGuid i))
       (enumerate 0 (List.map_filter bi_lz_guid inflows)))"

definition storer_process ::
  "(rat \<Rightarrow> rat \<Rightarrow> rat) \<Rightarrow> address_reputation_config \<Rightarrow> (storer_call \<Rightarrow> bool) \<Rightarrow>
   transfer_edge list \<times> bridge_inflow list \<Rightarrow> txn_metadata \<Rightarrow> reputation_db \<Rightarrow>
   txn_metadata result \<times> string list \<times> reputation_db"
where
  "storer_process numeric_div config faults input metadata db =
     (let edges = sort_edges (fst input); inflows = snd input in
      if faults StorerConn then (Inl (DBStoreError ''Failed to get conn''), [], db)
      else case batch_transaction numeric_div config faults edges inflows db of
             Inl e \<Rightarrow> (Inl (DBStoreError ''address_reputation batch txn failed''), [], db)
           | Inr db' \<Rightarrow>
               if faults Commit
               then (Inl (DBStoreError ''address_reputation batch txn failed''), [], db)
               else (Inr metadata, forwarded_guids faults inflows, db'))"

section \<open>The rollup invariant\<close>

text \<open>
  A row of the rollup: funds are never negative, a directly bridged source is at hop 0, a row two
  or more hops away carries no funds, and the first sighting is not after the last.
\<close>

definition aes_row_ok :: "address_evm_source \<Rightarrow> bool" where
  "aes_row_ok r \<longleftrightarrow> 0 \<le> aes_evm_fund r \<and> 0 \<le> aes_transfer_fund r \<and> 0 \<le> aes_hops_min r \<and>
     (aes_evm_fund r \<noteq> 0 \<longrightarrow> aes_hops_min r = 0) \<and>
     (2 \<le> aes_hops_min r \<longrightarrow> aes_transfer_fund r = 0) \<and>
     sint (aes_first_seen_ord r) \<le> sint (aes_last_seen_ord r)"

definition sources_ok :: "address_evm_source list \<Rightarrow> bool" where
  "sources_ok rows \<longleftrightarrow> unique_keys aes_key rows \<and> list_all aes_row_ok rows"

definition numeric_div_nonneg :: "(rat \<Rightarrow> rat \<Rightarrow> rat) \<Rightarrow> bool" where
  "numeric_div_nonneg d \<longleftrightarrow> (\<forall>a b. 0 \<le> a \<longrightarrow> 0 < b \<longrightarrow> 0 \<le> d a b)"

text \<open>What a later version of a row may change: funds grow, the hop distance shrinks.\<close>

definition aes_grows :: "address_evm_source \<Rightarrow> address_evm_source \<Rightarrow> bool" where
  "aes_grows old new \<longleftrightarrow> aes_key new = aes_key old \<and>
     aes_evm_fund old \<le> aes_evm_fund new \<and> aes_transfer_fund old \<le> aes_transfer_fund new \<and>
     aes_hops_min new \<le> aes_hops_min old \<and>
     sint (aes_first_seen_ord new) \<le> sint (aes_first_seen_ord old) \<and>
     sint (aes_last_seen_ord old) \<le> sint (aes_last_seen_ord new)"

definition sources_grow :: "address_evm_source list \<Rightarrow> address_evm_source list \<Rightarrow> bool" where
  "sources_grow rows rows' \<longleftrightarrow> (\<forall>r \<in> set rows. \<exists>r' \<in> set rows'. aes_grows r r')"

definition seeded_amount :: "bridge_inflow list \<Rightarrow> transfer_edge \<Rightarrow> decimal" where
  "seeded_amount inflows e =
     (if te_asset_type e \<noteq> None \<and> te_is_bridge_inflow e \<and> edge_evm_source inflows e \<noteq> None
      then te_amount e else 0)"



section \<open>Lemmas\<close>

interpretation seed: keyed_upsert aes_key merge_bridge_seed
  by unfold_locales (simp add: aes_key_def merge_bridge_seed_def)

interpretation propag: keyed_upsert aes_key merge_propagated
  by unfold_locales (simp add: aes_key_def merge_propagated_def)

lemma sint_i64_least [simp]: "sint (i64_least a b) = min (sint a) (sint b)"
  by (simp add: i64_least_def min_def)

lemma sint_i64_greatest [simp]: "sint (i64_greatest a b) = max (sint a) (sint b)"
  by (simp add: i64_greatest_def max_def)

lemma numeric_round_0 [simp]: "numeric_round n 0 = 0"
  by (simp add: numeric_round_def floor_eq_iff)

lemma numeric_round_nonneg: "0 \<le> x \<Longrightarrow> 0 \<le> numeric_round n x"
  by (simp add: numeric_round_def)


lemma total_fund_nonneg: "list_all aes_row_ok src \<Longrightarrow> 0 \<le> total_fund src"
  unfolding total_fund_def by (induction src) (auto simp: aes_row_ok_def)

lemma bridge_seed_ok: "0 \<le> amount \<Longrightarrow> aes_row_ok (bridge_seed to asset evm amount ord)"
  by (simp add: bridge_seed_def aes_row_ok_def)

lemma merge_bridge_seed_ok:
  "aes_row_ok r \<Longrightarrow> aes_row_ok n \<Longrightarrow> aes_row_ok (merge_bridge_seed r n)"
  by (auto simp: aes_row_ok_def merge_bridge_seed_def)

lemma merge_propagated_ok:
  "aes_row_ok r \<Longrightarrow> aes_row_ok n \<Longrightarrow> aes_row_ok (merge_propagated r n)"
  by (auto simp: aes_row_ok_def merge_propagated_def min_def max_def)

lemma propagated_row_ok:
  assumes "numeric_div_nonneg d" "0 \<le> amount" "0 < t" "aes_row_ok s"
  shows "aes_row_ok (propagated_row d t to asset amount ord s)"
proof -
  from assms have "0 \<le> d amount t" "0 \<le> d 1 (of_int (aes_hops_min s + 1))" "0 \<le> aes_evm_fund s"
    by (auto simp: numeric_div_nonneg_def aes_row_ok_def)
  then have "0 \<le> numeric_round 9 (d amount t * aes_evm_fund s * d 1 (of_int (aes_hops_min s + 1)))"
    by (intro numeric_round_nonneg mult_nonneg_nonneg)
  with assms(4) show ?thesis by (auto simp: propagated_row_def aes_row_ok_def)
qed

lemma upsert_bridge_seed_ok [wf_intros]:
  assumes "0 \<le> amount" and "sources_ok rows"
  shows "sources_ok (upsert_bridge_seed to asset evm amount ord rows)"
proof -
  let ?n = "bridge_seed to asset evm amount ord"
  have "\<forall>r \<in> set (upsert aes_key merge_bridge_seed ?n rows). aes_row_ok r"
    by (rule seed.all_upsert)
      (use assms bridge_seed_ok merge_bridge_seed_ok in \<open>auto simp: sources_ok_def list_all_iff\<close>)
  with assms show ?thesis
    by (simp add: sources_ok_def list_all_iff upsert_bridge_seed_def seed.unique_upsert)
qed

lemma fold_propagated_ok:
  assumes "sources_ok rows" "\<forall>n \<in> set ns. aes_row_ok n"
  shows "sources_ok (fold (upsert aes_key merge_propagated) ns rows)"
  using assms
proof (induction ns arbitrary: rows)
  case (Cons n ns)
  have "\<forall>r \<in> set (upsert aes_key merge_propagated n rows). aes_row_ok r"
    by (rule propag.all_upsert)
      (use Cons.prems merge_propagated_ok in \<open>auto simp: sources_ok_def list_all_iff\<close>)
  then have "sources_ok (upsert aes_key merge_propagated n rows)"
    using Cons.prems by (simp add: sources_ok_def list_all_iff propag.unique_upsert)
  with Cons show ?case by simp
qed simp

lemma sources_of_ok: "sources_ok rows \<Longrightarrow> list_all aes_row_ok (sources_of a asset rows)"
  by (auto simp: sources_ok_def sources_of_def list_all_iff)

lemma propagate_ok [wf_intros]:
  assumes "numeric_div_nonneg d" "0 \<le> amount" "sources_ok rows"
    and "propagate_evm_sources d a b asset amount ord rows = Inr rows'"
  shows "sources_ok rows'"
  using assms sources_of_ok [OF assms(3)]
  by (auto simp: propagate_evm_sources_def Let_def list_all_iff split: if_splits
      intro!: fold_propagated_ok propagated_row_ok)

lemma rollup_edge_ok:
  assumes "numeric_div_nonneg d" "0 \<le> te_amount (snd ie)" "sources_ok rows"
    and "rollup_edge d faults inflows ie rows = Inr rows'"
  shows "sources_ok rows'"
  using assms
  by (auto simp: rollup_edge_def Let_def split: option.splits if_splits
      intro: upsert_bridge_seed_ok propagate_ok)

lemma aes_grows_refl [simp]: "aes_grows r r"
  by (simp add: aes_grows_def)

lemma aes_grows_trans: "aes_grows a b \<Longrightarrow> aes_grows b c \<Longrightarrow> aes_grows a c"
  by (auto simp: aes_grows_def)

lemma sources_grow_refl [simp]: "sources_grow rows rows"
  unfolding sources_grow_def using aes_grows_refl by blast

lemma sources_grow_trans: "sources_grow a b \<Longrightarrow> sources_grow b c \<Longrightarrow> sources_grow a c"
  unfolding sources_grow_def by (meson aes_grows_trans)

lemma upsert_grow:
  "(\<And>r. r \<in> set rows \<Longrightarrow> aes_key r = aes_key n \<Longrightarrow> aes_grows r (m r n)) \<Longrightarrow>
     sources_grow rows (upsert aes_key m n rows)"
proof (induction rows)
  case (Cons a rows)
  then have "sources_grow rows (upsert aes_key m n rows)" by simp
  moreover have "aes_key a = aes_key n \<Longrightarrow> aes_grows a (m a n)" using Cons.prems by simp
  ultimately show ?case
    unfolding sources_grow_def by auto (use aes_grows_refl in blast)
qed (simp add: sources_grow_def)

lemma merge_bridge_seed_grows:
  "aes_row_ok r \<Longrightarrow> 0 \<le> aes_evm_fund n \<Longrightarrow> aes_grows r (merge_bridge_seed r n)"
  by (auto simp: aes_grows_def merge_bridge_seed_def aes_key_def aes_row_ok_def)

lemma merge_propagated_grows:
  "0 \<le> aes_transfer_fund n \<Longrightarrow> aes_grows r (merge_propagated r n)"
  by (auto simp: aes_grows_def merge_propagated_def aes_key_def)

lemma fold_propagated_grow:
  assumes "\<forall>n \<in> set ns. aes_row_ok n"
  shows "sources_grow rows (fold (upsert aes_key merge_propagated) ns rows)"
  using assms
proof (induction ns arbitrary: rows)
  case (Cons n ns)
  have "sources_grow rows (upsert aes_key merge_propagated n rows)"
    using Cons.prems by (intro upsert_grow merge_propagated_grows) (auto simp: aes_row_ok_def)
  with Cons show ?case by (auto intro: sources_grow_trans)
qed simp

lemma propagate_grow:
  assumes "numeric_div_nonneg d" "0 \<le> amount" "sources_ok rows"
    and "propagate_evm_sources d a b asset amount ord rows = Inr rows'"
  shows "sources_grow rows rows'"
  using assms sources_of_ok [OF assms(3)]
  by (auto simp: propagate_evm_sources_def Let_def list_all_iff split: if_splits
      intro!: fold_propagated_grow propagated_row_ok)

lemma upsert_bridge_seed_grow:
  "0 \<le> amount \<Longrightarrow> sources_ok rows \<Longrightarrow> sources_grow rows (upsert_bridge_seed to asset evm amount ord rows)"
  unfolding upsert_bridge_seed_def
  by (rule upsert_grow, rule merge_bridge_seed_grows)
    (auto simp: sources_ok_def list_all_iff bridge_seed_def)

lemma rollup_edge_grow:
  assumes "numeric_div_nonneg d" "0 \<le> te_amount (snd ie)" "sources_ok rows"
    and "rollup_edge d faults inflows ie rows = Inr rows'"
  shows "sources_grow rows rows'"
  using assms
  by (auto simp: rollup_edge_def Let_def split: option.splits if_splits
      intro: upsert_bridge_seed_grow propagate_grow)

lemma rollup_inv:
  assumes d: "numeric_div_nonneg d" and amounts: "\<forall>ie \<in> set es. 0 \<le> te_amount (snd ie)"
    and rows: "sources_ok rows"
    and run: "fold_result (rollup_edge d faults inflows) es rows = Inr rows'"
  shows "sources_ok rows' \<and> sources_grow rows rows'"
proof (rule fold_result_inv [where P = "\<lambda>rs. sources_ok rs \<and> sources_grow rows rs", OF _ run])
  fix ie s t
  assume "ie \<in> set es" "sources_ok s \<and> sources_grow rows s" "rollup_edge d faults inflows ie s = Inr t"
  then show "sources_ok t \<and> sources_grow rows t"
    using rollup_edge_ok [OF d, of ie s faults inflows t] rollup_edge_grow [OF d, of ie s faults inflows t] amounts
    by (auto intro: sources_grow_trans)
qed (use rows in simp)

lemma total_fund_seed:
  "total_fund (upsert_bridge_seed to asset evm amount ord rows) = total_fund rows + amount"
  unfolding total_fund_def upsert_bridge_seed_def
  by (subst seed.sum_upsert) (auto simp: merge_bridge_seed_def bridge_seed_def)

lemma total_fund_propagate:
  assumes "propagate_evm_sources d a b asset amount ord rows = Inr rows'"
  shows "total_fund rows' = total_fund rows"
proof -
  have zero: "sum_list (map aes_evm_fund (map (propagated_row d t b asset amount ord) src)) = 0" for t src
    by (induction src) (auto simp: propagated_row_def)
  have "total_fund (fold (upsert aes_key merge_propagated) (map (propagated_row d t b asset amount ord) src) rows)
      = total_fund rows" for t src
    unfolding total_fund_def
    by (subst propag.sum_fold_upsert) (use zero in \<open>auto simp: merge_propagated_def propagated_row_def\<close>)
  with assms show ?thesis
    by (auto simp: propagate_evm_sources_def Let_def split: if_splits)
qed

lemma total_fund_rollup_edge:
  "rollup_edge d faults inflows ie rows = Inr rows' \<Longrightarrow>
     total_fund rows' = total_fund rows + seeded_amount inflows (snd ie)"
  by (auto simp: rollup_edge_def Let_def seeded_amount_def total_fund_seed total_fund_propagate
      split: option.splits if_splits)

lemma total_fund_rollup:
  "fold_result (rollup_edge d faults inflows) es rows = Inr rows' \<Longrightarrow>
     total_fund rows' = total_fund rows + sum_list (map (seeded_amount inflows \<circ> snd) es)"
  by (induction es arbitrary: rows)
    (auto split: sum.splits simp: total_fund_rollup_edge ac_simps)

lemma sum_list_sort_edges: "sum_list (map f (sort_edges es)) = sum_list (map f es)"
  for f :: "transfer_edge \<Rightarrow> rat"
proof -
  have "sum_mset (mset (map f (sort_edges es))) = sum_mset (mset (map f es))"
    by (simp only: mset_map sort_edges_def mset_sort)
  then show ?thesis by (simp only: sum_mset_sum_list)
qed

lemma storer_process_InrD:
  assumes "storer_process d cfg faults (edges, inflows) meta db = (Inr m, guids, db')"
  obtains "m = meta" "guids = forwarded_guids faults inflows"
    "batch_transaction d cfg faults (sort_edges edges) inflows db = Inr db'"
  using assms
  by (auto simp: storer_process_def Let_def split: if_splits sum.splits)

lemma batch_sources:
  assumes "batch_transaction d cfg faults edges inflows db = Inr db'"
  shows "rd_sources db' = rd_sources db \<and> \<not> rc_propagate_evm_sources cfg \<or>
    rc_propagate_evm_sources cfg \<and>
    fold_result (rollup_edge d faults inflows) (enumerate 0 edges) (rd_sources db) = Inr (rd_sources db')"
  using assms by (auto simp: batch_transaction_def Let_def split: if_splits sum.splits)

lemma batch_tables:
  assumes "batch_transaction d cfg faults edges inflows db = Inr db'"
  shows "rd_edges db' = fold (insert_ignore te_key) edges (rd_edges db)"
    "rd_inflows db' = fold (insert_ignore bi_key) inflows (rd_inflows db)"
    "rd_scores db' = rd_scores db"
  using assms by (auto simp: batch_transaction_def Let_def split: if_splits sum.splits)

lemma storer_process_cases:
  "storer_process d cfg faults (edges, inflows) meta db = (r, guids, db') \<Longrightarrow>
     (\<exists>e. r = Inl e) \<and> guids = [] \<and> db' = db \<or>
     r = Inr meta \<and> guids = forwarded_guids faults inflows \<and>
       batch_transaction d cfg faults (sort_edges edges) inflows db = Inr db'"
  by (auto simp: storer_process_def Let_def split: if_splits sum.splits)

lemma set_sort_edges [simp]: "set (sort_edges es) = set es"
  by (simp add: sort_edges_def)

lemma snd_enumerate_mem: "ie \<in> set (enumerate n xs) \<Longrightarrow> snd ie \<in> set xs"
  by (metis enumerate_eq_zip set_zip_rightD surjective_pairing)

lemma uint_seen_ord:
  assumes "uint v < 2 ^ 39" and "uint i < 2 ^ 24"
  shows "uint (seen_ord v i) = uint v * 2 ^ 24 + uint i"
proof -
  have low: "take_bit 24 (uint i) = uint i" using assms(2) by (simp add: take_bit_int_eq_self)
  have mask: "(0x00FFFFFF :: i64) = mask 24" by (simp add: mask_eq_exp_minus_1)
  have bits: "\<not> bit (push_bit 24 (uint v)) n \<or> \<not> bit (take_bit 24 (uint i)) n" for n
    by (auto simp: bit_push_bit_iff bit_take_bit_iff)
  have "uint v * 2 ^ 24 < 2 ^ 64" using assms(1) by simp
  then have high: "uint (push_bit 24 v) = push_bit 24 (uint v)"
    by (simp only: unsigned_push_bit_eq, subst take_bit_int_eq_self) (simp_all add: push_bit_eq_mult)
  have "uint (seen_ord v i) = Bit_Operations.or (push_bit 24 (uint v)) (take_bit 24 (uint i))"
    by (simp only: seen_ord_def unsigned_or_eq mask high unsigned_take_bit_eq flip: take_bit_eq_mask)
  also have "\<dots> = push_bit 24 (uint v) + take_bit 24 (uint i)"
    using disjunctive_add [OF bits] by simp
  finally show ?thesis by (simp add: low push_bit_eq_mult)
qed

lemma sint_seen_ord:
  assumes "uint v < 2 ^ 39" and "uint i < 2 ^ 24"
  shows "sint (seen_ord v i) = uint v * 2 ^ 24 + uint i"
  using assms sint_eq_uint_small [of "seen_ord v i"] by (simp add: uint_seen_ord)

lemma lex_pack:
  fixes v i v' i' :: int
  assumes "0 \<le> i" "i < 2 ^ 24" "0 \<le> i'" "i' < 2 ^ 24"
  shows "v * 2 ^ 24 + i < v' * 2 ^ 24 + i' \<longleftrightarrow> (v, i) < (v', i')"
  using assms by (cases "v < v'"; cases "v = v'") auto






lemma funded_alt:
  "total_fund (sources_of addr asset rows) =
     sum_list (map (\<lambda>r. if aes_movement_address r = addr \<and> aes_asset_type r = asset
       then aes_evm_fund r else 0) rows)"
  unfolding total_fund_def sources_of_def by (induction rows) auto

lemma funded_propagate:
  assumes "propagate_evm_sources d a b asset amount ord rows = Inr rows'"
  shows "total_fund (sources_of addr asset' rows') = total_fund (sources_of addr asset' rows)"
proof -
  have zero: "sum_list (map (\<lambda>r. if aes_movement_address r = addr \<and> aes_asset_type r = asset'
      then aes_evm_fund r else 0) (map (propagated_row d t b asset amount ord) src)) = 0" for t src
    by (induction src) (auto simp: propagated_row_def)
  have "total_fund (sources_of addr asset' (fold (upsert aes_key merge_propagated)
      (map (propagated_row d t b asset amount ord) src) rows)) = total_fund (sources_of addr asset' rows)" for t src
    unfolding funded_alt
    by (subst propag.sum_fold_upsert)
      (use zero in \<open>auto simp: merge_propagated_def propagated_row_def aes_key_def\<close>)
  with assms show ?thesis by (auto simp: propagate_evm_sources_def Let_def split: if_splits)
qed

lemma propagate_unfunded:
  "total_fund (sources_of b asset rows) \<le> 0 \<Longrightarrow>
     propagate_evm_sources d b c asset amount ord rows = Inr rows"
  by (simp add: propagate_evm_sources_def Let_def)


lemma mem_forwarded: "g \<in> set (forwarded_guids faults inflows) \<Longrightarrow> \<exists>bi \<in> set inflows. bi_lz_guid bi = Some g"
  by (force simp: forwarded_guids_def List.map_filter_def dest: snd_enumerate_mem)

section \<open>Sample batches\<close>

definition sample_edge :: "i64 \<Rightarrow> i64 \<Rightarrow> string \<Rightarrow> string \<Rightarrow> decimal \<Rightarrow> bool \<Rightarrow> transfer_edge" where
  "sample_edge v i a b amount bridge =
     \<lparr>te_transaction_version = v, te_event_index = i, te_from_address = a, te_to_address = b,
      te_asset_type = Some ''usdc'', te_amount = amount, te_is_bridge_inflow = bridge,
      te_bridge_name = None, te_transaction_timestamp = 0\<rparr>"

definition sample_inflow :: "i64 \<Rightarrow> i64 \<Rightarrow> string \<Rightarrow> decimal \<Rightarrow> string option \<Rightarrow> string option \<Rightarrow> bridge_inflow" where
  "sample_inflow v i b amount evm guid =
     \<lparr>bi_transaction_version = v, bi_event_index = i, bi_bridge_name = ''circle'',
      bi_aptos_recipient = b, bi_evm_source = evm, bi_src_chain_id = None,
      bi_asset_type = Some ''usdc'', bi_amount = amount, bi_lz_guid = guid,
      bi_transaction_timestamp = 0\<rparr>"

definition empty_reputation_db :: reputation_db where
  "empty_reputation_db = \<lparr>rd_edges = [], rd_inflows = [], rd_sources = [], rd_scores = []\<rparr>"

definition sample_batch :: "transfer_edge list \<times> bridge_inflow list" where
  "sample_batch =
     ([sample_edge 7 3 ''a'' ''b'' 10 False, sample_edge 7 1 ''bridge'' ''a'' 40 True],
      [sample_inflow 7 1 ''a'' 40 (Some ''0xe'') (Some ''0x1'')])"

definition sample_stored :: reputation_db where
  "sample_stored = snd (snd (storer_process (/) default_address_reputation_config (\<lambda>_. False)
     sample_batch default_txn_metadata empty_reputation_db))"

lemma sample_source_facts:
  "storer_process (/) default_address_reputation_config (\<lambda>_. False) sample_batch
     default_txn_metadata empty_reputation_db =
   (Inr default_txn_metadata, [''0x1''], sample_stored)"
  by code_simp

lemma sample_rollup:
  "map (\<lambda>r. (aes_movement_address r, aes_evm_fund r, aes_transfer_fund r, aes_hops_min r))
     (rd_sources sample_stored) = [(''a'', 40, 0, 0), (''b'', 0, 10, 1)]"
  by code_simp

lemma exact_div_nonneg: "numeric_div_nonneg (/)"
  by (simp add: numeric_div_nonneg_def)


section \<open>Properties\<close>

text \<open>
  Claim C1: Whatever batch of non-negative transfers is stored, and whichever statement fails, the
  rollup keeps its invariant (one row per address, asset and EVM source; funds never negative;
  directly bridged sources at hop 0; nothing but empty rows beyond hop 1; first sighting not
  after the last), and no row is lost or shrinks: its funds only grow, its hop distance only
  falls and its sighting interval only widens.
\<close>

theorem storer_keeps_rollup_invariant:
  assumes "numeric_div_nonneg d" and "\<forall>e \<in> set edges. 0 \<le> te_amount e"
    and "sources_ok (rd_sources db)"
    and "storer_process d cfg faults (edges, inflows) meta db = (r, guids, db')"
  shows "sources_ok (rd_sources db') \<and> sources_grow (rd_sources db) (rd_sources db')"
proof -
  have amounts: "\<forall>ie \<in> set (enumerate 0 (sort_edges edges)). 0 \<le> te_amount (snd ie)"
    using assms(2) by (auto dest: snd_enumerate_mem)
  show ?thesis
    using storer_process_cases [OF assms(4)] assms(3)
      batch_sources [of d cfg faults "sort_edges edges" inflows db db'] rollup_inv [OF assms(1) amounts assms(3)]
    by auto
qed

theorem storer_keeps_rollup_invariant_witness:
  "sources_ok (rd_sources sample_stored)"
  using storer_keeps_rollup_invariant [of "(/)" "fst sample_batch" empty_reputation_db
      default_address_reputation_config "\<lambda>_. False" "snd sample_batch" default_txn_metadata
      "Inr default_txn_metadata" "[''0x1'']" sample_stored] exact_div_nonneg sample_source_facts
  by (simp add: sources_ok_def empty_reputation_db_def unique_keys_def)
    (simp add: sample_batch_def sample_edge_def)



text \<open>
  Attributed funds travel one hop only.  When B holds no directly bridged funds of the
  asset, whatever A transfers to B, a following transfer from B to C changes nothing: the shares
  are weighted by the sender's direct funds alone, and B's are zero.
\<close>

theorem funds_stop_after_one_hop:
  assumes "total_fund (sources_of b asset rows) = 0"
    and "propagate_evm_sources d a b asset x ord rows = Inr rows1"
  shows "propagate_evm_sources d b c asset y ord' rows1 = Inr rows1"
  using assms funded_propagate [OF assms(2), of b asset] by (intro propagate_unfunded) simp

theorem funds_stop_after_one_hop_witness:
  "propagate_evm_sources (/) ''b'' ''c'' ''usdc'' 10 9 (rd_sources sample_stored) =
     Inr (rd_sources sample_stored)"
proof -
  have "propagate_evm_sources (/) ''a'' ''b'' ''usdc'' 10 (seen_ord 7 3)
      [bridge_seed ''a'' ''usdc'' ''0xe'' 40 (seen_ord 7 1)] = Inr (rd_sources sample_stored)"
    by code_simp
  from funds_stop_after_one_hop [OF _ this] show ?thesis
    by (simp add: total_fund_def sources_of_def bridge_seed_def)
qed

text \<open>
  Claim C2: Accounting of direct funds.  A stored batch adds to the total of \<open>evm_fund\<close> exactly
  the amounts of its bridge edges that have an asset and whose inflow names an EVM source;
  ordinary transfers, however many, add nothing to it.
\<close>

theorem direct_fund_accounting:
  assumes "rc_propagate_evm_sources cfg"
    and "storer_process d cfg faults (edges, inflows) meta db = (Inr m, guids, db')"
  shows "total_fund (rd_sources db') =
    total_fund (rd_sources db) + sum_list (map (seeded_amount inflows) edges)"
proof -
  from assms(2) have "batch_transaction d cfg faults (sort_edges edges) inflows db = Inr db'"
    by (rule storer_process_InrD)
  with assms(1) have "fold_result (rollup_edge d faults inflows) (enumerate 0 (sort_edges edges))
      (rd_sources db) = Inr (rd_sources db')"
    using batch_sources by blast
  from total_fund_rollup [OF this] show ?thesis
    by (simp add: sum_list_sort_edges flip: map_map)
qed

theorem direct_fund_accounting_witness:
  "total_fund (rd_sources sample_stored) = 40"
  using direct_fund_accounting [of default_address_reputation_config "(/)" "\<lambda>_. False"
      "fst sample_batch" "snd sample_batch" default_txn_metadata empty_reputation_db
      default_txn_metadata "[''0x1'']" sample_stored] sample_source_facts
  by (simp add: default_address_reputation_config_def)
    (simp add: sample_batch_def sample_edge_def sample_inflow_def seeded_amount_def
      edge_evm_source_def opt_and_then_def empty_reputation_db_def total_fund_def)

text \<open>
  Storing the same batch a second time leaves both event tables as they were, but the
  rollup is applied again: the direct funds of the batch are counted twice.
\<close>

theorem reprocessing_counts_funds_twice:
  assumes "rc_propagate_evm_sources cfg"
    and "storer_process d cfg faults (edges, inflows) meta db = (Inr m, guids, db1)"
    and "storer_process d cfg faults' (edges, inflows) meta db1 = (Inr m', guids', db2)"
  shows "rd_edges db2 = rd_edges db1 \<and> rd_inflows db2 = rd_inflows db1 \<and>
    total_fund (rd_sources db2) =
      total_fund (rd_sources db) + 2 * sum_list (map (seeded_amount inflows) edges)"
proof -
  have b1: "batch_transaction d cfg faults (sort_edges edges) inflows db = Inr db1"
    and b2: "batch_transaction d cfg faults' (sort_edges edges) inflows db1 = Inr db2"
    using storer_process_InrD [OF assms(2)] storer_process_InrD [OF assms(3)] by blast+
  have "rd_edges db2 = rd_edges db1" "rd_inflows db2 = rd_inflows db1"
    unfolding batch_tables [OF b2]
    by (rule fold_insert_ignore_present,
        auto simp: batch_tables [OF b1] keys_fold_insert_ignore)+
  moreover have "total_fund (rd_sources db1) = total_fund (rd_sources db) + sum_list (map (seeded_amount inflows) edges)"
    "total_fund (rd_sources db2) = total_fund (rd_sources db1) + sum_list (map (seeded_amount inflows) edges)"
    using batch_sources [OF b1] batch_sources [OF b2] assms(1)
    by (auto dest!: total_fund_rollup simp: sum_list_sort_edges simp flip: map_map)
  ultimately show ?thesis by simp
qed

theorem reprocessing_counts_funds_twice_witness:
  "total_fund (rd_sources (snd (snd (storer_process (/) default_address_reputation_config
     (\<lambda>_. False) sample_batch default_txn_metadata sample_stored)))) = 80"
proof -
  define db2 where "db2 = snd (snd (storer_process (/) default_address_reputation_config
     (\<lambda>_. False) sample_batch default_txn_metadata sample_stored))"
  have run: "storer_process (/) default_address_reputation_config (\<lambda>_. False)
      (fst sample_batch, snd sample_batch) default_txn_metadata sample_stored =
      (Inr default_txn_metadata, [''0x1''], db2)"
    unfolding db2_def by code_simp
  have "sum_list (map (seeded_amount (snd sample_batch)) (fst sample_batch)) = 40"
    by (simp add: sample_batch_def sample_edge_def sample_inflow_def seeded_amount_def
        edge_evm_source_def opt_and_then_def)
  moreover have "storer_process (/) default_address_reputation_config (\<lambda>_. False)
      (fst sample_batch, snd sample_batch) default_txn_metadata empty_reputation_db =
      (Inr default_txn_metadata, [''0x1''], sample_stored)"
    using sample_source_facts by simp
  moreover have "rc_propagate_evm_sources default_address_reputation_config"
    by (simp add: default_address_reputation_config_def)
  ultimately have "total_fund (rd_sources db2) = total_fund (rd_sources empty_reputation_db) + 2 * 40"
    using reprocessing_counts_funds_twice [OF _ _ run] by metis
  then show ?thesis unfolding db2_def by (simp add: empty_reputation_db_def total_fund_def)
qed

text \<open>
  Claim C4: A batch is stored whole or not at all.  On failure nothing has changed and no
  LayerZero GUID has been forwarded; on success every edge and every inflow of the batch has its
  row, no row was dropped, and every GUID that was forwarded belongs to an inflow whose row is
  committed.
\<close>

theorem batch_all_or_nothing:
  assumes "storer_process d cfg faults (edges, inflows) meta db = (r, guids, db')"
  shows "(\<exists>e. r = Inl e) \<and> guids = [] \<and> db' = db \<or>
    r = Inr meta \<and> rd_scores db' = rd_scores db \<and>
    te_key ` set (rd_edges db') = te_key ` set (rd_edges db) \<union> te_key ` set edges \<and>
    bi_key ` set (rd_inflows db') = bi_key ` set (rd_inflows db) \<union> bi_key ` set inflows \<and>
    (\<forall>g \<in> set guids. \<exists>bi \<in> set inflows. bi_lz_guid bi = Some g \<and> bi_key bi \<in> bi_key ` set (rd_inflows db'))"
proof -
  have "te_key ` set (rd_edges db') = te_key ` set (rd_edges db) \<union> te_key ` set edges"
    "bi_key ` set (rd_inflows db') = bi_key ` set (rd_inflows db) \<union> bi_key ` set inflows"
    "rd_scores db' = rd_scores db"
    if "batch_transaction d cfg faults (sort_edges edges) inflows db = Inr db'"
    unfolding batch_tables [OF that] keys_fold_insert_ignore by simp_all
  moreover have "\<exists>bi \<in> set inflows. bi_lz_guid bi = Some g \<and> bi_key bi \<in> K \<union> bi_key ` set inflows"
    if "g \<in> set (forwarded_guids faults inflows)" for g K
    using mem_forwarded [OF that] by blast
  ultimately show ?thesis using storer_process_cases [OF assms] by metis
qed

theorem batch_all_or_nothing_witness:
  "bi_key ` set (rd_inflows sample_stored) = {(7, 1)}"
  using batch_all_or_nothing [of "(/)" default_address_reputation_config "\<lambda>_. False"
      "fst sample_batch" "snd sample_batch" default_txn_metadata empty_reputation_db
      "Inr default_txn_metadata" "[''0x1'']" sample_stored] sample_source_facts
  by (simp add: sample_batch_def empty_reputation_db_def sample_inflow_def bi_key_def)

text \<open>
  For versions below \<open>2 ^ 39\<close> and event indices below \<open>2 ^ 24\<close>, \<open>seen_ord\<close> is
  the number \<open>version * 2 ^ 24 + index\<close> without wrapping into the sign bit, so comparing packed
  ordinals as signed 64-bit values compares (version, index) pairs lexicographically.
\<close>

theorem seen_ord_lexicographic:
  assumes "uint v < 2 ^ 39" "uint i < 2 ^ 24" "uint v' < 2 ^ 39" "uint i' < 2 ^ 24"
  shows "sint (seen_ord v i) = uint v * 2 ^ 24 + uint i \<and>
    (sint (seen_ord v i) < sint (seen_ord v' i') \<longleftrightarrow> (uint v, uint i) < (uint v', uint i'))"
  using assms by (simp only: sint_seen_ord lex_pack uint_ge_0 simp_thms)

theorem seen_ord_lexicographic_witness:
  "sint (seen_ord 5 3) < sint (seen_ord 6 1)"
  using seen_ord_lexicographic [of 5 3 6 1] by simp

end
