(* ===== verification/LzEnricher.thy ===== *)
theory LzEnricher
  imports ReputationStorer
begin

text \<open>
  \<open>evm_screening/lz_enricher.rs\<close> and \<open>evm_screening/lz_storer.rs\<close>: resolving a LayerZero GUID
  to the EVM address that sent it.  The locale \<open>lz_db\<close> is the contract of the trait \<open>LzDb\<close>;
  the PostgreSQL implementation \<open>DbLzStore\<close> interprets it.  The HTTP answer of the scan API is
  an argument; a statement that fails does so as \<open>faults\<close> says.
\<close>

section \<open>The store\<close>

definition evm_null_sentinel :: string where
  "evm_null_sentinel = ''0x0000000000000000000000000000000000000000''"

datatype lz_call = LzConn | LzSelect | LzUpdate | LzSeed nat

definition pending_inflow :: "bridge_inflow \<Rightarrow> bool" where
  "pending_inflow b \<longleftrightarrow> bi_lz_guid b \<noteq> None \<and> bi_evm_source b = None"

definition load_pending_guids :: "(lz_call \<Rightarrow> bool) \<Rightarrow> reputation_db \<Rightarrow> string list" where
  "load_pending_guids faults db =
     (if faults LzConn \<or> faults LzSelect then []
      else List.map_filter bi_lz_guid (filter pending_inflow (rd_inflows db)))"

definition matches_guid :: "string \<Rightarrow> bridge_inflow \<Rightarrow> bool" where
  "matches_guid guid b \<longleftrightarrow> bi_lz_guid b = Some guid \<and> bi_evm_source b = None"

definition seed_row ::
  "(lz_call \<Rightarrow> bool) \<Rightarrow> string \<Rightarrow> nat \<times> bridge_inflow \<Rightarrow> address_evm_source list \<Rightarrow> address_evm_source list"
where
  "seed_row faults evm ib sources =
     (let row = snd ib in
      case bi_asset_type row of
        None \<Rightarrow> sources
      | Some asset \<Rightarrow>
          if faults (LzSeed (fst ib)) then sources
          else upsert_bridge_seed (bi_aptos_recipient row) asset evm (bi_amount row)
                 (seen_ord (bi_transaction_version row) (bi_event_index row)) sources)"

definition write_evm ::
  "bool \<Rightarrow> (lz_call \<Rightarrow> bool) \<Rightarrow> string \<Rightarrow> string \<Rightarrow> reputation_db \<Rightarrow> reputation_db" where
  "write_evm propagate_evm faults guid evm db =
     (if faults LzConn then db
      else if faults LzUpdate then db
      else
        let rows = filter (matches_guid guid) (rd_inflows db);
            db1 = db\<lparr>rd_inflows := map (\<lambda>b. if matches_guid guid b
                     then b\<lparr>bi_evm_source := Some evm\<rparr> else b) (rd_inflows db)\<rparr>
        in if rows = [] then db1
           else if \<not> propagate_evm \<or> evm = evm_null_sentinel then db1
           else db1\<lparr>rd_sources := fold (seed_row faults evm) (enumerate 0 rows) (rd_sources db1)\<rparr>)"

section \<open>The resolver\<close>

datatype http_answer = NetworkError | HttpStatus nat "json option"

text \<open>A status code with the body as JSON, \<open>None\<close> when the body is no JSON.\<close>

definition is_success :: "nat \<Rightarrow> bool" where
  "is_success status \<longleftrightarrow> 200 \<le> status \<and> status < 300"

definition fetch_evm :: "http_answer \<Rightarrow> string option result" where
  "fetch_evm answer =
     (case answer of
        NetworkError \<Rightarrow> Inl (ProcessError ''network'')
      | HttpStatus status body \<Rightarrow>
          if status = 404 then Inr None
          else if \<not> is_success status then Inl (ProcessError ''LZ HTTP NOK status'')
          else case body of
                 None \<Rightarrow> Inl (ProcessError ''json'')
               | Some v \<Rightarrow>
                   (case opt_and_then (opt_and_then (opt_and_then (opt_and_then (opt_and_then
                           (json_get v ''data'') (\<lambda>d. json_index d 0)) (\<lambda>m. json_get m ''source''))
                           (\<lambda>s. json_get s ''tx'')) (\<lambda>t. json_get t ''from'')) json_as_str of
                      Some addr \<Rightarrow> Inr (Some addr)
                    | None \<Rightarrow> Inl (ProcessError ''sender field absent in LZ response'')))"

definition process_guid ::
  "(string \<Rightarrow> string \<Rightarrow> 's \<Rightarrow> 's) \<Rightarrow> (string \<Rightarrow> http_answer) \<Rightarrow> string \<Rightarrow> 's \<Rightarrow> string option result \<times> 's"
where
  "process_guid write_op scan_api guid s =
     (case fetch_evm (scan_api guid) of
        Inr (Some evm) \<Rightarrow> (Inr (Some evm), write_op guid evm s)
      | Inr None \<Rightarrow> (Inr None, write_op guid evm_null_sentinel s)
      | Inl e \<Rightarrow> (Inl e, s))"

section \<open>The contract of the store\<close>

text \<open>
  What the enricher relies on: writing a GUID's address takes the GUID off the pending list, and
  no write puts another GUID on it.
\<close>

locale lz_db =
  fixes load_pending :: "'s \<Rightarrow> string list" and write_op :: "string \<Rightarrow> string \<Rightarrow> 's \<Rightarrow> 's"
  assumes write_resolves: "guid \<notin> set (load_pending (write_op guid evm s))"
    and write_keeps_others: "g \<noteq> guid \<Longrightarrow> g \<in> set (load_pending (write_op guid evm s)) \<longleftrightarrow> g \<in> set (load_pending s)"
begin

lemma write_pending: "set (load_pending (write_op guid evm s)) = set (load_pending s) - {guid}"
proof (rule set_eqI)
  fix g
  show "g \<in> set (load_pending (write_op guid evm s)) \<longleftrightarrow> g \<in> set (load_pending s) - {guid}"
    using write_resolves write_keeps_others by (cases "g = guid") simp_all
qed

lemma process_guid_pending:
  "set (load_pending (snd (process_guid write_op scan_api guid s))) =
     (case fst (process_guid write_op scan_api guid s) of
        Inl e \<Rightarrow> set (load_pending s) | Inr v \<Rightarrow> set (load_pending s) - {guid})"
  by (simp add: process_guid_def write_pending split: sum.splits option.splits)

definition process_all :: "(string \<Rightarrow> http_answer) \<Rightarrow> string list \<Rightarrow> 's \<Rightarrow> 's" where
  "process_all scan_api guids s = fold (\<lambda>g t. snd (process_guid write_op scan_api g t)) guids s"

lemma process_all_pending:
  "set (load_pending (process_all scan_api guids s)) =
     {g \<in> set (load_pending s). g \<in> set guids \<longrightarrow> (\<exists>e. fetch_evm (scan_api g) = Inl e)}"
proof (induction guids arbitrary: s)
  case Nil
  then show ?case by (simp add: process_all_def)
next
  case (Cons g gs)
  have fst: "fst (process_guid write_op scan_api g s) = fetch_evm (scan_api g)"
    by (auto simp: process_guid_def split: sum.splits option.splits)
  show ?case
    using Cons.IH [of "snd (process_guid write_op scan_api g s)"]
      process_guid_pending [of scan_api g s]
    by (auto simp: process_all_def fst split: sum.splits)
qed

end

section \<open>Lemmas\<close>

lemma rd_inflows_write:
  "\<not> faults LzConn \<Longrightarrow> \<not> faults LzUpdate \<Longrightarrow>
   rd_inflows (write_evm propagate faults guid evm db) =
     map (\<lambda>b. if matches_guid guid b then b\<lparr>bi_evm_source := Some evm\<rparr> else b) (rd_inflows db)"
  by (simp add: write_evm_def Let_def)

lemma mem_load_pending:
  "\<not> f LzConn \<Longrightarrow> \<not> f LzSelect \<Longrightarrow>
   g \<in> set (load_pending_guids f db) \<longleftrightarrow> (\<exists>b \<in> set (rd_inflows db). matches_guid g b)"
  by (force simp: load_pending_guids_def List.map_filter_def pending_inflow_def matches_guid_def)

lemma matches_after_write:
  "matches_guid g (if matches_guid guid b then b\<lparr>bi_evm_source := Some evm\<rparr> else b) \<longleftrightarrow>
     g \<noteq> guid \<and> matches_guid g b"
  by (auto simp: matches_guid_def)

lemma mem_load_pending_write:
  assumes "\<not> f LzConn" "\<not> f LzSelect" "\<not> faults LzConn" "\<not> faults LzUpdate"
  shows "g \<in> set (load_pending_guids f (write_evm propagate faults guid evm db)) \<longleftrightarrow>
    g \<noteq> guid \<and> g \<in> set (load_pending_guids f db)"
  unfolding mem_load_pending [OF assms(1,2)] rd_inflows_write [OF assms(3,4)] set_map bex_simps
    matches_after_write by auto

interpretation db_lz: lz_db "load_pending_guids (\<lambda>_. False)" "write_evm propagate (\<lambda>_. False)" for propagate
  by unfold_locales (simp_all add: mem_load_pending_write)

lemma total_fund_seed_row:
  "total_fund (seed_row faults evm ib sources) =
     total_fund sources + (if bi_asset_type (snd ib) = None \<or> faults (LzSeed (fst ib)) then 0 else bi_amount (snd ib))"
  by (simp add: seed_row_def Let_def total_fund_seed split: option.splits)

lemma total_fund_seed_rows:
  "total_fund (fold (seed_row faults evm) ibs sources) = total_fund sources +
     sum_list (map (\<lambda>ib. if bi_asset_type (snd ib) = None \<or> faults (LzSeed (fst ib)) then 0 else bi_amount (snd ib)) ibs)"
  by (induction ibs arbitrary: sources) (auto simp: total_fund_seed_row)

lemma seed_rows_fail:
  "\<forall>i. faults (LzSeed i) \<Longrightarrow> fold (seed_row faults evm) ibs sources = sources"
  by (induction ibs) (auto simp: seed_row_def Let_def split: option.splits)

lemma seed_row_ok:
  "sources_ok sources \<Longrightarrow> 0 \<le> bi_amount (snd ib) \<Longrightarrow> sources_ok (seed_row faults evm ib sources)"
  by (auto simp: seed_row_def Let_def upsert_bridge_seed_ok split: option.splits)

lemma seed_rows_ok:
  "sources_ok sources \<Longrightarrow> \<forall>ib \<in> set ibs. 0 \<le> bi_amount (snd ib) \<Longrightarrow>
     sources_ok (fold (seed_row faults evm) ibs sources)"
  by (induction ibs arbitrary: sources) (auto intro: seed_row_ok)

definition awaiting_amount :: "string \<Rightarrow> reputation_db \<Rightarrow> decimal" where
  "awaiting_amount guid db =
     sum_list (map bi_amount (filter (\<lambda>b. matches_guid guid b \<and> bi_asset_type b \<noteq> None) (rd_inflows db)))"

lemma sum_enumerate_snd: "sum_list (map (\<lambda>ib. h (snd ib)) (enumerate n xs)) = sum_list (map h xs)"
  by (induction xs arbitrary: n) auto

lemma sum_awaiting:
  "sum_list (map (\<lambda>b. if bi_asset_type b = None then 0 else bi_amount b) (filter (matches_guid guid) xs)) =
     sum_list (map bi_amount (filter (\<lambda>b. matches_guid guid b \<and> bi_asset_type b \<noteq> None) xs))"
  by (induction xs) auto

lemma total_fund_write:
  assumes "propagate" "evm \<noteq> evm_null_sentinel" "\<forall>c. \<not> faults c"
  shows "total_fund (rd_sources (write_evm propagate faults guid evm db)) =
    total_fund (rd_sources db) + awaiting_amount guid db"
proof -
  let ?rows = "filter (matches_guid guid) (rd_inflows db)"
  have "total_fund (fold (seed_row faults evm) (enumerate 0 ?rows) (rd_sources db)) =
      total_fund (rd_sources db) + awaiting_amount guid db"
    unfolding total_fund_seed_rows awaiting_amount_def sum_awaiting [symmetric]
    using assms(3) sum_enumerate_snd [of "\<lambda>b. if bi_asset_type b = None then 0 else bi_amount b" 0 ?rows]
    by simp
  then show ?thesis using assms by (auto simp: write_evm_def Let_def awaiting_amount_def filter_empty_conv)
qed

lemma no_match_after_write:
  assumes "\<not> faults LzConn" "\<not> faults LzUpdate"
  shows "filter (matches_guid guid) (rd_inflows (write_evm propagate faults guid evm db)) = []"
  unfolding rd_inflows_write [OF assms] by (auto simp: filter_empty_conv matches_guid_def)

lemma write_unmatched:
  assumes "filter (matches_guid guid) (rd_inflows db) = []"
  shows "write_evm propagate faults guid evm db = db"
proof -
  have "map (\<lambda>b. if matches_guid guid b then b\<lparr>bi_evm_source := Some evm\<rparr> else b) (rd_inflows db) = rd_inflows db"
    using assms by (auto simp: filter_empty_conv intro: map_idI)
  with assms show ?thesis by (simp add: write_evm_def Let_def)
qed

definition sample_lz_db :: reputation_db where
  "sample_lz_db = empty_reputation_db\<lparr>rd_inflows :=
     [sample_inflow 7 1 ''a'' 40 None (Some ''0x1''), sample_inflow 8 1 ''b'' 5 None (Some ''0x2'')]\<rparr>"

definition sample_scan_api :: "string \<Rightarrow> http_answer" where
  "sample_scan_api guid = (if guid = ''0x1'' then HttpStatus 200 (Some (JObject [(''data'', JArray
     [JObject [(''source'', JObject [(''tx'', JObject [(''from'', JString ''0xe1'')])])]])]))
     else HttpStatus 500 None)"

section \<open>Properties\<close>

text \<open>
  After any sequence of GUIDs has been processed against a store whose statements
  succeed, a GUID is still pending exactly when it was pending before and either was not in the
  sequence or the scan API failed for it.  A resolved GUID and a GUID that the API reports as
  unknown (404) are never pending again; a transient failure never loses one.
\<close>

theorem enricher_pending_after:
  "set (load_pending_guids (\<lambda>_. False)
     (fold (\<lambda>g db. snd (process_guid (write_evm propagate (\<lambda>_. False)) scan_api g db)) guids db)) =
   {g \<in> set (load_pending_guids (\<lambda>_. False) db). g \<in> set guids \<longrightarrow> (\<exists>e. fetch_evm (scan_api g) = Inl e)}"
  using db_lz.process_all_pending [of propagate scan_api guids db] by (simp add: db_lz.process_all_def)

theorem enricher_pending_after_witness:
  "set (load_pending_guids (\<lambda>_. False)
     (fold (\<lambda>g db. snd (process_guid (write_evm True (\<lambda>_. False)) sample_scan_api g db))
       [''0x1'', ''0x2''] sample_lz_db)) = {''0x2''}"
  unfolding enricher_pending_after
  by (auto simp: load_pending_guids_def List.map_filter_def pending_inflow_def sample_lz_db_def
      sample_inflow_def empty_reputation_db_def sample_scan_api_def fetch_evm_def is_success_def
      opt_and_then_def)

text \<open>
  Resolving a GUID seeds its inflows exactly once.  When all statements succeed and
  the address is not the sentinel, the direct funds of the rollup grow by the amounts of the
  GUID's unresolved inflows whose asset is known; resolving the same GUID again, to whatever
  address, changes nothing.
\<close>

theorem resolution_seeds_once:
  assumes "propagate" and "evm \<noteq> evm_null_sentinel" and "\<forall>c. \<not> faults c"
    and "db1 = write_evm propagate faults guid evm db"
  shows "total_fund (rd_sources db1) = total_fund (rd_sources db) + awaiting_amount guid db \<and>
    write_evm propagate faults' guid evm' db1 = db1"
proof
  show "total_fund (rd_sources db1) = total_fund (rd_sources db) + awaiting_amount guid db"
    unfolding assms(4) by (rule total_fund_write [OF assms(1-3)])
  show "write_evm propagate faults' guid evm' db1 = db1"
    unfolding assms(4) using assms(3) by (intro write_unmatched no_match_after_write) auto
qed

theorem resolution_seeds_once_witness:
  "total_fund (rd_sources (write_evm True (\<lambda>_. False) ''0x1'' ''0xe1'' sample_lz_db)) = 40"
  using resolution_seeds_once [OF _ _ _ refl, of True "''0xe1''" "\<lambda>_. False" "''0x1''" sample_lz_db]
  by (simp add: evm_null_sentinel_def awaiting_amount_def sample_lz_db_def sample_inflow_def
      empty_reputation_db_def total_fund_def matches_guid_def)

text \<open>
  The two writes of a resolution are not atomic.  When the update of
  \<open>bridge_inflows\<close> succeeds and the seeds then fail, the rollup is unchanged although the GUID is
  no longer pending, and resolving it again never adds the funds.
\<close>

theorem failed_seed_is_never_retried:
  assumes "\<not> faults LzConn" and "\<not> faults LzUpdate" and "\<forall>i. faults (LzSeed i)"
    and "db1 = write_evm propagate faults guid evm db"
  shows "rd_sources db1 = rd_sources db \<and>
    guid \<notin> set (load_pending_guids (\<lambda>_. False) db1) \<and>
    write_evm propagate faults' guid evm db1 = db1"
proof -
  have "rd_sources db1 = rd_sources db"
    using assms by (simp add: write_evm_def Let_def seed_rows_fail)
  with assms show ?thesis
    using no_match_after_write write_unmatched by (simp add: mem_load_pending_write)
qed

theorem failed_seed_is_never_retried_witness:
  "rd_sources (write_evm True (\<lambda>c. c \<noteq> LzConn \<and> c \<noteq> LzUpdate) ''0x1'' ''0xe1'' sample_lz_db) = []"
  using failed_seed_is_never_retried [OF _ _ _ refl, of "\<lambda>c. c \<noteq> LzConn \<and> c \<noteq> LzUpdate" True "''0x1''"
      "''0xe1''" sample_lz_db]
  by (simp add: sample_lz_db_def empty_reputation_db_def)

end
