(* ===== verification/Hypernative.thy ===== *)
theory Hypernative
  imports LzEnricher
begin

text \<open>
  \<open>evm_screening/hypernative.rs\<close> and \<open>evm_screening/evm_storer.rs\<close>: the request window of the
  rate limiter, a screening request with its cache, the risk score and the score table.  The
  locale \<open>evm_screening_db\<close> is the contract of the trait \<open>EvmScreeningDb\<close>; the PostgreSQL
  implementation \<open>DbScoreSaver\<close> interprets it.  The HTTP answer, the hits of the expiring cache
  and the clock are arguments.
\<close>

section \<open>Rate limiter\<close>

text \<open>
  Instants are nanoseconds.  Every iteration of \<open>wait_for_rps_slot\<close>, of whichever caller, holds
  the mutex, so an execution is the sequence of the clock readings of these iterations.
\<close>

definition one_second :: nat where
  "one_second = 1000000000"

definition evict :: "nat \<Rightarrow> nat list \<Rightarrow> nat list" where
  "evict now window = dropWhile (\<lambda>t. one_second \<le> now - t) window"

definition wait_for_rps_slot_iteration :: "nat \<Rightarrow> nat \<Rightarrow> nat list \<Rightarrow> bool \<times> nat list" where
  "wait_for_rps_slot_iteration max_rps now window =
     (let w = evict now window in
      if length w < max_rps then (True, w @ [now]) else (False, w))"

definition slot_sleep :: "nat \<Rightarrow> nat list \<Rightarrow> nat" where
  "slot_sleep now window =
     (let oldest = hd (evict now window) in
      if now - oldest \<le> one_second then one_second - (now - oldest) else 1000000)"


definition effective_permits :: "nat \<Rightarrow> nat" where
  "effective_permits max_concurrent = (if max_concurrent = 0 then 10000 else max_concurrent)"

section \<open>Screening requests\<close>

record hypernative_result =
  hr_address :: string
  hr_recommendation :: string
  hr_severity :: string
  hr_total_incoming_usd :: "string option"
  hr_total_outgoing_usd :: "string option"
  hr_policy_id :: "string option"
  hr_screened_at :: "string option"
  hr_duplicate :: bool

text \<open>The two amounts stay number literals: nothing computes with them.\<close>

definition ping :: "http_answer \<Rightarrow> unit result" where
  "ping answer =
     (case answer of
        NetworkError \<Rightarrow> Inl (ProcessError ''network error'')
      | HttpStatus status _ \<Rightarrow>
          if status = 401 \<or> status = 403 then Inl (ProcessError ''Hypernative authentication failed'')
          else Inr ())"

definition duplicate_result :: "string \<Rightarrow> hypernative_result" where
  "duplicate_result addr =
     \<lparr>hr_address = addr, hr_recommendation = [], hr_severity = [], hr_total_incoming_usd = None,
      hr_total_outgoing_usd = None, hr_policy_id = None, hr_screened_at = None, hr_duplicate = True\<rparr>"

fun json_as_number :: "json \<Rightarrow> string option" where
  "json_as_number (JNumber n) = Some n"
| "json_as_number _ = None"

definition get_str :: "json \<Rightarrow> string \<Rightarrow> string option" where
  "get_str entry key = opt_and_then (json_get entry key) json_as_str"

definition parse_entry :: "json \<Rightarrow> hypernative_result result" where
  "parse_entry entry =
     (case get_str entry ''recommendation'' of
        None \<Rightarrow> Inl (ProcessError ''malformed Hypernative response: recommendation missing'')
      | Some recommendation \<Rightarrow>
          (case get_str entry ''severity'' of
             None \<Rightarrow> Inl (ProcessError ''malformed Hypernative response: severity missing'')
           | Some severity \<Rightarrow>
               Inr \<lparr>hr_address = unwrap_or (get_str entry ''address'') [],
                    hr_recommendation = recommendation, hr_severity = severity,
                    hr_total_incoming_usd = opt_and_then (json_get entry ''totalIncomingUsd'') json_as_number,
                    hr_total_outgoing_usd = opt_and_then (json_get entry ''totalOutgoingUsd'') json_as_number,
                    hr_policy_id = get_str entry ''policyId'',
                    hr_screened_at = get_str entry ''timestamp'', hr_duplicate = False\<rparr>))"

definition push_entry :: "json \<Rightarrow> hypernative_result list \<Rightarrow> hypernative_result list result" where
  "push_entry entry new_results =
     (case parse_entry entry of Inl e \<Rightarrow> Inl e | Inr r \<Rightarrow> Inr (new_results @ [r]))"

record batch_answer =
  ba_results :: "hypernative_result list result"
  ba_cached :: "string list"
  ba_pause :: bool

definition fetch_batch ::
  "(string \<Rightarrow> bool) \<Rightarrow> (string list \<Rightarrow> http_answer) \<Rightarrow> string list \<Rightarrow> batch_answer" where
  "fetch_batch cache_get api addresses =
     (let hit = (\<lambda>a. cache_get (to_lowercase a));
          results = map duplicate_result (filter hit addresses);
          to_process = filter (\<lambda>a. \<not> hit a) addresses;
          failed = (\<lambda>m pause. \<lparr>ba_results = Inl (ProcessError m), ba_cached = [], ba_pause = pause\<rparr>)
      in if to_process = [] then \<lparr>ba_results = Inr results, ba_cached = [], ba_pause = False\<rparr>
         else case api to_process of
           NetworkError \<Rightarrow> failed ''network'' False
         | HttpStatus status body \<Rightarrow>
             if status = 429 then failed ''HTTP 429 Too Many Requests'' True
             else if \<not> is_success status then failed ''HTTP status'' False
             else case body of
               None \<Rightarrow> failed ''json'' False
             | Some v \<Rightarrow>
                 (case opt_and_then (json_get v ''data'') json_as_array of
                    None \<Rightarrow> \<lparr>ba_results = Inr results, ba_cached = [], ba_pause = False\<rparr>
                  | Some data \<Rightarrow>
                      (case fold_result push_entry data [] of
                         Inl e \<Rightarrow> \<lparr>ba_results = Inl e, ba_cached = [], ba_pause = False\<rparr>
                       | Inr new_results \<Rightarrow>
                           \<lparr>ba_results = Inr (results @ new_results),
                            ba_cached = map to_lowercase to_process, ba_pause = False\<rparr>)))"

definition error_score :: "datetime \<Rightarrow> string \<Rightarrow> evm_risk_score" where
  "error_score now evm =
     \<lparr>rs_evm_address = evm, rs_risk_score = 0, rs_risk_label = ''hypernative'',
      rs_source = ''not available'', rs_recommendation = ''not available'',
      rs_severity = ''not available'', rs_fetched_at = now, rs_to_be_updated = True\<rparr>"

definition recommendation_value :: "string \<Rightarrow> decimal" where
  "recommendation_value r =
     (if eq_ignore_ascii_case r ''deny'' then 1
      else if eq_ignore_ascii_case r ''not available'' then 0 else 1 / 10)"

definition severity_value :: "string \<Rightarrow> decimal" where
  "severity_value s =
     (let l = to_lowercase s in
      if l = ''high'' then 9 / 10 else if l = ''medium'' then 6 / 10
      else if l = ''low'' then 4 / 10 else 1 / 10)"

definition compute_risk_score ::
  "datetime \<Rightarrow> string \<Rightarrow> hypernative_result \<Rightarrow> string \<Rightarrow> evm_risk_score" where
  "compute_risk_score now evm result source =
     \<lparr>rs_evm_address = evm,
      rs_risk_score = recommendation_value (hr_recommendation result) + severity_value (hr_severity result),
      rs_risk_label = ''hypernative'', rs_source = source,
      rs_recommendation = hr_recommendation result, rs_severity = hr_severity result,
      rs_fetched_at = now, rs_to_be_updated = False\<rparr>"

definition not_available_result :: "string \<Rightarrow> hypernative_result" where
  "not_available_result evm =
     \<lparr>hr_address = evm, hr_recommendation = ''not available'', hr_severity = ''not available'',
      hr_total_incoming_usd = None, hr_total_outgoing_usd = None, hr_policy_id = None,
      hr_screened_at = None, hr_duplicate = False\<rparr>"

definition save_or_log :: "(evm_risk_score \<Rightarrow> 's \<Rightarrow> 's result) \<Rightarrow> evm_risk_score \<Rightarrow> 's \<Rightarrow> 's" where
  "save_or_log save_op score s = (case save_op score s of Inl e \<Rightarrow> s | Inr t \<Rightarrow> t)"

definition result_of :: "hypernative_result list \<Rightarrow> string \<Rightarrow> hypernative_result option" where
  "result_of results evm = find (\<lambda>r. eq_ignore_ascii_case (hr_address r) evm) results"

definition save_screened ::
  "(evm_risk_score \<Rightarrow> 's \<Rightarrow> 's result) \<Rightarrow> (string \<Rightarrow> datetime) \<Rightarrow> string \<Rightarrow> hypernative_result list \<Rightarrow>
   string \<Rightarrow> 's \<Rightarrow> 's"
where
  "save_screened save_op clock url results evm s =
     (case result_of results evm of
        Some r \<Rightarrow>
          if hr_duplicate r then s
          else save_or_log save_op (compute_risk_score (clock evm) evm r url) s
      | None \<Rightarrow>
          save_or_log save_op (compute_risk_score (clock evm) evm (not_available_result evm) url) s)"

definition screen_evms ::
  "(evm_risk_score \<Rightarrow> 's \<Rightarrow> 's result) \<Rightarrow> (string \<Rightarrow> bool) \<Rightarrow> (string list \<Rightarrow> http_answer) \<Rightarrow>
   (string \<Rightarrow> datetime) \<Rightarrow> string \<Rightarrow> string list \<Rightarrow> 's \<Rightarrow> bool \<times> string list \<times> 's"
where
  "screen_evms save_op cache_get api clock url evms s =
     (let addrs = filter (\<lambda>e. e \<noteq> evm_null_sentinel) evms in
      if addrs = [] then (False, [], s)
      else let ans = fetch_batch cache_get api addrs in
        case ba_results ans of
          Inl e \<Rightarrow> (True, ba_cached ans, s)
        | Inr results \<Rightarrow>
            (False, ba_cached ans, fold (save_screened save_op clock url results) addrs s))"

section \<open>The score table\<close>

datatype score_call = ScoreConn | ScoreExec

definition merge_score :: "evm_risk_score \<Rightarrow> evm_risk_score \<Rightarrow> evm_risk_score" where
  "merge_score old n =
     old\<lparr>rs_risk_score := rs_risk_score n, rs_risk_label := rs_risk_label n,
         rs_source := rs_source n, rs_recommendation := rs_recommendation n,
         rs_severity := rs_severity n, rs_fetched_at := rs_fetched_at n,
         rs_to_be_updated := rs_to_be_updated n\<rparr>"

definition save_risk_score ::
  "(score_call \<Rightarrow> bool) \<Rightarrow> evm_risk_score \<Rightarrow> reputation_db \<Rightarrow> reputation_db result" where
  "save_risk_score faults score db =
     (if faults ScoreConn \<or> faults ScoreExec then Inl (DBStoreError ''evm_address_risk_scores'')
      else Inr (db\<lparr>rd_scores := upsert rs_evm_address merge_score score (rd_scores db)\<rparr>))"

definition save_score ::
  "bool \<Rightarrow> (score_call \<Rightarrow> bool) \<Rightarrow> evm_risk_score \<Rightarrow> reputation_db \<Rightarrow> reputation_db result" where
  "save_score has_pool faults score db =
     (if \<not> has_pool then Inr db else save_risk_score faults score db)"

definition is_fresh_in_db ::
  "bool \<Rightarrow> (score_call \<Rightarrow> bool) \<Rightarrow> nat \<Rightarrow> datetime \<Rightarrow> string \<Rightarrow> reputation_db \<Rightarrow> bool" where
  "is_fresh_in_db has_pool faults ttl_secs now evm db =
     (if \<not> has_pool then False
      else if faults ScoreConn then False
      else let ttl_cutoff = now - 1000000 * int ttl_secs in
        if faults ScoreExec then False
        else list_ex (\<lambda>r. rs_evm_address r = evm \<and> \<not> rs_to_be_updated r \<and> ttl_cutoff < rs_fetched_at r)
               (rd_scores db))"

definition pending_sources :: "reputation_db \<Rightarrow> string list" where
  "pending_sources db =
     filter (\<lambda>evm. evm \<noteq> evm_null_sentinel \<and>
        evm \<notin> set (map rs_evm_address (filter (\<lambda>r. \<not> rs_to_be_updated r) (rd_scores db))))
       (List.map_filter bi_evm_source (rd_inflows db))"

definition load_pending_evms :: "bool \<Rightarrow> (score_call \<Rightarrow> bool) \<Rightarrow> reputation_db \<Rightarrow> string list" where
  "load_pending_evms has_pool faults db =
     (if \<not> has_pool then []
      else if faults ScoreConn \<or> faults ScoreExec then []
      else remdups (pending_sources db @
        map rs_evm_address (filter rs_to_be_updated (rd_scores db))))"

text \<open>
  \<open>SELECT DISTINCT .. UNION ..\<close> returns each address once in an order SQL leaves open; the
  model lists the inflow sources first.
\<close>

section \<open>Lemmas on the window\<close>

definition in_second :: "nat \<Rightarrow> nat list \<Rightarrow> nat list" where
  "in_second t gs = filter (\<lambda>g. t \<le> g \<and> g < t + one_second) gs"


lemma in_second_append [simp]: "in_second t (xs @ ys) = in_second t xs @ in_second t ys"
  by (simp add: in_second_def)





lemma evict_after_sleep:
  assumes "window = t # w" "t + one_second \<le> now"
  shows "length (evict now window) < length window"
proof -
  have "one_second \<le> now - t" using assms(2) by simp
  then show ?thesis using assms(1) by (simp add: evict_def less_Suc_eq_le length_dropWhile_le)
qed

lemma slot_after_sleep:
  assumes "0 < max_rps" "length window \<le> max_rps" "sorted window" "\<forall>t \<in> set window. t \<le> now"
    and "wait_for_rps_slot_iteration max_rps now window = (False, w)"
    and "now + slot_sleep now window \<le> later"
  shows "fst (wait_for_rps_slot_iteration max_rps later w)"
proof -
  have w: "w = evict now window" "max_rps \<le> length w"
    using assms(5) by (auto simp: wait_for_rps_slot_iteration_def Let_def split: if_splits)
  with assms(1) obtain t ts where t: "evict now window = t # ts" by (cases "evict now window") auto
  have "t \<in> set window" using t unfolding evict_def by (metis list.set_intros(1) set_dropWhileD)
  with assms(4) have "t \<le> now" by blast
  moreover have "\<not> one_second \<le> now - t" using t unfolding evict_def by (metis dropWhile_eq_Cons_conv)
  ultimately have "t + one_second \<le> later"
    using assms(6) by (simp add: slot_sleep_def t Let_def one_second_def)
  then have "length (evict later w) < length w" using w t by (intro evict_after_sleep) auto
  moreover have "length w \<le> max_rps"
    using w(1) assms(2) by (metis evict_def le_trans length_dropWhile_le)
  ultimately show ?thesis by (simp add: wait_for_rps_slot_iteration_def Let_def)
qed

section \<open>Lemmas on requests\<close>

lemma push_entry_fresh:
  "push_entry entry acc = Inr rs \<Longrightarrow> \<forall>r \<in> set acc. \<not> hr_duplicate r \<Longrightarrow> \<forall>r \<in> set rs. \<not> hr_duplicate r"
  by (auto simp: push_entry_def parse_entry_def split: option.splits)

lemma parse_entries_fresh:
  "fold_result push_entry data [] = Inr rs \<Longrightarrow> \<forall>r \<in> set rs. \<not> hr_duplicate r"
  by (rule fold_result_inv [where P = "\<lambda>rs. \<forall>r \<in> set rs. \<not> hr_duplicate r"])
    (auto dest: push_entry_fresh)

lemma fetch_batch_results:
  assumes "ba_results (fetch_batch cache_get api addrs) = Inr results"
  shows "\<exists>new. results = map duplicate_result (filter (\<lambda>a. cache_get (to_lowercase a)) addrs) @ new \<and>
    (\<forall>r \<in> set new. \<not> hr_duplicate r)"
  using assms
  by (auto simp: fetch_batch_def Let_def split: if_splits http_answer.splits option.splits sum.splits
      dest: parse_entries_fresh)

lemma result_of_duplicate:
  assumes res: "ba_results (fetch_batch cache_get api addrs) = Inr results" and evm: "evm \<in> set addrs"
  shows "(\<exists>r. result_of results evm = Some r \<and> hr_duplicate r) \<longleftrightarrow> cache_get (to_lowercase evm)"
proof -
  obtain new where results: "results = map duplicate_result (filter (\<lambda>a. cache_get (to_lowercase a)) addrs) @ new"
    and new: "\<forall>r \<in> set new. \<not> hr_duplicate r" using fetch_batch_results [OF res] by blast
  show ?thesis
  proof
    assume "\<exists>r. result_of results evm = Some r \<and> hr_duplicate r"
    then obtain r where r: "result_of results evm = Some r" "hr_duplicate r" by blast
    then have "r \<in> set results" "eq_ignore_ascii_case (hr_address r) evm"
      unfolding result_of_def by (auto simp: find_Some_iff)
    with r(2) new results show "cache_get (to_lowercase evm)"
      by (auto simp: duplicate_result_def eq_ignore_ascii_case_def)
  next
    assume hit: "cache_get (to_lowercase evm)"
    let ?dups = "map duplicate_result (filter (\<lambda>a. cache_get (to_lowercase a)) addrs)"
    have "\<exists>x \<in> set ?dups. eq_ignore_ascii_case (hr_address x) evm"
      using hit evm by (auto simp: duplicate_result_def intro!: bexI [of _ evm])
    then obtain r where "find (\<lambda>r. eq_ignore_ascii_case (hr_address r) evm) ?dups = Some r"
      by (metis (mono_tags, lifting) find_None_iff not_None_eq)
    moreover from this have "r \<in> set ?dups" by (metis (mono_tags, lifting) find_Some_iff nth_mem)
    then have "hr_duplicate r" by (auto simp: duplicate_result_def)
    ultimately show "\<exists>r. result_of results evm = Some r \<and> hr_duplicate r"
      by (auto simp: result_of_def results find_append split: option.splits)
  qed
qed

section \<open>The contract of the score store\<close>

text \<open>
  What the screening loop relies on: a score that is final takes its address off the pending
  list, an error score puts it on, and no other address moves.
\<close>

locale evm_screening_db =
  fixes save_op :: "evm_risk_score \<Rightarrow> 's \<Rightarrow> 's result" and pending :: "'s \<Rightarrow> string list"
    and inv :: "'s \<Rightarrow> bool"
  assumes save_ok: "inv s \<Longrightarrow> \<exists>t. save_op score s = Inr t \<and> inv t \<and>
    set (pending t) = (if rs_to_be_updated score then insert (rs_evm_address score) (set (pending s))
                       else set (pending s) - {rs_evm_address score})"
begin

lemma save_or_log_pending:
  "inv s \<Longrightarrow> inv (save_or_log save_op score s) \<and> set (pending (save_or_log save_op score s)) =
     (if rs_to_be_updated score then insert (rs_evm_address score) (set (pending s))
      else set (pending s) - {rs_evm_address score})"
  using save_ok [of s score] by (auto simp: save_or_log_def)

lemma save_screened_pending:
  assumes "inv s"
  shows "inv (save_screened save_op clock url results evm s) \<and>
    set (pending (save_screened save_op clock url results evm s)) =
    (if \<exists>r. result_of results evm = Some r \<and> hr_duplicate r then set (pending s) else set (pending s) - {evm})"
  using save_or_log_pending [OF assms] assms
  by (auto simp: save_screened_def compute_risk_score_def split: option.splits)

lemma fold_screened_pending:
  assumes "inv s"
  shows "inv (fold (save_screened save_op clock url results) evms s) \<and>
    set (pending (fold (save_screened save_op clock url results) evms s)) =
    set (pending s) - {evm \<in> set evms. \<not> (\<exists>r. result_of results evm = Some r \<and> hr_duplicate r)}"
  using assms
proof (induction evms arbitrary: s)
  case (Cons evm evms)
  note step = save_screened_pending [OF Cons.prems, of clock url results evm]
  with Cons.IH [of "save_screened save_op clock url results evm s"] show ?case
    by (auto split: if_splits)
qed simp

lemma screen_evms_pending:
  assumes "inv s" and "screen_evms save_op cache_get api clock url evms s = (retry, cached, t)"
  shows "inv t \<and> set (pending t) = set (pending s) -
    (if retry then {} else {evm \<in> set evms. evm \<noteq> evm_null_sentinel \<and> \<not> cache_get (to_lowercase evm)})"
proof -
  let ?addrs = "filter (\<lambda>e. e \<noteq> evm_null_sentinel) evms"
  let ?ans = "fetch_batch cache_get api ?addrs"
  show ?thesis
  proof (cases "?addrs = [] \<or> (\<exists>e. ba_results ?ans = Inl e)")
    case True
    with assms show ?thesis
      by (auto simp: screen_evms_def Let_def filter_empty_conv split: if_splits)
  next
    case False
    then obtain results where res: "ba_results ?ans = Inr results" by (meson sum.exhaust_sel)
    with False assms(2) have "retry = False"
      "t = fold (save_screened save_op clock url results) ?addrs s"
      by (auto simp: screen_evms_def Let_def)
    with fold_screened_pending [OF assms(1), of clock url results ?addrs] result_of_duplicate [OF res]
    show ?thesis by auto
  qed
qed

end

section \<open>The score table implements the contract\<close>

interpretation scores: keyed_upsert rs_evm_address merge_score
  by unfold_locales (simp add: merge_score_def)

definition scores_ok :: "reputation_db \<Rightarrow> bool" where
  "scores_ok db \<longleftrightarrow> unique_keys rs_evm_address (rd_scores db)"

lemma mem_load_pending_evms:
  assumes "scores_ok db"
  shows "evm \<in> set (load_pending_evms True (\<lambda>_. False) db) \<longleftrightarrow>
    (case find_row rs_evm_address evm (rd_scores db) of
       Some r \<Rightarrow> rs_to_be_updated r
     | None \<Rightarrow> evm \<noteq> evm_null_sentinel \<and> (\<exists>b \<in> set (rd_inflows db). bi_evm_source b = Some evm))"
proof -
  have src: "x \<in> set (List.map_filter bi_evm_source bs) \<longleftrightarrow> (\<exists>b \<in> set bs. bi_evm_source b = Some x)" for x bs
    by (induction bs) (auto simp: List.map_filter_def)
  show ?thesis
  proof (cases "find_row rs_evm_address evm (rd_scores db)")
    case None
    then have "evm \<notin> rs_evm_address ` set (rd_scores db)" by (simp add: find_row_None)
    with None show ?thesis
      by (auto simp: load_pending_evms_def pending_sources_def src)
  next
    case (Some r)
    have uniq: "r' = r" if "r' \<in> set (rd_scores db)" "rs_evm_address r' = evm" for r'
      using find_row_unique [of rs_evm_address "rd_scores db" r'] assms that Some by (simp add: scores_ok_def)
    have "r \<in> set (rd_scores db)" "rs_evm_address r = evm" using find_row_SomeD [OF Some] by auto
    then have "evm \<in> rs_evm_address ` {x \<in> set (rd_scores db). P x} \<longleftrightarrow> P r" for P
      using uniq by blast
    then show ?thesis
      using Some by (auto simp: load_pending_evms_def pending_sources_def)
  qed
qed

lemma save_score_pending:
  assumes "scores_ok db"
  shows "\<exists>t. save_score True (\<lambda>_. False) score db = Inr t \<and> scores_ok t \<and>
    set (load_pending_evms True (\<lambda>_. False) t) =
      (if rs_to_be_updated score then insert (rs_evm_address score) (set (load_pending_evms True (\<lambda>_. False) db))
       else set (load_pending_evms True (\<lambda>_. False) db) - {rs_evm_address score})"
proof -
  let ?t = "db\<lparr>rd_scores := upsert rs_evm_address merge_score score (rd_scores db)\<rparr>"
  have ok: "scores_ok ?t" using assms by (simp add: scores_ok_def scores.unique_upsert)
  have mem: "evm \<in> set (load_pending_evms True (\<lambda>_. False) ?t) \<longleftrightarrow>
      (if evm = rs_evm_address score then rs_to_be_updated score
       else evm \<in> set (load_pending_evms True (\<lambda>_. False) db))" for evm
    unfolding mem_load_pending_evms [OF ok] mem_load_pending_evms [OF assms]
    by (auto simp: scores.find_upsert merge_score_def split: option.splits)
  show ?thesis
    by (rule exI [of _ ?t]) (use ok in \<open>auto simp: save_score_def save_risk_score_def mem set_eq_iff\<close>)
qed

interpretation db_scores: evm_screening_db "save_score True (\<lambda>_. False)"
    "load_pending_evms True (\<lambda>_. False)" scores_ok
  by unfold_locales (rule save_score_pending)

lemma severity_value_range: "1 / 10 \<le> severity_value s \<and> severity_value s \<le> 9 / 10"
  by (simp add: severity_value_def Let_def)

lemma recommendation_value_range: "0 \<le> recommendation_value r \<and> recommendation_value r \<le> 1"
  by (simp add: recommendation_value_def)

lemma recommendation_value_deny:
  "eq_ignore_ascii_case r ''deny'' \<Longrightarrow> recommendation_value r = 1"
  "\<not> eq_ignore_ascii_case r ''deny'' \<Longrightarrow> recommendation_value r \<le> 1 / 10"
  by (simp_all add: recommendation_value_def)

lemma find_row_save:
  "find_row rs_evm_address evm (rd_scores (save_or_log (save_score True (\<lambda>_. False)) score db)) =
     (if evm = rs_evm_address score then Some score else find_row rs_evm_address evm (rd_scores db))"
proof -
  have "merge_score old score = score" if "rs_evm_address old = rs_evm_address score" for old
    using that by (simp add: merge_score_def)
  then show ?thesis
    by (auto simp: save_or_log_def save_score_def save_risk_score_def scores.find_upsert
        split: option.splits dest: find_row_SomeD)
qed

lemma find_row_screened_empty:
  "evm \<in> set evms \<Longrightarrow>
   find_row rs_evm_address evm (rd_scores (fold (save_screened (save_score True (\<lambda>_. False)) clock url []) evms db)) =
     Some (compute_risk_score (clock evm) evm (not_available_result evm) url)"
proof (induction evms rule: rev_induct)
  case (snoc e evms)
  have addr: "rs_evm_address (compute_risk_score t a r u) = a" for t a r u
    by (simp add: compute_risk_score_def)
  show ?case using snoc by (auto simp: save_screened_def result_of_def find_row_save addr)
qed simp

definition sample_hn_db :: reputation_db where
  "sample_hn_db = empty_reputation_db\<lparr>rd_inflows := [sample_inflow 7 1 ''a'' 40 (Some ''0xe1'') None]\<rparr>"

definition sample_api :: "string list \<Rightarrow> http_answer" where
  "sample_api addrs = HttpStatus 200 (Some (JObject [(''data'', JArray (map (\<lambda>a. JObject
     [(''address'', JString a), (''recommendation'', JString ''Deny''), (''severity'', JString ''High'')]) addrs))]))"

section \<open>Properties\<close>



text \<open>
  A refused caller does not wait in vain: an iteration that finds the window full sleeps
  exactly until its oldest entry is a second old, and the first iteration after that sleep, if
  no other caller came in between, is granted.
\<close>

theorem refused_caller_is_granted_after_sleep:
  assumes "0 < max_rps" and "length window \<le> max_rps" and "sorted window" and "\<forall>t \<in> set window. t \<le> now"
    and "wait_for_rps_slot_iteration max_rps now window = (False, w)"
    and "now + slot_sleep now window \<le> later"
  shows "fst (wait_for_rps_slot_iteration max_rps later w) \<and> slot_sleep now window \<le> one_second"
  using slot_after_sleep [OF assms] by (simp add: slot_sleep_def Let_def one_second_def)

theorem refused_caller_is_granted_after_sleep_witness:
  "fst (wait_for_rps_slot_iteration 1 1000000000 [0])"
  using refused_caller_is_granted_after_sleep [of 1 "[0]" 400 "[0]" 1000000000]
  by (simp add: wait_for_rps_slot_iteration_def slot_sleep_def evict_def one_second_def Let_def)

text \<open>
  The stored score lies between 0.1 and 1.9, and it is above 1 exactly when the
  recommendation was to deny (in any case), whatever the severity: no approved address ever
  scores as high as a denied one.
\<close>

theorem risk_score_separates_denied:
  "1 / 10 \<le> rs_risk_score (compute_risk_score now evm r url) \<and>
   rs_risk_score (compute_risk_score now evm r url) \<le> 19 / 10 \<and>
   (rs_risk_score (compute_risk_score now evm r url) > 1 \<longleftrightarrow>
      eq_ignore_ascii_case (hr_recommendation r) ''deny'')"
  using severity_value_range [of "hr_severity r"] recommendation_value_range [of "hr_recommendation r"]
    recommendation_value_deny [of "hr_recommendation r"]
  by (cases "eq_ignore_ascii_case (hr_recommendation r) ''deny''") (auto simp: compute_risk_score_def)

text \<open>
  Addresses enter the cache only when their request succeeded as a whole.  If anything is
  cached, it is exactly the requested addresses that were not cached yet, in lower case, the
  answer was a success whose entries all had a recommendation and a severity, and the call
  returned results; a failed call caches nothing, and only an HTTP 429 asks for a pause.
\<close>

theorem cache_only_after_success:
  "(ba_cached (fetch_batch cache_get api addrs) \<noteq> [] \<longrightarrow>
     ba_cached (fetch_batch cache_get api addrs) =
       map to_lowercase (filter (\<lambda>a. \<not> cache_get (to_lowercase a)) addrs) \<and>
     (\<exists>results status v data new_results. ba_results (fetch_batch cache_get api addrs) = Inr results \<and>
        api (filter (\<lambda>a. \<not> cache_get (to_lowercase a)) addrs) = HttpStatus status (Some v) \<and>
        is_success status \<and> opt_and_then (json_get v ''data'') json_as_array = Some data \<and>
        fold_result push_entry data [] = Inr new_results)) \<and>
   ((\<exists>e. ba_results (fetch_batch cache_get api addrs) = Inl e) \<longrightarrow>
     ba_cached (fetch_batch cache_get api addrs) = []) \<and>
   (ba_pause (fetch_batch cache_get api addrs) \<longrightarrow>
     (\<exists>body. api (filter (\<lambda>a. \<not> cache_get (to_lowercase a)) addrs) = HttpStatus 429 body))"
  by (auto simp: fetch_batch_def Let_def
      split: http_answer.splits option.splits sum.splits if_splits)

theorem cache_only_after_success_witness:
  "ba_cached (fetch_batch (\<lambda>_. False) (\<lambda>_. HttpStatus 429 None) [''0xE1'']) = [] \<and>
   (ba_pause (fetch_batch (\<lambda>_. False) (\<lambda>_. HttpStatus 429 None) [''0xE1'']))"
  using cache_only_after_success [of "\<lambda>_. False" "\<lambda>_. HttpStatus 429 None" "[''0xE1'']"]
  by (simp add: fetch_batch_def Let_def)

text \<open>
  Against a score table whose statements succeed, a screening request that returns
  takes exactly the addresses it sent out (not the sentinel, not those in the cache) off the
  pending list; a request that asks for a retry leaves the list as it was.
\<close>

theorem screening_clears_pending:
  assumes "scores_ok db"
    and "screen_evms (save_score True (\<lambda>_. False)) cache_get api clock url evms db = (retry, cached, db')"
  shows "scores_ok db' \<and> set (load_pending_evms True (\<lambda>_. False) db') =
    set (load_pending_evms True (\<lambda>_. False) db) -
    (if retry then {} else {evm \<in> set evms. evm \<noteq> evm_null_sentinel \<and> \<not> cache_get (to_lowercase evm)})"
  by (rule db_scores.screen_evms_pending [OF assms])

theorem screening_clears_pending_witness:
  "load_pending_evms True (\<lambda>_. False) sample_hn_db = [''0xe1''] \<and>
   (case screen_evms (save_score True (\<lambda>_. False)) (\<lambda>_. False) sample_api (\<lambda>_. 0) ''url'' [''0xe1''] sample_hn_db of
      (retry, cached, db') \<Rightarrow> \<not> retry \<and> set (load_pending_evms True (\<lambda>_. False) db') = {})"
proof -
  have pend: "load_pending_evms True (\<lambda>_. False) sample_hn_db = [''0xe1'']"
    by (simp add: load_pending_evms_def pending_sources_def sample_hn_db_def sample_inflow_def
        empty_reputation_db_def evm_null_sentinel_def List.map_filter_def)
  obtain cached db' where run: "screen_evms (save_score True (\<lambda>_. False)) (\<lambda>_. False) sample_api (\<lambda>_. 0) ''url''
      [''0xe1''] sample_hn_db = (False, cached, db')"
    by (auto simp: screen_evms_def Let_def evm_null_sentinel_def fetch_batch_def sample_api_def is_success_def
        opt_and_then_def push_entry_def parse_entry_def get_str_def)
  have "scores_ok sample_hn_db"
    by (simp add: scores_ok_def sample_hn_db_def empty_reputation_db_def unique_keys_def)
  from screening_clears_pending [OF this run] pend run show ?thesis
    by (simp add: evm_null_sentinel_def)
qed

text \<open>
  A successful answer without a \<open>data\<close> array screens nothing, yet the batch is neither
  retried nor cached, and every uncached address is stored with the final score 0.1, so none of
  them is pending any more.
\<close>

theorem missing_data_counts_as_screened:
  assumes "is_success status" and "status \<noteq> 429" and "json_get v ''data'' = None"
    and "\<forall>addrs. api addrs = HttpStatus status (Some v)" and "\<forall>k. \<not> cache_get k"
    and "evm \<in> set evms" and "evm \<noteq> evm_null_sentinel"
    and "screen_evms (save_score True (\<lambda>_. False)) cache_get api clock url evms db = (retry, cached, db')"
  shows "\<not> retry \<and> cached = [] \<and>
    (\<exists>score. find_row rs_evm_address evm (rd_scores db') = Some score \<and>
       rs_risk_score score = 1 / 10 \<and> \<not> rs_to_be_updated score)"
proof -
  let ?addrs = "filter (\<lambda>e. e \<noteq> evm_null_sentinel) evms"
  have ne: "?addrs \<noteq> []" using assms(6,7) by (auto simp: filter_empty_conv)
  have "fetch_batch cache_get api ?addrs = \<lparr>ba_results = Inr [], ba_cached = [], ba_pause = False\<rparr>"
    using assms(1-5) ne by (simp add: fetch_batch_def Let_def opt_and_then_def)
  with assms(8) ne have "retry = False" "cached = []"
    "db' = fold (save_screened (save_score True (\<lambda>_. False)) clock url []) ?addrs db"
    by (auto simp: screen_evms_def Let_def)
  moreover have "rs_risk_score (compute_risk_score (clock evm) evm (not_available_result evm) url) = 1 / 10 \<and>
      \<not> rs_to_be_updated (compute_risk_score (clock evm) evm (not_available_result evm) url)"
    by (simp add: compute_risk_score_def not_available_result_def recommendation_value_def severity_value_def
        eq_ignore_ascii_case_def to_lowercase_def char_lower_def)
  ultimately show ?thesis using find_row_screened_empty [of evm ?addrs clock url db] assms(6,7) by simp
qed

theorem missing_data_counts_as_screened_witness:
  "\<exists>score. find_row rs_evm_address ''0xe1'' (rd_scores (snd (snd (screen_evms (save_score True (\<lambda>_. False))
     (\<lambda>_. False) (\<lambda>_. HttpStatus 200 (Some (JObject []))) (\<lambda>_. 0) ''url'' [''0xe1''] sample_hn_db)))) = Some score \<and>
     rs_risk_score score = 1 / 10"
proof -
  let ?run = "screen_evms (save_score True (\<lambda>_. False)) (\<lambda>_. False) (\<lambda>_. HttpStatus 200 (Some (JObject [])))
    (\<lambda>_. 0) ''url'' [''0xe1''] sample_hn_db"
  have "?run = (fst ?run, fst (snd ?run), snd (snd ?run))" by simp
  from missing_data_counts_as_screened [OF _ _ _ _ _ _ _ this, of 200 "JObject []" "''0xe1''"]
  show ?thesis by (auto simp: is_success_def evm_null_sentinel_def)
qed

end
