(* ===== verification/EnricherLoop.thy ===== *)
theory EnricherLoop
  imports Hypernative
begin

text \<open>
  \<open>evm_screening/mod.rs\<close> and \<open>evm_screening/evm_connection.rs\<close>: the enricher's event loop.  One
  iteration of \<open>tokio::select!\<close> is one step; which branch fires, what the network answers, what
  the clock reads and which statements fail is the step's environment.  A future in
  \<open>FuturesUnordered\<close> is a value with its arguments; it takes effect when it completes, after
  whatever delay it sleeps for.  The locale \<open>connection_state\<close> is what the loop relies on of the
  trait \<open>EvmConnectionState\<close>; its two implementations interpret it.
\<close>

section \<open>State\<close>

definition max_retries :: nat where
  "max_retries = 5"

datatype conn_state = EvmConnecting "nat option" | EvmScreening "string list"

datatype retry_item = RetryGuid string nat | RetryEvm "string list" nat

datatype future = GuidFuture string nat | EvmFuture "string list" nat

record loop_ctx =
  cx_propagate_evm :: bool
  cx_has_pool :: bool
  cx_ttl_secs :: nat
  cx_screener_url :: string
  cx_reconnect_interval :: nat

record loop_env =
  le_instant :: nat
  le_now :: datetime
  le_scan_api :: "string \<Rightarrow> http_answer"
  le_screen_api :: "string list \<Rightarrow> http_answer"
  le_cache_live :: "string \<Rightarrow> bool"
  le_lz_faults :: "lz_call \<Rightarrow> bool"
  le_fresh_faults :: "string \<Rightarrow> score_call \<Rightarrow> bool"
  le_save_faults :: "string \<Rightarrow> score_call \<Rightarrow> bool"
  le_load_faults :: "score_call \<Rightarrow> bool"

record loop_state =
  ls_running :: bool
  ls_guid_queue :: "string list"
  ls_conn :: conn_state
  ls_pending :: "future list"
  ls_pings :: nat
  ls_db :: reputation_db
  ls_cache :: "string list"

section \<open>Connection states\<close>

definition is_fresh :: "loop_ctx \<Rightarrow> loop_env \<Rightarrow> string \<Rightarrow> reputation_db \<Rightarrow> bool" where
  "is_fresh ctx env evm db =
     is_fresh_in_db (cx_has_pool ctx) (le_fresh_faults env evm) (cx_ttl_secs ctx) (le_now env) evm db"

definition save :: "loop_ctx \<Rightarrow> loop_env \<Rightarrow> evm_risk_score \<Rightarrow> reputation_db \<Rightarrow> reputation_db result" where
  "save ctx env score db =
     save_score (cx_has_pool ctx) (le_save_faults env (rs_evm_address score)) score db"

definition save_error :: "loop_ctx \<Rightarrow> loop_env \<Rightarrow> string \<Rightarrow> reputation_db \<Rightarrow> reputation_db" where
  "save_error ctx env evm db = save_or_log (save ctx env) (error_score (le_now env) evm) db"

definition connect :: "loop_ctx \<Rightarrow> loop_env \<Rightarrow> conn_state \<Rightarrow> bool \<times> conn_state" where
  "connect ctx env conn =
     (case conn of
        EvmConnecting last_ping \<Rightarrow>
          (if (case last_ping of None \<Rightarrow> True
               | Some t \<Rightarrow> cx_reconnect_interval ctx \<le> le_instant env - t)
           then (True, EvmConnecting (Some (le_instant env)))
           else (False, conn))
      | EvmScreening q \<Rightarrow> (False, conn))"

definition connecting_process_evms ::
  "loop_ctx \<Rightarrow> loop_env \<Rightarrow> string list \<Rightarrow> nat \<Rightarrow>
   string list \<times> future list \<times> reputation_db \<Rightarrow> string list \<times> future list \<times> reputation_db"
where
  "connecting_process_evms ctx env evms cnt qpd =
     (case qpd of (q, pending, db) \<Rightarrow>
       (q, pending, fold (\<lambda>evm db. if cnt = 0 \<and> \<not> is_fresh ctx env evm db
          then save_error ctx env evm db else db) evms db))"

definition screening_process_evms ::
  "loop_ctx \<Rightarrow> loop_env \<Rightarrow> string list \<Rightarrow> nat \<Rightarrow>
   string list \<times> future list \<times> reputation_db \<Rightarrow> string list \<times> future list \<times> reputation_db"
where
  "screening_process_evms ctx env evms cnt qpd =
     (case qpd of (q, pending, db) \<Rightarrow>
       let seen = set (map to_lowercase evms);
           all = evms @ filter (\<lambda>e. to_lowercase e \<notin> seen) q;
           to_screen = filter (\<lambda>e. \<not> (cnt = 0 \<and> is_fresh ctx env e db)) all
       in if to_screen = [] then ([], pending, db)
          else if cnt < max_retries then ([], pending @ [EvmFuture to_screen cnt], db)
          else ([], pending, fold (save_error ctx env) to_screen db))"

definition process_evms ::
  "loop_ctx \<Rightarrow> loop_env \<Rightarrow> string list \<Rightarrow> nat \<Rightarrow> loop_state \<Rightarrow> loop_state" where
  "process_evms ctx env evms cnt st =
     (case ls_conn st of
        EvmConnecting lp \<Rightarrow>
          (case connecting_process_evms ctx env evms cnt ([], ls_pending st, ls_db st) of
             (q, pending, db) \<Rightarrow> st\<lparr>ls_pending := pending, ls_db := db\<rparr>)
      | EvmScreening queue \<Rightarrow>
          (case screening_process_evms ctx env evms cnt (queue, ls_pending st, ls_db st) of
             (q, pending, db) \<Rightarrow> st\<lparr>ls_conn := EvmScreening q, ls_pending := pending, ls_db := db\<rparr>))"

definition new_evm :: "loop_ctx \<Rightarrow> loop_env \<Rightarrow> string \<Rightarrow> loop_state \<Rightarrow> loop_state" where
  "new_evm ctx env evm st =
     (case ls_conn st of
        EvmConnecting lp \<Rightarrow>
          if is_fresh ctx env evm (ls_db st) then st
          else st\<lparr>ls_db := save_error ctx env evm (ls_db st)\<rparr>
      | EvmScreening queue \<Rightarrow> st\<lparr>ls_conn := EvmScreening (queue @ [evm])\<rparr>)"

section \<open>Futures\<close>

definition guid_future ::
  "loop_ctx \<Rightarrow> loop_env \<Rightarrow> string \<Rightarrow> nat \<Rightarrow> reputation_db \<Rightarrow> retry_item option \<times> reputation_db" where
  "guid_future ctx env guid cnt db =
     (case process_guid (write_evm (cx_propagate_evm ctx) (le_lz_faults env)) (le_scan_api env) guid db of
        (Inr (Some evm), db') \<Rightarrow> (Some (RetryEvm [evm] 0), db')
      | (Inr None, db') \<Rightarrow> (None, db')
      | (Inl e, db') \<Rightarrow> (Some (RetryGuid guid (cnt + 1)), db'))"

definition evm_future ::
  "loop_ctx \<Rightarrow> loop_env \<Rightarrow> string list \<Rightarrow> nat \<Rightarrow> string list \<Rightarrow> reputation_db \<Rightarrow>
   retry_item option \<times> string list \<times> reputation_db"
where
  "evm_future ctx env evms cnt cache db =
     (case screen_evms (save ctx env) (\<lambda>k. k \<in> set cache \<and> le_cache_live env k) (le_screen_api env)
             (\<lambda>_. le_now env) (cx_screener_url ctx) evms db of
        (True, cached, db') \<Rightarrow> (Some (RetryEvm evms (cnt + 1)), cache @ cached, db')
      | (False, cached, db') \<Rightarrow> (None, cache @ cached, db'))"

section \<open>The loop\<close>

definition start_loop :: "loop_env \<Rightarrow> reputation_db \<Rightarrow> loop_state" where
  "start_loop env db =
     \<lparr>ls_running = True, ls_guid_queue = load_pending_guids (le_lz_faults env) db,
      ls_conn = EvmConnecting None, ls_pending = [], ls_pings = 0, ls_db = db, ls_cache = []\<rparr>"

definition on_guid :: "string option \<Rightarrow> loop_state \<Rightarrow> loop_state" where
  "on_guid msg st =
     (case msg of
        Some guid \<Rightarrow> st\<lparr>ls_guid_queue := ls_guid_queue st @ [guid]\<rparr>
      | None \<Rightarrow> st\<lparr>ls_running := False\<rparr>)"

definition on_evm :: "loop_ctx \<Rightarrow> loop_env \<Rightarrow> string option \<Rightarrow> loop_state \<Rightarrow> loop_state" where
  "on_evm ctx env msg st =
     (case msg of
        Some evm \<Rightarrow> new_evm ctx env evm st
      | None \<Rightarrow> st\<lparr>ls_running := False\<rparr>)"

definition on_ping :: "loop_ctx \<Rightarrow> loop_env \<Rightarrow> http_answer \<Rightarrow> loop_state \<Rightarrow> loop_state" where
  "on_ping ctx env answer st =
     (let st1 = st\<lparr>ls_pings := ls_pings st - 1\<rparr> in
      case ping answer of
        Inr _ \<Rightarrow> st1\<lparr>ls_conn := EvmScreening
          (load_pending_evms (cx_has_pool ctx) (le_load_faults env) (ls_db st))\<rparr>
      | Inl e \<Rightarrow> st1)"

definition run_future :: "loop_ctx \<Rightarrow> loop_env \<Rightarrow> future \<Rightarrow> loop_state \<Rightarrow> retry_item option \<times> loop_state" where
  "run_future ctx env f st =
     (case f of
        GuidFuture guid cnt \<Rightarrow>
          (case guid_future ctx env guid cnt (ls_db st) of (item, db) \<Rightarrow> (item, st\<lparr>ls_db := db\<rparr>))
      | EvmFuture evms cnt \<Rightarrow>
          (case evm_future ctx env evms cnt (ls_cache st) (ls_db st) of
             (item, cache, db) \<Rightarrow> (item, st\<lparr>ls_cache := cache, ls_db := db\<rparr>)))"

definition on_item :: "loop_ctx \<Rightarrow> loop_env \<Rightarrow> retry_item \<Rightarrow> loop_state \<Rightarrow> loop_state" where
  "on_item ctx env item st =
     (case item of
        RetryGuid guid cnt \<Rightarrow>
          if cnt < max_retries then st\<lparr>ls_pending := ls_pending st @ [GuidFuture guid cnt]\<rparr>
          else st
      | RetryEvm evms cnt \<Rightarrow> process_evms ctx env evms cnt st)"

definition on_pending :: "loop_ctx \<Rightarrow> loop_env \<Rightarrow> nat \<Rightarrow> loop_state \<Rightarrow> loop_state" where
  "on_pending ctx env i st =
     (let f = ls_pending st ! i;
          st1 = st\<lparr>ls_pending := take i (ls_pending st) @ drop (Suc i) (ls_pending st)\<rparr>
      in case run_future ctx env f st1 of
           (None, st2) \<Rightarrow> st2
         | (Some item, st2) \<Rightarrow> on_item ctx env item st2)"

definition on_tick :: "loop_ctx \<Rightarrow> loop_env \<Rightarrow> loop_state \<Rightarrow> loop_state" where
  "on_tick ctx env st =
     (let st1 = (if ls_pings st = 0
            then (case connect ctx env (ls_conn st) of
                    (True, conn) \<Rightarrow> st\<lparr>ls_conn := conn, ls_pings := 1\<rparr>
                  | (False, conn) \<Rightarrow> st\<lparr>ls_conn := conn\<rparr>)
            else st);
          st2 = st1\<lparr>ls_guid_queue := [],
                    ls_pending := ls_pending st1 @ map (\<lambda>g. GuidFuture g 0) (ls_guid_queue st1)\<rparr>
      in process_evms ctx env [] 0 st2)"

inductive loop_step :: "loop_ctx \<Rightarrow> loop_state \<Rightarrow> loop_state \<Rightarrow> bool" for ctx where
  step_guid: "ls_running st \<Longrightarrow> loop_step ctx st (on_guid msg st)"
| step_evm: "ls_running st \<Longrightarrow> loop_step ctx st (on_evm ctx env msg st)"
| step_ping: "ls_running st \<Longrightarrow> 0 < ls_pings st \<Longrightarrow> loop_step ctx st (on_ping ctx env answer st)"
| step_pending: "ls_running st \<Longrightarrow> i < length (ls_pending st) \<Longrightarrow> loop_step ctx st (on_pending ctx env i st)"
| step_tick: "ls_running st \<Longrightarrow> loop_step ctx st (on_tick ctx env st)"

inductive loop_reachable :: "loop_ctx \<Rightarrow> loop_state \<Rightarrow> bool" for ctx where
  reach_start: "loop_reachable ctx (start_loop env db)"
| reach_step: "loop_reachable ctx st \<Longrightarrow> loop_step ctx st st' \<Longrightarrow> loop_reachable ctx st'"

inductive_cases loop_stepE: "loop_step ctx st st'"

section \<open>The contract of a connection state\<close>

text \<open>
  Processing addresses schedules at most one request, for the attempt it was called with, and
  only while attempts are left; requests already scheduled stay.
\<close>

fun attempt_of :: "future \<Rightarrow> nat" where
  "attempt_of (GuidFuture g c) = c"
| "attempt_of (EvmFuture es c) = c"

fun weight :: "future \<Rightarrow> nat" where
  "weight (GuidFuture g c) = 12 - c"
| "weight (EvmFuture es c) = 6 - c"

definition work :: "future list \<Rightarrow> nat" where
  "work fs = sum_list (map weight fs)"

locale connection_state =
  fixes process_op :: "string list \<Rightarrow> nat \<Rightarrow> 'q \<times> future list \<times> 's \<Rightarrow> 'q \<times> future list \<times> 's"
  assumes schedules: "process_op evms c (q, pending, s) = (q', pending', s') \<Longrightarrow>
    \<exists>new. pending' = pending @ new \<and> (new = [] \<or> c < max_retries \<and> (\<exists>es. new = [EvmFuture es c]))"
begin

lemma attempts_bounded:
  assumes "process_op evms c (q, pending, s) = (q', pending', s')"
    and "\<forall>f \<in> set pending. attempt_of f < max_retries"
  shows "\<forall>f \<in> set pending'. attempt_of f < max_retries"
  using schedules [OF assms(1)] assms(2) by auto

lemma work_bounded:
  assumes "process_op evms c (q, pending, s) = (q', pending', s')"
  shows "work pending' \<le> work pending + (6 - c)"
  using schedules [OF assms] by (auto simp: work_def)

lemma exhausted_schedules_nothing:
  assumes "process_op evms c (q, pending, s) = (q', pending', s')" and "max_retries \<le> c"
  shows "pending' = pending"
  using schedules [OF assms(1)] assms(2) by auto

end

interpretation connecting: connection_state "connecting_process_evms ctx env" for ctx env
  by unfold_locales (simp add: connecting_process_evms_def)

interpretation screening: connection_state "screening_process_evms ctx env" for ctx env
  by unfold_locales (auto simp: screening_process_evms_def Let_def split: if_splits)

section \<open>The loop invariant\<close>

definition is_screening :: "conn_state \<Rightarrow> bool" where
  "is_screening conn \<longleftrightarrow> (case conn of EvmScreening q \<Rightarrow> True | EvmConnecting lp \<Rightarrow> False)"

lemma is_screening_simps [simp]: "is_screening (EvmScreening q)" "\<not> is_screening (EvmConnecting lp)"
  by (simp_all add: is_screening_def)

fun is_evm_future :: "future \<Rightarrow> bool" where
  "is_evm_future (EvmFuture es c) = True"
| "is_evm_future (GuidFuture g c) = False"

definition loop_inv :: "loop_state \<Rightarrow> bool" where
  "loop_inv st \<longleftrightarrow> ls_pings st \<le> 1 \<and> (0 < ls_pings st \<longrightarrow> \<not> is_screening (ls_conn st)) \<and>
     (\<forall>f \<in> set (ls_pending st). attempt_of f < max_retries) \<and>
     (\<forall>f \<in> set (ls_pending st). is_evm_future f \<longrightarrow> is_screening (ls_conn st))"

lemma process_evms_fields [simp]:
  "ls_pings (process_evms ctx env evms c st) = ls_pings st"
  "ls_guid_queue (process_evms ctx env evms c st) = ls_guid_queue st"
  "ls_running (process_evms ctx env evms c st) = ls_running st"
  "ls_cache (process_evms ctx env evms c st) = ls_cache st"
  "is_screening (ls_conn (process_evms ctx env evms c st)) = is_screening (ls_conn st)"
  by (auto simp: process_evms_def is_screening_def split: conn_state.splits prod.splits)

lemma process_evms_schedules:
  "\<exists>new. ls_pending (process_evms ctx env evms c st) = ls_pending st @ new \<and>
     (new = [] \<or> c < max_retries \<and> is_screening (ls_conn st) \<and> (\<exists>es. new = [EvmFuture es c]))"
proof (cases "ls_conn st")
  case (EvmConnecting lp)
  then show ?thesis
    by (auto simp: process_evms_def connecting_process_evms_def)
next
  case (EvmScreening q)
  then show ?thesis
    using screening.schedules [of ctx env evms c q "ls_pending st" "ls_db st"]
    by (auto simp: process_evms_def is_screening_def split: prod.splits)
qed

lemma process_evms_inv: "loop_inv st \<Longrightarrow> loop_inv (process_evms ctx env evms c st)"
  using process_evms_schedules [of ctx env evms c st] by (auto simp: loop_inv_def)


lemma new_evm_fields [simp]:
  "ls_pings (new_evm ctx env evm st) = ls_pings st"
  "ls_pending (new_evm ctx env evm st) = ls_pending st"
  "is_screening (ls_conn (new_evm ctx env evm st)) = is_screening (ls_conn st)"
  by (auto simp: new_evm_def is_screening_def split: conn_state.splits)

lemma run_future_fields:
  assumes "run_future ctx env f st = (item, st')"
  shows "ls_pings st' = ls_pings st \<and> ls_pending st' = ls_pending st \<and> ls_conn st' = ls_conn st \<and>
    ls_running st' = ls_running st \<and> ls_guid_queue st' = ls_guid_queue st"
  using assms by (auto simp: run_future_def split: future.splits prod.splits)




lemma on_item_inv: "loop_inv st \<Longrightarrow> loop_inv (on_item ctx env item st)"
proof (cases item)
  case (RetryGuid g c)
  then show "loop_inv st \<Longrightarrow> ?thesis" by (auto simp: on_item_def loop_inv_def)
next
  case (RetryEvm es c)
  then show "loop_inv st \<Longrightarrow> ?thesis" by (simp add: on_item_def process_evms_inv)
qed

lemma on_pending_inv:
  assumes "loop_inv st" "i < length (ls_pending st)"
  shows "loop_inv (on_pending ctx env i st)"
proof -
  let ?st1 = "st\<lparr>ls_pending := take i (ls_pending st) @ drop (Suc i) (ls_pending st)\<rparr>"
  obtain item st2 where run: "run_future ctx env (ls_pending st ! i) ?st1 = (item, st2)" by force
  have "loop_inv ?st1" using assms(1) by (auto simp: loop_inv_def dest: in_set_takeD in_set_dropD)
  with run_future_fields [OF run] have "loop_inv st2" by (simp add: loop_inv_def)
  with run show ?thesis by (auto simp: on_pending_def Let_def intro: on_item_inv split: option.splits)
qed




lemma on_tick_inv: "loop_inv st \<Longrightarrow> loop_inv (on_tick ctx env st)"
  unfolding on_tick_def Let_def
  by (rule process_evms_inv)
    (auto simp: loop_inv_def connect_def is_screening_def max_retries_def split: conn_state.splits option.splits)

lemma on_ping_inv: "loop_inv st \<Longrightarrow> 0 < ls_pings st \<Longrightarrow> loop_inv (on_ping ctx env answer st)"
  by (auto simp: on_ping_def Let_def loop_inv_def is_screening_def split: sum.splits)

lemma loop_step_inv: "loop_step ctx st st' \<Longrightarrow> loop_inv st \<Longrightarrow> loop_inv st'"
proof (induction rule: loop_step.induct)
  case (step_guid st msg)
  then show ?case by (auto simp: on_guid_def loop_inv_def split: option.splits)
next
  case (step_evm st env msg)
  then show ?case by (auto simp: on_evm_def loop_inv_def split: option.splits)
qed (auto intro: on_ping_inv on_pending_inv on_tick_inv)

lemma start_loop_inv: "loop_inv (start_loop env db)"
  by (simp add: start_loop_def loop_inv_def)

lemma loop_reachable_inv: "loop_reachable ctx st \<Longrightarrow> loop_inv st"
  by (induction rule: loop_reachable.induct) (auto intro: start_loop_inv loop_step_inv)

lemma connect_screening: "is_screening conn \<Longrightarrow> connect ctx env conn = (False, conn)"
  by (auto simp: connect_def is_screening_def split: conn_state.splits)

lemma loop_step_screening: "loop_step ctx st st' \<Longrightarrow> is_screening (ls_conn st) \<Longrightarrow> is_screening (ls_conn st')"
proof (induction rule: loop_step.induct)
  case (step_pending st i env)
  let ?st1 = "st\<lparr>ls_pending := take i (ls_pending st) @ drop (Suc i) (ls_pending st)\<rparr>"
  obtain item st2 where run: "run_future ctx env (ls_pending st ! i) ?st1 = (item, st2)" by force
  with run_future_fields [OF run] step_pending show ?case
    by (auto simp: on_pending_def on_item_def Let_def split: option.splits retry_item.splits)
next
  case (step_tick st env)
  then show ?case by (simp add: on_tick_def Let_def connect_screening)
qed (auto simp: on_guid_def on_evm_def on_ping_def Let_def split: option.splits sum.splits)

section \<open>A working store\<close>

definition store_works :: "loop_ctx \<Rightarrow> loop_env \<Rightarrow> bool" where
  "store_works ctx env \<longleftrightarrow> cx_has_pool ctx \<and> (\<forall>e c. \<not> le_fresh_faults env e c) \<and>
     (\<forall>e c. \<not> le_save_faults env e c) \<and> (\<forall>c. \<not> le_load_faults env c)"

lemma save_works: "store_works ctx env \<Longrightarrow> save ctx env = save_score True (\<lambda>_. False)"
  by (rule ext)+ (simp add: save_def save_score_def save_risk_score_def store_works_def)

lemma find_row_save_error:
  "store_works ctx env \<Longrightarrow> find_row rs_evm_address evm (rd_scores (save_error ctx env e db)) =
     (if evm = e then Some (error_score (le_now env) e) else find_row rs_evm_address evm (rd_scores db))"
  unfolding save_error_def save_works find_row_save by (simp add: error_score_def)

lemma find_row_save_errors:
  "store_works ctx env \<Longrightarrow> evm \<in> set evms \<Longrightarrow>
   find_row rs_evm_address evm (rd_scores (fold (save_error ctx env) evms db)) = Some (error_score (le_now env) evm)"
  by (induction evms rule: rev_induct) (auto simp: find_row_save_error)

lemma load_works: "store_works ctx env \<Longrightarrow>
  load_pending_evms (cx_has_pool ctx) (le_load_faults env) db = load_pending_evms True (\<lambda>_. False) db"
  by (simp add: store_works_def load_pending_evms_def)



lemma failing_guid_step:
  assumes "\<exists>e. fetch_evm (le_scan_api env g) = Inl e" and "ls_pending st = [GuidFuture g c]"
  shows "on_pending ctx env 0 st = st\<lparr>ls_pending := if c + 1 < max_retries then [GuidFuture g (c + 1)] else []\<rparr>"
  using assms
  by (auto simp: on_pending_def Let_def run_future_def guid_future_def process_guid_def on_item_def)

definition sample_ctx :: loop_ctx where
  "sample_ctx = \<lparr>cx_propagate_evm = True, cx_has_pool = True, cx_ttl_secs = 3600,
     cx_screener_url = ''url'', cx_reconnect_interval = 60000\<rparr>"

definition sample_env :: loop_env where
  "sample_env = \<lparr>le_instant = 0, le_now = 0, le_scan_api = (\<lambda>_. NetworkError),
     le_screen_api = (\<lambda>_. NetworkError), le_cache_live = (\<lambda>_. True), le_lz_faults = (\<lambda>_. False),
     le_fresh_faults = (\<lambda>_ _. False), le_save_faults = (\<lambda>_ _. False), le_load_faults = (\<lambda>_. False)\<rparr>"

lemma sample_store_works: "store_works sample_ctx sample_env"
  by (simp add: store_works_def sample_ctx_def sample_env_def)

definition sample_stale_state :: loop_state where
  "sample_stale_state = (start_loop sample_env empty_reputation_db)\<lparr>ls_db := empty_reputation_db\<lparr>rd_scores :=
     [\<lparr>rs_evm_address = ''0xe1'', rs_risk_score = 19 / 10, rs_risk_label = ''hypernative'', rs_source = ''url'',
       rs_recommendation = ''Deny'', rs_severity = ''High'', rs_fetched_at = - 7200000000,
       rs_to_be_updated = False\<rparr>]\<rparr>\<rparr>"

section \<open>Properties\<close>

text \<open>
  Claim C14: In every reachable state of the loop at most one ping is in flight and none once the
  screener is connected, every scheduled future is for attempt 0 to 4 (so no item is ever tried
  more than \<open>MAX_RETRIES\<close> times in a row), and screening requests exist only after the
  connection was made.
\<close>

theorem loop_stays_within_bounds:
  assumes "loop_reachable ctx st"
  shows "ls_pings st \<le> 1 \<and> (0 < ls_pings st \<longrightarrow> \<not> is_screening (ls_conn st)) \<and>
    (\<forall>f \<in> set (ls_pending st). attempt_of f < 5 \<and> (is_evm_future f \<longrightarrow> is_screening (ls_conn st)))"
  using loop_reachable_inv [OF assms] by (auto simp: loop_inv_def max_retries_def)

theorem loop_stays_within_bounds_witness:
  "ls_pings (on_tick sample_ctx sample_env (start_loop sample_env empty_reputation_db)) \<le> 1"
proof -
  let ?st = "start_loop sample_env empty_reputation_db"
  have "loop_reachable sample_ctx ?st" by (rule reach_start)
  moreover have "loop_step sample_ctx ?st (on_tick sample_ctx sample_env ?st)"
    by (rule step_tick) (simp add: start_loop_def)
  ultimately have "loop_reachable sample_ctx (on_tick sample_ctx sample_env ?st)" by (rule reach_step)
  from loop_stays_within_bounds [OF this] show ?thesis by simp
qed

text \<open>
  The connection is permanent: from a reachable state that screens, every later state
  screens and no further ping is sent.
\<close>

theorem connection_is_permanent:
  assumes "loop_reachable ctx st" and "is_screening (ls_conn st)" and "(loop_step ctx)\<^sup>*\<^sup>* st st'"
  shows "is_screening (ls_conn st') \<and> ls_pings st' = 0"
proof -
  from assms(3) assms(1,2) have "loop_reachable ctx st' \<and> is_screening (ls_conn st')"
    by (induction rule: rtranclp_induct) (auto intro: reach_step loop_step_screening)
  then show ?thesis using loop_reachable_inv [of ctx st'] by (auto simp: loop_inv_def)
qed

theorem connection_is_permanent_witness:
  "is_screening (ls_conn (on_ping sample_ctx sample_env (HttpStatus 200 None)
     (on_tick sample_ctx sample_env (start_loop sample_env empty_reputation_db))))"
proof -
  let ?st0 = "start_loop sample_env empty_reputation_db"
  let ?st1 = "on_tick sample_ctx sample_env ?st0"
  let ?st2 = "on_ping sample_ctx sample_env (HttpStatus 200 None) ?st1"
  have "loop_step sample_ctx ?st0 ?st1" by (rule step_tick) (simp add: start_loop_def)
  then have r1: "loop_reachable sample_ctx ?st1" using reach_start reach_step by blast
  have "ls_running ?st1" "0 < ls_pings ?st1"
    by (simp_all add: on_tick_def Let_def start_loop_def connect_def)
  then have "loop_step sample_ctx ?st1 ?st2" by (rule step_ping)
  with r1 have "loop_reachable sample_ctx ?st2" by (rule reach_step)
  moreover have "is_screening (ls_conn ?st2)" by (simp add: on_ping_def Let_def ping_def)
  ultimately show ?thesis using connection_is_permanent [of sample_ctx ?st2 ?st2] by blast
qed



text \<open>
  A GUID whose lookups keep failing is tried exactly five times, with its attempt
  number counting up, and is then dropped from memory; the tables are untouched, so it is still
  pending in the database.
\<close>

theorem failing_guid_is_tried_five_times:
  assumes "\<exists>e. fetch_evm (le_scan_api env g) = Inl e" and "ls_pending st = [GuidFuture g 0]"
  shows "(\<forall>k < 5. ls_pending ((on_pending ctx env 0 ^^ k) st) = [GuidFuture g k]) \<and>
    (on_pending ctx env 0 ^^ 5) st = st\<lparr>ls_pending := []\<rparr>"
proof -
  have run: "(on_pending ctx env 0 ^^ k) st = st\<lparr>ls_pending := [GuidFuture g k]\<rparr>" if "k < 5" for k
    using that
  proof (induction k)
    case 0
    then show ?case using assms(2) by simp
  next
    case (Suc k)
    then show ?case by (simp add: failing_guid_step [OF assms(1)] max_retries_def)
  qed
  have "(on_pending ctx env 0 ^^ 5) st = on_pending ctx env 0 ((on_pending ctx env 0 ^^ 4) st)"
    by (simp add: numeral_eq_Suc)
  then show ?thesis using run by (simp add: failing_guid_step [OF assms(1)] max_retries_def)
qed

theorem failing_guid_is_tried_five_times_witness:
  "(on_pending sample_ctx sample_env 0 ^^ 5)
     ((start_loop sample_env sample_lz_db)\<lparr>ls_pending := [GuidFuture ''0x1'' 0]\<rparr>) =
   (start_loop sample_env sample_lz_db)\<lparr>ls_pending := []\<rparr>"
  using failing_guid_is_tried_five_times [of sample_env "''0x1''"
      "(start_loop sample_env sample_lz_db)\<lparr>ls_pending := [GuidFuture ''0x1'' 0]\<rparr>" sample_ctx]
  by (simp add: sample_env_def fetch_evm_def)

text \<open>
  An address that arrives before the screener is connected is not lost: with a working
  store, unless it has a fresh score it is in the queue the loop loads when the next ping
  succeeds.
\<close>

theorem early_address_is_queued_on_connect:
  assumes "store_works ctx env" and "store_works ctx env'" and "scores_ok (ls_db st)"
    and "ls_conn st = EvmConnecting lp" and "ping answer = Inr ()"
  shows "\<exists>q. ls_conn (on_ping ctx env' answer (on_evm ctx env (Some evm) st)) = EvmScreening q \<and>
    (evm \<in> set q \<or> is_fresh ctx env evm (ls_db st))"
proof (cases "is_fresh ctx env evm (ls_db st)")
  case True
  then show ?thesis using assms by (simp add: on_ping_def on_evm_def new_evm_def Let_def)
next
  case False
  let ?db = "save_error ctx env evm (ls_db st)"
  have "evm \<in> set (load_pending_evms True (\<lambda>_. False) ?db)"
    unfolding save_error_def save_works [OF assms(1)]
    using db_scores.save_or_log_pending [OF assms(3), of "error_score (le_now env) evm"]
    by (simp add: error_score_def)
  with False assms show ?thesis
    by (simp add: on_ping_def on_evm_def new_evm_def Let_def load_works)
qed

theorem early_address_is_queued_on_connect_witness:
  "\<exists>q. ls_conn (on_ping sample_ctx sample_env (HttpStatus 200 None)
       (on_evm sample_ctx sample_env (Some ''0xe1'') (start_loop sample_env empty_reputation_db))) = EvmScreening q \<and>
     ''0xe1'' \<in> set q"
proof -
  let ?st = "start_loop sample_env empty_reputation_db"
  have ok: "scores_ok (ls_db ?st)"
    by (simp add: start_loop_def scores_ok_def empty_reputation_db_def unique_keys_def)
  have conn: "ls_conn ?st = EvmConnecting None" by (simp add: start_loop_def)
  have "\<not> is_fresh sample_ctx sample_env ''0xe1'' (ls_db ?st)"
    by (simp add: is_fresh_def is_fresh_in_db_def start_loop_def empty_reputation_db_def)
  then show ?thesis
    using early_address_is_queued_on_connect [OF sample_store_works sample_store_works ok conn,
        of "HttpStatus 200 None" "''0xe1''"] by (auto simp: ping_def)
qed

text \<open>
  A batch that runs out of retries takes the waiting queue down with it.  When the fifth
  failure of a batch is handled, the addresses queued meanwhile are drained with it: nothing is
  scheduled, the queue is empty, and each of them is stored with the error score 0 without ever
  having been sent to the screener.
\<close>

theorem exhausted_batch_sweeps_queue:
  assumes "store_works ctx env" and "ls_conn st = EvmScreening queue" and "5 \<le> c"
    and "e \<in> set queue" and "to_lowercase e \<notin> set (map to_lowercase evms)"
  shows "ls_pending (on_item ctx env (RetryEvm evms c) st) = ls_pending st \<and>
    ls_conn (on_item ctx env (RetryEvm evms c) st) = EvmScreening [] \<and>
    find_row rs_evm_address e (rd_scores (ls_db (on_item ctx env (RetryEvm evms c) st))) =
      Some (error_score (le_now env) e)"
proof -
  let ?all = "evms @ filter (\<lambda>e. to_lowercase e \<notin> set (map to_lowercase evms)) queue"
  have e: "e \<in> set ?all" using assms(4,5) by simp
  then have "on_item ctx env (RetryEvm evms c) st =
      st\<lparr>ls_conn := EvmScreening [], ls_db := fold (save_error ctx env) ?all (ls_db st)\<rparr>"
    using assms(2,3)
    by (auto simp: on_item_def process_evms_def screening_process_evms_def Let_def max_retries_def)
  with find_row_save_errors [OF assms(1) e] show ?thesis by simp
qed

theorem exhausted_batch_sweeps_queue_witness:
  "ls_conn (on_item sample_ctx sample_env (RetryEvm [''0xe1''] 5)
     ((start_loop sample_env empty_reputation_db)\<lparr>ls_conn := EvmScreening [''0xe2'']\<rparr>)) = EvmScreening []"
  using exhausted_batch_sweeps_queue [OF sample_store_works,
      of "(start_loop sample_env empty_reputation_db)\<lparr>ls_conn := EvmScreening [''0xe2'']\<rparr>" "[''0xe2'']" 5
      "''0xe2''" "[''0xe1'']"]
  by (simp add: to_lowercase_def char_lower_def)

text \<open>
  While the screener is unreachable a stored score that has outlived its TTL is erased:
  when its address arrives again the loop overwrites the row, whatever its score was, with the
  error score 0.
\<close>

theorem outage_erases_stale_score:
  assumes "store_works ctx env" and "ls_conn st = EvmConnecting lp"
    and "find_row rs_evm_address evm (rd_scores (ls_db st)) = Some old"
    and "\<not> is_fresh ctx env evm (ls_db st)"
  shows "find_row rs_evm_address evm (rd_scores (ls_db (on_evm ctx env (Some evm) st))) =
    Some (error_score (le_now env) evm) \<and> rs_risk_score (error_score (le_now env) evm) = 0"
  using assms by (simp add: on_evm_def new_evm_def find_row_save_error error_score_def)

theorem outage_erases_stale_score_witness:
  "map_option rs_risk_score (find_row rs_evm_address ''0xe1'' (rd_scores (ls_db sample_stale_state))) = Some (19 / 10) \<and>
   map_option rs_risk_score (find_row rs_evm_address ''0xe1'' (rd_scores (ls_db
     (on_evm sample_ctx sample_env (Some ''0xe1'') sample_stale_state)))) = Some 0"
proof -
  obtain old where old: "find_row rs_evm_address ''0xe1'' (rd_scores (ls_db sample_stale_state)) = Some old"
    "rs_risk_score old = 19 / 10"
    by (simp add: sample_stale_state_def find_row_Cons)
  have conn: "ls_conn sample_stale_state = EvmConnecting None"
    by (simp add: sample_stale_state_def start_loop_def)
  have "\<not> is_fresh sample_ctx sample_env ''0xe1'' (ls_db sample_stale_state)"
    by (simp add: is_fresh_def is_fresh_in_db_def sample_stale_state_def sample_ctx_def sample_env_def)
  from outage_erases_stale_score [OF sample_store_works conn old(1) this] old show ?thesis by simp
qed

end
