(* ===== verification/ChainData.thy ===== *)
theory ChainData
  imports Prelude
begin

text \<open>
  The parts of the transaction stream's protobuf messages that the processors read (type
  \<open>Transaction\<close> of \<open>aptos_protos\<close> and what hangs below it), with the resource readers of
  \<open>db/resources.rs\<close>, \<open>move_resources.rs\<close> and \<open>v2_object_utils.rs\<close>.  An optional protobuf
  field is an \<open>option\<close>; variants that the code only falls through are one constructor each.
\<close>

section \<open>Events and changes\<close>

record event_key =
  ek_creation_number :: u64
  ek_account_address :: string

record event =
  ev_key :: "event_key option"
  ev_sequence_number :: u64
  ev_type_str :: string
  ev_data :: string

datatype move_type_content = ContentStruct string | ContentOther

record move_type =
  mt_content :: "move_type_content option"
  mt_value :: "json option"

record move_struct_tag =
  st_address :: string
  st_module :: string
  st_name :: string
  st_generic_type_params :: "move_type list"

record write_resource =
  wr_address :: string
  wr_type :: "move_struct_tag option"
  wr_type_str :: string
  wr_data :: string
  wr_state_key_hash :: bytes

record delete_resource =
  dr_address :: string
  dr_type :: "move_struct_tag option"
  dr_type_str :: string
  dr_state_key_hash :: bytes

record write_table_data =
  wtd_key :: string
  wtd_key_type :: string
  wtd_value :: string
  wtd_value_type :: string

record write_table_item =
  wt_state_key_hash :: bytes
  wt_handle :: string
  wt_key :: string
  wt_data :: "write_table_data option"

record delete_table_data =
  dtd_key :: string
  dtd_key_type :: string

record delete_table_item =
  dt_state_key_hash :: bytes
  dt_handle :: string
  dt_key :: string
  dt_data :: "delete_table_data option"

record move_module_abi =
  ab_address :: string
  ab_name :: string
  ab_friends :: "json option list"
  ab_exposed_functions :: "json option list"
  ab_structs :: "json option list"

record move_module_bytecode =
  mb_bytecode :: bytes
  mb_abi :: "move_module_abi option"

record write_module =
  wm_address :: string
  wm_state_key_hash :: bytes
  wm_data :: "move_module_bytecode option"

record delete_module =
  dm_address :: string
  dm_state_key_hash :: bytes
  dm_module_name :: "string option"

datatype change = WriteResource write_resource | DeleteResource delete_resource
  | WriteTableItem write_table_item | DeleteTableItem delete_table_item
  | WriteModule write_module | DeleteModule delete_module

datatype change_type = ChangeUnspecified | ChangeDeleteModule | ChangeDeleteResource
  | ChangeDeleteTableItem | ChangeWriteModule | ChangeWriteResource | ChangeWriteTableItem

record write_set_change =
  wsc_type :: "change_type option"
  wsc_change :: "change option"

record transaction_info =
  ti_hash :: bytes
  ti_state_change_hash :: bytes
  ti_event_root_hash :: bytes
  ti_state_checkpoint_hash :: "bytes option"
  ti_gas_used :: u64
  ti_success :: bool
  ti_vm_status :: string
  ti_accumulator_root_hash :: bytes
  ti_write_set_changes :: "write_set_change list"

abbreviation ti_changes :: "transaction_info \<Rightarrow> change option list" where
  "ti_changes info \<equiv> map wsc_change (ti_write_set_changes info)"

text \<open>
  Of a generic type parameter the code reads the address of a struct tag (\<open>mt_content\<close>) and
  what \<open>serde_json::to_value\<close> makes of it (\<open>mt_value\<close>, \<open>None\<close> when that fails); of the parts
  of a module's interface it reads only the latter.  \<open>wsc_type\<close> is the change type of the raw
  number, \<open>None\<close> for a number without a type; \<open>dm_module_name\<close> is \<open>DeleteModule.module.name\<close>.
\<close>

section \<open>Signatures\<close>

datatype account_signature_type = AccountEd25519 | AccountMultiEd25519 | AccountSingleKey
  | AccountMultiKey | AccountAbstraction | AccountUnspecified

datatype parent_signature_type = ParentEd25519 | ParentMultiEd25519 | ParentMultiAgent
  | ParentFeePayer | ParentSingleSender | ParentUnspecified

datatype any_signature_type = AnyEd25519 | AnySecp256k1Ecdsa | AnyWebauthn | AnyKeyless
  | AnySlhDsaSha2128s | AnyUnspecified

datatype any_public_key_type = KeyEd25519 | KeySecp256k1Ecdsa | KeySecp256r1Ecdsa | KeyKeyless
  | KeyFederatedKeyless | KeySlhDsaSha2128s | KeyUnspecified

datatype signature_variant = VariantEd25519 bytes | VariantKeyless bytes | VariantWebauthn bytes
  | VariantSecp256k1Ecdsa bytes | VariantSlhDsaSha2128s bytes

record any_signature =
  asg_type :: any_signature_type
  asg_signature :: bytes
  asg_signature_variant :: "signature_variant option"

record any_public_key =
  apk_type :: i32
  apk_public_key :: bytes

record ed25519_signature =
  ed_public_key :: bytes
  ed_signature :: bytes

record multi_ed25519_signature =
  me_public_keys :: "bytes list"
  me_signatures :: "bytes list"
  me_threshold :: u32
  me_public_key_indices :: "u32 list"

record indexed_signature =
  ix_index :: u32
  ix_signature :: "any_signature option"

record single_key_signature =
  sk_public_key :: "any_public_key option"
  sk_signature :: "any_signature option"

record multi_key_signature =
  mk_public_keys :: "any_public_key list"
  mk_signatures :: "indexed_signature list"
  mk_signatures_required :: u32

datatype account_signature_body = AsEd25519 ed25519_signature
  | AsMultiEd25519 multi_ed25519_signature | AsSingleKey single_key_signature
  | AsMultiKey multi_key_signature | AsAbstraction

record account_signature =
  acs_type :: account_signature_type
  acs_signature :: "account_signature_body option"

record multi_agent_signature =
  ma_sender :: "account_signature option"
  ma_secondary_signer_addresses :: "string list"
  ma_secondary_signers :: "account_signature list"

record fee_payer_signature =
  fp_sender :: "account_signature option"
  fp_secondary_signer_addresses :: "string list"
  fp_secondary_signers :: "account_signature list"
  fp_fee_payer_address :: string
  fp_fee_payer_signer :: "account_signature option"

datatype signature_body = SigEd25519 ed25519_signature | SigMultiEd25519 multi_ed25519_signature
  | SigMultiAgent multi_agent_signature | SigFeePayer fee_payer_signature
  | SigSingleSender "account_signature option"

record signature_pb =
  spb_type :: parent_signature_type
  spb_signature :: "signature_body option"

text \<open>
  An enumeration field of a message is its value after the accessor \<open>r#type()\<close>, except
  \<open>AnyPublicKey.type\<close>, whose raw number the account restoration processor reads too.
  \<open>SigSingleSender\<close> holds \<open>SingleSender.sender\<close>.
\<close>

section \<open>Transactions\<close>

datatype payload = EntryFunctionPayload "string list" | ScriptPayload "string list" | OtherPayload

record user_request =
  ur_sender :: string
  ur_sequence_number :: u64
  ur_max_gas_amount :: u64
  ur_gas_unit_price :: u64
  ur_expiration_timestamp_secs :: "(int \<times> int) option"
  ur_payload :: "payload option option"
  ur_signature :: "signature_pb option"

record user_transaction =
  ut_events :: "event list"
  ut_request :: "user_request option"

type_synonym write_set = bytes

record genesis_transaction =
  gn_payload :: "write_set option"
  gn_events :: "event list"

record block_metadata_transaction =
  bm_id :: string
  bm_round :: u64
  bm_events :: "event list"
  bm_previous_block_votes_bitvec :: bytes
  bm_proposer :: string
  bm_failed_proposer_indices :: "u32 list"

datatype txn_data = TxnUser user_transaction | TxnGenesis genesis_transaction
  | TxnBlockMetadata block_metadata_transaction | TxnValidator "event list"
  | TxnStateCheckpoint | TxnBlockEpilogue

record event_size_info =
  es_type_tag_bytes :: u32
  es_total_bytes :: u32

record transaction_size_info =
  ts_transaction_bytes :: u32
  ts_event_size_info :: "event_size_info list"

record transaction =
  tx_type :: i32
  tx_version :: u64
  tx_block_height :: u64
  tx_epoch :: u64
  tx_timestamp :: "(int \<times> int) option"
  tx_info :: "transaction_info option"
  tx_size_info :: "transaction_size_info option"
  tx_data :: "txn_data option"

text \<open>
  The two layers of \<open>ur_payload\<close> are \<open>UserTransactionRequest.payload\<close> and
  \<open>TransactionPayload.payload\<close>.  A genesis write set is read by the SDK only, so it is its
  encoding.
\<close>

text \<open>
  Code outside the repository: the SDK's readers of a user request (\<open>utils::extract\<close>), its
  conversions (\<open>utils::convert\<close>), constants and hashes, the canonical JSON printer, chrono's
  \<open>from_timestamp_opt\<close> on seconds and nanoseconds, what generated code makes of enumeration
  numbers, the regular expression \<open>(<(.*)>)\<close>, of which the code takes the inner group, and
  the readers of the SDK's aggregator types (value and maximum) and property maps.
\<close>

record sdk =
  get_entry_function_from_user_request :: "user_request \<Rightarrow> string option"
  get_entry_function_contract_address_from_user_request :: "user_request \<Rightarrow> string option"
  get_entry_function_module_name_from_user_request :: "user_request \<Rightarrow> string option"
  get_entry_function_function_name_from_user_request :: "user_request \<Rightarrow> string option"
  get_replay_protection_nonce_from_user_request :: "user_request \<Rightarrow> u64 option"
  truncate_str :: "string \<Rightarrow> nat \<Rightarrow> string"
  any_public_key_enum :: "i32 \<Rightarrow> any_public_key_type"
  transaction_type_name :: "i32 \<Rightarrow> string option"
  get_clean_payload :: "payload option \<Rightarrow> i64 \<Rightarrow> json option"
  get_payload_type :: "payload option \<Rightarrow> string"
  get_clean_writeset :: "write_set \<Rightarrow> i64 \<Rightarrow> json option"
  get_name_from_unnested_move_type :: "string \<Rightarrow> string"
  canonical_json :: "json \<Rightarrow> string option"
  json_to_string :: "json \<Rightarrow> string"
  hash_str :: "string \<Rightarrow> string"
  sha3_256 :: "bytes \<Rightarrow> bytes"
  hex_to_raw_bytes :: "string \<Rightarrow> bytes option"
  standardize_address_from_bytes :: "bytes \<Rightarrow> string"
  bigdecimal_to_u64 :: "decimal \<Rightarrow> u64"
  from_timestamp_opt :: "int \<Rightarrow> int \<Rightarrow> datetime option"
  parse_timestamp_secs :: "u64 \<Rightarrow> i64 \<Rightarrow> datetime"
  compute_nanos_since_epoch :: "datetime \<Rightarrow> u64"
  aptos_coin_type_str :: string
  apt_metadata_address_hex :: string
  apt_metadata_address_raw :: bytes
  angle_captures :: "string \<Rightarrow> string option"
  aggregator_of_json :: "json \<Rightarrow> (decimal \<times> decimal) option"
  aggregator_snapshot_of_json :: "json \<Rightarrow> decimal option"
  derived_string_of_json :: "json \<Rightarrow> string option"
  property_map_of_json :: "json \<Rightarrow> json option"
  token_object_property_map_of_json :: "json \<Rightarrow> json option"
  ensure_not_negative :: "decimal \<Rightarrow> decimal"

section \<open>Resources\<close>

record move_struct_tag_model =
  ms_resource_address :: string
  ms_module :: string
  ms_fun :: string
  ms_generic_type_params :: "json option"

definition convert_move_struct_tag :: "extern \<Rightarrow> move_struct_tag \<Rightarrow> move_struct_tag_model" where
  "convert_move_struct_tag ext tag =
     \<lparr>ms_resource_address = standardize_address ext (st_address tag), ms_module = st_module tag,
      ms_fun = st_name tag,
      ms_generic_type_params =
        (if list_all (\<lambda>t. mt_value t \<noteq> None) (st_generic_type_params tag)
         then Some (JArray (map (\<lambda>t. the (mt_value t)) (st_generic_type_params tag))) else None)\<rparr>"

definition get_address :: "extern \<Rightarrow> move_struct_tag_model \<Rightarrow> string" where
  "get_address ext tag = standardize_address ext (ms_resource_address tag)"

definition get_outer_type_from_write_resource :: "extern \<Rightarrow> write_resource \<Rightarrow> string result" where
  "get_outer_type_from_write_resource ext wr =
     (case wr_type wr of
        None \<Rightarrow> Inl (Panic ''called Option::unwrap() on a None value'')
      | Some t \<Rightarrow>
          (let tag = convert_move_struct_tag ext t
           in Inr (get_address ext tag @ ''::'' @ ms_module tag @ ''::'' @ ms_fun tag)))"

definition get_outer_type_from_delete_resource :: "extern \<Rightarrow> delete_resource \<Rightarrow> string result" where
  "get_outer_type_from_delete_resource ext dr =
     (case dr_type dr of
        None \<Rightarrow> Inl (Panic ''called Option::unwrap() on a None value'')
      | Some t \<Rightarrow>
          (let tag = convert_move_struct_tag ext t
           in Inr (get_address ext tag @ ''::'' @ ms_module tag @ ''::'' @ ms_fun tag)))"

record move_resource =
  mr_txn_version :: i64
  mr_write_set_change_index :: i64
  mr_block_height :: i64
  mr_fun :: string
  mr_resource_type :: string
  mr_resource_address :: string
  mr_module :: string
  mr_generic_type_params :: "json option"
  mr_data :: "json option"
  mr_is_deleted :: bool
  mr_state_key_hash :: string
  mr_block_timestamp :: datetime

definition move_resource_from_write_resource ::
  "extern \<Rightarrow> write_resource \<Rightarrow> i64 \<Rightarrow> i64 \<Rightarrow> i64 \<Rightarrow> datetime \<Rightarrow> move_resource option result" where
  "move_resource_from_write_resource ext wr index version height ts =
     (case wr_type wr of
        None \<Rightarrow> Inl (ProcessError ''MoveStructTag Does Not Exist'')
      | Some t \<Rightarrow>
          (let parsed = convert_move_struct_tag ext t
           in Inr (Some \<lparr>mr_txn_version = version, mr_write_set_change_index = index,
             mr_block_height = height, mr_fun = ms_fun parsed, mr_resource_type = wr_type_str wr,
             mr_resource_address = standardize_address ext (wr_address wr),
             mr_module = ms_module parsed, mr_generic_type_params = ms_generic_type_params parsed,
             mr_data = json_from_str ext (wr_data wr), mr_is_deleted = False,
             mr_state_key_hash = standardize_address ext (hex_encode ext (wr_state_key_hash wr)),
             mr_block_timestamp = ts\<rparr>)))"

definition move_resource_from_delete_resource ::
  "extern \<Rightarrow> delete_resource \<Rightarrow> i64 \<Rightarrow> i64 \<Rightarrow> i64 \<Rightarrow> datetime \<Rightarrow> move_resource option result" where
  "move_resource_from_delete_resource ext dr index version height ts =
     (case dr_type dr of
        None \<Rightarrow> Inl (ProcessError ''MoveStructTag Does Not Exist'')
      | Some t \<Rightarrow>
          (let parsed = convert_move_struct_tag ext t
           in Inr (Some \<lparr>mr_txn_version = version, mr_write_set_change_index = index,
             mr_block_height = height, mr_fun = ms_fun parsed, mr_resource_type = dr_type_str dr,
             mr_resource_address = standardize_address ext (dr_address dr),
             mr_module = ms_module parsed, mr_generic_type_params = ms_generic_type_params parsed,
             mr_data = None, mr_is_deleted = True,
             mr_state_key_hash = standardize_address ext (hex_encode ext (dr_state_key_hash dr)),
             mr_block_timestamp = ts\<rparr>)))"

definition from_write_resource ::
  "extern \<Rightarrow> string \<Rightarrow> (write_resource \<Rightarrow> 'a option) \<Rightarrow> write_resource \<Rightarrow> 'a option option result" where
  "from_write_resource ext type_str try_from wr =
     (case get_outer_type_from_write_resource ext wr of
        Inl e \<Rightarrow> Inl e
      | Inr ty \<Rightarrow>
          if ty \<noteq> type_str then Inr (Some None) else Inr (map_option Some (try_from wr)))"

text \<open>
  The outer sum is the panic on a missing type tag, the outer option the \<open>Err\<close> of the JSON
  reader, the inner option the answer for a resource of another type.
\<close>

definition type_object_core :: string where
  "type_object_core =
     ''0x0000000000000000000000000000000000000000000000000000000000000001::object::ObjectCore''"

definition type_untransferable :: string where
  "type_untransferable =
     ''0x0000000000000000000000000000000000000000000000000000000000000001::object::Untransferable''"

record object_core =
  oc_allow_ungated_transfer :: bool
  oc_guid_creation_num :: decimal
  oc_owner :: string

record object_with_metadata =
  om_object_core :: object_core
  om_state_key_hash :: string

definition object_core_try_from :: "extern \<Rightarrow> write_resource \<Rightarrow> object_core option" where
  "object_core_try_from ext wr =
     (case json_from_str ext (wr_data wr) of
        None \<Rightarrow> None
      | Some v \<Rightarrow>
          (case (json_get v ''allow_ungated_transfer'',
                 opt_and_then (opt_and_then (json_get v ''guid_creation_num'') json_as_str)
                   (decimal_from_str ext),
                 opt_and_then (json_get v ''owner'') json_as_str) of
             (Some (JBool b), Some g, Some owner) \<Rightarrow>
               Some \<lparr>oc_allow_ungated_transfer = b, oc_guid_creation_num = g, oc_owner = owner\<rparr>
           | _ \<Rightarrow> None))"

definition get_owner_address :: "extern \<Rightarrow> object_core \<Rightarrow> string" where
  "get_owner_address ext oc = standardize_address ext (oc_owner oc)"

definition object_from_write_resource ::
  "extern \<Rightarrow> write_resource \<Rightarrow> object_with_metadata option option result" where
  "object_from_write_resource ext wr =
     (case from_write_resource ext type_object_core (object_core_try_from ext) wr of
        Inl e \<Rightarrow> Inl e
      | Inr res \<Rightarrow> Inr (map_option (map_option
          (\<lambda>oc. \<lparr>om_object_core = oc,
             om_state_key_hash = standardize_address ext (hex_encode ext (wr_state_key_hash wr))\<rparr>)) res))"

definition untransferable_try_from :: "extern \<Rightarrow> write_resource \<Rightarrow> bool option" where
  "untransferable_try_from ext wr =
     (case opt_and_then (json_from_str ext (wr_data wr)) (\<lambda>v. json_get v ''dummy_field'') of
        Some (JBool b) \<Rightarrow> Some b
      | _ \<Rightarrow> None)"

definition untransferable_from_write_resource :: "extern \<Rightarrow> write_resource \<Rightarrow> bool option option result" where
  "untransferable_from_write_resource ext =
     from_write_resource ext type_untransferable (untransferable_try_from ext)"

lemma from_write_resource_panics:
  "(\<exists>e. from_write_resource ext ty try_from wr = Inl e) \<longleftrightarrow> wr_type wr = None"
  by (auto simp: from_write_resource_def get_outer_type_from_write_resource_def Let_def
      split: option.splits)

lemma object_from_write_resource_panics:
  "(\<exists>e. object_from_write_resource ext wr = Inl e) \<longleftrightarrow> wr_type wr = None"
  using from_write_resource_panics [of ext type_object_core "object_core_try_from ext" wr]
  by (auto simp: object_from_write_resource_def split: sum.splits)

end
