(* ===== verification/BridgePayload.thy ===== *)
theory BridgePayload
  imports Prelude SampleExtern
begin

text \<open>
  \<open>intent_payload.rs\<close> and \<open>evm_screening/lz_payload.rs\<close>: the byte-level decoders that recover
  an EVM depositor from a Circle intent or a LayerZero OFT message, and a LayerZero GUID from the
  arguments of the delivering transaction.  JSON and hex come from \<open>extern\<close>.
\<close>

section \<open>Decoders\<close>

definition decode_local_depositor :: "extern \<Rightarrow> bytes \<Rightarrow> string option" where
  "decode_local_depositor ext bs =
     (if length bs < 172 then None
      else let word = take 32 (drop 140 bs) in
        if list_ex (\<lambda>b. b \<noteq> 0) (take 12 word) then None
        else let addr = drop 12 word in
          if list_all (\<lambda>b. b = 0) addr then None
          else Some (''0x'' @ hex_encode ext addr))"

definition parse_hex_arg :: "extern \<Rightarrow> string \<Rightarrow> bytes option" where
  "parse_hex_arg ext arg_json =
     opt_and_then (opt_and_then (json_from_str ext arg_json) json_as_str)
       (\<lambda>s. hex_decode ext (unwrap_or (strip_prefix ''0x'' s) s))"

definition decode_oft_sender :: "extern \<Rightarrow> bytes \<Rightarrow> string option" where
  "decode_oft_sender ext bs =
     (if length bs < 72 then None
      else let word = take 32 (drop 40 bs) in
        if list_ex (\<lambda>b. b \<noteq> 0) (take 12 word) then None
        else let addr = drop 12 word in
          if list_all (\<lambda>b. b = 0) addr then None
          else Some (''0x'' @ hex_encode ext addr))"

definition lz_parse_hex_arg :: "extern \<Rightarrow> string \<Rightarrow> bytes option" where
  "lz_parse_hex_arg ext arg_json =
     opt_and_then (opt_and_then (json_from_str ext arg_json) json_as_str)
       (\<lambda>s. hex_decode ext (unwrap_or (strip_prefix ''0x'' s) s))"

primrec scan_args_for_oft_sender :: "extern \<Rightarrow> string list \<Rightarrow> string option" where
  "scan_args_for_oft_sender ext [] = None"
| "scan_args_for_oft_sender ext (arg # args) =
     (case lz_parse_hex_arg ext arg of
        None \<Rightarrow> scan_args_for_oft_sender ext args
      | Some bs \<Rightarrow>
          (case decode_oft_sender ext bs of
             Some evm \<Rightarrow> Some evm
           | None \<Rightarrow> scan_args_for_oft_sender ext args))"

primrec extract_guid_from_args :: "extern \<Rightarrow> string list \<Rightarrow> string option" where
  "extract_guid_from_args ext [] = None"
| "extract_guid_from_args ext (arg # args) =
     (case lz_parse_hex_arg ext arg of
        None \<Rightarrow> extract_guid_from_args ext args
      | Some bs \<Rightarrow>
          if length bs = 32 \<and> list_ex (\<lambda>b. b \<noteq> 0) (take 12 bs)
          then Some (''0x'' @ hex_encode ext bs)
          else extract_guid_from_args ext args)"

section \<open>Wire formats\<close>

text \<open>
  The serializers on the other side of the wire, as the comments of the two files lay the
  messages out: a 32-byte word holds an EVM address right-aligned.
\<close>

definition evm_word :: "bytes \<Rightarrow> bytes" where
  "evm_word addr = replicate 12 0 @ addr"

definition intent_bytes :: "bytes \<Rightarrow> bytes \<Rightarrow> bytes \<Rightarrow> bytes" where
  "intent_bytes prefix addr rest = prefix @ evm_word addr @ rest"

definition oft_bytes :: "bytes \<Rightarrow> bytes \<Rightarrow> bytes \<Rightarrow> bytes \<Rightarrow> bytes" where
  "oft_bytes to_word amount_sd addr compose = to_word @ amount_sd @ evm_word addr @ compose"

definition json_hex_arg :: "extern \<Rightarrow> bytes \<Rightarrow> string" where
  "json_hex_arg ext bs = [CHR 0x22] @ ''0x'' @ hex_encode ext bs @ [CHR 0x22]"

definition evm_address :: "bytes \<Rightarrow> bool" where
  "evm_address addr \<longleftrightarrow> length addr = 20 \<and> list_ex (\<lambda>b. b \<noteq> 0) addr"

text \<open>The documented laws of the JSON parser and the hex codec that the decoders rely on.\<close>

definition hex_codec_ok :: "extern \<Rightarrow> bool" where
  "hex_codec_ok ext \<longleftrightarrow> (\<forall>bs. hex_decode ext (hex_encode ext bs) = Some bs) \<and>
     (\<forall>bs. length (hex_encode ext bs) = 2 * length bs)"

definition json_reads_hex :: "extern \<Rightarrow> bool" where
  "json_reads_hex ext \<longleftrightarrow>
     (\<forall>bs. json_from_str ext (json_hex_arg ext bs) = Some (JString (''0x'' @ hex_encode ext bs)))"

section \<open>Lemmas\<close>

lemma strip_prefix_append [simp]: "strip_prefix p (p @ s) = Some s"
  by (simp add: strip_prefix_def)

lemma parse_hex_arg_json:
  assumes "hex_codec_ok ext" "json_reads_hex ext"
  shows "parse_hex_arg ext (json_hex_arg ext bs) = Some bs"
    "lz_parse_hex_arg ext (json_hex_arg ext bs) = Some bs"
  using assms strip_prefix_append [of "''0x''" "hex_encode ext bs"]
  by (simp_all add: parse_hex_arg_def lz_parse_hex_arg_def opt_and_then_def unwrap_or_def
      json_reads_hex_def hex_codec_ok_def)

lemma evm_word_parts:
  "take 12 (evm_word addr) = replicate 12 0" "drop 12 (evm_word addr) = addr"
  "length (evm_word addr) = 12 + length addr"
  by (simp_all add: evm_word_def)

lemma padding_free: "\<not> list_ex (\<lambda>b. b \<noteq> 0) (replicate n (0 :: u8))"
  by (induction n) auto

lemma evm_address_nonzero: "evm_address addr \<Longrightarrow> \<not> list_all (\<lambda>b. b = 0) addr"
  by (auto simp: evm_address_def list_all_iff list_ex_iff)

lemma word_decode:
  assumes "length bs = n + 32" "take 32 (drop n bs) = word"
    and "\<not> list_ex (\<lambda>b. b \<noteq> 0) (take 12 word)"
  shows "word = evm_word (drop 12 word)"
proof -
  have "length word = 32" using assms by auto
  then have "take 12 word = replicate 12 0"
    using assms(3) by (intro replicate_eqI) (auto simp: list_ex_iff)
  then show ?thesis unfolding evm_word_def by (metis append_take_drop_id)
qed

lemma decode_local_depositor_intent:
  assumes "length prefix = 140" "evm_address addr"
  shows "decode_local_depositor ext (intent_bytes prefix addr rest) = Some (''0x'' @ hex_encode ext addr)"
  using assms evm_address_nonzero [OF assms(2)] padding_free [of 12]
  by (simp add: decode_local_depositor_def intent_bytes_def evm_word_parts evm_address_def Let_def)

lemma decode_oft_sender_oft:
  assumes "length to_word = 32" "length amount_sd = 8" "evm_address addr"
  shows "decode_oft_sender ext (oft_bytes to_word amount_sd addr compose) = Some (''0x'' @ hex_encode ext addr)"
  using assms evm_address_nonzero [OF assms(3)] padding_free [of 12]
  by (simp add: decode_oft_sender_def oft_bytes_def evm_word_parts evm_address_def Let_def)

lemma decode_oft_sender_short: "length bs < 72 \<Longrightarrow> decode_oft_sender ext bs = None"
  by (simp add: decode_oft_sender_def)

lemma scan_as_find_map:
  "scan_args_for_oft_sender ext args =
     find_map (\<lambda>a. opt_and_then (lz_parse_hex_arg ext a) (decode_oft_sender ext)) args"
  by (induction args) (auto simp: opt_and_then_def split: option.splits)

lemma guid_as_find_map:
  "extract_guid_from_args ext args =
     find_map (\<lambda>a. opt_and_then (lz_parse_hex_arg ext a)
       (\<lambda>bs. if length bs = 32 \<and> list_ex (\<lambda>b. b \<noteq> 0) (take 12 bs)
             then Some (''0x'' @ hex_encode ext bs) else None)) args"
  by (induction args) (auto simp: opt_and_then_def split: option.splits)

lemma sample_codec: "hex_codec_ok sample_extern" "json_reads_hex sample_extern"
  by (simp_all add: hex_codec_ok_def json_reads_hex_def json_hex_arg_def sample_extern_def
      sample_hex_roundtrip length_sample_hex_encode sample_json_def)

lemma evm_word_at_decode:
  assumes "n + 32 \<le> length bs" "\<not> list_ex (\<lambda>b. b \<noteq> 0) (take 12 (take 32 (drop n bs)))"
    "\<not> list_all (\<lambda>b. b = 0) (drop 12 (take 32 (drop n bs)))"
  shows "bs = take n bs @ evm_word (drop 12 (take 32 (drop n bs))) @ drop (n + 32) bs \<and>
    evm_address (drop 12 (take 32 (drop n bs)))"
proof -
  let ?word = "take 32 (drop n bs)"
  have "?word = evm_word (drop 12 ?word)"
    using assms by (intro word_decode [of "take (n + 32) bs" n]) (auto simp: drop_take)
  moreover have "bs = take n bs @ ?word @ drop (n + 32) bs"
    by (metis add.commute append_take_drop_id drop_drop)
  moreover have "evm_address (drop 12 ?word)"
    using assms by (auto simp: evm_address_def list_all_iff list_ex_iff)
  ultimately show ?thesis by metis
qed

section \<open>Properties\<close>

text \<open>
  Claim C17: The Circle decoder accepts exactly the well-formed intents.  It returns an address if
  and only if the bytes are a 140-byte prefix, twelve zero bytes, a 20-byte address that is not
  all zero and any trailing bytes, and the answer is that address in hex; in particular what a
  serializer wrote is read back, and every shorter or malformed buffer is refused.
\<close>

theorem decode_local_depositor_iff:
  "decode_local_depositor ext bs = Some s \<longleftrightarrow>
     (\<exists>prefix addr rest. bs = intent_bytes prefix addr rest \<and> length prefix = 140 \<and>
        evm_address addr \<and> s = ''0x'' @ hex_encode ext addr)"
proof
  assume dec: "decode_local_depositor ext bs = Some s"
  let ?addr = "drop 12 (take 32 (drop 140 bs))"
  from dec have "140 + 32 \<le> length bs" "\<not> list_ex (\<lambda>b. b \<noteq> 0) (take 12 (take 32 (drop 140 bs)))"
    "\<not> list_all (\<lambda>b. b = 0) ?addr" "s = ''0x'' @ hex_encode ext ?addr"
    by (auto simp: decode_local_depositor_def Let_def split: if_splits)
  with evm_word_at_decode [of 140 bs]
  have "bs = intent_bytes (take 140 bs) ?addr (drop 172 bs) \<and> length (take 140 bs) = 140 \<and>
      evm_address ?addr \<and> s = ''0x'' @ hex_encode ext ?addr"
    by (simp add: intent_bytes_def)
  then show "\<exists>prefix addr rest. bs = intent_bytes prefix addr rest \<and> length prefix = 140 \<and>
      evm_address addr \<and> s = ''0x'' @ hex_encode ext addr" by blast
qed (use decode_local_depositor_intent in blast)

text \<open>
  Claim C18: The arguments of a LayerZero delivery are read back.  When the arguments before the
  GUID are no hex strings, not 32 bytes long or zero-padded words, the GUID is found; when those
  before the message are shorter than 72 bytes, the compose sender of the message is found,
  wherever the two arguments stand.
\<close>

theorem lz_delivery_read_back:
  assumes ext: "hex_codec_ok ext" "json_reads_hex ext"
    and guid: "length guid = 32" "list_ex (\<lambda>b. b \<noteq> 0) (take 12 guid)"
    and before_guid: "\<forall>a \<in> set pre. \<forall>bs. lz_parse_hex_arg ext a = Some bs \<longrightarrow>
      length bs \<noteq> 32 \<or> take 12 bs = replicate 12 0"
    and msg: "length to_word = 32" "length amount_sd = 8" "evm_address addr"
    and before_msg: "\<forall>a \<in> set (pre @ mid). \<forall>bs. lz_parse_hex_arg ext a = Some bs \<longrightarrow> length bs < 72"
    and args: "args = pre @ json_hex_arg ext guid # mid @
      json_hex_arg ext (oft_bytes to_word amount_sd addr compose) # post"
  shows "extract_guid_from_args ext args = Some (''0x'' @ hex_encode ext guid) \<and>
    scan_args_for_oft_sender ext args = Some (''0x'' @ hex_encode ext addr)"
proof
  let ?g = "\<lambda>a. opt_and_then (lz_parse_hex_arg ext a)
    (\<lambda>bs. if length bs = 32 \<and> list_ex (\<lambda>b. b \<noteq> 0) (take 12 bs)
          then Some (''0x'' @ hex_encode ext bs) else None)"
  have "find_map ?g pre = None"
    using before_guid padding_free [of 12]
    by (auto simp: find_map_None_iff opt_and_then_def split: option.splits)
  then show "extract_guid_from_args ext args = Some (''0x'' @ hex_encode ext guid)"
    using guid by (simp add: args guid_as_find_map find_map_append parse_hex_arg_json [OF ext] opt_and_then_def)
  let ?s = "\<lambda>a. opt_and_then (lz_parse_hex_arg ext a) (decode_oft_sender ext)"
  have "find_map ?s pre = None" "find_map ?s mid = None"
    using before_msg
    by (auto simp: find_map_None_iff opt_and_then_def split: option.splits
        intro!: decode_oft_sender_short)
  then show "scan_args_for_oft_sender ext args = Some (''0x'' @ hex_encode ext addr)"
    using guid msg by (simp add: args scan_as_find_map find_map_append parse_hex_arg_json [OF ext]
        opt_and_then_def decode_oft_sender_short decode_oft_sender_oft)
qed

theorem lz_delivery_read_back_witness:
  "extract_guid_from_args sample_extern
     [''30101'', json_hex_arg sample_extern (replicate 32 7),
      json_hex_arg sample_extern (oft_bytes (replicate 32 0) (replicate 8 0) (replicate 20 5) [])] =
     Some (''0x'' @ concat (replicate 32 ''07'')) \<and>
   scan_args_for_oft_sender sample_extern
     [''30101'', json_hex_arg sample_extern (replicate 32 7),
      json_hex_arg sample_extern (oft_bytes (replicate 32 0) (replicate 8 0) (replicate 20 5) [])] =
     Some (''0x'' @ concat (replicate 20 ''05''))"
proof -
  have enc: "hex_encode sample_extern (replicate n b) = concat (replicate n (hex_encode sample_extern [b]))" for n b
    by (induction n) (auto simp: sample_extern_def sample_hex_encode_def)
  have none: "lz_parse_hex_arg sample_extern ''30101'' = None"
    by (simp add: lz_parse_hex_arg_def sample_extern_def sample_json_def opt_and_then_def)
  have "hex_encode sample_extern [7] = ''07''" "hex_encode sample_extern [5] = ''05''"
    by (simp_all add: sample_extern_def sample_hex_encode_def hex_digit_def)
  moreover have "list_ex (\<lambda>b. b \<noteq> 0) (take 12 (replicate 32 (7 :: u8)))"
    "evm_address (replicate 20 5)"
    by (simp_all add: evm_address_def list_ex_iff)
  ultimately show ?thesis
    using lz_delivery_read_back [OF sample_codec, of "replicate 32 7" "[''30101'']" "replicate 32 0"
        "replicate 8 0" "replicate 20 5" "[]" _ "[]" "[]"] none
    by (simp only: enc) simp
qed

end
