(* ===== verification/ReputationExtractor.thy ===== *)
theory ReputationExtractor
  imports ChainData BridgePayload ReputationStorer "HOL-Library.Sublist"
begin

text \<open>
  \<open>address_reputation_extractor.rs\<close>: from the events of a batch of transactions to transfer
  edges and bridge inflows.  The body of \<open>process\<close> is split at its comments: the resource
  scan, the classification of events, the greedy pairing of withdraws with deposits and the
  synthesis of one head edge per inflow.  The two hash maps are maps, the channel to the
  screening loop is the list of the addresses sent.  A resource without a type tag panics.
\<close>

section \<open>Definitions\<close>

record parsed_side =
  side_event_index :: i64
  side_address :: string
  side_storage_id :: string
  side_amount :: decimal

primrec json_walk :: "json \<Rightarrow> string list \<Rightarrow> json option" where
  "json_walk cur [] = Some cur"
| "json_walk cur (seg # segs) =
     (case json_get cur seg of None \<Rightarrow> None | Some next \<Rightarrow> json_walk next segs)"

definition json_field :: "json \<Rightarrow> string \<Rightarrow> string option" where
  "json_field data path =
     (case json_walk data (str_split CHR ''.'' path) of
        Some (JString s) \<Rightarrow> Some s
      | Some (JNumber n) \<Rightarrow> Some n
      | _ \<Rightarrow> None)"

definition payload_args :: "transaction \<Rightarrow> string list option" where
  "payload_args txn =
     (case tx_data txn of
        Some (TxnUser user) \<Rightarrow>
          (case opt_and_then (ut_request user) ur_payload of
             Some (Some (EntryFunctionPayload args)) \<Rightarrow> Some args
           | Some (Some (ScriptPayload args)) \<Rightarrow> Some args
           | _ \<Rightarrow> None)
      | _ \<Rightarrow> None)"

definition decode_payload_evm_source :: "extern \<Rightarrow> transaction \<Rightarrow> string option \<Rightarrow> string option" where
  "decode_payload_evm_source ext txn kind =
     (case kind of
        None \<Rightarrow> None
      | Some k \<Rightarrow>
          (case payload_args txn of
             None \<Rightarrow> None
           | Some args \<Rightarrow>
               if k = ''circle_intent'' then
                 (case args of
                    [] \<Rightarrow> None
                  | arg # _ \<Rightarrow>
                      (case parse_hex_arg ext arg of
                         None \<Rightarrow> None
                       | Some bs \<Rightarrow> decode_local_depositor ext bs))
               else if k = ''layerzero_oft'' then scan_args_for_oft_sender ext args
               else None))"

definition extract_payload_guid :: "extern \<Rightarrow> transaction \<Rightarrow> string option \<Rightarrow> string option" where
  "extract_payload_guid ext txn kind =
     (if kind \<noteq> Some ''layerzero_oft'' then None
      else case payload_args txn of
             None \<Rightarrow> None
           | Some args \<Rightarrow> extract_guid_from_args ext args)"

definition parse_bridge_event ::
  "extern \<Rightarrow> string \<Rightarrow> bridge_registry_entry \<Rightarrow> i64 \<Rightarrow> i64 \<Rightarrow> datetime \<Rightarrow> bridge_inflow option" where
  "parse_bridge_event ext raw entry txn_version event_index block_timestamp =
     (case json_from_str ext raw of
        None \<Rightarrow> None
      | Some v \<Rightarrow>
          (let evm_source = opt_and_then (re_evm_source_field_path entry) (json_field v) in
           case json_field v (re_recipient_field_path entry) of
             None \<Rightarrow> None
           | Some recipient \<Rightarrow>
               (case opt_and_then (json_field v (re_amount_field_path entry)) (decimal_from_str ext) of
                  None \<Rightarrow> None
                | Some amount \<Rightarrow>
                    Some \<lparr>bi_transaction_version = txn_version, bi_event_index = event_index,
                      bi_bridge_name = re_bridge_name entry,
                      bi_aptos_recipient = standardize_address ext recipient,
                      bi_evm_source = evm_source,
                      bi_src_chain_id = opt_and_then
                        (opt_and_then (re_chain_id_field_path entry) (json_field v)) parse_i32,
                      bi_asset_type = None, bi_amount = amount, bi_lz_guid = None,
                      bi_transaction_timestamp = block_timestamp\<rparr>)))"

type_synonym storage_maps = "(string \<rightharpoonup> string) \<times> (string \<rightharpoonup> string)"

definition scan_change :: "extern \<Rightarrow> change option \<Rightarrow> storage_maps \<Rightarrow> storage_maps result" where
  "scan_change ext wsc maps =
     (case wsc of
        Some (WriteResource wr) \<Rightarrow>
          (case object_from_write_resource ext wr of
             Inl e \<Rightarrow> Inl e
           | Inr obj \<Rightarrow>
               (let owners = (case obj of
                      Some (Some ob) \<Rightarrow> (fst maps)(standardize_address ext (wr_address wr) \<mapsto>
                        get_owner_address ext (om_object_core ob))
                    | _ \<Rightarrow> fst maps);
                    assets =
                      (if wr_type_str wr = ''0x1::fungible_asset::FungibleStore''
                       then (case opt_and_then (opt_and_then (opt_and_then
                               (json_from_str ext (wr_data wr)) (\<lambda>p. json_get p ''metadata''))
                               (\<lambda>m. json_get m ''inner'')) json_as_str of
                               None \<Rightarrow> snd maps
                             | Some meta \<Rightarrow> (snd maps)(standardize_address ext (wr_address wr) \<mapsto>
                                 standardize_address ext meta))
                       else snd maps)
                in Inr (owners, assets)))
      | _ \<Rightarrow> Inr maps)"

definition storage_scan :: "extern \<Rightarrow> transaction \<Rightarrow> storage_maps result" where
  "storage_scan ext txn =
     (case tx_info txn of
        None \<Rightarrow> Inr (Map.empty, Map.empty)
      | Some info \<Rightarrow> fold_result (scan_change ext) (ti_changes info) (Map.empty, Map.empty))"

datatype classified = CBridge bridge_inflow | CWithdraw parsed_side | CDeposit parsed_side | CSkip

definition parse_side :: "extern \<Rightarrow> (string \<rightharpoonup> string) \<Rightarrow> i64 \<Rightarrow> string \<Rightarrow> parsed_side option" where
  "parse_side ext owners event_index data =
     (case json_from_str ext data of
        None \<Rightarrow> None
      | Some v \<Rightarrow>
          (case opt_and_then (json_get v ''store'') json_as_str of
             None \<Rightarrow> None
           | Some s \<Rightarrow>
               (let storage_id = standardize_address ext s in
                case opt_and_then (opt_and_then (json_get v ''amount'') json_as_str)
                       (decimal_from_str ext) of
                  None \<Rightarrow> None
                | Some amount \<Rightarrow>
                    Some \<lparr>side_event_index = event_index,
                          side_address = unwrap_or (owners storage_id) storage_id,
                          side_storage_id = storage_id, side_amount = amount\<rparr>)))"

definition bridge_classify ::
  "extern \<Rightarrow> bridge_registry_entry list \<Rightarrow> transaction \<Rightarrow> datetime \<Rightarrow> i64 \<Rightarrow> event \<Rightarrow> bridge_inflow option"
where
  "bridge_classify ext registry txn block_timestamp event_index ev =
     (case find (\<lambda>e. re_enabled e \<and> re_event_type e = ev_type_str ev) registry of
        None \<Rightarrow> None
      | Some entry \<Rightarrow>
          (case parse_bridge_event ext (ev_data ev) entry (tx_version txn) event_index block_timestamp of
             None \<Rightarrow> None
           | Some inflow \<Rightarrow>
               (let kind = re_payload_kind entry;
                    inflow1 = (if bi_evm_source inflow = None
                      then inflow\<lparr>bi_evm_source := decode_payload_evm_source ext txn kind\<rparr> else inflow)
                in Some (if bi_lz_guid inflow1 = None
                      then inflow1\<lparr>bi_lz_guid := extract_payload_guid ext txn kind\<rparr> else inflow1))))"

definition classify_event ::
  "extern \<Rightarrow> bridge_registry_entry list \<Rightarrow> transaction \<Rightarrow> datetime \<Rightarrow> (string \<rightharpoonup> string) \<Rightarrow>
   nat \<times> event \<Rightarrow> classified"
where
  "classify_event ext registry txn block_timestamp owners ie =
     (let event_index = of_nat (fst ie); ev = snd ie in
      case bridge_classify ext registry txn block_timestamp event_index ev of
        Some inflow \<Rightarrow> CBridge inflow
      | None \<Rightarrow>
          if ev_type_str ev = ''0x1::fungible_asset::Withdraw'' then
            (case parse_side ext owners event_index (ev_data ev) of
               None \<Rightarrow> CSkip | Some side \<Rightarrow> CWithdraw side)
          else if ev_type_str ev = ''0x1::fungible_asset::Deposit'' then
            (case parse_side ext owners event_index (ev_data ev) of
               None \<Rightarrow> CSkip | Some side \<Rightarrow> CDeposit side)
          else CSkip)"

definition bridge_events :: "classified list \<Rightarrow> bridge_inflow list" where
  "bridge_events cs = List.map_filter (\<lambda>c. case c of CBridge bi \<Rightarrow> Some bi | _ \<Rightarrow> None) cs"

definition withdraw_sides :: "classified list \<Rightarrow> parsed_side list" where
  "withdraw_sides cs = List.map_filter (\<lambda>c. case c of CWithdraw w \<Rightarrow> Some w | _ \<Rightarrow> None) cs"

definition deposit_sides :: "classified list \<Rightarrow> parsed_side list" where
  "deposit_sides cs = List.map_filter (\<lambda>c. case c of CDeposit d \<Rightarrow> Some d | _ \<Rightarrow> None) cs"

primrec pair_sides :: "parsed_side list \<Rightarrow> bool list \<Rightarrow> parsed_side list \<Rightarrow> (parsed_side \<times> nat) list" where
  "pair_sides deposits used [] = []"
| "pair_sides deposits used (w # ws) =
     (case find (\<lambda>(i, d). \<not> used ! i \<and> side_amount d = side_amount w \<and> side_address d \<noteq> side_address w)
             (enumerate 0 deposits) of
        None \<Rightarrow> pair_sides deposits used ws
      | Some (i, d) \<Rightarrow> (w, i) # pair_sides deposits (used[i := True]) ws)"

definition paired_edge ::
  "i64 \<Rightarrow> datetime \<Rightarrow> (string \<rightharpoonup> string) \<Rightarrow> bridge_inflow list \<Rightarrow> parsed_side \<Rightarrow> parsed_side \<Rightarrow> transfer_edge"
where
  "paired_edge txn_version block_timestamp assets txn_inflows w d =
     (let bridge_match = find (\<lambda>bi. bi_aptos_recipient bi = side_address d \<and> bi_amount bi = side_amount d)
            txn_inflows
      in \<lparr>te_transaction_version = txn_version, te_event_index = side_event_index w,
          te_from_address = side_address w, te_to_address = side_address d,
          te_asset_type = opt_or (assets (side_storage_id w)) (assets (side_storage_id d)),
          te_amount = side_amount w, te_is_bridge_inflow = (bridge_match \<noteq> None),
          te_bridge_name = map_option bi_bridge_name bridge_match,
          te_transaction_timestamp = block_timestamp\<rparr>)"

definition inflow_asset :: "(string \<rightharpoonup> string) \<Rightarrow> parsed_side list \<Rightarrow> bridge_inflow \<Rightarrow> string option" where
  "inflow_asset assets deposits bi =
     find_map (\<lambda>d. if side_address d = bi_aptos_recipient bi \<and> side_amount d = bi_amount bi
                   then assets (side_storage_id d) else None) deposits"

definition head_edge ::
  "bridge_registry_entry list \<Rightarrow> (string \<rightharpoonup> string) \<Rightarrow> parsed_side list \<Rightarrow> bridge_inflow \<Rightarrow>
   bridge_inflow \<times> transfer_edge"
where
  "head_edge registry assets deposits bi =
     (let from_addr = (case find (\<lambda>e. re_bridge_name e = bi_bridge_name bi) registry of
            Some e \<Rightarrow> re_module_address e
          | None \<Rightarrow> ''bridge::'' @ bi_bridge_name bi);
          asset = inflow_asset assets deposits bi;
          bi' = (if asset \<noteq> None then bi\<lparr>bi_asset_type := asset\<rparr> else bi)
      in (bi', \<lparr>te_transaction_version = bi_transaction_version bi', te_event_index = bi_event_index bi',
                te_from_address = from_addr, te_to_address = bi_aptos_recipient bi',
                te_asset_type = asset, te_amount = bi_amount bi', te_is_bridge_inflow = True,
                te_bridge_name = Some (bi_bridge_name bi'),
                te_transaction_timestamp = bi_transaction_timestamp bi'\<rparr>))"

record extracted =
  ex_edges :: "transfer_edge list"
  ex_inflows :: "bridge_inflow list"
  ex_evms_sent :: "string list"

definition assemble ::
  "bridge_registry_entry list \<Rightarrow> i64 \<Rightarrow> datetime \<Rightarrow> (string \<rightharpoonup> string) \<Rightarrow> classified list \<Rightarrow> extracted"
where
  "assemble registry txn_version block_timestamp assets cs =
     (let txn_inflows = bridge_events cs; withdraws = withdraw_sides cs; deposits = deposit_sides cs;
          pairs = pair_sides deposits (replicate (length deposits) False) withdraws;
          heads = map (head_edge registry assets deposits) txn_inflows
      in \<lparr>ex_edges = map (\<lambda>(w, i). paired_edge txn_version block_timestamp assets txn_inflows w (deposits ! i)) pairs
            @ map snd heads,
          ex_inflows = map fst heads,
          ex_evms_sent = List.map_filter bi_evm_source txn_inflows\<rparr>)"

definition empty_extracted :: extracted where
  "empty_extracted = \<lparr>ex_edges = [], ex_inflows = [], ex_evms_sent = []\<rparr>"

definition append_extracted :: "extracted \<Rightarrow> extracted \<Rightarrow> extracted" where
  "append_extracted a b = \<lparr>ex_edges = ex_edges a @ ex_edges b, ex_inflows = ex_inflows a @ ex_inflows b,
     ex_evms_sent = ex_evms_sent a @ ex_evms_sent b\<rparr>"

definition extract_txn ::
  "extern \<Rightarrow> bridge_registry_entry list \<Rightarrow> transaction \<Rightarrow> extracted \<Rightarrow> extracted result" where
  "extract_txn ext registry txn acc =
     (case (tx_timestamp txn, tx_data txn) of
        (Some ts, Some (TxnUser inner)) \<Rightarrow>
          (let txn_version = tx_version txn;
               block_timestamp = parse_timestamp ext ts txn_version
           in case storage_scan ext txn of
                Inl e \<Rightarrow> Inl e
              | Inr (owners, assets) \<Rightarrow>
                  (let cs = map (classify_event ext registry txn block_timestamp owners)
                              (enumerate 0 (ut_events inner))
                   in Inr (append_extracted acc
                        (assemble registry txn_version block_timestamp assets cs))))
      | _ \<Rightarrow> Inr acc)"

definition extractor_process ::
  "extern \<Rightarrow> bridge_registry_entry list \<Rightarrow> transaction list \<Rightarrow> extracted result" where
  "extractor_process ext registry txns =
     fold_result (extract_txn ext registry) txns empty_extracted"

section \<open>Lemmas\<close>

subsection \<open>Pairing\<close>

definition compatible :: "parsed_side \<Rightarrow> parsed_side \<Rightarrow> bool" where
  "compatible w d \<longleftrightarrow> side_amount d = side_amount w \<and> side_address d \<noteq> side_address w"

lemma pair_find_Some:
  assumes "find (\<lambda>(i, d). \<not> used ! i \<and> side_amount d = side_amount w \<and> side_address d \<noteq> side_address w)
    (enumerate 0 ds) = Some (i, d)"
  shows "i < length ds \<and> ds ! i = d \<and> \<not> used ! i \<and> compatible w d"
  using assms by (auto simp: find_Some_iff in_set_enumerate_eq nth_enumerate_eq compatible_def)

lemma pair_find_None:
  assumes "find (\<lambda>(i, d). \<not> used ! i \<and> side_amount d = side_amount w \<and> side_address d \<noteq> side_address w)
    (enumerate 0 ds) = None" and "i < length ds" and "\<not> used ! i"
  shows "\<not> compatible w (ds ! i)"
  using assms by (auto simp: find_None_iff in_set_enumerate_eq compatible_def)

lemma pair_sides_sound:
  "length used = length ds \<Longrightarrow> (w, i) \<in> set (pair_sides ds used ws) \<Longrightarrow>
     i < length ds \<and> \<not> used ! i \<and> compatible w (ds ! i)"
proof (induction ws arbitrary: used)
  case (Cons v ws)
  show ?case
  proof (cases "find (\<lambda>(i, d). \<not> used ! i \<and> side_amount d = side_amount v \<and> side_address d \<noteq> side_address v)
      (enumerate 0 ds)")
    case None
    with Cons show ?thesis by simp
  next
    case (Some a)
    obtain j d where a: "a = (j, d)" by force
    from pair_find_Some [OF Some [unfolded a]]
    have "j < length ds" "ds ! j = d" "\<not> used ! j" "compatible v d" by auto
    with Cons.IH [of "used[j := True]"] Cons.prems Some a show ?thesis
      by (auto simp: nth_list_update split: if_splits)
  qed
qed simp

lemma pair_sides_distinct:
  "length used = length ds \<Longrightarrow> distinct (map snd (pair_sides ds used ws))"
proof (induction ws arbitrary: used)
  case (Cons v ws)
  then show ?case
    using pair_sides_sound [of "used[_ := True]" ds _ _ ws]
    by (fastforce split: option.splits dest: pair_find_Some)
qed simp

lemma pair_sides_subseq: "subseq (map fst (pair_sides ds used ws)) ws"
  by (induction ws arbitrary: used) (auto split: option.splits)

lemma pair_sides_maximal:
  "length used = length ds \<Longrightarrow> w \<in> set ws \<Longrightarrow> w \<notin> fst ` set (pair_sides ds used ws) \<Longrightarrow>
   i < length ds \<Longrightarrow> \<not> used ! i \<Longrightarrow> i \<notin> snd ` set (pair_sides ds used ws) \<Longrightarrow> \<not> compatible w (ds ! i)"
proof (induction ws arbitrary: used)
  case (Cons v ws)
  show ?case
  proof (cases "find (\<lambda>(i, d). \<not> used ! i \<and> side_amount d = side_amount v \<and> side_address d \<noteq> side_address v)
      (enumerate 0 ds)")
    case None
    with Cons pair_find_None [OF None] show ?thesis by auto
  next
    case (Some a)
    obtain j d where a: "a = (j, d)" by force
    with Cons.prems Some Cons.IH [of "used[j := True]"] show ?thesis by (auto simp: nth_list_update)
  qed
qed simp

subsection \<open>Event indices\<close>

fun class_index :: "classified \<Rightarrow> i64 option" where
  "class_index (CBridge bi) = Some (bi_event_index bi)"
| "class_index (CWithdraw w) = Some (side_event_index w)"
| "class_index (CDeposit d) = Some (side_event_index d)"
| "class_index CSkip = None"

fun indexed :: "nat \<Rightarrow> classified list \<Rightarrow> bool" where
  "indexed n [] = True"
| "indexed n (c # cs) = (class_index c \<in> {None, Some (of_nat n)} \<and> indexed (Suc n) cs)"

definition of_version :: "i64 \<Rightarrow> classified list \<Rightarrow> bool" where
  "of_version v cs \<longleftrightarrow> (\<forall>bi \<in> set (bridge_events cs). bi_transaction_version bi = v)"

lemma bridge_events_simps [simp]:
  "bridge_events [] = []"
  "bridge_events (c # cs) = (case c of CBridge bi \<Rightarrow> [bi] | _ \<Rightarrow> []) @ bridge_events cs"
  by (auto simp: bridge_events_def List.map_filter_def split: classified.splits)

lemma withdraw_sides_simps [simp]:
  "withdraw_sides [] = []"
  "withdraw_sides (c # cs) = (case c of CWithdraw w \<Rightarrow> [w] | _ \<Rightarrow> []) @ withdraw_sides cs"
  by (auto simp: withdraw_sides_def List.map_filter_def split: classified.splits)

lemma bridge_classify_fields:
  assumes "bridge_classify ext registry txn ts idx ev = Some bi"
  shows "bi_transaction_version bi = tx_version txn \<and> bi_event_index bi = idx"
  using assms
  by (auto simp: bridge_classify_def parse_bridge_event_def Let_def split: option.splits if_splits)

lemma parse_side_index: "parse_side ext owners idx data = Some s \<Longrightarrow> side_event_index s = idx"
  by (auto simp: parse_side_def Let_def split: option.splits)

lemma class_index_classify:
  "class_index (classify_event ext registry txn ts owners (n, ev)) \<in> {None, Some (of_nat n)}"
  by (auto simp: classify_event_def Let_def split: option.splits
      dest: bridge_classify_fields parse_side_index)

lemma indexed_classify:
  "indexed n (map (classify_event ext registry txn ts owners) (enumerate n evs))"
  by (induction evs arbitrary: n) (use class_index_classify in auto)

lemma version_classify:
  "of_version (tx_version txn) (map (classify_event ext registry txn ts owners) (enumerate n evs))"
  unfolding of_version_def
  by (induction evs arbitrary: n)
    (auto simp: classify_event_def Let_def split: option.splits dest: bridge_classify_fields)

lemma indices_distinct:
  assumes "indexed n cs" and "n + length cs \<le> 2 ^ 64"
  shows "distinct (map side_event_index (withdraw_sides cs) @ map bi_event_index (bridge_events cs)) \<and>
    set (map side_event_index (withdraw_sides cs) @ map bi_event_index (bridge_events cs)) \<subseteq>
      of_nat ` {n..<n + length cs}"
  using assms
proof (induction cs arbitrary: n)
  case (Cons c cs)
  let ?ids = "\<lambda>cs. map side_event_index (withdraw_sides cs) @ map bi_event_index (bridge_events cs)"
  have IH: "distinct (?ids cs)" "set (?ids cs) \<subseteq> of_nat ` {Suc n..<Suc n + length cs}"
    using Cons.IH [of "Suc n"] Cons.prems by auto
  have "(of_nat n :: i64) \<notin> of_nat ` {Suc n..<Suc n + length cs}"
  proof
    assume "(of_nat n :: i64) \<in> of_nat ` {Suc n..<Suc n + length cs}"
    then obtain x where "(of_nat n :: i64) = of_nat x" "Suc n \<le> x" "x < Suc n + length cs" by auto
    with Cons.prems(2) of_nat_i64_eq_iff [of n x] show False by simp
  qed
  with IH(2) have fresh: "(of_nat n :: i64) \<notin> set (?ids cs)" by blast
  have sub: "of_nat ` {Suc n..<Suc n + length cs} \<subseteq> (of_nat ` {n..<n + length (c # cs)} :: i64 set)"
    "(of_nat n :: i64) \<in> of_nat ` {n..<n + length (c # cs)}" by auto
  show ?case using IH fresh sub Cons.prems(1) by (cases c) auto
qed simp

subsection \<open>One transaction\<close>

definition events_fit :: "transaction \<Rightarrow> bool" where
  "events_fit txn \<longleftrightarrow> (case tx_data txn of Some (TxnUser u) \<Rightarrow> length (ut_events u) \<le> 2 ^ 64 | _ \<Rightarrow> True)"

definition heads :: "transfer_edge \<Rightarrow> bridge_inflow \<Rightarrow> bool" where
  "heads e bi \<longleftrightarrow> te_key e = bi_key bi \<and> te_is_bridge_inflow e \<and>
     te_to_address e = bi_aptos_recipient bi \<and> te_amount e = bi_amount bi \<and>
     te_bridge_name e = Some (bi_bridge_name bi) \<and>
     (te_asset_type e \<noteq> None \<longrightarrow> bi_asset_type bi = te_asset_type e)"

definition delivers :: "bridge_inflow \<Rightarrow> transfer_edge \<Rightarrow> bool" where
  "delivers bi e \<longleftrightarrow> bi_transaction_version bi = te_transaction_version e \<and>
     bi_aptos_recipient bi = te_to_address e \<and> bi_amount bi = te_amount e"

definition out_ok :: "i64 \<Rightarrow> extracted \<Rightarrow> bool" where
  "out_ok v out \<longleftrightarrow> (\<forall>e \<in> set (ex_edges out). te_transaction_version e = v) \<and>
     (\<forall>bi \<in> set (ex_inflows out). bi_transaction_version bi = v) \<and>
     distinct (map te_key (ex_edges out)) \<and> distinct (map bi_key (ex_inflows out)) \<and>
     (\<forall>bi \<in> set (ex_inflows out). \<exists>e \<in> set (ex_edges out). heads e bi) \<and>
     (\<forall>e \<in> set (ex_edges out). te_is_bridge_inflow e \<longrightarrow> (\<exists>bi \<in> set (ex_inflows out). delivers bi e)) \<and>
     ex_evms_sent out = List.map_filter bi_evm_source (ex_inflows out)"

lemma head_edge_fields:
  "heads (snd (head_edge registry assets ds bi)) (fst (head_edge registry assets ds bi))"
  "bi_transaction_version (fst (head_edge registry assets ds bi)) = bi_transaction_version bi"
  "bi_event_index (fst (head_edge registry assets ds bi)) = bi_event_index bi"
  "bi_evm_source (fst (head_edge registry assets ds bi)) = bi_evm_source bi"
  "bi_aptos_recipient (fst (head_edge registry assets ds bi)) = bi_aptos_recipient bi"
  "bi_amount (fst (head_edge registry assets ds bi)) = bi_amount bi"
  "te_transaction_version (snd (head_edge registry assets ds bi)) = bi_transaction_version bi"
  "te_event_index (snd (head_edge registry assets ds bi)) = bi_event_index bi"
  by (simp_all add: head_edge_def Let_def heads_def te_key_def bi_key_def)

lemma paired_edge_fields [simp]:
  "te_transaction_version (paired_edge v ts assets bis w d) = v"
  "te_event_index (paired_edge v ts assets bis w d) = side_event_index w"
  by (simp_all add: paired_edge_def Let_def)

lemma map_filter_evm:
  "List.map_filter bi_evm_source (map (fst \<circ> head_edge registry assets ds) bis) =
     List.map_filter bi_evm_source bis"
  by (induction bis) (auto simp: List.map_filter_def head_edge_fields)

lemma distinct_same_fst:
  "distinct (map g xs) \<Longrightarrow> (\<And>x. x \<in> set xs \<Longrightarrow> f x = (v, g x)) \<Longrightarrow> distinct (map f xs)"
  by (induction xs) force+

lemma subseq_subset: "subseq xs ys \<Longrightarrow> set xs \<subseteq> set ys"
  by (induction xs ys rule: list_emb.induct) auto

lemma subseq_distinct: "subseq xs ys \<Longrightarrow> distinct ys \<Longrightarrow> distinct xs"
  by (induction xs ys rule: list_emb.induct) (auto dest: subseq_subset)

lemma edge_indices:
  "map te_event_index (ex_edges (assemble registry v ts assets cs)) =
     map side_event_index (map fst (pair_sides (deposit_sides cs)
       (replicate (length (deposit_sides cs)) False) (withdraw_sides cs)))
     @ map bi_event_index (bridge_events cs)"
  by (auto simp: assemble_def Let_def head_edge_fields)

lemma paired_edge_delivered:
  assumes "te_is_bridge_inflow (paired_edge v ts assets bis w d)" "compatible w d"
  shows "\<exists>bi \<in> set bis. bi_aptos_recipient bi = side_address d \<and> bi_amount bi = side_amount w"
  using assms by (auto simp: paired_edge_def Let_def compatible_def find_None_iff simp del: not_None_eq)

lemma assemble_delivers:
  assumes "of_version v cs" "e \<in> set (ex_edges (assemble registry v ts assets cs))" "te_is_bridge_inflow e"
  shows "\<exists>bi \<in> set (ex_inflows (assemble registry v ts assets cs)). delivers bi e"
proof -
  let ?ds = "deposit_sides cs" let ?bis = "bridge_events cs"
  let ?ps = "pair_sides ?ds (replicate (length ?ds) False) (withdraw_sides cs)"
  consider (pair) w i where "(w, i) \<in> set ?ps" "e = paired_edge v ts assets ?bis w (?ds ! i)"
    | (head) bi where "bi \<in> set ?bis" "e = snd (head_edge registry assets ?ds bi)"
    using assms(2) by (auto simp: assemble_def Let_def)
  then obtain bi where "bi \<in> set ?bis" "delivers (fst (head_edge registry assets ?ds bi)) e"
  proof cases
    case pair
    then have "compatible w (?ds ! i)"
      using pair_sides_sound [of "replicate (length ?ds) False" ?ds] by simp
    with pair assms(3) paired_edge_delivered obtain bi where
      "bi \<in> set ?bis" "bi_aptos_recipient bi = side_address (?ds ! i)" "bi_amount bi = side_amount w"
      by blast
    with pair assms(1) show thesis
      by (intro that [of bi]) (auto simp: delivers_def head_edge_fields of_version_def paired_edge_def Let_def)
  next
    case head
    then show thesis
      using head_edge_fields(1) [of registry assets ?ds bi]
      by (intro that [of bi]) (auto simp: delivers_def head_edge_fields heads_def)
  qed
  then show ?thesis by (auto simp: assemble_def Let_def)
qed

lemma assemble_ok:
  assumes "indexed 0 cs" "length cs \<le> 2 ^ 64" "of_version v cs"
  shows "out_ok v (assemble registry v ts assets cs)"
proof -
  let ?out = "assemble registry v ts assets cs"
  let ?ps = "pair_sides (deposit_sides cs) (replicate (length (deposit_sides cs)) False) (withdraw_sides cs)"
  have dist: "distinct (map side_event_index (withdraw_sides cs) @ map bi_event_index (bridge_events cs))"
    using indices_distinct [of 0 cs] assms by simp
  have sub: "subseq (map side_event_index (map fst ?ps)) (map side_event_index (withdraw_sides cs))"
    by (intro subseq_map pair_sides_subseq)
  have idx: "distinct (map te_event_index (ex_edges ?out))"
    using dist subseq_distinct [OF sub] subseq_subset [OF sub]
    by (auto simp: edge_indices simp del: map_map)
  have ver: "\<forall>e \<in> set (ex_edges ?out). te_transaction_version e = v"
    using assms(3) by (auto simp: assemble_def Let_def head_edge_fields of_version_def)
  have "distinct (map te_key (ex_edges ?out))"
    by (rule distinct_same_fst [OF idx, where v = v]) (use ver in \<open>simp add: te_key_def\<close>)
  moreover have iver: "\<forall>bi \<in> set (ex_inflows ?out). bi_transaction_version bi = v"
    using assms(3) by (auto simp: assemble_def Let_def head_edge_fields of_version_def)
  moreover have "distinct (map bi_event_index (ex_inflows ?out))"
    using dist by (simp add: assemble_def Let_def comp_def head_edge_fields)
  then have "distinct (map bi_key (ex_inflows ?out))"
    by (rule distinct_same_fst [where v = v]) (use iver in \<open>simp add: bi_key_def\<close>)
  moreover have "\<forall>bi \<in> set (ex_inflows ?out). \<exists>e \<in> set (ex_edges ?out). heads e bi"
    using head_edge_fields(1) by (fastforce simp: assemble_def Let_def)
  moreover have "ex_evms_sent ?out = List.map_filter bi_evm_source (ex_inflows ?out)"
    by (simp add: assemble_def Let_def map_filter_evm)
  ultimately show ?thesis using ver assemble_delivers [OF assms(3)] by (simp add: out_ok_def)
qed

lemma append_extracted_simps [simp]:
  "append_extracted empty_extracted out = out"
  "append_extracted out empty_extracted = out"
  "append_extracted (append_extracted a b) c = append_extracted a (append_extracted b c)"
  by (simp_all add: append_extracted_def empty_extracted_def)

lemma extract_txn_append:
  "extract_txn ext registry txn acc =
     (case extract_txn ext registry txn empty_extracted of
        Inl e \<Rightarrow> Inl e | Inr out \<Rightarrow> Inr (append_extracted acc out))"
  by (auto simp: extract_txn_def Let_def
      split: option.splits txn_data.splits sum.splits)

lemma extract_txn_ok:
  assumes "extract_txn ext registry txn empty_extracted = Inr out"
    and "events_fit txn"
  shows "out_ok (tx_version txn) out"
proof (cases "\<exists>ts u. tx_timestamp txn = Some ts \<and> tx_data txn = Some (TxnUser u)")
  case False
  with assms(1) have "out = empty_extracted"
    by (auto simp: extract_txn_def split: option.splits txn_data.splits)
  then show ?thesis by (simp add: out_ok_def empty_extracted_def List.map_filter_def)
next
  case True
  then obtain ts u where tu: "tx_timestamp txn = Some ts" "tx_data txn = Some (TxnUser u)" by blast
  with assms(1) obtain owners assets where "out = assemble registry (tx_version txn)
      (parse_timestamp ext ts (tx_version txn)) assets
      (map (classify_event ext registry txn (parse_timestamp ext ts (tx_version txn)) owners)
        (enumerate 0 (ut_events u)))"
    by (auto simp: extract_txn_def Let_def split: sum.splits)
  with assemble_ok [OF indexed_classify _ version_classify] assms(2) tu show ?thesis
    by (simp add: events_fit_def)
qed

subsection \<open>Batches\<close>

lemma extractor_outs:
  "fold_result (extract_txn ext registry) txns acc = Inr out \<Longrightarrow>
     \<exists>outs. list_all2 (\<lambda>t r. extract_txn ext registry t empty_extracted = Inr r) txns outs \<and>
       out = append_extracted acc (foldr append_extracted outs empty_extracted)"
proof (induction txns arbitrary: acc)
  case Nil
  then show ?case by (intro exI [of _ "[]"]) simp
next
  case (Cons t txns)
  then obtain o1 where o1: "extract_txn ext registry t empty_extracted = Inr o1"
    "fold_result (extract_txn ext registry) txns (append_extracted acc o1) = Inr out"
    by (auto simp: extract_txn_append [of ext registry t acc] split: sum.splits)
  from Cons.IH [OF o1(2)] obtain outs where
    "list_all2 (\<lambda>t r. extract_txn ext registry t empty_extracted = Inr r) txns outs"
    "out = append_extracted (append_extracted acc o1) (foldr append_extracted outs empty_extracted)" by blast
  with o1(1) show ?case by (intro exI [of _ "o1 # outs"]) simp
qed

lemma foldr_append_fields:
  "ex_edges (foldr append_extracted outs empty_extracted) = concat (map ex_edges outs)"
  "ex_inflows (foldr append_extracted outs empty_extracted) = concat (map ex_inflows outs)"
  "ex_evms_sent (foldr append_extracted outs empty_extracted) = concat (map ex_evms_sent outs)"
  by (induction outs) (auto simp: append_extracted_def empty_extracted_def)

lemma batch_versions:
  assumes "list_all2 (\<lambda>t r. out_ok (tx_version t) r) txns outs"
  shows "(\<forall>e \<in> set (concat (map ex_edges outs)). te_transaction_version e \<in> tx_version ` set txns) \<and>
    (\<forall>bi \<in> set (concat (map ex_inflows outs)). bi_transaction_version bi \<in> tx_version ` set txns)"
  using assms by (induction txns outs rule: list_all2_induct) (auto simp: out_ok_def)

lemma disjoint_versions:
  assumes "\<forall>x \<in> set xs. f x = v" "\<forall>y \<in> set ys. f y \<in> V" "v \<notin> V"
    and "\<And>x. fst (key x) = f x"
  shows "set (map key xs) \<inter> set (map key ys) = {}"
proof -
  have "key x \<noteq> key y" if "x \<in> set xs" "y \<in> set ys" for x y
    using assms that by metis
  then show ?thesis unfolding set_map by blast
qed

lemma batch_ok:
  assumes "list_all2 (\<lambda>t r. out_ok (tx_version t) r) txns outs" and "distinct (map tx_version txns)"
  shows "distinct (map te_key (concat (map ex_edges outs))) \<and>
    distinct (map bi_key (concat (map ex_inflows outs))) \<and>
    (\<forall>bi \<in> set (concat (map ex_inflows outs)). \<exists>e \<in> set (concat (map ex_edges outs)). heads e bi) \<and>
    (\<forall>e \<in> set (concat (map ex_edges outs)). te_is_bridge_inflow e \<longrightarrow>
      (\<exists>bi \<in> set (concat (map ex_inflows outs)). delivers bi e)) \<and>
    concat (map ex_evms_sent outs) = List.map_filter bi_evm_source (concat (map ex_inflows outs))"
  using assms
proof (induction txns outs rule: list_all2_induct)
  case (Cons t txns r outs)
  have "te_transaction_version e = fst (te_key e)" for e by (simp add: te_key_def)
  then have "set (map te_key (ex_edges r)) \<inter> set (map te_key (concat (map ex_edges outs))) = {}"
    using Cons batch_versions [OF Cons(2)]
    by (intro disjoint_versions [where f = te_transaction_version and v = "tx_version t" and V = "tx_version ` set txns"])
      (auto simp: out_ok_def)
  moreover have "bi_transaction_version b = fst (bi_key b)" for b by (simp add: bi_key_def)
  then have "set (map bi_key (ex_inflows r)) \<inter> set (map bi_key (concat (map ex_inflows outs))) = {}"
    using Cons batch_versions [OF Cons(2)]
    by (intro disjoint_versions [where f = bi_transaction_version and v = "tx_version t" and V = "tx_version ` set txns"])
      (auto simp: out_ok_def)
  ultimately show ?case using Cons by (auto simp: out_ok_def List.map_filter_def bex_Un)
qed (simp add: List.map_filter_def)

lemma extractor_batch_ok:
  assumes "extractor_process ext registry txns = Inr out" "distinct (map tx_version txns)"
    and "\<forall>txn \<in> set txns. events_fit txn"
  shows "distinct (map te_key (ex_edges out)) \<and> distinct (map bi_key (ex_inflows out)) \<and>
    (\<forall>bi \<in> set (ex_inflows out). \<exists>e \<in> set (ex_edges out). heads e bi) \<and>
    (\<forall>e \<in> set (ex_edges out). te_is_bridge_inflow e \<longrightarrow> (\<exists>bi \<in> set (ex_inflows out). delivers bi e)) \<and>
    ex_evms_sent out = List.map_filter bi_evm_source (ex_inflows out)"
proof -
  from extractor_outs [OF assms(1) [unfolded extractor_process_def]] obtain outs where
    outs: "list_all2 (\<lambda>t r. extract_txn ext registry t empty_extracted = Inr r) txns outs"
    and out: "out = foldr append_extracted outs empty_extracted" by auto
  have "list_all2 (\<lambda>t r. out_ok (tx_version t) r) txns outs"
    using outs assms(3) by (induction txns outs rule: list_all2_induct) (auto intro: extract_txn_ok)
  from batch_ok [OF this assms(2)] show ?thesis by (simp add: out foldr_append_fields)
qed

fun untyped_change :: "change option \<Rightarrow> bool" where
  "untyped_change (Some (WriteResource wr)) \<longleftrightarrow> wr_type wr = None"
| "untyped_change _ \<longleftrightarrow> False"

definition untyped_write :: "transaction \<Rightarrow> bool" where
  "untyped_write txn \<longleftrightarrow>
     (case tx_info txn of None \<Rightarrow> False | Some info \<Rightarrow> list_ex untyped_change (ti_changes info))"

lemma scan_change_fails: "(\<exists>e. scan_change ext c maps = Inl e) \<longleftrightarrow> untyped_change c"
proof (cases c rule: untyped_change.cases)
  case (1 wr)
  then show ?thesis
    using object_from_write_resource_panics [of ext wr]
    by (cases "object_from_write_resource ext wr") (auto simp: scan_change_def Let_def)
qed (simp_all add: scan_change_def)

lemma storage_scan_fails: "(\<exists>e. storage_scan ext txn = Inl e) \<longleftrightarrow> untyped_write txn"
  by (simp add: storage_scan_def untyped_write_def list_ex_iff split: option.splits)
    (simp add: fold_result_fails_iff [of "scan_change ext", OF scan_change_fails])

lemma extract_txn_fails:
  "(\<exists>e. extract_txn ext registry txn acc = Inl e) \<longleftrightarrow>
     tx_timestamp txn \<noteq> None \<and> (\<exists>u. tx_data txn = Some (TxnUser u)) \<and> untyped_write txn"
  using storage_scan_fails [of ext txn]
  by (auto simp: extract_txn_def Let_def split: option.splits txn_data.splits sum.splits)

section \<open>A sample transaction\<close>

text \<open>
  A bridge that unlocks tokens from a pool: a withdraw from the pool, a deposit to the recipient
  and the bridge's own event, all for the amount 5.
\<close>

definition sample_chain_extern :: extern where
  "sample_chain_extern = sample_extern\<lparr>json_from_str := map_of
     [(''w'', JObject [(''store'', JString ''0xa''), (''amount'', JString ''5'')]),
      (''d'', JObject [(''store'', JString ''0xb''), (''amount'', JString ''5'')]),
      (''m'', JObject [(''to'', JString ''0xb''), (''amt'', JString ''5''), (''evm'', JString ''0xe1'')]),
      (''s'', JObject [(''metadata'', JObject [(''inner'', JString ''0xc'')])])]\<rparr>"

definition sample_registry :: "bridge_registry_entry list" where
  "sample_registry = [\<lparr>re_bridge_name = ''pool'', re_module_address = ''0x9'',
     re_event_type = ''0x9::pool::Unlock'', re_evm_source_field_path = Some ''evm'',
     re_recipient_field_path = ''to'', re_amount_field_path = ''amt'',
     re_chain_id_field_path = None, re_payload_kind = None, re_enabled = True\<rparr>]"

definition sample_txn :: transaction where
  "sample_txn = \<lparr>tx_type = 4, tx_version = 9, tx_block_height = 1, tx_epoch = 1, tx_timestamp = Some (0, 0),
     tx_info = Some \<lparr>ti_hash = [], ti_state_change_hash = [], ti_event_root_hash = [],
       ti_state_checkpoint_hash = None, ti_gas_used = 0, ti_success = True, ti_vm_status = [],
       ti_accumulator_root_hash = [],
       ti_write_set_changes = [\<lparr>wsc_type = Some ChangeWriteResource, wsc_change = Some (WriteResource
       \<lparr>wr_address = ''0xb'', wr_type = Some \<lparr>st_address = ''0x1'', st_module = ''fungible_asset'',
          st_name = ''FungibleStore'', st_generic_type_params = []\<rparr>, wr_type_str = ''0x1::fungible_asset::FungibleStore'',
        wr_data = ''s'', wr_state_key_hash = []\<rparr>)\<rparr>]\<rparr>,
     tx_size_info = None, tx_data = Some (TxnUser \<lparr>ut_events =
       [\<lparr>ev_key = None, ev_sequence_number = 0, ev_type_str = ''0x1::fungible_asset::Withdraw'', ev_data = ''w''\<rparr>,
        \<lparr>ev_key = None, ev_sequence_number = 0, ev_type_str = ''0x1::fungible_asset::Deposit'', ev_data = ''d''\<rparr>,
        \<lparr>ev_key = None, ev_sequence_number = 0, ev_type_str = ''0x9::pool::Unlock'', ev_data = ''m''\<rparr>], ut_request = None\<rparr>)\<rparr>"

definition sample_extracted :: extracted where
  "sample_extracted =
     (case extractor_process sample_chain_extern sample_registry [sample_txn] of
        Inl _ \<Rightarrow> empty_extracted | Inr out \<Rightarrow> out)"

lemma sample_extractor_run:
  "extractor_process sample_chain_extern sample_registry [sample_txn] = Inr sample_extracted"
  by code_simp

lemma sample_extracted_keys:
  "map te_key (ex_edges sample_extracted) = [(9, 0), (9, 2)]"
  "map bi_key (ex_inflows sample_extracted) = [(9, 2)]"
  "map te_is_bridge_inflow (ex_edges sample_extracted) = [True, True]"
  "ex_evms_sent sample_extracted = [''0xe1'']"
  by code_simp+

lemma sample_txn_fits: "\<forall>txn \<in> set [sample_txn]. events_fit txn"
  by (simp add: events_fit_def sample_txn_def)

section \<open>Properties\<close>

text \<open>
  Claim C8: The greedy pairing of a transaction's withdraws and deposits is a maximal matching:
  each withdraw and each deposit is used at most once, in the order of the withdraws, a pair has
  equal amounts and different owners, and no withdraw left over could have been paired with a
  deposit left over.
\<close>

theorem pairing_is_maximal_matching:
  assumes "pairs = pair_sides ds (replicate (length ds) False) ws"
  shows "subseq (map fst pairs) ws \<and> distinct (map snd pairs) \<and>
    (\<forall>(w, i) \<in> set pairs. i < length ds \<and> side_amount (ds ! i) = side_amount w \<and>
       side_address (ds ! i) \<noteq> side_address w) \<and>
    (\<forall>w \<in> set ws. \<forall>i < length ds. w \<notin> fst ` set pairs \<longrightarrow> i \<notin> snd ` set pairs \<longrightarrow>
       \<not> (side_amount (ds ! i) = side_amount w \<and> side_address (ds ! i) \<noteq> side_address w))"
proof (intro conjI ballI allI impI)
  show "subseq (map fst pairs) ws" by (simp add: assms pair_sides_subseq)
  show "distinct (map snd pairs)" by (simp add: assms pair_sides_distinct)
next
  fix p assume "p \<in> set pairs"
  then show "case p of (w, i) \<Rightarrow> i < length ds \<and> side_amount (ds ! i) = side_amount w \<and>
      side_address (ds ! i) \<noteq> side_address w"
    using pair_sides_sound [of "replicate (length ds) False" ds] by (auto simp: assms compatible_def)
next
  fix w i
  assume "w \<in> set ws" "i < length ds" "w \<notin> fst ` set pairs" "i \<notin> snd ` set pairs"
  then show "\<not> (side_amount (ds ! i) = side_amount w \<and> side_address (ds ! i) \<noteq> side_address w)"
    using pair_sides_maximal [of "replicate (length ds) False" ds w ws i] by (simp add: assms compatible_def)
qed

theorem pairing_is_maximal_matching_witness:
  "distinct (map snd (pair_sides
     [\<lparr>side_event_index = 1, side_address = ''b'', side_storage_id = ''t'', side_amount = 5\<rparr>]
     (replicate 1 False)
     [\<lparr>side_event_index = 0, side_address = ''a'', side_storage_id = ''s'', side_amount = 5\<rparr>,
      \<lparr>side_event_index = 2, side_address = ''a'', side_storage_id = ''s'', side_amount = 5\<rparr>]))"
  using pairing_is_maximal_matching [OF refl,
    of "[\<lparr>side_event_index = 1, side_address = ''b'', side_storage_id = ''t'', side_amount = 5\<rparr>]"
       "[\<lparr>side_event_index = 0, side_address = ''a'', side_storage_id = ''s'', side_amount = 5\<rparr>,
         \<lparr>side_event_index = 2, side_address = ''a'', side_storage_id = ''s'', side_amount = 5\<rparr>]"]
  by simp

text \<open>
  Claim C7: The rows extracted from a batch of transactions with different versions have
  different primary keys, edges and inflows alike.  Every inflow has exactly one head edge (same
  key, recipient, amount and bridge, and its asset where it was resolved), every edge marked as
  bridge inflow belongs to an inflow of its transaction, and exactly the EVM sources of the
  inflows are sent to the screening loop, in order.
\<close>

theorem extracted_rows_are_keyed:
  assumes "extractor_process ext registry txns = Inr out" and "distinct (map tx_version txns)"
    and "\<forall>txn \<in> set txns. events_fit txn"
  shows "distinct (map te_key (ex_edges out)) \<and> distinct (map bi_key (ex_inflows out)) \<and>
    (\<forall>bi \<in> set (ex_inflows out). \<exists>!e. e \<in> set (ex_edges out) \<and> heads e bi) \<and>
    (\<forall>e \<in> set (ex_edges out). te_is_bridge_inflow e \<longrightarrow> (\<exists>bi \<in> set (ex_inflows out). delivers bi e)) \<and>
    ex_evms_sent out = List.map_filter bi_evm_source (ex_inflows out)"
proof -
  note ok = extractor_batch_ok [OF assms]
  have "\<exists>!e. e \<in> set (ex_edges out) \<and> heads e bi" if "bi \<in> set (ex_inflows out)" for bi
  proof -
    from ok that obtain e where e: "e \<in> set (ex_edges out)" "heads e bi" by blast
    moreover have "e' = e" if "e' \<in> set (ex_edges out)" "heads e' bi" for e'
      using ok that e by (auto simp: heads_def distinct_map dest!: inj_onD [of te_key _ e' e])
    ultimately show ?thesis by blast
  qed
  with ok show ?thesis by blast
qed

theorem extracted_rows_are_keyed_witness:
  "distinct (map te_key (ex_edges sample_extracted)) \<and> length (ex_edges sample_extracted) = 2 \<and>
   ex_evms_sent sample_extracted = List.map_filter bi_evm_source (ex_inflows sample_extracted)"
  using extracted_rows_are_keyed [OF sample_extractor_run _ sample_txn_fits]
    arg_cong [OF sample_extracted_keys(1), of length] by simp

text \<open>
  The extractor fails on a batch exactly when some user transaction with a timestamp
  writes a resource that carries no type tag; malformed JSON, unknown events and non-user
  transactions never fail it.
\<close>

theorem extractor_fails_iff:
  "(\<exists>e. extractor_process ext registry txns = Inl e) \<longleftrightarrow>
     (\<exists>txn \<in> set txns. tx_timestamp txn \<noteq> None \<and> (\<exists>u. tx_data txn = Some (TxnUser u)) \<and> untyped_write txn)"
  unfolding extractor_process_def
  by (rule fold_result_fails_iff) (rule extract_txn_fails)

text \<open>
  A bridge delivery that also shows up as a withdraw/deposit pair is attributed twice.
  An edge marked as bridge inflow whose key is not the key of an inflow has a twin in the same
  batch, the head edge of the inflow: same version, recipient and amount, resolved to the same
  EVM source, so when both carry an asset the storer seeds the same amount once for each.
\<close>

theorem paired_delivery_seeded_twice:
  assumes run: "extractor_process ext registry txns = Inr out"
    and versions: "distinct (map tx_version txns)" "\<forall>txn \<in> set txns. events_fit txn"
    and e: "e \<in> set (ex_edges out)" "te_is_bridge_inflow e" "te_key e \<notin> bi_key ` set (ex_inflows out)"
  shows "\<exists>e' \<in> set (ex_edges out). te_key e' \<noteq> te_key e \<and> te_is_bridge_inflow e' \<and>
    te_transaction_version e' = te_transaction_version e \<and> te_to_address e' = te_to_address e \<and>
    edge_evm_source (ex_inflows out) e' = edge_evm_source (ex_inflows out) e \<and>
    (te_asset_type e \<noteq> None \<longrightarrow> te_asset_type e' \<noteq> None \<longrightarrow>
      seeded_amount (ex_inflows out) e' = seeded_amount (ex_inflows out) e)"
proof -
  note ok = extractor_batch_ok [OF run versions]
  from ok e obtain bi where bi: "bi \<in> set (ex_inflows out)" "delivers bi e" by blast
  with ok obtain e' where e': "e' \<in> set (ex_edges out)" "heads e' bi" by blast
  from bi(2) e'(2) have same: "te_transaction_version e' = te_transaction_version e"
    "te_to_address e' = te_to_address e" "te_amount e' = te_amount e"
    by (auto simp: heads_def delivers_def te_key_def bi_key_def)
  then have src: "edge_evm_source (ex_inflows out) e' = edge_evm_source (ex_inflows out) e"
    by (simp add: edge_evm_source_def)
  have "te_key e' \<noteq> te_key e" using e(3) bi(1) e'(2) by (metis heads_def imageI)
  moreover have "te_is_bridge_inflow e'" using e'(2) by (simp add: heads_def)
  ultimately show ?thesis using e' same src e(2) by (auto simp: seeded_amount_def)
qed

theorem paired_delivery_seeded_twice_witness:
  "\<exists>e' \<in> set (ex_edges sample_extracted). te_key e' \<noteq> (9, 0) \<and> te_is_bridge_inflow e'"
proof -
  obtain e e' where edges: "ex_edges sample_extracted = [e, e']" and k: "te_key e = (9, 0)"
    using sample_extracted_keys(1) by (auto simp: map_eq_Cons_conv)
  have "te_is_bridge_inflow e" using sample_extracted_keys(3) edges by simp
  moreover have "bi_key ` set (ex_inflows sample_extracted) = {(9, 2)}"
    using sample_extracted_keys(2) by (metis list.set(1,2) list.set_map)
  ultimately show ?thesis
    using paired_delivery_seeded_twice [OF sample_extractor_run _ sample_txn_fits, of e] edges k
    by (auto simp del: bex_simps)
qed

end
