(* ===== verification/Config.thy ===== *)
theory Config
  imports ReputationModel
begin

text \<open>
  \<open>processor/src/config\<close>: the run modes, the database configuration, the processor
  configurations with the names \<open>strum\<close> derives from them, and the table names under which
  the parquet processors keep their status.  A \<open>HashSet<String>\<close> is the list of its elements.
  The transaction-stream section of the configuration belongs to the SDK and is not read by
  the code modelled here.
\<close>

section \<open>Modes\<close>

record backfill_config =
  bf_backfill_id :: string
  bf_initial_starting_version :: u64
  bf_ending_version :: "u64 option"
  bf_overwrite_checkpoint :: bool

record boot_strap_config =
  bs_initial_starting_version :: u64

record testing_config =
  tc_override_starting_version :: u64
  tc_ending_version :: "u64 option"

datatype processor_mode =
    ModeBackfill backfill_config
  | ModeDefault boot_strap_config
  | ModeTesting testing_config

definition default_processor_mode :: processor_mode where
  "default_processor_mode = ModeDefault \<lparr>bs_initial_starting_version = 0\<rparr>"

section \<open>Databases\<close>

record postgres_config =
  pg_connection_string :: string
  pg_db_pool_size :: nat

record parquet_config =
  pq_connection_string :: string
  pq_db_pool_size :: nat
  pq_google_application_credentials :: "string option"
  pq_bucket_name :: string
  pq_bucket_root :: string

datatype db_config = PostgresConfig postgres_config | ParquetConfig parquet_config

section \<open>Processors\<close>

record default_processor_config =
  dc_per_table_chunk_sizes :: "(string \<times> nat) list"
  dc_channel_size :: nat
  dc_tables_to_write :: "string list"

record ans_processor_config =
  ans_default :: default_processor_config
  ans_v1_primary_names_table_handle :: string
  ans_v1_name_records_table_handle :: string
  ans_v2_contract_address :: string

text \<open>\<open>StakeProcessorConfig\<close>, \<open>TokenV2ProcessorConfig\<close> and \<open>ObjectsProcessorConfig\<close> have
  the same fields.\<close>

record query_processor_config =
  qc_default_config :: default_processor_config
  qc_query_retries :: nat
  qc_query_retry_delay_ms :: nat

record parquet_default_processor_config =
  pc_channel_size :: nat
  pc_max_buffer_size :: nat
  pc_upload_interval :: nat
  pc_backfill_table :: "string list"

record parquet_ans_processor_config =
  pans_default :: parquet_default_processor_config
  pans_v1_primary_names_table_handle :: string
  pans_v1_name_records_table_handle :: string
  pans_v2_contract_address :: string

definition default_default_processor_config :: default_processor_config where
  "default_default_processor_config =
     \<lparr>dc_per_table_chunk_sizes = [], dc_channel_size = 10, dc_tables_to_write = []\<rparr>"

definition serde_parquet_default_processor_config :: parquet_default_processor_config where
  "serde_parquet_default_processor_config =
     \<lparr>pc_channel_size = 100000, pc_max_buffer_size = 1024 * 1024 * 100,
      pc_upload_interval = 1800, pc_backfill_table = []\<rparr>"

datatype processor_config =
    AccountRestorationProcessor default_processor_config
  | AccountTransactionsProcessor default_processor_config
  | AddressReputationProcessor address_reputation_config
  | AnsProcessor ans_processor_config
  | DefaultProcessor default_processor_config
  | EventsProcessor default_processor_config
  | FungibleAssetProcessor default_processor_config
  | UserTransactionProcessor default_processor_config
  | StakeProcessor query_processor_config
  | TokenV2Processor query_processor_config
  | ObjectsProcessor query_processor_config
  | MonitoringProcessor default_processor_config
  | GasFeeProcessor default_processor_config
  | ParquetDefaultProcessor parquet_default_processor_config
  | ParquetObjectsProcessor parquet_default_processor_config
  | ParquetUserTransactionProcessor parquet_default_processor_config
  | ParquetEventsProcessor parquet_default_processor_config
  | ParquetAnsProcessor parquet_ans_processor_config
  | ParquetFungibleAssetProcessor parquet_default_processor_config
  | ParquetTransactionMetadataProcessor parquet_default_processor_config
  | ParquetAccountTransactionsProcessor parquet_default_processor_config
  | ParquetTokenV2Processor parquet_default_processor_config
  | ParquetStakeProcessor parquet_default_processor_config

datatype processor_name =
    NameAccountRestorationProcessor
  | NameAccountTransactionsProcessor
  | NameAddressReputationProcessor
  | NameAnsProcessor
  | NameDefaultProcessor
  | NameEventsProcessor
  | NameFungibleAssetProcessor
  | NameUserTransactionProcessor
  | NameStakeProcessor
  | NameTokenV2Processor
  | NameObjectsProcessor
  | NameMonitoringProcessor
  | NameGasFeeProcessor
  | NameParquetDefaultProcessor
  | NameParquetObjectsProcessor
  | NameParquetUserTransactionProcessor
  | NameParquetEventsProcessor
  | NameParquetAnsProcessor
  | NameParquetFungibleAssetProcessor
  | NameParquetTransactionMetadataProcessor
  | NameParquetAccountTransactionsProcessor
  | NameParquetTokenV2Processor
  | NameParquetStakeProcessor

fun processor_name_of :: "processor_config \<Rightarrow> processor_name" where
  "processor_name_of (AccountRestorationProcessor c) = NameAccountRestorationProcessor"
| "processor_name_of (AccountTransactionsProcessor c) = NameAccountTransactionsProcessor"
| "processor_name_of (AddressReputationProcessor c) = NameAddressReputationProcessor"
| "processor_name_of (AnsProcessor c) = NameAnsProcessor"
| "processor_name_of (DefaultProcessor c) = NameDefaultProcessor"
| "processor_name_of (EventsProcessor c) = NameEventsProcessor"
| "processor_name_of (FungibleAssetProcessor c) = NameFungibleAssetProcessor"
| "processor_name_of (UserTransactionProcessor c) = NameUserTransactionProcessor"
| "processor_name_of (StakeProcessor c) = NameStakeProcessor"
| "processor_name_of (TokenV2Processor c) = NameTokenV2Processor"
| "processor_name_of (ObjectsProcessor c) = NameObjectsProcessor"
| "processor_name_of (MonitoringProcessor c) = NameMonitoringProcessor"
| "processor_name_of (GasFeeProcessor c) = NameGasFeeProcessor"
| "processor_name_of (ParquetDefaultProcessor c) = NameParquetDefaultProcessor"
| "processor_name_of (ParquetObjectsProcessor c) = NameParquetObjectsProcessor"
| "processor_name_of (ParquetUserTransactionProcessor c) = NameParquetUserTransactionProcessor"
| "processor_name_of (ParquetEventsProcessor c) = NameParquetEventsProcessor"
| "processor_name_of (ParquetAnsProcessor c) = NameParquetAnsProcessor"
| "processor_name_of (ParquetFungibleAssetProcessor c) = NameParquetFungibleAssetProcessor"
| "processor_name_of (ParquetTransactionMetadataProcessor c) = NameParquetTransactionMetadataProcessor"
| "processor_name_of (ParquetAccountTransactionsProcessor c) = NameParquetAccountTransactionsProcessor"
| "processor_name_of (ParquetTokenV2Processor c) = NameParquetTokenV2Processor"
| "processor_name_of (ParquetStakeProcessor c) = NameParquetStakeProcessor"

fun processor_name_str :: "processor_name \<Rightarrow> string" where
  "processor_name_str NameAccountRestorationProcessor = ''account_restoration_processor''"
| "processor_name_str NameAccountTransactionsProcessor = ''account_transactions_processor''"
| "processor_name_str NameAddressReputationProcessor = ''address_reputation_processor''"
| "processor_name_str NameAnsProcessor = ''ans_processor''"
| "processor_name_str NameDefaultProcessor = ''default_processor''"
| "processor_name_str NameEventsProcessor = ''events_processor''"
| "processor_name_str NameFungibleAssetProcessor = ''fungible_asset_processor''"
| "processor_name_str NameUserTransactionProcessor = ''user_transaction_processor''"
| "processor_name_str NameStakeProcessor = ''stake_processor''"
| "processor_name_str NameTokenV2Processor = ''token_v2_processor''"
| "processor_name_str NameObjectsProcessor = ''objects_processor''"
| "processor_name_str NameMonitoringProcessor = ''monitoring_processor''"
| "processor_name_str NameGasFeeProcessor = ''gas_fee_processor''"
| "processor_name_str NameParquetDefaultProcessor = ''parquet_default_processor''"
| "processor_name_str NameParquetObjectsProcessor = ''parquet_objects_processor''"
| "processor_name_str NameParquetUserTransactionProcessor = ''parquet_user_transaction_processor''"
| "processor_name_str NameParquetEventsProcessor = ''parquet_events_processor''"
| "processor_name_str NameParquetAnsProcessor = ''parquet_ans_processor''"
| "processor_name_str NameParquetFungibleAssetProcessor = ''parquet_fungible_asset_processor''"
| "processor_name_str NameParquetTransactionMetadataProcessor = ''parquet_transaction_metadata_processor''"
| "processor_name_str NameParquetAccountTransactionsProcessor = ''parquet_account_transactions_processor''"
| "processor_name_str NameParquetTokenV2Processor = ''parquet_token_v2_processor''"
| "processor_name_str NameParquetStakeProcessor = ''parquet_stake_processor''"

definition processor_names :: "processor_name list" where
  "processor_names =
    [NameAccountRestorationProcessor,
     NameAccountTransactionsProcessor,
     NameAddressReputationProcessor,
     NameAnsProcessor,
     NameDefaultProcessor,
     NameEventsProcessor,
     NameFungibleAssetProcessor,
     NameUserTransactionProcessor,
     NameStakeProcessor,
     NameTokenV2Processor,
     NameObjectsProcessor,
     NameMonitoringProcessor,
     NameGasFeeProcessor,
     NameParquetDefaultProcessor,
     NameParquetObjectsProcessor,
     NameParquetUserTransactionProcessor,
     NameParquetEventsProcessor,
     NameParquetAnsProcessor,
     NameParquetFungibleAssetProcessor,
     NameParquetTransactionMetadataProcessor,
     NameParquetAccountTransactionsProcessor,
     NameParquetTokenV2Processor,
     NameParquetStakeProcessor]"

definition config_name :: "processor_config \<Rightarrow> string" where
  "config_name c = processor_name_str (processor_name_of c)"

fun table_names :: "processor_name \<Rightarrow> string list" where
  "table_names NameParquetDefaultProcessor = [''transactions'', ''move_resources'', ''write_set_changes'', ''table_items'', ''move_modules'', ''block_metadata_transactions'', ''current_table_items'', ''table_metadata'']"
| "table_names NameParquetUserTransactionProcessor = [''user_transactions'']"
| "table_names NameParquetEventsProcessor = [''events'']"
| "table_names NameParquetAnsProcessor = [''ans_lookup_v2'', ''ans_primary_name_v2'', ''current_ans_lookup_v2'', ''current_ans_primary_name_v2'']"
| "table_names NameParquetFungibleAssetProcessor = [''fungible_asset_activities'', ''fungible_asset_balances'', ''current_fungible_asset_balances_legacy'', ''current_fungible_asset_balances'', ''fungible_asset_metadata'']"
| "table_names NameParquetTransactionMetadataProcessor = [''write_set_size'']"
| "table_names NameParquetAccountTransactionsProcessor = [''account_transactions'']"
| "table_names NameParquetTokenV2Processor = [''current_token_pending_claims'', ''current_token_royalties_v1'', ''current_token_v2_metadata'', ''token_activities_v2'', ''token_datas_v2'', ''current_token_datas_v2'', ''token_ownerships_v2'', ''current_token_ownerships_v2'']"
| "table_names NameParquetObjectsProcessor = [''objects'']"
| "table_names NameParquetStakeProcessor = [''delegated_staking_activities'', ''proposal_votes'', ''delegator_balances'', ''current_delegator_balances'']"
| "table_names _ = []"

definition valid_table_names :: "(string \<times> string list) list" where
  "valid_table_names = map (\<lambda>n. (processor_name_str n, table_names n)) processor_names"

definition format_table_name :: "string \<Rightarrow> string \<Rightarrow> string" where
  "format_table_name prefix table_name = prefix @ ''.'' @ table_name"

fun parquet_config_of :: "processor_config \<Rightarrow> parquet_default_processor_config option" where
  "parquet_config_of (ParquetDefaultProcessor c) = Some c"
| "parquet_config_of (ParquetObjectsProcessor c) = Some c"
| "parquet_config_of (ParquetUserTransactionProcessor c) = Some c"
| "parquet_config_of (ParquetEventsProcessor c) = Some c"
| "parquet_config_of (ParquetFungibleAssetProcessor c) = Some c"
| "parquet_config_of (ParquetTransactionMetadataProcessor c) = Some c"
| "parquet_config_of (ParquetAccountTransactionsProcessor c) = Some c"
| "parquet_config_of (ParquetTokenV2Processor c) = Some c"
| "parquet_config_of (ParquetStakeProcessor c) = Some c"
| "parquet_config_of (ParquetAnsProcessor c) = Some (pans_default c)"
| "parquet_config_of _ = None"

primrec validate_backfill_table_names :: "string list \<Rightarrow> string list \<Rightarrow> string list result" where
  "validate_backfill_table_names [] valid = Inr []"
| "validate_backfill_table_names (t # ts) valid =
     (if to_lowercase t \<notin> set valid then Inl (ProcessError (''Invalid table name: '' @ t))
      else case validate_backfill_table_names ts valid of
             Inl e \<Rightarrow> Inl e
           | Inr us \<Rightarrow> Inr (t # us))"

definition get_processor_status_table_names :: "processor_config \<Rightarrow> string list result" where
  "get_processor_status_table_names c =
     (case parquet_config_of c of
        None \<Rightarrow> Inl (ProcessError ''Invalid parquet processor config'')
      | Some pc \<Rightarrow>
          (case map_of valid_table_names (config_name c) of
             None \<Rightarrow> Inl (ProcessError ''Processor type not recognized'')
           | Some valid \<Rightarrow>
               (if pc_backfill_table pc = []
                then Inr (map (format_table_name (config_name c)) valid)
                else validate_backfill_table_names (pc_backfill_table pc) valid)))"

record indexer_processor_config =
  ic_processor_config :: processor_config
  ic_db_config :: db_config
  ic_processor_mode :: processor_mode

definition get_server_name :: "indexer_processor_config \<Rightarrow> string" where
  "get_server_name cfg =
     (case str_split (CHR ''_'') (config_name (ic_processor_config cfg)) of
        [] \<Rightarrow> take 12 ''unknown''
      | before_underscore # _ \<Rightarrow> take 12 before_underscore)"

section \<open>Lemmas\<close>

lemma set_processor_names: "n \<in> set processor_names"
  by (cases n) (simp_all add: processor_names_def)

lemma distinct_processor_strs: "distinct (map processor_name_str processor_names)"
  by (simp add: processor_names_def)

lemma processor_name_str_inj: "processor_name_str m = processor_name_str n \<Longrightarrow> m = n"
  using distinct_processor_strs set_processor_names
  by (metis distinct_map inj_onD)

lemma valid_table_names_lookup:
  "map_of valid_table_names (processor_name_str n) = Some (table_names n)"
proof -
  have "distinct (map fst valid_table_names)"
    using distinct_processor_strs by (simp add: valid_table_names_def comp_def)
  then show ?thesis
    using set_processor_names [of n] by (auto simp: valid_table_names_def)
qed

lemma valid_table_names_config:
  "map_of valid_table_names (config_name c) = Some (table_names (processor_name_of c))"
  by (simp add: config_name_def valid_table_names_lookup)

lemma validate_backfill_Inr_iff:
  "validate_backfill_table_names ts valid = Inr us \<longleftrightarrow>
     us = ts \<and> (\<forall>t \<in> set ts. to_lowercase t \<in> set valid)"
  by (induction ts arbitrary: us) (auto split: sum.splits)

lemma status_table_names_default:
  assumes "parquet_config_of c = Some pc" and "pc_backfill_table pc = []"
  shows "get_processor_status_table_names c =
    Inr (map (format_table_name (config_name c)) (table_names (processor_name_of c)))"
  using assms by (simp add: get_processor_status_table_names_def valid_table_names_config)

lemma status_table_names_backfill:
  assumes "parquet_config_of c = Some pc" and "pc_backfill_table pc \<noteq> []"
  shows "get_processor_status_table_names c =
    validate_backfill_table_names (pc_backfill_table pc) (table_names (processor_name_of c))"
  using assms by (simp add: get_processor_status_table_names_def valid_table_names_config)

lemma dot_notin_table_names: "t \<in> set (table_names n) \<Longrightarrow> CHR ''.'' \<notin> set t"
  by (cases n) (auto simp: table_names.simps)

lemma to_lowercase_dot: "CHR ''.'' \<in> set t \<Longrightarrow> CHR ''.'' \<in> set (to_lowercase t)"
  by (force simp: to_lowercase_def char_lower_def image_iff)

lemma dot_in_format: "CHR ''.'' \<in> set (format_table_name p t)"
  by (simp add: format_table_name_def)

section \<open>Properties\<close>

text \<open>
  The status names of a parquet processor.  Without a backfill list they are the
  processor's table names, each prefixed by the processor name; with one they are exactly the
  configured names, unprefixed, and the call fails as soon as one of them is not (up to case)
  a table of this processor.
\<close>

theorem status_table_names_spec:
  assumes "parquet_config_of c = Some pc"
  shows "get_processor_status_table_names c = Inr ns \<longleftrightarrow>
    (if pc_backfill_table pc = []
     then ns = map (format_table_name (config_name c)) (table_names (processor_name_of c))
     else ns = pc_backfill_table pc \<and>
          (\<forall>t \<in> set ns. to_lowercase t \<in> set (table_names (processor_name_of c))))"
  using assms
  by (auto simp: status_table_names_default status_table_names_backfill validate_backfill_Inr_iff)

theorem status_table_names_spec_witness:
  "get_processor_status_table_names
     (ParquetEventsProcessor (serde_parquet_default_processor_config\<lparr>pc_backfill_table := [''EVENTS'']\<rparr>))
   = Inr [''EVENTS'']"
proof -
  have "parquet_config_of
     (ParquetEventsProcessor (serde_parquet_default_processor_config\<lparr>pc_backfill_table := [''EVENTS'']\<rparr>))
     = Some (serde_parquet_default_processor_config\<lparr>pc_backfill_table := [''EVENTS'']\<rparr>)"
    by simp
  moreover have "to_lowercase ''EVENTS'' = ''events''" by code_simp
  ultimately show ?thesis
    using status_table_names_spec [of _ _ "[''EVENTS'']"] by simp
qed

end
