(* ===== verification/StatusSaver.thy ===== *)
theory StatusSaver
  imports Config SampleExtern
begin

text \<open>
  \<open>processors/processor_status_saver.rs\<close> and \<open>db/backfill_processor_status.rs\<close>: where a
  processor starts, where it ends and how its progress is saved.  The two status tables are
  lists of rows; \<open>last_updated\<close>, which the database fills with its own clock, is left out.
  Every database call can fail: \<open>faults c\<close> says whether call \<open>c\<close> does in this execution.
\<close>

section \<open>Tables\<close>

datatype backfill_status = InProgress | Complete

definition backfill_status_to_sql :: "backfill_status \<Rightarrow> string" where
  "backfill_status_to_sql st =
     (case st of InProgress \<Rightarrow> ''in_progress'' | Complete \<Rightarrow> ''complete'')"

definition backfill_status_from_sql :: "string \<Rightarrow> backfill_status result" where
  "backfill_status_from_sql s =
     (if s = ''in_progress'' then Inr InProgress
      else if s = ''complete'' then Inr Complete
      else Inl (ProcessError ''Unrecognized enum variant''))"

record processor_status =
  ps_processor :: string
  ps_last_success_version :: i64
  ps_last_transaction_timestamp :: "datetime option"

record backfill_processor_status =
  bps_backfill_alias :: string
  bps_backfill_status :: backfill_status
  bps_last_success_version :: i64
  bps_last_transaction_timestamp :: "datetime option"
  bps_backfill_start_version :: i64
  bps_backfill_end_version :: "i64 option"

record status_db =
  sd_processor_status :: "processor_status list"
  sd_backfill :: "backfill_processor_status list"

datatype db_call = GetConn | QueryProcessorStatus | QueryBackfillStatus | ExecStatusUpsert

type_synonym faults = "db_call \<Rightarrow> bool"

section \<open>Saving\<close>

definition merge_processor_status :: "processor_status \<Rightarrow> processor_status \<Rightarrow> processor_status" where
  "merge_processor_status old n =
     (if sint (ps_last_success_version old) \<le> sint (ps_last_success_version n)
      then old\<lparr>ps_last_success_version := ps_last_success_version n,
               ps_last_transaction_timestamp := ps_last_transaction_timestamp n\<rparr>
      else old)"

definition overwrite_backfill ::
  "backfill_processor_status \<Rightarrow> backfill_processor_status \<Rightarrow> backfill_processor_status" where
  "overwrite_backfill old n =
     old\<lparr>bps_backfill_status := bps_backfill_status n,
         bps_last_success_version := bps_last_success_version n,
         bps_last_transaction_timestamp := bps_last_transaction_timestamp n,
         bps_backfill_start_version := bps_backfill_start_version n,
         bps_backfill_end_version := bps_backfill_end_version n\<rparr>"

definition merge_backfill ::
  "backfill_processor_status \<Rightarrow> backfill_processor_status \<Rightarrow> backfill_processor_status" where
  "merge_backfill old n =
     (if sint (bps_last_success_version old) \<le> sint (bps_last_success_version n)
      then overwrite_backfill old n else old)"

definition backfill_alias_of :: "string \<Rightarrow> string \<Rightarrow> string" where
  "backfill_alias_of processor_name backfill_id = processor_name @ ''_'' @ backfill_id"

definition backfill_status_at :: "u64 option \<Rightarrow> i64 \<Rightarrow> backfill_status" where
  "backfill_status_at ending_version last_success_version =
     (case ending_version of
        None \<Rightarrow> InProgress
      | Some e \<Rightarrow> if sint e \<le> sint last_success_version then Complete else InProgress)"

definition save_processor_status ::
  "extern \<Rightarrow> string \<Rightarrow> processor_mode \<Rightarrow> txn_metadata \<Rightarrow> faults \<Rightarrow> status_db \<Rightarrow> status_db result"
where
  "save_processor_status ext processor_id mode meta faults db =
     (let last_success_version = tm_end_version meta;
          last_transaction_timestamp =
            map_option (\<lambda>t. parse_timestamp ext t (tm_end_version meta))
              (tm_end_transaction_timestamp meta);
          status = \<lparr>ps_processor = processor_id,
                    ps_last_success_version = last_success_version,
                    ps_last_transaction_timestamp = last_transaction_timestamp\<rparr>
      in case mode of
           ModeDefault _ \<Rightarrow>
             (if faults ExecStatusUpsert then Inl (DBStoreError ''processor_status'')
              else Inr (db\<lparr>sd_processor_status :=
                upsert ps_processor merge_processor_status status (sd_processor_status db)\<rparr>))
         | ModeBackfill bc \<Rightarrow>
             (let row = \<lparr>bps_backfill_alias = backfill_alias_of processor_id (bf_backfill_id bc),
                         bps_backfill_status =
                           backfill_status_at (bf_ending_version bc) last_success_version,
                         bps_last_success_version = last_success_version,
                         bps_last_transaction_timestamp = last_transaction_timestamp,
                         bps_backfill_start_version = bf_initial_starting_version bc,
                         bps_backfill_end_version = bf_ending_version bc\<rparr>;
                  merge = (if bf_overwrite_checkpoint bc then overwrite_backfill else merge_backfill)
              in if faults ExecStatusUpsert then Inl (DBStoreError ''backfill_processor_status'')
                 else Inr (db\<lparr>sd_backfill :=
                   upsert bps_backfill_alias merge row (sd_backfill db)\<rparr>))
         | ModeTesting _ \<Rightarrow> Inr db)"

section \<open>Starting and ending versions\<close>

definition get_by_processor :: "string \<Rightarrow> status_db \<Rightarrow> processor_status option" where
  "get_by_processor processor_name db = find_row ps_processor processor_name (sd_processor_status db)"

definition get_backfill_by_processor ::
  "string \<Rightarrow> string \<Rightarrow> status_db \<Rightarrow> backfill_processor_status option" where
  "get_backfill_by_processor processor_name backfill_id db =
     find_row bps_backfill_alias (backfill_alias_of processor_name backfill_id) (sd_backfill db)"

definition get_end_version ::
  "indexer_processor_config \<Rightarrow> faults \<Rightarrow> status_db \<Rightarrow> u64 option result" where
  "get_end_version config faults db =
     (case ic_processor_mode config of
        ModeDefault _ \<Rightarrow> Inr None
      | ModeBackfill bc \<Rightarrow>
          (case bf_ending_version bc of
             Some e \<Rightarrow> Inr (Some e)
           | None \<Rightarrow>
               (if faults GetConn then Inl (ProcessError ''Failed to get database connection'')
                else if faults QueryProcessorStatus
                then Inl (ProcessError ''Failed to query processor_status table'')
                else Inr (map_option ps_last_success_version
                       (get_by_processor (config_name (ic_processor_config config)) db))))
      | ModeTesting tc \<Rightarrow>
          Inr (Some (unwrap_or (tc_ending_version tc) (tc_override_starting_version tc))))"

definition reset_backfill_row ::
  "string \<Rightarrow> u64 \<Rightarrow> i64 option \<Rightarrow> backfill_processor_status" where
  "reset_backfill_row alias initial end_version =
     \<lparr>bps_backfill_alias = alias, bps_backfill_status = InProgress,
      bps_last_success_version = 0, bps_last_transaction_timestamp = None,
      bps_backfill_start_version = initial, bps_backfill_end_version = end_version\<rparr>"

definition get_starting_version ::
  "indexer_processor_config \<Rightarrow> faults \<Rightarrow> status_db \<Rightarrow> (u64 option \<times> status_db) result" where
  "get_starting_version config faults db =
     (let processor_name = config_name (ic_processor_config config) in
      if faults GetConn then Inl (ProcessError ''Failed to get database connection'')
      else case ic_processor_mode config of
        ModeDefault bs \<Rightarrow>
          (if faults QueryProcessorStatus
           then Inl (ProcessError ''Failed to query processor_status table'')
           else Inr (Some (case get_by_processor processor_name db of
                  None \<Rightarrow> bs_initial_starting_version bs
                | Some status \<Rightarrow>
                    max (ps_last_success_version status) (bs_initial_starting_version bs)), db))
      | ModeBackfill bc \<Rightarrow>
          (if faults QueryBackfillStatus
           then Inl (ProcessError ''Failed to query backfill_processor_status table'')
           else case get_backfill_by_processor processor_name (bf_backfill_id bc) db of
             None \<Rightarrow> Inr (Some (bf_initial_starting_version bc), db)
           | Some status \<Rightarrow>
               (if bps_backfill_status status = Complete \<and> \<not> bf_overwrite_checkpoint bc
                then Inr (bf_ending_version bc, db)
                else if bf_overwrite_checkpoint bc
                then (case (case bf_ending_version bc of
                              Some e \<Rightarrow> Inr (Some e)
                            | None \<Rightarrow> get_end_version config faults db) of
                        Inl e \<Rightarrow> Inl e
                      | Inr backfill_end_version \<Rightarrow>
                          (if faults ExecStatusUpsert
                           then Inl (DBStoreError ''backfill_processor_status'')
                           else Inr (Some (bf_initial_starting_version bc),
                             db\<lparr>sd_backfill := upsert bps_backfill_alias overwrite_backfill
                                  (reset_backfill_row (bps_backfill_alias status)
                                     (bf_initial_starting_version bc) backfill_end_version)
                                  (sd_backfill db)\<rparr>)))
                else Inr (Some (bps_last_success_version status + 1), db)))
      | ModeTesting tc \<Rightarrow> Inr (Some (tc_override_starting_version tc), db))"

section \<open>A sequence of saves\<close>

record save_request =
  sr_processor_id :: string
  sr_mode :: processor_mode
  sr_meta :: txn_metadata
  sr_faults :: faults

definition apply_save :: "extern \<Rightarrow> save_request \<Rightarrow> status_db \<Rightarrow> status_db" where
  "apply_save ext r db =
     (case save_processor_status ext (sr_processor_id r) (sr_mode r) (sr_meta r) (sr_faults r) db of
        Inl e \<Rightarrow> db | Inr db' \<Rightarrow> db')"

definition run_saves :: "extern \<Rightarrow> save_request list \<Rightarrow> status_db \<Rightarrow> status_db" where
  "run_saves ext rs db = fold (apply_save ext) rs db"

definition checkpoint :: "string \<Rightarrow> status_db \<Rightarrow> int option" where
  "checkpoint p db = map_option (\<lambda>s. sint (ps_last_success_version s)) (get_by_processor p db)"

definition saved_versions :: "string \<Rightarrow> save_request list \<Rightarrow> int list" where
  "saved_versions p rs =
     map (\<lambda>r. sint (tm_end_version (sr_meta r)))
       (filter (\<lambda>r. sr_processor_id r = p \<and> \<not> sr_faults r ExecStatusUpsert \<and>
                    (\<exists>bs. sr_mode r = ModeDefault bs)) rs)"

definition no_faults :: faults where
  "no_faults c = False"



text \<open>Inputs of the witnesses.\<close>

definition sample_config :: "processor_mode \<Rightarrow> indexer_processor_config" where
  "sample_config mode =
     \<lparr>ic_processor_config = EventsProcessor default_default_processor_config,
      ic_db_config = PostgresConfig \<lparr>pg_connection_string = [], pg_db_pool_size = 150\<rparr>,
      ic_processor_mode = mode\<rparr>"

definition sample_meta :: "u64 \<Rightarrow> u64 \<Rightarrow> txn_metadata" where
  "sample_meta a b = default_txn_metadata\<lparr>tm_start_version := a, tm_end_version := b\<rparr>"

definition empty_status_db :: status_db where
  "empty_status_db = \<lparr>sd_processor_status = [], sd_backfill = []\<rparr>"

section \<open>Lemmas\<close>

interpretation ps_table: keyed_upsert ps_processor merge_processor_status
  by unfold_locales (simp add: merge_processor_status_def)


interpretation bf_overwrite: keyed_upsert bps_backfill_alias overwrite_backfill
  by unfold_locales (simp add: overwrite_backfill_def)

lemma backfill_status_sql_roundtrip:
  "backfill_status_from_sql (backfill_status_to_sql st) = Inr st"
  by (cases st) (simp_all add: backfill_status_from_sql_def backfill_status_to_sql_def)

lemma merge_processor_status_version:
  "sint (ps_last_success_version (merge_processor_status old n)) =
     max (sint (ps_last_success_version old)) (sint (ps_last_success_version n))"
  by (simp add: merge_processor_status_def)

lemma checkpoint_upsert:
  "checkpoint p (db\<lparr>sd_processor_status :=
      upsert ps_processor merge_processor_status st (sd_processor_status db)\<rparr>) =
     (if p = ps_processor st
      then Some (case checkpoint p db of
             None \<Rightarrow> sint (ps_last_success_version st)
           | Some v \<Rightarrow> max v (sint (ps_last_success_version st)))
      else checkpoint p db)"
  by (auto simp: checkpoint_def get_by_processor_def ps_table.find_upsert
      merge_processor_status_version split: option.splits)

lemma checkpoint_backfill_update [simp]:
  "checkpoint p (db\<lparr>sd_backfill := rows\<rparr>) = checkpoint p db"
  by (simp add: checkpoint_def get_by_processor_def)

lemma checkpoint_apply_save:
  "checkpoint p (apply_save ext r db) =
     (if sr_processor_id r = p \<and> \<not> sr_faults r ExecStatusUpsert \<and> (\<exists>bs. sr_mode r = ModeDefault bs)
      then Some (case checkpoint p db of
             None \<Rightarrow> sint (tm_end_version (sr_meta r))
           | Some v \<Rightarrow> max v (sint (tm_end_version (sr_meta r))))
      else checkpoint p db)"
  by (cases "sr_mode r")
    (auto simp: apply_save_def save_processor_status_def Let_def checkpoint_upsert
      split: option.splits)

lemma checkpoint_run_saves:
  "checkpoint p (run_saves ext rs db) =
     (case checkpoint p db of
        None \<Rightarrow> (case saved_versions p rs of [] \<Rightarrow> None | v # vs \<Rightarrow> Some (fold max vs v))
      | Some v \<Rightarrow> Some (fold max (saved_versions p rs) v))"
proof (induction rs arbitrary: db)
  case Nil
  then show ?case by (simp add: run_saves_def saved_versions_def split: option.splits)
next
  case (Cons r rs)
  have "run_saves ext (r # rs) db = run_saves ext rs (apply_save ext r db)"
    by (simp add: run_saves_def)
  with Cons.IH [of "apply_save ext r db"] show ?case
    by (auto simp: checkpoint_apply_save saved_versions_def max.commute split: option.splits list.splits)
qed

lemma fold_max_ge: "v \<le> fold max vs (v :: int)" "x \<in> set vs \<Longrightarrow> x \<le> fold max vs (v :: int)"
proof -
  have "v \<le> fold max vs v \<and> (\<forall>x \<in> set vs. x \<le> fold max vs v)" for v :: int
    by (induction vs arbitrary: v) (auto, (meson max.bounded_iff)+)
  then show "v \<le> fold max vs v" "x \<in> set vs \<Longrightarrow> x \<le> fold max vs v" by auto
qed

lemma fold_max_mem: "fold max vs (v :: int) = v \<or> fold max vs v \<in> set vs"
  by (induction vs arbitrary: v) (auto simp: max_def)

lemma fold_max_eq_Max: "fold max vs (v :: int) = Max (insert v (set vs))"
proof (rule sym, rule Max_eqI)
  show "fold max vs v \<in> insert v (set vs)" using fold_max_mem [of vs v] by auto
qed (auto simp: fold_max_ge)




section \<open>Properties\<close>

text \<open>
  Claim C9: The checkpoint of a processor after any sequence of saves, by any processors, in any
  modes and with any of the statements failing, is the largest (as a signed 64-bit value) of the
  checkpoint before it and the end versions this processor saved in default mode.  So a
  checkpoint never moves backwards, whatever order the saves arrive in, and saves of other
  processors, backfills and tests do not touch it.
\<close>

theorem run_saves_checkpoint:
  "checkpoint p (run_saves ext rs db) =
     (let versions = set_option (checkpoint p db) \<union> set (saved_versions p rs)
      in if versions = {} then None else Some (Max versions))"
  by (auto simp: checkpoint_run_saves fold_max_eq_Max Let_def split: option.splits list.splits)

text \<open>
  Claim C10: A default-mode processor with no checkpoint, after saving the batches it processed
  (versions below \<open>2 ^ 63\<close>), restarts at the largest end version it saved or at the configured
  initial version, whichever is greater, and the restart writes nothing.
\<close>

theorem restart_resumes_at_last_saved:
  assumes "ic_processor_mode cfg = ModeDefault bs"
    and "\<not> faults GetConn" and "\<not> faults QueryProcessorStatus"
    and "p = config_name (ic_processor_config cfg)" and "checkpoint p db = None"
    and "saved_versions p rs \<noteq> []" and "\<forall>v \<in> set (saved_versions p rs). 0 \<le> v"
  shows "\<exists>s. get_starting_version cfg faults (run_saves ext rs db) = Inr (Some s, run_saves ext rs db) \<and>
    uint s = max (Max (set (saved_versions p rs))) (uint (bs_initial_starting_version bs))"
proof -
  have "checkpoint p (run_saves ext rs db) = Some (Max (set (saved_versions p rs)))"
    using assms by (auto simp: checkpoint_run_saves fold_max_eq_Max split: list.splits)
  then obtain st where st: "get_by_processor p (run_saves ext rs db) = Some st"
    and v: "sint (ps_last_success_version st) = Max (set (saved_versions p rs))"
    by (auto simp: checkpoint_def)
  from assms have "0 \<le> Max (set (saved_versions p rs))" by simp
  with v have "uint (ps_last_success_version st) = Max (set (saved_versions p rs))"
    by (simp add: uint_eq_sint)
  with st assms show ?thesis by (auto simp: get_starting_version_def Let_def uint_max)
qed

theorem restart_resumes_at_last_saved_witness:
  "\<exists>s. get_starting_version (sample_config default_processor_mode) no_faults
       (run_saves sample_extern
          [\<lparr>sr_processor_id = ''events_processor'', sr_mode = default_processor_mode,
            sr_meta = sample_meta 0 99, sr_faults = no_faults\<rparr>] empty_status_db) =
     Inr (Some s, run_saves sample_extern
          [\<lparr>sr_processor_id = ''events_processor'', sr_mode = default_processor_mode,
            sr_meta = sample_meta 0 99, sr_faults = no_faults\<rparr>] empty_status_db) \<and> uint s = 99"
proof -
  let ?r = "\<lparr>sr_processor_id = ''events_processor'', sr_mode = default_processor_mode,
    sr_meta = sample_meta 0 99, sr_faults = no_faults\<rparr>"
  have v: "saved_versions ''events_processor'' [?r] = [99]"
    by (simp add: saved_versions_def default_processor_mode_def no_faults_def sample_meta_def
        default_txn_metadata_def)
  have "ic_processor_mode (sample_config default_processor_mode) =
      ModeDefault \<lparr>bs_initial_starting_version = 0\<rparr>"
    by (simp add: sample_config_def default_processor_mode_def)
  from restart_resumes_at_last_saved [OF this, of no_faults "''events_processor''" empty_status_db
      "[?r]" sample_extern] v
  show ?thesis
    by (simp add: no_faults_def sample_config_def config_name_def checkpoint_def
        get_by_processor_def empty_status_db_def)
qed



text \<open>
  With \<open>overwrite_checkpoint\<close> every start of a backfill begins at the configured
  initial version whatever was saved before, resets the job's row (if there is one) to in
  progress at version 0, and leaves the regular checkpoints alone.
\<close>

theorem backfill_overwrite_resets:
  assumes "ic_processor_mode cfg = ModeBackfill bc" "bf_overwrite_checkpoint bc"
    and "\<forall>c. \<not> faults c" and "p = config_name (ic_processor_config cfg)"
  shows "\<exists>db'. get_starting_version cfg faults db = Inr (Some (bf_initial_starting_version bc), db') \<and>
    sd_processor_status db' = sd_processor_status db \<and>
    map_option (\<lambda>st. (bps_backfill_status st, bps_last_success_version st))
      (get_backfill_by_processor p (bf_backfill_id bc) db') =
    map_option (\<lambda>st. (InProgress, 0)) (get_backfill_by_processor p (bf_backfill_id bc) db)"
proof (cases "get_backfill_by_processor p (bf_backfill_id bc) db")
  case None
  with assms show ?thesis by (simp add: get_starting_version_def Let_def)
next
  case (Some st)
  then have "bps_backfill_alias st = backfill_alias_of p (bf_backfill_id bc)"
    by (auto simp: get_backfill_by_processor_def dest: find_row_SomeD)
  with Some assms show ?thesis
    by (cases "bf_ending_version bc")
      (auto simp: get_starting_version_def Let_def get_end_version_def reset_backfill_row_def
        get_backfill_by_processor_def bf_overwrite.find_upsert overwrite_backfill_def)
qed

theorem backfill_overwrite_resets_witness:
  "\<exists>db'. get_starting_version (sample_config (ModeBackfill
         \<lparr>bf_backfill_id = ''x'', bf_initial_starting_version = 7, bf_ending_version = None,
          bf_overwrite_checkpoint = True\<rparr>)) no_faults empty_status_db = Inr (Some 7, db') \<and>
     sd_processor_status db' = []"
  using backfill_overwrite_resets [of "sample_config (ModeBackfill
         \<lparr>bf_backfill_id = ''x'', bf_initial_starting_version = 7, bf_ending_version = None,
          bf_overwrite_checkpoint = True\<rparr>)" "\<lparr>bf_backfill_id = ''x'',
          bf_initial_starting_version = 7, bf_ending_version = None,
          bf_overwrite_checkpoint = True\<rparr>" no_faults "''events_processor''" empty_status_db]
  by (auto simp: sample_config_def no_faults_def config_name_def empty_status_db_def)

text \<open>
  Testing mode never stores progress, always starts at
  \<open>override_starting_version\<close>, and without an ending version covers that single version.
\<close>

theorem testing_mode_pinned:
  assumes "ic_processor_mode cfg = ModeTesting tc" and "\<not> faults GetConn"
    and "\<forall>r \<in> set rs. sr_mode r = ModeTesting tc"
  shows "run_saves ext rs db = db \<and>
    get_starting_version cfg faults (run_saves ext rs db) = Inr (Some (tc_override_starting_version tc), db) \<and>
    get_end_version cfg faults db =
      Inr (Some (case tc_ending_version tc of None \<Rightarrow> tc_override_starting_version tc | Some e \<Rightarrow> e))"
proof -
  from assms(3) have "run_saves ext rs db = db"
    by (induction rs) (auto simp: run_saves_def apply_save_def save_processor_status_def Let_def)
  with assms(1,2) show ?thesis
    by (simp add: get_starting_version_def get_end_version_def Let_def unwrap_or_def)
qed

theorem testing_mode_pinned_witness:
  "get_end_version (sample_config (ModeTesting
     \<lparr>tc_override_starting_version = 5, tc_ending_version = None\<rparr>)) no_faults empty_status_db = Inr (Some 5)"
  using testing_mode_pinned [of "sample_config (ModeTesting
     \<lparr>tc_override_starting_version = 5, tc_ending_version = None\<rparr>)"
     "\<lparr>tc_override_starting_version = 5, tc_ending_version = None\<rparr>" no_faults "[]"
     sample_extern empty_status_db]
  by (simp add: sample_config_def no_faults_def)

end
