(* ===== verification/ParquetBuffer.thy ===== *)
theory ParquetBuffer
  imports StatusSaver "HOL-Library.AList"
begin

text \<open>
  \<open>parquet_processors/mod.rs\<close>, \<open>parquet_utils/parquet_buffer_step.rs\<close> and
  \<open>parquet_utils/gcs_uploader.rs\<close>: rows are buffered per table until a size limit and then
  uploaded as one file.  Hash maps are association lists in their iteration order.  The row
  types, the heap size of a batch (crate \<open>allocative\<close>) and the outcome of an upload are
  parameters; what an upload stores is the rows it was given.  A failed step stops the
  pipeline, so an error carries no state.
\<close>

section \<open>Tables\<close>

datatype parquet_type =
    PtMoveResources
  | PtWriteSetChanges
  | PtTransactions
  | PtTableItems
  | PtMoveModules
  | PtCurrentTableItems
  | PtBlockMetadataTransactions
  | PtTableMetadata
  | PtEvents
  | PtUserTransactions
  | PtSignatures
  | PtAnsPrimaryNameV2
  | PtCurrentAnsPrimaryNameV2
  | PtAnsLookupV2
  | PtCurrentAnsLookupV2
  | PtFungibleAssetActivities
  | PtFungibleAssetMetadata
  | PtFungibleAssetBalances
  | PtCurrentFungibleAssetBalances
  | PtCurrentFungibleAssetBalancesLegacy
  | PtFungibleAssetToCoinMappings
  | PtWriteSetSize
  | PtAccountTransactions
  | PtCurrentTokenPendingClaims
  | PtCurrentTokenRoyaltiesV1
  | PtCurrentTokenV2Metadata
  | PtTokenActivitiesV2
  | PtTokenDatasV2
  | PtCurrentTokenDatasV2
  | PtTokenOwnershipsV2
  | PtCurrentTokenOwnershipsV2
  | PtCollectionsV2
  | PtDelegatedStakingActivities
  | PtCurrentDelegatorBalances
  | PtDelegatorBalances
  | PtProposalVotes
  | PtObjects
  | PtCurrentObjects

fun parquet_type_to_string :: "parquet_type \<Rightarrow> string" where
  "parquet_type_to_string PtMoveResources = ''move_resources''"
| "parquet_type_to_string PtWriteSetChanges = ''write_set_changes''"
| "parquet_type_to_string PtTransactions = ''transactions''"
| "parquet_type_to_string PtTableItems = ''table_items''"
| "parquet_type_to_string PtMoveModules = ''move_modules''"
| "parquet_type_to_string PtCurrentTableItems = ''current_table_items''"
| "parquet_type_to_string PtBlockMetadataTransactions = ''block_metadata_transactions''"
| "parquet_type_to_string PtTableMetadata = ''table_metadata''"
| "parquet_type_to_string PtEvents = ''events''"
| "parquet_type_to_string PtUserTransactions = ''user_transactions''"
| "parquet_type_to_string PtSignatures = ''signatures''"
| "parquet_type_to_string PtAnsPrimaryNameV2 = ''ans_primary_name_v2''"
| "parquet_type_to_string PtCurrentAnsPrimaryNameV2 = ''current_ans_primary_name_v2''"
| "parquet_type_to_string PtAnsLookupV2 = ''ans_lookup_v2''"
| "parquet_type_to_string PtCurrentAnsLookupV2 = ''current_ans_lookup_v2''"
| "parquet_type_to_string PtFungibleAssetActivities = ''fungible_asset_activities''"
| "parquet_type_to_string PtFungibleAssetMetadata = ''fungible_asset_metadata''"
| "parquet_type_to_string PtFungibleAssetBalances = ''fungible_asset_balances''"
| "parquet_type_to_string PtCurrentFungibleAssetBalances = ''current_fungible_asset_balances''"
| "parquet_type_to_string PtCurrentFungibleAssetBalancesLegacy = ''current_fungible_asset_balances_legacy''"
| "parquet_type_to_string PtFungibleAssetToCoinMappings = ''fungible_asset_to_coin_mappings''"
| "parquet_type_to_string PtWriteSetSize = ''write_set_size''"
| "parquet_type_to_string PtAccountTransactions = ''account_transactions''"
| "parquet_type_to_string PtCurrentTokenPendingClaims = ''current_token_pending_claims''"
| "parquet_type_to_string PtCurrentTokenRoyaltiesV1 = ''current_token_royalties_v1''"
| "parquet_type_to_string PtCurrentTokenV2Metadata = ''current_token_v2_metadata''"
| "parquet_type_to_string PtTokenActivitiesV2 = ''token_activities_v2''"
| "parquet_type_to_string PtTokenDatasV2 = ''token_datas_v2''"
| "parquet_type_to_string PtCurrentTokenDatasV2 = ''current_token_datas_v2''"
| "parquet_type_to_string PtTokenOwnershipsV2 = ''token_ownerships_v2''"
| "parquet_type_to_string PtCurrentTokenOwnershipsV2 = ''current_token_ownerships_v2''"
| "parquet_type_to_string PtCollectionsV2 = ''collections_v2''"
| "parquet_type_to_string PtDelegatedStakingActivities = ''delegated_staking_activities''"
| "parquet_type_to_string PtCurrentDelegatorBalances = ''current_delegator_balances''"
| "parquet_type_to_string PtDelegatorBalances = ''delegator_balances''"
| "parquet_type_to_string PtProposalVotes = ''proposal_votes''"
| "parquet_type_to_string PtObjects = ''objects''"
| "parquet_type_to_string PtCurrentObjects = ''current_objects''"

text \<open>
  \<open>ParquetTypeStructs\<close> has one variant per table type, each a vector of that table's row
  struct; here it is the table type with the rows, so \<open>parquet_type()\<close> is the first component
  and \<open>append\<close> is defined on equal types.
\<close>

datatype 'r parquet_structs = ParquetStructs (ps_type: parquet_type) (ps_rows: "'r list")

definition default_for_type :: "parquet_type \<Rightarrow> 'r parquet_structs" where
  "default_for_type ty = ParquetStructs ty []"

definition append_structs :: "'r parquet_structs \<Rightarrow> 'r parquet_structs \<Rightarrow> 'r parquet_structs result" where
  "append_structs self other =
     (if ps_type self = ps_type other
      then Inr (ParquetStructs (ps_type self) (ps_rows self @ ps_rows other))
      else Inl (ProcessError ''Mismatched buffer types in append operation''))"

text \<open>The array \<open>data_types\<close> of each extractor: the tables it hands to the buffer step, each with the flag
  that opts it in.\<close>

definition default_data_types :: "(string \<times> parquet_type) list" where
  "default_data_types =
    [(''MOVE_RESOURCES'', PtMoveResources),
     (''WRITE_SET_CHANGES'', PtWriteSetChanges),
     (''TRANSACTIONS'', PtTransactions),
     (''TABLE_ITEMS'', PtTableItems),
     (''MOVE_MODULES'', PtMoveModules),
     (''CURRENT_TABLE_ITEMS'', PtCurrentTableItems),
     (''BLOCK_METADATA_TRANSACTIONS'', PtBlockMetadataTransactions),
     (''TABLE_METADATA'', PtTableMetadata)]"

definition user_transaction_data_types :: "(string \<times> parquet_type) list" where
  "user_transaction_data_types =
    [(''USER_TRANSACTIONS'', PtUserTransactions),
     (''SIGNATURES'', PtSignatures)]"

definition events_data_types :: "(string \<times> parquet_type) list" where
  "events_data_types =
    [(''EVENTS'', PtEvents)]"

definition ans_data_types :: "(string \<times> parquet_type) list" where
  "ans_data_types =
    [(''ANS_LOOKUP_V2'', PtAnsLookupV2),
     (''CURRENT_ANS_LOOKUP_V2'', PtCurrentAnsLookupV2),
     (''CURRENT_ANS_PRIMARY_NAME_V2'', PtCurrentAnsPrimaryNameV2),
     (''ANS_PRIMARY_NAME_V2'', PtAnsPrimaryNameV2)]"

definition fungible_asset_data_types :: "(string \<times> parquet_type) list" where
  "fungible_asset_data_types =
    [(''FUNGIBLE_ASSET_ACTIVITIES'', PtFungibleAssetActivities),
     (''FUNGIBLE_ASSET_METADATA'', PtFungibleAssetMetadata),
     (''FUNGIBLE_ASSET_BALANCES'', PtFungibleAssetBalances),
     (''FUNGIBLE_ASSET_TO_COIN_MAPPINGS'', PtFungibleAssetToCoinMappings)]"

definition transaction_metadata_data_types :: "(string \<times> parquet_type) list" where
  "transaction_metadata_data_types =
    [(''WRITE_SET_SIZE'', PtWriteSetSize)]"

definition account_transactions_data_types :: "(string \<times> parquet_type) list" where
  "account_transactions_data_types =
    [(''ACCOUNT_TRANSACTIONS'', PtAccountTransactions)]"

definition token_v2_data_types :: "(string \<times> parquet_type) list" where
  "token_v2_data_types =
    [(''CURRENT_TOKEN_PENDING_CLAIMS'', PtCurrentTokenPendingClaims),
     (''CURRENT_TOKEN_ROYALTY_V1'', PtCurrentTokenRoyaltiesV1),
     (''CURRENT_TOKEN_V2_METADATA'', PtCurrentTokenV2Metadata),
     (''TOKEN_ACTIVITIES_V2'', PtTokenActivitiesV2),
     (''TOKEN_DATAS_V2'', PtTokenDatasV2),
     (''CURRENT_TOKEN_DATAS_V2'', PtCurrentTokenDatasV2),
     (''TOKEN_OWNERSHIPS_V2'', PtTokenOwnershipsV2),
     (''CURRENT_TOKEN_OWNERSHIPS_V2'', PtCurrentTokenOwnershipsV2),
     (''COLLECTIONS_V2'', PtCollectionsV2)]"

definition objects_data_types :: "(string \<times> parquet_type) list" where
  "objects_data_types =
    [(''OBJECTS'', PtObjects),
     (''CURRENT_OBJECTS'', PtCurrentObjects)]"

definition stake_data_types :: "(string \<times> parquet_type) list" where
  "stake_data_types =
    [(''DELEGATED_STAKING_ACTIVITIES'', PtDelegatedStakingActivities),
     (''PROPOSAL_VOTES'', PtProposalVotes),
     (''DELEGATOR_BALANCES'', PtDelegatorBalances),
     (''CURRENT_DELEGATOR_BALANCES'', PtCurrentDelegatorBalances)]"

fun data_types :: "processor_name \<Rightarrow> (string \<times> parquet_type) list" where
  "data_types NameParquetDefaultProcessor = default_data_types"
| "data_types NameParquetUserTransactionProcessor = user_transaction_data_types"
| "data_types NameParquetEventsProcessor = events_data_types"
| "data_types NameParquetAnsProcessor = ans_data_types"
| "data_types NameParquetFungibleAssetProcessor = fungible_asset_data_types"
| "data_types NameParquetTransactionMetadataProcessor = transaction_metadata_data_types"
| "data_types NameParquetAccountTransactionsProcessor = account_transactions_data_types"
| "data_types NameParquetTokenV2Processor = token_v2_data_types"
| "data_types NameParquetObjectsProcessor = objects_data_types"
| "data_types NameParquetStakeProcessor = stake_data_types"
| "data_types _ = []"

lemmas data_types_defs = default_data_types_def user_transaction_data_types_def events_data_types_def ans_data_types_def fungible_asset_data_types_def transaction_metadata_data_types_def account_transactions_data_types_def token_v2_data_types_def objects_data_types_def stake_data_types_def

section \<open>Uploads\<close>

datatype upload_outcome = UploadOk | UploadErr | UploadTimeout

record upload_log =
  ul_result :: "unit result"
  ul_attempts :: nat
  ul_slept_ms :: nat

function upload_loop :: "(nat \<Rightarrow> upload_outcome) \<Rightarrow> nat \<Rightarrow> nat \<Rightarrow> nat \<Rightarrow> upload_log" where
  "upload_loop outcome retry_count delay slept =
     (let failed = (\<lambda>m. if 3 \<le> retry_count
            then \<lparr>ul_result = Inl (ProcessError m), ul_attempts = retry_count + 1, ul_slept_ms = slept\<rparr>
            else upload_loop outcome (retry_count + 1) (delay * 2) (slept + delay))
      in case outcome retry_count of
           UploadOk \<Rightarrow> \<lparr>ul_result = Inr (), ul_attempts = retry_count + 1, ul_slept_ms = slept\<rparr>
         | UploadErr \<Rightarrow> failed ''StorageError''
         | UploadTimeout \<Rightarrow> failed ''TimeoutError'')"
  by pat_completeness auto
termination
  by (relation "measure (\<lambda>(f, r, d, s). 4 - r)") auto

declare upload_loop.simps [simp del]

definition upload_parquet_to_gcs :: "(nat \<Rightarrow> upload_outcome) \<Rightarrow> bytes \<Rightarrow> upload_log" where
  "upload_parquet_to_gcs outcome buffer =
     (if buffer = [] then \<lparr>ul_result = Inl (ProcessError ''The file is empty and has no data to upload.''),
        ul_attempts = 0, ul_slept_ms = 0\<rparr>
      else upload_loop outcome 0 500 0)"

definition generate_parquet_file_path :: "string \<Rightarrow> string \<Rightarrow> string \<Rightarrow> string \<Rightarrow> string \<Rightarrow> string" where
  "generate_parquet_file_path bucket_root table highwater_s highwater_ms counter =
     bucket_root @ ''/'' @ table @ ''/'' @ highwater_s @ ''/'' @ highwater_ms @ ''_'' @ counter @ ''.parquet''"

definition upload_generic ::
  "('r list \<Rightarrow> bytes option) \<Rightarrow> (nat \<Rightarrow> upload_outcome) \<Rightarrow> 'r list \<Rightarrow> unit result" where
  "upload_generic writer outcome data =
     (if data = [] then Inr ()
      else case writer data of
             None \<Rightarrow> Inl (ProcessError ''Failed to write to row group'')
           | Some file \<Rightarrow> ul_result (upload_parquet_to_gcs outcome file))"

text \<open>
  The path is joined with a slash, as \<open>Path::join\<close> does for a root that does not end in one.
  \<open>writer\<close> is the parquet library: the file of a row group, or an error.
\<close>

section \<open>The buffer step\<close>

record 'r parquet_buffer =
  pb_buffer :: "'r parquet_structs"
  pb_size_bytes :: nat
  pb_metadata :: "txn_metadata option"

record 'r buffer_step =
  bst_buffers :: "(parquet_type \<times> 'r parquet_buffer) list"
  bst_files :: "'r parquet_structs list"

record 'r buffer_env =
  be_size :: "'r parquet_structs \<Rightarrow> nat"
  be_max_size :: nat
  be_upload :: "'r parquet_structs \<Rightarrow> unit result"

type_synonym upload_map = "(parquet_type \<times> txn_metadata) list"

definition new_buffer :: "parquet_type \<Rightarrow> 'r parquet_buffer" where
  "new_buffer ty = \<lparr>pb_buffer = default_for_type ty, pb_size_bytes = 0, pb_metadata = None\<rparr>"

definition update_current_batch_metadata ::
  "txn_metadata \<Rightarrow> 'r parquet_buffer \<Rightarrow> 'r parquet_buffer result" where
  "update_current_batch_metadata cur b =
     (case pb_metadata b of
        Some m \<Rightarrow>
          if tm_end_version m + 1 \<noteq> tm_start_version cur
          then Inl (ProcessError ''Gap founded: Buffer metadata end_version mismatch'')
          else Inr (b\<lparr>pb_metadata := Some (m\<lparr>tm_end_version := tm_end_version cur,
                 tm_total_size_in_bytes := tm_total_size_in_bytes cur,
                 tm_end_transaction_timestamp := tm_end_transaction_timestamp cur\<rparr>)\<rparr>)
      | None \<Rightarrow> Inr (b\<lparr>pb_metadata := Some cur\<rparr>))"

definition append_to_buffer ::
  "('r parquet_structs \<Rightarrow> nat) \<Rightarrow> 'r parquet_structs \<Rightarrow> 'r parquet_buffer \<Rightarrow> 'r parquet_buffer result" where
  "append_to_buffer calculate_size data b =
     (case append_structs (pb_buffer b) data of
        Inl e \<Rightarrow> Inl e
      | Inr structs \<Rightarrow> Inr (b\<lparr>pb_size_bytes := pb_size_bytes b + calculate_size data, pb_buffer := structs\<rparr>))"

definition flush_if_full ::
  "'r buffer_env \<Rightarrow> parquet_type \<Rightarrow> 'r parquet_structs \<Rightarrow> 'r parquet_buffer \<Rightarrow>
   ('r parquet_buffer \<times> 'r parquet_structs list \<times> txn_metadata option) result"
where
  "flush_if_full env ty data b =
     (if be_max_size env < pb_size_bytes b + be_size env data then
        (case be_upload env (pb_buffer b) of
           Inl e \<Rightarrow> Inl (ProcessError ''Failed to upload buffer'')
         | Inr _ \<Rightarrow>
             (case pb_metadata b of
                None \<Rightarrow> Inl (Panic ''called Option::unwrap() on a None value'')
              | Some m \<Rightarrow> Inr (new_buffer ty, [pb_buffer b], Some m)))
      else Inr (b, [], None))"

definition upload_buffer_append ::
  "'r buffer_env \<Rightarrow> txn_metadata \<Rightarrow> parquet_type \<times> 'r parquet_structs \<Rightarrow>
   upload_map \<times> 'r buffer_step \<Rightarrow> (upload_map \<times> 'r buffer_step) result"
where
  "upload_buffer_append env cur td ms =
     (case (td, ms) of ((ty, data), (uploads, st)) \<Rightarrow>
       let b = unwrap_or (map_of (bst_buffers st) ty) (new_buffer ty) in
       case flush_if_full env ty data b of
         Inl e \<Rightarrow> Inl e
       | Inr (b1, files, up) \<Rightarrow>
           (case append_to_buffer (be_size env) data b1 of
              Inl e \<Rightarrow> Inl e
            | Inr b2 \<Rightarrow>
                (case update_current_batch_metadata cur b2 of
                   Inl e \<Rightarrow> Inl e
                 | Inr b3 \<Rightarrow>
                     Inr (case up of None \<Rightarrow> uploads | Some m \<Rightarrow> AList.update ty m uploads,
                          st\<lparr>bst_buffers := AList.update ty b3 (bst_buffers st),
                             bst_files := bst_files st @ files\<rparr>))))"

definition buffer_process ::
  "'r buffer_env \<Rightarrow> (parquet_type \<times> 'r parquet_structs) list \<Rightarrow> txn_metadata \<Rightarrow> 'r buffer_step \<Rightarrow>
   ((upload_map \<times> txn_metadata) option \<times> 'r buffer_step) result"
where
  "buffer_process env data metadata st =
     (case fold_result (upload_buffer_append env metadata) data ([], st) of
        Inl e \<Rightarrow> Inl e
      | Inr (uploads, st') \<Rightarrow>
          Inr (if uploads \<noteq> [] then Some (uploads, metadata) else None, st'))"

definition drain_buffer ::
  "'r buffer_env \<Rightarrow> bool \<Rightarrow> parquet_type \<times> 'r parquet_buffer \<Rightarrow> upload_map \<times> 'r parquet_structs list \<Rightarrow>
   (upload_map \<times> 'r parquet_structs list) result"
where
  "drain_buffer env cleaning tb acc =
     (case tb of (ty, b) \<Rightarrow>
       if 0 < pb_size_bytes b then
         (case be_upload env (pb_buffer b) of
            Inl e \<Rightarrow> Inl (ProcessError ''Failed to upload buffer'')
          | Inr _ \<Rightarrow>
              (case pb_metadata b of
                 None \<Rightarrow> Inl (Panic ''Buffer metadata is missing'')
               | Some m \<Rightarrow>
                   Inr (AList.update ty
                          (if cleaning then m\<lparr>tm_total_size_in_bytes := of_nat (pb_size_bytes b)\<rparr> else m) (fst acc),
                        snd acc @ [pb_buffer b])))
       else Inr acc)"

definition drain_all ::
  "'r buffer_env \<Rightarrow> bool \<Rightarrow> 'r buffer_step \<Rightarrow> ((upload_map \<times> txn_metadata) option \<times> 'r buffer_step) result" where
  "drain_all env cleaning st =
     (case fold_result (drain_buffer env cleaning) (bst_buffers st) ([], []) of
        Inl e \<Rightarrow> Inl e
      | Inr (uploads, files) \<Rightarrow>
          Inr (if uploads \<noteq> [] then Some (uploads, default_txn_metadata) else None,
               \<lparr>bst_buffers = [], bst_files = bst_files st @ files\<rparr>))"

definition buffer_poll ::
  "'r buffer_env \<Rightarrow> 'r buffer_step \<Rightarrow> ((upload_map \<times> txn_metadata) option \<times> 'r buffer_step) result" where
  "buffer_poll env st = drain_all env False st"

definition buffer_cleanup ::
  "'r buffer_env \<Rightarrow> 'r buffer_step \<Rightarrow> ((upload_map \<times> txn_metadata) option \<times> 'r buffer_step) result" where
  "buffer_cleanup env st = drain_all env True st"

section \<open>Runs of the step\<close>

datatype 'r buffer_op = OpProcess "(parquet_type \<times> 'r parquet_structs) list" txn_metadata | OpPoll

definition buffer_op_step ::
  "'r buffer_env \<Rightarrow> 'r buffer_op \<Rightarrow> upload_map list \<times> 'r buffer_step \<Rightarrow> (upload_map list \<times> 'r buffer_step) result" where
  "buffer_op_step env op os =
     (case (case op of OpProcess data m \<Rightarrow> buffer_process env data m (snd os) | OpPoll \<Rightarrow> buffer_poll env (snd os)) of
        Inl e \<Rightarrow> Inl e
      | Inr (out, st) \<Rightarrow> Inr (fst os @ (case out of None \<Rightarrow> [] | Some (ups, m) \<Rightarrow> [ups]), st))"

definition buffer_run ::
  "'r buffer_env \<Rightarrow> 'r buffer_op list \<Rightarrow> (upload_map list \<times> 'r buffer_step) result" where
  "buffer_run env ops = fold_result (buffer_op_step env) ops ([], \<lparr>bst_buffers = [], bst_files = []\<rparr>)"

text \<open>What was handed to the step, what it uploaded and what it still holds, for one table.\<close>

definition rows_for :: "parquet_type \<Rightarrow> 'r parquet_structs list \<Rightarrow> 'r list" where
  "rows_for ty files = concat (map ps_rows (filter (\<lambda>s. ps_type s = ty) files))"

definition buffered :: "parquet_type \<Rightarrow> (parquet_type \<times> 'r parquet_buffer) list \<Rightarrow> 'r list" where
  "buffered ty bs = (case map_of bs ty of None \<Rightarrow> [] | Some b \<Rightarrow> ps_rows (pb_buffer b))"

definition buffer_meta :: "parquet_type \<Rightarrow> (parquet_type \<times> 'r parquet_buffer) list \<Rightarrow> txn_metadata list" where
  "buffer_meta ty bs = (case map_of bs ty of None \<Rightarrow> []
     | Some b \<Rightarrow> (case pb_metadata b of None \<Rightarrow> [] | Some m \<Rightarrow> [m]))"

fun op_rows :: "parquet_type \<Rightarrow> 'r buffer_op \<Rightarrow> 'r list" where
  "op_rows ty (OpProcess data m) = concat (map (\<lambda>(t, s). if t = ty then ps_rows s else []) data)"
| "op_rows ty OpPoll = []"

fun op_metas :: "'r buffer_op \<Rightarrow> txn_metadata list" where
  "op_metas (OpProcess data m) = [m]"
| "op_metas OpPoll = []"

definition opt_list :: "'a option \<Rightarrow> 'a list" where
  "opt_list x = (case x of None \<Rightarrow> [] | Some y \<Rightarrow> [y])"

definition emitted :: "parquet_type \<Rightarrow> upload_map list \<Rightarrow> txn_metadata list" where
  "emitted ty outs = concat (map (\<lambda>ups. opt_list (map_of ups ty)) outs)"

text \<open>\<open>chain v ms = Some w\<close>: the ranges \<open>ms\<close> cover the versions from \<open>v\<close> up to \<open>w\<close> without a gap.\<close>

fun chain :: "u64 \<Rightarrow> txn_metadata list \<Rightarrow> u64 option" where
  "chain v [] = Some v"
| "chain v (m # ms) = (if tm_start_version m = v then chain (tm_end_version m + 1) ms else None)"

definition buffers_ok :: "(parquet_type \<times> 'r parquet_buffer) list \<Rightarrow> bool" where
  "buffers_ok bs \<longleftrightarrow> distinct (map fst bs) \<and>
     (\<forall>(ty, b) \<in> set bs. ps_type (pb_buffer b) = ty \<and>
        (pb_size_bytes b = 0 \<longrightarrow> ps_rows (pb_buffer b) = [] \<and> pb_metadata b = None))"

fun op_covers :: "parquet_type \<Rightarrow> 'r buffer_op \<Rightarrow> bool" where
  "op_covers ty (OpProcess data m) \<longleftrightarrow> distinct (map fst data) \<and> ty \<in> fst ` set data"
| "op_covers ty OpPoll \<longleftrightarrow> True"

section \<open>Lemmas\<close>

lemma upload_loop_result:
  "r \<le> 3 \<Longrightarrow> ul_result (upload_loop outcome r d s) = Inr () \<longleftrightarrow> (\<exists>k \<in> {r..3}. outcome k = UploadOk)"
proof (induction "3 - r" arbitrary: r d s)
  case 0
  then have "r = 3" by simp
  then show ?case by (auto simp: upload_loop.simps [of outcome 3] Let_def split: upload_outcome.splits)
next
  case (Suc n)
  then have r: "r < 3" and IH: "ul_result (upload_loop outcome (r + 1) (d * 2) (s + d)) = Inr () \<longleftrightarrow>
      (\<exists>k \<in> {r + 1..3}. outcome k = UploadOk)" by auto
  have "{r..3} = insert r {r + 1..3}" using r by auto
  with r IH show ?case
    by (auto simp: upload_loop.simps [of outcome r] Let_def split: upload_outcome.splits)
qed

lemma upload_loop_step:
  "r < 3 \<Longrightarrow> outcome r \<noteq> UploadOk \<Longrightarrow>
     upload_loop outcome r d s = upload_loop outcome (r + 1) (d * 2) (s + d)"
  by (cases "outcome r") (auto simp: upload_loop.simps [of outcome r] Let_def)

lemma upload_loop_done:
  "outcome r = UploadOk \<or> 3 \<le> r \<Longrightarrow>
     ul_attempts (upload_loop outcome r d s) = r + 1 \<and> ul_slept_ms (upload_loop outcome r d s) = s"
  by (cases "outcome r") (auto simp: upload_loop.simps [of outcome r] Let_def)

lemma upload_loop_bounds:
  "ul_attempts (upload_loop outcome 0 d s) \<le> 4 \<and> ul_slept_ms (upload_loop outcome 0 d s) \<le> s + 7 * d"
proof -
  consider "outcome 0 = UploadOk" | "outcome 0 \<noteq> UploadOk" "outcome 1 = UploadOk"
    | "outcome 0 \<noteq> UploadOk" "outcome 1 \<noteq> UploadOk" "outcome 2 = UploadOk"
    | "outcome 0 \<noteq> UploadOk" "outcome 1 \<noteq> UploadOk" "outcome 2 \<noteq> UploadOk"
    by blast
  then show ?thesis
    by cases (simp_all add: upload_loop_step upload_loop_done numeral_2_eq_2 [symmetric] numeral_3_eq_3 [symmetric])
qed

lemma rows_for_append [simp]: "rows_for ty (xs @ ys) = rows_for ty xs @ rows_for ty ys"
  by (simp add: rows_for_def)

lemma buffer_of_ok:
  assumes "buffers_ok bs"
  shows "ps_type (pb_buffer (unwrap_or (map_of bs ty) (new_buffer ty))) = ty \<and>
    (pb_size_bytes (unwrap_or (map_of bs ty) (new_buffer ty)) = 0 \<longrightarrow>
       ps_rows (pb_buffer (unwrap_or (map_of bs ty) (new_buffer ty))) = [] \<and>
       pb_metadata (unwrap_or (map_of bs ty) (new_buffer ty)) = None)"
  using assms
  by (cases "map_of bs ty")
    (auto simp: unwrap_or_def new_buffer_def default_for_type_def buffers_ok_def dest!: map_of_SomeD)

lemma set_alist_update: "set (AList.update k v xs) \<subseteq> insert (k, v) (set xs)"
  by (induction xs) auto

lemma buffers_ok_update:
  "buffers_ok bs \<Longrightarrow> ps_type (pb_buffer b) = ty \<Longrightarrow> 0 < pb_size_bytes b \<Longrightarrow> buffers_ok (AList.update ty b bs)"
  unfolding buffers_ok_def using set_alist_update [of ty b bs] by (auto simp: distinct_update)

lemma append_Inr:
  assumes "append_to_buffer calculate_size data b = Inr b'"
  shows "ps_type (pb_buffer b) = ps_type data \<and> ps_type (pb_buffer b') = ps_type (pb_buffer b) \<and>
    ps_rows (pb_buffer b') = ps_rows (pb_buffer b) @ ps_rows data \<and>
    pb_size_bytes b' = pb_size_bytes b + calculate_size data \<and> pb_metadata b' = pb_metadata b"
  using assms by (auto simp: append_to_buffer_def append_structs_def split: if_splits sum.splits)

lemma metadata_Inr:
  assumes "update_current_batch_metadata cur b = Inr b'"
  shows "pb_buffer b' = pb_buffer b \<and> pb_size_bytes b' = pb_size_bytes b \<and>
    (\<exists>m'. pb_metadata b' = Some m' \<and>
       (\<forall>x. chain x (opt_list (pb_metadata b) @ [cur]) = chain x [m']))"
  using assms
  by (auto simp: update_current_batch_metadata_def opt_list_def split: option.splits if_splits)

lemma flush_Inr:
  assumes "flush_if_full env ty data b = Inr (b1, files, up)" "ps_type (pb_buffer b) = ty"
  shows "(b1 = b \<and> files = [] \<and> up = None) \<or>
    (b1 = new_buffer ty \<and> files = [pb_buffer b] \<and> up = pb_metadata b \<and> up \<noteq> None)"
  using assms by (auto simp: flush_if_full_def split: if_splits sum.splits option.splits)

lemma rows_for_one: "rows_for ty [s] = (if ps_type s = ty then ps_rows s else [])"
  by (simp add: rows_for_def)

lemma new_buffer_fields [simp]:
  "ps_type (pb_buffer (new_buffer ty)) = ty" "ps_rows (pb_buffer (new_buffer ty)) = []"
  "pb_metadata (new_buffer ty) = None" "pb_size_bytes (new_buffer ty) = 0"
  by (simp_all add: new_buffer_def default_for_type_def)

lemma append_step:
  assumes run: "upload_buffer_append env cur (ty, data) (ups, st) = Inr (ups', st')"
    and ok: "buffers_ok (bst_buffers st)" and size: "\<forall>s. 0 < be_size env s"
  shows "buffers_ok (bst_buffers st') \<and>
    (\<forall>t. rows_for t (bst_files st') @ buffered t (bst_buffers st') =
       rows_for t (bst_files st) @ buffered t (bst_buffers st) @ (if t = ty then ps_rows data else [])) \<and>
    (\<forall>t. t \<noteq> ty \<longrightarrow> map_of ups' t = map_of ups t \<and> buffer_meta t (bst_buffers st') = buffer_meta t (bst_buffers st)) \<and>
    (map_of ups ty = None \<longrightarrow> (\<forall>x. chain x (buffer_meta ty (bst_buffers st) @ [cur]) =
       chain x (opt_list (map_of ups' ty) @ buffer_meta ty (bst_buffers st'))))"
proof -
  let ?b = "unwrap_or (map_of (bst_buffers st) ty) (new_buffer ty)"
  note b = buffer_of_ok [OF ok, of ty]
  from run obtain b1 files up b2 b3 where
    fl: "flush_if_full env ty data ?b = Inr (b1, files, up)"
    and ap: "append_to_buffer (be_size env) data b1 = Inr b2"
    and md: "update_current_batch_metadata cur b2 = Inr b3"
    and ups': "ups' = (case up of None \<Rightarrow> ups | Some m \<Rightarrow> AList.update ty m ups)"
    and st': "st' = st\<lparr>bst_buffers := AList.update ty b3 (bst_buffers st), bst_files := bst_files st @ files\<rparr>"
    by (auto simp: upload_buffer_append_def Let_def split: sum.splits)
  note fl' = flush_Inr [OF fl conjunct1 [OF b]] and ap' = append_Inr [OF ap] and md' = metadata_Inr [OF md]
  have buf: "buffered ty (bst_buffers st) = ps_rows (pb_buffer ?b)"
    "buffer_meta ty (bst_buffers st) = opt_list (pb_metadata ?b)"
    by (auto simp: buffered_def buffer_meta_def opt_list_def unwrap_or_def split: option.splits)
  have buf': "buffered t (bst_buffers st') = (if t = ty then ps_rows (pb_buffer b3) else buffered t (bst_buffers st))"
    "buffer_meta t (bst_buffers st') = (if t = ty then opt_list (pb_metadata b3) else buffer_meta t (bst_buffers st))" for t
    by (auto simp: buffered_def buffer_meta_def opt_list_def st' update_conv' split: option.splits)
  have files': "bst_files st' = bst_files st @ files" by (simp add: st')
  have "buffers_ok (bst_buffers st')"
    unfolding st' using ok fl' ap' md' b size by (auto intro!: buffers_ok_update)
  moreover have "\<forall>t. rows_for t (bst_files st') @ buffered t (bst_buffers st') =
       rows_for t (bst_files st) @ buffered t (bst_buffers st) @ (if t = ty then ps_rows data else [])"
    using fl' ap' md' b by (auto simp: buf' buf files' rows_for_one) (auto simp: rows_for_def)
  moreover have "\<forall>t. t \<noteq> ty \<longrightarrow> map_of ups' t = map_of ups t \<and>
      buffer_meta t (bst_buffers st') = buffer_meta t (bst_buffers st)"
    by (auto simp: buf' ups' update_conv' split: option.splits)
  moreover have "chain x (buffer_meta ty (bst_buffers st) @ [cur]) =
      chain x (opt_list (map_of ups' ty) @ buffer_meta ty (bst_buffers st'))" if none: "map_of ups ty = None" for x
  proof -
    from md' ap' obtain m' where m': "pb_metadata b3 = Some m'"
      "\<And>x. chain x (opt_list (pb_metadata b1) @ [cur]) = chain x [m']" by auto
    from fl' show ?thesis
    proof
      assume "b1 = ?b \<and> files = [] \<and> up = None"
      then show ?thesis using m' none by (simp add: buf buf' ups' opt_list_def)
    next
      assume flushed: "b1 = new_buffer ty \<and> files = [pb_buffer ?b] \<and> up = pb_metadata ?b \<and> up \<noteq> None"
      then obtain m where m: "up = Some m" "pb_metadata ?b = Some m" by auto
      have "chain y [cur] = chain y [m']" for y using m'(2) [of y] flushed by (simp add: opt_list_def)
      then have "chain x (m # [cur]) = chain x (m # [m'])" by (simp only: chain.simps(2) [of x m])
      then show ?thesis using m m'(1) by (simp add: buf buf' ups' opt_list_def update_conv')
    qed
  qed
  ultimately show ?thesis by blast
qed

lemma append_steps:
  assumes "fold_result (upload_buffer_append env cur) data (ups, st) = Inr (ups', st')"
    and "buffers_ok (bst_buffers st)" and "\<forall>s. 0 < be_size env s"
  shows "buffers_ok (bst_buffers st') \<and>
    (\<forall>t. rows_for t (bst_files st') @ buffered t (bst_buffers st') =
       rows_for t (bst_files st) @ buffered t (bst_buffers st) @
       concat (map (\<lambda>(t', s). if t' = t then ps_rows s else []) data)) \<and>
    (\<forall>t. t \<notin> fst ` set data \<longrightarrow>
       map_of ups' t = map_of ups t \<and> buffer_meta t (bst_buffers st') = buffer_meta t (bst_buffers st)) \<and>
    (\<forall>t. distinct (map fst data) \<longrightarrow> t \<in> fst ` set data \<longrightarrow> map_of ups t = None \<longrightarrow>
       (\<forall>x. chain x (buffer_meta t (bst_buffers st) @ [cur]) =
          chain x (opt_list (map_of ups' t) @ buffer_meta t (bst_buffers st'))))"
  using assms
proof (induction data arbitrary: ups st)
  case Nil
  then show ?case by simp
next
  case (Cons td data)
  obtain ty d where td: "td = (ty, d)" by force
  from Cons.prems(1) obtain ups1 st1 where
    step: "upload_buffer_append env cur (ty, d) (ups, st) = Inr (ups1, st1)"
    and rest: "fold_result (upload_buffer_append env cur) data (ups1, st1) = Inr (ups', st')"
    by (auto simp: td split: sum.splits)
  note S = append_step [OF step Cons.prems(2,3)]
  note IH = Cons.IH [OF rest conjunct1 [OF S] Cons.prems(3)]
  have rows: "rows_for t (bst_files st') @ buffered t (bst_buffers st') =
      rows_for t (bst_files st) @ buffered t (bst_buffers st) @
      concat (map (\<lambda>(t', s). if t' = t then ps_rows s else []) (td # data))" for t
  proof -
    have "rows_for t (bst_files st') @ buffered t (bst_buffers st') =
        (rows_for t (bst_files st1) @ buffered t (bst_buffers st1)) @
        concat (map (\<lambda>(t', s). if t' = t then ps_rows s else []) data)" using IH by simp
    then show ?thesis using S by (simp add: td)
  qed
  have frame: "map_of ups' t = map_of ups t \<and> buffer_meta t (bst_buffers st') = buffer_meta t (bst_buffers st)"
    if "t \<notin> fst ` set (td # data)" for t using that IH S by (simp add: td)
  have chains: "chain x (buffer_meta t (bst_buffers st) @ [cur]) =
      chain x (opt_list (map_of ups' t) @ buffer_meta t (bst_buffers st'))"
    if t: "distinct (map fst (td # data))" "t \<in> fst ` set (td # data)" "map_of ups t = None" for t x
  proof (cases "t = ty")
    case True
    with t IH have "map_of ups' t = map_of ups1 t \<and> buffer_meta t (bst_buffers st') = buffer_meta t (bst_buffers st1)"
      by (simp add: td)
    with True t S show ?thesis by simp
  next
    case False
    with S have same: "map_of ups1 t = map_of ups t" "buffer_meta t (bst_buffers st1) = buffer_meta t (bst_buffers st)"
      by blast+
    have "chain x (buffer_meta t (bst_buffers st1) @ [cur]) =
        chain x (opt_list (map_of ups' t) @ buffer_meta t (bst_buffers st'))"
      using IH t False same(1) by (simp add: td)
    then show ?thesis by (simp add: same(2))
  qed
  show ?case
    by (intro conjI allI impI conjunct1 [OF IH] rows chains;
        (rule conjunct1 [OF frame] conjunct2 [OF frame], assumption)?)
qed

lemma buffered_Cons:
  "buffered t ((ty, b) # bs) = (if t = ty then ps_rows (pb_buffer b) else buffered t bs)"
  "buffer_meta t ((ty, b) # bs) = (if t = ty then opt_list (pb_metadata b) else buffer_meta t bs)"
  by (auto simp: buffered_def buffer_meta_def opt_list_def)

lemma absent_buffer:
  "t \<notin> fst ` set bs \<Longrightarrow> buffered t bs = [] \<and> buffer_meta t bs = []"
  by (auto simp: buffered_def buffer_meta_def split: option.splits dest!: map_of_SomeD) force+

lemma drain_steps:
  assumes "fold_result (drain_buffer env False) bs (ups, fs) = Inr (ups', fs')" and "buffers_ok bs"
  shows "(\<forall>t. rows_for t fs' = rows_for t fs @ buffered t bs) \<and>
    (\<forall>t. opt_list (map_of ups' t) =
      (if buffer_meta t bs = [] then opt_list (map_of ups t) else buffer_meta t bs))"
  using assms
proof (induction bs arbitrary: ups fs)
  case Nil
  then show ?case by (simp add: buffered_def buffer_meta_def)
next
  case (Cons tb bs)
  obtain ty b where tb: "tb = (ty, b)" by force
  have ok: "buffers_ok bs" "ty \<notin> fst ` set bs" "ps_type (pb_buffer b) = ty"
    "pb_size_bytes b = 0 \<Longrightarrow> ps_rows (pb_buffer b) = [] \<and> pb_metadata b = None"
    using Cons.prems(2) by (auto simp: buffers_ok_def tb)
  note gone = absent_buffer [OF ok(2)]
  from Cons.prems(1) obtain ups1 fs1 where
    step: "drain_buffer env False (ty, b) (ups, fs) = Inr (ups1, fs1)"
    and rest: "fold_result (drain_buffer env False) bs (ups1, fs1) = Inr (ups', fs')"
    by (auto simp: tb split: sum.splits)
  note IH = Cons.IH [OF rest ok(1)]
  show ?case
  proof (cases "pb_size_bytes b = 0")
    case True
    with step have "ups1 = ups" "fs1 = fs" by (auto simp: drain_buffer_def)
    with IH ok(4) [OF True] gone show ?thesis by (auto simp: tb buffered_Cons opt_list_def)
  next
    case False
    with step obtain m where m: "pb_metadata b = Some m" "ups1 = AList.update ty m ups" "fs1 = fs @ [pb_buffer b]"
      by (auto simp: drain_buffer_def split: sum.splits option.splits)
    with IH ok(3) gone show ?thesis
      by (auto simp: tb buffered_Cons opt_list_def update_conv' rows_for_one)
  qed
qed

lemma buffered_Nil [simp]: "buffered t [] = []" "buffer_meta t [] = []"
  by (simp_all add: buffered_def buffer_meta_def)

lemma emitted_append [simp]: "emitted t (xs @ ys) = emitted t xs @ emitted t ys"
  by (simp add: emitted_def)

lemma chain_append: "chain v (xs @ ys) = Option.bind (chain v xs) (\<lambda>w. chain w ys)"
  by (induction xs arbitrary: v) auto

lemma chain_cong: "(\<And>x. chain x ys = chain x zs) \<Longrightarrow> chain v (xs @ ys) = chain v (xs @ zs)"
  by (simp add: chain_append)

lemma op_step_ok:
  assumes run: "buffer_op_step env op (outs, st) = Inr (outs', st')"
    and ok: "buffers_ok (bst_buffers st)" and size: "\<forall>s. 0 < be_size env s"
  shows "buffers_ok (bst_buffers st') \<and>
    (\<forall>t. rows_for t (bst_files st') @ buffered t (bst_buffers st') =
       rows_for t (bst_files st) @ buffered t (bst_buffers st) @ op_rows t op) \<and>
    (\<forall>t. op_covers t op \<longrightarrow> (\<forall>v. chain v (emitted t outs' @ buffer_meta t (bst_buffers st')) =
       chain v (emitted t outs @ buffer_meta t (bst_buffers st) @ op_metas op)))"
proof (cases op)
  case (OpProcess data m)
  with run obtain ups where fold: "fold_result (upload_buffer_append env m) data ([], st) = Inr (ups, st')"
    and outs': "outs' = outs @ (if ups \<noteq> [] then [ups] else [])"
    by (auto simp: buffer_op_step_def buffer_process_def split: sum.splits if_splits)
  note S = append_steps [OF fold ok size]
  have "emitted t outs' = emitted t outs @ opt_list (map_of ups t)" for t
    using outs' by (auto simp: emitted_def opt_list_def)
  moreover have "chain v (emitted t outs @ opt_list (map_of ups t) @ buffer_meta t (bst_buffers st')) =
      chain v (emitted t outs @ buffer_meta t (bst_buffers st) @ [m])" if "op_covers t op" for t v
    using S that OpProcess by (intro chain_cong) auto
  ultimately show ?thesis using S OpProcess by simp
next
  case OpPoll
  with run obtain ups fs where fold: "fold_result (drain_buffer env False) (bst_buffers st) ([], []) = Inr (ups, fs)"
    and outs': "outs' = outs @ (if ups \<noteq> [] then [ups] else [])"
    and st': "st' = \<lparr>bst_buffers = [], bst_files = bst_files st @ fs\<rparr>"
    by (auto simp: buffer_op_step_def buffer_poll_def drain_all_def split: sum.splits if_splits)
  note S = drain_steps [OF fold ok]
  have "emitted t outs' = emitted t outs @ opt_list (map_of ups t)" for t
    using outs' by (auto simp: emitted_def opt_list_def)
  then show ?thesis using S OpPoll by (auto simp: st' buffers_ok_def rows_for_def opt_list_def)
qed

lemma run_ok:
  assumes "fold_result (buffer_op_step env) ops (outs, st) = Inr (outs', st')"
    and "buffers_ok (bst_buffers st)" and "\<forall>s. 0 < be_size env s"
  shows "buffers_ok (bst_buffers st') \<and>
    (\<forall>t. rows_for t (bst_files st') @ buffered t (bst_buffers st') =
       rows_for t (bst_files st) @ buffered t (bst_buffers st) @ concat (map (op_rows t) ops)) \<and>
    (\<forall>t. (\<forall>op \<in> set ops. op_covers t op) \<longrightarrow> (\<forall>v. chain v (emitted t outs' @ buffer_meta t (bst_buffers st')) =
       chain v (emitted t outs @ buffer_meta t (bst_buffers st) @ concat (map op_metas ops))))"
  using assms
proof (induction ops arbitrary: outs st)
  case Nil
  then show ?case by simp
next
  case (Cons op ops)
  from Cons.prems(1) obtain outs1 st1 where step: "buffer_op_step env op (outs, st) = Inr (outs1, st1)"
    and rest: "fold_result (buffer_op_step env) ops (outs1, st1) = Inr (outs', st')"
    by (auto split: sum.splits)
  note S = op_step_ok [OF step Cons.prems(2,3)]
  note IH = Cons.IH [OF rest conjunct1 [OF S] Cons.prems(3)]
  have "rows_for t (bst_files st') @ buffered t (bst_buffers st') =
      (rows_for t (bst_files st1) @ buffered t (bst_buffers st1)) @ concat (map (op_rows t) ops)" for t
    using IH by simp
  then have "rows_for t (bst_files st') @ buffered t (bst_buffers st') =
      rows_for t (bst_files st) @ buffered t (bst_buffers st) @ concat (map (op_rows t) (op # ops))" for t
    using S by simp
  moreover have "chain v (emitted t outs' @ buffer_meta t (bst_buffers st')) =
      chain v (emitted t outs @ buffer_meta t (bst_buffers st) @ concat (map op_metas (op # ops)))"
    if cov: "\<forall>o1 \<in> set (op # ops). op_covers t o1" for t v
  proof -
    have "chain v (emitted t outs' @ buffer_meta t (bst_buffers st')) =
        chain v ((emitted t outs1 @ buffer_meta t (bst_buffers st1)) @ concat (map op_metas ops))"
      using IH cov by simp
    also have "\<dots> = chain v ((emitted t outs @ buffer_meta t (bst_buffers st) @ op_metas op) @ concat (map op_metas ops))"
      using S cov by (simp only: chain_append [of v "emitted t outs1 @ buffer_meta t (bst_buffers st1)"]
          chain_append [of v "emitted t outs @ buffer_meta t (bst_buffers st) @ op_metas op"]) simp
    finally show ?thesis by simp
  qed
  ultimately show ?case using IH by blast
qed

lemmas buffer_run_ok = run_ok [of _ _ "[]" "\<lparr>bst_buffers = [], bst_files = []\<rparr>", folded buffer_run_def, simplified]

lemma lower_alphabet:
  "map char_lower ''ABCDEFGHIJKLMNOPQRSTUVWXYZ_12'' = ''abcdefghijklmnopqrstuvwxyz_12''"
  by code_simp

lemmas char_lower_literals = lower_alphabet [unfolded list.map list.inject simp_thms]

lemma chain_prefix: "chain v (xs @ ys) = Some w \<Longrightarrow> \<exists>u. chain v xs = Some u"
  by (cases "chain v xs") (auto simp: chain_append)

definition sample_buffer_env :: "nat buffer_env" where
  "sample_buffer_env = \<lparr>be_size = (\<lambda>s. 24 + length (ps_rows s)), be_max_size = 100,
     be_upload = (\<lambda>s. Inr ())\<rparr>"

definition sample_ops :: "nat buffer_op list" where
  "sample_ops = [OpProcess [(PtEvents, ParquetStructs PtEvents [1, 2])] (sample_meta 0 9), OpPoll,
     OpProcess [(PtEvents, ParquetStructs PtEvents [3])] (sample_meta 10 19)]"

lemma sample_run: "\<exists>outs st. buffer_run sample_buffer_env sample_ops = Inr (outs, st)"
  by (simp add: buffer_run_def sample_ops_def sample_buffer_env_def buffer_op_step_def buffer_process_def
      upload_buffer_append_def flush_if_full_def append_to_buffer_def append_structs_def
      update_current_batch_metadata_def new_buffer_def default_for_type_def buffer_poll_def drain_all_def
      drain_buffer_def Let_def unwrap_or_def)

section \<open>Properties\<close>

text \<open>
  Claim C13: No row is lost, duplicated or reordered.  After any successful sequence of batches and
  polls, the rows uploaded for a table followed by the rows still buffered for it are exactly the
  rows it was given, in order.  The heap size of a batch is positive, as it includes the vector
  itself.
\<close>

theorem buffer_keeps_every_row:
  assumes "\<forall>s. 0 < be_size env s" and "buffer_run env ops = Inr (outs, st)"
  shows "rows_for t (bst_files st) @ buffered t (bst_buffers st) = concat (map (op_rows t) ops)"
  using buffer_run_ok [OF assms(2)] assms(1) by (simp add: buffers_ok_def rows_for_def)

theorem buffer_keeps_every_row_witness:
  "\<exists>outs st. buffer_run sample_buffer_env sample_ops = Inr (outs, st) \<and>
     rows_for PtEvents (bst_files st) @ buffered PtEvents (bst_buffers st) = [1, 2, 3]"
proof -
  obtain outs st where run: "buffer_run sample_buffer_env sample_ops = Inr (outs, st)"
    using sample_run by blast
  have "\<forall>s. 0 < be_size sample_buffer_env s" by (simp add: sample_buffer_env_def)
  from buffer_keeps_every_row [OF this run, of PtEvents] run show ?thesis by (auto simp: sample_ops_def)
qed

text \<open>
  The ranges reported for a table have no gap.  When every batch carries the table and the
  batches cover consecutive versions from \<open>v\<close> to \<open>w\<close>, the ranges uploaded for the table followed
  by the range still buffered cover the same versions consecutively, so the uploaded ranges
  alone cover a gapless prefix.
\<close>

theorem uploaded_ranges_are_gapless:
  assumes "\<forall>s. 0 < be_size env s" and "buffer_run env ops = Inr (outs, st)"
    and "\<forall>op \<in> set ops. op_covers t op" and "chain v (concat (map op_metas ops)) = Some w"
  shows "chain v (emitted t outs @ buffer_meta t (bst_buffers st)) = Some w \<and>
    (\<exists>u. chain v (emitted t outs) = Some u)"
proof -
  have "chain v (emitted t outs @ buffer_meta t (bst_buffers st)) = Some w"
    using buffer_run_ok [OF assms(2)] assms by (simp add: buffers_ok_def emitted_def)
  then show ?thesis using chain_prefix by blast
qed

theorem uploaded_ranges_are_gapless_witness:
  "\<exists>outs st. buffer_run sample_buffer_env sample_ops = Inr (outs, st) \<and>
     chain 0 (emitted PtEvents outs @ buffer_meta PtEvents (bst_buffers st)) = Some 20"
proof -
  obtain outs st where run: "buffer_run sample_buffer_env sample_ops = Inr (outs, st)"
    using sample_run by blast
  have "\<forall>s. 0 < be_size sample_buffer_env s" by (simp add: sample_buffer_env_def)
  from uploaded_ranges_are_gapless [OF this run, of PtEvents 0 20] run show ?thesis
    by (auto simp: sample_ops_def sample_meta_def default_txn_metadata_def)
qed

text \<open>
  A batch larger than the buffer limit that meets an empty buffer, at the start or right
  after a poll, does not get uploaded: the step panics, because the empty buffer it tries to
  upload has no version range.
\<close>

theorem oversized_batch_panics_on_empty_buffer:
  assumes "map_of (bst_buffers st) ty = None" and "be_max_size env < be_size env data"
    and "be_upload env (default_for_type ty) = Inr ()"
  shows "buffer_process env ((ty, data) # rest) m st =
    Inl (Panic ''called Option::unwrap() on a None value'')"
  using assms
  by (simp add: buffer_process_def upload_buffer_append_def Let_def unwrap_or_def flush_if_full_def new_buffer_def)

theorem oversized_batch_panics_on_empty_buffer_witness:
  "buffer_process sample_buffer_env [(PtEvents, ParquetStructs PtEvents (replicate 90 7))] (sample_meta 0 9)
     \<lparr>bst_buffers = [], bst_files = []\<rparr> = Inl (Panic ''called Option::unwrap() on a None value'')"
  by (rule oversized_batch_panics_on_empty_buffer) (simp_all add: sample_buffer_env_def)

text \<open>
  An upload is tried at most four times, waits at most 3.5 seconds in between, and
  succeeds exactly when one of its first four attempts does.
\<close>

theorem upload_retry_bound:
  assumes "buffer \<noteq> []"
  shows "(ul_result (upload_parquet_to_gcs outcome buffer) = Inr () \<longleftrightarrow> (\<exists>k \<in> {0..3}. outcome k = UploadOk)) \<and>
    ul_attempts (upload_parquet_to_gcs outcome buffer) \<le> 4 \<and>
    ul_slept_ms (upload_parquet_to_gcs outcome buffer) \<le> 3500"
  using upload_loop_result [of 0 outcome 500 0] upload_loop_bounds [of outcome 500 0] assms
  by (simp add: upload_parquet_to_gcs_def)

theorem upload_retry_bound_witness:
  "ul_result (upload_parquet_to_gcs (\<lambda>k. if k = 2 then UploadOk else UploadTimeout) [1]) = Inr ()"
  using upload_retry_bound [of "[1]" "\<lambda>k. if k = 2 then UploadOk else UploadTimeout"] by auto

text \<open>
  The tables the parquet processors write against the tables their configuration knows.
  Four tables that are written are missing from the lists of tables whose checkpoints decide where a
  processor restarts; two listed tables are never written; and the flag of one written table does not
  have the table's name, so that no backfill list that passes validation can select it.
\<close>

theorem tables_without_checkpoint:
  "concat (map (\<lambda>n. filter (\<lambda>ty. parquet_type_to_string ty \<notin> set (table_names n)) (map snd (data_types n))) processor_names) =
     [PtCurrentObjects, PtSignatures, PtFungibleAssetToCoinMappings, PtCollectionsV2] \<and>
   concat (map (\<lambda>n. filter (\<lambda>t. t \<notin> parquet_type_to_string ` snd ` set (data_types n)) (table_names n)) processor_names) =
     [''current_fungible_asset_balances_legacy'', ''current_fungible_asset_balances''] \<and>
   concat (map (\<lambda>n. map snd (filter (\<lambda>(f, ty). to_lowercase f \<noteq> parquet_type_to_string ty) (data_types n))) processor_names) =
     [PtCurrentTokenRoyaltiesV1]"
proof (intro conjI)
  show "concat (map (\<lambda>n. filter (\<lambda>ty. parquet_type_to_string ty \<notin> set (table_names n)) (map snd (data_types n))) processor_names) =
      [PtCurrentObjects, PtSignatures, PtFungibleAssetToCoinMappings, PtCollectionsV2]"
    by (simp add: processor_names_def data_types_defs)
  show "concat (map (\<lambda>n. filter (\<lambda>t. t \<notin> parquet_type_to_string ` snd ` set (data_types n)) (table_names n)) processor_names) =
      [''current_fungible_asset_balances_legacy'', ''current_fungible_asset_balances'']"
    by (simp add: processor_names_def data_types_defs)
  show "concat (map (\<lambda>n. map snd (filter (\<lambda>(f, ty). to_lowercase f \<noteq> parquet_type_to_string ty) (data_types n))) processor_names) =
      [PtCurrentTokenRoyaltiesV1]"
    by (simp add: processor_names_def data_types_defs to_lowercase_def char_lower_literals)
qed

end
