(* ===== verification/ParquetTracker.thy ===== *)
theory ParquetTracker
  imports ParquetBuffer
begin

text \<open>
  \<open>parquet_utils/parquet_version_tracker_step.rs\<close> and \<open>parquet_processor_status_saver.rs\<close>: the
  last uploaded range per table, its check for gaps, its checkpoints and where a parquet
  processor starts and ends.  The locale \<open>parquet_status_saver\<close> is what the tracker relies on
  of the trait \<open>ParquetProcessorStatusSaverTrait\<close>.
\<close>

section \<open>The tracker\<close>

type_synonym tracker = "(parquet_type \<times> txn_metadata) list"

definition tracker_entry :: "parquet_type \<times> txn_metadata \<Rightarrow> tracker \<Rightarrow> tracker result" where
  "tracker_entry tm last_success =
     (case tm of (ty, cur) \<Rightarrow>
       case map_of last_success ty of
         Some l \<Rightarrow>
           if tm_end_version l + 1 \<noteq> tm_start_version cur then Inl (ProcessError ''Gap detected'')
           else Inr (AList.update ty cur last_success)
       | None \<Rightarrow> Inr (AList.update ty cur last_success))"

primrec tracker_entries :: "(parquet_type \<times> txn_metadata) list \<Rightarrow> tracker \<Rightarrow> error option \<times> tracker" where
  "tracker_entries [] last_success = (None, last_success)"
| "tracker_entries (tm # tms) last_success =
     (case tracker_entry tm last_success of
        Inl e \<Rightarrow> (Some e, last_success)
      | Inr last_success' \<Rightarrow> tracker_entries tms last_success')"

definition tracker_process ::
  "upload_map \<Rightarrow> txn_metadata \<Rightarrow> tracker \<Rightarrow> txn_metadata result \<times> tracker" where
  "tracker_process data metadata last_success =
     (case tracker_entries data last_success of
        (Some e, last_success') \<Rightarrow> (Inl e, last_success')
      | (None, last_success') \<Rightarrow> (Inr metadata, last_success'))"

primrec save_entries ::
  "(txn_metadata \<Rightarrow> string \<Rightarrow> 's \<Rightarrow> 's result) \<Rightarrow> tracker \<Rightarrow> 's \<Rightarrow> error option \<times> 's" where
  "save_entries save_op [] s = (None, s)"
| "save_entries save_op (tm # tms) s =
     (case save_op (snd tm) (parquet_type_to_string (fst tm)) s of
        Inl e \<Rightarrow> (Some e, s)
      | Inr t \<Rightarrow> save_entries save_op tms t)"

definition tracker_poll ::
  "(txn_metadata \<Rightarrow> string \<Rightarrow> 's \<Rightarrow> 's result) \<Rightarrow> tracker \<Rightarrow> 's \<Rightarrow> error option \<times> 's" where
  "tracker_poll save_op last_success s = save_entries save_op last_success s"

definition tracker_cleanup ::
  "(txn_metadata \<Rightarrow> string \<Rightarrow> 's \<Rightarrow> 's result) \<Rightarrow> tracker \<Rightarrow> 's \<Rightarrow> error option \<times> 's" where
  "tracker_cleanup save_op last_success s = save_entries save_op last_success s"

section \<open>The status saver\<close>

definition save_parquet_processor_status ::
  "extern \<Rightarrow> indexer_processor_config \<Rightarrow> faults \<Rightarrow> txn_metadata \<Rightarrow> string \<Rightarrow> status_db \<Rightarrow> status_db result" where
  "save_parquet_processor_status ext config faults last_success_batch table_name db =
     save_processor_status ext (format_table_name (config_name (ic_processor_config config)) table_name)
       (ic_processor_mode config) last_success_batch faults db"

definition min_version :: "u64 list \<Rightarrow> u64 option" where
  "min_version vs = (case vs of [] \<Rightarrow> None | v # rest \<Rightarrow> Some (fold min rest v))"

definition get_min_processed_version_from_db ::
  "(string \<Rightarrow> faults) \<Rightarrow> string list \<Rightarrow> status_db \<Rightarrow> u64 option" where
  "get_min_processed_version_from_db query_faults names db =
     min_version (List.map_filter (\<lambda>name.
       if query_faults name GetConn \<or> query_faults name QueryProcessorStatus then None
       else map_option ps_last_success_version (get_by_processor name db)) names)"

definition get_parquet_backfill_statuses ::
  "(string \<Rightarrow> faults) \<Rightarrow> string list \<Rightarrow> string \<Rightarrow> status_db \<Rightarrow> backfill_processor_status list" where
  "get_parquet_backfill_statuses query_faults names backfill_id db =
     List.map_filter (\<lambda>name.
       if query_faults name GetConn \<or> query_faults name QueryBackfillStatus then None
       else get_backfill_by_processor name backfill_id db) names"

definition reset_status ::
  "(string \<Rightarrow> faults) \<Rightarrow> u64 \<Rightarrow> i64 option \<Rightarrow> backfill_processor_status \<Rightarrow> status_db \<Rightarrow> status_db result" where
  "reset_status query_faults initial end_version status db =
     (if query_faults (bps_backfill_alias status) ExecStatusUpsert
      then Inl (DBStoreError ''backfill_processor_status'')
      else Inr (db\<lparr>sd_backfill := upsert bps_backfill_alias overwrite_backfill
             (reset_backfill_row (bps_backfill_alias status) initial end_version) (sd_backfill db)\<rparr>))"

definition get_parquet_starting_version ::
  "indexer_processor_config \<Rightarrow> (string \<Rightarrow> faults) \<Rightarrow> status_db \<Rightarrow> (u64 option \<times> status_db) result" where
  "get_parquet_starting_version config query_faults db =
     (case get_processor_status_table_names (ic_processor_config config) of
        Inl e \<Rightarrow> Inl (ProcessError ''Failed to get processor status table names.'')
      | Inr names \<Rightarrow>
          (case ic_processor_mode config of
             ModeDefault bs \<Rightarrow>
               Inr (Some (case get_min_processed_version_from_db query_faults names db of
                      None \<Rightarrow> bs_initial_starting_version bs
                    | Some v \<Rightarrow> max v (bs_initial_starting_version bs)), db)
           | ModeBackfill bc \<Rightarrow>
               (let statuses = get_parquet_backfill_statuses query_faults names (bf_backfill_id bc) db in
                if statuses = [] then Inr (Some (bf_initial_starting_version bc), db)
                else if list_all (\<lambda>s. bps_backfill_status s = Complete) statuses \<and> \<not> bf_overwrite_checkpoint bc
                then Inr (bf_ending_version bc, db)
                else if bf_overwrite_checkpoint bc then
                  (let end_version = (case bf_ending_version bc of
                         Some e \<Rightarrow> Some e
                       | None \<Rightarrow> get_min_processed_version_from_db query_faults names db)
                   in case fold_result (reset_status query_faults (bf_initial_starting_version bc) end_version)
                             statuses db of
                        Inl e \<Rightarrow> Inl e
                      | Inr db' \<Rightarrow> Inr (Some (bf_initial_starting_version bc), db'))
                else Inr (map_option (\<lambda>v. v + 1) (min_version (map bps_last_success_version statuses)), db))
           | ModeTesting tc \<Rightarrow> Inr (Some (tc_override_starting_version tc), db)))"

definition get_parquet_end_version ::
  "indexer_processor_config \<Rightarrow> (string \<Rightarrow> faults) \<Rightarrow> status_db \<Rightarrow> u64 option result" where
  "get_parquet_end_version config query_faults db =
     (case get_processor_status_table_names (ic_processor_config config) of
        Inl e \<Rightarrow> Inl (ProcessError ''Failed to get processor status table names.'')
      | Inr names \<Rightarrow>
          (case ic_processor_mode config of
             ModeDefault _ \<Rightarrow> Inr None
           | ModeBackfill bc \<Rightarrow>
               (case bf_ending_version bc of
                  Some e \<Rightarrow> Inr (Some e)
                | None \<Rightarrow> Inr (get_min_processed_version_from_db query_faults names db))
           | ModeTesting tc \<Rightarrow>
               Inr (Some (unwrap_or (tc_ending_version tc) (tc_override_starting_version tc)))))"

text \<open>The tracker fed with what the buffer step returned, batch after batch.\<close>

definition track_step :: "upload_map \<Rightarrow> tracker \<Rightarrow> tracker result" where
  "track_step ups tr =
     (case tracker_process ups default_txn_metadata tr of (Inl e, tr') \<Rightarrow> Inl e | (Inr m, tr') \<Rightarrow> Inr tr')"

definition track_all :: "upload_map list \<Rightarrow> tracker result" where
  "track_all outs = fold_result track_step outs []"

fun adjacent :: "txn_metadata list \<Rightarrow> bool" where
  "adjacent (m # n # ms) \<longleftrightarrow> tm_end_version m + 1 = tm_start_version n \<and> adjacent (n # ms)"
| "adjacent ms \<longleftrightarrow> True"

definition last_of :: "txn_metadata list \<Rightarrow> txn_metadata option" where
  "last_of ms = (if ms = [] then None else Some (last ms))"

text \<open>The checkpoint after saving a batch on top of the checkpoint \<open>old\<close>.\<close>

definition raised :: "int option \<Rightarrow> txn_metadata \<Rightarrow> int option" where
  "raised old m = Some (case old of
     None \<Rightarrow> sint (tm_end_version m) | Some v \<Rightarrow> max v (sint (tm_end_version m)))"

definition table_checkpoint :: "indexer_processor_config \<Rightarrow> string \<Rightarrow> status_db \<Rightarrow> int option" where
  "table_checkpoint cfg table db = checkpoint (format_table_name (config_name (ic_processor_config cfg)) table) db"

section \<open>The contract of a status saver\<close>

text \<open>
  What the tracker relies on: saving a table's batch stores its end version as that table's
  checkpoint unless a higher one is there, and leaves the other tables' checkpoints alone.
\<close>

locale parquet_status_saver =
  fixes save_op :: "txn_metadata \<Rightarrow> string \<Rightarrow> 's \<Rightarrow> 's result"
    and table_checkpoint :: "string \<Rightarrow> 's \<Rightarrow> int option"
  assumes saves: "\<exists>t. save_op m table s = Inr t \<and>
    table_checkpoint table t = raised (table_checkpoint table s) m \<and>
    (\<forall>other. other \<noteq> table \<longrightarrow> table_checkpoint other t = table_checkpoint other s)"
begin

lemma save_entries_checkpoint:
  assumes "distinct (map (parquet_type_to_string \<circ> fst) last_success)"
  shows "\<exists>t. save_entries save_op last_success s = (None, t) \<and>
    (\<forall>(ty, m) \<in> set last_success. table_checkpoint (parquet_type_to_string ty) t =
       raised (table_checkpoint (parquet_type_to_string ty) s) m) \<and>
    (\<forall>table. table \<notin> (parquet_type_to_string \<circ> fst) ` set last_success \<longrightarrow> table_checkpoint table t = table_checkpoint table s)"
  using assms
proof (induction last_success arbitrary: s)
  case (Cons tm last_success)
  obtain ty m where tm: "tm = (ty, m)" by force
  let ?name = parquet_type_to_string and ?cp = table_checkpoint
  from saves [of m "?name ty" s] obtain s1 where s1: "save_op m (?name ty) s = Inr s1"
    "?cp (?name ty) s1 = raised (?cp (?name ty) s) m"
    "\<forall>other. other \<noteq> ?name ty \<longrightarrow> ?cp other s1 = ?cp other s" by blast
  have "distinct (map (?name \<circ> fst) last_success)" using Cons.prems by (simp add: comp_def)
  from Cons.IH [OF this, of s1] obtain t where t: "save_entries save_op last_success s1 = (None, t)"
    "\<forall>(ty, m) \<in> set last_success. ?cp (?name ty) t = raised (?cp (?name ty) s1) m"
    "\<forall>table. table \<notin> (?name \<circ> fst) ` set last_success \<longrightarrow> ?cp table t = ?cp table s1"
    by (elim exE conjE)
  have fresh: "?name ty \<notin> (?name \<circ> fst) ` set last_success" using Cons.prems by (simp add: tm)
  have same: "?cp (?name ty') s1 = ?cp (?name ty') s" if "(ty', m') \<in> set last_success" for ty' m'
  proof -
    have "?name ty' \<noteq> ?name ty" using fresh that by (metis comp_apply fst_conv image_eqI)
    with s1(3) show ?thesis by blast
  qed
  have "\<forall>(ty, m) \<in> set last_success. ?cp (?name ty) t = raised (?cp (?name ty) s) m"
    using t(2) same by fastforce
  moreover have "?cp (?name ty) t = raised (?cp (?name ty) s) m" using t(3) s1(2) fresh by simp
  moreover have "\<forall>table. table \<notin> (?name \<circ> fst) ` set (tm # last_success) \<longrightarrow> ?cp table t = ?cp table s"
    using t(3) s1(3) by (simp add: tm)
  ultimately show ?case using t(1) s1(1) by (intro exI [of _ t]) (simp add: tm)
qed simp

end

text \<open>The status saver of the code in default mode meets the contract.\<close>

definition default_mode_config :: "indexer_processor_config \<Rightarrow> boot_strap_config \<Rightarrow> indexer_processor_config" where
  "default_mode_config cfg bs = cfg\<lparr>ic_processor_mode := ModeDefault bs\<rparr>"

interpretation saver: parquet_status_saver
  "save_parquet_processor_status ext (default_mode_config cfg bs) no_faults"
  "table_checkpoint (default_mode_config cfg bs)" for ext cfg bs
  by unfold_locales
    (auto simp: save_parquet_processor_status_def save_processor_status_def default_mode_config_def Let_def
      no_faults_def raised_def table_checkpoint_def checkpoint_upsert format_table_name_def split: option.splits)

section \<open>Lemmas\<close>

definition parquet_types :: "parquet_type list" where
  "parquet_types =
    [PtMoveResources, PtWriteSetChanges, PtTransactions, PtTableItems, PtMoveModules, PtCurrentTableItems,
     PtBlockMetadataTransactions, PtTableMetadata, PtEvents, PtUserTransactions, PtSignatures,
     PtAnsPrimaryNameV2, PtCurrentAnsPrimaryNameV2, PtAnsLookupV2, PtCurrentAnsLookupV2,
     PtFungibleAssetActivities, PtFungibleAssetMetadata, PtFungibleAssetBalances,
     PtCurrentFungibleAssetBalances, PtCurrentFungibleAssetBalancesLegacy, PtFungibleAssetToCoinMappings,
     PtWriteSetSize, PtAccountTransactions, PtCurrentTokenPendingClaims, PtCurrentTokenRoyaltiesV1,
     PtCurrentTokenV2Metadata, PtTokenActivitiesV2, PtTokenDatasV2, PtCurrentTokenDatasV2,
     PtTokenOwnershipsV2, PtCurrentTokenOwnershipsV2, PtCollectionsV2, PtDelegatedStakingActivities,
     PtCurrentDelegatorBalances, PtDelegatorBalances, PtProposalVotes, PtObjects, PtCurrentObjects]"

lemma parquet_types_all: "ty \<in> set parquet_types"
  by (cases ty) (simp_all add: parquet_types_def)

lemma parquet_type_to_string_inj: "inj parquet_type_to_string"
proof -
  have "distinct (map parquet_type_to_string parquet_types)" by (simp add: parquet_types_def)
  then show ?thesis
    using parquet_types_all by (metis distinct_map UNIV_eq_I inj_on_subset subset_UNIV)
qed

lemma distinct_type_names:
  "distinct (map fst tr) \<Longrightarrow> distinct (map (parquet_type_to_string \<circ> fst) tr)"
  by (simp add: distinct_map comp_inj_on inj_on_subset [OF parquet_type_to_string_inj subset_UNIV])

lemma adjacent_Cons: "adjacent (m # ms) \<longleftrightarrow>
    (case ms of [] \<Rightarrow> True | n # _ \<Rightarrow> tm_end_version m + 1 = tm_start_version n) \<and> adjacent ms"
  by (cases ms) simp_all

lemma adjacent_snoc: "adjacent (ms @ [n]) \<longleftrightarrow> adjacent ms \<and>
    (case last_of ms of None \<Rightarrow> True | Some l \<Rightarrow> tm_end_version l + 1 = tm_start_version n)"
  by (induction ms rule: adjacent.induct) (auto simp: last_of_def adjacent_Cons)

lemma chain_adjacent: "chain v ms = Some w \<Longrightarrow>
    adjacent ms \<and> (ms \<noteq> [] \<longrightarrow> w = tm_end_version (last ms) + 1)"
  by (induction ms arbitrary: v) (auto simp: adjacent_Cons split: if_splits list.splits)

lemma tracker_entry_Inr_iff:
  "tracker_entry (ty, m) tr = Inr tr' \<longleftrightarrow> tr' = AList.update ty m tr \<and>
     (\<forall>l. map_of tr ty = Some l \<longrightarrow> tm_end_version l + 1 = tm_start_version m)"
  by (auto simp: tracker_entry_def split: option.splits if_splits)

lemma tracker_entries_ok_iff:
  assumes "distinct (map fst ups)"
  shows "fst (tracker_entries ups tr) = None \<longleftrightarrow>
    (\<forall>ty m l. map_of ups ty = Some m \<longrightarrow> map_of tr ty = Some l \<longrightarrow> tm_end_version l + 1 = tm_start_version m)"
  using assms
proof (induction ups arbitrary: tr)
  case Nil
  then show ?case by simp
next
  case (Cons tm ups)
  obtain ty m where tm: "tm = (ty, m)" by force
  from Cons.prems have fresh: "map_of ups ty = None" by (simp add: tm map_of_eq_None_iff)
  show ?case
  proof (cases "tracker_entry tm tr")
    case (Inl e)
    then have "\<not> (\<forall>l. map_of tr ty = Some l \<longrightarrow> tm_end_version l + 1 = tm_start_version m)"
      using tracker_entry_Inr_iff [of ty m tr] by (auto simp: tm)
    with Inl show ?thesis by (auto simp: tm)
  next
    case (Inr tr')
    then have tr': "tr' = AList.update ty m tr"
      "\<forall>l. map_of tr ty = Some l \<longrightarrow> tm_end_version l + 1 = tm_start_version m"
      by (simp_all add: tm tracker_entry_Inr_iff)
    have "fst (tracker_entries ups tr') = None \<longleftrightarrow> (\<forall>t n l. map_of ups t = Some n \<longrightarrow> map_of tr' t = Some l \<longrightarrow>
        tm_end_version l + 1 = tm_start_version n)" using Cons.IH Cons.prems by simp
    also have "\<dots> \<longleftrightarrow> (\<forall>t n l. map_of (tm # ups) t = Some n \<longrightarrow> map_of tr t = Some l \<longrightarrow>
        tm_end_version l + 1 = tm_start_version n)"
      using tr'(2) fresh by (auto simp: tr'(1) tm update_conv')
    finally show ?thesis using Inr by simp
  qed
qed

lemma tracker_entries_result:
  assumes "tracker_entries ups tr = (None, tr')" and "distinct (map fst ups)"
  shows "map_of tr' ty = (case map_of ups ty of None \<Rightarrow> map_of tr ty | Some m \<Rightarrow> Some m) \<and>
    (distinct (map fst tr) \<longrightarrow> distinct (map fst tr'))"
  using assms
proof (induction ups arbitrary: tr)
  case (Cons tm ups)
  obtain t m where tm: "tm = (t, m)" by force
  from Cons.prems(2) have fresh: "map_of ups t = None" by (simp add: tm map_of_eq_None_iff)
  from Cons.prems(1) obtain tr1 where tr1: "tracker_entry (t, m) tr = Inr tr1" "tracker_entries ups tr1 = (None, tr')"
    by (auto simp: tm split: sum.splits)
  from tr1(1) have "tr1 = AList.update t m tr" by (simp add: tracker_entry_Inr_iff)
  with Cons.IH [OF tr1(2)] Cons.prems(2) fresh show ?case
    by (auto simp: tm update_conv' distinct_update split: option.splits)
qed simp

lemma track_step_Inr:
  "track_step ups tr = Inr tr' \<longleftrightarrow> tracker_entries ups tr = (None, tr')"
  by (auto simp: track_step_def tracker_process_def split: option.splits prod.splits)

lemma track_all_snoc:
  "track_all (outs @ [ups]) = (case track_all outs of Inl e \<Rightarrow> Inl e | Inr tr \<Rightarrow> track_step ups tr)"
  by (auto simp: track_all_def fold_result_append split: sum.splits)

lemma track_all_result:
  assumes "track_all outs = Inr tr" and "\<forall>ups \<in> set outs. distinct (map fst ups)"
  shows "map_of tr ty = last_of (emitted ty outs) \<and> distinct (map fst tr)"
  using assms
proof (induction outs arbitrary: tr rule: rev_induct)
  case Nil
  then show ?case by (simp add: track_all_def emitted_def last_of_def)
next
  case (snoc ups outs)
  from snoc.prems(1) obtain tr1 where tr1: "track_all outs = Inr tr1" "track_step ups tr1 = Inr tr"
    by (auto simp: track_all_snoc split: sum.splits)
  from snoc.IH [OF tr1(1)] snoc.prems(2)
  have "map_of tr1 ty = last_of (emitted ty outs) \<and> distinct (map fst tr1)" by simp
  with tracker_entries_result [of ups tr1 tr ty] tr1(2) snoc.prems(2) show ?case
    by (auto simp: track_step_Inr emitted_def last_of_def opt_list_def split: option.splits if_splits)
qed

lemma track_all_iff:
  assumes "\<forall>ups \<in> set outs. distinct (map fst ups)"
  shows "(\<exists>tr. track_all outs = Inr tr) \<longleftrightarrow> (\<forall>ty. adjacent (emitted ty outs))"
  using assms
proof (induction outs rule: rev_induct)
  case Nil
  then show ?case by (simp add: track_all_def emitted_def)
next
  case (snoc ups outs)
  have one: "emitted ty [ups] = opt_list (map_of ups ty)" for ty by (simp add: emitted_def)
  show ?case
  proof (cases "track_all outs")
    case (Inl e)
    then obtain ty where "\<not> adjacent (emitted ty outs)" using snoc by auto
    then have "\<not> adjacent (emitted ty (outs @ [ups]))"
      by (cases "map_of ups ty") (simp_all add: one opt_list_def adjacent_snoc)
    with Inl show ?thesis by (auto simp: track_all_snoc)
  next
    case (Inr tr)
    then have adj: "adjacent (emitted ty outs)" for ty using snoc by auto
    have tr: "map_of tr ty = last_of (emitted ty outs)" for ty
      using track_all_result [OF Inr] snoc.prems by simp
    have "(\<exists>tr'. track_all (outs @ [ups]) = Inr tr') \<longleftrightarrow> fst (tracker_entries ups tr) = None"
      by (cases "tracker_entries ups tr") (simp add: track_all_snoc Inr track_step_Inr)
    also have "\<dots> \<longleftrightarrow> (\<forall>ty. adjacent (emitted ty (outs @ [ups])))"
      using snoc.prems adj
      by (simp add: tracker_entries_ok_iff tr one opt_list_def adjacent_snoc split: option.splits) blast
    finally show ?thesis .
  qed
qed

subsection \<open>What has been uploaded is a prefix of the batches\<close>

lemma append_uploads_all_or_nothing:
  assumes run: "upload_buffer_append env cur (ty, data) (ups, st) = Inr (ups', st')"
    and ok: "buffers_ok (bst_buffers st)"
  shows "(rows_for ty (bst_files st') = rows_for ty (bst_files st) \<and> map_of ups' ty = map_of ups ty) \<or>
    (rows_for ty (bst_files st') = rows_for ty (bst_files st) @ buffered ty (bst_buffers st) \<and>
     opt_list (map_of ups' ty) = buffer_meta ty (bst_buffers st))"
    and "t \<noteq> ty \<Longrightarrow> rows_for t (bst_files st') = rows_for t (bst_files st) \<and> map_of ups' t = map_of ups t \<and>
      map_of (bst_buffers st') t = map_of (bst_buffers st) t"
    and "distinct (map fst ups) \<Longrightarrow> distinct (map fst ups')"
proof -
  let ?b = "unwrap_or (map_of (bst_buffers st) ty) (new_buffer ty)"
  note b = buffer_of_ok [OF ok, of ty]
  from run obtain b1 files up b3 where
    fl: "flush_if_full env ty data ?b = Inr (b1, files, up)"
    and ups': "ups' = (case up of None \<Rightarrow> ups | Some m \<Rightarrow> AList.update ty m ups)"
    and st': "st' = st\<lparr>bst_buffers := AList.update ty b3 (bst_buffers st), bst_files := bst_files st @ files\<rparr>"
    by (auto simp: upload_buffer_append_def Let_def split: sum.splits)
  note fl' = flush_Inr [OF fl conjunct1 [OF b]]
  have buf: "buffered ty (bst_buffers st) = ps_rows (pb_buffer ?b)"
    "buffer_meta ty (bst_buffers st) = opt_list (pb_metadata ?b)"
    by (auto simp: buffered_def buffer_meta_def opt_list_def unwrap_or_def split: option.splits)
  from fl' b show "(rows_for ty (bst_files st') = rows_for ty (bst_files st) \<and> map_of ups' ty = map_of ups ty) \<or>
    (rows_for ty (bst_files st') = rows_for ty (bst_files st) @ buffered ty (bst_buffers st) \<and>
     opt_list (map_of ups' ty) = buffer_meta ty (bst_buffers st))"
    by (auto simp: buf st' ups' rows_for_one rows_for_def opt_list_def update_conv' split: option.splits)
  show "rows_for t (bst_files st') = rows_for t (bst_files st) \<and> map_of ups' t = map_of ups t \<and>
      map_of (bst_buffers st') t = map_of (bst_buffers st) t" if "t \<noteq> ty"
    using that fl' b by (auto simp: st' ups' rows_for_one rows_for_def update_conv' split: option.splits)
  show "distinct (map fst ups) \<Longrightarrow> distinct (map fst ups')"
    by (simp add: ups' distinct_update split: option.splits)
qed

lemma buffer_lookup_cong:
  "map_of bs t = map_of bs' t \<Longrightarrow> buffered t bs = buffered t bs' \<and> buffer_meta t bs = buffer_meta t bs'"
  by (simp add: buffered_def buffer_meta_def)

lemma appends_upload_all_or_nothing:
  assumes "fold_result (upload_buffer_append env cur) data (ups, st) = Inr (ups', st')"
    and "buffers_ok (bst_buffers st)" and "\<forall>s. 0 < be_size env s"
    and "distinct (map fst data)" and "map_of ups t = None"
  shows "(rows_for t (bst_files st') = rows_for t (bst_files st) \<and> map_of ups' t = None) \<or>
    (rows_for t (bst_files st') = rows_for t (bst_files st) @ buffered t (bst_buffers st) \<and>
     opt_list (map_of ups' t) = buffer_meta t (bst_buffers st))"
  using assms
proof (induction data arbitrary: ups st)
  case (Cons td data)
  obtain ty d where td: "td = (ty, d)" by force
  from Cons.prems(1) obtain ups1 st1 where
    step: "upload_buffer_append env cur (ty, d) (ups, st) = Inr (ups1, st1)"
    and rest: "fold_result (upload_buffer_append env cur) data (ups1, st1) = Inr (ups', st')"
    by (auto simp: td split: sum.splits)
  note D = append_uploads_all_or_nothing [OF step Cons.prems(2)]
  have ok1: "buffers_ok (bst_buffers st1)" using append_step [OF step Cons.prems(2,3)] by simp
  show ?case
  proof (cases "t = ty")
    case True
    with Cons.prems(4) have "t \<notin> fst ` set data" by (simp add: td)
    then have frame: "map_of ups' t = map_of ups1 t \<and> rows_for t (bst_files st') = rows_for t (bst_files st1)"
      using rest ok1 Cons.prems(3)
    proof (induction data arbitrary: ups1 st1)
      case (Cons td data)
      obtain ty d where td: "td = (ty, d)" by force
      from Cons.prems(2) obtain ups2 st2 where
        step: "upload_buffer_append env cur (ty, d) (ups1, st1) = Inr (ups2, st2)"
        and rest: "fold_result (upload_buffer_append env cur) data (ups2, st2) = Inr (ups', st')"
        by (auto simp: td split: sum.splits)
      have "buffers_ok (bst_buffers st2)" using append_step [OF step Cons.prems(3,4)] by simp
      from Cons.IH [OF _ rest this Cons.prems(4)] append_uploads_all_or_nothing(2) [OF step Cons.prems(3), of t]
        Cons.prems(1) show ?case by (simp add: td)
    qed simp
    with True D(1) Cons.prems(5) show ?thesis by simp
  next
    case False
    note same = D(2) [OF False]
    from Cons.IH [OF rest ok1 Cons.prems(3)] Cons.prems(4,5) same
      buffer_lookup_cong [of "bst_buffers st1" t "bst_buffers st"] show ?thesis by (simp add: td)
  qed
qed simp

lemma op_uploads_all_or_nothing:
  assumes run: "buffer_op_step env op (outs, st) = Inr (outs', st')"
    and ok: "buffers_ok (bst_buffers st)" and size: "\<forall>s. 0 < be_size env s" and cov: "op_covers t op"
  shows "(rows_for t (bst_files st') = rows_for t (bst_files st) \<and> emitted t outs' = emitted t outs) \<or>
    (rows_for t (bst_files st') = rows_for t (bst_files st) @ buffered t (bst_buffers st) \<and>
     emitted t outs' = emitted t outs @ buffer_meta t (bst_buffers st))"
proof (cases op)
  case (OpProcess data m)
  with run obtain ups where fold: "fold_result (upload_buffer_append env m) data ([], st) = Inr (ups, st')"
    and outs': "outs' = outs @ (if ups \<noteq> [] then [ups] else [])"
    by (auto simp: buffer_op_step_def buffer_process_def split: sum.splits if_splits)
  have "emitted t outs' = emitted t outs @ opt_list (map_of ups t)"
    using outs' by (auto simp: emitted_def opt_list_def)
  with appends_upload_all_or_nothing [OF fold ok size, of t] cov OpProcess show ?thesis
    by (auto simp: opt_list_def)
next
  case OpPoll
  with run obtain ups fs where fold: "fold_result (drain_buffer env False) (bst_buffers st) ([], []) = Inr (ups, fs)"
    and outs': "outs' = outs @ (if ups \<noteq> [] then [ups] else [])"
    and st': "st' = \<lparr>bst_buffers = [], bst_files = bst_files st @ fs\<rparr>"
    by (auto simp: buffer_op_step_def buffer_poll_def drain_all_def split: sum.splits if_splits)
  have "emitted t outs' = emitted t outs @ opt_list (map_of ups t)"
    using outs' by (auto simp: emitted_def opt_list_def)
  with drain_steps [OF fold ok] show ?thesis by (auto simp: st' rows_for_def opt_list_def)
qed

lemma uploaded_prefix:
  assumes "buffer_run env ops = Inr (outs, st)" and size: "\<forall>s. 0 < be_size env s"
    and "\<forall>op \<in> set ops. op_covers t op"
  shows "\<exists>k \<le> length ops. rows_for t (bst_files st) = concat (map (op_rows t) (take k ops)) \<and>
    (\<forall>v. chain v (emitted t outs) = chain v (concat (map op_metas (take k ops))))"
  using assms(1,3)
proof (induction ops arbitrary: outs st rule: rev_induct)
  case Nil
  then show ?case by (auto simp: buffer_run_def rows_for_def emitted_def)
next
  case (snoc op ops)
  from snoc.prems(1) obtain outs1 st1 where run: "buffer_run env ops = Inr (outs1, st1)"
    and step: "buffer_op_step env op (outs1, st1) = Inr (outs, st)"
    by (auto simp: buffer_run_def fold_result_append split: sum.splits)
  have R: "buffers_ok (bst_buffers st1)"
    "rows_for t (bst_files st1) @ buffered t (bst_buffers st1) = concat (map (op_rows t) ops)"
    "\<forall>v. chain v (emitted t outs1 @ buffer_meta t (bst_buffers st1)) = chain v (concat (map op_metas ops))"
    using buffer_run_ok [OF run] size snoc.prems(2) by (simp_all add: buffers_ok_def rows_for_def emitted_def)
  from snoc.IH [OF run] snoc.prems(2) obtain k where k: "k \<le> length ops"
    "rows_for t (bst_files st1) = concat (map (op_rows t) (take k ops))"
    "\<forall>v. chain v (emitted t outs1) = chain v (concat (map op_metas (take k ops)))" by auto
  from op_uploads_all_or_nothing [OF step R(1) size, of t] snoc.prems(2)
  consider "rows_for t (bst_files st) = rows_for t (bst_files st1)" "emitted t outs = emitted t outs1"
    | "rows_for t (bst_files st) = rows_for t (bst_files st1) @ buffered t (bst_buffers st1)"
      "emitted t outs = emitted t outs1 @ buffer_meta t (bst_buffers st1)" by auto
  then show ?case
  proof cases
    case 1
    with k show ?thesis by (intro exI [of _ k]) simp
  next
    case 2
    with R(2,3) show ?thesis by (intro exI [of _ "length ops"]) simp
  qed
qed

lemma uploads_distinct:
  assumes "buffer_run env ops = Inr (outs, st)" and "\<forall>s. 0 < be_size env s"
  shows "\<forall>ups \<in> set outs. distinct (map fst ups)"
  using assms
proof (induction ops arbitrary: outs st rule: rev_induct)
  case Nil
  then show ?case by (simp add: buffer_run_def)
next
  case (snoc op ops)
  from snoc.prems(1) obtain outs1 st1 where run: "buffer_run env ops = Inr (outs1, st1)"
    and step: "buffer_op_step env op (outs1, st1) = Inr (outs, st)"
    by (auto simp: buffer_run_def fold_result_append split: sum.splits)
  have ok: "buffers_ok (bst_buffers st1)"
    using buffer_run_ok [OF run] snoc.prems(2) by (simp add: buffers_ok_def rows_for_def emitted_def)
  have step_ok: "distinct (map fst (fst us')) \<and> buffers_ok (bst_buffers (snd us'))"
    if "distinct (map fst (fst us)) \<and> buffers_ok (bst_buffers (snd us))"
      "upload_buffer_append env m x us = Inr us'" for m x us us'
  proof -
    obtain ty d where x: "x = (ty, d)" by force
    obtain ups b where us: "us = (ups, b)" by force
    obtain ups' b' where us': "us' = (ups', b')" by force
    from that append_uploads_all_or_nothing(3) [of env m ty d ups b ups' b'] append_step [of env m ty d ups b ups' b']
      snoc.prems(2) show ?thesis by (simp add: x us us')
  qed
  have appends: "distinct (map fst (fst us')) \<and> buffers_ok (bst_buffers (snd us'))"
    if "distinct (map fst (fst us)) \<and> buffers_ok (bst_buffers (snd us))"
      "fold_result (upload_buffer_append env m) data us = Inr us'" for m data us us'
    using fold_result_inv [where P = "\<lambda>us. distinct (map fst (fst us)) \<and> buffers_ok (bst_buffers (snd us))"
        and f = "upload_buffer_append env m" and xs = data, OF _ that(2) that(1)] step_ok by blast
  have drains: "distinct (map fst (fst us)) \<Longrightarrow> fold_result (drain_buffer env False) bs us = Inr us' \<Longrightarrow>
      distinct (map fst (fst us'))" for bs us us'
    by (rule fold_result_inv [where P = "\<lambda>us. distinct (map fst (fst us))"])
      (auto simp: drain_buffer_def distinct_update split: prod.splits if_splits sum.splits option.splits)
  show ?case
  proof (cases op)
    case (OpProcess data m)
    with step obtain ups where "fold_result (upload_buffer_append env m) data ([], st1) = Inr (ups, st)"
      and "outs = outs1 @ (if ups \<noteq> [] then [ups] else [])"
      by (auto simp: buffer_op_step_def buffer_process_def split: sum.splits if_splits)
    with appends [of "([], st1)" m data "(ups, st)"] snoc.IH [OF run snoc.prems(2)] ok show ?thesis
      by (auto split: if_splits)
  next
    case OpPoll
    with step obtain ups fs where "fold_result (drain_buffer env False) (bst_buffers st1) ([], []) = Inr (ups, fs)"
      and "outs = outs1 @ (if ups \<noteq> [] then [ups] else [])"
      by (auto simp: buffer_op_step_def buffer_poll_def drain_all_def split: sum.splits if_splits)
    with drains [of "([], [])" "bst_buffers st1" "(ups, fs)"] snoc.IH [OF run snoc.prems(2)] show ?thesis
      by (auto split: if_splits)
  qed
qed

lemma min_version_Min:
  "vs \<noteq> [] \<Longrightarrow> min_version vs = Some (Min (set vs))"
  by (cases vs) (simp_all add: min_version_def Min.set_eq_fold del: set_simps)

lemma uint_Min: "finite A \<Longrightarrow> A \<noteq> {} \<Longrightarrow> uint (Min A) = Min (uint ` A)"
  by (rule mono_Min_commute) (auto simp: mono_def word_le_def)

lemma map_filter_no_faults:
  "List.map_filter (\<lambda>name. if no_faults GetConn \<or> no_faults QueryProcessorStatus then None
     else map_option ps_last_success_version (get_by_processor name db)) names =
   map (\<lambda>name. ps_last_success_version (the (get_by_processor name db)))
     (filter (\<lambda>name. get_by_processor name db \<noteq> None) names)"
  by (induction names) (auto simp: List.map_filter_simps no_faults_def split: option.splits)

section \<open>Properties\<close>

text \<open>
  The tracker reports a gap exactly when there is one.  Fed with any sequence of upload
  maps, it fails if and only if for some table two ranges that follow each other are not
  adjacent; otherwise it holds, for every table, the last range uploaded.
\<close>

theorem tracker_detects_gaps:
  assumes "\<forall>ups \<in> set outs. distinct (map fst ups)"
  shows "((\<exists>e. track_all outs = Inl e) \<longleftrightarrow> (\<exists>ty. \<not> adjacent (emitted ty outs))) \<and>
    (\<forall>tr. track_all outs = Inr tr \<longrightarrow> (\<forall>ty. map_of tr ty = last_of (emitted ty outs)))"
  using track_all_iff [OF assms] track_all_result [OF _ assms] by (cases "track_all outs") auto

theorem tracker_detects_gaps_witness:
  "\<exists>e. track_all [[(PtEvents, sample_meta 0 9)], [(PtEvents, sample_meta 11 19)]] = Inl e"
proof -
  have "\<not> adjacent (emitted PtEvents [[(PtEvents, sample_meta 0 9)], [(PtEvents, sample_meta 11 19)]])"
    by (simp add: emitted_def opt_list_def sample_meta_def default_txn_metadata_def)
  with tracker_detects_gaps [of "[[(PtEvents, sample_meta 0 9)], [(PtEvents, sample_meta 11 19)]]"]
  show ?thesis by auto
qed

text \<open>
  Claim C12: A checkpoint is never ahead of the uploads.  Batches of consecutive versions, each carrying
  the table, go through the buffer step and its polls; the tracker follows and saves its
  checkpoints in default mode.  The table's checkpoint is then absent, or the end version \<open>u\<close> of a
  prefix of the batches such that exactly the rows of that prefix have been uploaded.  Restarting at
  the checkpoint therefore skips no row.
\<close>

theorem checkpoint_never_ahead_of_uploads:
  assumes size: "\<forall>s. 0 < be_size env s" and run: "buffer_run env ops = Inr (outs, st)"
    and cov: "\<forall>op \<in> set ops. op_covers t op" and ch: "chain v (concat (map op_metas ops)) = Some w"
    and tr: "track_all outs = Inr tr"
    and fresh: "table_checkpoint (default_mode_config cfg bs) (parquet_type_to_string t) db = None"
  shows "\<exists>db'. tracker_poll (save_parquet_processor_status ext (default_mode_config cfg bs) no_faults) tr db = (None, db') \<and>
    (case table_checkpoint (default_mode_config cfg bs) (parquet_type_to_string t) db' of
       None \<Rightarrow> emitted t outs = []
     | Some c \<Rightarrow> \<exists>k u. c = sint u \<and> chain v (concat (map op_metas (take k ops))) = Some (u + 1) \<and>
         rows_for t (bst_files st) = concat (map (op_rows t) (take k ops)))"
proof -
  note T = track_all_result [OF tr uploads_distinct [OF run size]]
  obtain db' where poll: "save_entries (save_parquet_processor_status ext (default_mode_config cfg bs) no_faults) tr db = (None, db')"
    and hit: "\<forall>(ty, m) \<in> set tr. table_checkpoint (default_mode_config cfg bs) (parquet_type_to_string ty) db' =
      raised (table_checkpoint (default_mode_config cfg bs) (parquet_type_to_string ty) db) m"
    and miss: "\<forall>table. table \<notin> (parquet_type_to_string \<circ> fst) ` set tr \<longrightarrow>
      table_checkpoint (default_mode_config cfg bs) table db' = table_checkpoint (default_mode_config cfg bs) table db"
    using saver.save_entries_checkpoint [OF distinct_type_names, of tr ext cfg bs db] T by blast
  show ?thesis
  proof (cases "emitted t outs = []")
    case True
    with T [of t] have "t \<notin> fst ` set tr" by (simp add: last_of_def map_of_eq_None_iff)
    then have "parquet_type_to_string t \<notin> (parquet_type_to_string \<circ> fst) ` set tr"
      by (auto simp: inj_eq [OF parquet_type_to_string_inj]) force
    with miss fresh True poll show ?thesis by (simp add: tracker_poll_def)
  next
    case False
    let ?m = "last (emitted t outs)"
    from False T [of t] have "(t, ?m) \<in> set tr" by (auto simp: last_of_def intro: map_of_SomeD)
    with hit fresh have cp: "table_checkpoint (default_mode_config cfg bs) (parquet_type_to_string t) db' =
        Some (sint (tm_end_version ?m))" by (auto simp: raised_def)
    obtain k where k: "rows_for t (bst_files st) = concat (map (op_rows t) (take k ops))"
      "\<forall>v. chain v (emitted t outs) = chain v (concat (map op_metas (take k ops)))"
      using uploaded_prefix [OF run size cov] by auto
    have "\<exists>u. chain v (concat (map op_metas (take k ops))) = Some u"
      using ch chain_prefix [of v "concat (map op_metas (take k ops))" "concat (map op_metas (drop k ops))" w]
      by (simp flip: concat_append map_append)
    with k(2) False have "chain v (concat (map op_metas (take k ops))) = Some (tm_end_version ?m + 1)"
      using chain_adjacent [of v "emitted t outs"] by auto
    with poll cp k(1) show ?thesis by (auto simp: tracker_poll_def)
  qed
qed

theorem checkpoint_never_ahead_of_uploads_witness:
  "\<exists>outs st tr db'. buffer_run sample_buffer_env sample_ops = Inr (outs, st) \<and> track_all outs = Inr tr \<and>
     tracker_poll (save_parquet_processor_status sample_extern
       (default_mode_config (sample_config default_processor_mode) \<lparr>bs_initial_starting_version = 0\<rparr>) no_faults) tr empty_status_db = (None, db') \<and>
     (case table_checkpoint (default_mode_config (sample_config default_processor_mode) \<lparr>bs_initial_starting_version = 0\<rparr>) ''events'' db' of
        None \<Rightarrow> emitted PtEvents outs = []
      | Some c \<Rightarrow> \<exists>k u. c = sint u \<and> chain 0 (concat (map op_metas (take k sample_ops))) = Some (u + 1) \<and>
          rows_for PtEvents (bst_files st) = concat (map (op_rows PtEvents) (take k sample_ops)))"
proof -
  obtain outs st where run: "buffer_run sample_buffer_env sample_ops = Inr (outs, st)"
    using sample_run by blast
  have size: "\<forall>s. 0 < be_size sample_buffer_env s" by (simp add: sample_buffer_env_def)
  have cov: "\<forall>op \<in> set sample_ops. op_covers PtEvents op" by (simp add: sample_ops_def)
  have ch: "chain 0 (concat (map op_metas sample_ops)) = Some 20"
    by (simp add: sample_ops_def sample_meta_def default_txn_metadata_def)
  have "outs = [[(PtEvents, sample_meta 0 9)]]"
    using run by (auto simp: buffer_run_def sample_ops_def sample_buffer_env_def buffer_op_step_def buffer_process_def
      upload_buffer_append_def flush_if_full_def append_to_buffer_def append_structs_def
      update_current_batch_metadata_def new_buffer_def default_for_type_def buffer_poll_def drain_all_def
      drain_buffer_def Let_def unwrap_or_def)
  then have tr: "track_all outs = Inr [(PtEvents, sample_meta 0 9)]"
    by (simp add: track_all_def track_step_def tracker_process_def tracker_entry_def)
  have "table_checkpoint (default_mode_config (sample_config default_processor_mode) \<lparr>bs_initial_starting_version = 0\<rparr>)
      (parquet_type_to_string PtEvents) empty_status_db = None"
    by (simp add: table_checkpoint_def checkpoint_def get_by_processor_def empty_status_db_def)
  from checkpoint_never_ahead_of_uploads [OF size run cov ch tr this, of sample_extern] run tr show ?thesis by auto
qed

text \<open>
  Where a parquet processor without a backfill list restarts in default mode: at the smallest
  checkpoint of those of its tables that have one, or at the configured initial version if that
  is greater or no table has one.  Tables without a checkpoint do not hold the processor back.
\<close>

theorem parquet_restart_version:
  assumes pc: "parquet_config_of (ic_processor_config cfg) = Some pc" "pc_backfill_table pc = []"
    and mode: "ic_processor_mode cfg = ModeDefault bs"
    and names: "names = map (format_table_name (config_name (ic_processor_config cfg)))
      (table_names (processor_name_of (ic_processor_config cfg)))"
    and versions: "versions = {uint (ps_last_success_version st) | st name.
      name \<in> set names \<and> get_by_processor name db = Some st}"
  shows "\<exists>v. get_parquet_starting_version cfg (\<lambda>_. no_faults) db = Inr (Some v, db) \<and>
    uint v = (if versions = {} then uint (bs_initial_starting_version bs)
              else max (Min versions) (uint (bs_initial_starting_version bs)))"
proof -
  let ?vs = "map (\<lambda>name. ps_last_success_version (the (get_by_processor name db)))
     (filter (\<lambda>name. get_by_processor name db \<noteq> None) names)"
  have vs: "uint ` set ?vs = versions" by (force simp: versions)
  have start: "get_parquet_starting_version cfg (\<lambda>_. no_faults) db =
      Inr (Some (case min_version ?vs of None \<Rightarrow> bs_initial_starting_version bs
        | Some v \<Rightarrow> max v (bs_initial_starting_version bs)), db)"
    by (simp add: get_parquet_starting_version_def status_table_names_default [OF pc] mode
        get_min_processed_version_from_db_def map_filter_no_faults names)
  show ?thesis
  proof (cases "?vs = []")
    case True
    with vs have "versions = {}" by (metis image_empty list.set(1))
    with True start show ?thesis by (simp add: min_version_def)
  next
    case False
    then have "uint (Min (set ?vs)) = Min versions" using uint_Min [of "set ?vs"] vs by (metis finite_set set_empty)
    moreover have "versions \<noteq> {}" using False vs by (metis image_is_empty set_empty)
    ultimately show ?thesis using start unfolding min_version_Min [OF False] by (auto simp: uint_max)
  qed
qed

theorem parquet_restart_version_witness:
  "\<exists>v. get_parquet_starting_version ((sample_config default_processor_mode)
       \<lparr>ic_processor_config := ParquetEventsProcessor serde_parquet_default_processor_config\<rparr>)
       (\<lambda>_. no_faults) empty_status_db = Inr (Some v, empty_status_db) \<and> uint v = 0"
  using parquet_restart_version [of "(sample_config default_processor_mode)
       \<lparr>ic_processor_config := ParquetEventsProcessor serde_parquet_default_processor_config\<rparr>"
       serde_parquet_default_processor_config "\<lparr>bs_initial_starting_version = 0\<rparr>" _ _ empty_status_db, OF _ _ _ refl refl]
  by (simp add: sample_config_def default_processor_mode_def serde_parquet_default_processor_config_def
      get_by_processor_def empty_status_db_def)

text \<open>
  With a backfill list the checkpoints are looked up under bare table names, while they are
  saved under names prefixed by the processor, so no checkpoint is found and every start in
  default mode is at the configured initial version.
\<close>

theorem backfill_list_ignores_checkpoints:
  assumes pc: "parquet_config_of (ic_processor_config cfg) = Some pc" "pc_backfill_table pc \<noteq> []"
    and valid: "\<forall>t \<in> set (pc_backfill_table pc). to_lowercase t \<in> set (table_names (processor_name_of (ic_processor_config cfg)))"
    and mode: "ic_processor_mode cfg = ModeDefault bs"
    and rows: "\<forall>st \<in> set (sd_processor_status db). \<exists>p t. ps_processor st = format_table_name p t"
  shows "get_parquet_starting_version cfg (\<lambda>_. no_faults) db = Inr (Some (bs_initial_starting_version bs), db)"
proof -
  have none: "get_by_processor t db = None" if "t \<in> set (pc_backfill_table pc)" for t
  proof (rule ccontr)
    assume "get_by_processor t db \<noteq> None"
    then obtain st where "st \<in> set (sd_processor_status db)" "ps_processor st = t"
      by (auto simp: get_by_processor_def dest: find_row_SomeD)
    with rows dot_in_format have "CHR ''.'' \<in> set t" by metis
    with to_lowercase_dot valid that dot_notin_table_names show False by blast
  qed
  have "get_processor_status_table_names (ic_processor_config cfg) = Inr (pc_backfill_table pc)"
    using valid by (simp add: status_table_names_backfill [OF pc] validate_backfill_Inr_iff)
  moreover have "filter (\<lambda>t. get_by_processor t db \<noteq> None) (pc_backfill_table pc) = []"
    using none by (simp add: filter_empty_conv)
  ultimately show ?thesis
    by (simp add: get_parquet_starting_version_def mode get_min_processed_version_from_db_def
        map_filter_no_faults min_version_def)
qed

theorem backfill_list_ignores_checkpoints_witness:
  "get_parquet_starting_version ((sample_config default_processor_mode)
     \<lparr>ic_processor_config := ParquetEventsProcessor (serde_parquet_default_processor_config\<lparr>pc_backfill_table := [''events'']\<rparr>)\<rparr>)
     (\<lambda>_. no_faults)
     \<lparr>sd_processor_status = [\<lparr>ps_processor = format_table_name ''parquet_events_processor'' ''events'',
        ps_last_success_version = 5000, ps_last_transaction_timestamp = None\<rparr>], sd_backfill = []\<rparr> =
   Inr (Some 0, \<lparr>sd_processor_status = [\<lparr>ps_processor = format_table_name ''parquet_events_processor'' ''events'',
        ps_last_success_version = 5000, ps_last_transaction_timestamp = None\<rparr>], sd_backfill = []\<rparr>)"
proof -
  have "to_lowercase ''events'' = ''events''" by code_simp
  then show ?thesis
    using backfill_list_ignores_checkpoints [of "(sample_config default_processor_mode)
      \<lparr>ic_processor_config := ParquetEventsProcessor (serde_parquet_default_processor_config\<lparr>pc_backfill_table := [''events'']\<rparr>)\<rparr>"
      "serde_parquet_default_processor_config\<lparr>pc_backfill_table := [''events'']\<rparr>" "\<lparr>bs_initial_starting_version = 0\<rparr>"
      "\<lparr>sd_processor_status = [\<lparr>ps_processor = format_table_name ''parquet_events_processor'' ''events'',
        ps_last_success_version = 5000, ps_last_transaction_timestamp = None\<rparr>], sd_backfill = []\<rparr>"]
    by (auto simp: sample_config_def default_processor_mode_def)
qed

end
