(* ===== verification/ReputationApi.thy ===== *)
theory ReputationApi
  imports ReputationModel "HOL-Library.Product_Lexorder" "HOL-Library.List_Lexorder" "HOL-Library.Char_ord" "HOL-Library.Multiset"
begin

text \<open>
  \<open>api/address_reputation\<close>: the REST service over the reputation tables (\<open>routes.rs\<close>, \<open>db.rs\<close>).
  A request is one of the five routes with what the extractors of the web framework made of its
  header, query string and body; when an extractor fails the framework answers by itself with
  \<open>he_rejection\<close>.  Texts are compared byte by byte.  The order in which the database delivers rows
  that a query leaves unordered is the parameter \<open>qe_scan\<close>, a permutation.
\<close>

section \<open>Tables as the service reads them\<close>

record stored_source = address_evm_source +
  ss_inserted_at :: datetime
  ss_updated_at :: datetime

record stored_score = evm_risk_score +
  st_inserted_at :: datetime

record api_tables =
  at_sources :: "stored_source list"
  at_scores :: "stored_score list"

record query_env =
  qe_scan :: "stored_source list \<Rightarrow> stored_source list"
  qe_fails :: bool

record aes_row =
  ar_movement_address :: string
  ar_asset_type :: string
  ar_evm_address :: string
  ar_evm_fund :: decimal
  ar_transfer_fund :: decimal
  ar_hops_min :: int
  ar_inserted_at :: datetime
  ar_updated_at :: datetime

record ers_row =
  er_evm_address :: string
  er_risk_score :: decimal
  er_risk_label :: string
  er_source :: string
  er_recommendation :: string
  er_severity :: string
  er_inserted_at :: datetime

record mvt_score_row =
  ms_movement_address :: string
  ms_evm_address :: string
  ms_risk_score :: decimal
  ms_recommendation :: string
  ms_severity :: string
  ms_transfer_fund :: decimal

section \<open>Queries\<close>

definition api_ping :: "query_env \<Rightarrow> unit result" where
  "api_ping env = (if qe_fails env then Inl (ProcessError ''query failed'') else Inr ())"

definition aes_row_of :: "stored_source \<Rightarrow> aes_row" where
  "aes_row_of s =
     \<lparr>ar_movement_address = aes_movement_address s, ar_asset_type = aes_asset_type s,
      ar_evm_address = aes_evm_address s, ar_evm_fund = aes_evm_fund s,
      ar_transfer_fund = aes_transfer_fund s, ar_hops_min = aes_hops_min s,
      ar_inserted_at = ss_inserted_at s, ar_updated_at = ss_updated_at s\<rparr>"

definition query_since :: "query_env \<Rightarrow> api_tables \<Rightarrow> datetime \<Rightarrow> aes_row list result" where
  "query_since env db since =
     (if qe_fails env then Inl (ProcessError ''query failed'')
      else Inr (map aes_row_of (sort_key (\<lambda>s. (ss_updated_at s, aes_movement_address s, aes_evm_address s))
             (filter (\<lambda>s. since \<le> ss_updated_at s) (qe_scan env (at_sources db))))))"

definition query_mvt_fetch :: "query_env \<Rightarrow> api_tables \<Rightarrow> string list \<Rightarrow> aes_row list result" where
  "query_mvt_fetch env db addrs =
     (if qe_fails env then Inl (ProcessError ''query failed'')
      else Inr (map aes_row_of (sort_key (\<lambda>s. (aes_movement_address s, aes_evm_address s))
             (filter (\<lambda>s. aes_movement_address s \<in> set addrs) (qe_scan env (at_sources db))))))"

definition ers_row_of :: "stored_score \<Rightarrow> ers_row" where
  "ers_row_of r =
     \<lparr>er_evm_address = rs_evm_address r, er_risk_score = rs_risk_score r, er_risk_label = rs_risk_label r,
      er_source = rs_source r, er_recommendation = rs_recommendation r, er_severity = rs_severity r,
      er_inserted_at = st_inserted_at r\<rparr>"

definition query_evms :: "query_env \<Rightarrow> api_tables \<Rightarrow> string list \<Rightarrow> ers_row list result" where
  "query_evms env db addrs =
     (if qe_fails env then Inl (ProcessError ''query failed'')
      else Inr (map ers_row_of (sort_key rs_evm_address
             (filter (\<lambda>r. rs_evm_address r \<in> set addrs) (at_scores db)))))"

text \<open>The common table expressions of \<open>query_mvt_scores\<close>: a source row joined with its score, if any.\<close>

type_synonym base_row = "stored_source \<times> stored_score option"

definition left_join :: "stored_score list \<Rightarrow> stored_source \<Rightarrow> base_row list" where
  "left_join scores s =
     (case filter (\<lambda>r. rs_evm_address r = aes_evm_address s) scores of
        [] \<Rightarrow> [(s, None)]
      | rs \<Rightarrow> map (\<lambda>r. (s, Some r)) rs)"

definition base_rows :: "query_env \<Rightarrow> api_tables \<Rightarrow> string list \<Rightarrow> base_row list" where
  "base_rows env db addrs =
     concat (map (left_join (at_scores db))
       (filter (\<lambda>s. aes_movement_address s \<in> set addrs) (qe_scan env (at_sources db))))"

definition base_risk :: "base_row \<Rightarrow> decimal" where
  "base_risk b = (case snd b of None \<Rightarrow> 0 | Some r \<Rightarrow> rs_risk_score r)"

definition total_transfer_fund :: "base_row list \<Rightarrow> decimal" where
  "total_transfer_fund partition_rows = sum_list (map (\<lambda>b. aes_transfer_fund (fst b)) partition_rows)"

definition first_ranked :: "base_row list \<Rightarrow> base_row" where
  "first_ranked partition_rows = hd (sort_key (\<lambda>b. (- base_risk b, aes_evm_address (fst b))) partition_rows)"

definition mvt_score_row_of :: "base_row list \<Rightarrow> mvt_score_row" where
  "mvt_score_row_of partition_rows =
     (let b = first_ranked partition_rows in
      \<lparr>ms_movement_address = aes_movement_address (fst b), ms_evm_address = aes_evm_address (fst b),
       ms_risk_score = base_risk b,
       ms_recommendation = (case snd b of None \<Rightarrow> [] | Some r \<Rightarrow> rs_recommendation r),
       ms_severity = (case snd b of None \<Rightarrow> [] | Some r \<Rightarrow> rs_severity r),
       ms_transfer_fund = total_transfer_fund partition_rows + aes_evm_fund (fst b)\<rparr>)"

definition query_mvt_scores :: "query_env \<Rightarrow> api_tables \<Rightarrow> string list \<Rightarrow> mvt_score_row list result" where
  "query_mvt_scores env db addrs =
     (if qe_fails env then Inl (ProcessError ''query failed'')
      else let base = base_rows env db addrs in
        Inr (map (\<lambda>a. mvt_score_row_of (filter (\<lambda>b. aes_movement_address (fst b) = a) base))
               (sort (remdups (map (\<lambda>b. aes_movement_address (fst b)) base)))))"

section \<open>Requests\<close>

datatype endpoint = Since | MvtFetch | Evms | Mvts | Health

record request =
  rq_endpoint :: endpoint
  rq_api_key :: "string option"
  rq_since :: "i64 option"
  rq_addrs :: "string list option"

datatype body =
    AesRows "aes_row list"
  | ErsRows "ers_row list"
  | MvtRows "mvt_score_row list"
  | EmptyArray
  | ErrorBody string
  | BadAddress string string
  | HealthBody string
  | NoBody
  | RejectionBody

record response =
  rp_status :: nat
  rp_body :: body

record app_state =
  as_db :: api_tables
  as_api_keys :: "string list"

record http_env =
  he_query :: query_env
  he_from_timestamp :: "int \<Rightarrow> datetime option"
  he_rejection :: nat

definition is_ascii_hexdigit :: "char \<Rightarrow> bool" where
  "is_ascii_hexdigit c \<longleftrightarrow> is_digit c \<or> (CHR ''a'' \<le> c \<and> c \<le> CHR ''f'') \<or> (CHR ''A'' \<le> c \<and> c \<le> CHR ''F'')"

definition is_valid_mvt_address :: "string \<Rightarrow> bool" where
  "is_valid_mvt_address addr \<longleftrightarrow>
     length addr = 66 \<and> take 2 addr = ''0x'' \<and> list_all is_ascii_hexdigit (drop 2 addr)"

definition is_valid_evm_address :: "string \<Rightarrow> bool" where
  "is_valid_evm_address addr \<longleftrightarrow>
     length addr = 42 \<and> take 2 addr = ''0x'' \<and> list_all is_ascii_hexdigit (drop 2 addr)"

definition bad_address :: "string \<Rightarrow> string \<Rightarrow> response" where
  "bad_address addr kind = \<lparr>rp_status = 400, rp_body = BadAddress kind addr\<rparr>"

text \<open>The message of \<open>bad_address\<close> names the kind and the address; the handlers answer empty input at
  once, then refuse the first bad address, then query.\<close>

definition rows_response :: "('r \<Rightarrow> body) \<Rightarrow> 'r result \<Rightarrow> response" where
  "rows_response wrap q = (case q of Inl e \<Rightarrow> \<lparr>rp_status = 500, rp_body = NoBody\<rparr>
     | Inr rows \<Rightarrow> \<lparr>rp_status = 200, rp_body = wrap rows\<rparr>)"

definition handle_since :: "http_env \<Rightarrow> app_state \<Rightarrow> i64 \<Rightarrow> response" where
  "handle_since env state since =
     (case he_from_timestamp env (sint since) of
        None \<Rightarrow> \<lparr>rp_status = 400, rp_body = ErrorBody ''invalid 'since' unix timestamp''\<rparr>
      | Some dt \<Rightarrow> rows_response AesRows (query_since (he_query env) (as_db state) dt))"

definition handle_mvt_fetch :: "http_env \<Rightarrow> app_state \<Rightarrow> string list \<Rightarrow> response" where
  "handle_mvt_fetch env state addrs =
     (if addrs = [] then \<lparr>rp_status = 200, rp_body = EmptyArray\<rparr>
      else case find (\<lambda>a. \<not> is_valid_mvt_address a) addrs of
             Some bad \<Rightarrow> bad_address bad ''movement''
           | None \<Rightarrow> rows_response AesRows (query_mvt_fetch (he_query env) (as_db state) addrs))"

definition handle_evms :: "http_env \<Rightarrow> app_state \<Rightarrow> string list \<Rightarrow> response" where
  "handle_evms env state addrs =
     (if addrs = [] then \<lparr>rp_status = 200, rp_body = EmptyArray\<rparr>
      else case find (\<lambda>a. \<not> is_valid_evm_address a) addrs of
             Some bad \<Rightarrow> bad_address bad ''evm''
           | None \<Rightarrow> rows_response ErsRows (query_evms (he_query env) (as_db state) addrs))"

definition handle_mvts :: "http_env \<Rightarrow> app_state \<Rightarrow> string list \<Rightarrow> response" where
  "handle_mvts env state addrs =
     (if addrs = [] then \<lparr>rp_status = 200, rp_body = EmptyArray\<rparr>
      else case find (\<lambda>a. \<not> is_valid_mvt_address a) addrs of
             Some bad \<Rightarrow> bad_address bad ''movement''
           | None \<Rightarrow> rows_response MvtRows (query_mvt_scores (he_query env) (as_db state) addrs))"

definition handle_health :: "http_env \<Rightarrow> response" where
  "handle_health env =
     (case api_ping (he_query env) of
        Inr _ \<Rightarrow> \<lparr>rp_status = 200, rp_body = HealthBody ''ok''\<rparr>
      | Inl e \<Rightarrow> \<lparr>rp_status = 503, rp_body = HealthBody ''error''\<rparr>)"

definition auth_middleware :: "app_state \<Rightarrow> request \<Rightarrow> response \<Rightarrow> response" where
  "auth_middleware state req next_response =
     (if \<exists>k. rq_api_key req = Some k \<and> k \<in> set (as_api_keys state) then next_response
      else \<lparr>rp_status = 401, rp_body = ErrorBody ''unauthorized''\<rparr>)"

definition with_extracted :: "http_env \<Rightarrow> 'a option \<Rightarrow> ('a \<Rightarrow> response) \<Rightarrow> response" where
  "with_extracted env x handler =
     (case x of None \<Rightarrow> \<lparr>rp_status = he_rejection env, rp_body = RejectionBody\<rparr> | Some a \<Rightarrow> handler a)"

definition build_router :: "http_env \<Rightarrow> app_state \<Rightarrow> request \<Rightarrow> response" where
  "build_router env state req =
     (case rq_endpoint req of
        Health \<Rightarrow> handle_health env
      | Since \<Rightarrow> auth_middleware state req (with_extracted env (rq_since req) (handle_since env state))
      | MvtFetch \<Rightarrow> auth_middleware state req (with_extracted env (rq_addrs req) (handle_mvt_fetch env state))
      | Evms \<Rightarrow> auth_middleware state req (with_extracted env (rq_addrs req) (handle_evms env state))
      | Mvts \<Rightarrow> auth_middleware state req (with_extracted env (rq_addrs req) (handle_mvts env state)))"

section \<open>Lemmas\<close>

definition sources_of_address :: "api_tables \<Rightarrow> string \<Rightarrow> stored_source list" where
  "sources_of_address db a = filter (\<lambda>s. aes_movement_address s = a) (at_sources db)"

definition score_of_source :: "api_tables \<Rightarrow> stored_source \<Rightarrow> stored_score option" where
  "score_of_source db s = find_row rs_evm_address (aes_evm_address s) (at_scores db)"

definition risk_of_source :: "api_tables \<Rightarrow> stored_source \<Rightarrow> decimal" where
  "risk_of_source db s = base_risk (s, score_of_source db s)"

lemma left_join_unique:
  assumes "unique_keys rs_evm_address (at_scores db)"
  shows "left_join (at_scores db) s = [(s, score_of_source db s)]"
proof -
  have d: "distinct (map rs_evm_address (at_scores db))" using assms by (simp add: unique_keys_def)
  have "filter (\<lambda>r. rs_evm_address r = k) rs = (case find_row rs_evm_address k rs of None \<Rightarrow> [] | Some r \<Rightarrow> [r])"
    if "distinct (map rs_evm_address rs)" for k and rs :: "stored_score list"
    using that by (induction rs) (auto simp: find_row_Cons filter_empty_conv split: option.splits, metis find_row_SomeD image_eqI)
  from this [OF d, of "aes_evm_address s"] show ?thesis
    by (auto simp: left_join_def score_of_source_def split: option.splits)
qed

lemma base_rows_unique:
  assumes "unique_keys rs_evm_address (at_scores db)"
  shows "base_rows env db addrs = map (\<lambda>s. (s, score_of_source db s))
    (filter (\<lambda>s. aes_movement_address s \<in> set addrs) (qe_scan env (at_sources db)))"
  unfolding base_rows_def left_join_unique [OF assms] by (induction "qe_scan env (at_sources db)") (simp_all flip: map_concat)

lemma hd_sort_key:
  assumes "xs \<noteq> []"
  shows "hd (sort_key f xs) \<in> set xs \<and> (\<forall>x \<in> set xs. f (hd (sort_key f xs)) \<le> f x)"
proof -
  obtain y ys where y: "sort_key f xs = y # ys" using assms by (metis list.exhaust set_empty set_sort)
  have "sorted (map f (y # ys))" using sorted_sort_key [of f xs] by (simp add: y)
  moreover have "set (y # ys) = set xs" by (metis set_sort y)
  ultimately show ?thesis using y by auto
qed

lemma mvt_score_row_spec:
  assumes part: "mset rows = image_mset (\<lambda>s. (s, score_of_source db s)) (mset (sources_of_address db a))"
    and ne: "sources_of_address db a \<noteq> []"
  shows "\<exists>s \<in> set (sources_of_address db a). mvt_score_row_of rows =
      \<lparr>ms_movement_address = a, ms_evm_address = aes_evm_address s, ms_risk_score = risk_of_source db s,
       ms_recommendation = (case score_of_source db s of None \<Rightarrow> [] | Some r \<Rightarrow> rs_recommendation r),
       ms_severity = (case score_of_source db s of None \<Rightarrow> [] | Some r \<Rightarrow> rs_severity r),
       ms_transfer_fund = sum_list (map aes_transfer_fund (sources_of_address db a)) + aes_evm_fund s\<rparr> \<and>
    (\<forall>s' \<in> set (sources_of_address db a). risk_of_source db s' < risk_of_source db s \<or>
       risk_of_source db s' = risk_of_source db s \<and> aes_evm_address s \<le> aes_evm_address s')"
proof -
  let ?j = "\<lambda>s. (s, score_of_source db s)"
  have set_rows: "set rows = ?j ` set (sources_of_address db a)"
    using arg_cong [OF part, of set_mset] by simp
  with ne have "rows \<noteq> []" by auto
  note hd = hd_sort_key [OF this, of "\<lambda>b. (- base_risk b, aes_evm_address (fst b))"]
  let ?b = "first_ranked rows"
  from hd obtain s where s: "s \<in> set (sources_of_address db a)" "?b = ?j s"
    by (auto simp: first_ranked_def set_rows)
  have "risk_of_source db s' < risk_of_source db s \<or>
      risk_of_source db s' = risk_of_source db s \<and> aes_evm_address s \<le> aes_evm_address s'"
    if "s' \<in> set (sources_of_address db a)" for s'
    using hd s(2) that by (auto simp: first_ranked_def set_rows risk_of_source_def less_eq_prod_def)
  moreover have "total_transfer_fund rows = sum_list (map aes_transfer_fund (sources_of_address db a))"
  proof -
    have "total_transfer_fund rows = sum_mset (image_mset (\<lambda>b. aes_transfer_fund (fst b)) (mset rows))"
      by (simp add: total_transfer_fund_def sum_mset_sum_list flip: mset_map)
    then show ?thesis by (simp add: part multiset.map_comp comp_def sum_mset_sum_list flip: mset_map)
  qed
  moreover have "aes_movement_address s = a" using s(1) by (simp add: sources_of_address_def)
  ultimately show ?thesis using s by (intro bexI [of _ s]) (simp_all add: mvt_score_row_of_def Let_def risk_of_source_def)
qed

lemma partition_of_address:
  assumes "unique_keys rs_evm_address (at_scores db)" and "mset (qe_scan env (at_sources db)) = mset (at_sources db)"
    and "a \<in> set addrs"
  shows "mset (filter (\<lambda>b. aes_movement_address (fst b) = a) (base_rows env db addrs)) =
    image_mset (\<lambda>s. (s, score_of_source db s)) (mset (sources_of_address db a))"
proof -
  have "filter (\<lambda>b. aes_movement_address (fst b) = a) (base_rows env db addrs) =
      map (\<lambda>s. (s, score_of_source db s)) (filter (\<lambda>s. aes_movement_address s = a) (qe_scan env (at_sources db)))"
    using assms(3) by (simp add: base_rows_unique [OF assms(1)] filter_map comp_def conj_commute cong: conj_cong)
  then show ?thesis by (simp add: sources_of_address_def mset_filter assms(2))
qed

lemma score_addresses:
  assumes "unique_keys rs_evm_address (at_scores db)" and "mset (qe_scan env (at_sources db)) = mset (at_sources db)"
  shows "set (map (\<lambda>b. aes_movement_address (fst b)) (base_rows env db addrs)) =
    set addrs \<inter> aes_movement_address ` set (at_sources db)"
  using mset_eq_setD [OF assms(2)] by (auto simp: base_rows_unique [OF assms(1)])

section \<open>Properties\<close>

text \<open>
  Claim C19: The score query answers with one row per requested Movement address that has a source, in
  address order and no other row.  Each row names a source of the address with the greatest risk
  score (an unscreened source counts 0), the smallest EVM address among those, with that source's
  recommendation and severity, and the sum of all transfer funds of the address plus that source
  row's EVM fund.  This holds whatever order the database scans the rows in.
\<close>

theorem mvt_scores_report_top_risk:
  assumes u: "unique_keys rs_evm_address (at_scores db)"
    and scan: "mset (qe_scan env (at_sources db)) = mset (at_sources db)" and ok: "\<not> qe_fails env"
  shows "\<exists>rows. query_mvt_scores env db addrs = Inr rows \<and>
    map ms_movement_address rows = sorted_list_of_set (set addrs \<inter> aes_movement_address ` set (at_sources db)) \<and>
    (\<forall>row \<in> set rows. \<exists>s \<in> set (sources_of_address db (ms_movement_address row)). row =
      \<lparr>ms_movement_address = ms_movement_address row, ms_evm_address = aes_evm_address s,
       ms_risk_score = risk_of_source db s,
       ms_recommendation = (case score_of_source db s of None \<Rightarrow> [] | Some r \<Rightarrow> rs_recommendation r),
       ms_severity = (case score_of_source db s of None \<Rightarrow> [] | Some r \<Rightarrow> rs_severity r),
       ms_transfer_fund =
         sum_list (map aes_transfer_fund (sources_of_address db (ms_movement_address row))) + aes_evm_fund s\<rparr> \<and>
      (\<forall>s' \<in> set (sources_of_address db (ms_movement_address row)).
         risk_of_source db s' < risk_of_source db s \<or>
         risk_of_source db s' = risk_of_source db s \<and> aes_evm_address s \<le> aes_evm_address s'))"
proof -
  let ?base = "base_rows env db addrs"
  let ?as = "sort (remdups (map (\<lambda>b. aes_movement_address (fst b)) ?base))"
  let ?row = "\<lambda>a. mvt_score_row_of (filter (\<lambda>b. aes_movement_address (fst b) = a) ?base)"
  have as: "?as = sorted_list_of_set (set addrs \<inter> aes_movement_address ` set (at_sources db))"
    by (simp only: flip: sorted_list_of_set_sort_remdups score_addresses [OF u scan, of addrs])
  have spec: "a \<in> set addrs \<and> sources_of_address db a \<noteq> []" if "a \<in> set ?as" for a
    using that score_addresses [OF u scan, of addrs] by (auto simp: sources_of_address_def filter_empty_conv)
  note row = mvt_score_row_spec [OF partition_of_address [OF u scan] conjunct2 [OF spec], OF conjunct1 [OF spec]]
  have name: "ms_movement_address (?row a) = a" if "a \<in> set ?as" for a using row [OF that that] by auto
  have "query_mvt_scores env db addrs = Inr (map ?row ?as)" using ok by (simp add: query_mvt_scores_def Let_def)
  moreover have "map ms_movement_address (map ?row ?as) = ?as"
    using name by (simp only: map_map comp_apply map_idI)
  moreover note as
  ultimately show ?thesis using row name by (intro exI [of _ "map ?row ?as"]) fastforce
qed

definition sample_source :: "string \<Rightarrow> string \<Rightarrow> string \<Rightarrow> decimal \<Rightarrow> stored_source" where
  "sample_source a asset evm fund =
     \<lparr>aes_movement_address = a, aes_asset_type = asset, aes_evm_address = evm, aes_evm_fund = fund,
      aes_transfer_fund = 0, aes_first_seen_ord = 0, aes_last_seen_ord = 0, aes_hops_min = 0,
      ss_inserted_at = 0, ss_updated_at = 0\<rparr>"

definition sample_tables :: api_tables where
  "sample_tables = \<lparr>at_sources = [sample_source ''0xa'' ''usdc'' ''0xe'' 5, sample_source ''0xa'' ''weth'' ''0xe'' 7],
     at_scores = []\<rparr>"

definition scan_env :: "(stored_source list \<Rightarrow> stored_source list) \<Rightarrow> query_env" where
  "scan_env scan = \<lparr>qe_scan = scan, qe_fails = False\<rparr>"

theorem mvt_scores_report_top_risk_witness:
  "\<exists>rows. query_mvt_scores (scan_env id) sample_tables [''0xa'', ''0xb''] = Inr rows \<and>
     map ms_movement_address rows = [''0xa'']"
proof -
  have "set [''0xa'', ''0xb''] \<inter> aes_movement_address ` set (at_sources sample_tables) = {''0xa''}"
    by (auto simp: sample_tables_def sample_source_def)
  then have as: "sorted_list_of_set (set [''0xa'', ''0xb''] \<inter> aes_movement_address ` set (at_sources sample_tables)) = [''0xa'']"
    by simp
  have "unique_keys rs_evm_address (at_scores sample_tables)" by (simp add: sample_tables_def unique_keys_def)
  moreover have "mset (qe_scan (scan_env id) (at_sources sample_tables)) = mset (at_sources sample_tables)"
    by (simp add: scan_env_def)
  moreover have "\<not> qe_fails (scan_env id)" by (simp add: scan_env_def)
  ultimately obtain rows where "query_mvt_scores (scan_env id) sample_tables [''0xa'', ''0xb''] = Inr rows"
    "map ms_movement_address rows = sorted_list_of_set (set [''0xa'', ''0xb''] \<inter> aes_movement_address ` set (at_sources sample_tables))"
    using mvt_scores_report_top_risk [of sample_tables "scan_env id" "[''0xa'', ''0xb'']"] by blast
  with as show ?thesis by simp
qed

text \<open>
  When the top EVM source of an address funded it in two assets, the reported fund depends on
  the order in which the database happens to scan the two rows: only one row's EVM fund is added.
\<close>

theorem mvt_score_depends_on_scan_order:
  "map_sum id (map ms_transfer_fund) (query_mvt_scores (scan_env id) sample_tables [''0xa'']) = Inr [5] \<and>
   map_sum id (map ms_transfer_fund) (query_mvt_scores (scan_env rev) sample_tables [''0xa'']) = Inr [7]"
  by (simp add: query_mvt_scores_def scan_env_def sample_tables_def sample_source_def base_rows_def left_join_def
      mvt_score_row_of_def first_ranked_def total_transfer_fund_def base_risk_def)

text \<open>
  Claim C20: Nothing but the health check is served without a known key: such a request is answered 401
  whatever its body and the tables hold.  With a known key, a list of addresses is answered 400 exactly
  when one of them is not \<open>0x\<close> followed by 64 (Movement) or 40 (EVM) hex digits, naming the first
  such address; otherwise it is answered 200 or, when the query fails, 500.
\<close>

theorem router_authenticates_and_validates:
  assumes "rq_endpoint req \<noteq> Health"
    and "valid = (if rq_endpoint req = Evms then is_valid_evm_address else is_valid_mvt_address)"
    and "kind = (if rq_endpoint req = Evms then ''evm'' else ''movement'')"
  shows "(rq_api_key req \<notin> Some ` set (as_api_keys state) \<longrightarrow> rp_status (build_router env state req) = 401) \<and>
    (rq_api_key req \<in> Some ` set (as_api_keys state) \<and> rq_endpoint req \<noteq> Since \<and> rq_addrs req = Some addrs \<longrightarrow>
      (case find (\<lambda>a. \<not> valid a) addrs of
         Some bad \<Rightarrow> build_router env state req = \<lparr>rp_status = 400, rp_body = BadAddress kind bad\<rparr>
       | None \<Rightarrow> rp_status (build_router env state req) =
           (if addrs \<noteq> [] \<and> qe_fails (he_query env) then 500 else 200)))"
  using assms
  by (cases "rq_endpoint req"; cases "rq_api_key req")
    (auto simp: build_router_def auth_middleware_def with_extracted_def handle_mvt_fetch_def handle_evms_def
      handle_mvts_def bad_address_def rows_response_def query_mvt_fetch_def query_evms_def query_mvt_scores_def
      Let_def split: option.splits)

theorem router_authenticates_and_validates_witness:
  "rp_status (build_router \<lparr>he_query = scan_env id, he_from_timestamp = Some, he_rejection = 422\<rparr>
     \<lparr>as_db = sample_tables, as_api_keys = [''k'']\<rparr>
     \<lparr>rq_endpoint = Mvts, rq_api_key = Some ''x'', rq_since = None, rq_addrs = Some []\<rparr>) = 401 \<and>
   build_router \<lparr>he_query = scan_env id, he_from_timestamp = Some, he_rejection = 422\<rparr>
     \<lparr>as_db = sample_tables, as_api_keys = [''k'']\<rparr>
     \<lparr>rq_endpoint = Mvts, rq_api_key = Some ''k'', rq_since = None, rq_addrs = Some [''0xa'']\<rparr> =
     \<lparr>rp_status = 400, rp_body = BadAddress ''movement'' ''0xa''\<rparr>"
proof -
  let ?env = "\<lparr>he_query = scan_env id, he_from_timestamp = Some, he_rejection = 422\<rparr>"
  let ?state = "\<lparr>as_db = sample_tables, as_api_keys = [''k'']\<rparr>"
  note R = router_authenticates_and_validates [OF _ refl refl, of _ ?state ?env]
  show ?thesis
    using R [of "\<lparr>rq_endpoint = Mvts, rq_api_key = Some ''x'', rq_since = None, rq_addrs = Some []\<rparr>" "[]"]
      R [of "\<lparr>rq_endpoint = Mvts, rq_api_key = Some ''k'', rq_since = None, rq_addrs = Some [''0xa'']\<rparr>" "[''0xa'']"]
    by (simp add: is_valid_mvt_address_def)
qed

end
