(* ===== verification/SampleChain.thy ===== *)
theory SampleChain
  imports SampleExtern ChainData
begin

text \<open>
  Concrete messages and SDK readers for the witnesses of the chain processors.  No model
  definition depends on them.
\<close>

definition sample_key_enum :: "i32 \<Rightarrow> any_public_key_type" where
  "sample_key_enum n =
     (if n = 1 then KeyEd25519 else if n = 2 then KeySecp256k1Ecdsa
      else if n = 3 then KeySecp256r1Ecdsa else if n = 4 then KeyKeyless
      else if n = 5 then KeyFederatedKeyless else KeyUnspecified)"

text \<open>The inner group of \<open>(<(.*)>)\<close>: from the first \<open><\<close> to the last \<open>>\<close>.\<close>

definition sample_angle :: "string \<Rightarrow> string option" where
  "sample_angle s =
     (let rest = drop 1 (dropWhile (\<lambda>c. c \<noteq> CHR ''<'') s)
      in if CHR ''>'' \<in> set rest then Some (rev (drop 1 (dropWhile (\<lambda>c. c \<noteq> CHR ''>'') (rev rest)))) else None)"

definition sample_sdk :: sdk where
  "sample_sdk =
     \<lparr>get_entry_function_from_user_request = (\<lambda>r. Some ''0x1::coin::transfer''),
      get_entry_function_contract_address_from_user_request = (\<lambda>r. Some ''0x1''),
      get_entry_function_module_name_from_user_request = (\<lambda>r. Some ''coin''),
      get_entry_function_function_name_from_user_request = (\<lambda>r. Some ''transfer''),
      get_replay_protection_nonce_from_user_request = (\<lambda>r. None),
      truncate_str = (\<lambda>s n. take n s), any_public_key_enum = sample_key_enum,
      transaction_type_name = (\<lambda>n. if n = 4 then Some ''TRANSACTION_TYPE_USER'' else None),
      get_clean_payload = (\<lambda>p v. Some JNull), get_payload_type = (\<lambda>p. ''entry_function_payload''),
      get_clean_writeset = (\<lambda>w v. None),
      get_name_from_unnested_move_type = (\<lambda>s. last (str_split (CHR '':'') s)),
      canonical_json = (\<lambda>v. Some []), json_to_string = (\<lambda>v. []),
      hash_str = (\<lambda>s. ''hash '' @ s), sha3_256 = (\<lambda>bs. bs),
      hex_to_raw_bytes = (\<lambda>s. sample_hex_decode (drop 2 s)),
      standardize_address_from_bytes = (\<lambda>bs. ''0x'' @ sample_hex_encode bs),
      bigdecimal_to_u64 = (\<lambda>d. word_of_int \<lfloor>d\<rfloor>),
      from_timestamp_opt = (\<lambda>s n. Some (1000000 * s + n div 1000)),
      parse_timestamp_secs = (\<lambda>s v. 1000000 * uint s),
      compute_nanos_since_epoch = (\<lambda>d. word_of_int (1000 * d)),
      aptos_coin_type_str = ''0x1::aptos_coin::AptosCoin'', apt_metadata_address_hex = ''0x0a'',
      apt_metadata_address_raw = [10], angle_captures = sample_angle,
      aggregator_of_json = (\<lambda>v. None), aggregator_snapshot_of_json = (\<lambda>v. None),
      derived_string_of_json = (\<lambda>v. None), property_map_of_json = Some,
      token_object_property_map_of_json = Some, ensure_not_negative = max 0\<rparr>"

definition sample_any_signature :: "u8 \<Rightarrow> any_signature" where
  "sample_any_signature b =
     \<lparr>asg_type = AnyEd25519, asg_signature = [], asg_signature_variant = Some (VariantEd25519 [b])\<rparr>"

definition sample_multi_key :: multi_key_signature where
  "sample_multi_key =
     \<lparr>mk_public_keys = map (\<lambda>b. \<lparr>apk_type = 1, apk_public_key = [b]\<rparr>) [10, 11, 12],
      mk_signatures = [\<lparr>ix_index = 1, ix_signature = Some (sample_any_signature 7)\<rparr>,
        \<lparr>ix_index = 2, ix_signature = Some (sample_any_signature 8)\<rparr>],
      mk_signatures_required = 2\<rparr>"

definition sample_ed25519 :: "u8 \<Rightarrow> account_signature" where
  "sample_ed25519 b =
     \<lparr>acs_type = AccountEd25519, acs_signature = Some (AsEd25519 \<lparr>ed_public_key = [b], ed_signature = [b]\<rparr>)\<rparr>"

definition sample_abstraction :: account_signature where
  "sample_abstraction = \<lparr>acs_type = AccountAbstraction, acs_signature = Some AsAbstraction\<rparr>"

definition sample_multi_agent :: signature_pb where
  "sample_multi_agent =
     \<lparr>spb_type = ParentMultiAgent, spb_signature = Some (SigMultiAgent
        \<lparr>ma_sender = Some \<lparr>acs_type = AccountMultiKey, acs_signature = Some (AsMultiKey sample_multi_key)\<rparr>,
         ma_secondary_signer_addresses = [''0xb''], ma_secondary_signers = [sample_ed25519 3]\<rparr>)\<rparr>"

definition sample_request :: user_request where
  "sample_request =
     \<lparr>ur_sender = ''0xa'', ur_sequence_number = 4, ur_max_gas_amount = 9, ur_gas_unit_price = 100,
      ur_expiration_timestamp_secs = Some (50, 0), ur_payload = None,
      ur_signature = Some sample_multi_agent\<rparr>"

definition sample_abstract_request :: user_request where
  "sample_abstract_request = sample_request\<lparr>ur_signature := Some
     \<lparr>spb_type = ParentSingleSender, spb_signature = Some (SigSingleSender (Some sample_abstraction))\<rparr>\<rparr>"

definition sample_world :: extern where
  "sample_world = sample_extern\<lparr>json_from_str := map_of
     [(''core'', JObject [(''allow_ungated_transfer'', JBool True),
        (''guid_creation_num'', JString ''7''), (''owner'', JString ''0xa'')]),
      (''core2'', JObject [(''allow_ungated_transfer'', JBool True),
        (''guid_creation_num'', JString ''7''), (''owner'', JString ''0xe'')]),
      (''untransferable'', JObject [(''dummy_field'', JBool False)]),
      (''fee'', JObject [(''storage_fee_refund_octas'', JString ''77'')])]\<rparr>"

definition sample_write :: "string \<Rightarrow> string \<Rightarrow> string \<Rightarrow> change" where
  "sample_write address name data = WriteResource
     \<lparr>wr_address = address, wr_type = Some \<lparr>st_address = ''0x1'', st_module = ''object'', st_name = name, st_generic_type_params = []\<rparr>,
      wr_type_str = ''0x1::object::'' @ name, wr_data = data, wr_state_key_hash = [1]\<rparr>"

definition sample_delete :: "string \<Rightarrow> change" where
  "sample_delete address = DeleteResource
     \<lparr>dr_address = address,
      dr_type = Some \<lparr>st_address = ''0x1'', st_module = ''object'', st_name = ''ObjectGroup'', st_generic_type_params = []\<rparr>,
      dr_type_str = ''0x1::object::ObjectGroup'', dr_state_key_hash = [2]\<rparr>"

primrec sample_change_type :: "change \<Rightarrow> change_type" where
  "sample_change_type (WriteResource _) = ChangeWriteResource"
| "sample_change_type (DeleteResource _) = ChangeDeleteResource"
| "sample_change_type (WriteTableItem _) = ChangeWriteTableItem"
| "sample_change_type (DeleteTableItem _) = ChangeDeleteTableItem"
| "sample_change_type (WriteModule _) = ChangeWriteModule"
| "sample_change_type (DeleteModule _) = ChangeDeleteModule"

definition sample_user_txn :: "u64 \<Rightarrow> change list \<Rightarrow> transaction" where
  "sample_user_txn version changes =
     \<lparr>tx_type = 4, tx_version = version, tx_block_height = 1, tx_epoch = 1, tx_timestamp = Some (0, 0),
      tx_info = Some \<lparr>ti_hash = [1], ti_state_change_hash = [2], ti_event_root_hash = [3],
        ti_state_checkpoint_hash = None, ti_gas_used = 3, ti_success = True, ti_vm_status = ''ok'',
        ti_accumulator_root_hash = [4],
        ti_write_set_changes = map (\<lambda>c. \<lparr>wsc_type = Some (sample_change_type c), wsc_change = Some c\<rparr>) changes\<rparr>,
      tx_size_info = None,
      tx_data = Some (TxnUser
        \<lparr>ut_events = [\<lparr>ev_key = Some \<lparr>ek_creation_number = 0, ek_account_address = ''0x0''\<rparr>,
            ev_sequence_number = 0, ev_type_str = ''0x1::transaction_fee::FeeStatement'',
            ev_data = ''fee''\<rparr>],
         ut_request = Some sample_request\<rparr>)\<rparr>"

definition sample_abstract_txn :: transaction where
  "sample_abstract_txn = (sample_user_txn 8 [])
     \<lparr>tx_data := Some (TxnUser \<lparr>ut_events = [], ut_request = Some sample_abstract_request\<rparr>)\<rparr>"

end
