(* ===== verification/Signatures.thy ===== *)
theory Signatures
  imports SampleChain
begin

text \<open>
  The flattening of transaction signatures into rows of the \<open>signatures\<close> table:
  \<open>user_transaction/models/signatures.rs\<close> and \<open>models/signature_utils\<close>.  The user
  transaction, account transaction and account restoration processors read these functions.

  A \<open>Signature\<close> row is keyed by (version, agent index, signature index, primary).  The lemmas
  show when the parser panics, that the keys of a transaction's rows are distinct, and who is
  recorded as signer.  Three places differ from what the names promise: account abstraction
  rows, the public key of a multi-key row, and the signature of a fee payer.
\<close>

section \<open>Rows\<close>

record signature =
  sg_transaction_version :: i64
  sg_multi_agent_index :: i64
  sg_multi_sig_index :: i64
  sg_transaction_block_height :: i64
  sg_signer :: string
  sg_is_sender_primary :: bool
  sg_account_signature_type :: string
  sg_any_signature_type :: "string option"
  sg_public_key_type :: "string option"
  sg_public_key :: string
  sg_signature :: string
  sg_threshold :: i64
  sg_public_key_indices :: json
  sg_block_timestamp :: datetime

definition sg_key :: "signature \<Rightarrow> i64 \<times> i64 \<times> i64 \<times> bool" where
  "sg_key s = (sg_transaction_version s, sg_multi_agent_index s, sg_multi_sig_index s,
     sg_is_sender_primary s)"

definition nth_result :: "'a list \<Rightarrow> nat \<Rightarrow> 'a result" where
  "nth_result xs i =
     (if i < length xs then Inr (xs ! i)
      else Inl (Panic ''called Option::unwrap() on a None value''))"

section \<open>Keys and signatures of any scheme\<close>

primrec get_any_public_key_type_of :: "any_public_key_type \<Rightarrow> string" where
  "get_any_public_key_type_of KeyEd25519 = ''ed25519''"
| "get_any_public_key_type_of KeySecp256k1Ecdsa = ''secp256k1_ecdsa''"
| "get_any_public_key_type_of KeySecp256r1Ecdsa = ''secp256r1_ecdsa''"
| "get_any_public_key_type_of KeyKeyless = ''keyless''"
| "get_any_public_key_type_of KeyFederatedKeyless = ''federated_keyless''"
| "get_any_public_key_type_of KeySlhDsaSha2128s = ''slh_dsa_sha2_128s''"
| "get_any_public_key_type_of KeyUnspecified = ''unknown''"

definition get_any_public_key_type :: "sdk \<Rightarrow> any_public_key \<Rightarrow> string" where
  "get_any_public_key_type sdk k = get_any_public_key_type_of (any_public_key_enum sdk (apk_type k))"

primrec get_any_signature_type_of :: "any_signature_type \<Rightarrow> string" where
  "get_any_signature_type_of AnyEd25519 = ''ed25519''"
| "get_any_signature_type_of AnySecp256k1Ecdsa = ''secp256k1_ecdsa''"
| "get_any_signature_type_of AnyWebauthn = ''webauthn''"
| "get_any_signature_type_of AnyKeyless = ''keyless''"
| "get_any_signature_type_of AnySlhDsaSha2128s = ''slh_dsa_sha2_128s''"
| "get_any_signature_type_of AnyUnspecified = ''unknown''"

primrec get_any_signature_bytes_from_variant :: "signature_variant \<Rightarrow> bytes" where
  "get_any_signature_bytes_from_variant (VariantEd25519 b) = b"
| "get_any_signature_bytes_from_variant (VariantKeyless b) = b"
| "get_any_signature_bytes_from_variant (VariantWebauthn b) = b"
| "get_any_signature_bytes_from_variant (VariantSecp256k1Ecdsa b) = b"
| "get_any_signature_bytes_from_variant (VariantSlhDsaSha2128s b) = b"

definition get_any_signature_bytes :: "any_signature \<Rightarrow> bytes" where
  "get_any_signature_bytes s =
     (case asg_signature_variant s of
        Some v \<Rightarrow> get_any_signature_bytes_from_variant v
      | None \<Rightarrow> asg_signature s)"

primrec get_account_signature_type_from_enum :: "account_signature_type \<Rightarrow> string" where
  "get_account_signature_type_from_enum AccountEd25519 = ''ed25519_signature''"
| "get_account_signature_type_from_enum AccountMultiEd25519 = ''multi_ed25519_signature''"
| "get_account_signature_type_from_enum AccountSingleKey = ''single_key_signature''"
| "get_account_signature_type_from_enum AccountMultiKey = ''multi_key_signature''"
| "get_account_signature_type_from_enum AccountAbstraction = ''abstraction_signature''"
| "get_account_signature_type_from_enum AccountUnspecified = ''unknown''"

primrec get_parent_signature_type_from_enum :: "parent_signature_type \<Rightarrow> string" where
  "get_parent_signature_type_from_enum ParentEd25519 = ''ed25519_signature''"
| "get_parent_signature_type_from_enum ParentMultiEd25519 = ''multi_ed25519_signature''"
| "get_parent_signature_type_from_enum ParentMultiAgent = ''multi_agent_signature''"
| "get_parent_signature_type_from_enum ParentFeePayer = ''fee_payer_signature''"
| "get_parent_signature_type_from_enum ParentSingleSender = ''single_sender_signature''"
| "get_parent_signature_type_from_enum ParentUnspecified = ''unknown''"

definition hex0x :: "extern \<Rightarrow> bytes \<Rightarrow> string" where
  "hex0x ext b = ''0x'' @ hex_encode ext b"

definition signer_of :: "extern \<Rightarrow> string \<Rightarrow> string option \<Rightarrow> string" where
  "signer_of ext sender override = standardize_address ext (unwrap_or override sender)"

section \<open>One account's signature\<close>

definition parse_ed25519_signature ::
  "extern \<Rightarrow> ed25519_signature \<Rightarrow> string \<Rightarrow> string \<Rightarrow> i64 \<Rightarrow> i64 \<Rightarrow> bool \<Rightarrow> i64 \<Rightarrow> string option \<Rightarrow> datetime
     \<Rightarrow> signature" where
  "parse_ed25519_signature ext s account_signature_type sender version height primary agent override ts =
     \<lparr>sg_transaction_version = version, sg_multi_agent_index = agent, sg_multi_sig_index = 0,
      sg_transaction_block_height = height, sg_signer = signer_of ext sender override,
      sg_is_sender_primary = primary, sg_account_signature_type = account_signature_type,
      sg_any_signature_type = None, sg_public_key_type = None,
      sg_public_key = hex0x ext (ed_public_key s), sg_signature = hex0x ext (ed_signature s),
      sg_threshold = 1, sg_public_key_indices = JArray [], sg_block_timestamp = ts\<rparr>"

definition get_public_key_indices_from_multi_ed25519_signature ::
  "multi_ed25519_signature \<Rightarrow> nat list" where
  "get_public_key_indices_from_multi_ed25519_signature s = map unat (me_public_key_indices s)"

definition parse_multi_ed25519_signature ::
  "extern \<Rightarrow> multi_ed25519_signature \<Rightarrow> string \<Rightarrow> string \<Rightarrow> i64 \<Rightarrow> i64 \<Rightarrow> bool \<Rightarrow> i64 \<Rightarrow> string option
     \<Rightarrow> datetime \<Rightarrow> signature list result" where
  "parse_multi_ed25519_signature ext s account_signature_type sender version height primary agent
       override ts =
     (let indices = get_public_key_indices_from_multi_ed25519_signature s
      in map_result (\<lambda>(index, sig).
           (case nth_result indices index of
              Inl e \<Rightarrow> Inl e
            | Inr key_index \<Rightarrow>
                (case nth_result (me_public_keys s) key_index of
                   Inl e \<Rightarrow> Inl e
                 | Inr public_key \<Rightarrow> Inr
                     \<lparr>sg_transaction_version = version, sg_multi_agent_index = agent,
                      sg_multi_sig_index = of_nat index, sg_transaction_block_height = height,
                      sg_signer = signer_of ext sender override, sg_is_sender_primary = primary,
                      sg_account_signature_type = account_signature_type,
                      sg_any_signature_type = None, sg_public_key_type = None,
                      sg_public_key = hex0x ext public_key, sg_signature = hex0x ext sig,
                      sg_threshold = ucast (me_threshold s),
                      sg_public_key_indices = json_numbers indices, sg_block_timestamp = ts\<rparr>)))
         (enumerate 0 (me_signatures s)))"

definition parse_single_key_signature ::
  "extern \<Rightarrow> sdk \<Rightarrow> single_key_signature \<Rightarrow> string \<Rightarrow> string \<Rightarrow> i64 \<Rightarrow> i64 \<Rightarrow> bool \<Rightarrow> i64 \<Rightarrow> string option
     \<Rightarrow> datetime \<Rightarrow> signature result" where
  "parse_single_key_signature ext sdk s account_signature_type sender version height primary agent
       override ts =
     (case unwrap (sk_signature s) of
        Inl e \<Rightarrow> Inl e
      | Inr any_signature \<Rightarrow>
          (case unwrap (sk_public_key s) of
             Inl e \<Rightarrow> Inl e
           | Inr key \<Rightarrow> Inr
               \<lparr>sg_transaction_version = version, sg_multi_agent_index = agent,
                sg_multi_sig_index = 0, sg_transaction_block_height = height,
                sg_signer = signer_of ext sender override, sg_is_sender_primary = primary,
                sg_account_signature_type = account_signature_type,
                sg_any_signature_type = Some (get_any_signature_type_of (asg_type any_signature)),
                sg_public_key_type = Some (get_any_public_key_type sdk key),
                sg_public_key = hex0x ext (apk_public_key key),
                sg_signature = hex0x ext (get_any_signature_bytes any_signature),
                sg_threshold = 1, sg_public_key_indices = JArray [], sg_block_timestamp = ts\<rparr>))"

definition get_public_key_indices_from_multi_key_signature :: "multi_key_signature \<Rightarrow> nat list" where
  "get_public_key_indices_from_multi_key_signature s = map (\<lambda>k. unat (ix_index k)) (mk_signatures s)"

definition parse_multi_key_signature ::
  "extern \<Rightarrow> sdk \<Rightarrow> multi_key_signature \<Rightarrow> string \<Rightarrow> string \<Rightarrow> i64 \<Rightarrow> i64 \<Rightarrow> bool \<Rightarrow> i64 \<Rightarrow> string option
     \<Rightarrow> datetime \<Rightarrow> signature list result" where
  "parse_multi_key_signature ext sdk s account_signature_type sender version height primary agent
       override ts =
     (let indices = get_public_key_indices_from_multi_key_signature s
      in map_result (\<lambda>(index, sig).
           (case nth_result (mk_public_keys s) index of
              Inl e \<Rightarrow> Inl e
            | Inr key \<Rightarrow>
                (case unwrap (ix_signature sig) of
                   Inl e \<Rightarrow> Inl e
                 | Inr any_signature \<Rightarrow> Inr
                     \<lparr>sg_transaction_version = version, sg_multi_agent_index = agent,
                      sg_multi_sig_index = of_nat index, sg_transaction_block_height = height,
                      sg_signer = signer_of ext sender override, sg_is_sender_primary = primary,
                      sg_account_signature_type = account_signature_type,
                      sg_any_signature_type = Some (get_any_signature_type_of (asg_type any_signature)),
                      sg_public_key_type = Some (get_any_public_key_type sdk key),
                      sg_public_key = hex0x ext (apk_public_key key),
                      sg_signature = hex0x ext (get_any_signature_bytes any_signature),
                      sg_threshold = ucast (mk_signatures_required s),
                      sg_public_key_indices = json_numbers indices, sg_block_timestamp = ts\<rparr>)))
         (enumerate 0 (mk_signatures s)))"

definition parse_abstraction_signature ::
  "extern \<Rightarrow> string \<Rightarrow> string \<Rightarrow> i64 \<Rightarrow> i64 \<Rightarrow> bool \<Rightarrow> i64 \<Rightarrow> string option \<Rightarrow> datetime \<Rightarrow> signature" where
  "parse_abstraction_signature ext sender account_signature_type version height primary agent override ts =
     \<lparr>sg_transaction_version = version, sg_multi_agent_index = agent, sg_multi_sig_index = 0,
      sg_transaction_block_height = height, sg_signer = signer_of ext sender override,
      sg_is_sender_primary = primary, sg_account_signature_type = account_signature_type,
      sg_any_signature_type = None, sg_public_key_type = None,
      sg_public_key = ''Not implemented'', sg_signature = ''Not implemented'',
      sg_threshold = 1, sg_public_key_indices = JArray [], sg_block_timestamp = ts\<rparr>"

definition from_account_signature ::
  "extern \<Rightarrow> sdk \<Rightarrow> account_signature \<Rightarrow> string \<Rightarrow> i64 \<Rightarrow> i64 \<Rightarrow> bool \<Rightarrow> i64 \<Rightarrow> string option \<Rightarrow> datetime
     \<Rightarrow> signature list result" where
  "from_account_signature ext sdk s sender version height primary agent override ts =
     (let ty = get_account_signature_type_from_enum (acs_type s)
      in case acs_signature s of
           None \<Rightarrow> Inr []
         | Some (AsEd25519 sig) \<Rightarrow>
             Inr [parse_ed25519_signature ext sig ty sender version height primary agent override ts]
         | Some (AsMultiEd25519 sig) \<Rightarrow>
             parse_multi_ed25519_signature ext sig ty sender version height primary agent override ts
         | Some (AsSingleKey sig) \<Rightarrow>
             (case parse_single_key_signature ext sdk sig ty sender version height primary agent
                 override ts of
                Inl e \<Rightarrow> Inl e
              | Inr r \<Rightarrow> Inr [r])
         | Some (AsMultiKey sig) \<Rightarrow>
             parse_multi_key_signature ext sdk sig ty sender version height primary agent override ts
         | Some AsAbstraction \<Rightarrow>
             Inr [parse_abstraction_signature ext ty sender version height primary agent override ts])"

section \<open>The signature of a transaction\<close>

definition secondary_signatures ::
  "extern \<Rightarrow> sdk \<Rightarrow> string list \<Rightarrow> account_signature list \<Rightarrow> string \<Rightarrow> i64 \<Rightarrow> i64 \<Rightarrow> datetime
     \<Rightarrow> signature list result" where
  "secondary_signatures ext sdk addresses signers sender version height ts =
     (case map_result (\<lambda>(index, address).
         (case nth_result signers index of
            Inl e \<Rightarrow> Inl (Panic ''Failed to parse index for multi agent secondary signers'')
          | Inr sig \<Rightarrow> from_account_signature ext sdk sig sender version height False
              (of_nat index) (Some address) ts))
       (enumerate 0 addresses) of
        Inl e \<Rightarrow> Inl e
      | Inr rows \<Rightarrow> Inr (concat rows))"

definition sender_and_secondary ::
  "extern \<Rightarrow> sdk \<Rightarrow> account_signature option \<Rightarrow> string list \<Rightarrow> account_signature list \<Rightarrow> string \<Rightarrow> i64
     \<Rightarrow> i64 \<Rightarrow> datetime \<Rightarrow> signature list result" where
  "sender_and_secondary ext sdk first addresses signers sender version height ts =
     (case unwrap first of
        Inl e \<Rightarrow> Inl e
      | Inr s \<Rightarrow>
          (case from_account_signature ext sdk s sender version height True 0 None ts of
             Inl e \<Rightarrow> Inl e
           | Inr rows \<Rightarrow>
               (case secondary_signatures ext sdk addresses signers sender version height ts of
                  Inl e \<Rightarrow> Inl e
                | Inr others \<Rightarrow> Inr (rows @ others))))"

definition parse_multi_agent_signature ::
  "extern \<Rightarrow> sdk \<Rightarrow> multi_agent_signature \<Rightarrow> string \<Rightarrow> i64 \<Rightarrow> i64 \<Rightarrow> datetime \<Rightarrow> signature list result" where
  "parse_multi_agent_signature ext sdk s sender version height ts =
     sender_and_secondary ext sdk (ma_sender s) (ma_secondary_signer_addresses s)
       (ma_secondary_signers s) sender version height ts"

definition parse_fee_payer_signature ::
  "extern \<Rightarrow> sdk \<Rightarrow> fee_payer_signature \<Rightarrow> string \<Rightarrow> i64 \<Rightarrow> i64 \<Rightarrow> datetime \<Rightarrow> signature list result" where
  "parse_fee_payer_signature ext sdk s sender version height ts =
     sender_and_secondary ext sdk (fp_sender s) (fp_secondary_signer_addresses s)
       (fp_secondary_signers s) sender version height ts"

definition get_fee_payer_address :: "extern \<Rightarrow> signature_pb \<Rightarrow> string option result" where
  "get_fee_payer_address ext t =
     (case spb_signature t of
        None \<Rightarrow> Inl (Panic ''Transaction signature is missing'')
      | Some (SigFeePayer sig) \<Rightarrow> Inr (Some (standardize_address ext (fp_fee_payer_address sig)))
      | Some _ \<Rightarrow> Inr None)"

definition parse_single_sender ::
  "extern \<Rightarrow> sdk \<Rightarrow> account_signature option \<Rightarrow> string \<Rightarrow> i64 \<Rightarrow> i64 \<Rightarrow> datetime \<Rightarrow> signature list result" where
  "parse_single_sender ext sdk s sender version height ts =
     (case unwrap s of
        Inl e \<Rightarrow> Inl e
      | Inr sig \<Rightarrow>
          if acs_signature sig = None then Inr []
          else from_account_signature ext sdk sig sender version height True 0 None ts)"

definition from_parent_signature ::
  "extern \<Rightarrow> sdk \<Rightarrow> signature_pb \<Rightarrow> string \<Rightarrow> i64 \<Rightarrow> i64 \<Rightarrow> bool \<Rightarrow> i64 \<Rightarrow> string option \<Rightarrow> datetime
     \<Rightarrow> signature list result" where
  "from_parent_signature ext sdk s sender version height primary agent override ts =
     (case spb_signature s of
        None \<Rightarrow> Inl (Panic ''called Option::unwrap() on a None value'')
      | Some (SigEd25519 sig) \<Rightarrow>
          Inr [parse_ed25519_signature ext sig (get_account_signature_type_from_enum AccountEd25519)
                 sender version height primary agent override ts]
      | Some (SigMultiEd25519 sig) \<Rightarrow>
          parse_multi_ed25519_signature ext sig (get_account_signature_type_from_enum AccountMultiEd25519)
            sender version height primary agent override ts
      | Some (SigMultiAgent sig) \<Rightarrow> parse_multi_agent_signature ext sdk sig sender version height ts
      | Some (SigFeePayer sig) \<Rightarrow> parse_fee_payer_signature ext sdk sig sender version height ts
      | Some (SigSingleSender s) \<Rightarrow> parse_single_sender ext sdk s sender version height ts)"

definition from_user_transaction ::
  "extern \<Rightarrow> sdk \<Rightarrow> signature_pb \<Rightarrow> string \<Rightarrow> i64 \<Rightarrow> i64 \<Rightarrow> datetime \<Rightarrow> signature list result" where
  "from_user_transaction ext sdk s sender version height ts =
     from_parent_signature ext sdk s sender version height True 0 None ts"

definition get_signatures ::
  "extern \<Rightarrow> sdk \<Rightarrow> user_request \<Rightarrow> i64 \<Rightarrow> i64 \<Rightarrow> datetime \<Rightarrow> signature list result" where
  "get_signatures ext sdk request version height ts =
     (case ur_signature request of
        None \<Rightarrow> Inr []
      | Some s \<Rightarrow> from_user_transaction ext sdk s (ur_sender request) version height ts)"

section \<open>When the parser panics\<close>

definition multi_ed25519_ok :: "multi_ed25519_signature \<Rightarrow> bool" where
  "multi_ed25519_ok s \<longleftrightarrow>
     length (me_signatures s) \<le> length (me_public_key_indices s) \<and>
     list_all (\<lambda>i. unat i < length (me_public_keys s))
       (take (length (me_signatures s)) (me_public_key_indices s))"

definition multi_key_ok :: "multi_key_signature \<Rightarrow> bool" where
  "multi_key_ok s \<longleftrightarrow>
     length (mk_signatures s) \<le> length (mk_public_keys s) \<and>
     list_all (\<lambda>k. ix_signature k \<noteq> None) (mk_signatures s)"

definition account_signature_ok :: "account_signature \<Rightarrow> bool" where
  "account_signature_ok s \<longleftrightarrow>
     (case acs_signature s of
        Some (AsMultiEd25519 sig) \<Rightarrow> multi_ed25519_ok sig
      | Some (AsSingleKey sig) \<Rightarrow> sk_signature sig \<noteq> None \<and> sk_public_key sig \<noteq> None
      | Some (AsMultiKey sig) \<Rightarrow> multi_key_ok sig
      | _ \<Rightarrow> True)"

definition agents_ok :: "account_signature option \<Rightarrow> string list \<Rightarrow> account_signature list \<Rightarrow> bool" where
  "agents_ok first addresses signers \<longleftrightarrow>
     (case first of None \<Rightarrow> False | Some s \<Rightarrow> account_signature_ok s) \<and>
     length addresses \<le> length signers \<and>
     list_all account_signature_ok (take (length addresses) signers)"

definition signature_ok :: "signature_pb \<Rightarrow> bool" where
  "signature_ok s \<longleftrightarrow>
     (case spb_signature s of
        None \<Rightarrow> False
      | Some (SigEd25519 _) \<Rightarrow> True
      | Some (SigMultiEd25519 sig) \<Rightarrow> multi_ed25519_ok sig
      | Some (SigMultiAgent sig) \<Rightarrow>
          agents_ok (ma_sender sig) (ma_secondary_signer_addresses sig) (ma_secondary_signers sig)
      | Some (SigFeePayer sig) \<Rightarrow>
          agents_ok (fp_sender sig) (fp_secondary_signer_addresses sig) (fp_secondary_signers sig)
      | Some (SigSingleSender sig) \<Rightarrow>
          (case sig of None \<Rightarrow> False | Some s \<Rightarrow> account_signature_ok s))"

lemma nth_result_Inr [simp]: "nth_result xs i = Inr y \<longleftrightarrow> i < length xs \<and> xs ! i = y"
  by (auto simp: nth_result_def)

lemma set_enumerate_0: "(i, x) \<in> set (enumerate 0 xs) \<longleftrightarrow> i < length xs \<and> xs ! i = x"
  by (auto simp: in_set_enumerate_eq)

lemma map_result_enumerate_ok:
  "(\<exists>ys. map_result f (enumerate 0 xs) = Inr ys) \<longleftrightarrow>
     (\<forall>i < length xs. \<exists>y. f (i, xs ! i) = Inr y)"
proof -
  have "(\<exists>ys. map_result f (enumerate 0 xs) = Inr ys) \<longleftrightarrow>
      \<not> (\<exists>e. map_result f (enumerate 0 xs) = Inl e)"
    by (cases "map_result f (enumerate 0 xs)") auto
  also have "\<dots> \<longleftrightarrow> (\<forall>p \<in> set (enumerate 0 xs). \<forall>e. f p \<noteq> Inl e)"
    unfolding map_result_fails_iff by blast
  also have "\<dots> \<longleftrightarrow> (\<forall>i < length xs. \<forall>e. f (i, xs ! i) \<noteq> Inl e)"
    by (auto simp: set_enumerate_0)
  also have "\<dots> \<longleftrightarrow> (\<forall>i < length xs. \<exists>y. f (i, xs ! i) = Inr y)"
    by (metis sum.exhaust sum.distinct(1))
  finally show ?thesis .
qed

lemma map_result_enumerate_nth:
  assumes "map_result f (enumerate 0 xs) = Inr ys"
  shows "length ys = length xs" and "i < length xs \<Longrightarrow> f (i, xs ! i) = Inr (ys ! i)"
proof -
  have all: "list_all2 (\<lambda>x y. f x = Inr y) (enumerate 0 xs) ys"
    using assms by (simp add: map_result_Inr_iff)
  then show "length ys = length xs" by (auto dest: list_all2_lengthD)
  show "i < length xs \<Longrightarrow> f (i, xs ! i) = Inr (ys ! i)"
    using list_all2_nthD [OF all, of i] by (simp add: nth_enumerate_eq)
qed

lemma case_result_ok:
  "(\<exists>y. (case r of Inl e \<Rightarrow> Inl (g e) | Inr x \<Rightarrow> f x) = Inr y) \<longleftrightarrow>
     (\<exists>x. r = Inr x \<and> (\<exists>y. f x = Inr y))"
  by (cases r) auto

lemma all_less_split: "(\<forall>i < n. i < m \<and> Q i) \<longleftrightarrow> n \<le> (m :: nat) \<and> (\<forall>i < n. Q i)"
proof
  assume all: "\<forall>i < n. i < m \<and> Q i"
  have "n \<le> m"
  proof (rule ccontr)
    assume "\<not> n \<le> m"
    then have "m < n" by simp
    with all have "m < m" by blast
    then show False by simp
  qed
  with all show "n \<le> m \<and> (\<forall>i < n. Q i)" by blast
qed auto

lemma all_nth_take:
  "(\<forall>i < n. i < length xs \<and> P (xs ! i)) \<longleftrightarrow> n \<le> length xs \<and> list_all P (take n xs)"
  unfolding all_less_split by (auto simp: list_all_length)

lemma multi_ed25519_returns:
  "(\<exists>rows. parse_multi_ed25519_signature ext s ty sender v h p a ov ts = Inr rows) \<longleftrightarrow>
     multi_ed25519_ok s"
proof -
  have "(\<exists>rows. parse_multi_ed25519_signature ext s ty sender v h p a ov ts = Inr rows) \<longleftrightarrow>
      (\<forall>i < length (me_signatures s). i < length (me_public_key_indices s) \<and>
         unat (me_public_key_indices s ! i) < length (me_public_keys s))"
    unfolding parse_multi_ed25519_signature_def Let_def map_result_enumerate_ok
      get_public_key_indices_from_multi_ed25519_signature_def prod.case case_result_ok
    by (auto simp: nth_result_def split: if_splits)
  also have "\<dots> \<longleftrightarrow> multi_ed25519_ok s"
    unfolding multi_ed25519_ok_def
    by (rule all_nth_take [where P = "\<lambda>i. unat i < length (me_public_keys s)"])
  finally show ?thesis .
qed

lemma multi_key_returns:
  "(\<exists>rows. parse_multi_key_signature ext sdk s ty sender v h p a ov ts = Inr rows) \<longleftrightarrow>
     multi_key_ok s"
proof -
  have "(\<exists>rows. parse_multi_key_signature ext sdk s ty sender v h p a ov ts = Inr rows) \<longleftrightarrow>
      (\<forall>i < length (mk_signatures s). i < length (mk_public_keys s) \<and>
         ix_signature (mk_signatures s ! i) \<noteq> None)"
    unfolding parse_multi_key_signature_def Let_def map_result_enumerate_ok prod.case case_result_ok
    by simp
  also have "\<dots> \<longleftrightarrow> multi_key_ok s"
    unfolding multi_key_ok_def list_all_length all_less_split by (rule refl)
  finally show ?thesis .
qed

lemma account_signature_returns:
  "(\<exists>rows. from_account_signature ext sdk s sender v h p a ov ts = Inr rows) \<longleftrightarrow>
     account_signature_ok s"
proof (cases "acs_signature s")
  case (Some body)
  then show ?thesis
    by (cases body)
      (auto simp: from_account_signature_def account_signature_ok_def Let_def
        multi_ed25519_returns multi_key_returns parse_single_key_signature_def unwrap_def
        split: option.splits)
qed (simp add: from_account_signature_def account_signature_ok_def)

lemma secondary_returns:
  "(\<exists>rows. secondary_signatures ext sdk addresses signers sender v h ts = Inr rows) \<longleftrightarrow>
     length addresses \<le> length signers \<and>
     list_all account_signature_ok (take (length addresses) signers)"
proof -
  have "(\<exists>rows. secondary_signatures ext sdk addresses signers sender v h ts = Inr rows) \<longleftrightarrow>
      (\<forall>i < length addresses. i < length signers \<and> account_signature_ok (signers ! i))"
    unfolding secondary_signatures_def case_result_ok ex_simps
    by (simp add: map_result_enumerate_ok case_result_ok account_signature_returns)
  then show ?thesis by (simp add: all_nth_take)
qed

lemma agents_return:
  "(\<exists>rows. sender_and_secondary ext sdk first addresses signers sender v h ts = Inr rows) \<longleftrightarrow>
     agents_ok first addresses signers"
  unfolding sender_and_secondary_def case_result_ok agents_ok_def
  by (cases first) (auto simp: account_signature_returns secondary_returns unwrap_def)

lemma signatures_total:
  "(\<exists>rows. from_user_transaction ext sdk s sender version height ts = Inr rows) \<longleftrightarrow> signature_ok s"
proof (cases "spb_signature s")
  case (Some body)
  then show ?thesis
    by (cases body)
      (auto simp: from_user_transaction_def from_parent_signature_def signature_ok_def
        multi_ed25519_returns agents_return parse_multi_agent_signature_def
        parse_fee_payer_signature_def parse_single_sender_def account_signature_returns
        account_signature_ok_def unwrap_def split: option.splits)
qed (simp add: from_user_transaction_def from_parent_signature_def signature_ok_def)

text \<open>
  Claim C24: Flattening the signature of a transaction returns rows exactly when the message is
  complete: every signature of a threshold scheme has a public key, every nested message that is
  unwrapped is present, and every secondary address has a signature.  Otherwise it panics.
\<close>

theorem signatures_returned_iff_complete:
  "(\<exists>rows. from_user_transaction ext sdk s sender version height ts = Inr rows) \<longleftrightarrow> signature_ok s"
  by (rule signatures_total)

section \<open>Keys of the rows\<close>

definition account_keys :: "i64 \<Rightarrow> i64 \<Rightarrow> bool \<Rightarrow> nat \<Rightarrow> (i64 \<times> i64 \<times> i64 \<times> bool) list" where
  "account_keys version agent primary n = map (\<lambda>i. (version, agent, of_nat i, primary)) [0..<n]"

lemma multi_ed25519_row:
  assumes "parse_multi_ed25519_signature ext s ty sender v h p a ov ts = Inr rows" and "i < length rows"
  shows "sg_key (rows ! i) = (v, a, of_nat i, p)" and "sg_signer (rows ! i) = signer_of ext sender ov"
    and "sg_public_key (rows ! i) = hex0x ext (me_public_keys s ! unat (me_public_key_indices s ! i))"
    and "sg_signature (rows ! i) = hex0x ext (me_signatures s ! i)"
proof -
  note ys = map_result_enumerate_nth [OF assms(1) [unfolded parse_multi_ed25519_signature_def Let_def]]
  define idx where "idx = get_public_key_indices_from_multi_ed25519_signature s"
  have "i < length (me_signatures s)" using ys(1) assms(2) by simp
  note row = ys(2) [OF this, folded idx_def]
  from row obtain k where k: "nth_result idx i = Inr k" by (cases "nth_result idx i") simp_all
  from row k obtain b where b: "nth_result (me_public_keys s) k = Inr b"
    by (cases "nth_result (me_public_keys s) k") simp_all
  have "k = unat (me_public_key_indices s ! i)"
    using k by (auto simp: idx_def get_public_key_indices_from_multi_ed25519_signature_def)
  with b have "b = me_public_keys s ! unat (me_public_key_indices s ! i)" by simp
  moreover note row [unfolded prod.case k b sum.case sum.inject, symmetric]
  ultimately show "sg_key (rows ! i) = (v, a, of_nat i, p)"
    and "sg_signer (rows ! i) = signer_of ext sender ov"
    and "sg_public_key (rows ! i) = hex0x ext (me_public_keys s ! unat (me_public_key_indices s ! i))"
    and "sg_signature (rows ! i) = hex0x ext (me_signatures s ! i)"
    by (simp_all add: sg_key_def)
qed

lemma multi_key_row:
  assumes "parse_multi_key_signature ext sdk s ty sender v h p a ov ts = Inr rows" and "i < length rows"
  shows "sg_key (rows ! i) = (v, a, of_nat i, p)" and "sg_signer (rows ! i) = signer_of ext sender ov"
    and "sg_public_key (rows ! i) = hex0x ext (apk_public_key (mk_public_keys s ! i))"
    and "sg_signature (rows ! i) =
      hex0x ext (get_any_signature_bytes (the (ix_signature (mk_signatures s ! i))))"
    and "sg_public_key_indices (rows ! i) =
      json_numbers (map (\<lambda>k. unat (ix_index k)) (mk_signatures s))"
proof -
  note ys = map_result_enumerate_nth [OF assms(1) [unfolded parse_multi_key_signature_def Let_def]]
  have "i < length (mk_signatures s)" using ys(1) assms(2) by simp
  note row = ys(2) [OF this]
  from row obtain k where k: "nth_result (mk_public_keys s) i = Inr k"
    by (cases "nth_result (mk_public_keys s) i") simp_all
  from row k obtain b where b: "unwrap (ix_signature (mk_signatures s ! i)) = Inr b"
    by (cases "unwrap (ix_signature (mk_signatures s ! i))") simp_all
  have "k = mk_public_keys s ! i" "b = the (ix_signature (mk_signatures s ! i))" using k b by auto
  moreover note row [unfolded prod.case k b sum.case sum.inject, symmetric]
  ultimately show "sg_key (rows ! i) = (v, a, of_nat i, p)"
    and "sg_signer (rows ! i) = signer_of ext sender ov"
    and "sg_public_key (rows ! i) = hex0x ext (apk_public_key (mk_public_keys s ! i))"
    and "sg_signature (rows ! i) =
      hex0x ext (get_any_signature_bytes (the (ix_signature (mk_signatures s ! i))))"
    and "sg_public_key_indices (rows ! i) =
      json_numbers (map (\<lambda>k. unat (ix_index k)) (mk_signatures s))"
    by (simp_all add: sg_key_def get_public_key_indices_from_multi_key_signature_def)
qed

lemma account_keys_nth: "i < n \<Longrightarrow> account_keys v a p n ! i = (v, a, of_nat i, p)"
  by (simp add: account_keys_def)

lemma length_account_keys [simp]: "length (account_keys v a p n) = n"
  by (simp add: account_keys_def)

lemma account_signature_keys:
  assumes "from_account_signature ext sdk s sender v h p a ov ts = Inr rows"
  shows "map sg_key rows = account_keys v a p (length rows)"
proof (rule nth_equalityI)
  fix i assume "i < length (map sg_key rows)"
  then have i: "i < length rows" by simp
  have "sg_key (rows ! i) = (v, a, of_nat i, p)"
  proof (cases "acs_signature s")
    case None
    with assms i show ?thesis by (simp add: from_account_signature_def)
  next
    case (Some body)
    with assms i show ?thesis
      by (cases body)
        (auto simp: from_account_signature_def Let_def parse_ed25519_signature_def sg_key_def
          parse_abstraction_signature_def parse_single_key_signature_def multi_ed25519_row(1)
          multi_key_row(1) [unfolded sg_key_def] multi_ed25519_row(1) [unfolded sg_key_def]
          split: sum.splits)
  qed
  with i show "map sg_key rows ! i = account_keys v a p (length rows) ! i"
    by (simp add: account_keys_nth)
qed simp


lemma distinct_account_keys: "n \<le> 2 ^ 64 \<Longrightarrow> distinct (account_keys v a p n)"
  unfolding account_keys_def distinct_map by (auto intro!: inj_onI dest: of_nat_i64_inj [rotated 2])

lemma distinct_concat_nth:
  "(\<And>i. i < length yss \<Longrightarrow> distinct (yss ! i)) \<Longrightarrow>
   (\<And>i j. i < j \<Longrightarrow> j < length yss \<Longrightarrow> set (yss ! i) \<inter> set (yss ! j) = {}) \<Longrightarrow> distinct (concat yss)"
proof (induction yss)
  case (Cons ys yss)
  have "distinct (concat yss)"
  proof (rule Cons.IH)
    show "\<And>i. i < length yss \<Longrightarrow> distinct (yss ! i)" using Cons.prems(1) [of "Suc _"] by simp
    show "\<And>i j. i < j \<Longrightarrow> j < length yss \<Longrightarrow> set (yss ! i) \<inter> set (yss ! j) = {}"
      using Cons.prems(2) [of "Suc _" "Suc _"] by simp
  qed
  moreover have "distinct ys" using Cons.prems(1) [of 0] by simp
  moreover have "set ys \<inter> set (yss ! j) = {}" if "j < length yss" for j
    using Cons.prems(2) [of 0 "Suc j"] that by simp
  then have "set ys \<inter> set (concat yss) = {}" by (fastforce simp: in_set_conv_nth)
  ultimately show ?case by simp
qed simp

lemma secondary_rows:
  assumes "secondary_signatures ext sdk addresses signers sender v h ts = Inr rows"
  obtains rss where "rows = concat rss" and "length rss = length addresses"
    and "\<And>i. i < length addresses \<Longrightarrow> i < length signers \<and>
      from_account_signature ext sdk (signers ! i) sender v h False (of_nat i)
        (Some (addresses ! i)) ts = Inr (rss ! i)"
proof -
  define f where "f = (\<lambda>(index, address).
     (case nth_result signers index of
        Inl e \<Rightarrow> Inl (Panic ''Failed to parse index for multi agent secondary signers'')
      | Inr sig \<Rightarrow> from_account_signature ext sdk sig sender v h False
          (of_nat index) (Some address) ts))"
  obtain rss where rss: "map_result f (enumerate 0 addresses) = Inr rss" "rows = concat rss"
    using assms unfolding secondary_signatures_def f_def [symmetric] by (auto split: sum.splits)
  note nth = map_result_enumerate_nth [OF rss(1)]
  have "i < length signers \<and> from_account_signature ext sdk (signers ! i) sender v h False
      (of_nat i) (Some (addresses ! i)) ts = Inr (rss ! i)" if "i < length addresses" for i
    using nth(2) [OF that] by (simp add: f_def nth_result_def split: if_splits)
  with that rss(2) nth(1) show ?thesis by blast
qed

lemma account_keys_set: "k \<in> set (account_keys v a p n) \<Longrightarrow> \<exists>i. k = (v, a, i, p)"
  by (auto simp: account_keys_def)

lemma account_keys_of_row:
  "from_account_signature ext sdk s sender v h p a ov ts = Inr rows \<Longrightarrow> r \<in> set rows \<Longrightarrow>
     \<exists>i. sg_key r = (v, a, i, p)"
  using account_signature_keys [of ext sdk s sender v h p a ov ts rows] account_keys_set
  by (metis image_eqI set_map)

lemma secondary_keys_distinct:
  assumes "secondary_signatures ext sdk addresses signers sender v h ts = Inr rows"
    and "length rows \<le> 2 ^ 64" and "length addresses \<le> 2 ^ 64"
  shows "distinct (map sg_key rows)" and "\<forall>r \<in> set rows. \<not> sg_is_sender_primary r"
proof -
  obtain rss where rss: "rows = concat rss" "length rss = length addresses"
      "\<And>i. i < length addresses \<Longrightarrow> i < length signers \<and>
        from_account_signature ext sdk (signers ! i) sender v h False (of_nat i)
          (Some (addresses ! i)) ts = Inr (rss ! i)"
    using secondary_rows [OF assms(1)] by metis
  have small: "length (rss ! i) \<le> length rows" if "i < length rss" for i
    using that unfolding rss(1) length_concat by (metis elem_le_sum_list length_map nth_map)
  have "distinct (concat (map (map sg_key) rss))"
  proof (rule distinct_concat_nth)
    fix i assume "i < length (map (map sg_key) rss)"
    then have i: "i < length rss" by simp
    then have "i < length addresses" by (simp add: rss(2))
    then have "map sg_key (rss ! i) = account_keys v (of_nat i) False (length (rss ! i))"
      by (rule account_signature_keys [OF conjunct2 [OF rss(3)]])
    moreover have "length (rss ! i) \<le> 2 ^ 64" using small [OF i] assms(2) by linarith
    ultimately show "distinct (map (map sg_key) rss ! i)" using i by (simp add: distinct_account_keys)
  next
    fix i j assume ij: "i < j" "j < length (map (map sg_key) rss)"
    have "(of_nat i :: i64) \<noteq> of_nat j"
      using of_nat_i64_inj [of i j] ij rss(2) assms(3) by fastforce
    moreover have agent: "fst (snd k) = of_nat n" if "n < length rss" "k \<in> sg_key ` set (rss ! n)" for n k
      using that account_keys_of_row [OF conjunct2 [OF rss(3) [of n]]] rss(2) by force
    moreover have "i < length rss" "j < length rss" using ij by simp_all
    ultimately have "k \<notin> sg_key ` set (rss ! j)" if "k \<in> sg_key ` set (rss ! i)" for k
      using that by metis
    then have "sg_key ` set (rss ! i) \<inter> sg_key ` set (rss ! j) = {}" by blast
    then show "set (map (map sg_key) rss ! i) \<inter> set (map (map sg_key) rss ! j) = {}"
      using ij by simp
  qed
  then show "distinct (map sg_key rows)" by (simp add: rss(1) map_concat)
  show "\<forall>r \<in> set rows. \<not> sg_is_sender_primary r"
  proof
    fix r assume "r \<in> set rows"
    then obtain i where "i < length rss" "r \<in> set (rss ! i)"
      unfolding rss(1) by (auto simp: in_set_conv_nth [of _ rss])
    with rss(2) rss(3) [of i] account_keys_of_row have "\<exists>n. sg_key r = (v, of_nat i, n, False)" by metis
    then show "\<not> sg_is_sender_primary r" by (auto simp: sg_key_def)
  qed
qed

lemma agents_keys_distinct:
  assumes "sender_and_secondary ext sdk first addresses signers sender v h ts = Inr rows"
    and "length rows \<le> 2 ^ 64" and "length addresses \<le> 2 ^ 64"
  shows "distinct (map sg_key rows)"
proof -
  obtain s as bs where parts: "from_account_signature ext sdk s sender v h True 0 None ts = Inr as"
      "secondary_signatures ext sdk addresses signers sender v h ts = Inr bs" "rows = as @ bs"
    using assms(1) unfolding sender_and_secondary_def by (auto split: sum.splits)
  then have "length as \<le> 2 ^ 64" "length bs \<le> 2 ^ 64" using assms(2) by auto
  then have "distinct (map sg_key as)" "distinct (map sg_key bs)"
    using account_signature_keys [OF parts(1)] distinct_account_keys
      secondary_keys_distinct(1) [OF parts(2) _ assms(3)] by auto
  moreover have "sg_key ` set as \<inter> sg_key ` set bs = {}"
  proof -
    have "sg_is_sender_primary r" if "r \<in> set as" for r
      using account_keys_of_row [OF parts(1) that] by (auto simp: sg_key_def)
    moreover have "\<not> sg_is_sender_primary r" if "r \<in> set bs" for r
      using secondary_keys_distinct(2) [OF parts(2) _ assms(3)] \<open>length bs \<le> 2 ^ 64\<close> that by blast
    ultimately show ?thesis by (auto simp: sg_key_def)
  qed
  ultimately show ?thesis by (simp add: parts(3))
qed

definition secondary_addresses :: "signature_pb \<Rightarrow> string list" where
  "secondary_addresses s =
     (case spb_signature s of
        Some (SigMultiAgent sig) \<Rightarrow> ma_secondary_signer_addresses sig
      | Some (SigFeePayer sig) \<Rightarrow> fp_secondary_signer_addresses sig
      | _ \<Rightarrow> [])"

lemma single_account_keys_distinct:
  "map sg_key rows = account_keys v a p (length rows) \<Longrightarrow> length rows \<le> 2 ^ 64 \<Longrightarrow>
     distinct (map sg_key rows)"
  by (simp add: distinct_account_keys)

lemma multi_ed25519_keys:
  "parse_multi_ed25519_signature ext s ty sender v h p a ov ts = Inr rows \<Longrightarrow>
     map sg_key rows = account_keys v a p (length rows)"
  by (rule nth_equalityI) (auto simp: multi_ed25519_row(1) account_keys_nth)

lemma signature_keys_distinct:
  assumes "from_user_transaction ext sdk s sender version height ts = Inr rows"
    and "length rows \<le> 2 ^ 64" and "length (secondary_addresses s) \<le> 2 ^ 64"
  shows "distinct (map sg_key rows)"
proof (cases "spb_signature s")
  case (Some body)
  note defs = from_user_transaction_def from_parent_signature_def secondary_addresses_def Some
  show ?thesis
  proof (cases body)
    case (SigMultiEd25519 sig)
    with assms(1) show ?thesis
      using multi_ed25519_keys single_account_keys_distinct [OF _ assms(2)] by (fastforce simp: defs)
  next
    case (SigMultiAgent sig)
    with assms show ?thesis
      by (auto simp: defs parse_multi_agent_signature_def intro: agents_keys_distinct)
  next
    case (SigFeePayer sig)
    with assms show ?thesis
      by (auto simp: defs parse_fee_payer_signature_def intro: agents_keys_distinct)
  next
    case (SigSingleSender sig)
    then have "rows = [] \<or> (\<exists>acc. from_account_signature ext sdk acc sender version height True 0 None ts = Inr rows)"
      using assms(1) by (auto simp: defs parse_single_sender_def split: sum.splits if_splits)
    then show ?thesis
      using account_signature_keys single_account_keys_distinct [OF _ assms(2)] by fastforce
  qed (use assms(1) in \<open>auto simp: defs\<close>)
qed (use assms(1) in \<open>simp add: from_user_transaction_def from_parent_signature_def\<close>)

lemma agents_version:
  assumes "sender_and_secondary ext sdk first addresses signers sender v h ts = Inr rows"
    and "r \<in> set rows"
  shows "sg_transaction_version r = v"
proof -
  obtain s as bs where parts: "from_account_signature ext sdk s sender v h True 0 None ts = Inr as"
      "secondary_signatures ext sdk addresses signers sender v h ts = Inr bs" "rows = as @ bs"
    using assms(1) unfolding sender_and_secondary_def by (auto split: sum.splits)
  obtain rss where rss: "bs = concat rss" "length rss = length addresses"
      "\<And>i. i < length addresses \<Longrightarrow> i < length signers \<and>
        from_account_signature ext sdk (signers ! i) sender v h False (of_nat i)
          (Some (addresses ! i)) ts = Inr (rss ! i)"
    using secondary_rows [OF parts(2)] by metis
  consider "r \<in> set as" | i where "i < length addresses" "r \<in> set (rss ! i)"
    using assms(2) unfolding parts(3) rss(1) by (auto simp: in_set_conv_nth [of _ rss] rss(2))
  then show ?thesis
  proof cases
    case 1
    with account_keys_of_row [OF parts(1)] show ?thesis by (auto simp: sg_key_def)
  next
    case 2
    with account_keys_of_row [OF conjunct2 [OF rss(3) [OF 2(1)]] 2(2)] show ?thesis
      by (auto simp: sg_key_def)
  qed
qed

lemma signature_row_version:
  assumes "from_user_transaction ext sdk s sender version height ts = Inr rows" and "r \<in> set rows"
  shows "sg_transaction_version r = version"
proof -
  obtain body where body: "spb_signature s = Some body"
    using assms(1) by (auto simp: from_user_transaction_def from_parent_signature_def split: option.splits)
  note defs = from_user_transaction_def from_parent_signature_def body
  show ?thesis
  proof (cases body)
    case (SigMultiEd25519 sig)
    obtain i where "i < length rows" "r = rows ! i" using assms(2) by (metis in_set_conv_nth)
    with SigMultiEd25519 assms(1) show ?thesis
      using multi_ed25519_row(1) [of ext sig _ sender version height True 0 None ts rows i]
      by (auto simp: defs sg_key_def)
  next
    case (SigSingleSender sig)
    with assms obtain acc where "from_account_signature ext sdk acc sender version height True 0 None ts = Inr rows"
      by (auto simp: defs parse_single_sender_def split: sum.splits if_splits)
    from account_keys_of_row [OF this assms(2)] show ?thesis by (auto simp: sg_key_def)
  qed (use assms in \<open>auto simp: defs parse_ed25519_signature_def parse_multi_agent_signature_def
      parse_fee_payer_signature_def agents_version\<close>)
qed

section \<open>Signers\<close>








section \<open>Where the rows differ from the message\<close>

lemma multi_key_rows_use_leading_keys:
  assumes "parse_multi_key_signature ext sdk s ty sender v h p a ov ts = Inr rows"
  shows "map sg_public_key rows =
    map (\<lambda>k. hex0x ext (apk_public_key k)) (take (length (mk_signatures s)) (mk_public_keys s))"
proof -
  have "length rows = length (mk_signatures s)"
    using map_result_enumerate_nth(1) [OF assms [unfolded parse_multi_key_signature_def Let_def]] .
  moreover have "length (mk_signatures s) \<le> length (mk_public_keys s)"
    using assms multi_key_returns unfolding multi_key_ok_def by metis
  ultimately show ?thesis
    by (intro nth_equalityI) (auto simp: multi_key_row(3) [OF assms])
qed

text \<open>
  Of a multi-key account the rows carry the leading public keys of the key list, one
  per signature, whatever key indices the signatures name: the recorded key is the signing key
  only when the signers are the first keys in order.  (The multi-ed25519 parser looks the index
  up.)
\<close>

theorem multi_key_rows_ignore_indices:
  assumes "acs_signature acc = Some (AsMultiKey s)"
    and "from_account_signature ext sdk acc sender version height primary agent override ts = Inr rows"
    and "i < length rows"
  shows "sg_public_key (rows ! i) = hex0x ext (apk_public_key (mk_public_keys s ! i)) \<and>
    sg_signature (rows ! i) =
      hex0x ext (get_any_signature_bytes (the (ix_signature (mk_signatures s ! i))))"
  using multi_key_row(3,4) [of ext sdk s _ sender version height primary agent override ts rows i]
    assms by (auto simp: from_account_signature_def Let_def)

theorem multi_key_rows_ignore_indices_witness:
  "\<exists>rows. from_account_signature sample_extern sample_sdk
       \<lparr>acs_type = AccountMultiKey, acs_signature = Some (AsMultiKey sample_multi_key)\<rparr>
       ''0xa'' 5 1 True 0 None 0 = Inr rows \<and>
     ix_index (mk_signatures sample_multi_key ! 0) = 1 \<and>
     sg_public_key (rows ! 0) = ''0x0a'' \<and> hex0x sample_extern (apk_public_key (mk_public_keys sample_multi_key ! 1)) = ''0x0b''"
proof -
  let ?acc = "\<lparr>acs_type = AccountMultiKey, acs_signature = Some (AsMultiKey sample_multi_key)\<rparr>"
  have "account_signature_ok ?acc" by code_simp
  then obtain rows where rows:
    "from_account_signature sample_extern sample_sdk ?acc ''0xa'' 5 1 True 0 None 0 = Inr rows"
    using account_signature_returns by blast
  have "(case from_account_signature sample_extern sample_sdk ?acc ''0xa'' 5 1 True 0 None 0 of
      Inl _ \<Rightarrow> False | Inr rows \<Rightarrow> 0 < length rows)" by code_simp
  then have "0 < length rows" by (simp add: rows)
  then have "sg_public_key (rows ! 0) = hex0x sample_extern (apk_public_key (mk_public_keys sample_multi_key ! 0))"
    using multi_key_rows_ignore_indices [OF _ rows] by simp
  moreover have "hex0x sample_extern (apk_public_key (mk_public_keys sample_multi_key ! 0)) = ''0x0a''"
    "hex0x sample_extern (apk_public_key (mk_public_keys sample_multi_key ! 1)) = ''0x0b''"
    "ix_index (mk_signatures sample_multi_key ! 0) = 1" by code_simp+
  ultimately show ?thesis using rows by auto
qed

lemma abstraction_row:
  assumes "spb_signature s = Some (SigSingleSender (Some acc))"
    and "acs_type acc = AccountAbstraction" and "acs_signature acc = Some AsAbstraction"
  shows "from_user_transaction ext sdk s sender version height ts =
    Inr [parse_abstraction_signature ext ''abstraction_signature'' sender version height True 0 None ts]"
  using assms by (simp add: from_user_transaction_def from_parent_signature_def
      parse_single_sender_def from_account_signature_def)

lemma abstraction_signer [simp]:
  "sg_signer (parse_abstraction_signature ext a b v h p i None ts) = standardize_address ext a"
  "sg_account_signature_type (parse_abstraction_signature ext a b v h p i ov ts) = b"
  by (simp_all add: parse_abstraction_signature_def signer_of_def unwrap_or_def)

text \<open>
  A sender that signs through account abstraction is recorded with the two strings
  exchanged: the signer is the standardised name of the signature type and the signature type
  is the sender's address.
\<close>

theorem abstraction_row_swaps_sender_and_type:
  assumes "spb_signature s = Some (SigSingleSender (Some acc))"
    and "acs_type acc = AccountAbstraction" and "acs_signature acc = Some AsAbstraction"
  shows "\<exists>r. from_user_transaction ext sdk s sender version height ts = Inr [r] \<and>
    sg_signer r = standardize_address ext ''abstraction_signature'' \<and>
    sg_account_signature_type r = sender"
  using abstraction_row [OF assms] by simp

theorem abstraction_row_swaps_sender_and_type_witness:
  "\<exists>r. from_user_transaction sample_extern sample_sdk
       \<lparr>spb_type = ParentSingleSender, spb_signature = Some (SigSingleSender (Some sample_abstraction))\<rparr>
       ''0xa'' 5 1 0 = Inr [r] \<and>
     sg_signer r = standardize_address sample_extern ''abstraction_signature'' \<and>
     sg_account_signature_type r = ''0xa''"
  by (rule abstraction_row_swaps_sender_and_type [of _ sample_abstraction])
    (simp_all add: sample_abstraction_def)

theorem fee_payer_signature_not_recorded:
  "from_user_transaction ext sdk \<lparr>spb_type = ty, spb_signature = Some (SigFeePayer sig)\<rparr> sender version height ts =
   from_user_transaction ext sdk \<lparr>spb_type = ty, spb_signature =
     Some (SigFeePayer (sig\<lparr>fp_fee_payer_address := address, fp_fee_payer_signer := signer\<rparr>))\<rparr> sender version height ts"
  by (simp add: from_user_transaction_def from_parent_signature_def parse_fee_payer_signature_def)

end
