(* ===== verification/BatchStore.thy ===== *)
theory BatchStore
  imports TableFlags
begin

text \<open>
  What the storers of the chain processors share: a batch of rows goes to its table in chunks,
  one \<open>INSERT .. VALUES .. ON CONFLICT\<close> statement per chunk.  PostgreSQL refuses a
  \<open>DO UPDATE\<close> statement that would touch one row twice, so a chunk with two rows of one key
  fails as a whole; \<open>DO NOTHING\<close> skips the second row.

  How the SDK's \<open>execute_in_chunks\<close> cuts the rows is a parameter of every storer: a function
  from the rows to the list of chunks.  The theorems hold for every way of cutting.

  The locale \<open>versioned_table\<close> is the contract of the \<open>current_*\<close> tables, whose conflict
  clause is guarded by \<open>last_transaction_version <= excluded.last_transaction_version\<close>.
\<close>

section \<open>Statements\<close>

definition table_flag :: "string \<Rightarrow> u128" where
  "table_flag name = (case from_name name of None \<Rightarrow> 0 | Some f \<Rightarrow> f)"

definition second_time :: error where
  "second_time = DBStoreError ''ON CONFLICT DO UPDATE command cannot affect row a second time''"

definition insert_do_update ::
  "('r \<Rightarrow> 'k) \<Rightarrow> ('r \<Rightarrow> 'r \<Rightarrow> 'r) \<Rightarrow> 'r list \<Rightarrow> 'r list \<Rightarrow> 'r list result" where
  "insert_do_update key merge ns rows =
     (if distinct (map key ns) then Inr (fold (upsert key merge) ns rows) else Inl second_time)"

definition insert_do_nothing :: "('r \<Rightarrow> 'k) \<Rightarrow> 'r list \<Rightarrow> 'r list \<Rightarrow> 'r list result" where
  "insert_do_nothing key ns rows = Inr (fold (insert_ignore key) ns rows)"

primrec run_chunks ::
  "('c \<Rightarrow> 'r list \<Rightarrow> 'r list result) \<Rightarrow> 'c list \<Rightarrow> 'r list \<Rightarrow> 'r list \<times> error option" where
  "run_chunks query [] rows = (rows, None)"
| "run_chunks query (c # cs) rows =
     (case query c rows of
        Inr rows' \<Rightarrow> run_chunks query cs rows'
      | Inl e \<Rightarrow> (fst (run_chunks query cs rows), Some e))"

text \<open>
  Each chunk is a transaction of its own: one that fails leaves the table as it was, the
  others go on, and the call as a whole reports an error.
\<close>

lemma distinct_map_sort_key: "distinct (map f xs) \<Longrightarrow> distinct (map f (sort_key k xs))"
  by (metis distinct_map distinct_sort set_sort)

lemma filter_data_idem [simp]:
  "filter_data flags f (filter_data flags f xs) = filter_data flags f xs"
  by (simp add: filter_data_def)

lemma filter_data_distinct: "distinct (map f xs) \<Longrightarrow> distinct (map f (filter_data flags flag xs))"
  by (simp add: filter_data_def)

section \<open>Tables with unguarded updates\<close>

context keyed_upsert
begin

lemma find_fold_upsert:
  "distinct (map key ns) \<Longrightarrow>
     find_row key k (fold (upsert key merge) ns rows) =
       (case find_row key k ns of
          None \<Rightarrow> find_row key k rows
        | Some n \<Rightarrow> Some (case find_row key k rows of None \<Rightarrow> n | Some old \<Rightarrow> merge old n))"
proof (induction ns arbitrary: rows)
  case (Cons n ns)
  show ?case
  proof (cases "k = key n")
    case True
    with Cons.prems have "k \<notin> key ` set ns" by auto
    with True show ?thesis by (simp add: find_fold_upsert_other find_upsert find_row_Cons)
  next
    case False
    with Cons show ?thesis by (simp add: find_upsert find_row_Cons split: option.split)
  qed
qed simp

lemma run_chunks_distinct:
  "distinct (map key (concat cs)) \<Longrightarrow>
     run_chunks (insert_do_update key merge) cs rows =
       (fold (upsert key merge) (concat cs) rows, None)"
  by (induction cs arbitrary: rows) (auto simp: insert_do_update_def)

lemma run_chunks_fails_iff:
  "snd (run_chunks (insert_do_update key merge) cs rows) = None \<longleftrightarrow>
     (\<forall>c \<in> set cs. distinct (map key c))"
  by (induction cs arbitrary: rows) (auto simp: insert_do_update_def)

lemma unique_run_chunks:
  "unique_keys key rows \<Longrightarrow>
     unique_keys key (fst (run_chunks (insert_do_update key merge) cs rows))"
  by (induction cs arbitrary: rows) (auto simp: insert_do_update_def unique_fold_upsert)

end

lemma run_chunks_do_nothing:
  "run_chunks (insert_do_nothing key) cs rows = (fold (insert_ignore key) (concat cs) rows, None)"
  by (induction cs arbitrary: rows) (auto simp: insert_do_nothing_def)

lemma unique_fold_insert_ignore [wf_intros]:
  "unique_keys key rows \<Longrightarrow> unique_keys key (fold (insert_ignore key) ns rows)"
  by (induction ns arbitrary: rows) (auto intro: unique_insert_ignore)

lemma fold_insert_ignore_twice:
  "fold (insert_ignore key) ns (fold (insert_ignore key) ns rows) =
     fold (insert_ignore key) ns rows"
  by (rule fold_insert_ignore_present) (auto simp: keys_fold_insert_ignore)

text \<open>
  A conflict clause that takes over columns of the new row does nothing the second time.  Under
  that law a batch that is processed again, after a restart or by a second worker, leaves the
  table exactly as it is.
\<close>

locale idempotent_upsert = keyed_upsert key merge
  for key :: "'r \<Rightarrow> 'k" and merge :: "'r \<Rightarrow> 'r \<Rightarrow> 'r" +
  assumes merge_again: "key n = key old \<Longrightarrow> merge (merge old n) n = merge old n"
    and merge_self: "merge n n = n"
begin

lemma upsert_absorb:
  "find_row key (key n) rows = Some r \<Longrightarrow> merge r n = r \<Longrightarrow> upsert key merge n rows = rows"
  by (induction rows) (auto simp: find_row_Cons split: if_splits)

lemma fold_upsert_absorb:
  "(\<And>n. n \<in> set ns \<Longrightarrow> \<exists>r. find_row key (key n) rows = Some r \<and> merge r n = r) \<Longrightarrow>
     fold (upsert key merge) ns rows = rows"
proof (induction ns)
  case (Cons n ns)
  obtain r where "find_row key (key n) rows = Some r" "merge r n = r" using Cons.prems [of n] by auto
  then have "upsert key merge n rows = rows" by (rule upsert_absorb)
  with Cons show ?case by simp
qed simp

lemma fold_upsert_twice:
  assumes "distinct (map key ns)"
  shows "fold (upsert key merge) ns (fold (upsert key merge) ns rows) = fold (upsert key merge) ns rows"
proof (rule fold_upsert_absorb)
  fix n assume n: "n \<in> set ns"
  define r where "r = (case find_row key (key n) rows of None \<Rightarrow> n | Some old \<Rightarrow> merge old n)"
  have "find_row key (key n) ns = Some n" using assms n by (simp add: find_row_unique unique_keys_def)
  then have "find_row key (key n) (fold (upsert key merge) ns rows) = Some r"
    by (simp add: find_fold_upsert [OF assms] r_def)
  moreover have "merge r n = r"
    unfolding r_def by (auto simp: merge_self merge_again dest: find_row_SomeD split: option.splits)
  ultimately show "\<exists>r. find_row key (key n) (fold (upsert key merge) ns rows) = Some r \<and> merge r n = r"
    by blast
qed

end

section \<open>Tables guarded by a version\<close>

locale versioned_table =
  fixes key :: "'r \<Rightarrow> 'k" and ver :: "'r \<Rightarrow> int" and take_new :: "'r \<Rightarrow> 'r \<Rightarrow> 'r"
    and merge :: "'r \<Rightarrow> 'r \<Rightarrow> 'r"
  assumes merge_guard: "merge old n = (if ver old \<le> ver n then take_new old n else old)"
    and take_key: "key n = key old \<Longrightarrow> key (take_new old n) = key old"
    and take_ver: "ver (take_new old n) = ver n"
    and take_again: "key n = key old \<Longrightarrow> take_new (take_new old n) n = take_new old n"
    and take_self: "take_new n n = n"
begin

sublocale idempotent_upsert key merge
  by unfold_locales (simp_all add: merge_guard take_key take_ver take_again take_self)

definition newest :: "'k \<Rightarrow> 'r list \<Rightarrow> int option" where
  "newest k rows = map_option ver (find_row key k rows)"

lemma newest_upsert:
  "newest k (upsert key merge n rows) =
     (if k = key n then Some (case newest k rows of None \<Rightarrow> ver n | Some v \<Rightarrow> max v (ver n))
      else newest k rows)"
  by (auto simp: newest_def find_upsert merge_guard take_ver max_def split: option.splits)

lemma newest_fold_upsert:
  "newest k (fold (upsert key merge) ns rows) =
     (case (newest k rows, map ver (filter (\<lambda>n. key n = k) ns)) of
        (None, []) \<Rightarrow> None
      | (None, v # vs) \<Rightarrow> Some (fold max vs v)
      | (Some v, vs) \<Rightarrow> Some (fold max vs v))"
  by (induction ns arbitrary: rows) (auto simp: newest_upsert max.commute split: option.splits list.splits)

lemma newest_never_decreases:
  "newest k rows = Some v \<Longrightarrow>
     \<exists>w. newest k (fold (upsert key merge) ns rows) = Some w \<and> v \<le> w"
proof (induction ns arbitrary: rows v)
  case (Cons n ns)
  define u where "u = (if k = key n then max v (ver n) else v)"
  have "newest k (upsert key merge n rows) = Some u" "v \<le> u"
    using Cons.prems by (auto simp: newest_upsert u_def)
  with Cons.IH [of "upsert key merge n rows" u] show ?case by force
qed simp

lemma stale_rows_ignored:
  assumes "find_row key k rows = Some r" and "\<forall>n \<in> set ns. key n = k \<longrightarrow> ver n < ver r"
  shows "find_row key k (fold (upsert key merge) ns rows) = Some r"
  using assms
proof (induction ns arbitrary: rows)
  case (Cons n ns)
  then have "find_row key k (upsert key merge n rows) = Some r"
    by (auto simp: find_upsert merge_guard)
  with Cons show ?case by simp
qed simp

lemma run_chunks_newest:
  assumes "newest k rows = Some v"
  shows "\<exists>w. newest k (fst (run_chunks (insert_do_update key merge) cs rows)) = Some w \<and> v \<le> w"
  using assms
proof (induction cs arbitrary: rows v)
  case (Cons c cs)
  show ?case
  proof (cases "distinct (map key c)")
    case True
    obtain u where "newest k (fold (upsert key merge) c rows) = Some u" "v \<le> u"
      using newest_never_decreases [OF Cons.prems, of c] by blast
    with Cons.IH [of "fold (upsert key merge) c rows" u] True show ?thesis
      by (force simp: insert_do_update_def)
  next
    case False
    with Cons show ?thesis by (simp add: insert_do_update_def)
  qed
qed simp

lemma row_never_regresses:
  assumes "find_row key k rows = Some r"
  shows "\<exists>r'. find_row key k (fst (run_chunks (insert_do_update key merge) cs rows)) = Some r' \<and> ver r \<le> ver r'"
  using run_chunks_newest [of k rows "ver r" cs] assms by (auto simp: newest_def)

end

end
