(* ===== verification/UserTransactions.thy ===== *)
theory UserTransactions
  imports Signatures BatchStore
begin

text \<open>
  The user transaction processor (\<open>processors/user_transaction\<close>): one row per user transaction
  and the flattened signatures, extracted from a batch and stored in the tables
  \<open>user_transactions\<close> and \<open>signatures\<close>.  The column \<open>inserted_at\<close>, which the database
  fills from its clock, is left out of the rows.
\<close>

section \<open>Fee statements\<close>

definition parse_u64 :: "string \<Rightarrow> u64 option" where
  "parse_u64 s =
     (case parse_digits (case s of CHR ''+'' # r \<Rightarrow> r | _ \<Rightarrow> s) of
        None \<Rightarrow> None
      | Some n \<Rightarrow> if n < 2 ^ 64 then Some (word_of_int n) else None)"

definition fee_statement_from_event :: "extern \<Rightarrow> string \<Rightarrow> string \<Rightarrow> u64 option result" where
  "fee_statement_from_event ext data_type data =
     (if data_type = ''0x1::transaction_fee::FeeStatement'' then
        (case opt_and_then (opt_and_then (opt_and_then (json_from_str ext data)
             (\<lambda>v. json_get v ''storage_fee_refund_octas'')) json_as_str) parse_u64 of
           None \<Rightarrow> Inl (Panic ''failed to parse event for fee statement'')
         | Some octas \<Rightarrow> Inr (Some octas))
      else Inr None)"

definition find_fee_statement :: "extern \<Rightarrow> event list \<Rightarrow> u64 option result" where
  "find_fee_statement ext events =
     find_map_result (\<lambda>ev. fee_statement_from_event ext (ev_type_str ev) (ev_data ev)) events"

section \<open>Models\<close>

record user_transaction_model =
  um_txn_version :: i64
  um_block_height :: i64
  um_parent_signature_type :: string
  um_sender :: string
  um_sequence_number :: "i64 option"
  um_replay_protection_nonce :: "decimal option"
  um_max_gas_amount :: decimal
  um_expiration_timestamp_secs :: "int \<times> int"
  um_gas_unit_price :: decimal
  um_gas_used_unit :: u64
  um_block_timestamp :: datetime
  um_entry_function_id_str :: string
  um_epoch :: i64
  um_entry_function_contract_address :: "string option"
  um_entry_function_module_name :: "string option"
  um_entry_function_function_name :: "string option"
  um_num_signatures :: i64
  um_is_transaction_success :: bool
  um_storage_refund_octa :: u64
  um_gas_fee_payer_address :: "string option"

record postgres_user_transaction =
  pu_version :: i64
  pu_block_height :: i64
  pu_parent_signature_type :: string
  pu_sender :: string
  pu_sequence_number :: "i64 option"
  pu_replay_protection_nonce :: "decimal option"
  pu_max_gas_amount :: decimal
  pu_expiration_timestamp_secs :: datetime
  pu_gas_unit_price :: decimal
  pu_timestamp :: datetime
  pu_entry_function_id_str :: string
  pu_epoch :: i64
  pu_entry_function_contract_address :: "string option"
  pu_entry_function_module_name :: "string option"
  pu_entry_function_function_name :: "string option"

record postgres_signature =
  pg_transaction_version :: i64
  pg_multi_agent_index :: i64
  pg_multi_sig_index :: i64
  pg_transaction_block_height :: i64
  pg_signer :: string
  pg_is_sender_primary :: bool
  pg_type :: string
  pg_public_key :: string
  pg_signature :: string
  pg_threshold :: i64
  pg_public_key_indices :: json
  pg_any_signature_type :: "string option"
  pg_public_key_type :: "string option"

definition u64_to_bigdecimal :: "u64 \<Rightarrow> decimal" where
  "u64_to_bigdecimal w = of_int (uint w)"

definition user_from_transaction ::
  "extern \<Rightarrow> sdk \<Rightarrow> user_transaction \<Rightarrow> transaction_info \<Rightarrow> u64 option \<Rightarrow> int \<times> int \<Rightarrow> i64 \<Rightarrow> i64 \<Rightarrow> i64
     \<Rightarrow> (user_transaction_model \<times> signature list) result" where
  "user_from_transaction ext sdk txn info fee_statement timestamp height epoch version =
     (case ut_request txn of
        None \<Rightarrow> Inl (Panic ''Sends is not present in user txn'')
      | Some request \<Rightarrow>
          (case (case ur_signature request of None \<Rightarrow> Inr None | Some s \<Rightarrow> get_fee_payer_address ext s) of
             Inl e \<Rightarrow> Inl e
           | Inr payer \<Rightarrow>
               (let ts = parse_timestamp ext timestamp version
                in case get_signatures ext sdk request version height ts of
                     Inl e \<Rightarrow> Inl e
                   | Inr sigs \<Rightarrow>
                       (let nonce = get_replay_protection_nonce_from_user_request sdk request
                        in case unwrap (ur_expiration_timestamp_secs request) of
                             Inl e \<Rightarrow> Inl e
                           | Inr expiration \<Rightarrow> Inr (
                               \<lparr>um_txn_version = version, um_block_height = height,
                                um_parent_signature_type =
                                  (case ur_signature request of
                                     None \<Rightarrow> []
                                   | Some s \<Rightarrow> get_parent_signature_type_from_enum (spb_type s)),
                                um_sender = standardize_address ext (ur_sender request),
                                um_sequence_number =
                                  (if nonce = None then Some (ur_sequence_number request) else None),
                                um_replay_protection_nonce = map_option u64_to_bigdecimal nonce,
                                um_max_gas_amount = u64_to_bigdecimal (ur_max_gas_amount request),
                                um_expiration_timestamp_secs = expiration,
                                um_gas_unit_price = u64_to_bigdecimal (ur_gas_unit_price request),
                                um_gas_used_unit = ti_gas_used info,
                                um_block_timestamp = ts,
                                um_entry_function_id_str =
                                  unwrap_or (get_entry_function_from_user_request sdk request) [],
                                um_epoch = epoch,
                                um_entry_function_contract_address = Some (unwrap_or
                                  (get_entry_function_contract_address_from_user_request sdk request) []),
                                um_entry_function_module_name = Some (unwrap_or
                                  (get_entry_function_module_name_from_user_request sdk request) []),
                                um_entry_function_function_name = Some (unwrap_or
                                  (get_entry_function_function_name_from_user_request sdk request) []),
                                um_num_signatures = of_nat (length sigs),
                                um_is_transaction_success = ti_success info,
                                um_storage_refund_octa = unwrap_or fee_statement 0,
                                um_gas_fee_payer_address = payer\<rparr>, sigs)))))"

definition postgres_user_transaction_of :: "extern \<Rightarrow> user_transaction_model \<Rightarrow> postgres_user_transaction" where
  "postgres_user_transaction_of ext m =
     \<lparr>pu_version = um_txn_version m, pu_block_height = um_block_height m,
      pu_parent_signature_type = um_parent_signature_type m, pu_sender = um_sender m,
      pu_sequence_number = um_sequence_number m,
      pu_replay_protection_nonce = um_replay_protection_nonce m,
      pu_max_gas_amount = um_max_gas_amount m,
      pu_expiration_timestamp_secs =
        parse_timestamp ext (um_expiration_timestamp_secs m) (um_txn_version m),
      pu_gas_unit_price = um_gas_unit_price m, pu_timestamp = um_block_timestamp m,
      pu_entry_function_id_str = um_entry_function_id_str m, pu_epoch = um_epoch m,
      pu_entry_function_contract_address = um_entry_function_contract_address m,
      pu_entry_function_module_name = um_entry_function_module_name m,
      pu_entry_function_function_name = um_entry_function_function_name m\<rparr>"

definition postgres_signature_of :: "signature \<Rightarrow> postgres_signature" where
  "postgres_signature_of s =
     \<lparr>pg_transaction_version = sg_transaction_version s,
      pg_multi_agent_index = sg_multi_agent_index s, pg_multi_sig_index = sg_multi_sig_index s,
      pg_transaction_block_height = sg_transaction_block_height s, pg_signer = sg_signer s,
      pg_is_sender_primary = sg_is_sender_primary s, pg_type = sg_account_signature_type s,
      pg_public_key = sg_public_key s, pg_signature = sg_signature s,
      pg_threshold = sg_threshold s, pg_public_key_indices = sg_public_key_indices s,
      pg_any_signature_type = sg_any_signature_type s, pg_public_key_type = sg_public_key_type s\<rparr>"

section \<open>Extraction\<close>

definition parse_user_txn ::
  "extern \<Rightarrow> sdk \<Rightarrow> transaction \<Rightarrow> user_transaction_model list \<times> signature list
     \<Rightarrow> (user_transaction_model list \<times> signature list) result" where
  "parse_user_txn ext sdk txn acc =
     (case tx_info txn of
        None \<Rightarrow> Inl (Panic ''Transaction info doesn't exist!'')
      | Some info \<Rightarrow>
          (case tx_data txn of
             Some (TxnUser inner) \<Rightarrow>
               (case find_fee_statement ext (ut_events inner) of
                  Inl e \<Rightarrow> Inl e
                | Inr fee \<Rightarrow>
                    (case unwrap (tx_timestamp txn) of
                       Inl e \<Rightarrow> Inl e
                     | Inr timestamp \<Rightarrow>
                         (case user_from_transaction ext sdk inner info fee timestamp
                             (tx_block_height txn) (tx_epoch txn) (tx_version txn) of
                            Inl e \<Rightarrow> Inl e
                          | Inr (m, sigs) \<Rightarrow> Inr (fst acc @ [m], snd acc @ sigs))))
           | _ \<Rightarrow> Inr acc))"

definition user_transaction_parse ::
  "extern \<Rightarrow> sdk \<Rightarrow> transaction list \<Rightarrow> (user_transaction_model list \<times> signature list) result" where
  "user_transaction_parse ext sdk txns = fold_result (parse_user_txn ext sdk) txns ([], [])"

definition user_transaction_extract ::
  "extern \<Rightarrow> sdk \<Rightarrow> transaction list \<Rightarrow> (postgres_user_transaction list \<times> postgres_signature list) result" where
  "user_transaction_extract ext sdk txns =
     (case user_transaction_parse ext sdk txns of
        Inl e \<Rightarrow> Inl e
      | Inr (ms, sigs) \<Rightarrow> Inr (map (postgres_user_transaction_of ext) ms, map postgres_signature_of sigs))"

section \<open>Storage\<close>

definition pg_key :: "postgres_signature \<Rightarrow> i64 \<times> i64 \<times> i64 \<times> bool" where
  "pg_key s = (pg_transaction_version s, pg_multi_agent_index s, pg_multi_sig_index s,
     pg_is_sender_primary s)"

definition merge_user_transaction ::
  "postgres_user_transaction \<Rightarrow> postgres_user_transaction \<Rightarrow> postgres_user_transaction" where
  "merge_user_transaction old n = old\<lparr>pu_parent_signature_type := pu_parent_signature_type n\<rparr>"

definition merge_signature :: "postgres_signature \<Rightarrow> postgres_signature \<Rightarrow> postgres_signature" where
  "merge_signature old n =
     old\<lparr>pg_type := pg_type n, pg_any_signature_type := pg_any_signature_type n,
         pg_public_key_type := pg_public_key_type n\<rparr>"

record user_db =
  ud_user_transactions :: "postgres_user_transaction list"
  ud_signatures :: "postgres_signature list"

definition user_transaction_store ::
  "(postgres_user_transaction list \<Rightarrow> postgres_user_transaction list list) \<Rightarrow>
   (postgres_signature list \<Rightarrow> postgres_signature list list) \<Rightarrow> u128 \<Rightarrow>
   postgres_user_transaction list \<times> postgres_signature list \<Rightarrow> user_db \<Rightarrow> user_db result" where
  "user_transaction_store chunk_u chunk_s flags data db =
     (let us = filter_data flags (table_flag ''USER_TRANSACTIONS'') (fst data);
          ss = filter_data flags (table_flag ''SIGNATURES'') (snd data);
          (us', u_err) = run_chunks (insert_do_update pu_version merge_user_transaction) (chunk_u us)
             (ud_user_transactions db);
          (ss', s_err) = run_chunks (insert_do_update pg_key merge_signature) (chunk_s ss)
             (ud_signatures db)
      in case (u_err, s_err) of
           (None, None) \<Rightarrow> Inr \<lparr>ud_user_transactions = us', ud_signatures = ss'\<rparr>
         | (Some e, _) \<Rightarrow> Inl e
         | (None, Some e) \<Rightarrow> Inl e)"

text \<open>
  \<open>try_join!\<close> drops the other insertion when one fails, so nothing is said about the tables
  after an error.
\<close>

interpretation user_table: idempotent_upsert pu_version merge_user_transaction
  by unfold_locales (simp_all add: merge_user_transaction_def)

interpretation signature_table: idempotent_upsert pg_key merge_signature
  by unfold_locales (simp_all add: merge_signature_def pg_key_def)

section \<open>The rows of a batch\<close>

definition is_user_txn :: "transaction \<Rightarrow> bool" where
  "is_user_txn txn \<longleftrightarrow> (case tx_data txn of Some (TxnUser _) \<Rightarrow> True | _ \<Rightarrow> False)"

definition signers_fit :: "transaction \<Rightarrow> bool" where
  "signers_fit txn \<longleftrightarrow>
     (case tx_data txn of
        Some (TxnUser inner) \<Rightarrow>
          (case opt_and_then (ut_request inner) ur_signature of
             None \<Rightarrow> True
           | Some s \<Rightarrow> length (secondary_addresses s) \<le> 2 ^ 64)
      | _ \<Rightarrow> True)"

lemma parse_user_txn_append:
  "parse_user_txn ext sdk txn acc =
     (case parse_user_txn ext sdk txn ([], []) of
        Inl e \<Rightarrow> Inl e
      | Inr out \<Rightarrow> Inr (fst acc @ fst out, snd acc @ snd out))"
  by (auto simp: parse_user_txn_def split: option.splits sum.splits txn_data.splits)

lemma fold_parse_user_txn:
  "fold_result (parse_user_txn ext sdk) txns acc = Inr out \<Longrightarrow>
     \<exists>per. list_all2 (\<lambda>txn p. parse_user_txn ext sdk txn ([], []) = Inr p) txns per \<and>
       out = (fst acc @ concat (map fst per), snd acc @ concat (map snd per))"
proof (induction txns arbitrary: acc)
  case (Cons txn txns)
  then obtain p where p: "parse_user_txn ext sdk txn ([], []) = Inr p"
    by (subst (asm) fold_result.simps, subst (asm) parse_user_txn_append) (auto split: sum.splits)
  then have "parse_user_txn ext sdk txn acc = Inr (fst acc @ fst p, snd acc @ snd p)"
    by (subst parse_user_txn_append) simp
  with Cons.prems have "fold_result (parse_user_txn ext sdk) txns (fst acc @ fst p, snd acc @ snd p) = Inr out"
    by simp
  from Cons.IH [OF this] obtain per where
    "list_all2 (\<lambda>txn p. parse_user_txn ext sdk txn ([], []) = Inr p) txns per"
    "out = (fst acc @ concat (map fst (p # per)), snd acc @ concat (map snd (p # per)))" by auto
  with p show ?case by (intro exI [of _ "p # per"]) simp
qed simp

lemma user_transaction_parse_rows:
  assumes "user_transaction_parse ext sdk txns = Inr (ms, sigs)"
  obtains per where "list_all2 (\<lambda>txn p. parse_user_txn ext sdk txn ([], []) = Inr p) txns per"
    and "ms = concat (map fst per)" and "sigs = concat (map snd per)"
  using fold_parse_user_txn [OF assms [unfolded user_transaction_parse_def]] that by auto

lemma user_from_transaction_row:
  assumes "user_from_transaction ext sdk inner info fee timestamp height epoch version = Inr (m, sigs)"
  obtains request ts where "ut_request inner = Some request"
    and "get_signatures ext sdk request version height ts = Inr sigs"
    and "um_txn_version m = version" and "um_num_signatures m = of_nat (length sigs)"
proof -
  obtain request where r: "ut_request inner = Some request"
    using assms by (cases "ut_request inner") (auto simp: user_from_transaction_def)
  let ?ts = "parse_timestamp ext timestamp version"
  obtain sigs' where sigs: "get_signatures ext sdk request version height ?ts = Inr sigs'"
    using assms r by (auto simp: user_from_transaction_def Let_def split: sum.splits)
  with assms r have "sigs' = sigs" "um_txn_version m = version" "um_num_signatures m = of_nat (length sigs)"
    by (auto simp: user_from_transaction_def Let_def split: sum.splits)
  with r sigs that show thesis by blast
qed

lemma parse_user_txn_rows:
  assumes "parse_user_txn ext sdk txn ([], []) = Inr (ms, sigs)"
  shows "map um_txn_version ms = (if is_user_txn txn then [tx_version txn] else [])"
    and "m \<in> set ms \<Longrightarrow> um_num_signatures m = of_nat (length sigs)"
    and "r \<in> set sigs \<Longrightarrow> sg_transaction_version r = tx_version txn"
    and "signers_fit txn \<Longrightarrow> length sigs \<le> 2 ^ 64 \<Longrightarrow> distinct (map sg_key sigs)"
proof -
  have "(\<exists>m request ts. ms = [m] \<and> is_user_txn txn \<and> um_txn_version m = tx_version txn \<and>
      um_num_signatures m = of_nat (length sigs) \<and>
      get_signatures ext sdk request (tx_version txn) (tx_block_height txn) ts = Inr sigs \<and>
      (signers_fit txn \<longrightarrow> (\<forall>s. ur_signature request = Some s \<longrightarrow> length (secondary_addresses s) \<le> 2 ^ 64))) \<or>
    (ms = [] \<and> sigs = [] \<and> \<not> is_user_txn txn)"
  proof (cases "is_user_txn txn")
    case True
    then obtain inner where inner: "tx_data txn = Some (TxnUser inner)"
      by (auto simp: is_user_txn_def split: option.splits txn_data.splits)
    obtain info fee timestamp m where m: "ms = [m]"
      "user_from_transaction ext sdk inner info fee timestamp (tx_block_height txn) (tx_epoch txn)
         (tx_version txn) = Inr (m, sigs)"
      using assms by (auto simp: parse_user_txn_def inner split: option.splits sum.splits)
    obtain request ts where "ut_request inner = Some request"
        "get_signatures ext sdk request (tx_version txn) (tx_block_height txn) ts = Inr sigs"
        "um_txn_version m = tx_version txn" "um_num_signatures m = of_nat (length sigs)"
      using user_from_transaction_row [OF m(2)] by metis
    moreover have "signers_fit txn \<longrightarrow>
        (\<forall>s. ur_signature request = Some s \<longrightarrow> length (secondary_addresses s) \<le> 2 ^ 64)"
      using calculation(1) by (auto simp: signers_fit_def inner opt_and_then_def)
    ultimately show ?thesis using m(1) True by blast
  next
    case False
    with assms show ?thesis
      by (auto simp: parse_user_txn_def is_user_txn_def split: option.splits txn_data.splits)
  qed
  then show "map um_txn_version ms = (if is_user_txn txn then [tx_version txn] else [])"
    and "m \<in> set ms \<Longrightarrow> um_num_signatures m = of_nat (length sigs)"
    and "r \<in> set sigs \<Longrightarrow> sg_transaction_version r = tx_version txn"
    and "signers_fit txn \<Longrightarrow> length sigs \<le> 2 ^ 64 \<Longrightarrow> distinct (map sg_key sigs)"
    by (auto simp: get_signatures_def split: option.splits
        intro: signature_keys_distinct signature_row_version)
qed

lemma user_batch_versions:
  assumes "list_all2 (\<lambda>txn p. parse_user_txn ext sdk txn ([], []) = Inr p) txns per"
  shows "map um_txn_version (concat (map fst per)) = map tx_version (filter is_user_txn txns)"
  using assms
proof (induction rule: list_all2_induct)
  case (Cons txn txns p per)
  then show ?case using parse_user_txn_rows(1) [of ext sdk txn "fst p" "snd p"] by simp
qed simp

lemma batch_signature_versions:
  assumes "list_all2 (\<lambda>txn p. parse_user_txn ext sdk txn ([], []) = Inr p) txns per"
    and "r \<in> set (concat (map snd per))"
  shows "sg_transaction_version r \<in> tx_version ` set txns"
  using assms
proof (induction rule: list_all2_induct)
  case (Cons txn txns p per)
  then show ?case using parse_user_txn_rows(3) [of ext sdk txn "fst p" "snd p" r] by auto
qed simp

lemma batch_signature_keys:
  assumes "list_all2 (\<lambda>txn p. parse_user_txn ext sdk txn ([], []) = Inr p) txns per"
    and "distinct (map tx_version txns)" and "list_all signers_fit txns"
    and "length (concat (map snd per)) \<le> 2 ^ 64"
  shows "distinct (map sg_key (concat (map snd per)))"
  using assms
proof (induction rule: list_all2_induct)
  case (Cons txn txns p per)
  have "length (snd p) \<le> 2 ^ 64" "length (concat (map snd per)) \<le> 2 ^ 64" using Cons.prems(3) by simp_all
  with Cons have "distinct (map sg_key (snd p))" "distinct (map sg_key (concat (map snd per)))"
    using parse_user_txn_rows(4) [of ext sdk txn "fst p" "snd p"] by auto
  moreover have "sg_key r \<noteq> sg_key r'" if "r \<in> set (snd p)" "r' \<in> set (concat (map snd per))" for r r'
  proof -
    have "sg_transaction_version r = tx_version txn"
      using parse_user_txn_rows(3) [of ext sdk txn "fst p" "snd p" r] Cons.hyps(1) that(1) by simp
    moreover have "sg_transaction_version r' \<in> tx_version ` set txns"
      by (rule batch_signature_versions [OF Cons.hyps(2) that(2)])
    ultimately show ?thesis using Cons.prems(1) by (auto simp: sg_key_def)
  qed
  then have "set (map sg_key (snd p)) \<inter> set (map sg_key (concat (map snd per))) = {}" by fastforce
  ultimately show ?case by simp
qed simp

lemma batch_num_signatures:
  assumes "list_all2 (\<lambda>txn p. parse_user_txn ext sdk txn ([], []) = Inr p) txns per"
    and "distinct (map tx_version txns)" and "m \<in> set (concat (map fst per))"
  shows "um_num_signatures m = of_nat (length
    (filter (\<lambda>s. sg_transaction_version s = um_txn_version m) (concat (map snd per))))"
  using assms
proof (induction rule: list_all2_induct)
  case (Cons txn txns p per)
  note row = parse_user_txn_rows [of ext sdk txn "fst p" "snd p"]
  have p: "parse_user_txn ext sdk txn ([], []) = Inr (fst p, snd p)" using Cons.hyps(1) by simp
  show ?case
  proof (cases "m \<in> set (fst p)")
    case True
    then have v: "um_txn_version m = tx_version txn"
      using row(1) [OF p] by (metis empty_iff image_eqI list.set(1) list.set_map set_ConsD)
    have "filter (\<lambda>s. sg_transaction_version s = tx_version txn) (snd p) = snd p"
      using row(3) [OF p] by simp
    moreover have "filter (\<lambda>s. sg_transaction_version s = tx_version txn) (concat (map snd per)) = []"
      unfolding filter_empty_conv
    proof
      fix r assume "r \<in> set (concat (map snd per))"
      then have "sg_transaction_version r \<in> tx_version ` set txns"
        by (rule batch_signature_versions [OF Cons.hyps(2)])
      with Cons.prems(1) show "sg_transaction_version r \<noteq> tx_version txn" by auto
    qed
    ultimately show ?thesis using row(2) [OF p True] v by simp
  next
    case False
    with Cons.prems(2) have m: "m \<in> set (concat (map fst per))" by simp
    then have "um_txn_version m \<in> set (map um_txn_version (concat (map fst per)))" by simp
    then have "um_txn_version m \<in> tx_version ` set txns" unfolding user_batch_versions [OF Cons.hyps(2)] by auto
    then have "um_txn_version m \<noteq> tx_version txn" using Cons.prems(1) by auto
    then have "filter (\<lambda>s. sg_transaction_version s = um_txn_version m) (snd p) = []"
      using row(3) [OF p] by (auto simp: filter_empty_conv)
    with Cons.IH Cons.prems(1) m show ?thesis by simp
  qed
qed simp

text \<open>
  The transaction row and the signature rows of a batch agree: the batch has one
  transaction row per user transaction, in order, and its number of signatures is the number of
  signature rows with its version.
\<close>

theorem num_signatures_counts_rows:
  assumes "user_transaction_parse ext sdk txns = Inr (ms, sigs)" and "distinct (map tx_version txns)"
    and "m \<in> set ms"
  shows "map um_txn_version ms = map tx_version (filter is_user_txn txns) \<and>
    um_num_signatures m = of_nat (length
      (filter (\<lambda>s. sg_transaction_version s = um_txn_version m) sigs))"
  using user_transaction_parse_rows [OF assms(1)] batch_num_signatures user_batch_versions assms(2,3) by metis

theorem num_signatures_counts_rows_witness:
  "\<exists>ms sigs. user_transaction_parse sample_world sample_sdk [sample_user_txn 5 []] = Inr (ms, sigs) \<and>
     length ms = 1 \<and> length sigs = 3 \<and> um_num_signatures (hd ms) = of_nat (length
       (filter (\<lambda>s. sg_transaction_version s = um_txn_version (hd ms)) sigs))"
proof -
  have "(case user_transaction_parse sample_world sample_sdk [sample_user_txn 5 []] of
      Inl _ \<Rightarrow> False | Inr (ms, sigs) \<Rightarrow> length ms = 1 \<and> length sigs = 3)" by code_simp
  then obtain ms sigs where run: "user_transaction_parse sample_world sample_sdk [sample_user_txn 5 []] = Inr (ms, sigs)"
      "length ms = 1" "length sigs = 3"
    by (auto split: sum.splits)
  then have "hd ms \<in> set ms" by (cases ms) auto
  from num_signatures_counts_rows [OF run(1) _ this] run show ?thesis by auto
qed

section \<open>Storing a batch\<close>

lemma filter_data_cases: "filter_data flags flag xs = xs \<or> filter_data flags flag xs = []"
  by (simp add: filter_data_def)

lemma pg_key_of [simp]: "pg_key (postgres_signature_of s) = sg_key s"
  by (simp add: pg_key_def sg_key_def postgres_signature_of_def)

lemma extract_keys_distinct:
  assumes "user_transaction_extract ext sdk txns = Inr (us, ss)" and "distinct (map tx_version txns)"
    and "list_all signers_fit txns" and "length ss \<le> 2 ^ 64"
  shows "distinct (map pu_version us)" and "distinct (map pg_key ss)"
proof -
  obtain ms sigs where p: "user_transaction_parse ext sdk txns = Inr (ms, sigs)"
      "us = map (postgres_user_transaction_of ext) ms" "ss = map postgres_signature_of sigs"
    using assms(1) by (auto simp: user_transaction_extract_def split: sum.splits)
  obtain per where per: "list_all2 (\<lambda>txn p. parse_user_txn ext sdk txn ([], []) = Inr p) txns per"
      "ms = concat (map fst per)" "sigs = concat (map snd per)"
    using user_transaction_parse_rows [OF p(1)] by metis
  have "map pu_version us = map um_txn_version ms"
    by (simp add: p(2) postgres_user_transaction_of_def)
  also have "\<dots> = map tx_version (filter is_user_txn txns)"
    unfolding per(2) by (rule user_batch_versions [OF per(1)])
  finally show "distinct (map pu_version us)" using assms(2) by (simp add: distinct_map_filter)
  have "distinct (map sg_key sigs)"
    using batch_signature_keys [OF per(1) assms(2,3)] assms(4) by (simp add: p(3) per(3))
  then show "distinct (map pg_key ss)" by (simp add: p(3) comp_def)
qed

text \<open>
  A batch of transactions with distinct versions is always accepted by the storer,
  however its rows are cut into chunks; and storing it a second time, after a restart, succeeds
  and changes nothing.
\<close>

theorem user_batch_stored_once:
  assumes "user_transaction_extract ext sdk txns = Inr data" and "distinct (map tx_version txns)"
    and "list_all signers_fit txns" and "length (snd data) \<le> 2 ^ 64"
    and "\<And>us. concat (chunk_u us) = us" and "\<And>ss. concat (chunk_s ss) = ss"
  shows "\<exists>db'. user_transaction_store chunk_u chunk_s flags data db = Inr db' \<and>
    user_transaction_store chunk_u chunk_s flags data db' = Inr db'"
proof -
  define us where "us = filter_data flags (table_flag ''USER_TRANSACTIONS'') (fst data)"
  define ss where "ss = filter_data flags (table_flag ''SIGNATURES'') (snd data)"
  have "distinct (map pu_version us)" "distinct (map pg_key ss)"
    using extract_keys_distinct [of ext sdk txns "fst data" "snd data"] assms(1-4)
      filter_data_cases [of flags _ "fst data"] filter_data_cases [of flags _ "snd data"]
    unfolding us_def ss_def by (metis prod.collapse distinct.simps(1) list.map(1))+
  then have "user_transaction_store chunk_u chunk_s flags data db = Inr
      \<lparr>ud_user_transactions = fold (upsert pu_version merge_user_transaction) us (ud_user_transactions db),
       ud_signatures = fold (upsert pg_key merge_signature) ss (ud_signatures db)\<rparr>" for db
    using assms(5,6) unfolding user_transaction_store_def us_def [symmetric] ss_def [symmetric] Let_def
    by (simp add: user_table.run_chunks_distinct signature_table.run_chunks_distinct)
  with \<open>distinct (map pu_version us)\<close> \<open>distinct (map pg_key ss)\<close> show ?thesis
    by (simp add: user_table.fold_upsert_twice signature_table.fold_upsert_twice)
qed

lemma sample_signers_fit: "signers_fit (sample_user_txn v cs)"
  by (simp add: signers_fit_def sample_user_txn_def sample_request_def sample_multi_agent_def
      secondary_addresses_def opt_and_then_def)

theorem user_batch_stored_once_witness:
  "\<exists>data db'. user_transaction_extract sample_world sample_sdk [sample_user_txn 5 [], sample_user_txn 6 []] = Inr data \<and>
     user_transaction_store (\<lambda>us. [us]) (map (\<lambda>s. [s])) 0 data \<lparr>ud_user_transactions = [], ud_signatures = []\<rparr> = Inr db' \<and>
     user_transaction_store (\<lambda>us. [us]) (map (\<lambda>s. [s])) 0 data db' = Inr db'"
proof -
  let ?txns = "[sample_user_txn 5 [], sample_user_txn 6 []]"
  have "(case user_transaction_extract sample_world sample_sdk ?txns of
      Inl _ \<Rightarrow> False | Inr data \<Rightarrow> length (snd data) = 6)" by code_simp
  then obtain data where data: "user_transaction_extract sample_world sample_sdk ?txns = Inr data"
      "length (snd data) = 6"
    by (auto split: sum.splits)
  have "distinct (map tx_version ?txns)" "list_all signers_fit ?txns"
    by (code_simp, simp add: sample_signers_fit)
  moreover have "concat (map (\<lambda>s. [s]) ss) = ss" for ss :: "postgres_signature list" by simp
  ultimately obtain db' where
    "user_transaction_store (\<lambda>us. [us]) (map (\<lambda>s. [s])) 0 data \<lparr>ud_user_transactions = [], ud_signatures = []\<rparr> = Inr db'"
    "user_transaction_store (\<lambda>us. [us]) (map (\<lambda>s. [s])) 0 data db' = Inr db'"
    using user_batch_stored_once [OF data(1), of "\<lambda>us. [us]" "map (\<lambda>s. [s])" 0
        "\<lparr>ud_user_transactions = [], ud_signatures = []\<rparr>"] data(2) by auto
  with data(1) show ?thesis by blast
qed

end
