(* ===== verification/AccountTransactions.thy ===== *)
theory AccountTransactions
  imports UserTransactions
begin

text \<open>
  The account transactions processor (\<open>processors/account_transactions\<close>): which accounts a
  transaction touches, and the table \<open>account_transactions\<close> of (version, account) pairs.  The
  hash set of \<open>get_accounts\<close> is a list without duplicates; its order, which Rust leaves open,
  is the order of insertion here and no theorem depends on it.
\<close>

section \<open>Accounts of a transaction\<close>

definition add_signers :: "signature list \<Rightarrow> string list \<Rightarrow> string list" where
  "add_signers sigs accounts = fold (\<lambda>s. List.insert (sg_signer s)) sigs accounts"

definition add_event_account :: "extern \<Rightarrow> event \<Rightarrow> string list \<Rightarrow> string list result" where
  "add_event_account ext ev accounts =
     (case unwrap (ev_key ev) of
        Inl e \<Rightarrow> Inl e
      | Inr key \<Rightarrow> Inr (List.insert (standardize_address ext (ek_account_address key)) accounts))"

definition add_change_accounts :: "extern \<Rightarrow> change option \<Rightarrow> string list \<Rightarrow> string list result" where
  "add_change_accounts ext wsc accounts =
     (case unwrap wsc of
        Inl e \<Rightarrow> Inl e
      | Inr (DeleteResource res) \<Rightarrow> Inr (List.insert (standardize_address ext (dr_address res)) accounts)
      | Inr (WriteResource res) \<Rightarrow>
          (let accounts = List.insert (standardize_address ext (wr_address res)) accounts
           in case object_from_write_resource ext res of
                Inl e \<Rightarrow> Inl e
              | Inr None \<Rightarrow> Inl (Panic ''called Result::unwrap() on an Err value'')
              | Inr (Some None) \<Rightarrow> Inr accounts
              | Inr (Some (Some inner)) \<Rightarrow>
                  Inr (List.insert (get_owner_address ext (om_object_core inner)) accounts))
      | Inr _ \<Rightarrow> Inr accounts)"

definition events_and_signatures ::
  "extern \<Rightarrow> sdk \<Rightarrow> transaction \<Rightarrow> txn_data \<Rightarrow> (event list \<times> signature list) option result" where
  "events_and_signatures ext sdk txn data =
     (case data of
        TxnUser inner \<Rightarrow>
          (case ut_request inner of
             None \<Rightarrow> Inl (Panic ''User request doesn't exist for version'')
           | Some request \<Rightarrow>
               (case unwrap (tx_timestamp txn) of
                  Inl e \<Rightarrow> Inl e
                | Inr timestamp \<Rightarrow>
                    (case get_signatures ext sdk request (tx_version txn) (tx_block_height txn)
                        (parse_timestamp ext timestamp (tx_version txn)) of
                       Inl e \<Rightarrow> Inl e
                     | Inr sigs \<Rightarrow> Inr (Some (ut_events inner, sigs)))))
      | TxnGenesis inner \<Rightarrow> Inr (Some (gn_events inner, []))
      | TxnBlockMetadata inner \<Rightarrow> Inr (Some (bm_events inner, []))
      | TxnValidator events \<Rightarrow> Inr (Some (events, []))
      | _ \<Rightarrow> Inr None)"

definition get_accounts :: "extern \<Rightarrow> sdk \<Rightarrow> transaction \<Rightarrow> string list result" where
  "get_accounts ext sdk txn =
     (case tx_data txn of
        None \<Rightarrow> Inr []
      | Some data \<Rightarrow>
          (case tx_info txn of
             None \<Rightarrow> Inl (Panic ''Transaction info doesn't exist for version'')
           | Some info \<Rightarrow>
               (case events_and_signatures ext sdk txn data of
                  Inl e \<Rightarrow> Inl e
                | Inr None \<Rightarrow> Inr []
                | Inr (Some (events, sigs)) \<Rightarrow>
                    (case fold_result (add_event_account ext) events (add_signers sigs []) of
                       Inl e \<Rightarrow> Inl e
                     | Inr accounts \<Rightarrow> fold_result (add_change_accounts ext) (ti_changes info) accounts))))"

section \<open>Rows and storage\<close>

record account_transaction =
  at_transaction_version :: i64
  at_account_address :: string
  at_block_timestamp :: datetime

record postgres_account_transaction =
  pa_transaction_version :: i64
  pa_account_address :: string

definition postgres_account_transaction_of ::
  "account_transaction \<Rightarrow> postgres_account_transaction" where
  "postgres_account_transaction_of a =
     \<lparr>pa_transaction_version = at_transaction_version a, pa_account_address = at_account_address a\<rparr>"

definition account_rows :: "extern \<Rightarrow> sdk \<Rightarrow> transaction \<Rightarrow> account_transaction list result" where
  "account_rows ext sdk txn =
     (case unwrap (tx_timestamp txn) of
        Inl e \<Rightarrow> Inl e
      | Inr timestamp \<Rightarrow>
          (case get_accounts ext sdk txn of
             Inl e \<Rightarrow> Inl e
           | Inr accounts \<Rightarrow> Inr (map (\<lambda>a. \<lparr>at_transaction_version = tx_version txn,
               at_account_address = a,
               at_block_timestamp = parse_timestamp ext timestamp (tx_version txn)\<rparr>) accounts)))"

definition parse_account_transactions ::
  "extern \<Rightarrow> sdk \<Rightarrow> transaction list \<Rightarrow> account_transaction list result" where
  "parse_account_transactions ext sdk txns =
     (case map_result (account_rows ext sdk) txns of Inl e \<Rightarrow> Inl e | Inr rows \<Rightarrow> Inr (concat rows))"

definition account_transactions_extract ::
  "extern \<Rightarrow> sdk \<Rightarrow> transaction list \<Rightarrow> postgres_account_transaction list result" where
  "account_transactions_extract ext sdk txns =
     (case parse_account_transactions ext sdk txns of
        Inl e \<Rightarrow> Inl e
      | Inr rows \<Rightarrow> Inr (map postgres_account_transaction_of rows))"

definition pa_key :: "postgres_account_transaction \<Rightarrow> i64 \<times> string" where
  "pa_key r = (pa_transaction_version r, pa_account_address r)"

definition account_transactions_store ::
  "(postgres_account_transaction list \<Rightarrow> postgres_account_transaction list list) \<Rightarrow> u128 \<Rightarrow>
   postgres_account_transaction list \<Rightarrow> postgres_account_transaction list \<Rightarrow>
   postgres_account_transaction list \<times> error option" where
  "account_transactions_store chunk flags rows table =
     (let rows = filter_data flags (table_flag ''ACCOUNT_TRANSACTIONS'') rows;
          (table', err) = run_chunks (insert_do_nothing pa_key) (chunk rows) table
      in (table', map_option (\<lambda>e. DBStoreError ''Failed to store account transactions versions'') err))"

section \<open>What is recorded\<close>

definition change_accounts :: "extern \<Rightarrow> change option \<Rightarrow> string set" where
  "change_accounts ext wsc =
     (case wsc of
        Some (DeleteResource res) \<Rightarrow> {standardize_address ext (dr_address res)}
      | Some (WriteResource res) \<Rightarrow>
          insert (standardize_address ext (wr_address res))
            (case object_from_write_resource ext res of
               Inr (Some (Some inner)) \<Rightarrow> {get_owner_address ext (om_object_core inner)}
             | _ \<Rightarrow> {})
      | _ \<Rightarrow> {})"

definition event_account :: "extern \<Rightarrow> event \<Rightarrow> string" where
  "event_account ext ev =
     standardize_address ext (case ev_key ev of None \<Rightarrow> [] | Some key \<Rightarrow> ek_account_address key)"

lemma add_signers_set: "set (add_signers sigs accounts) = set accounts \<union> sg_signer ` set sigs"
  unfolding add_signers_def by (induction sigs arbitrary: accounts) auto

lemma add_signers_distinct: "distinct accounts \<Longrightarrow> distinct (add_signers sigs accounts)"
  unfolding add_signers_def by (induction sigs arbitrary: accounts) (auto simp: distinct_insert)

lemma fold_result_collects:
  assumes "\<And>x s t. f x s = Inr t \<Longrightarrow> set t = set s \<union> g x \<and> (distinct s \<longrightarrow> distinct t)"
    and "fold_result f xs s = Inr t"
  shows "set t = set s \<union> (\<Union>x \<in> set xs. g x) \<and> (distinct s \<longrightarrow> distinct t)"
  using assms(2)
proof (induction xs arbitrary: s)
  case (Cons x xs)
  then obtain u where u: "f x s = Inr u" "fold_result f xs u = Inr t" by (auto split: sum.splits)
  from Cons.IH [OF u(2)] assms(1) [OF u(1)] show ?case by auto
qed simp

lemma add_event_account_adds:
  "add_event_account ext ev s = Inr t \<Longrightarrow>
     set t = set s \<union> {event_account ext ev} \<and> (distinct s \<longrightarrow> distinct t)"
  by (auto simp: add_event_account_def event_account_def distinct_insert split: sum.splits)

lemma add_change_accounts_adds:
  "add_change_accounts ext wsc s = Inr t \<Longrightarrow>
     set t = set s \<union> change_accounts ext wsc \<and> (distinct s \<longrightarrow> distinct t)"
  by (auto simp: add_change_accounts_def change_accounts_def Let_def distinct_insert
      split: sum.splits option.splits change.splits)

lemma get_accounts_collects:
  assumes "get_accounts ext sdk txn = Inr accounts" and "tx_data txn = Some data"
    and "events_and_signatures ext sdk txn data = Inr (Some (events, sigs))"
  shows "distinct accounts" and "\<exists>info. tx_info txn = Some info \<and> set accounts =
    sg_signer ` set sigs \<union> event_account ext ` set events \<union> (\<Union>c \<in> set (ti_changes info). change_accounts ext c)"
proof -
  obtain info us where run: "tx_info txn = Some info"
      "fold_result (add_event_account ext) events (add_signers sigs []) = Inr us"
      "fold_result (add_change_accounts ext) (ti_changes info) us = Inr accounts"
    using assms by (auto simp: get_accounts_def split: option.splits sum.splits)
  note ev = fold_result_collects [of "add_event_account ext", OF add_event_account_adds run(2)]
  note ch = fold_result_collects [of "add_change_accounts ext", OF add_change_accounts_adds run(3)]
  show "distinct accounts" using ev ch add_signers_distinct [of "[]"] by simp
  show "\<exists>info. tx_info txn = Some info \<and> set accounts =
    sg_signer ` set sigs \<union> event_account ext ` set events \<union> (\<Union>c \<in> set (ti_changes info). change_accounts ext c)"
    using run(1) ev ch by (auto simp: add_signers_set)
qed

lemma get_accounts_distinct:
  "get_accounts ext sdk txn = Inr accounts \<Longrightarrow> distinct accounts"
  using get_accounts_collects(1)
  by (fastforce simp: get_accounts_def split: option.splits sum.splits prod.splits)

lemma user_events_and_signatures:
  assumes "get_accounts ext sdk txn = Inr accounts" and "tx_data txn = Some (TxnUser inner)"
    and "ut_request inner = Some request" and "ur_signature request = Some s"
  obtains ts rows where
    "from_user_transaction ext sdk s (ur_sender request) (tx_version txn) (tx_block_height txn) ts = Inr rows"
    and "events_and_signatures ext sdk txn (TxnUser inner) = Inr (Some (ut_events inner, rows))"
proof -
  obtain timestamp where t: "tx_timestamp txn = Some timestamp"
    using assms by (cases "tx_timestamp txn")
      (auto simp: get_accounts_def events_and_signatures_def unwrap_def split: option.splits)
  let ?run = "from_user_transaction ext sdk s (ur_sender request) (tx_version txn) (tx_block_height txn)
    (parse_timestamp ext timestamp (tx_version txn))"
  obtain rows where rows: "?run = Inr rows"
    using assms t by (cases ?run)
      (auto simp: get_accounts_def events_and_signatures_def get_signatures_def split: option.splits)
  with assms t have "events_and_signatures ext sdk txn (TxnUser inner) = Inr (Some (ut_events inner, rows))"
    by (simp add: events_and_signatures_def get_signatures_def)
  with rows that show thesis by blast
qed



text \<open>
  A sender who signs through account abstraction is not recorded on account of the
  signature: the signature contributes the standardised string \<open>abstraction_signature\<close>, and the
  sender appears only if an event or a change of the transaction names it.
\<close>

theorem abstraction_sender_not_recorded:
  assumes "get_accounts ext sdk txn = Inr accounts" and "tx_data txn = Some (TxnUser inner)"
    and "ut_request inner = Some request" and "ur_signature request = Some s"
    and "spb_signature s = Some (SigSingleSender (Some acc))"
    and "acs_type acc = AccountAbstraction" and "acs_signature acc = Some AsAbstraction"
  shows "\<exists>info. tx_info txn = Some info \<and>
    set accounts = {standardize_address ext ''abstraction_signature''} \<union>
      event_account ext ` set (ut_events inner) \<union>
      (\<Union>c \<in> set (ti_changes info). change_accounts ext c)"
proof -
  obtain ts rows where rows:
    "from_user_transaction ext sdk s (ur_sender request) (tx_version txn) (tx_block_height txn) ts = Inr rows"
    "events_and_signatures ext sdk txn (TxnUser inner) = Inr (Some (ut_events inner, rows))"
    using user_events_and_signatures [OF assms(1-4)] by metis
  from rows(1) have "sg_signer ` set rows = {standardize_address ext ''abstraction_signature''}"
    using abstraction_row [OF assms(5-7)] by auto
  with get_accounts_collects(2) [OF assms(1,2) rows(2)] show ?thesis by simp
qed

theorem abstraction_sender_not_recorded_witness:
  "\<exists>accounts. get_accounts sample_world sample_sdk sample_abstract_txn = Inr accounts \<and>
     set accounts = {standardize_address sample_world ''abstraction_signature''} \<and>
     standardize_address sample_world (ur_sender sample_abstract_request) \<notin> set accounts"
proof -
  let ?s = "\<lparr>spb_type = ParentSingleSender, spb_signature = Some (SigSingleSender (Some sample_abstraction))\<rparr>"
  have "(case get_accounts sample_world sample_sdk sample_abstract_txn of Inl _ \<Rightarrow> False | Inr _ \<Rightarrow> True)"
    by code_simp
  then obtain accounts where run: "get_accounts sample_world sample_sdk sample_abstract_txn = Inr accounts"
    by (auto split: sum.splits)
  have "tx_data sample_abstract_txn = Some (TxnUser \<lparr>ut_events = [], ut_request = Some sample_abstract_request\<rparr>)"
    "ur_signature sample_abstract_request = Some ?s" "tx_info sample_abstract_txn = tx_info (sample_user_txn 8 [])"
    "acs_type sample_abstraction = AccountAbstraction" "acs_signature sample_abstraction = Some AsAbstraction"
    by (simp_all add: sample_abstract_txn_def sample_abstract_request_def sample_abstraction_def)
  then have "set accounts = {standardize_address sample_world ''abstraction_signature''}"
    using abstraction_sender_not_recorded [OF run, of _ sample_abstract_request ?s sample_abstraction]
    by (auto simp: sample_user_txn_def)
  moreover have "standardize_address sample_world (ur_sender sample_abstract_request) \<noteq>
      standardize_address sample_world ''abstraction_signature''" by code_simp
  ultimately show ?thesis using run by simp
qed

text \<open>
  Storing the rows of a batch never fails; every pair of a version and an account that
  the batch names is in the table afterwards and no other pair is added, keys stay unique, and
  storing the batch again changes nothing.
\<close>

theorem account_rows_stored_once:
  assumes "\<And>rows. concat (chunk rows) = rows" and "unique_keys pa_key table"
  shows "\<exists>table'. account_transactions_store chunk flags rows table = (table', None) \<and>
    unique_keys pa_key table' \<and>
    set table' = set table \<union>
      {r \<in> set (filter_data flags (table_flag ''ACCOUNT_TRANSACTIONS'') rows). pa_key r \<notin> pa_key ` set table} \<and>
    account_transactions_store chunk flags rows table' = (table', None)"
proof -
  define ns where "ns = filter_data flags (table_flag ''ACCOUNT_TRANSACTIONS'') rows"
  have run: "account_transactions_store chunk flags rows t = (fold (insert_ignore pa_key) ns t, None)" for t
    by (simp add: account_transactions_store_def Let_def run_chunks_do_nothing assms(1) ns_def)
  have key: "pa_key r = pa_key r' \<longleftrightarrow> r = r'" for r r'
    by (cases r; cases r') (auto simp: pa_key_def)
  then have "inj pa_key" by (simp add: inj_def)
  then have "set (fold (insert_ignore pa_key) ns table) = set table \<union> set ns"
    using keys_fold_insert_ignore [of pa_key ns table] by (metis image_Un inj_image_eq_iff)
  moreover have "set table \<union> set ns = set table \<union> {r \<in> set ns. pa_key r \<notin> pa_key ` set table}"
    using key by auto
  ultimately show ?thesis
    using assms(2) unfolding run ns_def [symmetric]
    by (auto simp: fold_insert_ignore_twice intro: unique_fold_insert_ignore)
qed

theorem account_rows_stored_once_witness:
  "\<exists>table'. account_transactions_store (\<lambda>rows. [rows]) 0
       [\<lparr>pa_transaction_version = 1, pa_account_address = ''0xa''\<rparr>,
        \<lparr>pa_transaction_version = 1, pa_account_address = ''0xa''\<rparr>] [] = (table', None) \<and>
     unique_keys pa_key table'"
  using account_rows_stored_once [of "\<lambda>rows. [rows]" "[]" 0
      "[\<lparr>pa_transaction_version = 1, pa_account_address = ''0xa''\<rparr>,
        \<lparr>pa_transaction_version = 1, pa_account_address = ''0xa''\<rparr>]"]
  by (auto simp: unique_keys_def)

end
