(* ===== verification/ObjectsProcessor.thy ===== *)
theory ObjectsProcessor
  imports BatchStore SampleChain Signatures "HOL-Library.AList"
begin

text \<open>
  The objects processor (\<open>processors/objects\<close>): every write or deletion of an object becomes a
  row of \<open>objects\<close>, and the last row of each address the row of \<open>current_objects\<close>.

  Three passes over a transaction's changes fill the metadata map and then build the rows; the
  metadata map and the map of current objects live for the whole batch.  The lookup of a deleted
  object in the database is a parameter that may answer differently at every attempt.
\<close>

section \<open>Models\<close>

record chain_object =
  ob_transaction_version :: i64
  ob_write_set_change_index :: i64
  ob_object_address :: string
  ob_owner_address :: string
  ob_state_key_hash :: string
  ob_guid_creation_num :: decimal
  ob_allow_ungated_transfer :: bool
  ob_is_deleted :: bool
  ob_untransferrable :: bool
  ob_block_timestamp :: datetime

record current_object =
  co_object_address :: string
  co_owner_address :: string
  co_state_key_hash :: string
  co_allow_ungated_transfer :: bool
  co_last_guid_creation_num :: decimal
  co_last_transaction_version :: i64
  co_is_deleted :: bool
  co_untransferrable :: bool
  co_block_timestamp :: datetime

record object_aggregated_data =
  oa_object :: object_with_metadata
  oa_untransferable :: "bool option"

type_synonym object_mapping = "string \<rightharpoonup> object_aggregated_data"

text \<open>
  Of \<open>ObjectAggregatedData\<close> the processor fills \<open>object\<close> and \<open>untransferable\<close>; the other
  fields stay \<open>None\<close> here.
\<close>

record db_context =
  dc_query_retries :: nat
  dc_get_by_address :: "i64 \<Rightarrow> i64 \<Rightarrow> nat \<Rightarrow> string \<Rightarrow> current_object option"

text \<open>
  \<open>dc_get_by_address\<close> is the answer of \<open>CurrentObjectQuery::get_by_address\<close>, as the
  \<open>CurrentObject\<close> the caller builds from it, at the given attempt while the change of the given
  version and index is handled.
\<close>

definition object_from_write ::
  "extern \<Rightarrow> write_resource \<Rightarrow> i64 \<Rightarrow> i64 \<Rightarrow> object_mapping \<Rightarrow> datetime \<Rightarrow> (chain_object \<times> current_object) option" where
  "object_from_write ext wr version index mapping ts =
     (let address = standardize_address ext (wr_address wr)
      in case mapping address of
           None \<Rightarrow> None
         | Some agg \<Rightarrow>
             (let core = om_object_core (oa_object agg);
                  untransferrable =
                    (if oa_untransferable agg \<noteq> None then True else \<not> oc_allow_ungated_transfer core)
              in Some (
                \<lparr>ob_transaction_version = version, ob_write_set_change_index = index,
                 ob_object_address = address, ob_owner_address = get_owner_address ext core,
                 ob_state_key_hash = om_state_key_hash (oa_object agg),
                 ob_guid_creation_num = oc_guid_creation_num core,
                 ob_allow_ungated_transfer = oc_allow_ungated_transfer core,
                 ob_is_deleted = False, ob_untransferrable = untransferrable,
                 ob_block_timestamp = ts\<rparr>,
                \<lparr>co_object_address = address, co_owner_address = get_owner_address ext core,
                 co_state_key_hash = om_state_key_hash (oa_object agg),
                 co_allow_ungated_transfer = oc_allow_ungated_transfer core,
                 co_last_guid_creation_num = oc_guid_creation_num core,
                 co_last_transaction_version = version, co_is_deleted = False,
                 co_untransferrable = untransferrable, co_block_timestamp = ts\<rparr>)))"

function get_current_object :: "(nat \<Rightarrow> current_object option) \<Rightarrow> nat \<Rightarrow> nat \<Rightarrow> current_object result" where
  "get_current_object lookup query_retries tried =
     (if tried < query_retries then
        (case lookup (tried + 1) of
           Some res \<Rightarrow> Inr (res\<lparr>co_block_timestamp := 0\<rparr>)
         | None \<Rightarrow> get_current_object lookup query_retries (tried + 1))
      else Inl (ProcessError ''Failed to get object owner''))"
  by pat_completeness auto

termination
  by (relation "measure (\<lambda>(lookup, query_retries, tried). query_retries - tried)") auto

declare get_current_object.simps [simp del]

definition deleted_resource_owner_address :: string where
  "deleted_resource_owner_address = ''Unknown''"

definition deleted_object ::
  "move_resource \<Rightarrow> i64 \<Rightarrow> i64 \<Rightarrow> datetime \<Rightarrow> string \<Rightarrow> decimal \<Rightarrow> bool \<Rightarrow> bool \<Rightarrow> chain_object \<times> current_object" where
  "deleted_object res version index ts owner guid ungated untransferrable = (
     \<lparr>ob_transaction_version = version, ob_write_set_change_index = index,
      ob_object_address = mr_resource_address res, ob_owner_address = owner,
      ob_state_key_hash = mr_state_key_hash res, ob_guid_creation_num = guid,
      ob_allow_ungated_transfer = ungated, ob_is_deleted = True,
      ob_untransferrable = untransferrable, ob_block_timestamp = ts\<rparr>,
     \<lparr>co_object_address = mr_resource_address res, co_owner_address = owner,
      co_state_key_hash = mr_state_key_hash res, co_allow_ungated_transfer = ungated,
      co_last_guid_creation_num = guid, co_last_transaction_version = version,
      co_is_deleted = True, co_untransferrable = untransferrable, co_block_timestamp = ts\<rparr>)"

definition object_from_delete ::
  "extern \<Rightarrow> delete_resource \<Rightarrow> i64 \<Rightarrow> i64 \<Rightarrow> (string \<times> current_object) list \<Rightarrow> db_context option \<Rightarrow> datetime
     \<Rightarrow> (chain_object \<times> current_object) option result" where
  "object_from_delete ext dr version index currents db ts =
     (if dr_type_str dr = ''0x1::object::ObjectGroup'' then
        (case move_resource_from_delete_resource ext dr 0 version 0 ts of
           Inl e \<Rightarrow> Inl (ProcessError ''Error getting resource from delete resource'')
         | Inr None \<Rightarrow> Inr None
         | Inr (Some res) \<Rightarrow>
             (case db of
                None \<Rightarrow> Inr (Some (deleted_object res version index ts
                  deleted_resource_owner_address 0 False False))
              | Some ctx \<Rightarrow>
                  (case (case map_of currents (mr_resource_address res) of
                           Some prev \<Rightarrow> Inr prev
                         | None \<Rightarrow> get_current_object
                             (\<lambda>tried. dc_get_by_address ctx version index tried (mr_resource_address res))
                             (dc_query_retries ctx) 0) of
                     Inl e \<Rightarrow> Inr None
                   | Inr prev \<Rightarrow> Inr (Some (deleted_object res version index ts
                       (co_owner_address prev) (co_last_guid_creation_num prev)
                       (co_allow_ungated_transfer prev) (co_untransferrable prev))))))
      else Inr None)"

section \<open>Extraction\<close>

definition collect_core :: "extern \<Rightarrow> change option \<Rightarrow> object_mapping \<Rightarrow> object_mapping result" where
  "collect_core ext wsc mapping =
     (case unwrap wsc of
        Inl e \<Rightarrow> Inl e
      | Inr (WriteResource wr) \<Rightarrow>
          (case object_from_write_resource ext wr of
             Inl e \<Rightarrow> Inl e
           | Inr None \<Rightarrow> Inl (Panic ''called Result::unwrap() on an Err value'')
           | Inr (Some None) \<Rightarrow> Inr mapping
           | Inr (Some (Some ob)) \<Rightarrow> Inr (mapping(standardize_address ext (wr_address wr) \<mapsto>
               \<lparr>oa_object = ob, oa_untransferable = None\<rparr>)))
      | Inr _ \<Rightarrow> Inr mapping)"

definition collect_metadata :: "extern \<Rightarrow> change option \<Rightarrow> object_mapping \<Rightarrow> object_mapping result" where
  "collect_metadata ext wsc mapping =
     (case unwrap wsc of
        Inl e \<Rightarrow> Inl e
      | Inr (WriteResource wr) \<Rightarrow>
          (let address = standardize_address ext (wr_address wr)
           in case mapping address of
                None \<Rightarrow> Inr mapping
              | Some agg \<Rightarrow>
                  (case untransferable_from_write_resource ext wr of
                     Inl e \<Rightarrow> Inl e
                   | Inr None \<Rightarrow> Inl (Panic ''called Result::unwrap() on an Err value'')
                   | Inr (Some None) \<Rightarrow> Inr mapping
                   | Inr (Some (Some u)) \<Rightarrow>
                       Inr (mapping(address \<mapsto> agg\<lparr>oa_untransferable := Some u\<rparr>))))
      | Inr _ \<Rightarrow> Inr mapping)"

type_synonym object_rows = "chain_object list \<times> (string \<times> current_object) list"

definition push_object :: "chain_object \<times> current_object \<Rightarrow> object_rows \<Rightarrow> object_rows" where
  "push_object oc rows =
     (fst rows @ [fst oc], AList.update (ob_object_address (fst oc)) (snd oc) (snd rows))"

definition build_object ::
  "extern \<Rightarrow> db_context option \<Rightarrow> i64 \<Rightarrow> datetime \<Rightarrow> object_mapping \<Rightarrow> nat \<times> change option \<Rightarrow> object_rows
     \<Rightarrow> object_rows result" where
  "build_object ext db version ts mapping iwsc rows =
     (case unwrap (snd iwsc) of
        Inl e \<Rightarrow> Inl e
      | Inr (WriteResource wr) \<Rightarrow>
          (case object_from_write ext wr version (of_nat (fst iwsc)) mapping ts of
             None \<Rightarrow> Inr rows
           | Some oc \<Rightarrow> Inr (push_object oc rows))
      | Inr (DeleteResource dr) \<Rightarrow>
          (case object_from_delete ext dr version (of_nat (fst iwsc)) (snd rows) db ts of
             Inl e \<Rightarrow> Inl (Panic ''called Result::unwrap() on an Err value'')
           | Inr None \<Rightarrow> Inr rows
           | Inr (Some oc) \<Rightarrow> Inr (push_object oc rows))
      | Inr _ \<Rightarrow> Inr rows)"

definition process_objects_txn ::
  "extern \<Rightarrow> db_context option \<Rightarrow> transaction \<Rightarrow> object_mapping \<times> object_rows
     \<Rightarrow> (object_mapping \<times> object_rows) result" where
  "process_objects_txn ext db txn state =
     (case tx_info txn of
        None \<Rightarrow> Inl (Panic ''Transaction info doesn't exist!'')
      | Some info \<Rightarrow>
          (case unwrap (tx_timestamp txn) of
             Inl e \<Rightarrow> Inl e
           | Inr timestamp \<Rightarrow>
               (case fold_result (collect_core ext) (ti_changes info) (fst state) of
                  Inl e \<Rightarrow> Inl e
                | Inr cores \<Rightarrow>
                    (case fold_result (collect_metadata ext) (ti_changes info) cores of
                       Inl e \<Rightarrow> Inl e
                     | Inr mapping \<Rightarrow>
                         (case fold_result (build_object ext db (tx_version txn)
                              (parse_timestamp ext timestamp (tx_version txn)) mapping)
                             (enumerate 0 (ti_changes info)) (snd state) of
                            Inl e \<Rightarrow> Inl e
                          | Inr rows \<Rightarrow> Inr (mapping, rows))))))"

definition process_objects ::
  "extern \<Rightarrow> db_context option \<Rightarrow> transaction list \<Rightarrow> (chain_object list \<times> current_object list) result" where
  "process_objects ext db txns =
     (case fold_result (process_objects_txn ext db) txns (Map.empty, ([], [])) of
        Inl e \<Rightarrow> Inl e
      | Inr (mapping, (objects, currents)) \<Rightarrow>
          Inr (objects, sort_key co_object_address (map snd currents)))"

section \<open>Storage\<close>

record postgres_object =
  po_transaction_version :: i64
  po_write_set_change_index :: i64
  po_object_address :: string
  po_owner_address :: string
  po_state_key_hash :: string
  po_guid_creation_num :: decimal
  po_allow_ungated_transfer :: bool
  po_is_deleted :: bool
  po_untransferrable :: bool

record postgres_current_object =
  pc_object_address :: string
  pc_owner_address :: string
  pc_state_key_hash :: string
  pc_allow_ungated_transfer :: bool
  pc_last_guid_creation_num :: decimal
  pc_last_transaction_version :: i64
  pc_is_deleted :: bool
  pc_untransferrable :: bool

definition postgres_object_of :: "chain_object \<Rightarrow> postgres_object" where
  "postgres_object_of ob =
     \<lparr>po_transaction_version = ob_transaction_version ob,
      po_write_set_change_index = ob_write_set_change_index ob,
      po_object_address = ob_object_address ob, po_owner_address = ob_owner_address ob,
      po_state_key_hash = ob_state_key_hash ob, po_guid_creation_num = ob_guid_creation_num ob,
      po_allow_ungated_transfer = ob_allow_ungated_transfer ob, po_is_deleted = ob_is_deleted ob,
      po_untransferrable = ob_untransferrable ob\<rparr>"

definition postgres_current_object_of :: "current_object \<Rightarrow> postgres_current_object" where
  "postgres_current_object_of co =
     \<lparr>pc_object_address = co_object_address co, pc_owner_address = co_owner_address co,
      pc_state_key_hash = co_state_key_hash co,
      pc_allow_ungated_transfer = co_allow_ungated_transfer co,
      pc_last_guid_creation_num = co_last_guid_creation_num co,
      pc_last_transaction_version = co_last_transaction_version co,
      pc_is_deleted = co_is_deleted co, pc_untransferrable = co_untransferrable co\<rparr>"

definition objects_extract ::
  "extern \<Rightarrow> db_context \<Rightarrow> transaction list \<Rightarrow> (postgres_object list \<times> postgres_current_object list) result" where
  "objects_extract ext ctx txns =
     (case process_objects ext (Some ctx) txns of
        Inl e \<Rightarrow> Inl e
      | Inr (objects, currents) \<Rightarrow>
          Inr (map postgres_object_of objects, map postgres_current_object_of currents))"

definition po_key :: "postgres_object \<Rightarrow> i64 \<times> i64" where
  "po_key ob = (po_transaction_version ob, po_write_set_change_index ob)"

definition merge_object :: "postgres_object \<Rightarrow> postgres_object \<Rightarrow> postgres_object" where
  "merge_object old n = old"

definition take_current_object ::
  "postgres_current_object \<Rightarrow> postgres_current_object \<Rightarrow> postgres_current_object" where
  "take_current_object old n =
     old\<lparr>pc_owner_address := pc_owner_address n, pc_state_key_hash := pc_state_key_hash n,
         pc_allow_ungated_transfer := pc_allow_ungated_transfer n,
         pc_last_guid_creation_num := pc_last_guid_creation_num n,
         pc_last_transaction_version := pc_last_transaction_version n,
         pc_is_deleted := pc_is_deleted n, pc_untransferrable := pc_untransferrable n\<rparr>"

definition merge_current_object ::
  "postgres_current_object \<Rightarrow> postgres_current_object \<Rightarrow> postgres_current_object" where
  "merge_current_object old n =
     (if sint (pc_last_transaction_version old) \<le> sint (pc_last_transaction_version n)
      then take_current_object old n else old)"

record objects_db =
  od_objects :: "postgres_object list"
  od_current_objects :: "postgres_current_object list"

definition objects_store ::
  "(postgres_object list \<Rightarrow> postgres_object list list) \<Rightarrow>
   (postgres_current_object list \<Rightarrow> postgres_current_object list list) \<Rightarrow> u128 \<Rightarrow>
   postgres_object list \<times> postgres_current_object list \<Rightarrow> objects_db \<Rightarrow> objects_db \<times> error option" where
  "objects_store chunk_o chunk_c flags data db =
     (let objects = filter_data flags (table_flag ''OBJECTS'') (fst data);
          currents = filter_data flags (table_flag ''CURRENT_OBJECTS'') (snd data);
          objects = filter_data flags (table_flag ''OBJECTS'') objects;
          currents = filter_data flags (table_flag ''CURRENT_OBJECTS'') currents;
          (os, io_res) = run_chunks (insert_do_update po_key merge_object) (chunk_o objects) (od_objects db);
          (cs, co_res) = run_chunks (insert_do_update pc_object_address merge_current_object)
             (chunk_c currents) (od_current_objects db)
      in (\<lparr>od_objects = os, od_current_objects = cs\<rparr>,
          if io_res = None \<and> co_res = None then None
          else Some (DBStoreError ''Failed to store versions'')))"

interpretation object_table: idempotent_upsert po_key merge_object
  by unfold_locales (simp_all add: merge_object_def)

interpretation current_object_table:
  versioned_table pc_object_address "\<lambda>c. sint (pc_last_transaction_version c)" take_current_object
    merge_current_object
  by unfold_locales (simp_all add: merge_current_object_def take_current_object_def)

section \<open>Current objects are the latest rows\<close>

definition current_of :: "chain_object \<Rightarrow> current_object" where
  "current_of ob =
     \<lparr>co_object_address = ob_object_address ob, co_owner_address = ob_owner_address ob,
      co_state_key_hash = ob_state_key_hash ob,
      co_allow_ungated_transfer = ob_allow_ungated_transfer ob,
      co_last_guid_creation_num = ob_guid_creation_num ob,
      co_last_transaction_version = ob_transaction_version ob, co_is_deleted = ob_is_deleted ob,
      co_untransferrable = ob_untransferrable ob, co_block_timestamp = ob_block_timestamp ob\<rparr>"

definition latest_object :: "chain_object list \<Rightarrow> string \<Rightarrow> current_object option" where
  "latest_object objects a =
     map_option current_of (find (\<lambda>ob. ob_object_address ob = a) (rev objects))"

definition rows_latest :: "object_rows \<Rightarrow> bool" where
  "rows_latest rows \<longleftrightarrow> distinct (map fst (snd rows)) \<and> map_of (snd rows) = latest_object (fst rows)"

lemma co_address_current_of [simp]: "co_object_address (current_of ob) = ob_object_address ob"
  by (simp add: current_of_def)

lemma latest_object_snoc:
  "latest_object (objects @ [ob]) = (latest_object objects)(ob_object_address ob \<mapsto> current_of ob)"
  by (auto simp: latest_object_def)

lemma push_object_latest:
  "snd oc = current_of (fst oc) \<Longrightarrow> rows_latest rows \<Longrightarrow> rows_latest (push_object oc rows)"
  by (simp add: rows_latest_def push_object_def latest_object_snoc distinct_update update_conv')

lemma object_from_write_row:
  assumes "object_from_write ext wr version index mapping ts = Some oc"
  shows "snd oc = current_of (fst oc)" and "ob_transaction_version (fst oc) = version"
    and "ob_write_set_change_index (fst oc) = index" and "\<not> ob_is_deleted (fst oc)"
    and "ob_object_address (fst oc) = standardize_address ext (wr_address wr)"
  using assms by (auto simp: object_from_write_def current_of_def Let_def split: option.splits)

lemma object_from_delete_row:
  assumes "object_from_delete ext dr version index currents db ts = Inr (Some oc)"
  shows "snd oc = current_of (fst oc)" and "ob_transaction_version (fst oc) = version"
    and "ob_write_set_change_index (fst oc) = index" and "ob_is_deleted (fst oc)"
    and "ob_object_address (fst oc) = standardize_address ext (dr_address dr)"
  using assms
  by (auto simp: object_from_delete_def deleted_object_def current_of_def
      move_resource_from_delete_resource_def Let_def split: if_splits option.splits sum.splits)

lemma build_object_cases:
  assumes "build_object ext db version ts mapping iwsc rows = Inr rows'"
  obtains "rows' = rows" | oc where "rows' = push_object oc rows" and "snd oc = current_of (fst oc)"
    and "ob_transaction_version (fst oc) = version" and "ob_write_set_change_index (fst oc) = of_nat (fst iwsc)"
proof -
  obtain c where c: "snd iwsc = Some c"
    using assms by (cases "snd iwsc") (auto simp: build_object_def unwrap_def)
  show thesis
  proof (cases c)
    case (WriteResource wr)
    note eq = assms [unfolded build_object_def c WriteResource unwrap_Some sum.case change.case]
    show ?thesis
    proof (cases "object_from_write ext wr version (of_nat (fst iwsc)) mapping ts")
      case None
      with eq show ?thesis by (intro that(1)) simp
    next
      case (Some oc)
      with eq object_from_write_row [OF Some] show ?thesis by (intro that(2) [of oc]) simp_all
    qed
  next
    case (DeleteResource dr)
    note eq = assms [unfolded build_object_def c DeleteResource unwrap_Some sum.case change.case]
    show ?thesis
    proof (cases "object_from_delete ext dr version (of_nat (fst iwsc)) (snd rows) db ts")
      case (Inl e)
      with eq show ?thesis by simp
    next
      case (Inr r)
      note run = this
      show ?thesis
      proof (cases r)
        case None
        with eq run show ?thesis by (intro that(1)) simp
      next
        case (Some oc)
        with eq run object_from_delete_row [OF run [unfolded Some]] show ?thesis
          by (intro that(2) [of oc]) simp_all
      qed
    qed
  qed (use assms c that in \<open>simp_all add: build_object_def\<close>)
qed

lemma build_object_latest:
  "build_object ext db version ts mapping iwsc rows = Inr rows' \<Longrightarrow> rows_latest rows \<Longrightarrow> rows_latest rows'"
  using build_object_cases push_object_latest by metis

lemma process_objects_txn_run:
  assumes "process_objects_txn ext db txn state = Inr state'"
  shows "\<exists>info ts. tx_info txn = Some info \<and>
    fold_result (build_object ext db (tx_version txn) ts (fst state'))
      (enumerate 0 (ti_changes info)) (snd state) = Inr (snd state')"
  using assms by (auto simp: process_objects_txn_def split: option.splits sum.splits)

lemma process_objects_txn_latest:
  assumes "process_objects_txn ext db txn state = Inr state'" and "rows_latest (snd state)"
  shows "rows_latest (snd state')"
proof -
  obtain info :: transaction_info and ts where run: "fold_result (build_object ext db (tx_version txn) ts (fst state'))
      (enumerate 0 (ti_changes info)) (snd state) = Inr (snd state')"
    using process_objects_txn_run [OF assms(1)] by blast
  show ?thesis
    by (rule fold_result_inv [where P = rows_latest, OF _ run assms(2)]) (rule build_object_latest)
qed

lemma process_objects_latest:
  assumes "fold_result (process_objects_txn ext db) txns (Map.empty, ([], [])) = Inr state"
  shows "rows_latest (snd state)"
proof (rule fold_result_inv [where P = "\<lambda>state. rows_latest (snd state)", OF _ assms])
  show "rows_latest (snd (Map.empty, ([], [])))" by (simp add: rows_latest_def latest_object_def fun_eq_iff)
qed (blast intro: process_objects_txn_latest)

lemma rows_latest_values:
  assumes "rows_latest (objects, currents)"
  shows "map co_object_address (map snd currents) = map fst currents"
    and "c \<in> set (map snd currents) \<longleftrightarrow> latest_object objects (co_object_address c) = Some c"
proof -
  have d: "distinct (map fst currents)" and m: "map_of currents = latest_object objects"
    using assms by (simp_all add: rows_latest_def)
  have key: "co_object_address c = a" if "(a, c) \<in> set currents" for a c
  proof -
    have "latest_object objects a = Some c" using that d m map_of_is_SomeI by metis
    then show ?thesis by (auto simp: latest_object_def find_Some_iff)
  qed
  then show "map co_object_address (map snd currents) = map fst currents" by auto
  show "c \<in> set (map snd currents) \<longleftrightarrow> latest_object objects (co_object_address c) = Some c"
  proof
    assume "c \<in> set (map snd currents)"
    then obtain a where "(a, c) \<in> set currents" by auto
    with key d m show "latest_object objects (co_object_address c) = Some c"
      by (metis map_of_is_SomeI)
  next
    assume "latest_object objects (co_object_address c) = Some c"
    then have "(co_object_address c, c) \<in> set currents" using m map_of_SomeD by metis
    then show "c \<in> set (map snd currents)" by force
  qed
qed

text \<open>
  Claim C21: The current objects of a batch are sorted by address without duplicates, and the one
  at an address is exactly what the last object row of the batch for that address says.
\<close>

theorem current_objects_are_latest_rows:
  assumes "process_objects ext db txns = Inr (objects, currents)"
  shows "sorted (map co_object_address currents) \<and> distinct (map co_object_address currents) \<and>
    set currents = {c. latest_object objects (co_object_address c) = Some c}"
proof -
  obtain mapping pairs where run:
    "fold_result (process_objects_txn ext db) txns (Map.empty, ([], [])) = Inr (mapping, (objects, pairs))"
    "currents = sort_key co_object_address (map snd pairs)"
    using assms by (auto simp: process_objects_def split: sum.splits)
  have inv: "rows_latest (objects, pairs)" using process_objects_latest [OF run(1)] by simp
  have "distinct (map co_object_address (map snd pairs))"
    unfolding rows_latest_values(1) [OF inv] using inv by (simp add: rows_latest_def)
  then have "distinct (map co_object_address currents)"
    unfolding run(2) by (rule distinct_map_sort_key)
  moreover have "set currents = {c. latest_object objects (co_object_address c) = Some c}"
    using rows_latest_values(2) [OF inv] unfolding run(2) set_sort by blast
  ultimately show ?thesis by (simp add: run(2))
qed

definition sample_object_ctx :: db_context where
  "sample_object_ctx = \<lparr>dc_query_retries = 2, dc_get_by_address = (\<lambda>version index tried address. None)\<rparr>"

definition sample_object_txns :: "transaction list" where
  "sample_object_txns =
     [sample_user_txn 5 [sample_write ''0xc'' ''ObjectCore'' ''core'', sample_write ''0xb'' ''ObjectCore'' ''core2'',
        sample_write ''0xb'' ''Untransferable'' ''untransferable''],
      sample_user_txn 6 [sample_delete ''0xc'']]"

definition sample_objects :: "chain_object list \<times> current_object list" where
  "sample_objects = (case process_objects sample_world (Some sample_object_ctx) sample_object_txns of
     Inl _ \<Rightarrow> ([], []) | Inr out \<Rightarrow> out)"

lemma sample_objects_run:
  "process_objects sample_world (Some sample_object_ctx) sample_object_txns = Inr (fst sample_objects, snd sample_objects)"
  unfolding sample_objects_def by code_simp

theorem current_objects_are_latest_rows_witness:
  "length (fst sample_objects) = 4 \<and> length (snd sample_objects) = 2 \<and>
   sorted (map co_object_address (snd sample_objects))"
proof -
  have "length (fst sample_objects) = 4" "length (snd sample_objects) = 2" by code_simp+
  then show ?thesis using current_objects_are_latest_rows [OF sample_objects_run] by blast
qed

section \<open>Keys of the rows\<close>

definition ob_key :: "chain_object \<Rightarrow> i64 \<times> i64" where
  "ob_key ob = (ob_transaction_version ob, ob_write_set_change_index ob)"

definition changes_fit :: "transaction \<Rightarrow> bool" where
  "changes_fit txn \<longleftrightarrow> (case tx_info txn of None \<Rightarrow> True | Some info \<Rightarrow> length (ti_changes info) \<le> 2 ^ 64)"

lemma build_objects_new_rows:
  "fold_result (build_object ext db version ts mapping) (enumerate n cs) rows = Inr rows' \<Longrightarrow>
     \<exists>new idx. fst rows' = fst rows @ new \<and> map ob_key new = map (\<lambda>i. (version, of_nat i)) idx \<and>
       distinct idx \<and> set idx \<subseteq> {n..<n + length cs}"
proof (induction cs arbitrary: n rows)
  case Nil
  then show ?case by simp
next
  case (Cons c cs)
  then obtain mid where mid: "build_object ext db version ts mapping (n, c) rows = Inr mid"
      "fold_result (build_object ext db version ts mapping) (enumerate (Suc n) cs) mid = Inr rows'"
    by (auto split: sum.splits)
  obtain new idx where ih: "fst rows' = fst mid @ new" "map ob_key new = map (\<lambda>i. (version, of_nat i)) idx"
      "distinct idx" "set idx \<subseteq> {Suc n..<Suc n + length cs}"
    using Cons.IH [OF mid(2)] by blast
  from mid(1) show ?case
  proof (cases rule: build_object_cases)
    case 1
    with ih show ?thesis by (intro exI [of _ new] exI [of _ idx]) (auto dest: subsetD)
  next
    case (2 oc)
    then have "ob_key (fst oc) = (version, of_nat n)" by (simp add: ob_key_def)
    with ih 2(1) show ?thesis
      by (intro exI [of _ "fst oc # new"] exI [of _ "n # idx"])
        (auto simp: push_object_def dest: subsetD)
  qed
qed

lemma txn_object_keys:
  assumes "process_objects_txn ext db txn state = Inr state'" and "changes_fit txn"
  shows "\<exists>new. fst (snd state') = fst (snd state) @ new \<and> distinct (map ob_key new) \<and>
    (\<forall>ob \<in> set new. ob_transaction_version ob = tx_version txn)"
proof -
  obtain info ts where run: "tx_info txn = Some info"
      "fold_result (build_object ext db (tx_version txn) ts (fst state'))
        (enumerate 0 (ti_changes info)) (snd state) = Inr (snd state')"
    using process_objects_txn_run [OF assms(1)] by blast
  from build_objects_new_rows [OF run(2)] obtain new idx where new:
    "fst (snd state') = fst (snd state) @ new"
    "map ob_key new = map (\<lambda>i. (tx_version txn, of_nat i)) idx"
    "distinct idx" "set idx \<subseteq> {0..<0 + length (ti_changes info)}" by blast
  have small: "i < 2 ^ 64" if "i \<in> set idx" for i
    using that new(4) run(1) assms(2) by (fastforce simp: changes_fit_def)
  have "inj_on (\<lambda>i. (tx_version txn, of_nat i :: i64)) (set idx)"
    by (rule inj_onI) (use small of_nat_i64_inj in blast)
  then have "distinct (map ob_key new)" unfolding new(2) by (simp add: distinct_map new(3))
  moreover have "ob_transaction_version ob = tx_version txn" if "ob \<in> set new" for ob
  proof -
    have "ob_key ob \<in> set (map ob_key new)" using that by simp
    then show ?thesis unfolding new(2) by (auto simp: ob_key_def)
  qed
  ultimately show ?thesis using new(1) by blast
qed

lemma batch_object_keys:
  "fold_result (process_objects_txn ext db) txns state = Inr state' \<Longrightarrow> distinct (map tx_version txns) \<Longrightarrow>
   list_all changes_fit txns \<Longrightarrow>
     \<exists>new. fst (snd state') = fst (snd state) @ new \<and> distinct (map ob_key new) \<and>
       (\<forall>ob \<in> set new. ob_transaction_version ob \<in> tx_version ` set txns)"
proof (induction txns arbitrary: state)
  case Nil
  then show ?case by simp
next
  case (Cons txn txns)
  then obtain mid where mid: "process_objects_txn ext db txn state = Inr mid"
      "fold_result (process_objects_txn ext db) txns mid = Inr state'"
    by (auto split: sum.splits)
  obtain new where new: "fst (snd mid) = fst (snd state) @ new" "distinct (map ob_key new)"
      "\<forall>ob \<in> set new. ob_transaction_version ob = tx_version txn"
    using txn_object_keys [OF mid(1)] Cons.prems(3) by auto
  obtain rest where rest: "fst (snd state') = fst (snd mid) @ rest" "distinct (map ob_key rest)"
      "\<forall>ob \<in> set rest. ob_transaction_version ob \<in> tx_version ` set txns"
    using Cons.IH [OF mid(2)] Cons.prems(2,3) by auto
  have "ob_key ob \<noteq> ob_key ob'" if "ob \<in> set new" "ob' \<in> set rest" for ob ob'
    using new(3) rest(3) that Cons.prems(2) by (auto simp: ob_key_def)
  then have "set (map ob_key new) \<inter> set (map ob_key rest) = {}" by fastforce
  with new rest have "fst (snd state') = fst (snd state) @ (new @ rest)" "distinct (map ob_key (new @ rest))"
    by simp_all
  moreover have "\<forall>ob \<in> set (new @ rest). ob_transaction_version ob \<in> tx_version ` set (txn # txns)"
    using new(3) rest(3) by auto
  ultimately show ?case by blast
qed

lemma process_objects_keys:
  assumes "process_objects ext db txns = Inr (objects, currents)" and "distinct (map tx_version txns)"
    and "list_all changes_fit txns"
  shows "distinct (map ob_key objects)" and "distinct (map co_object_address currents)"
proof -
  obtain mapping pairs where run:
    "fold_result (process_objects_txn ext db) txns (Map.empty, ([], [])) = Inr (mapping, (objects, pairs))"
    "currents = sort_key co_object_address (map snd pairs)"
    using assms(1) by (auto simp: process_objects_def split: sum.splits)
  from batch_object_keys [OF run(1) assms(2,3)] show "distinct (map ob_key objects)" by simp
  have inv: "rows_latest (objects, pairs)" using process_objects_latest [OF run(1)] by simp
  have "distinct (map co_object_address (map snd pairs))"
    unfolding rows_latest_values(1) [OF inv] using inv by (simp add: rows_latest_def)
  then show "distinct (map co_object_address currents)"
    unfolding run(2) by (rule distinct_map_sort_key)
qed

section \<open>Storing a batch\<close>

lemma objects_store_distinct:
  assumes "distinct (map po_key (fst data))" and "distinct (map pc_object_address (snd data))"
    and "\<And>xs. concat (chunk_o xs) = xs" and "\<And>xs. concat (chunk_c xs) = xs"
  shows "objects_store chunk_o chunk_c flags data db =
    (\<lparr>od_objects = fold (upsert po_key merge_object)
        (filter_data flags (table_flag ''OBJECTS'') (fst data)) (od_objects db),
      od_current_objects = fold (upsert pc_object_address merge_current_object)
        (filter_data flags (table_flag ''CURRENT_OBJECTS'') (snd data)) (od_current_objects db)\<rparr>, None)"
  unfolding objects_store_def Let_def filter_data_idem
  by (simp add: object_table.run_chunks_distinct current_object_table.run_chunks_distinct
      filter_data_distinct assms)

text \<open>
  The objects storer accepts every batch of transactions with distinct versions
  however its rows are cut into chunks, and storing the batch a second time changes neither
  table.
\<close>

theorem objects_batch_stored_once:
  assumes "objects_extract ext ctx txns = Inr data" and "distinct (map tx_version txns)"
    and "list_all changes_fit txns"
    and "\<And>xs. concat (chunk_o xs) = xs" and "\<And>xs. concat (chunk_c xs) = xs"
  shows "\<exists>db'. objects_store chunk_o chunk_c flags data db = (db', None) \<and>
    objects_store chunk_o chunk_c flags data db' = (db', None)"
proof -
  obtain objects currents where run: "process_objects ext (Some ctx) txns = Inr (objects, currents)"
      "fst data = map postgres_object_of objects" "snd data = map postgres_current_object_of currents"
    using assms(1) by (auto simp: objects_extract_def split: sum.splits)
  have "map po_key (fst data) = map ob_key objects"
    "map pc_object_address (snd data) = map co_object_address currents"
    by (simp_all add: run(2,3) po_key_def ob_key_def postgres_object_of_def postgres_current_object_of_def)
  then have d: "distinct (map po_key (fst data))" "distinct (map pc_object_address (snd data))"
    using process_objects_keys [OF run(1) assms(2,3)] by simp_all
  note store = objects_store_distinct [OF d assms(4,5)]
  show ?thesis
    by (simp add: store object_table.fold_upsert_twice current_object_table.fold_upsert_twice
        filter_data_distinct d)
qed

lemma sample_changes_fit: "length cs \<le> 2 ^ 64 \<Longrightarrow> changes_fit (sample_user_txn v cs)"
  by (simp add: changes_fit_def sample_user_txn_def)

lemma sample_object_txns_fit: "list_all changes_fit sample_object_txns"
  unfolding sample_object_txns_def list.pred_inject
  by (intro conjI sample_changes_fit TrueI) simp_all

theorem objects_batch_stored_once_witness:
  "\<exists>data db'. objects_extract sample_world sample_object_ctx sample_object_txns = Inr data \<and>
     objects_store (map (\<lambda>x. [x])) (\<lambda>xs. [xs]) 0 data \<lparr>od_objects = [], od_current_objects = []\<rparr> = (db', None) \<and>
     objects_store (map (\<lambda>x. [x])) (\<lambda>xs. [xs]) 0 data db' = (db', None)"
proof -
  obtain data where data: "objects_extract sample_world sample_object_ctx sample_object_txns = Inr data"
    using sample_objects_run by (simp add: objects_extract_def case_prod_unfold)
  have "distinct (map tx_version sample_object_txns)" by code_simp
  from objects_batch_stored_once [OF data this sample_object_txns_fit,
      of "map (\<lambda>x. [x])" "\<lambda>xs. [xs]" 0 "\<lparr>od_objects = [], od_current_objects = []\<rparr>"] data
  show ?thesis by auto
qed

text \<open>
  Claim C22: Whatever the storer is given, in whatever order batches arrive and even when chunks
  fail, the version stored for an object address never decreases and the address stays in the
  table.
\<close>

theorem current_object_never_regresses:
  assumes "find_row pc_object_address address (od_current_objects db) = Some r"
  shows "\<exists>r'. find_row pc_object_address address
      (od_current_objects (fst (objects_store chunk_o chunk_c flags data db))) = Some r' \<and>
    sint (pc_last_transaction_version r) \<le> sint (pc_last_transaction_version r')"
  using current_object_table.row_never_regresses [OF assms]
  by (simp add: objects_store_def Let_def case_prod_unfold)

theorem current_object_never_regresses_witness:
  "\<exists>r'. find_row pc_object_address ''0xb'' (od_current_objects (fst (objects_store (\<lambda>xs. [xs]) (\<lambda>xs. [xs]) 0
       ([], [postgres_current_object_of (hd (snd sample_objects))])
       \<lparr>od_objects = [], od_current_objects = [(postgres_current_object_of (hd (snd sample_objects)))
          \<lparr>pc_object_address := ''0xb'', pc_last_transaction_version := 9\<rparr>]\<rparr>))) = Some r' \<and>
     9 \<le> sint (pc_last_transaction_version r')"
  using current_object_never_regresses [of "''0xb''" "\<lparr>od_objects = [], od_current_objects =
      [(postgres_current_object_of (hd (snd sample_objects)))
        \<lparr>pc_object_address := ''0xb'', pc_last_transaction_version := 9\<rparr>]\<rparr>" _
      "\<lambda>xs. [xs]" "\<lambda>xs. [xs]" 0 "([], [postgres_current_object_of (hd (snd sample_objects))])"]
  by (auto simp: find_row_Cons)

section \<open>Deletions\<close>

lemma get_current_object_attempts:
  "get_current_object lookup query_retries tried =
     (case find_map lookup [Suc tried..<Suc query_retries] of
        Some res \<Rightarrow> Inr (res\<lparr>co_block_timestamp := 0\<rparr>)
      | None \<Rightarrow> Inl (ProcessError ''Failed to get object owner''))"
proof (induction lookup query_retries tried rule: get_current_object.induct)
  case (1 lookup query_retries tried)
  show ?case
  proof (cases "tried < query_retries")
    case True
    then have "[Suc tried..<Suc query_retries] = Suc tried # [Suc (Suc tried)..<Suc query_retries]"
      by (simp add: upt_conv_Cons)
    with 1 True show ?thesis
      by (subst get_current_object.simps) (simp split: option.split)
  next
    case False
    then show ?thesis by (subst get_current_object.simps) simp
  qed
qed

text \<open>
  Looking up a deleted object asks the database at most \<open>query_retries\<close> times; it
  returns the first answer with its timestamp reset, and an error when no attempt of those is
  answered, in particular at once when no attempt is allowed.
\<close>

theorem object_lookup_is_bounded:
  "get_current_object lookup query_retries 0 =
     (case find_map lookup [1..<Suc query_retries] of
        Some res \<Rightarrow> Inr (res\<lparr>co_block_timestamp := 0\<rparr>)
      | None \<Rightarrow> Inl (ProcessError ''Failed to get object owner''))"
  by (simp add: get_current_object_attempts)









section \<open>The metadata map outlives a deletion\<close>

text \<open>
  The metadata of an object stays in the map after its deletion, so a later write of
  any resource at the address, in the same batch, records the object as alive with its old owner
  again; cut between the two transactions, the batch records the deletion as the last state.
\<close>

theorem deleted_object_revived_within_batch:
  "\<exists>txns1 txns2 one two_a two_b.
     process_objects sample_world (Some sample_object_ctx) (txns1 @ txns2) = Inr one \<and>
     process_objects sample_world (Some sample_object_ctx) txns1 = Inr two_a \<and>
     process_objects sample_world (Some sample_object_ctx) txns2 = Inr two_b \<and>
     map co_is_deleted (snd one) = [False] \<and> map co_is_deleted (snd two_a) = [True] \<and> two_b = ([], [])"
proof -
  let ?a = "[sample_user_txn 5 [sample_write ''0xc'' ''ObjectCore'' ''core''], sample_user_txn 6 [sample_delete ''0xc'']]"
  let ?b = "[sample_user_txn 7 [sample_write ''0xc'' ''Other'' ''other'']]"
  have "(case (process_objects sample_world (Some sample_object_ctx) (?a @ ?b),
      process_objects sample_world (Some sample_object_ctx) ?a, process_objects sample_world (Some sample_object_ctx) ?b) of
      (Inr one, Inr a, Inr b) \<Rightarrow> map co_is_deleted (snd one) = [False] \<and>
        map co_is_deleted (snd a) = [True] \<and> b = ([], [])
    | _ \<Rightarrow> False)" by code_simp
  then show ?thesis
    by (intro exI [of _ ?a] exI [of _ ?b]) (auto split: sum.splits)
qed

end
