(* ===== verification/RowMaps.thy ===== *)
theory RowMaps
  imports Prelude "HOL-Library.AList" "HOL-Library.Product_Lexorder"
begin

text \<open>
  Hash maps that the extractors fill row by row and then sort by primary key.  A map is an
  association list with distinct keys; \<open>insert\<close> is \<open>AList.update\<close>.  The one fact every extractor
  needs is \<open>holds_latest\<close>: after the rows of a batch went in, the map holds for each key what the
  last row of the batch for that key says.
\<close>

definition latest :: "('r \<Rightarrow> 'k) \<Rightarrow> ('r \<Rightarrow> 'v) \<Rightarrow> 'r list \<Rightarrow> 'k \<Rightarrow> 'v option" where
  "latest key cur rows k = map_option cur (find (\<lambda>r. key r = k) (rev rows))"

definition holds_latest :: "('r \<Rightarrow> 'k) \<Rightarrow> ('r \<Rightarrow> 'v) \<Rightarrow> 'r list \<Rightarrow> ('k \<times> 'v) list \<Rightarrow> bool" where
  "holds_latest key cur rows m \<longleftrightarrow> distinct (map fst m) \<and> map_of m = latest key cur rows"

lemma latest_Nil [simp]: "latest key cur [] k = None"
  by (simp add: latest_def)

lemma latest_snoc: "latest key cur (rows @ [r]) = (latest key cur rows)(key r \<mapsto> cur r)"
  by (auto simp: latest_def)

lemma latest_None_iff: "latest key cur rows k = None \<longleftrightarrow> k \<notin> key ` set rows"
  by (auto simp: latest_def find_None_iff)

lemma latest_SomeD:
  "latest key cur rows k = Some c \<Longrightarrow> \<exists>r \<in> set rows. key r = k \<and> cur r = c"
  by (auto simp: latest_def find_Some_iff)
    (metis (no_types, lifting) length_rev nth_mem set_rev)

lemma holds_latest_Nil [simp]: "holds_latest key cur [] []"
  by (auto simp: holds_latest_def fun_eq_iff)

lemma holds_latest_snoc [wf_intros]:
  "holds_latest key cur rows m \<Longrightarrow>
     holds_latest key cur (rows @ [r]) (AList.update (key r) (cur r) m)"
  by (auto simp: holds_latest_def distinct_update latest_snoc AList.update_conv')

lemma holds_latest_keys:
  assumes "holds_latest key cur rows m" and "\<And>r. ckey (cur r) = key r"
  shows "map (\<lambda>e. ckey (snd e)) m = map fst m"
proof (rule map_cong [OF refl])
  fix e assume "e \<in> set m"
  moreover have "distinct (map fst m)" using assms(1) by (simp add: holds_latest_def)
  ultimately have "map_of m (fst e) = Some (snd e)" by (simp add: map_of_is_SomeI)
  then have "latest key cur rows (fst e) = Some (snd e)" using assms(1) by (simp add: holds_latest_def)
  then show "ckey (snd e) = fst e" using latest_SomeD assms(2) by metis
qed

lemma holds_latest_values:
  assumes "holds_latest key cur rows m" and "\<And>r. ckey (cur r) = key r"
  shows "distinct (map ckey (map snd m))"
    and "set (map snd m) = {c. latest key cur rows (ckey c) = Some c}"
proof -
  have eq: "map ckey (map snd m) = map fst m"
    using holds_latest_keys [of key cur rows m ckey, OF assms] by (simp add: comp_def)
  show "distinct (map ckey (map snd m))" unfolding eq using assms(1) by (simp add: holds_latest_def)
  have m: "map_of m = latest key cur rows" "distinct (map fst m)"
    using assms(1) by (simp_all add: holds_latest_def)
  show "set (map snd m) = {c. latest key cur rows (ckey c) = Some c}"
  proof (intro set_eqI iffI)
    fix c assume "c \<in> set (map snd m)"
    then obtain k where k: "(k, c) \<in> set m" by auto
    then have "map_of m k = Some c" using m(2) by (simp add: map_of_is_SomeI)
    then have "latest key cur rows k = Some c" using m(1) by simp
    moreover from this have "ckey c = k" using latest_SomeD assms(2) by metis
    ultimately show "c \<in> {c. latest key cur rows (ckey c) = Some c}" by simp
  next
    fix c assume "c \<in> {c. latest key cur rows (ckey c) = Some c}"
    then have "map_of m (ckey c) = Some c" using m(1) by simp
    then have "(ckey c, c) \<in> set m" by (rule map_of_SomeD)
    then show "c \<in> set (map snd m)" by (metis image_eqI list.set_map snd_conv)
  qed
qed

text \<open>Sorting the values by their key does not change which rows there are.\<close>

lemma sorted_latest_values:
  assumes "holds_latest key cur rows m" and "\<And>r. ckey (cur r) = key r"
  shows "sorted (map ckey (sort_key ckey (map snd m))) \<and>
    distinct (map ckey (sort_key ckey (map snd m))) \<and>
    set (sort_key ckey (map snd m)) = {c. latest key cur rows (ckey c) = Some c}"
proof -
  note v = holds_latest_values [of key cur rows m ckey, OF assms]
  have "distinct (map ckey (sort_key ckey (map snd m)))"
    using v(1) by (metis distinct_map distinct_sort set_sort)
  with v(2) show ?thesis by simp
qed

text \<open>\<open>HashMap::extend\<close> inserts the entries of another map one by one.\<close>

definition extend_map :: "('k \<times> 'v) list \<Rightarrow> ('k \<times> 'v) list \<Rightarrow> ('k \<times> 'v) list" where
  "extend_map new m = fold (\<lambda>(k, v). AList.update k v) new m"

lemma distinct_extend_map:
  "distinct (map fst m) \<Longrightarrow> distinct (map fst (extend_map new m))"
  unfolding extend_map_def by (induction new arbitrary: m) (auto simp: distinct_update)

lemma map_of_extend_map:
  "distinct (map fst new) \<Longrightarrow> map_of (extend_map new m) = map_of m ++ map_of new"
proof (induction new arbitrary: m)
  case (Cons e new)
  obtain k v where e: "e = (k, v)" by (cases e)
  have "map_of (extend_map (e # new) m) = map_of (AList.update k v m) ++ map_of new"
    using Cons by (simp add: extend_map_def e)
  also have "\<dots> = map_of m ++ map_of (e # new)"
    using Cons.prems by (auto simp: e AList.update_conv' map_add_def map_of_eq_None_iff [symmetric]
        intro!: ext split: option.splits)
  finally show ?case .
qed (simp add: extend_map_def)

text \<open>A map whose values carry their key.\<close>

definition keyed_by :: "('v \<Rightarrow> 'k) \<Rightarrow> ('k \<times> 'v) list \<Rightarrow> bool" where
  "keyed_by f m \<longleftrightarrow> distinct (map fst m) \<and> (\<forall>e \<in> set m. f (snd e) = fst e)"

lemma keyed_by_Nil [simp]: "keyed_by f []"
  by (simp add: keyed_by_def)

lemma mem_update: "e \<in> set (AList.update k v m) \<Longrightarrow> e = (k, v) \<or> e \<in> set m"
  by (induction m) (auto split: if_splits)

lemma keyed_by_update [wf_intros]: "keyed_by f m \<Longrightarrow> f v = k \<Longrightarrow> keyed_by f (AList.update k v m)"
  by (auto simp: keyed_by_def distinct_update dest!: mem_update)

lemma mem_extend_map: "e \<in> set (extend_map new m) \<Longrightarrow> e \<in> set new \<or> e \<in> set m"
  unfolding extend_map_def
  by (induction new arbitrary: m) (auto dest!: mem_update)

lemma keyed_by_extend_map [wf_intros]:
  "keyed_by f new \<Longrightarrow> keyed_by f m \<Longrightarrow> keyed_by f (extend_map new m)"
  by (auto simp: keyed_by_def distinct_extend_map dest!: mem_extend_map)

lemma keyed_by_values:
  assumes "keyed_by f m" shows "map f (map snd m) = map fst m"
  using assms by (auto simp: keyed_by_def)

lemma keyed_by_distinct: "keyed_by f m \<Longrightarrow> distinct (map f (sort_key f (map snd m)))"
  using keyed_by_values [of f m]
  by (metis distinct_map distinct_sort keyed_by_def set_sort)

lemma keyed_by_fold_extend:
  "(\<And>t. t \<in> set ts \<Longrightarrow> keyed_by f (g t)) \<Longrightarrow> keyed_by f m \<Longrightarrow> keyed_by f (fold (\<lambda>t. extend_map (g t)) ts m)"
  by (induction ts arbitrary: m) (auto intro: keyed_by_extend_map)

lemma mem_fold_extend:
  "e \<in> set (fold (\<lambda>t. extend_map (g t)) ts m) \<Longrightarrow> (\<exists>t \<in> set ts. e \<in> set (g t)) \<or> e \<in> set m"
proof (induction ts arbitrary: m)
  case (Cons t ts)
  then have "(\<exists>t \<in> set ts. e \<in> set (g t)) \<or> e \<in> set (extend_map (g t) m)" by simp
  then show ?case using mem_extend_map [of e "g t" m] by auto
qed simp

text \<open>Maps of parts of a batch and of projections of rows.\<close>

lemma latest_append: "latest key cur (xs @ ys) = latest key cur xs ++ latest key cur ys"
proof (induction ys rule: rev_induct)
  case (snoc y ys)
  then show ?case by (simp only: append_assoc [symmetric] latest_snoc map_add_upd)
qed (auto simp: map_add_def fun_eq_iff)

lemma holds_latest_extend [wf_intros]:
  "holds_latest key cur rows m \<Longrightarrow> holds_latest key cur new n \<Longrightarrow> holds_latest key cur (rows @ new) (extend_map n m)"
  by (simp add: holds_latest_def distinct_extend_map map_of_extend_map latest_append)

definition map_values :: "('v \<Rightarrow> 'w) \<Rightarrow> ('k \<times> 'v) list \<Rightarrow> ('k \<times> 'w) list" where
  "map_values f m = map (\<lambda>(k, v). (k, f v)) m"

lemma map_values_Nil [simp]: "map_values f [] = []"
  by (simp add: map_values_def)

lemma map_values_Cons [simp]: "map_values f ((k, v) # m) = (k, f v) # map_values f m"
  by (simp add: map_values_def)

lemma map_values_update [simp]: "map_values f (AList.update k v m) = AList.update k (f v) (map_values f m)"
  by (induction m) (auto simp: map_values_def)

lemma map_values_extend [simp]: "map_values f (extend_map n m) = extend_map (map_values f n) (map_values f m)"
proof (induction n arbitrary: m)
  case (Cons e n)
  then show ?case by (cases e) (simp add: extend_map_def)
qed (simp add: extend_map_def)

lemma snd_map_values: "map snd (map_values f m) = map f (map snd m)"
  by (auto simp: map_values_def)

end
