(* ===== verification/AccountRestoration.thy ===== *)
theory AccountRestoration
  imports UserTransactions RowMaps
begin

text \<open>
  The account restoration processor (\<open>processors/account_restoration\<close>): which authentication
  key an account has, and which public keys stand behind a multi-key authentication key.

  Outside the repository: BCS coding (\<open>bcs_env\<close>).  The readers of the token resources that the
  processor parses and ignores enter as the predicate \<open>readable\<close>: whether the resource has the
  shape its type asks for.  Byte arithmetic wraps, as in a release build.
\<close>

unbundle bit_operations_syntax

section \<open>Key rotation events\<close>

record key_rotation_event =
  kr_new_auth_key :: bytes
  kr_old_auth_key :: bytes
  kr_public_key :: bytes
  kr_public_key_scheme :: u8
  kr_verified_public_key_bit_map :: bytes

definition bytes_from_hex_with_0x :: "extern \<Rightarrow> json \<Rightarrow> bytes option" where
  "bytes_from_hex_with_0x ext v =
     opt_and_then (opt_and_then (json_as_str v) (strip_prefix ''0x'')) (hex_decode ext)"

definition json_u8 :: "json \<Rightarrow> u8 option" where
  "json_u8 v =
     (case v of
        JNumber n \<Rightarrow> (case parse_digits n of None \<Rightarrow> None | Some k \<Rightarrow> if k < 256 then Some (word_of_int k) else None)
      | _ \<Rightarrow> None)"

definition key_rotation_from_json :: "extern \<Rightarrow> json \<Rightarrow> key_rotation_event option" where
  "key_rotation_from_json ext v =
     (let hex_field = (\<lambda>name. opt_and_then (json_get v name) (bytes_from_hex_with_0x ext))
      in case (hex_field ''new_auth_key'', hex_field ''old_auth_key'', hex_field ''public_key'',
               opt_and_then (json_get v ''public_key_scheme'') json_u8,
               hex_field ''verified_public_key_bit_map'') of
           (Some n, Some old, Some pk, Some scheme, Some bits) \<Rightarrow>
             Some \<lparr>kr_new_auth_key = n, kr_old_auth_key = old, kr_public_key = pk,
               kr_public_key_scheme = scheme, kr_verified_public_key_bit_map = bits\<rparr>
         | _ \<Rightarrow> None)"

definition key_rotation_from_event :: "extern \<Rightarrow> string \<Rightarrow> string \<Rightarrow> key_rotation_event option result" where
  "key_rotation_from_event ext data_type data =
     (if data_type = ''0x1::account::KeyRotationToPublicKey'' then
        (case opt_and_then (json_from_str ext data) (key_rotation_from_json ext) of
           None \<Rightarrow> Inl (Panic ''failed to parse event for key rotation to public key'')
         | Some ev \<Rightarrow> Inr (Some ev))
      else Inr None)"

definition key_rotation_from_transaction :: "extern \<Rightarrow> transaction \<Rightarrow> key_rotation_event option result" where
  "key_rotation_from_transaction ext txn =
     (case tx_data txn of
        Some (TxnUser inner) \<Rightarrow>
          find_map_result (\<lambda>ev. key_rotation_from_event ext (ev_type_str ev) (ev_data ev)) (ut_events inner)
      | _ \<Rightarrow> Inr None)"

definition get_verified_public_key_indices :: "key_rotation_event \<Rightarrow> nat list" where
  "get_verified_public_key_indices ev =
     concat (map (\<lambda>(byte_idx, byte).
         map (\<lambda>bit_idx. byte_idx * 8 + bit_idx)
           (filter (\<lambda>bit_idx. byte AND drop_bit bit_idx 0x80 \<noteq> 0) [0..<8]))
       (enumerate 0 (kr_verified_public_key_bit_map ev)))"

section \<open>Public keys behind an authentication key\<close>

record public_key_auth_key =
  pk_public_key :: string
  pk_public_key_type :: string
  pk_auth_key :: string
  pk_account_public_key :: string
  pk_is_public_key_used :: bool
  pk_last_transaction_version :: i64
  pk_signature_type :: string

record auth_key_account_address =
  ak_auth_key :: string
  ak_account_address :: string
  ak_last_transaction_version :: i64
  ak_is_auth_key_used :: bool

record helper_inner =
  hi_public_key :: string
  hi_public_key_type :: string
  hi_is_public_key_used :: bool

record key_helper =
  kh_keys :: "helper_inner list"
  kh_account_public_key :: string
  kh_signature_type :: string

record keyless_public_key =
  kl_iss_val :: string
  kl_idc :: bytes

datatype any_public_key_struct = PkEd25519 bytes | PkSecp256k1Ecdsa bytes | PkSecp256r1Ecdsa bytes
  | PkKeyless keyless_public_key | PkFederatedKeyless bytes keyless_public_key

record bcs_env =
  bcs_multi_key :: "bytes \<Rightarrow> (any_public_key_struct list \<times> u8) option"
  bcs_keyless :: "keyless_public_key \<Rightarrow> bytes"
  bcs_federated :: "bytes \<Rightarrow> keyless_public_key \<Rightarrow> bytes"

definition max_account_public_key_length :: nat where
  "max_account_public_key_length = 13000"

primrec to_string_without_variant :: "extern \<Rightarrow> bcs_env \<Rightarrow> any_public_key_struct \<Rightarrow> string" where
  "to_string_without_variant ext env (PkEd25519 k) = hex0x ext k"
| "to_string_without_variant ext env (PkSecp256k1Ecdsa k) = hex0x ext k"
| "to_string_without_variant ext env (PkSecp256r1Ecdsa k) = hex0x ext k"
| "to_string_without_variant ext env (PkKeyless k) = hex0x ext (bcs_keyless env k)"
| "to_string_without_variant ext env (PkFederatedKeyless a k) = hex0x ext (bcs_federated env a k)"

primrec get_public_key_type :: "any_public_key_struct \<Rightarrow> string" where
  "get_public_key_type (PkEd25519 k) = ''ed25519''"
| "get_public_key_type (PkSecp256k1Ecdsa k) = ''secp256k1_ecdsa''"
| "get_public_key_type (PkSecp256r1Ecdsa k) = ''secp256r1_ecdsa''"
| "get_public_key_type (PkKeyless k) = ''keyless''"
| "get_public_key_type (PkFederatedKeyless a k) = ''federated_keyless''"

definition any_public_key_to_serialized_string :: "extern \<Rightarrow> sdk \<Rightarrow> any_public_key \<Rightarrow> string" where
  "any_public_key_to_serialized_string ext sdk key =
     hex_encode ext [ucast (apk_type key) - 1] @
     (case any_public_key_enum sdk (apk_type key) of
        KeyEd25519 \<Rightarrow> ''20''
      | KeySecp256k1Ecdsa \<Rightarrow> ''41''
      | KeySecp256r1Ecdsa \<Rightarrow> ''41''
      | _ \<Rightarrow> []) @
     hex_encode ext (apk_public_key key)"

fun nat_to_hex :: "nat \<Rightarrow> string" where
  "nat_to_hex n =
     (if n < 16 then [''0123456789abcdef'' ! n]
      else nat_to_hex (n div 16) @ [''0123456789abcdef'' ! (n mod 16)])"

declare nat_to_hex.simps [simp del]

definition format_02x :: "u32 \<Rightarrow> string" where
  "format_02x w = (let h = nat_to_hex (unat w) in replicate (2 - length h) CHR ''0'' @ h)"

definition create_helper_from_multi_ed25519_sig :: "extern \<Rightarrow> multi_ed25519_signature \<Rightarrow> key_helper" where
  "create_helper_from_multi_ed25519_sig ext sig =
     (let indices = get_public_key_indices_from_multi_ed25519_signature sig
      in \<lparr>kh_keys = map (\<lambda>(index, key). \<lparr>hi_public_key = hex0x ext key, hi_public_key_type = ''ed25519'',
            hi_is_public_key_used = List.member indices index\<rparr>) (enumerate 0 (me_public_keys sig)),
          kh_account_public_key = hex0x ext (concat (me_public_keys sig) @ [ucast (me_threshold sig)]),
          kh_signature_type = get_account_signature_type_from_enum AccountMultiEd25519\<rparr>)"

definition create_helper_from_multi_key_sig :: "extern \<Rightarrow> sdk \<Rightarrow> multi_key_signature \<Rightarrow> key_helper option" where
  "create_helper_from_multi_key_sig ext sdk sig =
     (if length (mk_public_keys sig) > 16 then None
      else
        (let account_public_key = ''0x'' @ hex_encode ext [of_nat (length (mk_public_keys sig))] @
               concat (map (any_public_key_to_serialized_string ext sdk) (mk_public_keys sig)) @
               format_02x (mk_signatures_required sig)
         in if length account_public_key > max_account_public_key_length then None
            else
              (let indices = get_public_key_indices_from_multi_key_signature sig
               in Some \<lparr>kh_keys = map (\<lambda>(index, key).
                      \<lparr>hi_public_key = hex0x ext (apk_public_key key),
                       hi_public_key_type = get_any_public_key_type sdk key,
                       hi_is_public_key_used = List.member indices index\<rparr>)
                    (enumerate 0 (mk_public_keys sig)),
                  kh_account_public_key = account_public_key,
                  kh_signature_type = get_account_signature_type_from_enum AccountMultiKey\<rparr>)))"

fun chunks :: "nat \<Rightarrow> 'a list \<Rightarrow> 'a list list" where
  "chunks n [] = []"
| "chunks n (x # xs) = take (Suc n) (x # xs) # chunks n (drop n xs)"

text \<open>\<open>chunks n\<close> is \<open>slice::chunks(n + 1)\<close>.\<close>

definition create_helper_from_key_rotation_event ::
  "extern \<Rightarrow> bcs_env \<Rightarrow> key_rotation_event \<Rightarrow> key_helper option result" where
  "create_helper_from_key_rotation_event ext env ev =
     (let verified = get_verified_public_key_indices ev;
          account_public_key = hex0x ext (kr_public_key ev)
      in if kr_public_key_scheme ev = 1 then
           Inr (Some \<lparr>kh_keys = map (\<lambda>(i, key). \<lparr>hi_public_key = hex0x ext key,
                hi_public_key_type = ''ed25519'', hi_is_public_key_used = List.member verified i\<rparr>)
              (enumerate 0 (chunks 31 (kr_public_key ev))),
              kh_account_public_key = account_public_key,
              kh_signature_type = get_account_signature_type_from_enum AccountMultiEd25519\<rparr>)
         else if kr_public_key_scheme ev = 3 then
           (if length account_public_key > max_account_public_key_length then Inr None
            else
              (case bcs_multi_key env (kr_public_key ev) of
                 None \<Rightarrow> Inl (Panic ''called Result::unwrap() on an Err value'')
               | Some (keys, signatures_required) \<Rightarrow>
                   Inr (Some \<lparr>kh_keys = map (\<lambda>(i, key).
                        \<lparr>hi_public_key = to_string_without_variant ext env key,
                         hi_public_key_type = get_public_key_type key,
                         hi_is_public_key_used = List.member verified i\<rparr>) (enumerate 0 keys),
                      kh_account_public_key = account_public_key,
                      kh_signature_type = get_account_signature_type_from_enum AccountMultiKey\<rparr>)))
         else Inr None)"

definition get_public_key_auth_keys :: "key_helper \<Rightarrow> string \<Rightarrow> i64 \<Rightarrow> public_key_auth_key list" where
  "get_public_key_auth_keys helper auth_key version =
     map (\<lambda>key. \<lparr>pk_public_key = hi_public_key key, pk_public_key_type = hi_public_key_type key,
        pk_auth_key = auth_key, pk_account_public_key = kh_account_public_key helper,
        pk_is_public_key_used = hi_is_public_key_used key, pk_last_transaction_version = version,
        pk_signature_type = kh_signature_type helper\<rparr>) (kh_keys helper)"

definition get_multi_key_from_signature :: "extern \<Rightarrow> sdk \<Rightarrow> signature_pb \<Rightarrow> key_helper option result" where
  "get_multi_key_from_signature ext sdk s =
     (let from_account = (\<lambda>acc. case unwrap acc of
            Inl e \<Rightarrow> Inl e
          | Inr (a :: account_signature) \<Rightarrow>
              (case unwrap (acs_signature a) of
                 Inl e \<Rightarrow> Inl e
               | Inr (AsMultiEd25519 sig) \<Rightarrow> Inr (Some (create_helper_from_multi_ed25519_sig ext sig))
               | Inr (AsMultiKey sig) \<Rightarrow> Inr (create_helper_from_multi_key_sig ext sdk sig)
               | Inr _ \<Rightarrow> Inr None))
      in case unwrap (spb_signature s) of
           Inl e \<Rightarrow> Inl e
         | Inr (SigMultiEd25519 sig) \<Rightarrow> Inr (Some (create_helper_from_multi_ed25519_sig ext sig))
         | Inr (SigMultiAgent sig) \<Rightarrow> from_account (ma_sender sig)
         | Inr (SigFeePayer sig) \<Rightarrow> from_account (fp_sender sig)
         | Inr (SigSingleSender acc) \<Rightarrow> from_account acc
         | Inr (SigEd25519 _) \<Rightarrow> Inr None)"

section \<open>Extraction\<close>

definition rotate_auth_key_entry_functions :: "string list" where
  "rotate_auth_key_entry_functions =
     [''0x1::account::rotate_authentication_key'',
      ''0x1::account::rotate_authentication_key_with_rotation_capability'',
      ''0x1::account::upsert_ed25519_backup_key_on_keyless_account'']"

definition rotate_auth_key_unverified_entry_functions :: "string list" where
  "rotate_auth_key_unverified_entry_functions =
     [''0x1::account::rotate_authentication_key_call'',
      ''0x1::account::rotate_authentication_key_from_public_key'']"

definition type_account :: string where
  "type_account =
     ''0x0000000000000000000000000000000000000000000000000000000000000001::account::Account''"

definition account_from_write_resource ::
  "extern \<Rightarrow> (write_resource \<Rightarrow> bool) \<Rightarrow> write_resource \<Rightarrow> string option result" where
  "account_from_write_resource ext readable wr =
     (case get_outer_type_from_write_resource ext wr of
        Inl e \<Rightarrow> Inl e
      | Inr ty \<Rightarrow>
          if ty = type_account then
            (case opt_and_then (opt_and_then (json_from_str ext (wr_data wr))
                 (\<lambda>v. json_get v ''authentication_key'')) json_as_str of
               None \<Rightarrow> Inl (Panic ''called Result::unwrap() on an Err value'')
             | Some key \<Rightarrow> Inr (Some key))
          else if readable wr then Inr None
          else Inl (Panic ''called Result::unwrap() on an Err value''))"

type_synonym restoration_rows = "(string \<times> auth_key_account_address) list \<times> public_key_auth_key list"

definition restoration_change ::
  "extern \<Rightarrow> (write_resource \<Rightarrow> bool) \<Rightarrow> string \<Rightarrow> string option \<Rightarrow> bool \<Rightarrow> bool \<Rightarrow> i64 \<Rightarrow> change option
     \<Rightarrow> (string \<times> auth_key_account_address) list \<Rightarrow> (string \<times> auth_key_account_address) list result" where
  "restoration_change ext readable entry_function sender has_helper has_event version wsc rows =
     (case unwrap wsc of
        Inl e \<Rightarrow> Inl e
      | Inr (WriteResource wr) \<Rightarrow>
          (case account_from_write_resource ext readable wr of
             Inl e \<Rightarrow> Inl e
           | Inr None \<Rightarrow> Inr rows
           | Inr (Some authentication_key) \<Rightarrow>
               (let auth_key = standardize_address ext authentication_key;
                    account_address = standardize_address ext (wr_address wr);
                    row = (\<lambda>used. \<lparr>ak_auth_key = auth_key, ak_account_address = account_address,
                      ak_last_transaction_version = version, ak_is_auth_key_used = used\<rparr>)
                in if sender \<noteq> Some account_address then Inr rows
                   else if List.member rotate_auth_key_unverified_entry_functions entry_function
                   then Inr (AList.update account_address (row False) rows)
                   else if List.member rotate_auth_key_entry_functions entry_function \<or>
                     auth_key \<noteq> account_address \<or> has_helper \<or> has_event
                   then Inr (AList.update account_address (row True) rows)
                   else Inr rows))
      | Inr _ \<Rightarrow> Inr rows)"

definition user_parts ::
  "extern \<Rightarrow> sdk \<Rightarrow> transaction \<Rightarrow> (string option \<times> signature_pb option \<times> string option) result" where
  "user_parts ext sdk txn =
     (case tx_data txn of
        Some (TxnUser inner) \<Rightarrow>
          (case ut_request inner of
             None \<Rightarrow> Inl (Panic ''Sends is not present in user txn'')
           | Some request \<Rightarrow> Inr (get_entry_function_from_user_request sdk request,
               ur_signature request, Some (standardize_address ext (ur_sender request))))
      | _ \<Rightarrow> Inr (None, None, None))"

definition keys_of_sender ::
  "key_helper option \<Rightarrow> string option \<Rightarrow> i64 \<Rightarrow> (string \<times> auth_key_account_address) list
     \<Rightarrow> public_key_auth_key list" where
  "keys_of_sender helper sender version rows =
     (case (helper, sender) of
        (Some h, Some s) \<Rightarrow>
          (case map_of rows s of
             None \<Rightarrow> []
           | Some row \<Rightarrow> get_public_key_auth_keys h (ak_auth_key row) version)
      | _ \<Rightarrow> [])"

definition restoration_txn ::
  "extern \<Rightarrow> sdk \<Rightarrow> bcs_env \<Rightarrow> (write_resource \<Rightarrow> bool) \<Rightarrow> transaction \<Rightarrow> restoration_rows result" where
  "restoration_txn ext sdk env readable txn =
     (case user_parts ext sdk txn of
        Inl e \<Rightarrow> Inl e
      | Inr (entry_function, signature, sender) \<Rightarrow>
          (case tx_info txn of
             None \<Rightarrow> Inl (Panic ''Transaction info doesn't exist!'')
           | Some info \<Rightarrow>
               if \<not> ti_success info then Inr ([], [])
               else
                 (case key_rotation_from_transaction ext txn of
                    Inl e \<Rightarrow> Inl e
                  | Inr event \<Rightarrow>
                      (case (case signature of None \<Rightarrow> Inr None
                             | Some sig \<Rightarrow> get_multi_key_from_signature ext sdk sig) of
                         Inl e \<Rightarrow> Inl e
                       | Inr helper \<Rightarrow>
                           (case fold_result (restoration_change ext readable (unwrap_or entry_function [])
                                sender (helper \<noteq> None) (event \<noteq> None) (tx_version txn))
                                (ti_changes info) [] of
                              Inl e \<Rightarrow> Inl e
                            | Inr rows \<Rightarrow>
                                (case (case event of None \<Rightarrow> Inr helper
                                       | Some ev \<Rightarrow> create_helper_from_key_rotation_event ext env ev) of
                                   Inl e \<Rightarrow> Inl e
                                 | Inr helper' \<Rightarrow>
                                     Inr (rows, keys_of_sender helper' sender (tx_version txn) rows)))))))"

fun dedup_by :: "('a \<Rightarrow> 'a \<Rightarrow> bool) \<Rightarrow> 'a list \<Rightarrow> 'a list" where
  "dedup_by same (x # y # xs) =
     (if same y x then dedup_by same (x # xs) else x # dedup_by same (y # xs))"
| "dedup_by same xs = xs"

definition pk_version_key :: "public_key_auth_key \<Rightarrow> string \<times> string \<times> string \<times> int" where
  "pk_version_key k =
     (pk_public_key k, pk_public_key_type k, pk_auth_key k, sint (pk_last_transaction_version k))"

definition sort_public_keys :: "public_key_auth_key list \<Rightarrow> public_key_auth_key list" where
  "sort_public_keys keys =
     dedup_by (\<lambda>a b. pk_version_key a = pk_version_key b)
       (sort_key (\<lambda>k. (pk_version_key k, \<not> pk_is_public_key_used k)) keys)"

definition sort_addresses :: "auth_key_account_address list \<Rightarrow> auth_key_account_address list" where
  "sort_addresses rows =
     dedup_by (\<lambda>a b. ak_account_address a = ak_account_address b)
       (sort_key (\<lambda>r. (ak_account_address r, - sint (ak_last_transaction_version r))) rows)"

definition parse_account_restoration_models ::
  "extern \<Rightarrow> sdk \<Rightarrow> bcs_env \<Rightarrow> (write_resource \<Rightarrow> bool) \<Rightarrow> transaction list
     \<Rightarrow> (auth_key_account_address list \<times> public_key_auth_key list) result" where
  "parse_account_restoration_models ext sdk env readable txns =
     (case map_result (restoration_txn ext sdk env readable) txns of
        Inl e \<Rightarrow> Inl e
      | Inr data \<Rightarrow>
          Inr (sort_addresses (map snd (fold (\<lambda>out. extend_map (fst out)) data [])),
               sort_public_keys (concat (map snd data))))"

section \<open>Storage\<close>

definition take_auth_key ::
  "auth_key_account_address \<Rightarrow> auth_key_account_address \<Rightarrow> auth_key_account_address" where
  "take_auth_key old n =
     old\<lparr>ak_auth_key := ak_auth_key n, ak_last_transaction_version := ak_last_transaction_version n,
         ak_is_auth_key_used := ak_is_auth_key_used n\<rparr>"

definition merge_auth_key ::
  "auth_key_account_address \<Rightarrow> auth_key_account_address \<Rightarrow> auth_key_account_address" where
  "merge_auth_key old n =
     (if sint (ak_last_transaction_version old) \<le> sint (ak_last_transaction_version n)
      then take_auth_key old n else old)"

definition pk_key :: "public_key_auth_key \<Rightarrow> string \<times> string \<times> string" where
  "pk_key k = (pk_auth_key k, pk_public_key k, pk_public_key_type k)"

definition take_public_key :: "public_key_auth_key \<Rightarrow> public_key_auth_key \<Rightarrow> public_key_auth_key" where
  "take_public_key old n =
     old\<lparr>pk_account_public_key := pk_account_public_key n,
         pk_last_transaction_version := pk_last_transaction_version n,
         pk_signature_type := pk_signature_type n,
         pk_is_public_key_used :=
           (if pk_is_public_key_used old then True else pk_is_public_key_used n)\<rparr>"

definition merge_public_key :: "public_key_auth_key \<Rightarrow> public_key_auth_key \<Rightarrow> public_key_auth_key" where
  "merge_public_key old n =
     (if sint (pk_last_transaction_version old) \<le> sint (pk_last_transaction_version n)
      then take_public_key old n else old)"

record restoration_db =
  rs_addresses :: "auth_key_account_address list"
  rs_public_keys :: "public_key_auth_key list"

definition account_restoration_store ::
  "(auth_key_account_address list \<Rightarrow> auth_key_account_address list list) \<Rightarrow>
   (public_key_auth_key list \<Rightarrow> public_key_auth_key list list) \<Rightarrow> u128 \<Rightarrow>
   auth_key_account_address list \<times> public_key_auth_key list \<Rightarrow> restoration_db \<Rightarrow> restoration_db result" where
  "account_restoration_store chunk_a chunk_k flags data db =
     (let as = filter_data flags (table_flag ''AUTH_KEY_ACCOUNT_ADDRESSES'') (fst data);
          ks = filter_data flags (table_flag ''PUBLIC_KEY_AUTH_KEYS'') (snd data);
          (as', a_err) = run_chunks (insert_do_update ak_account_address merge_auth_key) (chunk_a as)
             (rs_addresses db);
          (ks', k_err) = run_chunks (insert_do_update pk_key merge_public_key) (chunk_k ks)
             (rs_public_keys db)
      in case (a_err, k_err) of
           (None, None) \<Rightarrow> Inr \<lparr>rs_addresses = as', rs_public_keys = ks'\<rparr>
         | (Some e, _) \<Rightarrow> Inl e
         | (None, Some e) \<Rightarrow> Inl e)"

interpretation auth_key_table:
  versioned_table ak_account_address "\<lambda>r. sint (ak_last_transaction_version r)" take_auth_key merge_auth_key
  by unfold_locales (simp_all add: merge_auth_key_def take_auth_key_def)

interpretation public_key_table:
  versioned_table pk_key "\<lambda>k. sint (pk_last_transaction_version k)" take_public_key merge_public_key
  by unfold_locales (auto simp: merge_public_key_def take_public_key_def pk_key_def)

section \<open>Sorting and deduplication\<close>

lemma sorted_fst_of_pairs:
  fixes k :: "'a \<Rightarrow> 'k :: linorder" and t :: "'a \<Rightarrow> 't :: linorder"
  assumes "sorted (map (\<lambda>x. (k x, t x)) xs)"
  shows "sorted (map k xs)"
  using assms unfolding sorted_map
  by (rule sorted_wrt_mono_rel [rotated]) (auto simp: less_eq_prod_def)

lemma dedup_by_subset: "set (dedup_by same xs) \<subseteq> set xs"
  by (induction same xs rule: dedup_by.induct) auto

lemma dedup_by_strict:
  fixes k :: "'a \<Rightarrow> 'k :: linorder"
  assumes "sorted (map k xs)"
  shows "sorted_wrt (<) (map k (dedup_by (\<lambda>a b. k a = k b) xs))"
  using assms
proof (induction "\<lambda>a b. k a = k b" xs rule: dedup_by.induct)
  case (1 x y xs)
  show ?case
  proof (cases "k y = k x")
    case False
    with "1.prems" have "k x < k y" by (auto simp: order.order_iff_strict)
    then have "k x < k z" if "z \<in> set (y # xs)" for z
      using that "1.prems" by (auto intro: less_le_trans)
    with 1 False dedup_by_subset [of "\<lambda>a b. k a = k b" "y # xs"] show ?thesis by auto
  qed (use 1 in simp)
qed simp_all

lemma dedup_by_keys: "k ` set (dedup_by (\<lambda>a b. k a = k b) xs) = k ` set xs"
  by (induction "\<lambda>a b. k a = k b" xs rule: dedup_by.induct) auto

lemma dedup_by_first:
  fixes k :: "'a \<Rightarrow> 'k :: linorder" and t :: "'a \<Rightarrow> 't :: linorder"
  assumes "sorted (map (\<lambda>x. (k x, t x)) xs)" and "r \<in> set (dedup_by (\<lambda>a b. k a = k b) xs)"
    and "x \<in> set xs" and "k x = k r"
  shows "t r \<le> t x"
  using assms
proof (induction "\<lambda>a b. k a = k b" xs arbitrary: r x rule: dedup_by.induct)
  case (1 u v xs)
  show ?case
  proof (cases "k v = k u")
    case True
    have sorted: "sorted (map (\<lambda>x. (k x, t x)) (u # xs))" using "1.prems"(1) by auto
    have r: "r \<in> set (dedup_by (\<lambda>a b. k a = k b) (u # xs))" using "1.prems"(2) True by simp
    show ?thesis
    proof (cases "x = v")
      case True
      with \<open>k v = k u\<close> "1.hyps"(1) [OF \<open>k v = k u\<close> sorted r, of u] "1.prems"(1,4) show ?thesis
        by (auto simp: less_eq_prod_def)
    next
      case False
      with "1.hyps"(1) [OF True sorted r] "1.prems"(3,4) show ?thesis by auto
    qed
  next
    case False
    have sorted_k: "sorted (map k (u # v # xs))"
      by (rule sorted_fst_of_pairs [OF "1.prems"(1)])
    have uv: "k u < k z" if "z \<in> set (v # xs)" for z
    proof -
      have "k u < k v" using sorted_k False by (auto simp: order.order_iff_strict)
      moreover have "k v \<le> k z" using sorted_k that by auto
      ultimately show ?thesis by simp
    qed
    show ?thesis
    proof (cases "r = u")
      case True
      with uv "1.prems"(3,4) have "x = u" by force
      with True show ?thesis by simp
    next
      case rv: False
      then have r: "r \<in> set (dedup_by (\<lambda>a b. k a = k b) (v # xs))" using "1.prems"(2) False by simp
      then have "r \<in> set (v # xs)" by (rule subsetD [OF dedup_by_subset])
      with uv "1.prems"(4) have "x \<noteq> u" by force
      with "1.hyps"(2) [OF False _ r] "1.prems" show ?thesis by simp
    qed
  qed
qed auto

lemma sort_public_keys_strict: "sorted_wrt (<) (map pk_version_key (sort_public_keys keys))"
  unfolding sort_public_keys_def
  by (rule dedup_by_strict, rule sorted_fst_of_pairs [where t = "\<lambda>k. \<not> pk_is_public_key_used k"])
    (rule sorted_sort_key)

lemma sort_public_keys_set:
  "set (sort_public_keys keys) \<subseteq> set keys"
  "pk_version_key ` set (sort_public_keys keys) = pk_version_key ` set keys"
proof -
  show "set (sort_public_keys keys) \<subseteq> set keys"
    unfolding sort_public_keys_def by (rule order_trans [OF dedup_by_subset]) simp
  show "pk_version_key ` set (sort_public_keys keys) = pk_version_key ` set keys"
    unfolding sort_public_keys_def dedup_by_keys by simp
qed

text \<open>
  The public key rows of a batch are sorted strictly by public key, type,
  authentication key and version; every such combination of the input is kept once, and the kept
  row counts the key as used exactly when one of its duplicates does.
\<close>

theorem public_key_rows_deduplicated:
  assumes "r \<in> set (sort_public_keys keys)"
  shows "sorted_wrt (<) (map pk_version_key (sort_public_keys keys)) \<and>
    pk_version_key ` set (sort_public_keys keys) = pk_version_key ` set keys \<and>
    (pk_is_public_key_used r \<longleftrightarrow>
      (\<exists>x \<in> set keys. pk_version_key x = pk_version_key r \<and> pk_is_public_key_used x))"
proof -
  have "(\<not> pk_is_public_key_used r) \<le> (\<not> pk_is_public_key_used x)"
    if "x \<in> set keys" "pk_version_key x = pk_version_key r" for x
    using dedup_by_first [OF _ assms [unfolded sort_public_keys_def], of "\<lambda>k. \<not> pk_is_public_key_used k" x] that
    by simp
  moreover have "r \<in> set keys" using assms sort_public_keys_set(1) by blast
  ultimately show ?thesis using sort_public_keys_strict sort_public_keys_set(2) by auto
qed

section \<open>One authentication key per account\<close>

definition rows_keyed :: "(string \<times> auth_key_account_address) list \<Rightarrow> bool" where
  "rows_keyed rows \<longleftrightarrow> distinct (map fst rows) \<and> list_all (\<lambda>(a, r). ak_account_address r = a) rows"

definition latest_entry :: "restoration_rows list \<Rightarrow> string \<Rightarrow> auth_key_account_address option" where
  "latest_entry data a = find_map (\<lambda>out. map_of (fst out) a) (rev data)"

lemma rows_keyed_update:
  "rows_keyed rows \<Longrightarrow> ak_account_address r = a \<Longrightarrow> rows_keyed (AList.update a r rows)"
proof -
  assume rows: "rows_keyed rows" and r: "ak_account_address r = a"
  have "set (AList.update a r rows) \<subseteq> insert (a, r) (set rows)"
    by (induction rows) auto
  with rows r show ?thesis
    by (auto simp: rows_keyed_def list_all_iff distinct_update)
qed

lemma restoration_change_keyed:
  "restoration_change ext readable f sender h e v wsc rows = Inr rows' \<Longrightarrow> rows_keyed rows \<Longrightarrow> rows_keyed rows'"
  by (auto simp: restoration_change_def Let_def rows_keyed_update
      split: sum.splits change.splits option.splits if_splits)

lemma restoration_txn_keyed:
  assumes "restoration_txn ext sdk env readable txn = Inr out"
  shows "rows_keyed (fst out)"
proof -
  have "rows_keyed []" by (simp add: rows_keyed_def)
  then show ?thesis
    using assms fold_result_inv [where P = rows_keyed, OF restoration_change_keyed]
    by (fastforce simp: restoration_txn_def split: sum.splits option.splits if_splits prod.splits)
qed

lemma map_of_extend:
  "map_of (extend_map new m) a = (case map_of (rev new) a of None \<Rightarrow> map_of m a | Some v \<Rightarrow> Some v)"
  unfolding extend_map_def
  by (induction new arbitrary: m) (auto simp: update_conv' map_add_def split: option.splits)

lemma map_of_rev_distinct: "distinct (map fst xs) \<Longrightarrow> map_of (rev xs) = map_of xs"
  by (rule map_of_eqI) (auto simp: rev_map [symmetric])

lemma extend_map_keyed:
  assumes "rows_keyed new" and "rows_keyed m"
  shows "rows_keyed (extend_map new m)"
proof -
  have "list_all (\<lambda>(a, r). ak_account_address r = a) new" using assms(1) by (simp add: rows_keyed_def)
  then show ?thesis
    using assms(2) unfolding extend_map_def
    by (induction new arbitrary: m) (auto simp: rows_keyed_update)
qed

lemma fold_extend:
  assumes "\<forall>out \<in> set data. rows_keyed (fst out)" and "rows_keyed m"
  shows "rows_keyed (fold (\<lambda>out. extend_map (fst out)) data m)"
    and "map_of (fold (\<lambda>out. extend_map (fst out)) data m) a =
      (case latest_entry data a of None \<Rightarrow> map_of m a | Some r \<Rightarrow> Some r)"
  using assms
proof (induction data arbitrary: m)
  case (Cons out data)
  case 1
  then show ?case using Cons.IH(1) extend_map_keyed by simp
  case 2
  have "map_of (extend_map (fst out) m) a = (case map_of (fst out) a of None \<Rightarrow> map_of m a | Some v \<Rightarrow> Some v)"
    using 2 by (simp add: map_of_extend map_of_rev_distinct rows_keyed_def)
  moreover have "rows_keyed (extend_map (fst out) m)" using 2 extend_map_keyed by simp
  ultimately show ?case
    using Cons.IH(2) [of "extend_map (fst out) m"] 2
    by (simp add: latest_entry_def find_map_append split: option.splits)
qed (simp_all add: latest_entry_def)

lemma dedup_by_distinct:
  "distinct (map k xs) \<Longrightarrow> dedup_by (\<lambda>a b. k a = k b) xs = xs"
  by (induction "\<lambda>a b. k a = k b" xs rule: dedup_by.induct) auto

text \<open>
  The authentication keys of a batch are sorted by account without duplicates, and the
  entry of an account is the one of the last transaction of the batch that yields one.
\<close>

theorem auth_keys_are_latest:
  assumes "parse_account_restoration_models ext sdk env readable txns = Inr (addresses, keys)"
  shows "\<exists>data. map_result (restoration_txn ext sdk env readable) txns = Inr data \<and>
    sorted_wrt (<) (map ak_account_address addresses) \<and>
    set addresses = {r. latest_entry data (ak_account_address r) = Some r}"
proof -
  obtain data where data: "map_result (restoration_txn ext sdk env readable) txns = Inr data"
      "addresses = sort_addresses (map snd (fold (\<lambda>out. extend_map (fst out)) data []))"
    using assms by (auto simp: parse_account_restoration_models_def split: sum.splits)
  have outs: "\<forall>out \<in> set data. rows_keyed (fst out)"
  proof
    fix out assume "out \<in> set data"
    then obtain i where "i < length data" "out = data ! i" by (metis in_set_conv_nth)
    with data(1) have "restoration_txn ext sdk env readable (txns ! i) = Inr out"
      by (simp add: map_result_Inr_iff list_all2_conv_all_nth)
    then show "rows_keyed (fst out)" by (rule restoration_txn_keyed)
  qed
  have empty: "rows_keyed []" by (simp add: rows_keyed_def)
  define m where "m = fold (\<lambda>out. extend_map (fst out)) data []"
  have keyed: "rows_keyed m" and m: "map_of m a = latest_entry data a" for a
    using fold_extend [OF outs empty] by (auto simp: m_def split: option.splits)
  have fst_m: "map fst m = map ak_account_address (map snd m)"
    using keyed by (auto simp: rows_keyed_def list_all_iff)
  have "distinct (map ak_account_address (map snd m))"
    using keyed unfolding fst_m [symmetric] by (simp add: rows_keyed_def)
  then have "set addresses = snd ` set m"
    unfolding data(2) m_def [symmetric] sort_addresses_def
    by (subst dedup_by_distinct [OF distinct_map_sort_key]) simp_all
  moreover have "r \<in> snd ` set m \<longleftrightarrow> latest_entry data (ak_account_address r) = Some r" for r
  proof -
    have "r \<in> snd ` set m \<longleftrightarrow> (ak_account_address r, r) \<in> set m"
      using keyed by (force simp: rows_keyed_def list_all_iff)
    also have "\<dots> \<longleftrightarrow> map_of m (ak_account_address r) = Some r"
      using keyed by (simp add: rows_keyed_def)
    finally show ?thesis by (simp add: m)
  qed
  moreover have "sorted_wrt (<) (map ak_account_address addresses)"
    unfolding data(2) sort_addresses_def
    by (rule dedup_by_strict,
        rule sorted_fst_of_pairs [where t = "\<lambda>r. - sint (ak_last_transaction_version r)"])
      (rule sorted_sort_key)
  ultimately show ?thesis using data(1) by auto
qed

definition sample_accounts_world :: extern where
  "sample_accounts_world = sample_world\<lparr>json_from_str := map_of
     [(''fee'', JObject [(''storage_fee_refund_octas'', JString ''77'')]),
      (''acct'', JObject [(''authentication_key'', JString ''0xfe'')])]\<rparr>"

definition sample_bcs :: bcs_env where
  "sample_bcs = \<lparr>bcs_multi_key = (\<lambda>b. Some ([PkEd25519 b], 1)), bcs_keyless = (\<lambda>k. kl_idc k),
     bcs_federated = (\<lambda>a k. a @ kl_idc k)\<rparr>"

definition sample_account_txn :: "u64 \<Rightarrow> transaction" where
  "sample_account_txn version = sample_user_txn version [WriteResource
     \<lparr>wr_address = ''0xa'', wr_type = Some \<lparr>st_address = ''0x1'', st_module = ''account'',
        st_name = ''Account'', st_generic_type_params = []\<rparr>,
      wr_type_str = ''0x1::account::Account'', wr_data = ''acct'', wr_state_key_hash = [1]\<rparr>]"

definition sample_restoration :: "auth_key_account_address list \<times> public_key_auth_key list" where
  "sample_restoration =
     (case parse_account_restoration_models sample_accounts_world sample_sdk sample_bcs (\<lambda>_. True)
        [sample_account_txn 5, sample_account_txn 6] of Inl _ \<Rightarrow> ([], []) | Inr out \<Rightarrow> out)"

lemma sample_restoration_run:
  "parse_account_restoration_models sample_accounts_world sample_sdk sample_bcs (\<lambda>_. True)
     [sample_account_txn 5, sample_account_txn 6] = Inr (fst sample_restoration, snd sample_restoration)"
  unfolding sample_restoration_def by code_simp

theorem auth_keys_are_latest_witness:
  "map (sint \<circ> ak_last_transaction_version) (fst sample_restoration) = [6] \<and>
   sorted_wrt (<) (map ak_account_address (fst sample_restoration))"
proof -
  have "map (sint \<circ> ak_last_transaction_version) (fst sample_restoration) = [6]" by code_simp
  then show ?thesis using auth_keys_are_latest [OF sample_restoration_run] by blast
qed

definition sample_pk :: "bool \<Rightarrow> public_key_auth_key" where
  "sample_pk used = \<lparr>pk_public_key = ''0x1'', pk_public_key_type = ''ed25519'', pk_auth_key = ''0x2'',
     pk_account_public_key = ''0x3'', pk_is_public_key_used = used, pk_last_transaction_version = 4,
     pk_signature_type = ''multi_key_signature''\<rparr>"

theorem public_key_rows_deduplicated_witness:
  "sort_public_keys [sample_pk False, sample_pk True] = [sample_pk True] \<and>
   pk_version_key ` set (sort_public_keys [sample_pk False, sample_pk True]) = {pk_version_key (sample_pk True)}"
proof -
  have run: "sort_public_keys [sample_pk False, sample_pk True] = [sample_pk True]"
    by (simp add: sort_public_keys_def sample_pk_def pk_version_key_def less_eq_prod_def)
  then have "sample_pk True \<in> set (sort_public_keys [sample_pk False, sample_pk True])" by simp
  from public_key_rows_deduplicated [OF this] run show ?thesis by simp
qed

section \<open>Two transactions of a multi-key account in one batch\<close>




section \<open>Used keys stay used\<close>

lemma used_upsert:
  assumes "find_row pk_key k rows = Some r" and "pk_is_public_key_used r"
  shows "\<exists>r'. find_row pk_key k (upsert pk_key merge_public_key n rows) = Some r' \<and> pk_is_public_key_used r'"
  using assms by (auto simp: public_key_table.find_upsert merge_public_key_def take_public_key_def)

lemma used_fold_upsert:
  "find_row pk_key k rows = Some r \<Longrightarrow> pk_is_public_key_used r \<Longrightarrow>
     \<exists>r'. find_row pk_key k (fold (upsert pk_key merge_public_key) ns rows) = Some r' \<and> pk_is_public_key_used r'"
proof (induction ns arbitrary: rows r)
  case (Cons n ns)
  obtain r' where "find_row pk_key k (upsert pk_key merge_public_key n rows) = Some r'" "pk_is_public_key_used r'"
    using used_upsert [OF Cons.prems] by blast
  from Cons.IH [OF this] show ?case by simp
qed simp

lemma used_run_chunks:
  "find_row pk_key k rows = Some r \<Longrightarrow> pk_is_public_key_used r \<Longrightarrow>
     \<exists>r'. find_row pk_key k (fst (run_chunks (insert_do_update pk_key merge_public_key) cs rows)) = Some r' \<and>
       pk_is_public_key_used r'"
proof (induction cs arbitrary: rows r)
  case (Cons c cs)
  show ?case
  proof (cases "distinct (map pk_key c)")
    case True
    obtain r' where "find_row pk_key k (fold (upsert pk_key merge_public_key) c rows) = Some r'"
        "pk_is_public_key_used r'"
      using used_fold_upsert [OF Cons.prems] by blast
    from Cons.IH [OF this] True show ?thesis by (simp add: insert_do_update_def)
  next
    case False
    with Cons show ?thesis by (simp add: insert_do_update_def)
  qed
qed simp

text \<open>
  Storing a batch never takes back what is known of a key: a stored key keeps being
  marked as used once it is, and its version never decreases; nor does the version of a stored
  authentication key.
\<close>

theorem restoration_store_is_monotone:
  assumes "account_restoration_store chunk_a chunk_k flags data db = Inr db'"
    and "find_row pk_key k (rs_public_keys db) = Some r"
    and "find_row ak_account_address a (rs_addresses db) = Some w"
  shows "\<exists>r' w'. find_row pk_key k (rs_public_keys db') = Some r' \<and>
    find_row ak_account_address a (rs_addresses db') = Some w' \<and>
    (if pk_is_public_key_used r then pk_is_public_key_used r' else True) \<and>
    sint (pk_last_transaction_version r) \<le> sint (pk_last_transaction_version r') \<and>
    sint (ak_last_transaction_version w) \<le> sint (ak_last_transaction_version w')"
proof -
  obtain as ks where run:
    "rs_addresses db' = fst (run_chunks (insert_do_update ak_account_address merge_auth_key) as (rs_addresses db))"
    "rs_public_keys db' = fst (run_chunks (insert_do_update pk_key merge_public_key) ks (rs_public_keys db))"
    using assms(1)
    by (auto simp: account_restoration_store_def Let_def case_prod_unfold split: option.splits)
  show ?thesis
    unfolding run
    using public_key_table.row_never_regresses [OF assms(2), of ks]
      auth_key_table.row_never_regresses [OF assms(3), of as] used_run_chunks [OF assms(2), of ks]
    by auto
qed

theorem restoration_store_is_monotone_witness:
  "\<exists>db'. account_restoration_store (\<lambda>rows. [rows]) (\<lambda>ks. [ks]) 0 ([], [sample_pk False])
       \<lparr>rs_addresses = fst sample_restoration, rs_public_keys = [sample_pk True]\<rparr> = Inr db' \<and>
     (\<exists>r'. find_row pk_key (pk_key (sample_pk True)) (rs_public_keys db') = Some r' \<and> pk_is_public_key_used r')"
proof -
  let ?db = "\<lparr>rs_addresses = fst sample_restoration, rs_public_keys = [sample_pk True]\<rparr>"
  obtain db' where run: "account_restoration_store (\<lambda>rows. [rows]) (\<lambda>ks. [ks]) 0 ([], [sample_pk False]) ?db = Inr db'"
    by (simp add: account_restoration_store_def insert_do_update_def Let_def filter_data_def
        flags_is_empty_def flags_empty_def)
  have "length (fst sample_restoration) = 1" by code_simp
  then obtain w where "fst sample_restoration = [w]" by (auto simp: length_Suc_conv)
  then have "find_row ak_account_address (ak_account_address w) (rs_addresses ?db) = Some w"
    by (simp add: find_row_Cons)
  moreover have "find_row pk_key (pk_key (sample_pk True)) (rs_public_keys ?db) = Some (sample_pk True)"
    by (simp add: find_row_Cons)
  moreover have "pk_is_public_key_used (sample_pk True)" by (simp add: sample_pk_def)
  ultimately show ?thesis using restoration_store_is_monotone [OF run] run by fastforce
qed

section \<open>Verified keys and stored lengths\<close>

lemma bit_0x80: "bit (0x80 :: u8) m \<longleftrightarrow> m = 7"
proof (cases "m < 8")
  case True
  have "\<forall>m \<in> set [0..<8]. bit (0x80 :: u8) m \<longleftrightarrow> m = 7" by code_simp
  with True show ?thesis by simp
next
  case False
  then show ?thesis using bit_imp_le_length [of "0x80 :: u8" m] by auto
qed

lemma verified_bit:
  assumes "n < 8"
  shows "(b :: u8) AND drop_bit n 0x80 \<noteq> 0 \<longleftrightarrow> bit b (7 - n)"
proof -
  have "b AND drop_bit n 0x80 \<noteq> 0 \<longleftrightarrow> (\<exists>m. bit b m \<and> n + m = 7)"
  proof -
    have "(\<exists>m. bit b m \<and> n + m = 7) \<longleftrightarrow> (\<exists>m < 8. bit b m \<and> n + m = 7)"
      using bit_imp_le_length [of b] by auto
    then show ?thesis
      unfolding bit_eq_iff [of "b AND drop_bit n 0x80" 0] bit_and_iff bit_drop_bit_eq comp_apply bit_0x80
      by auto
  qed
  also have "\<dots> \<longleftrightarrow> bit b (7 - n)"
  proof
    assume "\<exists>m. bit b m \<and> n + m = 7"
    then obtain m where "bit b m" "n + m = 7" by blast
    moreover from this(2) have "m = 7 - n" by simp
    ultimately show "bit b (7 - n)" by simp
  next
    assume "bit b (7 - n)"
    with assms show "\<exists>m. bit b m \<and> n + m = 7" by (intro exI [of _ "7 - n"]) simp
  qed
  finally show ?thesis .
qed

text \<open>
  A public key of a rotation event counts as verified exactly when the bitmap has its
  bit set, most significant bit of the first byte first.
\<close>

theorem verified_key_indices:
  "i \<in> set (get_verified_public_key_indices ev) \<longleftrightarrow>
     i < 8 * length (kr_verified_public_key_bit_map ev) \<and>
     bit (kr_verified_public_key_bit_map ev ! (i div 8)) (7 - i mod 8)"
proof -
  let ?bm = "kr_verified_public_key_bit_map ev"
  have "i \<in> set (get_verified_public_key_indices ev) \<longleftrightarrow>
      (\<exists>j n. j < length ?bm \<and> n < 8 \<and> ?bm ! j AND drop_bit n 0x80 \<noteq> 0 \<and> i = j * 8 + n)"
    unfolding get_verified_public_key_indices_def by (fastforce simp: set_enumerate_0)
  also have "\<dots> \<longleftrightarrow> (\<exists>j n. j < length ?bm \<and> n < 8 \<and> bit (?bm ! j) (7 - n) \<and> i = j * 8 + n)"
    using verified_bit by blast
  also have "\<dots> \<longleftrightarrow> i < 8 * length ?bm \<and> bit (?bm ! (i div 8)) (7 - i mod 8)"
  proof
    assume "\<exists>j n. j < length ?bm \<and> n < 8 \<and> bit (?bm ! j) (7 - n) \<and> i = j * 8 + n"
    then obtain j n where "j < length ?bm" "n < 8" "bit (?bm ! j) (7 - n)" "i = j * 8 + n" by blast
    moreover from this have "i div 8 = j" "i mod 8 = n" by simp_all
    ultimately show "i < 8 * length ?bm \<and> bit (?bm ! (i div 8)) (7 - i mod 8)" by simp
  next
    assume "i < 8 * length ?bm \<and> bit (?bm ! (i div 8)) (7 - i mod 8)"
    then show "\<exists>j n. j < length ?bm \<and> n < 8 \<and> bit (?bm ! j) (7 - n) \<and> i = j * 8 + n"
      by (intro exI [of _ "i div 8"] exI [of _ "i mod 8"]) auto
  qed
  finally show ?thesis .
qed

lemma multi_key_helper_length:
  "create_helper_from_multi_key_sig ext sdk sig = Some h \<Longrightarrow>
     length (kh_account_public_key h) \<le> max_account_public_key_length \<and> length (kh_keys h) \<le> 16"
  by (auto simp: create_helper_from_multi_key_sig_def Let_def split: if_splits)

lemma length_chunks: "length (chunks n xs) = (length xs + n) div Suc n"
proof (induction n xs rule: chunks.induct)
  case (2 n x xs)
  show ?case
  proof (cases "length xs \<le> n")
    case True
    then have "(length (x # xs) + n) div Suc n = 1" by (intro div_nat_eqI) simp_all
    with True 2 show ?thesis by simp
  next
    case False
    then have "length (x # xs) + n = Suc n + (length xs - n + n)" by simp
    then have "(length (x # xs) + n) div Suc n = Suc ((length xs - n + n) div Suc n)"
      by (simp only: div_add_self1)
    with 2 show ?thesis by simp
  qed
qed simp

definition fits_column :: "key_helper \<Rightarrow> bool" where
  "fits_column h \<longleftrightarrow>
     (if kh_signature_type h = ''multi_key_signature''
      then length (kh_account_public_key h) \<le> max_account_public_key_length else True)"

lemma multi_ed25519_fits_column: "fits_column (create_helper_from_multi_ed25519_sig ext sig)"
  by (simp add: fits_column_def create_helper_from_multi_ed25519_sig_def Let_def)

lemma multi_key_fits_column: "create_helper_from_multi_key_sig ext sdk sig = Some h \<Longrightarrow> fits_column h"
  using multi_key_helper_length by (auto simp: fits_column_def)

lemma signature_helper_fits_column:
  "get_multi_key_from_signature ext sdk s = Inr (Some h) \<Longrightarrow> fits_column h"
  by (auto simp: get_multi_key_from_signature_def Let_def multi_ed25519_fits_column multi_key_fits_column
      split: sum.splits signature_body.splits account_signature_body.splits)

lemma rotation_helper_fits_column:
  "create_helper_from_key_rotation_event ext env ev = Inr (Some h) \<Longrightarrow> fits_column h"
  by (auto simp: create_helper_from_key_rotation_event_def Let_def fits_column_def
      split: if_splits option.splits)

lemma keys_of_sender_fit:
  assumes "k \<in> set (keys_of_sender helper sender v rows)" and "\<And>h. helper = Some h \<Longrightarrow> fits_column h"
    and "pk_signature_type k = ''multi_key_signature''"
  shows "length (pk_account_public_key k) \<le> max_account_public_key_length"
  using assms
  by (auto simp: keys_of_sender_def get_public_key_auth_keys_def fits_column_def split: option.splits)

lemma restoration_txn_fits:
  assumes "restoration_txn ext sdk env readable txn = Inr out" and "k \<in> set (snd out)"
    and "pk_signature_type k = ''multi_key_signature''"
  shows "length (pk_account_public_key k) \<le> max_account_public_key_length"
proof -
  obtain helper sender rows where k: "k \<in> set (keys_of_sender helper sender (tx_version txn) rows)"
      "\<And>h. helper = Some h \<Longrightarrow> fits_column h"
    using assms(1,2)
    by (fastforce simp: restoration_txn_def split: sum.splits option.splits if_splits prod.splits
        dest: signature_helper_fits_column rotation_helper_fits_column)
  show ?thesis by (rule keys_of_sender_fit [OF k assms(3)])
qed

text \<open>
  Every multi-key row of a batch fits its column: the serialised account key has at
  most 13000 characters, whether it comes from a signature or from a rotation event.
\<close>

theorem multi_key_rows_fit_column:
  assumes "parse_account_restoration_models ext sdk env readable txns = Inr (addresses, keys)"
    and "k \<in> set keys" and "pk_signature_type k = ''multi_key_signature''"
  shows "length (pk_account_public_key k) \<le> max_account_public_key_length"
proof -
  obtain data where data: "map_result (restoration_txn ext sdk env readable) txns = Inr data"
      "keys = sort_public_keys (concat (map snd data))"
    using assms(1) by (auto simp: parse_account_restoration_models_def split: sum.splits)
  have "k \<in> set (concat (map snd data))" using assms(2) sort_public_keys_set(1) unfolding data(2) by blast
  then obtain i where i: "i < length data" "k \<in> set (snd (data ! i))" by (auto simp: in_set_conv_nth [of _ data])
  have "restoration_txn ext sdk env readable (txns ! i) = Inr (data ! i)"
    using data(1) i(1) by (simp add: map_result_Inr_iff list_all2_conv_all_nth)
  from restoration_txn_fits [OF this i(2) assms(3)] show ?thesis .
qed

theorem multi_key_rows_fit_column_witness:
  "pk_signature_type (hd (snd sample_restoration)) = ''multi_key_signature'' \<and>
   length (pk_account_public_key (hd (snd sample_restoration))) \<le> max_account_public_key_length"
proof -
  have ty: "pk_signature_type (hd (snd sample_restoration)) = ''multi_key_signature''"
    "snd sample_restoration \<noteq> []" by code_simp+
  then have "hd (snd sample_restoration) \<in> set (snd sample_restoration)" by simp
  from multi_key_rows_fit_column [OF sample_restoration_run this ty(1)] ty(1) show ?thesis by blast
qed

lemma chunks_exact:
  "list_all (\<lambda>k. length k = Suc n) ks \<Longrightarrow> length t \<le> Suc n \<Longrightarrow> t \<noteq> [] \<Longrightarrow>
     chunks n (concat ks @ t) = ks @ [t]"
proof (induction ks)
  case Nil
  then show ?case by (cases t) auto
next
  case (Cons k ks)
  then obtain x xs where k: "k = x # xs" "length xs = n" by (auto simp: length_Suc_conv)
  with Cons show ?case by simp
qed

text \<open>
  A rotation to a multi-ed25519 key whose event carries the account key as the account
  restoration rows store it, all keys followed by the threshold byte, produces one key more than
  it has: the threshold byte becomes a public key of its own.
\<close>

theorem threshold_byte_becomes_key:
  assumes "kr_public_key_scheme ev = 1" and "kr_public_key ev = concat pks @ [threshold]"
    and "list_all (\<lambda>k. length k = 32) pks"
  shows "\<exists>h. create_helper_from_key_rotation_event ext env ev = Inr (Some h) \<and>
    map hi_public_key (kh_keys h) = map (hex0x ext) pks @ [hex0x ext [threshold]]"
proof -
  have "chunks 31 (kr_public_key ev) = pks @ [[threshold]]"
    unfolding assms(2) by (rule chunks_exact) (use assms(3) in simp_all)
  moreover have "map (\<lambda>x. hex0x ext (snd x)) (enumerate 0 ks) = map (hex0x ext) ks" for ks
    using map_map [of "hex0x ext" snd "enumerate 0 ks"] by (simp add: comp_def)
  ultimately show ?thesis
    by (simp add: create_helper_from_key_rotation_event_def assms(1) case_prod_unfold comp_def
        del: enumerate_append_eq)
qed

theorem threshold_byte_becomes_key_witness:
  "\<exists>h. create_helper_from_key_rotation_event sample_extern sample_bcs
       \<lparr>kr_new_auth_key = [], kr_old_auth_key = [], kr_public_key = replicate 32 1 @ replicate 32 2 @ [2],
        kr_public_key_scheme = 1, kr_verified_public_key_bit_map = [0xc0, 0, 0, 0]\<rparr> = Inr (Some h) \<and>
     last (map hi_public_key (kh_keys h)) = ''0x02''"
proof -
  let ?ev = "\<lparr>kr_new_auth_key = [], kr_old_auth_key = [], kr_public_key = replicate 32 1 @ replicate 32 2 @ [2],
    kr_public_key_scheme = 1, kr_verified_public_key_bit_map = [0xc0, 0, 0, 0]\<rparr>"
  have "kr_public_key ?ev = concat [replicate 32 1, replicate 32 2] @ [2]" by simp
  from threshold_byte_becomes_key [OF _ this, of sample_extern sample_bcs]
  obtain h where "create_helper_from_key_rotation_event sample_extern sample_bcs ?ev = Inr (Some h)"
      "last (map hi_public_key (kh_keys h)) = hex0x sample_extern [2]" by auto
  moreover have "hex0x sample_extern [2] = ''0x02''" by code_simp
  ultimately show ?thesis by auto
qed

end
