(* ===== verification/EventsProcessor.thy ===== *)
theory EventsProcessor
  imports UserTransactions
begin

text \<open>
  The events processor (\<open>processors/events\<close>) and the gas fee processor
  (\<open>processors/gas_fees\<close>): one row per event of a transaction, and one gas fee row per user
  transaction.  Products of 64-bit numbers wrap, as in a release build.
\<close>

section \<open>Events\<close>

record event_row =
  er_sequence_number :: i64
  er_creation_number :: i64
  er_account_address :: string
  er_transaction_version :: i64
  er_transaction_block_height :: i64
  er_type :: string
  er_data :: string
  er_event_index :: i64
  er_indexed_type :: string
  er_block_timestamp :: "datetime option"
  er_type_tag_bytes :: "i64 option"
  er_total_bytes :: "i64 option"

record postgres_event =
  pe_sequence_number :: i64
  pe_creation_number :: i64
  pe_account_address :: string
  pe_transaction_version :: i64
  pe_transaction_block_height :: i64
  pe_type :: string
  pe_data :: json
  pe_event_index :: i64
  pe_indexed_type :: string

definition event_type_max_length :: nat where
  "event_type_max_length = 300"

definition event_row_from_event ::
  "extern \<Rightarrow> sdk \<Rightarrow> event \<Rightarrow> i64 \<Rightarrow> i64 \<Rightarrow> i64 \<Rightarrow> event_size_info option \<Rightarrow> datetime option \<Rightarrow> event_row result" where
  "event_row_from_event ext sdk ev version height index size_info ts =
     (case unwrap (ev_key ev) of
        Inl e \<Rightarrow> Inl e
      | Inr key \<Rightarrow> Inr
          \<lparr>er_sequence_number = ev_sequence_number ev, er_creation_number = ek_creation_number key,
           er_account_address = standardize_address ext (ek_account_address key),
           er_transaction_version = version, er_transaction_block_height = height,
           er_type = ev_type_str ev, er_data = ev_data ev, er_event_index = index,
           er_indexed_type = truncate_str sdk (ev_type_str ev) event_type_max_length,
           er_block_timestamp = ts,
           er_type_tag_bytes = Some (case size_info of None \<Rightarrow> 0 | Some i \<Rightarrow> ucast (es_type_tag_bytes i)),
           er_total_bytes = Some (case size_info of None \<Rightarrow> 0 | Some i \<Rightarrow> ucast (es_total_bytes i))\<rparr>)"

definition raw_events :: "txn_data \<Rightarrow> event list" where
  "raw_events data =
     (case data of
        TxnBlockMetadata inner \<Rightarrow> bm_events inner
      | TxnGenesis inner \<Rightarrow> gn_events inner
      | TxnUser inner \<Rightarrow> ut_events inner
      | TxnValidator events \<Rightarrow> events
      | _ \<Rightarrow> [])"

definition parse_events :: "extern \<Rightarrow> sdk \<Rightarrow> transaction \<Rightarrow> event_row list result" where
  "parse_events ext sdk txn =
     (case unwrap (tx_timestamp txn) of
        Inl e \<Rightarrow> Inl e
      | Inr timestamp \<Rightarrow>
          (case tx_data txn of
             None \<Rightarrow> Inr []
           | Some data \<Rightarrow>
               map_result (\<lambda>(index, ev).
                 event_row_from_event ext sdk ev (tx_version txn) (tx_block_height txn) (of_nat index)
                   (opt_and_then (map_option ts_event_size_info (tx_size_info txn))
                      (\<lambda>infos. if index < length infos then Some (infos ! index) else None))
                   (Some (parse_timestamp ext timestamp (tx_version txn))))
                 (enumerate 0 (raw_events data))))"

definition postgres_event_of :: "extern \<Rightarrow> event_row \<Rightarrow> postgres_event result" where
  "postgres_event_of ext r =
     (case json_from_str ext (er_data r) of
        None \<Rightarrow> Inl (Panic ''called Result::unwrap() on an Err value'')
      | Some v \<Rightarrow> Inr
          \<lparr>pe_sequence_number = er_sequence_number r, pe_creation_number = er_creation_number r,
           pe_account_address = er_account_address r,
           pe_transaction_version = er_transaction_version r,
           pe_transaction_block_height = er_transaction_block_height r, pe_type = er_type r,
           pe_data = v, pe_event_index = er_event_index r, pe_indexed_type = er_indexed_type r\<rparr>)"

definition events_extract :: "extern \<Rightarrow> sdk \<Rightarrow> transaction list \<Rightarrow> postgres_event list result" where
  "events_extract ext sdk txns =
     (case map_result (parse_events ext sdk) txns of
        Inl e \<Rightarrow> Inl e
      | Inr rows \<Rightarrow> map_result (postgres_event_of ext) (concat rows))"

definition pe_key :: "postgres_event \<Rightarrow> i64 \<times> i64" where
  "pe_key e = (pe_transaction_version e, pe_event_index e)"

definition merge_event :: "postgres_event \<Rightarrow> postgres_event \<Rightarrow> postgres_event" where
  "merge_event old n = old\<lparr>pe_indexed_type := pe_indexed_type n\<rparr>"

definition events_store ::
  "(postgres_event list \<Rightarrow> postgres_event list list) \<Rightarrow> postgres_event list \<Rightarrow> postgres_event list \<Rightarrow>
   postgres_event list \<times> error option" where
  "events_store chunk rows table =
     (let (table', err) = run_chunks (insert_do_update pe_key merge_event) (chunk rows) table
      in (table', map_option (\<lambda>e. DBStoreError ''Failed to store events versions'') err))"

interpretation event_table: idempotent_upsert pe_key merge_event
  by unfold_locales (simp_all add: merge_event_def pe_key_def)

section \<open>Gas fees\<close>

record gas_fee =
  gf_transaction_version :: i64
  gf_owner_address :: "string option"
  gf_amount :: "decimal option"
  gf_gas_fee_payer_address :: "string option"
  gf_is_transaction_success :: bool
  gf_entry_function_id_str :: "string option"
  gf_block_height :: i64
  gf_transaction_timestamp :: datetime
  gf_storage_refund_amount :: decimal

definition get_gas_fee_event ::
  "extern \<Rightarrow> transaction_info \<Rightarrow> user_request \<Rightarrow> string option \<Rightarrow> i64 \<Rightarrow> datetime \<Rightarrow> i64 \<Rightarrow> u64 option \<Rightarrow> gas_fee result" where
  "get_gas_fee_event ext info request entry_function version ts height fee_statement =
     (case (case ur_signature request of None \<Rightarrow> Inr None | Some s \<Rightarrow> get_fee_payer_address ext s) of
        Inl e \<Rightarrow> Inl e
      | Inr payer \<Rightarrow> Inr
          \<lparr>gf_transaction_version = version,
           gf_owner_address = Some (standardize_address ext (ur_sender request)),
           gf_amount = Some (u64_to_bigdecimal (ti_gas_used info * ur_gas_unit_price request)),
           gf_gas_fee_payer_address = payer, gf_is_transaction_success = ti_success info,
           gf_entry_function_id_str = entry_function, gf_block_height = height,
           gf_transaction_timestamp = ts,
           gf_storage_refund_amount = (case fee_statement of None \<Rightarrow> 0 | Some octas \<Rightarrow> u64_to_bigdecimal octas)\<rparr>)"

definition gas_fee_from_transaction :: "extern \<Rightarrow> sdk \<Rightarrow> transaction \<Rightarrow> gas_fee option result" where
  "gas_fee_from_transaction ext sdk txn =
     (case tx_data txn of
        Some (TxnUser inner) \<Rightarrow>
          (case unwrap (ut_request inner) of
             Inl e \<Rightarrow> Inl e
           | Inr request \<Rightarrow>
               (case tx_info txn of
                  None \<Rightarrow> Inl (Panic ''Transaction info doesn't exist!'')
                | Some info \<Rightarrow>
                    (case unwrap (tx_timestamp txn) of
                       Inl e \<Rightarrow> Inl e
                     | Inr timestamp \<Rightarrow>
                         (case find_fee_statement ext (ut_events inner) of
                            Inl e \<Rightarrow> Inl e
                          | Inr fee \<Rightarrow>
                              (case get_gas_fee_event ext info request
                                  (get_entry_function_from_user_request sdk request) (tx_version txn)
                                  (parse_timestamp ext timestamp (tx_version txn)) (tx_block_height txn) fee of
                                 Inl e \<Rightarrow> Inl e
                               | Inr row \<Rightarrow> Inr (Some row))))))
      | _ \<Rightarrow> Inr None)"

definition gas_fee_extract :: "extern \<Rightarrow> sdk \<Rightarrow> transaction list \<Rightarrow> gas_fee list result" where
  "gas_fee_extract ext sdk txns =
     (case map_result (gas_fee_from_transaction ext sdk) txns of
        Inl e \<Rightarrow> Inl e
      | Inr rows \<Rightarrow> Inr (List.map_filter id rows))"

definition gas_fee_store ::
  "(gas_fee list \<Rightarrow> gas_fee list list) \<Rightarrow> u128 \<Rightarrow> gas_fee list \<Rightarrow> gas_fee list \<Rightarrow> gas_fee list \<times> error option" where
  "gas_fee_store chunk flags rows table =
     (let rows = filter_data flags (table_flag ''GAS_FEES'') rows;
          (table', err) = run_chunks (insert_do_nothing gf_transaction_version) (chunk rows) table
      in (table', map_option (\<lambda>e. DBStoreError ''Failed to store versions'') err))"

section \<open>Event rows\<close>

definition events_of_txn :: "transaction \<Rightarrow> event list" where
  "events_of_txn txn = (case tx_data txn of None \<Rightarrow> [] | Some data \<Rightarrow> raw_events data)"

definition er_key :: "event_row \<Rightarrow> i64 \<times> i64" where
  "er_key e = (er_transaction_version e, er_event_index e)"

lemma event_row_fields:
  assumes "event_row_from_event ext sdk ev version height index size_info ts = Inr r"
  shows "er_key r = (version, index)" and "er_type r = ev_type_str ev" and "er_data r = ev_data ev"
  using assms by (auto simp: event_row_from_event_def er_key_def split: sum.splits)

lemma parse_events_rows:
  assumes "parse_events ext sdk txn = Inr rows"
  shows "length rows = length (events_of_txn txn)"
    and "i < length rows \<Longrightarrow> er_key (rows ! i) = (tx_version txn, of_nat i)"
    and "i < length rows \<Longrightarrow> er_type (rows ! i) = ev_type_str (events_of_txn txn ! i)"
    and "i < length rows \<Longrightarrow> er_data (rows ! i) = ev_data (events_of_txn txn ! i)"
proof -
  obtain timestamp where t: "tx_timestamp txn = Some timestamp"
    using assms by (cases "tx_timestamp txn") (auto simp: parse_events_def unwrap_def)
  define f where "f = (\<lambda>(index, ev). event_row_from_event ext sdk ev (tx_version txn) (tx_block_height txn)
    (of_nat index) (opt_and_then (map_option ts_event_size_info (tx_size_info txn))
       (\<lambda>infos. if index < length infos then Some (infos ! index) else None))
    (Some (parse_timestamp ext timestamp (tx_version txn))))"
  have run: "map_result f (enumerate 0 (events_of_txn txn)) = Inr rows"
    using assms t by (cases "tx_data txn") (simp_all add: parse_events_def events_of_txn_def f_def)
  note nth = map_result_enumerate_nth [OF run]
  show len: "length rows = length (events_of_txn txn)" by (rule nth(1))
  assume "i < length rows"
  then have "event_row_from_event ext sdk (events_of_txn txn ! i) (tx_version txn) (tx_block_height txn)
      (of_nat i) (opt_and_then (map_option ts_event_size_info (tx_size_info txn))
        (\<lambda>infos. if i < length infos then Some (infos ! i) else None))
      (Some (parse_timestamp ext timestamp (tx_version txn))) = Inr (rows ! i)"
    using nth(2) [of i] len by (simp add: f_def)
  from event_row_fields [OF this]
  show "er_key (rows ! i) = (tx_version txn, of_nat i)"
    "er_type (rows ! i) = ev_type_str (events_of_txn txn ! i)"
    "er_data (rows ! i) = ev_data (events_of_txn txn ! i)" by simp_all
qed

lemma parse_events_returns:
  "(\<exists>rows. parse_events ext sdk txn = Inr rows) \<longleftrightarrow>
     tx_timestamp txn \<noteq> None \<and> list_all (\<lambda>ev. ev_key ev \<noteq> None) (events_of_txn txn)"
proof (cases "tx_timestamp txn")
  case (Some timestamp)
  show ?thesis
  proof (cases "tx_data txn")
    case (Some data)
    with \<open>tx_timestamp txn = Some timestamp\<close> show ?thesis
      by (simp add: parse_events_def map_result_enumerate_ok event_row_from_event_def case_result_ok
          events_of_txn_def list_all_length)
  qed (simp_all add: \<open>tx_timestamp txn = Some timestamp\<close> parse_events_def events_of_txn_def)
qed (simp add: parse_events_def unwrap_def)

text \<open>
  The rows of a transaction are its events one by one, with the version of the
  transaction, their position as index and their type; they are produced exactly when the
  transaction has a timestamp and all its events have keys, and otherwise the parser panics.
\<close>

theorem event_rows_follow_events:
  "(case parse_events ext sdk txn of
      Inl _ \<Rightarrow> tx_timestamp txn = None \<or> list_ex (\<lambda>ev. ev_key ev = None) (events_of_txn txn)
    | Inr rows \<Rightarrow>
        map er_key rows = map (\<lambda>i. (tx_version txn, of_nat i)) [0..<length (events_of_txn txn)] \<and>
        map er_type rows = map ev_type_str (events_of_txn txn) \<and>
        map er_data rows = map ev_data (events_of_txn txn))"
proof (cases "parse_events ext sdk txn")
  case (Inl e)
  with parse_events_returns [of ext sdk txn] show ?thesis by (auto simp: list_all_iff list_ex_iff)
next
  case (Inr rows)
  with parse_events_rows [OF Inr] show ?thesis by (auto intro!: nth_equalityI)
qed

definition event_rows_fit :: "transaction \<Rightarrow> bool" where
  "event_rows_fit txn \<longleftrightarrow> length (events_of_txn txn) \<le> 2 ^ 64"

lemma event_keys_distinct:
  assumes "parse_events ext sdk txn = Inr rows" and "event_rows_fit txn"
  shows "distinct (map er_key rows)" and "\<forall>r \<in> set rows. er_transaction_version r = tx_version txn"
proof -
  have keys: "map er_key rows = map (\<lambda>i. (tx_version txn, of_nat i)) [0..<length rows]"
    using parse_events_rows(2) [OF assms(1)] by (auto intro!: nth_equalityI)
  have "length rows \<le> 2 ^ 64" using parse_events_rows(1) [OF assms(1)] assms(2) by (simp add: event_rows_fit_def)
  then show "distinct (map er_key rows)"
    unfolding keys distinct_map by (auto intro!: inj_onI dest: of_nat_i64_inj [rotated 2])
  show "\<forall>r \<in> set rows. er_transaction_version r = tx_version txn"
    using parse_events_rows(2) [OF assms(1)] by (metis er_key_def fst_conv in_set_conv_nth)
qed

lemma batch_event_versions:
  assumes "list_all2 (\<lambda>txn rows. parse_events ext sdk txn = Inr rows) txns per"
    and "list_all event_rows_fit txns" and "r \<in> set (concat per)"
  shows "er_transaction_version r \<in> tx_version ` set txns"
  using assms
proof (induction rule: list_all2_induct)
  case (Cons txn txns rows per)
  then show ?case using event_keys_distinct(2) [OF Cons.hyps(1)] by auto
qed simp

lemma batch_event_keys:
  assumes "list_all2 (\<lambda>txn rows. parse_events ext sdk txn = Inr rows) txns per"
    and "distinct (map tx_version txns)" and "list_all event_rows_fit txns"
  shows "distinct (map er_key (concat per))"
  using assms
proof (induction rule: list_all2_induct)
  case (Cons txn txns rows per)
  have fit: "event_rows_fit txn" "list_all event_rows_fit txns" "distinct (map tx_version txns)"
    using Cons.prems by simp_all
  note here = event_keys_distinct [OF Cons.hyps(1) fit(1)]
  have "er_key r \<noteq> er_key r'" if "r \<in> set rows" "r' \<in> set (concat per)" for r r'
  proof -
    have "er_transaction_version r = tx_version txn" using here(2) that(1) by blast
    moreover have "er_transaction_version r' \<in> tx_version ` set txns"
      by (rule batch_event_versions [OF Cons.hyps(2) fit(2) that(2)])
    ultimately show ?thesis using Cons.prems(1) by (auto simp: er_key_def)
  qed
  then have "set (map er_key rows) \<inter> set (map er_key (concat per)) = {}" by fastforce
  with here(1) Cons.IH fit show ?case by simp
qed simp

lemma postgres_event_key: "postgres_event_of ext r = Inr e \<Longrightarrow> pe_key e = er_key r"
  by (auto simp: postgres_event_of_def pe_key_def er_key_def split: option.splits)

lemma events_extract_keys:
  assumes "events_extract ext sdk txns = Inr rows" and "distinct (map tx_version txns)"
    and "list_all event_rows_fit txns"
  shows "distinct (map pe_key rows)"
proof -
  obtain per where per: "map_result (parse_events ext sdk) txns = Inr per"
      "map_result (postgres_event_of ext) (concat per) = Inr rows"
    using assms(1) by (auto simp: events_extract_def split: sum.splits)
  have "map pe_key rows = map er_key (concat per)"
    using per(2) postgres_event_key unfolding map_result_Inr_iff
    by (fastforce simp: list_all2_conv_all_nth intro!: nth_equalityI)
  moreover have "distinct (map er_key (concat per))"
    using batch_event_keys [OF _ assms(2,3)] per(1) by (simp add: map_result_Inr_iff)
  ultimately show ?thesis by simp
qed

text \<open>
  The events of a batch with distinct versions are always accepted by the storer,
  however they are cut into chunks, and storing them a second time changes nothing.
\<close>

theorem events_batch_stored_once:
  assumes "events_extract ext sdk txns = Inr rows" and "distinct (map tx_version txns)"
    and "list_all event_rows_fit txns" and "\<And>xs. concat (chunk xs) = xs"
  shows "\<exists>table'. events_store chunk rows table = (table', None) \<and> events_store chunk rows table' = (table', None)"
  using events_extract_keys [OF assms(1-3)] assms(4)
  by (simp add: events_store_def event_table.run_chunks_distinct event_table.fold_upsert_twice)

lemma sample_events_fit: "event_rows_fit (sample_user_txn v cs)"
  by (simp add: event_rows_fit_def events_of_txn_def raw_events_def sample_user_txn_def)

theorem events_batch_stored_once_witness:
  "\<exists>rows table'. events_extract sample_world sample_sdk [sample_user_txn 5 [], sample_user_txn 6 []] = Inr rows \<and>
     length rows = 2 \<and> events_store (\<lambda>xs. [xs]) rows [] = (table', None) \<and>
     events_store (\<lambda>xs. [xs]) rows table' = (table', None)"
proof -
  let ?txns = "[sample_user_txn 5 [], sample_user_txn 6 []]"
  have "(case events_extract sample_world sample_sdk ?txns of Inl _ \<Rightarrow> False | Inr rows \<Rightarrow> length rows = 2)"
    by code_simp
  then obtain rows where rows: "events_extract sample_world sample_sdk ?txns = Inr rows" "length rows = 2"
    by (auto split: sum.splits)
  have "distinct (map tx_version ?txns)" by code_simp
  moreover have "list_all event_rows_fit ?txns" by (simp add: sample_events_fit)
  ultimately show ?thesis using events_batch_stored_once [OF rows(1), of "\<lambda>xs. [xs]" "[]"] rows by auto
qed

section \<open>Gas amounts\<close>

lemma gas_fee_row:
  assumes "gas_fee_from_transaction ext sdk txn = Inr (Some row)"
  obtains inner request info where "tx_data txn = Some (TxnUser inner)"
    and "ut_request inner = Some request" and "tx_info txn = Some info"
    and "gf_amount row = Some (u64_to_bigdecimal (ti_gas_used info * ur_gas_unit_price request))"
    and "gf_transaction_version row = tx_version txn"
  using assms
  by (auto simp: gas_fee_from_transaction_def get_gas_fee_event_def
      split: option.splits txn_data.splits sum.splits)

text \<open>
  The gas fee row of a user transaction holds gas used times unit price exactly when
  that product fits 64 bits, and otherwise its remainder modulo \<open>2 ^ 64\<close>.
\<close>

theorem gas_amount_wraps:
  assumes "gas_fee_from_transaction ext sdk txn = Inr (Some row)"
    and "tx_data txn = Some (TxnUser inner)" and "ut_request inner = Some request" and "tx_info txn = Some info"
  shows "gf_amount row = Some (of_int ((uint (ti_gas_used info) * uint (ur_gas_unit_price request)) mod 2 ^ 64))"
proof -
  have "gf_amount row = Some (u64_to_bigdecimal (ti_gas_used info * ur_gas_unit_price request))"
    using gas_fee_row [OF assms(1)] assms(2-4) by (metis option.inject txn_data.inject(1))
  then show ?thesis by (simp add: u64_to_bigdecimal_def uint_word_ariths(3))
qed

theorem gas_amount_wraps_witness:
  "\<exists>row. gas_fee_from_transaction sample_world sample_sdk (sample_user_txn 5 []) = Inr (Some row) \<and>
     gf_amount row = Some 300 \<and> gf_storage_refund_amount row = 77"
proof -
  have "(case gas_fee_from_transaction sample_world sample_sdk (sample_user_txn 5 []) of
      Inr (Some row) \<Rightarrow> gf_storage_refund_amount row = 77 | _ \<Rightarrow> False)" by code_simp
  then obtain row where row: "gas_fee_from_transaction sample_world sample_sdk (sample_user_txn 5 []) = Inr (Some row)"
      "gf_storage_refund_amount row = 77"
    by (auto split: sum.splits option.splits)
  have "\<exists>inner info. tx_data (sample_user_txn 5 []) = Some (TxnUser inner) \<and> ut_request inner = Some sample_request \<and>
      tx_info (sample_user_txn 5 []) = Some info \<and> ti_gas_used info = 3"
    by (simp add: sample_user_txn_def)
  then obtain inner info where "tx_data (sample_user_txn 5 []) = Some (TxnUser inner)"
      "ut_request inner = Some sample_request" "tx_info (sample_user_txn 5 []) = Some info" "ti_gas_used info = 3"
    by blast
  moreover have "ur_gas_unit_price sample_request = 100" by (simp add: sample_request_def)
  ultimately have "gf_amount row = Some 300" using gas_amount_wraps [OF row(1)] by fastforce
  with row show ?thesis by blast
qed

end
