(* ===== verification/DefaultProcessor.thy ===== *)
theory DefaultProcessor
  imports SampleChain BatchStore RowMaps
begin

text \<open>
  The default processor (\<open>processors/default\<close>): block metadata, table items with their current
  values, table metadata and modules for PostgreSQL, and transactions, write set changes,
  resources and modules for parquet.  The lemmas show that the current table items of a batch are
  what its last changes say, that a batch is stored for every way of cutting it into chunks, that
  a stored table item never goes back to an older version, and that the parquet rows account for
  every change.
\<close>

section \<open>Table items\<close>

record table_item =
  tbi_txn_version :: i64
  tbi_block_timestamp :: datetime
  tbi_write_set_change_index :: i64
  tbi_transaction_block_height :: i64
  tbi_table_key :: string
  tbi_table_handle :: string
  tbi_decoded_key :: string
  tbi_decoded_value :: "string option"
  tbi_is_deleted :: bool

record current_table_item =
  cti_table_handle :: string
  cti_key_hash :: string
  cti_key :: string
  cti_decoded_key :: string
  cti_decoded_value :: "string option"
  cti_last_transaction_version :: i64
  cti_is_deleted :: bool
  cti_block_timestamp :: datetime

record table_metadata =
  tmd_handle :: string
  tmd_key_type :: string
  tmd_value_type :: string

definition from_write_table_item ::
  "extern \<Rightarrow> sdk \<Rightarrow> write_table_item \<Rightarrow> i64 \<Rightarrow> i64 \<Rightarrow> i64 \<Rightarrow> datetime \<Rightarrow>
   (table_item \<times> current_table_item) result" where
  "from_write_table_item ext sdk item index version height ts =
     (case unwrap (wt_data item) of
        Inl e \<Rightarrow> Inl e
      | Inr data \<Rightarrow> Inr
          (\<lparr>tbi_txn_version = version, tbi_block_timestamp = ts, tbi_write_set_change_index = index,
            tbi_transaction_block_height = height, tbi_table_key = wt_key item,
            tbi_table_handle = standardize_address ext (wt_handle item),
            tbi_decoded_key = wtd_key data, tbi_decoded_value = Some (wtd_value data),
            tbi_is_deleted = False\<rparr>,
           \<lparr>cti_table_handle = standardize_address ext (wt_handle item),
            cti_key_hash = hash_str sdk (wt_key item), cti_key = wt_key item,
            cti_decoded_key = wtd_key data, cti_decoded_value = Some (wtd_value data),
            cti_last_transaction_version = version, cti_is_deleted = False,
            cti_block_timestamp = ts\<rparr>))"

definition from_delete_table_item ::
  "extern \<Rightarrow> sdk \<Rightarrow> delete_table_item \<Rightarrow> i64 \<Rightarrow> i64 \<Rightarrow> i64 \<Rightarrow> datetime \<Rightarrow>
   (table_item \<times> current_table_item) result" where
  "from_delete_table_item ext sdk item index version height ts =
     (case unwrap (dt_data item) of
        Inl e \<Rightarrow> Inl e
      | Inr data \<Rightarrow> Inr
          (\<lparr>tbi_txn_version = version, tbi_block_timestamp = ts, tbi_write_set_change_index = index,
            tbi_transaction_block_height = height, tbi_table_key = dt_key item,
            tbi_table_handle = standardize_address ext (dt_handle item),
            tbi_decoded_key = dtd_key data, tbi_decoded_value = None, tbi_is_deleted = True\<rparr>,
           \<lparr>cti_table_handle = standardize_address ext (dt_handle item),
            cti_key_hash = hash_str sdk (dt_key item), cti_key = dt_key item,
            cti_decoded_key = dtd_key data, cti_decoded_value = None,
            cti_last_transaction_version = version, cti_is_deleted = True,
            cti_block_timestamp = ts\<rparr>))"

definition metadata_from_write_table_item :: "write_table_item \<Rightarrow> table_metadata result" where
  "metadata_from_write_table_item item =
     (case unwrap (wt_data item) of
        Inl e \<Rightarrow> Inl e
      | Inr data \<Rightarrow> Inr \<lparr>tmd_handle = wt_handle item, tmd_key_type = wtd_key_type data,
          tmd_value_type = wtd_value_type data\<rparr>)"

section \<open>Modules\<close>

record move_module =
  mmo_txn_version :: i64
  mmo_write_set_change_index :: i64
  mmo_block_height :: i64
  mmo_name :: string
  mmo_address :: string
  mmo_bytecode :: bytes
  mmo_exposed_functions :: "string option"
  mmo_friends :: "string option"
  mmo_structs :: "string option"
  mmo_is_deleted :: bool
  mmo_block_timestamp :: datetime

record move_module_bytecode_parsed =
  mp_address :: string
  mp_name :: string
  mp_bytecode :: bytes
  mp_exposed_functions :: string
  mp_friends :: string
  mp_structs :: string

definition canonical_list :: "sdk \<Rightarrow> json option list \<Rightarrow> string result" where
  "canonical_list sdk vs =
     (case map_result unwrap vs of
        Inl e \<Rightarrow> Inl e
      | Inr js \<Rightarrow> unwrap (canonical_json sdk (JArray js)))"

definition convert_move_module ::
  "extern \<Rightarrow> sdk \<Rightarrow> move_module_abi \<Rightarrow> bytes \<Rightarrow> move_module_bytecode_parsed result" where
  "convert_move_module ext sdk abi bytecode =
     (case canonical_list sdk (ab_exposed_functions abi) of
        Inl e \<Rightarrow> Inl e
      | Inr exposed \<Rightarrow>
          (case canonical_list sdk (ab_friends abi) of
             Inl e \<Rightarrow> Inl e
           | Inr friends \<Rightarrow>
               (case canonical_list sdk (ab_structs abi) of
                  Inl e \<Rightarrow> Inl e
                | Inr structs \<Rightarrow> Inr
                    \<lparr>mp_address = standardize_address ext (ab_address abi), mp_name = ab_name abi,
                     mp_bytecode = bytecode, mp_exposed_functions = exposed,
                     mp_friends = friends, mp_structs = structs\<rparr>)))"

definition convert_move_module_bytecode ::
  "extern \<Rightarrow> sdk \<Rightarrow> move_module_bytecode \<Rightarrow> move_module_bytecode_parsed option result" where
  "convert_move_module_bytecode ext sdk mmb =
     (case mb_abi mmb of
        None \<Rightarrow> Inr None
      | Some abi \<Rightarrow>
          (case convert_move_module ext sdk abi (mb_bytecode mmb) of
             Inl e \<Rightarrow> Inl e
           | Inr parsed \<Rightarrow> Inr (Some parsed)))"

definition from_write_module ::
  "extern \<Rightarrow> sdk \<Rightarrow> write_module \<Rightarrow> i64 \<Rightarrow> i64 \<Rightarrow> i64 \<Rightarrow> datetime \<Rightarrow> move_module result" where
  "from_write_module ext sdk wm index version height ts =
     (case unwrap (wm_data wm) of
        Inl e \<Rightarrow> Inl e
      | Inr data \<Rightarrow>
          (case convert_move_module_bytecode ext sdk data of
             Inl e \<Rightarrow> Inl e
           | Inr parsed \<Rightarrow> Inr
               \<lparr>mmo_txn_version = version, mmo_write_set_change_index = index,
                mmo_block_height = height, mmo_name = unwrap_or (map_option mp_name parsed) [],
                mmo_address = standardize_address ext (wm_address wm),
                mmo_bytecode = mb_bytecode data,
                mmo_exposed_functions = map_option mp_exposed_functions parsed,
                mmo_friends = map_option mp_friends parsed,
                mmo_structs = map_option mp_structs parsed, mmo_is_deleted = False,
                mmo_block_timestamp = ts\<rparr>))"

definition from_delete_module ::
  "extern \<Rightarrow> delete_module \<Rightarrow> i64 \<Rightarrow> i64 \<Rightarrow> i64 \<Rightarrow> datetime \<Rightarrow> move_module" where
  "from_delete_module ext dm index version height ts =
     \<lparr>mmo_txn_version = version, mmo_write_set_change_index = index, mmo_block_height = height,
      mmo_name = unwrap_or (dm_module_name dm) [],
      mmo_address = standardize_address ext (dm_address dm), mmo_bytecode = [],
      mmo_exposed_functions = None, mmo_friends = None, mmo_structs = None,
      mmo_is_deleted = True, mmo_block_timestamp = ts\<rparr>"

section \<open>Block metadata\<close>

record block_metadata_row =
  bmt_version :: i64
  bmt_block_height :: i64
  bmt_id :: string
  bmt_round :: i64
  bmt_epoch :: i64
  bmt_previous_block_votes_bitvec :: string
  bmt_proposer :: string
  bmt_failed_proposer_indices :: string
  bmt_timestamp :: datetime
  bmt_ns_since_unix_epoch :: u64

definition from_bmt_transaction ::
  "extern \<Rightarrow> sdk \<Rightarrow> block_metadata_transaction \<Rightarrow> i64 \<Rightarrow> i64 \<Rightarrow> i64 \<Rightarrow> int \<times> int \<Rightarrow> block_metadata_row" where
  "from_bmt_transaction ext sdk txn version height epoch timestamp =
     (let block_timestamp = parse_timestamp ext timestamp version
      in \<lparr>bmt_version = version, bmt_block_height = height, bmt_id = bm_id txn,
          bmt_round = bm_round txn, bmt_epoch = epoch,
          bmt_previous_block_votes_bitvec =
            json_to_string sdk (json_numbers (map unat (bm_previous_block_votes_bitvec txn))),
          bmt_proposer = standardize_address ext (bm_proposer txn),
          bmt_failed_proposer_indices =
            json_to_string sdk (json_numbers (map unat (bm_failed_proposer_indices txn))),
          bmt_timestamp = block_timestamp,
          bmt_ns_since_unix_epoch = compute_nanos_since_epoch sdk block_timestamp\<rparr>)"

section \<open>Processing a batch\<close>

record default_rows =
  df_block_metadata :: "block_metadata_row list"
  df_table_items :: "table_item list"
  df_current_table_items :: "((string \<times> string) \<times> current_table_item) list"
  df_table_metadata :: "(string \<times> table_metadata) list"
  df_move_modules :: "move_module list"

definition empty_default_rows :: default_rows where
  "empty_default_rows =
     \<lparr>df_block_metadata = [], df_table_items = [], df_current_table_items = [],
      df_table_metadata = [], df_move_modules = []\<rparr>"

definition cti_pk :: "current_table_item \<Rightarrow> string \<times> string" where
  "cti_pk c = (cti_table_handle c, cti_key_hash c)"

definition push_table_item :: "table_item \<times> current_table_item \<Rightarrow> default_rows \<Rightarrow> default_rows" where
  "push_table_item p rows =
     rows\<lparr>df_table_items := df_table_items rows @ [fst p],
          df_current_table_items := AList.update (cti_pk (snd p)) (snd p) (df_current_table_items rows)\<rparr>"

definition process_change ::
  "extern \<Rightarrow> sdk \<Rightarrow> i64 \<Rightarrow> i64 \<Rightarrow> datetime \<Rightarrow> nat \<times> change option \<Rightarrow> default_rows \<Rightarrow> default_rows result" where
  "process_change ext sdk version height ts iwsc rows =
     (case snd iwsc of
        None \<Rightarrow> Inl (Panic ''WriteSetChange must have a change'')
      | Some (WriteTableItem inner) \<Rightarrow>
          (case from_write_table_item ext sdk inner (of_nat (fst iwsc)) version height ts of
             Inl e \<Rightarrow> Inl e
           | Inr p \<Rightarrow>
               (case metadata_from_write_table_item inner of
                  Inl e \<Rightarrow> Inl e
                | Inr m \<Rightarrow> Inr ((push_table_item p rows)
                    \<lparr>df_table_metadata :=
                       AList.update (cti_table_handle (snd p)) m (df_table_metadata rows)\<rparr>)))
      | Some (DeleteTableItem inner) \<Rightarrow>
          (case from_delete_table_item ext sdk inner (of_nat (fst iwsc)) version height ts of
             Inl e \<Rightarrow> Inl e
           | Inr p \<Rightarrow> Inr (push_table_item p rows))
      | Some (WriteModule inner) \<Rightarrow>
          (case from_write_module ext sdk inner (of_nat (fst iwsc)) version height ts of
             Inl e \<Rightarrow> Inl e
           | Inr m \<Rightarrow> Inr (rows\<lparr>df_move_modules := df_move_modules rows @ [m]\<rparr>))
      | Some (DeleteModule inner) \<Rightarrow>
          Inr (rows\<lparr>df_move_modules := df_move_modules rows @
            [from_delete_module ext inner (of_nat (fst iwsc)) version height ts]\<rparr>)
      | Some _ \<Rightarrow> Inr rows)"

definition process_default_txn ::
  "extern \<Rightarrow> sdk \<Rightarrow> transaction \<Rightarrow> default_rows \<Rightarrow> default_rows result" where
  "process_default_txn ext sdk txn rows =
     (case tx_timestamp txn of
        None \<Rightarrow> Inl (Panic ''Transaction timestamp doesn't exist!'')
      | Some timestamp \<Rightarrow>
          (case tx_info txn of
             None \<Rightarrow> Inl (Panic ''Transaction info doesn't exist!'')
           | Some info \<Rightarrow>
               (case from_timestamp_opt sdk (fst timestamp) (snd timestamp mod 2 ^ 32) of
                  None \<Rightarrow> Inl (Panic ''Txn Timestamp is invalid!'')
                | Some ts \<Rightarrow>
                    (case tx_data txn of
                       None \<Rightarrow> Inr rows
                     | Some data \<Rightarrow>
                         (let rows = (case data of
                              TxnBlockMetadata bm \<Rightarrow> rows\<lparr>df_block_metadata := df_block_metadata rows @
                                [from_bmt_transaction ext sdk bm (tx_version txn) (tx_block_height txn)
                                   (tx_epoch txn) timestamp]\<rparr>
                            | _ \<Rightarrow> rows)
                          in fold_result (process_change ext sdk (tx_version txn) (tx_block_height txn) ts)
                               (enumerate 0 (ti_changes info)) rows)))))"

definition process_transactions ::
  "extern \<Rightarrow> sdk \<Rightarrow> transaction list \<Rightarrow>
   (block_metadata_row list \<times> table_item list \<times> current_table_item list \<times>
    table_metadata list \<times> move_module list) result" where
  "process_transactions ext sdk txns =
     (case fold_result (process_default_txn ext sdk) txns empty_default_rows of
        Inl e \<Rightarrow> Inl e
      | Inr rows \<Rightarrow>
          Inr (df_block_metadata rows, df_table_items rows,
               sort_key cti_pk (map snd (df_current_table_items rows)),
               sort_key tmd_handle (map snd (df_table_metadata rows)), df_move_modules rows))"

section \<open>PostgreSQL rows\<close>

record postgres_table_item =
  pti_transaction_version :: i64
  pti_write_set_change_index :: i64
  pti_transaction_block_height :: i64
  pti_key :: string
  pti_table_handle :: string
  pti_decoded_key :: json
  pti_decoded_value :: "json option"
  pti_is_deleted :: bool

record postgres_current_table_item =
  pct_table_handle :: string
  pct_key_hash :: string
  pct_key :: string
  pct_decoded_key :: json
  pct_decoded_value :: "json option"
  pct_last_transaction_version :: i64
  pct_is_deleted :: bool

record postgres_block_metadata =
  pbm_version :: i64
  pbm_block_height :: i64
  pbm_id :: string
  pbm_round :: i64
  pbm_epoch :: i64
  pbm_previous_block_votes_bitvec :: json
  pbm_proposer :: string
  pbm_failed_proposer_indices :: json
  pbm_timestamp :: datetime

record postgres_move_module =
  pmm_transaction_version :: i64
  pmm_write_set_change_index :: i64
  pmm_transaction_block_height :: i64
  pmm_name :: string
  pmm_address :: string
  pmm_bytecode :: bytes
  pmm_friends :: "json option"
  pmm_exposed_functions :: "json option"
  pmm_structs :: "json option"
  pmm_is_deleted :: bool

definition parse_json :: "extern \<Rightarrow> string \<Rightarrow> json result" where
  "parse_json ext s = unwrap (json_from_str ext s)"

definition parse_json_opt :: "extern \<Rightarrow> string option \<Rightarrow> json option result" where
  "parse_json_opt ext s =
     (case s of
        None \<Rightarrow> Inr None
      | Some v \<Rightarrow> (case parse_json ext v of Inl e \<Rightarrow> Inl e | Inr j \<Rightarrow> Inr (Some j)))"

definition postgres_table_item_of :: "extern \<Rightarrow> table_item \<Rightarrow> postgres_table_item result" where
  "postgres_table_item_of ext t =
     (case parse_json ext (tbi_decoded_key t) of
        Inl e \<Rightarrow> Inl e
      | Inr key \<Rightarrow>
          (case parse_json_opt ext (tbi_decoded_value t) of
             Inl e \<Rightarrow> Inl e
           | Inr val \<Rightarrow> Inr
               \<lparr>pti_transaction_version = tbi_txn_version t,
                pti_write_set_change_index = tbi_write_set_change_index t,
                pti_transaction_block_height = tbi_transaction_block_height t,
                pti_key = tbi_table_key t, pti_table_handle = tbi_table_handle t,
                pti_decoded_key = key, pti_decoded_value = val,
                pti_is_deleted = tbi_is_deleted t\<rparr>))"

definition postgres_current_table_item_of ::
  "extern \<Rightarrow> current_table_item \<Rightarrow> postgres_current_table_item result" where
  "postgres_current_table_item_of ext c =
     (case parse_json ext (cti_decoded_key c) of
        Inl e \<Rightarrow> Inl e
      | Inr key \<Rightarrow>
          (case parse_json_opt ext (cti_decoded_value c) of
             Inl e \<Rightarrow> Inl e
           | Inr val \<Rightarrow> Inr
               \<lparr>pct_table_handle = cti_table_handle c, pct_key_hash = cti_key_hash c,
                pct_key = cti_key c, pct_decoded_key = key, pct_decoded_value = val,
                pct_last_transaction_version = cti_last_transaction_version c,
                pct_is_deleted = cti_is_deleted c\<rparr>))"

definition postgres_block_metadata_of ::
  "extern \<Rightarrow> block_metadata_row \<Rightarrow> postgres_block_metadata result" where
  "postgres_block_metadata_of ext b =
     (case parse_json ext (bmt_previous_block_votes_bitvec b) of
        Inl e \<Rightarrow> Inl e
      | Inr votes \<Rightarrow>
          (case parse_json ext (bmt_failed_proposer_indices b) of
             Inl e \<Rightarrow> Inl e
           | Inr failed \<Rightarrow> Inr
               \<lparr>pbm_version = bmt_version b, pbm_block_height = bmt_block_height b,
                pbm_id = bmt_id b, pbm_round = bmt_round b, pbm_epoch = bmt_epoch b,
                pbm_previous_block_votes_bitvec = votes, pbm_proposer = bmt_proposer b,
                pbm_failed_proposer_indices = failed, pbm_timestamp = bmt_timestamp b\<rparr>))"

definition postgres_move_module_of :: "extern \<Rightarrow> move_module \<Rightarrow> postgres_move_module result" where
  "postgres_move_module_of ext m =
     (case parse_json_opt ext (mmo_exposed_functions m) of
        Inl e \<Rightarrow> Inl e
      | Inr exposed \<Rightarrow>
          (case parse_json_opt ext (mmo_friends m) of
             Inl e \<Rightarrow> Inl e
           | Inr friends \<Rightarrow>
               (case parse_json_opt ext (mmo_structs m) of
                  Inl e \<Rightarrow> Inl e
                | Inr structs \<Rightarrow> Inr
                    \<lparr>pmm_transaction_version = mmo_txn_version m,
                     pmm_write_set_change_index = mmo_write_set_change_index m,
                     pmm_transaction_block_height = mmo_block_height m, pmm_name = mmo_name m,
                     pmm_address = mmo_address m, pmm_bytecode = mmo_bytecode m,
                     pmm_friends = friends, pmm_exposed_functions = exposed,
                     pmm_structs = structs, pmm_is_deleted = mmo_is_deleted m\<rparr>)))"

record default_data =
  dd_block_metadata :: "postgres_block_metadata list"
  dd_table_items :: "postgres_table_item list"
  dd_current_table_items :: "postgres_current_table_item list"
  dd_table_metadata :: "table_metadata list"
  dd_move_modules :: "postgres_move_module list"

text \<open>\<open>PostgresTableMetadata\<close> has the fields of \<open>TableMetadata\<close>.\<close>

definition default_extract :: "extern \<Rightarrow> sdk \<Rightarrow> transaction list \<Rightarrow> default_data result" where
  "default_extract ext sdk txns =
     (case process_transactions ext sdk txns of
        Inl e \<Rightarrow> Inl e
      | Inr (blocks, items, currents, metadata, modules) \<Rightarrow>
          (case map_result (postgres_table_item_of ext) items of
             Inl e \<Rightarrow> Inl e
           | Inr items \<Rightarrow>
               (case map_result (postgres_current_table_item_of ext) currents of
                  Inl e \<Rightarrow> Inl e
                | Inr currents \<Rightarrow>
                    (case map_result (postgres_block_metadata_of ext) blocks of
                       Inl e \<Rightarrow> Inl e
                     | Inr blocks \<Rightarrow>
                         (case map_result (postgres_move_module_of ext) modules of
                            Inl e \<Rightarrow> Inl e
                          | Inr modules \<Rightarrow> Inr
                              \<lparr>dd_block_metadata = blocks, dd_table_items = items,
                               dd_current_table_items = currents, dd_table_metadata = metadata,
                               dd_move_modules = modules\<rparr>)))))"

section \<open>Storage\<close>

definition pti_pk :: "postgres_table_item \<Rightarrow> i64 \<times> i64" where
  "pti_pk t = (pti_transaction_version t, pti_write_set_change_index t)"

definition pct_pk :: "postgres_current_table_item \<Rightarrow> string \<times> string" where
  "pct_pk c = (pct_table_handle c, pct_key_hash c)"

definition pmm_pk :: "postgres_move_module \<Rightarrow> i64 \<times> i64" where
  "pmm_pk m = (pmm_transaction_version m, pmm_write_set_change_index m)"

definition take_current_table_item ::
  "postgres_current_table_item \<Rightarrow> postgres_current_table_item \<Rightarrow> postgres_current_table_item" where
  "take_current_table_item old n =
     old\<lparr>pct_key := pct_key n, pct_decoded_key := pct_decoded_key n,
         pct_decoded_value := pct_decoded_value n, pct_is_deleted := pct_is_deleted n,
         pct_last_transaction_version := pct_last_transaction_version n\<rparr>"

definition merge_current_table_item ::
  "postgres_current_table_item \<Rightarrow> postgres_current_table_item \<Rightarrow> postgres_current_table_item" where
  "merge_current_table_item old n =
     (if sint (pct_last_transaction_version old) \<le> sint (pct_last_transaction_version n)
      then take_current_table_item old n else old)"

record default_chunks =
  ck_block_metadata :: "postgres_block_metadata list \<Rightarrow> postgres_block_metadata list list"
  ck_table_items :: "postgres_table_item list \<Rightarrow> postgres_table_item list list"
  ck_current_table_items :: "postgres_current_table_item list \<Rightarrow> postgres_current_table_item list list"
  ck_table_metadata :: "table_metadata list \<Rightarrow> table_metadata list list"
  ck_move_modules :: "postgres_move_module list \<Rightarrow> postgres_move_module list list"

definition default_store ::
  "default_chunks \<Rightarrow> u128 \<Rightarrow> default_data \<Rightarrow> default_data \<Rightarrow> default_data \<times> error option" where
  "default_store ck flags data db =
     (let (blocks, r1) = run_chunks (insert_do_nothing pbm_version)
            (ck_block_metadata ck (filter_data flags (table_flag ''BLOCK_METADATA_TRANSACTIONS'') (dd_block_metadata data)))
            (dd_block_metadata db);
          (items, r2) = run_chunks (insert_do_nothing pti_pk)
            (ck_table_items ck (filter_data flags (table_flag ''TABLE_ITEMS'') (dd_table_items data)))
            (dd_table_items db);
          (currents, r3) = run_chunks (insert_do_update pct_pk merge_current_table_item)
            (ck_current_table_items ck (filter_data flags (table_flag ''CURRENT_TABLE_ITEMS'') (dd_current_table_items data)))
            (dd_current_table_items db);
          (metadata, r4) = run_chunks (insert_do_nothing tmd_handle)
            (ck_table_metadata ck (filter_data flags (table_flag ''TABLE_METADATA'') (dd_table_metadata data)))
            (dd_table_metadata db);
          (modules, r5) = run_chunks (insert_do_nothing pmm_pk)
            (ck_move_modules ck (filter_data flags (table_flag ''MOVE_MODULES'') (dd_move_modules data)))
            (dd_move_modules db)
      in (\<lparr>dd_block_metadata = blocks, dd_table_items = items, dd_current_table_items = currents,
           dd_table_metadata = metadata, dd_move_modules = modules\<rparr>,
          find_map id [r1, r2, r3, r4, r5]))"

text \<open>
  The database has a table for each list of the batch.  The five insertions run concurrently
  on different tables; \<open>try_join!\<close> drops the others when one fails, so nothing is said about
  the tables after an error.
\<close>

interpretation current_table_item_table:
  versioned_table pct_pk "\<lambda>c. sint (pct_last_transaction_version c)" take_current_table_item
    merge_current_table_item
  by unfold_locales (simp_all add: merge_current_table_item_def take_current_table_item_def pct_pk_def)

section \<open>Parquet rows\<close>

record write_set_change_row =
  wsr_txn_version :: i64
  wsr_write_set_change_index :: i64
  wsr_state_key_hash :: string
  wsr_change_type :: string
  wsr_resource_address :: string
  wsr_block_height :: i64
  wsr_block_timestamp :: datetime

datatype write_set_change_detail = DetailModule move_module | DetailResource move_resource
  | DetailTable table_item current_table_item "table_metadata option"

definition get_write_set_change_type :: "write_set_change \<Rightarrow> string result" where
  "get_write_set_change_type wsc =
     (case wsc_type wsc of
        None \<Rightarrow> Inl (Panic ''WriteSetChange must have a valid type.'')
      | Some ChangeDeleteModule \<Rightarrow> Inr ''delete_module''
      | Some ChangeDeleteResource \<Rightarrow> Inr ''delete_resource''
      | Some ChangeDeleteTableItem \<Rightarrow> Inr ''delete_table_item''
      | Some ChangeWriteModule \<Rightarrow> Inr ''write_module''
      | Some ChangeWriteResource \<Rightarrow> Inr ''write_resource''
      | Some ChangeWriteTableItem \<Rightarrow> Inr ''write_table_item''
      | Some ChangeUnspecified \<Rightarrow> Inl (Panic ''WriteSetChange type must be specified.''))"

definition from_write_set_change ::
  "extern \<Rightarrow> sdk \<Rightarrow> write_set_change \<Rightarrow> i64 \<Rightarrow> i64 \<Rightarrow> i64 \<Rightarrow> datetime \<Rightarrow>
   (write_set_change_row \<times> write_set_change_detail) result" where
  "from_write_set_change ext sdk wsc index version height ts =
     (case get_write_set_change_type wsc of
        Inl e \<Rightarrow> Inl e
      | Inr change_type \<Rightarrow>
          (let row = (\<lambda>hash address.
             \<lparr>wsr_txn_version = version, wsr_write_set_change_index = index,
              wsr_state_key_hash = hash, wsr_change_type = change_type,
              wsr_resource_address = address, wsr_block_height = height,
              wsr_block_timestamp = ts\<rparr>)
           in case wsc_change wsc of
             None \<Rightarrow> Inl (Panic ''WriteSetChange must have a change'')
           | Some (WriteModule inner) \<Rightarrow>
               (case from_write_module ext sdk inner index version height ts of
                  Inl e \<Rightarrow> Inl e
                | Inr m \<Rightarrow> Inr (row (standardize_address ext (hex_encode ext (wm_state_key_hash inner)))
                    (standardize_address ext (wm_address inner)), DetailModule m))
           | Some (DeleteModule inner) \<Rightarrow>
               Inr (row (standardize_address ext (hex_encode ext (dm_state_key_hash inner)))
                    (standardize_address ext (dm_address inner)),
                  DetailModule (from_delete_module ext inner index version height ts))
           | Some (WriteResource inner) \<Rightarrow>
               (case move_resource_from_write_resource ext inner index version height ts of
                  Inl _ \<Rightarrow> Inl (Panic ''called Result::unwrap() on an Err value'')
                | Inr None \<Rightarrow> Inl (Panic ''Failed to convert write set change.'')
                | Inr (Some resource) \<Rightarrow>
                    Inr (row (standardize_address_from_bytes sdk (wr_state_key_hash inner))
                      (standardize_address ext (wr_address inner)), DetailResource resource))
           | Some (DeleteResource inner) \<Rightarrow>
               (case move_resource_from_delete_resource ext inner index version height ts of
                  Inl _ \<Rightarrow> Inl (Panic ''called Result::unwrap() on an Err value'')
                | Inr None \<Rightarrow> Inl (Panic ''Failed to convert write set change.'')
                | Inr (Some resource) \<Rightarrow>
                    Inr (row (standardize_address_from_bytes sdk (dr_state_key_hash inner))
                      (standardize_address ext (dr_address inner)), DetailResource resource))
           | Some (WriteTableItem inner) \<Rightarrow>
               (case from_write_table_item ext sdk inner index version height ts of
                  Inl e \<Rightarrow> Inl e
                | Inr (item, current) \<Rightarrow>
                    (case metadata_from_write_table_item inner of
                       Inl e \<Rightarrow> Inl e
                     | Inr m \<Rightarrow>
                         Inr (row (standardize_address ext (hex_encode ext (wt_state_key_hash inner))) [],
                           DetailTable item current (Some m))))
           | Some (DeleteTableItem inner) \<Rightarrow>
               (case from_delete_table_item ext sdk inner index version height ts of
                  Inl e \<Rightarrow> Inl e
                | Inr (item, current) \<Rightarrow>
                    Inr (row (standardize_address ext (hex_encode ext (dt_state_key_hash inner))) [],
                      DetailTable item current None))))"

text \<open>
  \<open>from_write_set_changes\<close> panics on the \<open>Err\<close> of a missing resource; the case \<open>Ok(None)\<close> that
  it would skip never occurs.
\<close>

definition from_write_set_changes ::
  "extern \<Rightarrow> sdk \<Rightarrow> write_set_change list \<Rightarrow> i64 \<Rightarrow> i64 \<Rightarrow> datetime \<Rightarrow>
   (write_set_change_row list \<times> write_set_change_detail list) result" where
  "from_write_set_changes ext sdk wscs version height ts =
     (case map_result (\<lambda>(i, wsc). from_write_set_change ext sdk wsc (of_nat i) version height ts)
             (enumerate 0 wscs) of
        Inl e \<Rightarrow> Inl e
      | Inr ps \<Rightarrow> Inr (map fst ps, map snd ps))"

record transaction_row =
  txr_txn_version :: i64
  txr_block_height :: i64
  txr_epoch :: i64
  txr_txn_type :: string
  txr_payload :: "string option"
  txr_payload_type :: "string option"
  txr_gas_used :: u64
  txr_success :: bool
  txr_vm_status :: string
  txr_num_events :: i64
  txr_num_write_set_changes :: i64
  txr_txn_hash :: string
  txr_state_change_hash :: string
  txr_event_root_hash :: string
  txr_state_checkpoint_hash :: "string option"
  txr_accumulator_root_hash :: string
  txr_txn_total_bytes :: i64
  txr_block_timestamp :: datetime

definition from_transaction_info_with_data ::
  "extern \<Rightarrow> transaction_info \<Rightarrow> string option \<Rightarrow> string option \<Rightarrow> i64 \<Rightarrow> string \<Rightarrow> i64 \<Rightarrow> i64 \<Rightarrow> i64 \<Rightarrow>
   datetime \<Rightarrow> transaction_size_info option \<Rightarrow> transaction_row" where
  "from_transaction_info_with_data ext info payload payload_type version txn_type num_events height
     epoch ts size_info =
     (let hash = (\<lambda>bs. standardize_address ext (hex_encode ext bs))
      in \<lparr>txr_txn_version = version, txr_block_height = height, txr_epoch = epoch,
          txr_txn_type = txn_type, txr_payload = payload, txr_payload_type = payload_type,
          txr_gas_used = ti_gas_used info, txr_success = ti_success info,
          txr_vm_status = ti_vm_status info, txr_num_events = num_events,
          txr_num_write_set_changes = of_nat (length (ti_write_set_changes info)),
          txr_txn_hash = hash (ti_hash info), txr_state_change_hash = hash (ti_state_change_hash info),
          txr_event_root_hash = hash (ti_event_root_hash info),
          txr_state_checkpoint_hash = map_option hash (ti_state_checkpoint_hash info),
          txr_accumulator_root_hash = hash (ti_accumulator_root_hash info),
          txr_txn_total_bytes = (case size_info of None \<Rightarrow> 0 | Some s \<Rightarrow> ucast (ts_transaction_bytes s)),
          txr_block_timestamp = ts\<rparr>)"

definition from_transaction_info :: "extern \<Rightarrow> transaction_info \<Rightarrow> i64 \<Rightarrow> i64 \<Rightarrow> i64 \<Rightarrow> transaction_row" where
  "from_transaction_info ext info version epoch height =
     from_transaction_info_with_data ext info None None version [] 0 height epoch 0 None"

definition clean_payload :: "sdk \<Rightarrow> json option \<Rightarrow> string option result" where
  "clean_payload sdk payload =
     (case payload of
        None \<Rightarrow> Inr None
      | Some v \<Rightarrow> (case unwrap (canonical_json sdk v) of Inl e \<Rightarrow> Inl e | Inr s \<Rightarrow> Inr (Some s)))"

definition payload_parts :: "sdk \<Rightarrow> txn_data \<Rightarrow> i64 \<Rightarrow> (string option \<times> string option \<times> nat) result" where
  "payload_parts sdk data version =
     (case data of
        TxnUser inner \<Rightarrow>
          (case ut_request inner of
             None \<Rightarrow> Inl (Panic ''Getting user request failed.'')
           | Some request \<Rightarrow>
               (case ur_payload request of
                  None \<Rightarrow> Inr (None, None, length (ut_events inner))
                | Some payload \<Rightarrow>
                    (case clean_payload sdk (get_clean_payload sdk payload version) of
                       Inl e \<Rightarrow> Inl e
                     | Inr p \<Rightarrow> Inr (p, Some (get_payload_type sdk payload), length (ut_events inner)))))
      | TxnGenesis inner \<Rightarrow>
          (case unwrap (gn_payload inner) of
             Inl e \<Rightarrow> Inl e
           | Inr ws \<Rightarrow>
               (case clean_payload sdk (get_clean_writeset sdk ws version) of
                  Inl e \<Rightarrow> Inl e
                | Inr p \<Rightarrow> Inr (p, None, length (gn_events inner))))
      | TxnBlockMetadata inner \<Rightarrow> Inr (None, None, length (bm_events inner))
      | TxnValidator events \<Rightarrow> Inr (None, None, length events)
      | TxnStateCheckpoint \<Rightarrow> Inr (None, None, 0)
      | TxnBlockEpilogue \<Rightarrow> Inr (None, None, 0))"

definition has_changes :: "txn_data \<Rightarrow> bool" where
  "has_changes data =
     (case data of TxnStateCheckpoint \<Rightarrow> False | TxnBlockEpilogue \<Rightarrow> False | _ \<Rightarrow> True)"

definition from_transaction ::
  "extern \<Rightarrow> sdk \<Rightarrow> transaction \<Rightarrow>
   (transaction_row \<times> write_set_change_row list \<times> write_set_change_detail list) result" where
  "from_transaction ext sdk txn =
     (case tx_info txn of
        None \<Rightarrow> Inl (Panic ''Transaction info doesn't exist!'')
      | Some info \<Rightarrow>
          (case tx_data txn of
             None \<Rightarrow> Inr (from_transaction_info ext info (tx_version txn) (tx_epoch txn) (tx_block_height txn), [], [])
           | Some data \<Rightarrow>
               (case transaction_type_name sdk (tx_type txn) of
                  None \<Rightarrow> Inl (Panic ''Transaction type doesn't exist!'')
                | Some txn_type \<Rightarrow>
                    (case tx_timestamp txn of
                       None \<Rightarrow> Inl (Panic ''Transaction timestamp doesn't exist!'')
                     | Some timestamp \<Rightarrow>
                         (case from_timestamp_opt sdk (fst timestamp) 0 of
                            None \<Rightarrow> Inl (Panic ''Txn Timestamp is invalid!'')
                          | Some ts \<Rightarrow>
                              (case (if has_changes data
                                     then from_write_set_changes ext sdk (ti_write_set_changes info)
                                            (tx_version txn) (tx_block_height txn) ts
                                     else Inr ([], [])) of
                                 Inl e \<Rightarrow> Inl e
                               | Inr (wscs, details) \<Rightarrow>
                                   (case payload_parts sdk data (tx_version txn) of
                                      Inl e \<Rightarrow> Inl e
                                    | Inr (payload, payload_type, num_events) \<Rightarrow>
                                        Inr (from_transaction_info_with_data ext info payload payload_type
                                               (tx_version txn) txn_type (of_nat num_events) (tx_block_height txn)
                                               (tx_epoch txn) ts (tx_size_info txn), wscs, details))))))))"

definition from_transactions ::
  "extern \<Rightarrow> sdk \<Rightarrow> transaction list \<Rightarrow>
   (transaction_row list \<times> write_set_change_row list \<times> write_set_change_detail list) result" where
  "from_transactions ext sdk txns =
     (case map_result (from_transaction ext sdk) txns of
        Inl e \<Rightarrow> Inl e
      | Inr outs \<Rightarrow> Inr (map fst outs, concat (map (fst \<circ> snd) outs), concat (map (snd \<circ> snd) outs)))"

record parquet_move_resource =
  pmr_txn_version :: i64
  pmr_write_set_change_index :: i64
  pmr_block_height :: i64
  pmr_block_timestamp :: datetime
  pmr_resource_address :: string
  pmr_resource_type :: string
  pmr_module :: string
  pmr_fun :: string
  pmr_is_deleted :: bool
  pmr_generic_type_params :: "string option"
  pmr_data :: "string option"
  pmr_state_key_hash :: string

definition parquet_move_resource_of :: "sdk \<Rightarrow> move_resource \<Rightarrow> parquet_move_resource" where
  "parquet_move_resource_of sdk r =
     \<lparr>pmr_txn_version = mr_txn_version r, pmr_write_set_change_index = mr_write_set_change_index r,
      pmr_block_height = mr_block_height r, pmr_block_timestamp = mr_block_timestamp r,
      pmr_resource_address = mr_resource_address r, pmr_resource_type = mr_resource_type r,
      pmr_module = mr_module r, pmr_fun = mr_fun r, pmr_is_deleted = mr_is_deleted r,
      pmr_generic_type_params = map_option (json_to_string sdk) (mr_generic_type_params r),
      pmr_data = map_option (json_to_string sdk) (mr_data r),
      pmr_state_key_hash = mr_state_key_hash r\<rparr>"

primrec detail_resources :: "write_set_change_detail \<Rightarrow> move_resource list" where
  "detail_resources (DetailModule m) = []"
| "detail_resources (DetailResource r) = [r]"
| "detail_resources (DetailTable item current m) = []"

primrec detail_modules :: "write_set_change_detail \<Rightarrow> move_module list" where
  "detail_modules (DetailModule m) = [m]"
| "detail_modules (DetailResource r) = []"
| "detail_modules (DetailTable item current m) = []"

definition process_transactions_parquet ::
  "extern \<Rightarrow> sdk \<Rightarrow> transaction list \<Rightarrow>
   (parquet_move_resource list \<times> write_set_change_row list \<times> transaction_row list \<times> move_module list) result" where
  "process_transactions_parquet ext sdk txns =
     (case from_transactions ext sdk txns of
        Inl e \<Rightarrow> Inl e
      | Inr (rows, wscs, details) \<Rightarrow>
          Inr (map (parquet_move_resource_of sdk) (concat (map detail_resources details)), wscs, rows,
               concat (map detail_modules details)))"

text \<open>
  \<open>ParquetWriteSetChange\<close>, \<open>ParquetTransaction\<close>, \<open>ParquetMoveModule\<close> and the parquet table rows
  have the fields of the rows they are made from; only \<open>ParquetMoveResource\<close> changes types.
\<close>

section \<open>Current table items\<close>

definition current_item_of :: "sdk \<Rightarrow> table_item \<Rightarrow> current_table_item" where
  "current_item_of sdk t =
     \<lparr>cti_table_handle = tbi_table_handle t, cti_key_hash = hash_str sdk (tbi_table_key t),
      cti_key = tbi_table_key t, cti_decoded_key = tbi_decoded_key t,
      cti_decoded_value = tbi_decoded_value t, cti_last_transaction_version = tbi_txn_version t,
      cti_is_deleted = tbi_is_deleted t, cti_block_timestamp = tbi_block_timestamp t\<rparr>"

definition item_pk :: "sdk \<Rightarrow> table_item \<Rightarrow> string \<times> string" where
  "item_pk sdk t = cti_pk (current_item_of sdk t)"

definition table_change :: "change \<Rightarrow> bool option" where
  "table_change c = (case c of WriteTableItem _ \<Rightarrow> Some False | DeleteTableItem _ \<Rightarrow> Some True | _ \<Rightarrow> None)"

lemma from_write_table_item_row:
  "from_write_table_item ext sdk item index version height ts = Inr p \<Longrightarrow>
     snd p = current_item_of sdk (fst p) \<and> tbi_txn_version (fst p) = version \<and>
     tbi_write_set_change_index (fst p) = index \<and> \<not> tbi_is_deleted (fst p)"
  by (auto simp: from_write_table_item_def current_item_of_def split: sum.splits)

lemma from_delete_table_item_row:
  "from_delete_table_item ext sdk item index version height ts = Inr p \<Longrightarrow>
     snd p = current_item_of sdk (fst p) \<and> tbi_txn_version (fst p) = version \<and>
     tbi_write_set_change_index (fst p) = index \<and> tbi_is_deleted (fst p)"
  by (auto simp: from_delete_table_item_def current_item_of_def split: sum.splits)

text \<open>What a change does to the table items: nothing, or one more row that becomes current.\<close>

lemma process_change_cases [consumes 1, case_names other item]:
  assumes "process_change ext sdk version height ts iwsc rows = Inr rows'"
  obtains c where "snd iwsc = Some c" "table_change c = None"
      "df_table_items rows' = df_table_items rows"
      "df_current_table_items rows' = df_current_table_items rows"
  | c t where "snd iwsc = Some c" "table_change c = Some (tbi_is_deleted t)"
      "tbi_txn_version t = version" "tbi_write_set_change_index t = of_nat (fst iwsc)"
      "df_table_items rows' = df_table_items rows @ [t]"
      "df_current_table_items rows' =
         AList.update (item_pk sdk t) (current_item_of sdk t) (df_current_table_items rows)"
proof (cases "snd iwsc")
  case None
  with assms show ?thesis by (simp add: process_change_def)
next
  case (Some c)
  show ?thesis
  proof (cases c)
    case (WriteTableItem inner)
    obtain p where p: "from_write_table_item ext sdk inner (of_nat (fst iwsc)) version height ts = Inr p"
        "df_table_items rows' = df_table_items rows @ [fst p]"
        "df_current_table_items rows' = AList.update (cti_pk (snd p)) (snd p) (df_current_table_items rows)"
      using assms Some WriteTableItem
      by (auto simp: process_change_def push_table_item_def split: sum.splits)
    with from_write_table_item_row [OF p(1)] show ?thesis
      by (intro that(2) [OF Some, of "fst p"]) (simp_all add: WriteTableItem table_change_def item_pk_def)
  next
    case (DeleteTableItem inner)
    obtain p where p: "from_delete_table_item ext sdk inner (of_nat (fst iwsc)) version height ts = Inr p"
        "df_table_items rows' = df_table_items rows @ [fst p]"
        "df_current_table_items rows' = AList.update (cti_pk (snd p)) (snd p) (df_current_table_items rows)"
      using assms Some DeleteTableItem
      by (auto simp: process_change_def push_table_item_def split: sum.splits)
    with from_delete_table_item_row [OF p(1)] show ?thesis
      by (intro that(2) [OF Some, of "fst p"]) (simp_all add: DeleteTableItem table_change_def item_pk_def)
  qed (use assms Some in \<open>auto simp: process_change_def table_change_def split: sum.splits intro!: that(1) [OF Some]\<close>)
qed

lemma process_default_txn_cases [consumes 1, case_names no_data data]:
  assumes "process_default_txn ext sdk txn rows = Inr rows'"
  obtains "tx_data txn = None" "rows' = rows"
  | data info ts rows0 where "tx_data txn = Some data" "tx_info txn = Some info"
      "df_table_items rows0 = df_table_items rows"
      "df_current_table_items rows0 = df_current_table_items rows"
      "fold_result (process_change ext sdk (tx_version txn) (tx_block_height txn) ts)
         (enumerate 0 (ti_changes info)) rows0 = Inr rows'"
proof -
  obtain timestamp info ts where t: "tx_timestamp txn = Some timestamp" "tx_info txn = Some info"
      "from_timestamp_opt sdk (fst timestamp) (snd timestamp mod 2 ^ 32) = Some ts"
    using assms by (auto simp: process_default_txn_def split: option.splits)
  show ?thesis
  proof (cases "tx_data txn")
    case None
    with assms t that(1) show ?thesis by (simp add: process_default_txn_def)
  next
    case (Some data)
    define rows0 where "rows0 = (case data of
         TxnBlockMetadata bm \<Rightarrow> rows\<lparr>df_block_metadata := df_block_metadata rows @
           [from_bmt_transaction ext sdk bm (tx_version txn) (tx_block_height txn) (tx_epoch txn) timestamp]\<rparr>
       | _ \<Rightarrow> rows)"
    have "fold_result (process_change ext sdk (tx_version txn) (tx_block_height txn) ts)
         (enumerate 0 (ti_changes info)) rows0 = Inr rows'"
      using assms t Some by (simp add: process_default_txn_def rows0_def Let_def)
    moreover have "df_table_items rows0 = df_table_items rows"
        "df_current_table_items rows0 = df_current_table_items rows"
      by (simp_all add: rows0_def split: txn_data.split)
    ultimately show ?thesis using that(2) [OF Some t(2)] by blast
  qed
qed

definition items_latest :: "sdk \<Rightarrow> default_rows \<Rightarrow> bool" where
  "items_latest sdk rows \<longleftrightarrow>
     holds_latest (item_pk sdk) (current_item_of sdk) (df_table_items rows) (df_current_table_items rows)"

lemma process_change_latest:
  assumes "process_change ext sdk version height ts iwsc rows = Inr rows'" and "items_latest sdk rows"
  shows "items_latest sdk rows'"
  using assms
  by (cases rule: process_change_cases) (simp_all add: items_latest_def holds_latest_snoc)

lemma process_default_txn_latest:
  assumes "process_default_txn ext sdk txn rows = Inr rows'" and "items_latest sdk rows"
  shows "items_latest sdk rows'"
  using assms(1)
proof (cases rule: process_default_txn_cases)
  case no_data
  with assms show ?thesis by simp
next
  case (data data info ts rows0)
  then have "items_latest sdk rows0" using assms(2) by (simp add: items_latest_def)
  then show ?thesis
    by (rule fold_result_inv [where P = "items_latest sdk", OF _ data(5), rotated])
      (rule process_change_latest)
qed

lemma process_transactions_run:
  assumes "process_transactions ext sdk txns = Inr (blocks, items, currents, metadata, modules)"
  obtains rows where "fold_result (process_default_txn ext sdk) txns empty_default_rows = Inr rows"
    "items = df_table_items rows" "items_latest sdk rows"
    "currents = sort_key cti_pk (map snd (df_current_table_items rows))"
    "metadata = sort_key tmd_handle (map snd (df_table_metadata rows))"
proof -
  obtain rows where r: "fold_result (process_default_txn ext sdk) txns empty_default_rows = Inr rows"
    "items = df_table_items rows" "currents = sort_key cti_pk (map snd (df_current_table_items rows))"
    "metadata = sort_key tmd_handle (map snd (df_table_metadata rows))"
    using assms by (auto simp: process_transactions_def split: sum.splits)
  have "items_latest sdk empty_default_rows" by (simp add: items_latest_def empty_default_rows_def)
  then have "items_latest sdk rows"
    by (rule fold_result_inv [where P = "items_latest sdk", OF _ r(1), rotated])
      (rule process_default_txn_latest)
  with r that show ?thesis by blast
qed

lemma cti_pk_current_item_of: "cti_pk (current_item_of sdk t) = item_pk sdk t"
  by (simp add: item_pk_def)

text \<open>
  The current table items of a batch are sorted by their key without duplicates, and
  the one for a table handle and key is what the last change of that entry in the batch says,
  deletions included.
\<close>

theorem current_table_items_are_latest:
  assumes "process_transactions ext sdk txns = Inr (blocks, items, currents, metadata, modules)"
  shows "sorted (map cti_pk currents) \<and> distinct (map cti_pk currents) \<and>
    set currents = {c. latest (item_pk sdk) (current_item_of sdk) items (cti_pk c) = Some c}"
  using assms
proof (rule process_transactions_run)
  fix rows assume "items = df_table_items rows" "items_latest sdk rows"
    "currents = sort_key cti_pk (map snd (df_current_table_items rows))"
  then show ?thesis
    using sorted_latest_values [of "item_pk sdk" "current_item_of sdk" items
        "df_current_table_items rows" cti_pk, OF _ cti_pk_current_item_of]
    by (simp add: items_latest_def)
qed

definition sample_table_write :: "string \<Rightarrow> string \<Rightarrow> change" where
  "sample_table_write handle key = WriteTableItem
     \<lparr>wt_state_key_hash = [1], wt_handle = handle, wt_key = key,
      wt_data = Some \<lparr>wtd_key = ''core'', wtd_key_type = ''u64'', wtd_value = ''fee'', wtd_value_type = ''u64''\<rparr>\<rparr>"

definition sample_table_delete :: "string \<Rightarrow> string \<Rightarrow> change" where
  "sample_table_delete handle key = DeleteTableItem
     \<lparr>dt_state_key_hash = [1], dt_handle = handle, dt_key = key,
      dt_data = Some \<lparr>dtd_key = ''core'', dtd_key_type = ''u64''\<rparr>\<rparr>"

definition sample_default_txns :: "transaction list" where
  "sample_default_txns =
     [sample_user_txn 5 [sample_table_write ''0x9'' ''a'', sample_write ''0xb'' ''ObjectCore'' ''core'',
        sample_table_write ''0x9'' ''b''],
      sample_user_txn 6 [sample_table_delete ''0x9'' ''a'']]"

theorem current_table_items_are_latest_witness:
  "\<exists>blocks items currents metadata modules.
     process_transactions sample_world sample_sdk sample_default_txns =
       Inr (blocks, items, currents, metadata, modules) \<and>
     map cti_is_deleted currents = [True, False] \<and> distinct (map cti_pk currents)"
proof -
  have "(case process_transactions sample_world sample_sdk sample_default_txns of
      Inl _ \<Rightarrow> False
    | Inr (blocks, items, currents, metadata, modules) \<Rightarrow> map cti_is_deleted currents = [True, False])"
    by code_simp
  then obtain blocks items currents metadata modules where
    run: "process_transactions sample_world sample_sdk sample_default_txns =
       Inr (blocks, items, currents, metadata, modules)" "map cti_is_deleted currents = [True, False]"
    by (auto split: sum.splits)
  with current_table_items_are_latest [OF run(1)] show ?thesis by auto
qed

section \<open>Table items follow the changes\<close>

definition item_of_change :: "i64 \<Rightarrow> nat \<times> change option \<Rightarrow> (i64 \<times> i64 \<times> bool) list" where
  "item_of_change version iwsc =
     (case opt_and_then (snd iwsc) table_change of
        None \<Rightarrow> [] | Some deleted \<Rightarrow> [(version, of_nat (fst iwsc), deleted)])"

definition table_changes_of :: "transaction \<Rightarrow> (i64 \<times> i64 \<times> bool) list" where
  "table_changes_of txn =
     (case (tx_data txn, tx_info txn) of
        (Some _, Some info) \<Rightarrow>
          concat (map (item_of_change (tx_version txn)) (enumerate 0 (ti_changes info)))
      | _ \<Rightarrow> [])"

definition item_key :: "table_item \<Rightarrow> i64 \<times> i64 \<times> bool" where
  "item_key t = (tbi_txn_version t, tbi_write_set_change_index t, tbi_is_deleted t)"

lemma fold_changes_items:
  "fold_result (process_change ext sdk version height ts) iwscs rows = Inr rows' \<Longrightarrow>
     map item_key (df_table_items rows') =
       map item_key (df_table_items rows) @ concat (map (item_of_change version) iwscs)"
proof (induction iwscs arbitrary: rows)
  case (Cons iwsc iwscs)
  then obtain mid where mid: "process_change ext sdk version height ts iwsc rows = Inr mid"
      "fold_result (process_change ext sdk version height ts) iwscs mid = Inr rows'"
    by (auto split: sum.splits)
  from mid(1) have "map item_key (df_table_items mid) =
      map item_key (df_table_items rows) @ item_of_change version iwsc"
    by (cases rule: process_change_cases)
      (simp_all add: item_of_change_def item_key_def opt_and_then_def)
  with Cons.IH [OF mid(2)] show ?case by simp
qed simp

lemma fold_txns_items:
  "fold_result (process_default_txn ext sdk) txns rows = Inr rows' \<Longrightarrow>
     map item_key (df_table_items rows') =
       map item_key (df_table_items rows) @ concat (map table_changes_of txns)"
proof (induction txns arbitrary: rows)
  case (Cons txn txns)
  then obtain mid where mid: "process_default_txn ext sdk txn rows = Inr mid"
      "fold_result (process_default_txn ext sdk) txns mid = Inr rows'"
    by (auto split: sum.splits)
  from mid(1) have "map item_key (df_table_items mid) =
      map item_key (df_table_items rows) @ table_changes_of txn"
  proof (cases rule: process_default_txn_cases)
    case (data data info ts rows0)
    with fold_changes_items [OF data(5)] show ?thesis by (simp add: table_changes_of_def)
  qed (simp add: table_changes_of_def)
  with Cons.IH [OF mid(2)] show ?case by simp
qed simp

text \<open>
  The table item rows of a batch are exactly its written and deleted table entries,
  in the order of transactions and changes, each under its version and change index; changes of
  other kinds and transactions without data add none.
\<close>

theorem table_items_follow_changes:
  assumes "process_transactions ext sdk txns = Inr (blocks, items, currents, metadata, modules)"
  shows "map item_key items = concat (map table_changes_of txns)"
  using assms
proof (rule process_transactions_run)
  fix rows assume "fold_result (process_default_txn ext sdk) txns empty_default_rows = Inr rows"
    "items = df_table_items rows"
  then show ?thesis using fold_txns_items [of ext sdk txns empty_default_rows rows]
    by (simp add: empty_default_rows_def)
qed

theorem table_items_follow_changes_witness:
  "\<exists>blocks items currents metadata modules.
     process_transactions sample_world sample_sdk sample_default_txns =
       Inr (blocks, items, currents, metadata, modules) \<and>
     map item_key items = [(5, 0, False), (5, 2, False), (6, 0, True)]"
proof -
  have "(case process_transactions sample_world sample_sdk sample_default_txns of
      Inl _ \<Rightarrow> False | Inr _ \<Rightarrow> True)" by code_simp
  then obtain blocks items currents metadata modules where
    run: "process_transactions sample_world sample_sdk sample_default_txns =
       Inr (blocks, items, currents, metadata, modules)"
    by (cases "process_transactions sample_world sample_sdk sample_default_txns") auto
  have "concat (map table_changes_of sample_default_txns) = [(5, 0, False), (5, 2, False), (6, 0, True)]"
    by code_simp
  with table_items_follow_changes [OF run] run show ?thesis by simp
qed

section \<open>Storing a batch\<close>

definition default_chunks_ok :: "default_chunks \<Rightarrow> bool" where
  "default_chunks_ok ck \<longleftrightarrow>
     (\<forall>xs. concat (ck_block_metadata ck xs) = xs) \<and> (\<forall>xs. concat (ck_table_items ck xs) = xs) \<and>
     (\<forall>xs. concat (ck_current_table_items ck xs) = xs) \<and> (\<forall>xs. concat (ck_table_metadata ck xs) = xs) \<and>
     (\<forall>xs. concat (ck_move_modules ck xs) = xs)"

lemma default_store_run:
  assumes "default_chunks_ok ck" and "distinct (map pct_pk (dd_current_table_items data))"
  shows "default_store ck flags data db =
    (\<lparr>dd_block_metadata = fold (insert_ignore pbm_version)
        (filter_data flags (table_flag ''BLOCK_METADATA_TRANSACTIONS'') (dd_block_metadata data)) (dd_block_metadata db),
      dd_table_items = fold (insert_ignore pti_pk)
        (filter_data flags (table_flag ''TABLE_ITEMS'') (dd_table_items data)) (dd_table_items db),
      dd_current_table_items = fold (upsert pct_pk merge_current_table_item)
        (filter_data flags (table_flag ''CURRENT_TABLE_ITEMS'') (dd_current_table_items data)) (dd_current_table_items db),
      dd_table_metadata = fold (insert_ignore tmd_handle)
        (filter_data flags (table_flag ''TABLE_METADATA'') (dd_table_metadata data)) (dd_table_metadata db),
      dd_move_modules = fold (insert_ignore pmm_pk)
        (filter_data flags (table_flag ''MOVE_MODULES'') (dd_move_modules data)) (dd_move_modules db)\<rparr>, None)"
  using assms
  by (simp add: default_store_def run_chunks_do_nothing default_chunks_ok_def
      current_table_item_table.run_chunks_distinct filter_data_distinct)

lemma postgres_current_table_item_pk:
  "postgres_current_table_item_of ext c = Inr p \<Longrightarrow> pct_pk p = cti_pk c"
  by (auto simp: postgres_current_table_item_of_def pct_pk_def cti_pk_def split: sum.splits)

lemma default_extract_keys:
  assumes "default_extract ext sdk txns = Inr data"
  shows "distinct (map pct_pk (dd_current_table_items data))"
proof -
  obtain blocks items currents metadata modules where
    run: "process_transactions ext sdk txns = Inr (blocks, items, currents, metadata, modules)"
    "map_result (postgres_current_table_item_of ext) currents = Inr (dd_current_table_items data)"
    using assms by (auto simp: default_extract_def split: sum.splits)
  from run(1) have "distinct (map cti_pk currents)"
  proof (rule process_transactions_run)
    fix rows assume "items_latest sdk rows"
      "currents = sort_key cti_pk (map snd (df_current_table_items rows))"
    then show ?thesis
      using sorted_latest_values [of "item_pk sdk" "current_item_of sdk" "df_table_items rows"
          "df_current_table_items rows" cti_pk, OF _ cti_pk_current_item_of]
      by (simp add: items_latest_def)
  qed
  then show ?thesis
    using map_result_keys [OF run(2) postgres_current_table_item_pk] by simp
qed

text \<open>
  The default storer accepts every extracted batch, however its rows are cut into
  chunks and whatever the tables hold, and storing the batch a second time changes no table.
\<close>

theorem default_batch_stored_once:
  assumes "default_extract ext sdk txns = Inr data" and "default_chunks_ok ck"
  shows "\<exists>db'. default_store ck flags data db = (db', None) \<and> default_store ck flags data db' = (db', None)"
proof -
  note d = default_extract_keys [OF assms(1)]
  show ?thesis
    by (simp add: default_store_run [OF assms(2) d] fold_insert_ignore_twice
        current_table_item_table.fold_upsert_twice filter_data_distinct d)
qed

definition sample_default_chunks :: default_chunks where
  "sample_default_chunks =
     \<lparr>ck_block_metadata = (\<lambda>xs. [xs]), ck_table_items = map (\<lambda>x. [x]),
      ck_current_table_items = map (\<lambda>x. [x]), ck_table_metadata = (\<lambda>xs. [xs]),
      ck_move_modules = (\<lambda>xs. [xs])\<rparr>"

lemma sample_default_chunks_ok: "default_chunks_ok sample_default_chunks"
  by (simp add: default_chunks_ok_def sample_default_chunks_def)

theorem default_batch_stored_once_witness:
  "\<exists>data db'. default_extract sample_world sample_sdk sample_default_txns = Inr data \<and>
     default_store sample_default_chunks 0 data
       \<lparr>dd_block_metadata = [], dd_table_items = [], dd_current_table_items = [],
        dd_table_metadata = [], dd_move_modules = []\<rparr> = (db', None)"
proof -
  have "(case default_extract sample_world sample_sdk sample_default_txns of Inl _ \<Rightarrow> False | Inr _ \<Rightarrow> True)"
    by code_simp
  then obtain data where run: "default_extract sample_world sample_sdk sample_default_txns = Inr data"
    by (cases "default_extract sample_world sample_sdk sample_default_txns") auto
  with default_batch_stored_once [OF run sample_default_chunks_ok] show ?thesis by blast
qed

text \<open>
  A stored table item never goes back: after a batch that was stored without error, every entry
  that was there is still there with a version at least as high.
\<close>

theorem current_table_item_never_regresses:
  assumes "default_store ck flags data db = (db', None)"
    and "find_row pct_pk k (dd_current_table_items db) = Some r"
  shows "\<exists>r'. find_row pct_pk k (dd_current_table_items db') = Some r' \<and>
    sint (pct_last_transaction_version r) \<le> sint (pct_last_transaction_version r')"
  using assms(1) current_table_item_table.row_never_regresses [OF assms(2)]
  by (auto simp: default_store_def Let_def case_prod_unfold)

text \<open>
  A table metadata row keeps the handle as the message has it, whereas table items carry the
  standardised handle: the two need not agree.
\<close>

lemma table_metadata_handle_not_standardised:
  "\<exists>blocks items currents metadata modules.
     process_transactions sample_world sample_sdk [sample_user_txn 5 [sample_table_write ''0x9'' ''a'']] =
       Inr (blocks, items, currents, metadata, modules) \<and>
     map tmd_handle metadata = [''0x9''] \<and> ''0x9'' \<notin> set (map tbi_table_handle items)"
proof -
  have "(case process_transactions sample_world sample_sdk [sample_user_txn 5 [sample_table_write ''0x9'' ''a'']] of
      Inl _ \<Rightarrow> False
    | Inr (blocks, items, currents, metadata, modules) \<Rightarrow>
        map tmd_handle metadata = [''0x9''] \<and> ''0x9'' \<notin> set (map tbi_table_handle items))"
    by code_simp
  then show ?thesis by (auto split: sum.splits)
qed

section \<open>Parquet rows account for every change\<close>

definition written_changes :: "transaction \<Rightarrow> change option list" where
  "written_changes txn =
     (case (tx_data txn, tx_info txn) of
        (Some data, Some info) \<Rightarrow> if has_changes data then ti_changes info else []
      | _ \<Rightarrow> [])"

definition is_table_change :: "change option \<Rightarrow> bool" where
  "is_table_change c \<longleftrightarrow> opt_and_then c table_change \<noteq> None"

definition wsr_pk :: "write_set_change_row \<Rightarrow> i64 \<times> i64" where
  "wsr_pk w = (wsr_txn_version w, wsr_write_set_change_index w)"

definition detail_count :: "write_set_change_detail \<Rightarrow> nat" where
  "detail_count d = length (detail_resources d) + length (detail_modules d)"

lemma from_write_set_change_row:
  assumes "from_write_set_change ext sdk wsc index version height ts = Inr (row, detail)"
  shows "wsr_pk row = (version, index)"
    and "detail_count detail = (if is_table_change (wsc_change wsc) then 0 else 1)"
proof -
  obtain c ty where c: "wsc_change wsc = Some c" "get_write_set_change_type wsc = Inr ty"
    using assms by (auto simp: from_write_set_change_def split: sum.splits option.splits)
  have "wsr_pk row = (version, index) \<and>
      detail_count detail = (if is_table_change (wsc_change wsc) then 0 else 1)"
    using assms unfolding from_write_set_change_def c sum.case Let_def option.case
    by (cases c) (auto simp: wsr_pk_def detail_count_def is_table_change_def opt_and_then_def
        table_change_def split: sum.splits option.splits)
  then show "wsr_pk row = (version, index)"
    "detail_count detail = (if is_table_change (wsc_change wsc) then 0 else 1)" by simp_all
qed

lemma map_result_write_set_changes:
  "map_result (\<lambda>(i, wsc). from_write_set_change ext sdk wsc (of_nat i) version height ts)
     (enumerate n wscs) = Inr ps \<Longrightarrow>
   map (wsr_pk \<circ> fst) ps = map (\<lambda>i. (version, of_nat i)) [n..<n + length wscs] \<and>
   sum_list (map (detail_count \<circ> snd) ps) + length (filter is_table_change (map wsc_change wscs)) = length wscs"
proof (induction wscs arbitrary: n ps)
  case (Cons wsc wscs)
  then obtain p qs where p: "ps = p # qs"
      "from_write_set_change ext sdk wsc (of_nat n) version height ts = Inr (fst p, snd p)"
      "map_result (\<lambda>(i, wsc). from_write_set_change ext sdk wsc (of_nat i) version height ts)
         (enumerate (Suc n) wscs) = Inr qs"
    by (auto split: sum.splits)
  have "[n..<n + length (wsc # wscs)] = n # [Suc n..<Suc n + length wscs]"
    by (simp add: upt_conv_Cons del: upt_Suc)
  then show ?case
    using Cons.IH [OF p(3)] from_write_set_change_row [OF p(2)] by (auto simp: p(1))
qed simp

lemma from_transaction_rows:
  assumes "from_transaction ext sdk txn = Inr (row, wscs, details)"
  shows "txr_txn_version row = tx_version txn"
    and "map wsr_pk wscs = map (\<lambda>i. (tx_version txn, of_nat i)) [0..<length (written_changes txn)]"
    and "sum_list (map detail_count details) + length (filter is_table_change (written_changes txn)) = length wscs"
proof -
  have "txr_txn_version row = tx_version txn \<and>
    map wsr_pk wscs = map (\<lambda>i. (tx_version txn, of_nat i)) [0..<length (written_changes txn)] \<and>
    sum_list (map detail_count details) + length (filter is_table_change (written_changes txn)) = length wscs"
  proof (cases "tx_data txn")
    case None
    then show ?thesis using assms
      by (auto simp: from_transaction_def from_transaction_info_def written_changes_def Let_def
          from_transaction_info_with_data_def split: option.splits)
  next
    case (Some data)
    obtain info ts where t: "tx_info txn = Some info" "txr_txn_version row = tx_version txn"
        "(if has_changes data then from_write_set_changes ext sdk (ti_write_set_changes info)
            (tx_version txn) (tx_block_height txn) ts else Inr ([], [])) = Inr (wscs, details)"
      using assms Some
      by (auto simp: from_transaction_def from_transaction_info_with_data_def Let_def
          split: option.splits sum.splits)
    show ?thesis
    proof (cases "has_changes data")
      case True
      obtain ps where ps: "map_result (\<lambda>(i, wsc). from_write_set_change ext sdk wsc (of_nat i)
          (tx_version txn) (tx_block_height txn) ts) (enumerate 0 (ti_write_set_changes info)) = Inr ps"
          "wscs = map fst ps" "details = map snd ps"
        using t(3) True by (auto simp: from_write_set_changes_def split: sum.splits)
      have len: "length ps = length (ti_write_set_changes info)"
        using ps(1) by (auto simp: map_result_Inr_iff dest: list_all2_lengthD)
      show ?thesis
        using map_result_write_set_changes [OF ps(1)] t(1,2) Some True len
        by (simp add: ps(2,3) written_changes_def)
    next
      case False
      with t Some show ?thesis by (simp add: written_changes_def)
    qed
  qed
  then show "txr_txn_version row = tx_version txn"
    "map wsr_pk wscs = map (\<lambda>i. (tx_version txn, of_nat i)) [0..<length (written_changes txn)]"
    "sum_list (map detail_count details) + length (filter is_table_change (written_changes txn)) = length wscs"
    by simp_all
qed

lemma detail_count_lists:
  "length (concat (map detail_resources ds)) + length (concat (map detail_modules ds)) =
     sum_list (map detail_count ds)"
  by (induction ds) (simp_all add: detail_count_def)

text \<open>
  The parquet output of a batch has one transaction row per transaction, in order, and
  one write-set-change row per change, keyed by version and change index, of every transaction
  other than state checkpoints, block epilogues and those without data; each of these changes
  also has exactly one resource or module row, unless it changes a table.
\<close>

theorem parquet_rows_account_for_changes:
  assumes "process_transactions_parquet ext sdk txns = Inr (resources, wscs, rows, modules)"
  shows "map txr_txn_version rows = map tx_version txns \<and>
    map wsr_pk wscs = concat (map (\<lambda>txn. map (\<lambda>i. (tx_version txn, of_nat i))
      [0..<length (written_changes txn)]) txns) \<and>
    length resources + length modules + length (filter is_table_change (concat (map written_changes txns))) =
      length wscs"
proof -
  obtain outs where outs: "map_result (from_transaction ext sdk) txns = Inr outs"
      "rows = map fst outs" "wscs = concat (map (fst \<circ> snd) outs)"
      "resources = map (parquet_move_resource_of sdk) (concat (map detail_resources (concat (map (snd \<circ> snd) outs))))"
      "modules = concat (map detail_modules (concat (map (snd \<circ> snd) outs)))"
    using assms by (auto simp: process_transactions_parquet_def from_transactions_def split: sum.splits)
  define details where "details = concat (map (snd \<circ> snd) outs)"
  have "list_all2 (\<lambda>txn out. from_transaction ext sdk txn = Inr out) txns outs"
    using outs(1) by (simp add: map_result_Inr_iff)
  then have "map (txr_txn_version \<circ> fst) outs = map tx_version txns \<and>
    map wsr_pk (concat (map (fst \<circ> snd) outs)) = concat (map (\<lambda>txn. map (\<lambda>i. (tx_version txn, of_nat i))
      [0..<length (written_changes txn)]) txns) \<and>
    sum_list (map detail_count (concat (map (snd \<circ> snd) outs))) +
      length (filter is_table_change (concat (map written_changes txns))) = length (concat (map (fst \<circ> snd) outs))"
  proof (induction rule: list_all2_induct)
    case (Cons txn txns out outs)
    obtain row ws ds where out: "out = (row, ws, ds)" by (cases out)
    from Cons(1) show ?case
      using Cons.IH from_transaction_rows [of ext sdk txn row ws ds] by (simp add: out)
  qed simp
  moreover have "length resources + length modules = sum_list (map detail_count details)"
    using detail_count_lists [of details] by (simp only: outs(4,5) details_def length_map)
  ultimately show ?thesis by (simp add: outs(2,3) details_def)
qed

theorem parquet_rows_account_for_changes_witness:
  "\<exists>resources wscs rows modules.
     process_transactions_parquet sample_world sample_sdk sample_default_txns =
       Inr (resources, wscs, rows, modules) \<and>
     map wsr_pk wscs = [(5, 0), (5, 1), (5, 2), (6, 0)] \<and> length resources + length modules = 1"
proof -
  have "(case process_transactions_parquet sample_world sample_sdk sample_default_txns of
      Inl _ \<Rightarrow> False | Inr _ \<Rightarrow> True)" by code_simp
  then obtain resources wscs rows modules where
    run: "process_transactions_parquet sample_world sample_sdk sample_default_txns =
       Inr (resources, wscs, rows, modules)"
    by (cases "process_transactions_parquet sample_world sample_sdk sample_default_txns") auto
  have c: "concat (map (\<lambda>txn. map (\<lambda>i. (tx_version txn, of_nat i :: i64))
      [0..<length (written_changes txn)]) sample_default_txns) = [(5, 0), (5, 1), (5, 2), (6, 0)]"
    "length (filter is_table_change (concat (map written_changes sample_default_txns))) = 3"
    by code_simp+
  from parquet_rows_account_for_changes [OF run]
  have keys: "map wsr_pk wscs = [(5, 0), (5, 1), (5, 2), (6, 0)]" unfolding c by blast
  have "length wscs = 4" using arg_cong [OF keys, of length] by simp
  moreover have "length resources + length modules + 3 = length wscs"
    using parquet_rows_account_for_changes [OF run] unfolding c by blast
  ultimately show ?thesis using run keys by auto
qed

end
