(* ===== verification/CoinResources.thy ===== *)
theory CoinResources
  imports SampleChain
begin

text \<open>
  The resources and events of coins (v1) and fungible assets (v2) as the fungible asset
  processor reads them: \<open>coin_models/coin_utils.rs\<close>,
  \<open>fungible_asset_models/v2_fungible_asset_utils.rs\<close>, the fungible asset part of
  \<open>db/resources.rs\<close> and \<open>TokenStandard\<close> of \<open>v2_token_utils.rs\<close>.

  A reader returns \<open>Inl (ProcessError ..)\<close> where the code returns \<open>Err\<close> and \<open>Inl (Panic ..)\<close>
  where it panics; \<open>expect_ok\<close> is the \<open>unwrap\<close> of a \<open>Result\<close>.
\<close>

section \<open>Reading JSON\<close>

definition json_str :: "json \<Rightarrow> string \<Rightarrow> string option" where
  "json_str v k = opt_and_then (json_get v k) json_as_str"

definition json_bool :: "json \<Rightarrow> string \<Rightarrow> bool option" where
  "json_bool v k = (case json_get v k of Some (JBool b) \<Rightarrow> Some b | _ \<Rightarrow> None)"

definition json_decimal :: "extern \<Rightarrow> json \<Rightarrow> string \<Rightarrow> decimal option" where
  "json_decimal ext v k = opt_and_then (json_str v k) (decimal_from_str ext)"

definition json_int32 :: "json \<Rightarrow> string \<Rightarrow> int option" where
  "json_int32 v k = (case json_get v k of Some (JNumber n) \<Rightarrow> parse_i32 n | _ \<Rightarrow> None)"

definition json_vec :: "(json \<Rightarrow> 'a option) \<Rightarrow> json \<Rightarrow> string \<Rightarrow> 'a list option" where
  "json_vec read v k =
     opt_and_then (opt_and_then (json_get v k) (\<lambda>w. json_get w ''vec''))
       (\<lambda>w. opt_and_then (json_as_array w) (\<lambda>xs. those (map read xs)))"

definition parse_i64 :: "string \<Rightarrow> i64 option" where
  "parse_i64 s =
     (case (case s of
          CHR ''+'' # r \<Rightarrow> parse_digits r
        | CHR ''-'' # r \<Rightarrow> map_option uminus (parse_digits r)
        | _ \<Rightarrow> parse_digits s) of
        None \<Rightarrow> None
      | Some n \<Rightarrow> if - (2 ^ 63) \<le> n \<and> n < 2 ^ 63 then Some (word_of_int n) else None)"

definition expect_ok :: "'a result \<Rightarrow> 'a result" where
  "expect_ok r = (case r of Inl (ProcessError m) \<Rightarrow> Inl (Panic m) | _ \<Rightarrow> r)"

definition read_result :: "'a option option result \<Rightarrow> 'a option result" where
  "read_result r =
     (case r of Inl e \<Rightarrow> Inl e | Inr None \<Rightarrow> Inl (ProcessError ''failed to parse resource'') | Inr (Some x) \<Rightarrow> Inr x)"

text \<open>
  \<open>json_decimal\<close> and \<open>parse_i64\<close> are fields read with \<open>deserialize_from_string\<close>: a string that
  parses as the number.  \<open>json_vec\<close> reads Move's \<open>Option\<close>, a struct with a list \<open>vec\<close>.
\<close>

lemma expect_ok_Inr [simp]: "expect_ok r = Inr x \<longleftrightarrow> r = Inr x"
  by (auto simp: expect_ok_def split: sum.splits error.splits)

section \<open>Token standard\<close>

datatype token_standard = V1 | V2

primrec token_standard_to_string :: "token_standard \<Rightarrow> string" where
  "token_standard_to_string V1 = ''v1''"
| "token_standard_to_string V2 = ''v2''"

definition token_standard_from_str :: "string \<Rightarrow> token_standard option" where
  "token_standard_from_str s = (if s = ''v1'' then Some V1 else if s = ''v2'' then Some V2 else None)"

lemma token_standard_roundtrip [simp]:
  "token_standard_from_str (token_standard_to_string t) = Some t"
  by (cases t) (simp_all add: token_standard_from_str_def)

lemma token_standard_parse [simp]:
  "token_standard_from_str ''v1'' = Some V1" "token_standard_from_str ''v2'' = Some V2"
  by (simp_all add: token_standard_from_str_def)

section \<open>Coins\<close>

definition coin_addr :: string where
  "coin_addr = ''0x0000000000000000000000000000000000000000000000000000000000000001''"

record aggregator_resource =
  ag_handle :: string
  ag_key :: string

record coin_info_resource =
  ci_name :: string
  ci_symbol :: string
  ci_decimals :: int
  ci_supply :: "(aggregator_resource list \<times> decimal list) list"

record event_guid_resource =
  eg_addr :: string
  eg_creation_num :: i64

record coin_store_resource =
  cs_coin_value :: decimal
  cs_deposit_events :: event_guid_resource
  cs_withdraw_events :: event_guid_resource
  cs_frozen :: bool

definition read_aggregator_resource :: "json \<Rightarrow> aggregator_resource option" where
  "read_aggregator_resource v =
     (case (json_str v ''handle'', json_str v ''key'') of
        (Some h, Some k) \<Rightarrow> Some \<lparr>ag_handle = h, ag_key = k\<rparr> | _ \<Rightarrow> None)"

definition read_coin_info :: "extern \<Rightarrow> json \<Rightarrow> coin_info_resource option" where
  "read_coin_info ext v =
     (case (json_str v ''name'', json_str v ''symbol'', json_int32 v ''decimals'',
            json_vec (\<lambda>w. case (json_vec read_aggregator_resource w ''aggregator'',
                                json_vec (\<lambda>u. json_decimal ext u ''value'') w ''integer'') of
                            (Some a, Some i) \<Rightarrow> Some (a, i) | _ \<Rightarrow> None) v ''supply'') of
        (Some name, Some symbol, Some decimals, Some supply) \<Rightarrow>
          Some \<lparr>ci_name = name, ci_symbol = symbol, ci_decimals = decimals, ci_supply = supply\<rparr>
      | _ \<Rightarrow> None)"

definition read_guid :: "json \<Rightarrow> string \<Rightarrow> event_guid_resource option" where
  "read_guid v k =
     (case opt_and_then (opt_and_then (json_get v k) (\<lambda>w. json_get w ''guid'')) (\<lambda>w. json_get w ''id'') of
        None \<Rightarrow> None
      | Some g \<Rightarrow>
          (case (json_str g ''addr'', opt_and_then (json_str g ''creation_num'') parse_i64) of
             (Some a, Some n) \<Rightarrow> Some \<lparr>eg_addr = a, eg_creation_num = n\<rparr> | _ \<Rightarrow> None))"

definition read_coin_store :: "extern \<Rightarrow> json \<Rightarrow> coin_store_resource option" where
  "read_coin_store ext v =
     (case (opt_and_then (json_get v ''coin'') (\<lambda>w. json_decimal ext w ''value''),
            read_guid v ''deposit_events'', read_guid v ''withdraw_events'', json_bool v ''frozen'') of
        (Some c, Some d, Some w, Some f) \<Rightarrow>
          Some \<lparr>cs_coin_value = c, cs_deposit_events = d, cs_withdraw_events = w, cs_frozen = f\<rparr>
      | _ \<Rightarrow> None)"

definition get_name_trunc :: "sdk \<Rightarrow> coin_info_resource \<Rightarrow> string" where
  "get_name_trunc sdk i = truncate_str sdk (ci_name i) 32"

definition get_symbol_trunc :: "sdk \<Rightarrow> coin_info_resource \<Rightarrow> string" where
  "get_symbol_trunc sdk i = truncate_str sdk (ci_symbol i) 32"

definition get_aggregator_metadata :: "coin_info_resource \<Rightarrow> aggregator_resource option" where
  "get_aggregator_metadata i =
     (case ci_supply i of
        [] \<Rightarrow> None
      | inner # _ \<Rightarrow> (case fst inner of [] \<Rightarrow> None | a # _ \<Rightarrow> Some a))"

definition get_standardized :: "extern \<Rightarrow> event_guid_resource \<Rightarrow> event_guid_resource" where
  "get_standardized ext g = g\<lparr>eg_addr := standardize_address ext (eg_addr g)\<rparr>"

record coin_info_type =
  cit_coin_type :: string
  cit_creator_address :: string

definition coin_type_max :: nat where
  "coin_type_max = 1000"

definition from_move_type ::
  "sdk \<Rightarrow> move_type \<Rightarrow> string \<Rightarrow> coin_info_type result" where
  "from_move_type sdk t type_str =
     (case unwrap (mt_content t) of
        Inl e \<Rightarrow> Inl e
      | Inr (ContentStruct address) \<Rightarrow>
          (case angle_captures sdk type_str of
             None \<Rightarrow> Inl (Panic ''move_type should look like 0x1::coin::CoinInfo<T>'')
           | Some coin_type \<Rightarrow> Inr \<lparr>cit_coin_type = coin_type, cit_creator_address = address\<rparr>)
      | Inr ContentOther \<Rightarrow> Inl (Panic ''Expected struct tag''))"

definition coin_info_type_of ::
  "sdk \<Rightarrow> move_struct_tag option \<Rightarrow> string \<Rightarrow> coin_info_type result" where
  "coin_info_type_of sdk tag type_str =
     (case unwrap tag of
        Inl e \<Rightarrow> Inl e
      | Inr t \<Rightarrow>
          (case st_generic_type_params t of
             [] \<Rightarrow> Inl (Panic ''index out of bounds'')
           | param # _ \<Rightarrow> from_move_type sdk param type_str))"

text \<open>
  \<open>coin_info_type_of\<close> is the call with \<open>r#type.as_ref().unwrap().generic_type_params[0]\<close> that
  every caller writes.
\<close>

definition get_creator_address :: "extern \<Rightarrow> coin_info_type \<Rightarrow> string" where
  "get_creator_address ext t = standardize_address ext (cit_creator_address t)"

definition get_coin_type_below_max :: "coin_info_type \<Rightarrow> string option" where
  "get_coin_type_below_max t =
     (if length (cit_coin_type t) > coin_type_max then None else Some (cit_coin_type t))"

lemma get_coin_type_below_max_code [code]:
  "get_coin_type_below_max t =
     (if int (length (cit_coin_type t)) > 1000 then None else Some (cit_coin_type t))"
  by (simp add: get_coin_type_below_max_def coin_type_max_def)

datatype coin_resource = CoinInfoResource coin_info_resource | CoinStoreResource coin_store_resource
  | CoinInfoDeletion | CoinStoreDeletion

definition type_coin_info :: string where
  "type_coin_info = coin_addr @ ''::coin::CoinInfo''"

definition type_coin_store :: string where
  "type_coin_store = coin_addr @ ''::coin::CoinStore''"

definition is_resource_supported :: "string \<Rightarrow> bool" where
  "is_resource_supported ty \<longleftrightarrow> ty \<in> set [type_coin_info, type_coin_store]"

definition coin_from_resource :: "extern \<Rightarrow> string \<Rightarrow> json \<Rightarrow> coin_resource result" where
  "coin_from_resource ext ty data =
     (if ty = type_coin_info then
        (case read_coin_info ext data of
           None \<Rightarrow> Inl (ProcessError ''failed to parse type'') | Some i \<Rightarrow> Inr (CoinInfoResource i))
      else if ty = type_coin_store then
        (case read_coin_store ext data of
           None \<Rightarrow> Inl (ProcessError ''failed to parse type'') | Some i \<Rightarrow> Inr (CoinStoreResource i))
      else Inl (ProcessError ''Resource unsupported! Call is_resource_supported first.''))"

definition from_delete_resource_internal :: "string \<Rightarrow> coin_resource result" where
  "from_delete_resource_internal ty =
     (if ty = type_coin_info then Inr CoinInfoDeletion
      else if ty = type_coin_store then Inr CoinStoreDeletion
      else Inl (ProcessError ''Resource unsupported! Call is_resource_supported first.''))"

definition coin_from_write_resource ::
  "extern \<Rightarrow> write_resource \<Rightarrow> i64 \<Rightarrow> datetime \<Rightarrow> coin_resource option result" where
  "coin_from_write_resource ext wr version ts =
     (case get_outer_type_from_write_resource ext wr of
        Inl e \<Rightarrow> Inl e
      | Inr ty \<Rightarrow>
          if \<not> is_resource_supported ty then Inr None
          else
            (case move_resource_from_write_resource ext wr 0 version 0 ts of
               Inl e \<Rightarrow> Inl (ProcessError ''Error processing write resource'')
             | Inr None \<Rightarrow> Inr None
             | Inr (Some resource) \<Rightarrow>
                 (case unwrap (mr_data resource) of
                    Inl e \<Rightarrow> Inl e
                  | Inr data \<Rightarrow>
                      (case coin_from_resource ext ty data of Inl e \<Rightarrow> Inl e | Inr r \<Rightarrow> Inr (Some r)))))"

definition coin_from_delete_resource :: "extern \<Rightarrow> delete_resource \<Rightarrow> coin_resource option result" where
  "coin_from_delete_resource ext dr =
     (case get_outer_type_from_delete_resource ext dr of
        Inl e \<Rightarrow> Inl e
      | Inr ty \<Rightarrow>
          if \<not> is_resource_supported ty then Inr None
          else (case from_delete_resource_internal ty of Inl e \<Rightarrow> Inl e | Inr r \<Rightarrow> Inr (Some r)))"

datatype coin_event = WithdrawCoinEvent decimal | DepositCoinEvent decimal
  | WithdrawCoinEventV2 string string decimal | DepositCoinEventV2 string string decimal

definition read_coin_event_v2 :: "extern \<Rightarrow> json \<Rightarrow> (string \<times> string \<times> decimal) option" where
  "read_coin_event_v2 ext v =
     (case (json_str v ''coin_type'', json_str v ''account'', json_decimal ext v ''amount'') of
        (Some t, Some a, Some n) \<Rightarrow> Some (t, a, n) | _ \<Rightarrow> None)"

definition parsed_event :: "'a option \<Rightarrow> 'a option result" where
  "parsed_event x = (case x of None \<Rightarrow> Inl (ProcessError ''failed to parse type'') | Some e \<Rightarrow> Inr (Some e))"

definition coin_event_from_event :: "extern \<Rightarrow> string \<Rightarrow> string \<Rightarrow> coin_event option result" where
  "coin_event_from_event ext data_type data =
     (let read = opt_and_then (json_from_str ext data)
      in if data_type = ''0x1::coin::WithdrawEvent'' then
           parsed_event (map_option WithdrawCoinEvent (read (\<lambda>v. json_decimal ext v ''amount'')))
         else if data_type = ''0x1::coin::DepositEvent'' then
           parsed_event (map_option DepositCoinEvent (read (\<lambda>v. json_decimal ext v ''amount'')))
         else if data_type = ''0x1::coin::CoinWithdraw'' then
           parsed_event (map_option (\<lambda>(t, a, n). WithdrawCoinEventV2 t a n)
             (opt_and_then (json_from_str ext data) (read_coin_event_v2 ext)))
         else if data_type = ''0x1::coin::CoinDeposit'' then
           parsed_event (map_option (\<lambda>(t, a, n). DepositCoinEventV2 t a n)
             (opt_and_then (json_from_str ext data) (read_coin_event_v2 ext)))
         else Inr None)"

section \<open>Fungible assets\<close>

record fungible_asset_metadata =
  fm_name :: string
  fm_symbol :: string
  fm_decimals :: int
  fm_icon_uri :: string
  fm_project_uri :: string

record fungible_asset_store =
  fs_metadata :: string
  fs_balance :: decimal
  fs_frozen :: bool

record fungible_asset_supply =
  fu_current :: decimal
  fu_maximum :: "decimal list"

definition uri_length :: nat where
  "uri_length = 512"

definition type_fungible_asset :: "string \<Rightarrow> string" where
  "type_fungible_asset name = coin_addr @ ''::fungible_asset::'' @ name"

definition metadata_try_from :: "extern \<Rightarrow> write_resource \<Rightarrow> fungible_asset_metadata option" where
  "metadata_try_from ext wr =
     opt_and_then (json_from_str ext (wr_data wr)) (\<lambda>v.
       case (json_str v ''name'', json_str v ''symbol'', json_int32 v ''decimals'',
             json_str v ''icon_uri'', json_str v ''project_uri'') of
         (Some n, Some s, Some d, Some i, Some p) \<Rightarrow>
           Some \<lparr>fm_name = n, fm_symbol = s, fm_decimals = d, fm_icon_uri = i, fm_project_uri = p\<rparr>
       | _ \<Rightarrow> None)"

definition reference_inner :: "json \<Rightarrow> string \<Rightarrow> string option" where
  "reference_inner v k = opt_and_then (json_get v k) (\<lambda>w. json_str w ''inner'')"

definition store_try_from :: "extern \<Rightarrow> write_resource \<Rightarrow> fungible_asset_store option" where
  "store_try_from ext wr =
     opt_and_then (json_from_str ext (wr_data wr)) (\<lambda>v.
       case (reference_inner v ''metadata'', json_decimal ext v ''balance'', json_bool v ''frozen'') of
         (Some m, Some b, Some f) \<Rightarrow> Some \<lparr>fs_metadata = m, fs_balance = b, fs_frozen = f\<rparr>
       | _ \<Rightarrow> None)"

definition supply_try_from :: "extern \<Rightarrow> write_resource \<Rightarrow> fungible_asset_supply option" where
  "supply_try_from ext wr =
     opt_and_then (json_from_str ext (wr_data wr)) (\<lambda>v.
       case (json_decimal ext v ''current'',
             json_vec (\<lambda>w. opt_and_then (json_as_str w) (decimal_from_str ext)) v ''maximum'') of
         (Some c, Some m) \<Rightarrow> Some \<lparr>fu_current = c, fu_maximum = m\<rparr>
       | _ \<Rightarrow> None)"

definition aggregator_try_from :: "extern \<Rightarrow> sdk \<Rightarrow> string \<Rightarrow> write_resource \<Rightarrow> (decimal \<times> decimal) option" where
  "aggregator_try_from ext sdk k wr =
     opt_and_then (json_from_str ext (wr_data wr)) (\<lambda>v. opt_and_then (json_get v k) (aggregator_of_json sdk))"

text \<open>
  \<open>aggregator_try_from\<close> reads \<open>ConcurrentFungibleAssetSupply\<close> (field \<open>current\<close>) and
  \<open>ConcurrentFungibleAssetBalance\<close> (field \<open>balance\<close>).
\<close>

definition get_reference_address :: "extern \<Rightarrow> fungible_asset_store \<Rightarrow> string" where
  "get_reference_address ext s = standardize_address ext (fs_metadata s)"

definition get_maximum :: "fungible_asset_supply \<Rightarrow> decimal option" where
  "get_maximum s = (case fu_maximum s of [] \<Rightarrow> None | m # _ \<Rightarrow> Some m)"

datatype v2_fungible_asset_resource = FaConcurrentBalance "decimal \<times> decimal"
  | FaConcurrentSupply "decimal \<times> decimal" | FaMetadata fungible_asset_metadata
  | FaStore fungible_asset_store | FaSupply fungible_asset_supply

definition v2_fa_from_write_resource ::
  "extern \<Rightarrow> sdk \<Rightarrow> write_resource \<Rightarrow> v2_fungible_asset_resource option result" where
  "v2_fa_from_write_resource ext sdk wr =
     (case get_outer_type_from_write_resource ext wr of
        Inl e \<Rightarrow> Inl e
      | Inr ty \<Rightarrow>
          if ty = type_fungible_asset ''ConcurrentFungibleBalance'' then
            parsed_event (map_option FaConcurrentBalance (aggregator_try_from ext sdk ''balance'' wr))
          else if ty = type_fungible_asset ''ConcurrentSupply'' then
            parsed_event (map_option FaConcurrentSupply (aggregator_try_from ext sdk ''current'' wr))
          else if ty = type_fungible_asset ''Metadata'' then
            parsed_event (map_option FaMetadata (metadata_try_from ext wr))
          else if ty = type_fungible_asset ''FungibleStore'' then
            parsed_event (map_option FaStore (store_try_from ext wr))
          else if ty = type_fungible_asset ''Supply'' then
            parsed_event (map_option FaSupply (supply_try_from ext wr))
          else Inr None)"

datatype fungible_asset_event = FaDepositEvent decimal | FaWithdrawEvent decimal | FaFrozenEvent bool
  | FaDepositEventV2 string decimal | FaWithdrawEventV2 string decimal | FaFrozenEventV2 string bool

definition store_amount :: "extern \<Rightarrow> json \<Rightarrow> (string \<times> decimal) option" where
  "store_amount ext v =
     (case (json_str v ''store'', json_decimal ext v ''amount'') of (Some s, Some n) \<Rightarrow> Some (s, n) | _ \<Rightarrow> None)"

definition fa_event_from_event :: "extern \<Rightarrow> string \<Rightarrow> string \<Rightarrow> fungible_asset_event option result" where
  "fa_event_from_event ext data_type data =
     (let v = json_from_str ext data
      in if data_type = ''0x1::fungible_asset::DepositEvent'' then
           parsed_event (map_option FaDepositEvent (opt_and_then v (\<lambda>v. json_decimal ext v ''amount'')))
         else if data_type = ''0x1::fungible_asset::WithdrawEvent'' then
           parsed_event (map_option FaWithdrawEvent (opt_and_then v (\<lambda>v. json_decimal ext v ''amount'')))
         else if data_type = ''0x1::fungible_asset::FrozenEvent'' then
           parsed_event (map_option FaFrozenEvent (opt_and_then v (\<lambda>v. json_bool v ''frozen'')))
         else if data_type = ''0x1::fungible_asset::Deposit'' then
           parsed_event (map_option (\<lambda>(s, n). FaDepositEventV2 s n) (opt_and_then v (store_amount ext)))
         else if data_type = ''0x1::fungible_asset::Withdraw'' then
           parsed_event (map_option (\<lambda>(s, n). FaWithdrawEventV2 s n) (opt_and_then v (store_amount ext)))
         else if data_type = ''0x1::fungible_asset::Frozen'' then
           parsed_event (map_option (\<lambda>(s, b). FaFrozenEventV2 s b) (opt_and_then v (\<lambda>v.
             case (json_str v ''store'', json_bool v ''frozen'') of (Some s, Some b) \<Rightarrow> Some (s, b) | _ \<Rightarrow> None)))
         else Inr None)"

record store_deletion_event =
  de_metadata :: string
  de_owner :: string
  de_store :: string

definition store_deletion_from_event :: "extern \<Rightarrow> string \<Rightarrow> string \<Rightarrow> store_deletion_event option result" where
  "store_deletion_from_event ext data_type data =
     (if data_type = ''0x1::fungible_asset::FungibleStoreDeletion'' then
        (case opt_and_then (json_from_str ext data) (\<lambda>v.
             case (json_str v ''metadata'', json_str v ''owner'', json_str v ''store'') of
               (Some m, Some ow, Some s) \<Rightarrow> Some \<lparr>de_metadata = m, de_owner = ow, de_store = s\<rparr> | _ \<Rightarrow> None) of
           None \<Rightarrow> Inl (Panic ''failed to parse event for fungible asset store deletion'')
         | Some e \<Rightarrow> Inr (Some e))
      else Inr None)"

text \<open>An event is a coin event or a fungible asset event, never both.\<close>

lemma event_standards_disjoint:
  assumes "coin_event_from_event ext ty data = Inr (Some c)"
    and "fa_event_from_event ext ty data' = Inr (Some f)"
  shows False
  using assms by (auto simp: coin_event_from_event_def fa_event_from_event_def Let_def split: if_splits)

text \<open>Deleting a coin info never yields the resource, so there is no metadata to read from it.\<close>

lemma deleted_coin_info_has_no_data:
  "coin_from_delete_resource ext dr = Inr (Some r) \<Longrightarrow> r = CoinInfoDeletion \<or> r = CoinStoreDeletion"
  by (auto simp: coin_from_delete_resource_def from_delete_resource_internal_def split: sum.splits if_splits)

end
