(* ===== verification/FungibleAssetModels.thy ===== *)
theory FungibleAssetModels
  imports CoinResources UserTransactions DefaultProcessor
begin

text \<open>
  The rows of the fungible asset processor and how they are read from events, resources and
  table items: \<open>fungible_asset_models/*.rs\<close>, \<open>coin_models/coin_supply.rs\<close> and the gas event of
  \<open>coin_models/coin_activities.rs\<close>.  The Postgres rows have the fields of the raw rows, so one
  record stands for both.
\<close>

section \<open>Addresses\<close>

definition str_bytes :: "string \<Rightarrow> bytes" where
  "str_bytes s = map of_char s"

definition get_paired_metadata_address :: "extern \<Rightarrow> sdk \<Rightarrow> string \<Rightarrow> string" where
  "get_paired_metadata_address ext sdk coin_type_name =
     (if coin_type_name = aptos_coin_type_str sdk then apt_metadata_address_hex sdk
      else ''0x'' @ hex_encode ext
        (sha3_256 sdk (apt_metadata_address_raw sdk @ str_bytes coin_type_name @ [0xFE])))"

definition get_primary_fungible_store_address :: "extern \<Rightarrow> sdk \<Rightarrow> string \<Rightarrow> string \<Rightarrow> string result" where
  "get_primary_fungible_store_address ext sdk owner_address metadata_address =
     (case (hex_to_raw_bytes sdk owner_address, hex_to_raw_bytes sdk metadata_address) of
        (Some ow, Some m) \<Rightarrow>
          Inr (standardize_address ext (hex_encode ext (sha3_256 sdk (ow @ m @ [0xFC]))))
      | _ \<Rightarrow> Inl (ProcessError ''hex_to_raw_bytes''))"

definition is_primary :: "extern \<Rightarrow> sdk \<Rightarrow> string \<Rightarrow> string \<Rightarrow> string \<Rightarrow> bool result" where
  "is_primary ext sdk owner_address metadata_address fungible_store_address =
     and_then (expect_ok (get_primary_fungible_store_address ext sdk owner_address metadata_address))
       (\<lambda>primary. Inr (fungible_store_address = primary))"

definition coin_storage_id :: "extern \<Rightarrow> sdk \<Rightarrow> string \<Rightarrow> string \<Rightarrow> string result" where
  "coin_storage_id ext sdk owner_address coin_type =
     expect_ok (get_primary_fungible_store_address ext sdk owner_address
       (get_paired_metadata_address ext sdk coin_type))"

text \<open>
  \<open>coin_storage_id\<close> is the derivation that balances and activities of coins share: the primary
  store of the owner for the fungible asset paired with the coin.
\<close>

section \<open>Rows\<close>

record fa_activity =
  fac_transaction_version :: i64
  fac_event_index :: i64
  fac_owner_address :: "string option"
  fac_storage_id :: string
  fac_asset_type :: "string option"
  fac_is_frozen :: "bool option"
  fac_amount :: "decimal option"
  fac_event_type :: string
  fac_is_gas_fee :: bool
  fac_gas_fee_payer_address :: "string option"
  fac_is_transaction_success :: bool
  fac_entry_function_id_str :: "string option"
  fac_block_height :: i64
  fac_token_standard :: string
  fac_transaction_timestamp :: datetime
  fac_storage_refund_amount :: decimal

record fa_balance =
  fab_transaction_version :: i64
  fab_write_set_change_index :: i64
  fab_storage_id :: string
  fab_owner_address :: string
  fab_asset_type :: string
  fab_is_primary :: bool
  fab_is_frozen :: bool
  fab_amount :: decimal
  fab_transaction_timestamp :: datetime
  fab_token_standard :: string

record unified_balance =
  cub_storage_id :: string
  cub_owner_address :: string
  cub_asset_type_v1 :: "string option"
  cub_asset_type_v2 :: "string option"
  cub_is_primary :: bool
  cub_is_frozen :: bool
  cub_amount_v1 :: "decimal option"
  cub_amount_v2 :: "decimal option"
  cub_last_transaction_version_v1 :: "i64 option"
  cub_last_transaction_version_v2 :: "i64 option"
  cub_last_transaction_timestamp_v1 :: "datetime option"
  cub_last_transaction_timestamp_v2 :: "datetime option"

record fa_metadata_model =
  fam_asset_type :: string
  fam_creator_address :: string
  fam_name :: string
  fam_symbol :: string
  fam_decimals :: int
  fam_icon_uri :: "string option"
  fam_project_uri :: "string option"
  fam_last_transaction_version :: i64
  fam_last_transaction_timestamp :: datetime
  fam_supply_aggregator_table_handle_v1 :: "string option"
  fam_supply_aggregator_table_key_v1 :: "string option"
  fam_token_standard :: string
  fam_is_token_v2 :: "bool option"
  fam_supply_v2 :: "decimal option"
  fam_maximum_v2 :: "decimal option"

record coin_supply =
  csp_transaction_version :: i64
  csp_coin_type_hash :: string
  csp_coin_type :: string
  csp_supply :: decimal
  csp_transaction_timestamp :: datetime
  csp_transaction_epoch :: i64

record fa_to_coin_mapping =
  ftc_fungible_asset_metadata_address :: string
  ftc_coin_type :: string
  ftc_last_transaction_version :: i64

section \<open>Mapping of fungible assets to coins\<close>

text \<open>The table compiled into the program.\<close>

definition fa_to_coin_mapping_1 :: "(string \<times> string) list" where
  "fa_to_coin_mapping_1 =
     [(''0x000000000000000000000000000000000000000000000000000000000000000a'',
       ''0x1::aptos_coin::AptosCoin''),
      (''0x377adc4848552eb2ea17259be928001923efe12271fef1667e2b784f04a7cf3a'',
       ''0x7fd500c11216f0fe3095d0c4b8aa4d64a4e2e04f83758462f2b127255643615::thl_coin::THL''),
      (''0x0009da434d9b873b5159e8eeed70202ad22dc075867a7793234fbc981b63e119'',
       ''0xe4ccb6d39136469f376242c31b34d10515c8eaaa38092f804db8e08a8f53c5b2::assets_v1::EchoCoin002''),
      (''0xe568e9322107a5c9ba4cbd05a630a5586aa73e744ada246c3efb0f4ce3e295f3'',
       ''0xf22bede237a07e121b56d91a491eb7bcdfd1f5907926a9e58338f964a01b17fa::asset::USDT''),
      (''0xd4c0be6af89a42d78fb728dd57096eda717d7044c2dd635a01417662c33614fc'',
       ''0x55987edfab9a57f69bac759674f139ae473b5e09a9283848c1f87faf6fc1e789::shrimp::ShrimpCoin''),
      (''0xa259be733b6a759909f92815927fa213904df6540519568692caf0b068fe8e62'',
       ''0x111ae3e5bc816a5e63c2da97d0aa3886519e0cd5e4b046659fa35796bd11542a::amapt_token::AmnisApt''),
      (''0xb614bfdf9edc39b330bbf9c3c5bcd0473eee2f6d4e21748629cc367869ece627'',
       ''0x111ae3e5bc816a5e63c2da97d0aa3886519e0cd5e4b046659fa35796bd11542a::stapt_token::StakedApt''),
      (''0x2b3be0a97a73c87ff62cbdd36837a9fb5bbd1d7f06a73b7ed62ec15c5326c1b8'',
       ''0xf22bede237a07e121b56d91a491eb7bcdfd1f5907926a9e58338f964a01b17fa::asset::USDC''),
      (''0xb27b0c6b60772f0fc804ec1cd3339f552badf9bd1e125a7dd700d8eb11248ef1'',
       ''0x73eb84966be67e4697fc5ae75173ca6c35089e802650f75422ab49a8729704ec::coin::DooDoo'')]"

definition fa_to_coin_mapping_2 :: "(string \<times> string) list" where
  "fa_to_coin_mapping_2 =
     [(''0x5915ae0eae3701833fa02e28bf530bc01ca96a5f010ac8deecb14c7a92661368'',
       ''0x4fbed3f8a3fd8a11081c8b6392152a8b0cb14d70d0414586f0c9b858fcd2d6a7::UPTOS::UPTOS''),
      (''0x6dba1728c73363be1bdd4d504844c40fbb893e368ccbeff1d1bd83497dbc756d'',
       ''0xe50684a338db732d8fb8a3ac71c4b8633878bd0193bca5de2ebc852a83b35099::propbase_coin::PROPS''),
      (''0xad18575b0e51dd056e1e082223c0e014cbfe4b13bc55e92f450585884f4cf951'',
       ''0x159df6b7689437016108a019fd5bef736bac692b6d4a1f10c941f6fbb9a74ca6::oft::CakeOFT''),
      (''0xae02f68520afd221a5cd6fda6f5500afedab8d0a2e19a916d6d8bc2b36e758db'',
       ''0xf22bede237a07e121b56d91a491eb7bcdfd1f5907926a9e58338f964a01b17fa::asset::WETH''),
      (''0x0a9ce1bddf93b074697ec5e483bc5050bc64cff2acd31e1ccfd8ac8cae5e4abe'',
       ''0xfaf4e633ae9eb31366c9ca24214231760926576c7b625313b3688b5e900731f6::staking::StakedThalaAPT''),
      (''0xd1bec63fa44dc3f3f5742c3f3a4afc3baed00505efbe955dfe6e5f9d306c67a5'',
       ''0xd0b4efb4be7c3508d9a26a9b5405cf9f860d0b9e5fe2f498b90e68b8d2cedd3e::aptos_launch_token::AptosLaunchToken''),
      (''0xb81588af2f7d291e8e57f673ec74d4a38f0654633ad6bbeb1cfd4bb0550ae0df'',
       ''0x4def3d3dee27308886f0a3611dd161ce34f977a9a5de4e80b237225923492a2a::coin::T''),
      (''0x02370cc1d995f3aadd337c1c6c63834ad8d2bd0cdc70bc8dff81de463e18b159'',
       ''0x53a30a6e5936c0a4c5140daed34de39d17ca7fcae08f947c02e979cef98a3719::coin::LSD''),
      (''0xbe34691f0388bbca83bafab87399aeb756284e11a2872f1ae74218451cb3899f'',
       ''0xdd89c0e695df0692205912fb69fc290418bed0dbe6e4573d744a6d5e6bab6c13::coin::T'')]"

definition fa_to_coin_mapping_3 :: "(string \<times> string) list" where
  "fa_to_coin_mapping_3 =
     [(''0x96d1ccca420ebc20fc8af6cacb864e44856ca879c6436d4e9be2b0a4b99bf852'',
       ''0x27fafcc4e39daac97556af8a803dbb52bcb03f0821898dc845ac54225b9793eb::move_coin::MoveCoin''),
      (''0x94ed76d3d66cb0b6e7a3ab81acf830e3a50b8ae3cfb9edc0abea635a11185ff4'',
       ''0x6f986d146e4a90b828d8c12c14b6f4e003fdff11a8eecceceb63744363eaac01::mod_coin::MOD''),
      (''0xa743351ed4889845737082ab9fcd42c21270647e2c6f342c509320e974035ed2'',
       ''0xd11107bdf0d6d7040c6c0bfbdecb6545191fdf13e8d8d259952f53e1713f61b5::staked_coin::StakedAptos''),
      (''0x41944cf1d4dac152d692644944e2cc49ee81fafdfb37abd541d06388ec3f7eda'',
       ''0xe88ae9670071da40a9a6b1d97aab8f6f1898fdc3b8f1c1038b492dfad738448b::coin::Donk''),
      (''0x4c3efb98d8d3662352f331b3465c6df263d1a7e84f002844348519614a5fea30'',
       ''0x63be1898a424616367e19bbd881f456a78470e123e2770b5b5dcdceb61279c54::movegpt_token::MovegptCoin''),
      (''0x5eea0061714d46da0ccfd088df4fb1a2ea26c2421e592ade9dacc21cdb60e056'',
       ''0x1000000fa32d122c18a6a31c009ce5e71674f22d06a581bb0a15575e6addadcc::usda::USDA''),
      (''0x54fc0d5fa5ad975ede1bf8b1c892ae018745a1afd4a4da9b70bb6e5448509fc0'',
       ''0x5e156f1207d0ebfa19a9eeff00d62a282278fb8719f4fab3a586a0a2c0fffbea::coin::T''),
      (''0xc448a48da1ed6f6f378bb82ece996be8b5fc8dd1ea851ea2c023de17714dd747'',
       ''0x8d87a65ba30e09357fa2edea2c80dbac296e5dec2b18287113500b902942929d::celer_coin_manager::UsdtCoin''),
      (''0x878370592f9129e14b76558689a4b570ad22678111df775befbfcbc9fb3d90ab'',
       ''0x5ae6789dd2fec1a9ec9cccfb3acaf12e93d432f0a3a42c92fe1a9d490b7bbc06::mkl_token::MKL'')]"

definition fa_to_coin_mapping_4 :: "(string \<times> string) list" where
  "fa_to_coin_mapping_4 =
     [(''0x1912eb1a5f8f0d4c72c1687eb199b7f9d2df34da5931ec96830c557f7abaa0ad'',
       ''0x84d7aeef42d38a5ffc3ccef853e1b82e4958659d16a7de736a29c55fbbeb0114::staked_aptos_coin::StakedAptosCoin''),
      (''0xb5f9a9ff6f815150af83b96b15e4f85e4e3b9e92e3fd17a414cd755c4aa49513'',
       ''0x7c0322595a73b3fc53bb166f5783470afeb1ed9f46d1176db62139991505dc61::abel_coin::AbelCoin''),
      (''0x6704464238d73a679486420aab91a8a2a01feb9d700e8ba3332aa3e41d3eab62'',
       ''0xa2eda21a58856fda86451436513b867c97eecb4ba099da5775520e0f7492e852::coin::T''),
      (''0xd47b65c45f5260c4f3c5de3f32ddaeabf7eab56c9493a7a955dff7f70ba8afaf'',
       ''0x8d87a65ba30e09357fa2edea2c80dbac296e5dec2b18287113500b902942929d::celer_coin_manager::BusdCoin''),
      (''0x92410a41654236295001f06375afbb1786dbd14bc1c42a33bfcf50204c248bb7'',
       ''0xcc8a89c8dce9693d354449f1f73e60e14e347417854f029db5bc8e7454008abb::coin::T''),
      (''0x59c3a92ab1565a14d4133eb2a3418604341d37da47698a0e853c7bb22c342c55'',
       ''0x8d87a65ba30e09357fa2edea2c80dbac296e5dec2b18287113500b902942929d::celer_coin_manager::DaiCoin''),
      (''0x1fe81b3886ff129d42064f7ee934013de7ef968cb8f47adb5f7210192bcd4a23'',
       ''0xc26a8eda1c3ab69a157815183ddda88c89d6758ee491dd1647a70af2907ce074::coin::Chewy''),
      (''0xa64d2d6f5e26daf6a3552f51d4110343b1a8c8046d0a9e72fa4086a337f3236c'',
       ''0xf22bede237a07e121b56d91a491eb7bcdfd1f5907926a9e58338f964a01b17fa::asset::WBTC''),
      (''0x2329a8351b28aa3672329217a949a9ab39d7f24534324c2eeb8b18f69e7a6fb1'',
       ''0x4ed27736e724e403f9b4645ffef0ae86fd149503f45b37c428ffabd7e46e5b05::core::RenegadeCoin'')]"

definition fa_to_coin_mapping_5 :: "(string \<times> string) list" where
  "fa_to_coin_mapping_5 =
     [(''0xa79e44c5cdf8a0eb835a265a20adab56c8cdf169a2a25daa3b1d71c557b9ec59'',
       ''0xd6d6372c8bde72a7ab825c00b9edd35e643fb94a61c55d9d94a9db3010098548::USDC::Coin''),
      (''0xde368b120e750bbb0d8799356ea23511306ff19edd28eed15fe7b6cc72b04388'',
       ''0xf22bede237a07e121b56d91a491eb7bcdfd1f5907926a9e58338f964a01b17fa::asset::USDD''),
      (''0x41dfe1fb3d33d4d9d0b460f03ce1c0a6af6520dd8bdc0f204583c4987faf81de'',
       ''0x268d4a7a2ad93274edf6116f9f20ad8455223a7ab5fc73154f687e7dbc3e3ec6::LOON::LOON''),
      (''0x4a884be56ef4c11a27162bf30b32e8e3615dcb3df0fc1777c8eb69c1991f34d0'',
       ''0xae478ff7d83ed072dbc5e264250e67ef58f57c99d89b447efd8a0a2e8b2be76e::coin::T''),
      (''0xdc5e054538ba5e183d5aa197b01f327cf84aace749dc8fa2fe87bb5ec9bfe35a'',
       ''0xe1bfc010d2bdd576036f4c1f3ea7d547f19188f5b78075dd961420d843ee914c::brew_coin::BrewCoin''),
      (''0xd2f2fd4a3df494042cf24c3b8c1316be8bab7ebac228be77cc0f19fcd885c666'',
       ''0x1fc2f33ab6b624e3e632ba861b755fd8e61d2c2e6cf8292e415880b4c198224d::apt20::APTS''),
      (''0x9f0de082b2d4506de8b546308d4fd58bdd5ef5981097abeff40635e979874c9e'',
       ''0x65957cb717d1ec5e13c003cbad0d20d8f7f95236ea0f8bb8c419e533eda73890::TOAST::TOAST''),
      (''0xc8e09f0daa8f0143318c965b43cecad55eb1a4f26ea57677fcf44c36975fe28c'',
       ''0x665d06fcd9c94430099f82973f2a5e5f13142e42fa172e72ce14f51a64bd8ad9::coin_mbx::MBX''),
      (''0x5b5d60e20f3684ce19d3fd3a99ed2b2a8722b043fd67cea80ea4bc0a4749e883'',
       ''0x7c2aaaaf3f019bbf7f02beed21fc4ec352cc38272f93cb11e61ec7c89bfe5f4b::xbtc::XBTC'')]"

definition fa_to_coin_mapping_6 :: "(string \<times> string) list" where
  "fa_to_coin_mapping_6 =
     [(''0x69ef9f94420a1d287892fb42450ca5777984c1c22cc886407726482480276ec1'',
       ''0x8d87a65ba30e09357fa2edea2c80dbac296e5dec2b18287113500b902942929d::celer_coin_manager::WbtcCoin''),
      (''0x78d37cff9f42109ce68cd73edb9ef24bb03aad697d7b6449a544701e425befbf'',
       ''0x967adbf2e05fe665ab86a3bf2c4acfa39fbf62097963474ef70a0786dae8cfa2::NRUH::NRUH''),
      (''0xa36e2774e4db37934a3e27e2df7b39be5e6fcb4b7840319336fb98ffdf3d613a'',
       ''0xc82974034820c34f065f948f1bee473d481bf99fde2d23e981043e5038cb36be::WOOF::Woof''),
      (''0x37bdfd533a28c38ba6f2963e3f2ab881b3826d952ea3d4ca03020e0d2735348d'',
       ''0xccc9620d38c4f3991fa68a03ad98ef3735f18d04717cb75d7a1300dd8a7eed75::coin::T''),
      (''0xeb73df9d3ba3fbc2538d2e7f4a2dac9718b48b07f65596a9c7cc84d978e3d6cd'',
       ''0x2dcbc03740a6fa2efee926b9df329184cce357d0573bdab09930f4d48e61a4c8::STOS::STOS''),
      (''0xcd70630fb90cab716ab01a7884821f86dceb1bbb09a89683b5c22c5462503f51'',
       ''0xdcfa079344261bfde45e7f6281df091743b8d3098bf9e26e1c0212fc5b070621::zaaptos_token::ZaaptosCoin''),
      (''0x1b976ce1a6bf4a37057166f52646c879f37cb0712eb2fd4005e54b9c929b7171'',
       ''0x380b3422c7d2c28f29776cf1a234b98bc514b6d8c1cf16e1b9123cb1acb6203::plant_coin::PlantCoin''),
      (''0xfd1f22b455e2d095a1ec497ecc0a11db86173d0271557ca6c16baa9d66466a75'',
       ''0x31a6675cbe84365bf2b0cbce617ece6c47023ef70826533bde5203d32171dc3c::swap::LPToken<0x1::aptos_coin::AptosCoin, 0xf22bede237a07e121b56d91a491eb7bcdfd1f5907926a9e58338f964a01b17fa::asset::USDC>''),
      (''0x0943bf6e5329167f459a4ae7efa93336f49ef08a5aff65f8c70133f0a0725ef2'',
       ''0x91b54cb4441c88fa21b7ca5b8b860e8b6fe726c23866bed91999823e65c1026d::GEMKRW::GEMKRW'')]"

definition fa_to_coin_mapping_7 :: "(string \<times> string) list" where
  "fa_to_coin_mapping_7 =
     [(''0xf92047adba5ec4a21ad076b19a0c8806b195435696d30dc3f43781d1e6d91563'',
       ''0x8d87a65ba30e09357fa2edea2c80dbac296e5dec2b18287113500b902942929d::celer_coin_manager::UsdcCoin''),
      (''0xf0876baf6f8c37723f0e9d9c1bbad1ccb49324c228bcc906e2f1f5a9e139eda1'',
       ''0xcfea864b32833f157f042618bd845145256b1bf4c0da34a7013b76e42daa53cc::usdy::USDY''),
      (''0xf7833d21f83a19548c81e8fd17d8bde4a6e8cc3fbb1ffb97973e06e261c75dee'',
       ''0x5c738a5dfa343bee927c39ebe85b0ceb95fdb5ee5b323c95559614f5a77c47cf::Aptoge::Aptoge''),
      (''0xa4607412abfc37ec0b6fd6e102f5f0b7989f59fd44ff5d374cbe360ffbecdfff'',
       ''0xf891d2e004973430cc2bbbee69f3d0f4adb9c7ae03137b4579f7bb9979283ee6::APTOS_FOMO::APTOS_FOMO''),
      (''0x109492c6323a413d605f5768127b11ef28d5805a818b355b0c9ebcb1995fcf81'',
       ''0x881ac202b1f1e6ad4efcff7a1d0579411533f2502417a19211cfc49751ddb5f4::coin::MOJO''),
      (''0xfbd6406c12cab2aef728c917a365cdb73883213f74af5e8a46c8fbd77b623ee7'',
       ''0x8d87a65ba30e09357fa2edea2c80dbac296e5dec2b18287113500b902942929d::celer_coin_manager::WethCoin''),
      (''0xc40443d625f94ddec95a76bcf2534eda394bf67713b93f08eb202026e2aaa66a'',
       ''0xdf3d5eb83df80dfde8ceb1edaa24d8dbc46da6a89ae134a858338e1b86a29e38::coin::Returd''),
      (''0x08bbc1e07f934be0862be6df1477dbab54d6ccdf594f1569a64fa2941cbfe368'',
       ''0x198e4a77b72cbcac7465e774e99d2ba552053ca57b0759ea3c008433742b4e4f::PEPE::Pepe''),
      (''0x290c792f89a47cd7280e0b9035fa8b2876ab4298f0135d4a2c88e77257681ea1'',
       ''0x2778b277644d375721766abfff0df2adca795f6cbae9f02ff1c95ce9adb6ee28::aptos_shiba_coin::AptosShibaCoin'')]"

definition fa_to_coin_mapping_8 :: "(string \<times> string) list" where
  "fa_to_coin_mapping_8 =
     [(''0xc73b3f454576b00d4d05393ff427537eda42f791350f30ce1f566448b5798644'',
       ''0x66302f3c648890f70ca3fafc42c919483945f3ba155101bc2e149e38a8b93afc::toss_coin::TossCoin''),
      (''0x3fb0cd30095fc85c77eb5cb9edcdbead3cef34e449b1a6f07729282120bc6383'',
       ''0x8d87a65ba30e09357fa2edea2c80dbac296e5dec2b18287113500b902942929d::celer_coin_manager::BnbCoin''),
      (''0xa0d9d647c5737a5aed08d2cfeb39c31cf901d44bc4aa024eaa7e5e68b804e011'',
       ''0xfaf4e633ae9eb31366c9ca24214231760926576c7b625313b3688b5e900731f6::staking::ThalaAPT''),
      (''0x0dcee4819a7b45113c6e44a157a11866f3366a7c93f79ba5acdf27f6fb8ce301'',
       ''0xbe3c4b493632b4d776d56e19d91dcfb34f591f759f6b57f8632d455360da503c::dumdum_coin::DumdumCoin''),
      (''0x23813a24e98215ab541051432b734baecaa3737019a4891c37034f88d9944960'',
       ''0x407a220699982ebb514568d007938d2447d33667e4418372ffec1ddb24491b6c::coin::T''),
      (''0xb56df862320ff2dc317e147c870ad09f12711a5e02c6245438f827e6c54188b4'',
       ''0x5c738a5dfa343bee927c39ebe85b0ceb95fdb5ee5b323c95559614f5a77c47cf::AptSwap::AptSwapGovernance''),
      (''0xf5d23515c4454652c38219aec5f1a0720207dc1f5d2e5140b94608f9ce821a36'',
       ''0x84edd115c901709ef28f3cb66a82264ba91bfd24789500b6fd34ab9e8888e272::coin::DLC''),
      (''0xcc71496adf8086dcc62bbe4d975718f09de8cc42629aacd8df84df514cbac154'',
       ''0x31a6675cbe84365bf2b0cbce617ece6c47023ef70826533bde5203d32171dc3c::swap::LPToken<0x1::aptos_coin::AptosCoin, 0xf22bede237a07e121b56d91a491eb7bcdfd1f5907926a9e58338f964a01b17fa::asset::USDT>''),
      (''0xfad230e7d9df2baf83a68b6f50217ed3c06da593e766970a885965b43b894a04'',
       ''0xada35ada7e43e2ee1c39633ffccec38b76ce702b4efc2e60b50f63fbe4f710d8::apetos_token::ApetosCoin'')]"

definition fa_to_coin_mapping_9 :: "(string \<times> string) list" where
  "fa_to_coin_mapping_9 =
     [(''0x8d55e255fcf4142a8008b1b5ca0ec9efb964f8a914807c0bf279f6c3af3ef955'',
       ''0x31a6675cbe84365bf2b0cbce617ece6c47023ef70826533bde5203d32171dc3c::swap::LPToken<0x111ae3e5bc816a5e63c2da97d0aa3886519e0cd5e4b046659fa35796bd11542a::amapt_token::AmnisApt, 0x1::aptos_coin::AptosCoin>''),
      (''0x66037303c053e2bd0d5af444a9a4792e5a2b56633849e57259e575349d871d04'',
       ''0x1eb35b3b9e911ca2093970ae5abfb970dbec54597d43954bb53b09d2e8356cc3::BMTAmm::BMTAmm''),
      (''0xcab64ed0d956462e9b8ba7c340fdb8b9ab52da1503f37b522288bc0c5bf944de'',
       ''0x389dbbc6884a1d5b1ab4e1df2913a8c1b01251e50aed377554372b2842c5e3ef::EONcoin::EONCoin''),
      (''0x5486d29c4fceec48c55e88a700eddfdf5be8663a2a873ac0d2baac21cd78b390'',
       ''0xacd014e8bdf395fa8497b6d585b164547a9d45269377bdf67c96c541b7fec9ed::coin::T''),
      (''0x9660042a7c01d776938184278381d24c7009ca385d9a59cf9b22691f97615960'',
       ''0x16fe2df00ea7dde4a63409201f7f4e536bde7bb7335526a35d05111e68aa322c::AnimeCoin::ANI''),
      (''0x4ddd6e6dfff083e2e4981cf959384e6aec18a9c62cc4694e8aab950c07296208'',
       ''0xcc78307c77f1c2c0fdfee17269bfca7876a0b35438c3442417480c0d5c370fbc::AptopadCoin::APD''),
      (''0x8ddd74585cfe3249d71532a8c96fbfc3a1d1134357ec1eaf0411db953c6b942b'',
       ''0x31a6675cbe84365bf2b0cbce617ece6c47023ef70826533bde5203d32171dc3c::swap::LPToken<0xf22bede237a07e121b56d91a491eb7bcdfd1f5907926a9e58338f964a01b17fa::asset::WETH, 0x1::aptos_coin::AptosCoin>''),
      (''0x70003a36f53ed8142a7a530415982d466bc16cdcf2be2599c08211105bd9364d'',
       ''0x26f03cd414cdcae387961058ab5523a4e64559f4b0853c46c9b3c4e01fd8af9b::usdy_staging::USDY_STAGING''),
      (''0x64196428c8f492b189a1f69234e12b161adf729fc42679cb30219a59f8114f8c'',
       ''0x26f03cd414cdcae387961058ab5523a4e64559f4b0853c46c9b3c4e01fd8af9b::usdy::USDY'')]"

definition fa_to_coin_mapping_10 :: "(string \<times> string) list" where
  "fa_to_coin_mapping_10 =
     [(''0x56998a39007a9b431fa9d98bcc57de14f2f357846723a1ad94dfb4c3c965a3a3'',
       ''0x14b0ef0ec69f346bea3dfa0c5a8c3942fb05c08760059948f9f24c02cd0d4fd8::mover_token::Mover'')]"

definition static_fa_to_coin_mapping :: "(string \<times> string) list" where
  "static_fa_to_coin_mapping =
     fa_to_coin_mapping_1 @ fa_to_coin_mapping_2 @ fa_to_coin_mapping_3 @
     fa_to_coin_mapping_4 @ fa_to_coin_mapping_5 @ fa_to_coin_mapping_6 @
     fa_to_coin_mapping_7 @ fa_to_coin_mapping_8 @ fa_to_coin_mapping_9 @ fa_to_coin_mapping_10"

definition from_raw_fungible_asset_metadata :: "extern \<Rightarrow> sdk \<Rightarrow> fa_metadata_model \<Rightarrow> fa_to_coin_mapping" where
  "from_raw_fungible_asset_metadata ext sdk m =
     \<lparr>ftc_fungible_asset_metadata_address = get_paired_metadata_address ext sdk (fam_asset_type m),
      ftc_coin_type = fam_asset_type m, ftc_last_transaction_version = fam_last_transaction_version m\<rparr>"

definition get_asset_type_v1 :: "string \<Rightarrow> (string \<rightharpoonup> string) option \<Rightarrow> string option" where
  "get_asset_type_v1 asset_type_v2 dynamic =
     (case map_of static_fa_to_coin_mapping asset_type_v2 of
        Some coin_type \<Rightarrow> Some coin_type
      | None \<Rightarrow> opt_and_then dynamic (\<lambda>mapping. mapping asset_type_v2))"

definition get_all_mappings :: "(string \<times> string) list option \<Rightarrow> (string \<times> string) list result" where
  "get_all_mappings queried =
     (case queried of
        None \<Rightarrow> Inl (Panic ''Failed to query fungible asset to coin mappings'')
      | Some rows \<Rightarrow> Inr (extend_map rows []))"

section \<open>Balances\<close>

definition unified_row :: "token_standard \<Rightarrow> fa_balance \<Rightarrow> (string \<rightharpoonup> string) option \<Rightarrow> unified_balance" where
  "unified_row standard fab mapping =
     (let is_v2 = (standard = V2)
      in \<lparr>cub_storage_id = fab_storage_id fab, cub_owner_address = fab_owner_address fab,
          cub_asset_type_v1 = (if is_v2 then get_asset_type_v1 (fab_asset_type fab) mapping
                               else Some (fab_asset_type fab)),
          cub_asset_type_v2 = (if is_v2 then Some (fab_asset_type fab) else None),
          cub_is_primary = (if is_v2 then fab_is_primary fab else True),
          cub_is_frozen = fab_is_frozen fab,
          cub_amount_v1 = (if is_v2 then None else Some (fab_amount fab)),
          cub_amount_v2 = (if is_v2 then Some (fab_amount fab) else None),
          cub_last_transaction_version_v1 = (if is_v2 then None else Some (fab_transaction_version fab)),
          cub_last_transaction_version_v2 = (if is_v2 then Some (fab_transaction_version fab) else None),
          cub_last_transaction_timestamp_v1 = (if is_v2 then None else Some (fab_transaction_timestamp fab)),
          cub_last_transaction_timestamp_v2 = (if is_v2 then Some (fab_transaction_timestamp fab) else None)\<rparr>)"

definition from_balance :: "fa_balance \<Rightarrow> (string \<rightharpoonup> string) option \<Rightarrow> unified_balance result" where
  "from_balance fab mapping =
     (case token_standard_from_str (fab_token_standard fab) of
        None \<Rightarrow> Inl (Panic ''Invalid token standard'')
      | Some standard \<Rightarrow> Inr (unified_row standard fab mapping))"

type_synonym unified_maps = "(string \<times> unified_balance) list \<times> (string \<times> unified_balance) list"

definition push_unified ::
  "(string \<rightharpoonup> string) option \<Rightarrow> fa_balance \<Rightarrow> unified_maps \<Rightarrow> unified_maps result" where
  "push_unified mapping fab maps =
     and_then (from_balance fab mapping) (\<lambda>u.
       case token_standard_from_str (fab_token_standard fab) of
         None \<Rightarrow> Inl (Panic ''Invalid token standard'')
       | Some V1 \<Rightarrow> Inr (AList.update (cub_storage_id u) u (fst maps), snd maps)
       | Some V2 \<Rightarrow> Inr (fst maps, AList.update (cub_storage_id u) u (snd maps)))"

definition from_fungible_asset_balances ::
  "fa_balance list \<Rightarrow> (string \<rightharpoonup> string) option \<Rightarrow> unified_maps result" where
  "from_fungible_asset_balances fabs mapping = fold_result (push_unified mapping) fabs ([], [])"

record object_data =
  od_object :: object_with_metadata
  od_fungible_asset_metadata :: "fungible_asset_metadata option"
  od_fungible_asset_supply :: "fungible_asset_supply option"
  od_concurrent_fungible_asset_supply :: "(decimal \<times> decimal) option"
  od_fungible_asset_store :: "fungible_asset_store option"
  od_concurrent_fungible_asset_balance :: "(decimal \<times> decimal) option"

text \<open>
  The fields of \<open>ObjectAggregatedData\<close> this processor fills.  An aggregator is its value and
  its maximum.
\<close>

definition store_balance :: "object_data \<Rightarrow> fungible_asset_store \<Rightarrow> decimal" where
  "store_balance obj inner =
     (case od_concurrent_fungible_asset_balance obj of Some a \<Rightarrow> fst a | None \<Rightarrow> fs_balance inner)"

definition balance_v2_from_write ::
  "extern \<Rightarrow> sdk \<Rightarrow> write_resource \<Rightarrow> i64 \<Rightarrow> i64 \<Rightarrow> datetime \<Rightarrow> (string \<rightharpoonup> object_data) \<Rightarrow> fa_balance option result" where
  "balance_v2_from_write ext sdk wr index version ts objects =
     and_then (read_result (from_write_resource ext (type_fungible_asset ''FungibleStore'') (store_try_from ext) wr)) (\<lambda>store.
       case store of
         None \<Rightarrow> Inr None
       | Some inner \<Rightarrow>
           (let storage_id = standardize_address ext (wr_address wr)
            in case objects storage_id of
                 None \<Rightarrow> Inr None
               | Some obj \<Rightarrow>
                   (let owner_address = get_owner_address ext (om_object_core (od_object obj));
                        asset_type = get_reference_address ext inner
                    in and_then (is_primary ext sdk owner_address asset_type storage_id) (\<lambda>primary.
                         Inr (Some \<lparr>fab_transaction_version = version, fab_write_set_change_index = index,
                           fab_storage_id = storage_id, fab_owner_address = owner_address,
                           fab_asset_type = asset_type, fab_is_primary = primary, fab_is_frozen = fs_frozen inner,
                           fab_amount = store_balance obj inner,
                           fab_transaction_timestamp = ts,
                           fab_token_standard = token_standard_to_string V2\<rparr>)))))"

definition balance_v2_from_delete ::
  "extern \<Rightarrow> delete_resource \<Rightarrow> i64 \<Rightarrow> i64 \<Rightarrow> datetime \<Rightarrow> (string \<rightharpoonup> store_deletion_event) \<Rightarrow> fa_balance option result" where
  "balance_v2_from_delete ext dr index version ts deleted =
     (if dr_type_str dr = ''0x1::object::ObjectGroup'' then
        (case move_resource_from_delete_resource ext dr 0 version 0 ts of
           Inl e \<Rightarrow> Inl (ProcessError ''Error getting resource from delete resource'')
         | Inr None \<Rightarrow> Inr None
         | Inr (Some resource) \<Rightarrow>
             (case deleted (mr_resource_address resource) of
                None \<Rightarrow> Inr None
              | Some ev \<Rightarrow> Inr (Some
                  \<lparr>fab_transaction_version = version, fab_write_set_change_index = index,
                   fab_storage_id = mr_resource_address resource,
                   fab_owner_address = standardize_address ext (de_owner ev),
                   fab_asset_type = standardize_address ext (de_metadata ev), fab_is_primary = False,
                   fab_is_frozen = False, fab_amount = 0, fab_transaction_timestamp = ts,
                   fab_token_standard = token_standard_to_string V2\<rparr>)))
      else Inr None)"

definition coin_balance_row ::
  "extern \<Rightarrow> sdk \<Rightarrow> string \<Rightarrow> string \<Rightarrow> bool \<Rightarrow> decimal \<Rightarrow> i64 \<Rightarrow> i64 \<Rightarrow> datetime \<Rightarrow> fa_balance result" where
  "coin_balance_row ext sdk owner_address coin_type frozen amount index version ts =
     and_then (coin_storage_id ext sdk owner_address coin_type) (\<lambda>storage_id.
       Inr \<lparr>fab_transaction_version = version, fab_write_set_change_index = index,
         fab_storage_id = storage_id, fab_owner_address = owner_address, fab_asset_type = coin_type,
         fab_is_primary = True, fab_is_frozen = frozen, fab_amount = amount,
         fab_transaction_timestamp = ts, fab_token_standard = token_standard_to_string V1\<rparr>)"

definition balance_v1_from_delete ::
  "extern \<Rightarrow> sdk \<Rightarrow> delete_resource \<Rightarrow> i64 \<Rightarrow> i64 \<Rightarrow> datetime \<Rightarrow> (fa_balance \<times> (string \<rightharpoonup> string)) option result" where
  "balance_v1_from_delete ext sdk dr index version ts =
     and_then (coin_from_delete_resource ext dr) (\<lambda>res.
       case res of
         Some CoinStoreDeletion \<Rightarrow>
           and_then (coin_info_type_of sdk (dr_type dr) (dr_type_str dr)) (\<lambda>info.
             case get_coin_type_below_max info of
               None \<Rightarrow> Inr None
             | Some coin_type \<Rightarrow>
                 (let owner_address = standardize_address ext (dr_address dr)
                  in and_then (coin_balance_row ext sdk owner_address coin_type False 0 index version ts) (\<lambda>row.
                       Inr (Some (row, [owner_address \<mapsto> coin_type])))))
       | _ \<Rightarrow> Inr None)"

definition balance_v1_from_write ::
  "extern \<Rightarrow> sdk \<Rightarrow> write_resource \<Rightarrow> i64 \<Rightarrow> i64 \<Rightarrow> datetime \<Rightarrow>
   (fa_balance \<times> (event_guid_resource \<rightharpoonup> string)) option result" where
  "balance_v1_from_write ext sdk wr index version ts =
     and_then (coin_from_write_resource ext wr version ts) (\<lambda>res.
       case res of
         Some (CoinStoreResource inner) \<Rightarrow>
           and_then (coin_info_type_of sdk (wr_type wr) (wr_type_str wr)) (\<lambda>info.
             case get_coin_type_below_max info of
               None \<Rightarrow> Inr None
             | Some coin_type \<Rightarrow>
                 and_then (coin_balance_row ext sdk (standardize_address ext (wr_address wr)) coin_type
                     (cs_frozen inner) (cs_coin_value inner) index version ts) (\<lambda>row.
                   Inr (Some (row, [get_standardized ext (cs_withdraw_events inner) \<mapsto> coin_type,
                     get_standardized ext (cs_deposit_events inner) \<mapsto> coin_type]))))
       | _ \<Rightarrow> Inr None)"

section \<open>Metadata and supply\<close>

definition metadata_v2_from_write ::
  "extern \<Rightarrow> sdk \<Rightarrow> write_resource \<Rightarrow> i64 \<Rightarrow> datetime \<Rightarrow> (string \<rightharpoonup> object_data) \<Rightarrow> fa_metadata_model option result" where
  "metadata_v2_from_write ext sdk wr version ts objects =
     and_then (read_result (from_write_resource ext (type_fungible_asset ''Metadata'') (metadata_try_from ext) wr)) (\<lambda>md.
       case md of
         None \<Rightarrow> Inr None
       | Some inner \<Rightarrow>
           (let asset_type = standardize_address ext (wr_address wr)
            in case objects asset_type of
                 None \<Rightarrow> Inr None
               | Some obj \<Rightarrow>
                   (let (maximum_v2, supply_v2) =
                          (case od_fungible_asset_supply obj of
                             Some supply \<Rightarrow> (get_maximum supply, Some (fu_current supply))
                           | None \<Rightarrow>
                               (case od_concurrent_fungible_asset_supply obj of
                                  Some a \<Rightarrow> (Some (snd a), Some (fst a))
                                | None \<Rightarrow> (None, None)))
                    in Inr (Some \<lparr>fam_asset_type = asset_type,
                         fam_creator_address = get_owner_address ext (om_object_core (od_object obj)),
                         fam_name = truncate_str sdk (fm_name inner) 32,
                         fam_symbol = truncate_str sdk (fm_symbol inner) 32, fam_decimals = fm_decimals inner,
                         fam_icon_uri = Some (truncate_str sdk (fm_icon_uri inner) uri_length),
                         fam_project_uri = Some (truncate_str sdk (fm_project_uri inner) uri_length),
                         fam_last_transaction_version = version, fam_last_transaction_timestamp = ts,
                         fam_supply_aggregator_table_handle_v1 = None, fam_supply_aggregator_table_key_v1 = None,
                         fam_token_standard = token_standard_to_string V2, fam_is_token_v2 = None,
                         fam_supply_v2 = supply_v2, fam_maximum_v2 = maximum_v2\<rparr>))))"

definition coin_info_metadata ::
  "extern \<Rightarrow> sdk \<Rightarrow> coin_info_resource \<Rightarrow> coin_info_type \<Rightarrow> i64 \<Rightarrow> datetime \<Rightarrow> fa_metadata_model option" where
  "coin_info_metadata ext sdk inner info version ts =
     (case get_coin_type_below_max info of
        None \<Rightarrow> None
      | Some asset_type \<Rightarrow> Some
          \<lparr>fam_asset_type = asset_type, fam_creator_address = get_creator_address ext info,
           fam_name = get_name_trunc sdk inner, fam_symbol = get_symbol_trunc sdk inner,
           fam_decimals = ci_decimals inner, fam_icon_uri = None, fam_project_uri = None,
           fam_last_transaction_version = version, fam_last_transaction_timestamp = ts,
           fam_supply_aggregator_table_handle_v1 = map_option ag_handle (get_aggregator_metadata inner),
           fam_supply_aggregator_table_key_v1 = map_option ag_key (get_aggregator_metadata inner),
           fam_token_standard = token_standard_to_string V1, fam_is_token_v2 = None,
           fam_supply_v2 = None, fam_maximum_v2 = None\<rparr>)"

definition metadata_v1_from_write ::
  "extern \<Rightarrow> sdk \<Rightarrow> write_resource \<Rightarrow> i64 \<Rightarrow> datetime \<Rightarrow> fa_metadata_model option result" where
  "metadata_v1_from_write ext sdk wr version ts =
     and_then (coin_from_write_resource ext wr version ts) (\<lambda>res.
       case res of
         Some (CoinInfoResource inner) \<Rightarrow>
           and_then (coin_info_type_of sdk (wr_type wr) (wr_type_str wr)) (\<lambda>info.
             Inr (coin_info_metadata ext sdk inner info version ts))
       | _ \<Rightarrow> Inr None)"

definition metadata_v1_from_delete ::
  "extern \<Rightarrow> sdk \<Rightarrow> delete_resource \<Rightarrow> i64 \<Rightarrow> datetime \<Rightarrow> fa_metadata_model option result" where
  "metadata_v1_from_delete ext sdk dr version ts =
     and_then (coin_from_delete_resource ext dr) (\<lambda>res.
       case res of
         Some (CoinInfoResource inner) \<Rightarrow>
           and_then (coin_info_type_of sdk (dr_type dr) (dr_type_str dr)) (\<lambda>info.
             Inr (coin_info_metadata ext sdk inner info version ts))
       | _ \<Rightarrow> Inr None)"

definition aptos_coin_supply_table_handle :: string where
  "aptos_coin_supply_table_handle =
     ''0x1b854694ae746cdbd8d44186ca4929b2b337df21d1c74633be19b2710552fdca''"

definition aptos_coin_supply_table_key :: string where
  "aptos_coin_supply_table_key =
     ''0x619dc29a0aac8fa146714058e8dd6d2d0f3bdf5f6331907bf91f3acd81e6935''"

definition supply_from_write_table_item ::
  "extern \<Rightarrow> sdk \<Rightarrow> write_table_item \<Rightarrow> i64 \<Rightarrow> datetime \<Rightarrow> i64 \<Rightarrow> coin_supply option result" where
  "supply_from_write_table_item ext sdk item version ts epoch =
     (case wt_data item of
        None \<Rightarrow> Inr None
      | Some data \<Rightarrow>
          if \<not> (wtd_key_type data = ''address'' \<and> wtd_value_type data = ''u128'') then Inr None
          else if wt_handle item \<noteq> aptos_coin_supply_table_handle then Inr None
          else
            and_then (from_write_table_item ext sdk item 0 version 0 ts) (\<lambda>(table_item, _).
            and_then (postgres_table_item_of ext table_item) (\<lambda>row.
            and_then (unwrap (json_as_str (pti_decoded_key row))) (\<lambda>table_key.
              if table_key \<noteq> aptos_coin_supply_table_key then Inr None
              else
                and_then (unwrap (pti_decoded_value row)) (\<lambda>v.
                and_then (unwrap (json_as_str v)) (\<lambda>s.
                  case decimal_from_str ext s of
                    None \<Rightarrow> Inl (ProcessError ''cannot parse string as u128'')
                  | Some supply \<Rightarrow> Inr (Some
                      \<lparr>csp_transaction_version = version,
                       csp_coin_type_hash = hash_str sdk (aptos_coin_type_str sdk),
                       csp_coin_type = aptos_coin_type_str sdk, csp_supply = supply,
                       csp_transaction_timestamp = ts, csp_transaction_epoch = epoch\<rparr>)))))))"

section \<open>Activities\<close>

definition event_account_address :: "extern \<Rightarrow> event \<Rightarrow> string result" where
  "event_account_address ext ev =
     and_then (unwrap (ev_key ev)) (\<lambda>k. Inr (standardize_address ext (ek_account_address k)))"

definition fa_event_parts ::
  "extern \<Rightarrow> event \<Rightarrow> fungible_asset_event \<Rightarrow> (string \<times> bool option \<times> decimal option) result" where
  "fa_event_parts ext ev e =
     (case e of
        FaWithdrawEvent amount \<Rightarrow> and_then (event_account_address ext ev) (\<lambda>a. Inr (a, None, Some amount))
      | FaDepositEvent amount \<Rightarrow> and_then (event_account_address ext ev) (\<lambda>a. Inr (a, None, Some amount))
      | FaFrozenEvent frozen \<Rightarrow> and_then (event_account_address ext ev) (\<lambda>a. Inr (a, Some frozen, None))
      | FaWithdrawEventV2 store amount \<Rightarrow> Inr (standardize_address ext store, None, Some amount)
      | FaDepositEventV2 store amount \<Rightarrow> Inr (standardize_address ext store, None, Some amount)
      | FaFrozenEventV2 store frozen \<Rightarrow> Inr (standardize_address ext store, Some frozen, None))"

definition activity_v2_from_event ::
  "extern \<Rightarrow> event \<Rightarrow> i64 \<Rightarrow> i64 \<Rightarrow> datetime \<Rightarrow> i64 \<Rightarrow> string option \<Rightarrow> (string \<rightharpoonup> object_data) \<Rightarrow>
   (string \<rightharpoonup> store_deletion_event) \<Rightarrow> fa_activity option result" where
  "activity_v2_from_event ext ev version height ts index entry_function objects deleted =
     and_then (fa_event_from_event ext (ev_type_str ev) (ev_data ev)) (\<lambda>maybe_event.
       case maybe_event of
         None \<Rightarrow> Inr None
       | Some e \<Rightarrow>
           and_then (fa_event_parts ext ev e) (\<lambda>(storage_id, frozen, amount).
             let (owner_address, asset_type) =
                   (case objects storage_id of
                      Some md \<Rightarrow> (Some (get_owner_address ext (om_object_core (od_object md))),
                        map_option (get_reference_address ext) (od_fungible_asset_store md))
                    | None \<Rightarrow>
                        (case deleted storage_id of
                           Some d \<Rightarrow> (Some (de_owner d), Some (de_metadata d))
                         | None \<Rightarrow> (None, None)))
             in Inr (Some \<lparr>fac_transaction_version = version, fac_event_index = index,
               fac_owner_address = owner_address, fac_storage_id = storage_id, fac_asset_type = asset_type,
               fac_is_frozen = frozen, fac_amount = amount, fac_event_type = ev_type_str ev,
               fac_is_gas_fee = False, fac_gas_fee_payer_address = None, fac_is_transaction_success = True,
               fac_entry_function_id_str = entry_function, fac_block_height = height,
               fac_token_standard = token_standard_to_string V2, fac_transaction_timestamp = ts,
               fac_storage_refund_amount = 0\<rparr>)))"

definition coin_event_parts ::
  "extern \<Rightarrow> event \<Rightarrow> coin_event \<Rightarrow> (string \<times> decimal \<times> string option) result" where
  "coin_event_parts ext ev e =
     (case e of
        WithdrawCoinEvent amount \<Rightarrow> and_then (event_account_address ext ev) (\<lambda>a. Inr (a, amount, None))
      | DepositCoinEvent amount \<Rightarrow> and_then (event_account_address ext ev) (\<lambda>a. Inr (a, amount, None))
      | WithdrawCoinEventV2 t account amount \<Rightarrow> Inr (standardize_address ext account, amount, Some t)
      | DepositCoinEventV2 t account amount \<Rightarrow> Inr (standardize_address ext account, amount, Some t))"

definition event_coin_type ::
  "extern \<Rightarrow> event \<Rightarrow> string option \<Rightarrow> (event_guid_resource \<rightharpoonup> string) \<Rightarrow> (string \<rightharpoonup> string) \<Rightarrow> string option result" where
  "event_coin_type ext ev coin_type_option event_to_coin_type address_to_coin_type =
     (case coin_type_option of
        Some coin_type \<Rightarrow> Inr (Some coin_type)
      | None \<Rightarrow>
          (case ev_key ev of
             None \<Rightarrow> Inl (ProcessError ''event must have a key'')
           | Some k \<Rightarrow>
               (let guid = \<lparr>eg_addr = standardize_address ext (ek_account_address k),
                      eg_creation_num = ek_creation_number k\<rparr>
                in Inr (case event_to_coin_type guid of
                     Some coin_type \<Rightarrow> Some coin_type
                   | None \<Rightarrow> address_to_coin_type (eg_addr guid)))))"

definition activity_v1_from_event ::
  "extern \<Rightarrow> sdk \<Rightarrow> event \<Rightarrow> i64 \<Rightarrow> i64 \<Rightarrow> datetime \<Rightarrow> string option \<Rightarrow> (event_guid_resource \<rightharpoonup> string) \<Rightarrow>
   i64 \<Rightarrow> (string \<rightharpoonup> string) \<Rightarrow> fa_activity option result" where
  "activity_v1_from_event ext sdk ev version height ts entry_function event_to_coin_type index
     address_to_coin_type =
     and_then (coin_event_from_event ext (ev_type_str ev) (ev_data ev)) (\<lambda>maybe_event.
       case maybe_event of
         None \<Rightarrow> Inr None
       | Some e \<Rightarrow>
           and_then (coin_event_parts ext ev e) (\<lambda>(owner_address, amount, coin_type_option).
           and_then (event_coin_type ext ev coin_type_option event_to_coin_type address_to_coin_type) (\<lambda>maybe_type.
             case maybe_type of
               None \<Rightarrow> Inr None
             | Some coin_type \<Rightarrow>
                 and_then (coin_storage_id ext sdk owner_address coin_type) (\<lambda>storage_id.
                   Inr (Some \<lparr>fac_transaction_version = version, fac_event_index = index,
                     fac_owner_address = Some owner_address, fac_storage_id = storage_id,
                     fac_asset_type = Some coin_type, fac_is_frozen = None, fac_amount = Some amount,
                     fac_event_type = ev_type_str ev, fac_is_gas_fee = False,
                     fac_gas_fee_payer_address = None, fac_is_transaction_success = True,
                     fac_entry_function_id_str = entry_function, fac_block_height = height,
                     fac_token_standard = token_standard_to_string V1, fac_transaction_timestamp = ts,
                     fac_storage_refund_amount = 0\<rparr>)))))"

record coin_activity =
  cac_transaction_version :: i64
  cac_event_account_address :: string
  cac_event_creation_number :: i64
  cac_event_sequence_number :: i64
  cac_owner_address :: string
  cac_coin_type :: string
  cac_amount :: decimal
  cac_activity_type :: string
  cac_is_gas_fee :: bool
  cac_is_transaction_success :: bool
  cac_entry_function_id_str :: "string option"
  cac_block_height :: i64
  cac_transaction_timestamp :: datetime
  cac_event_index :: "i64 option"
  cac_gas_fee_payer_address :: "string option"
  cac_storage_refund_amount :: decimal

definition gas_fee_event :: string where
  "gas_fee_event = ''0x1::aptos_coin::GasFeeEvent''"

definition burn_gas_event_creation_num :: i64 where
  "burn_gas_event_creation_num = -1"

definition burn_gas_event_index :: i64 where
  "burn_gas_event_index = -1"

definition coin_gas_event ::
  "extern \<Rightarrow> sdk \<Rightarrow> transaction_info \<Rightarrow> user_request \<Rightarrow> string option \<Rightarrow> i64 \<Rightarrow> datetime \<Rightarrow> i64 \<Rightarrow>
   u64 option \<Rightarrow> coin_activity result" where
  "coin_gas_event ext sdk info req entry_function version ts height fee_statement =
     and_then (case ur_signature req of
         Some signature \<Rightarrow> get_fee_payer_address ext signature
       | None \<Rightarrow> Inr None) (\<lambda>payer.
       Inr \<lparr>cac_transaction_version = version,
         cac_event_account_address = standardize_address ext (ur_sender req),
         cac_event_creation_number = burn_gas_event_creation_num,
         cac_event_sequence_number = ur_sequence_number req,
         cac_owner_address = standardize_address ext (ur_sender req),
         cac_coin_type = aptos_coin_type_str sdk,
         cac_amount = u64_to_bigdecimal (ti_gas_used info * ur_gas_unit_price req),
         cac_activity_type = gas_fee_event, cac_is_gas_fee = True,
         cac_is_transaction_success = ti_success info, cac_entry_function_id_str = entry_function,
         cac_block_height = height, cac_transaction_timestamp = ts,
         cac_event_index = Some burn_gas_event_index, cac_gas_fee_payer_address = payer,
         cac_storage_refund_amount =
           (case fee_statement of Some octas \<Rightarrow> u64_to_bigdecimal octas | None \<Rightarrow> 0)\<rparr>)"

definition get_gas_event ::
  "extern \<Rightarrow> sdk \<Rightarrow> transaction_info \<Rightarrow> user_request \<Rightarrow> string option \<Rightarrow> i64 \<Rightarrow> datetime \<Rightarrow> i64 \<Rightarrow>
   u64 option \<Rightarrow> fa_activity result" where
  "get_gas_event ext sdk info req entry_function version ts height fee_statement =
     and_then (coin_gas_event ext sdk info req entry_function version ts height fee_statement) (\<lambda>v1.
     and_then (coin_storage_id ext sdk (cac_owner_address v1) (cac_coin_type v1)) (\<lambda>storage_id.
     and_then (unwrap (cac_event_index v1)) (\<lambda>index.
       Inr \<lparr>fac_transaction_version = version, fac_event_index = index,
         fac_owner_address = Some (cac_owner_address v1), fac_storage_id = storage_id,
         fac_asset_type = Some (cac_coin_type v1), fac_is_frozen = None, fac_amount = Some (cac_amount v1),
         fac_event_type = cac_activity_type v1, fac_is_gas_fee = cac_is_gas_fee v1,
         fac_gas_fee_payer_address = cac_gas_fee_payer_address v1,
         fac_is_transaction_success = cac_is_transaction_success v1,
         fac_entry_function_id_str = cac_entry_function_id_str v1, fac_block_height = height,
         fac_token_standard = token_standard_to_string V1, fac_transaction_timestamp = ts,
         fac_storage_refund_amount = cac_storage_refund_amount v1\<rparr>)))"

end
