(* ===== verification/FungibleAsset.thy ===== *)
theory FungibleAsset
  imports FungibleAssetModels
begin

text \<open>
  The extractor of the fungible asset processor: \<open>fungible_asset_processor_helpers.rs\<close> and
  \<open>fungible_asset_extractor.rs\<close>.  A transaction is read in five passes over its changes and
  events; maps that are only looked up are functions, maps whose values become rows are
  association lists.  Every error inside a pass panics.  Transactions are read in parallel and
  collected in order.

  The theorems: activities of a batch have distinct keys; the current balances are the latest
  balance rows per store, coin balances and fungible asset balances apart; a coin balance is filed
  under the primary store of the paired fungible asset; the mapping of assets to coins kept in
  memory is the one in the rows.
\<close>

section \<open>One transaction\<close>

record fa_txn =
  ft_activities :: "fa_activity list"
  ft_metadata :: "(string \<times> fa_metadata_model) list"
  ft_balances :: "fa_balance list"
  ft_supply :: "coin_supply list"
  ft_mappings :: "(string \<times> fa_to_coin_mapping) list"
  ft_objects :: "string \<rightharpoonup> object_data"
  ft_event_to_coin :: "event_guid_resource \<rightharpoonup> string"
  ft_deleted_coin :: "string \<rightharpoonup> string"
  ft_deleted_stores :: "string \<rightharpoonup> store_deletion_event"

definition empty_fa_txn :: fa_txn where
  "empty_fa_txn =
     \<lparr>ft_activities = [], ft_metadata = [], ft_balances = [], ft_supply = [], ft_mappings = [],
      ft_objects = Map.empty, ft_event_to_coin = Map.empty, ft_deleted_coin = Map.empty,
      ft_deleted_stores = Map.empty\<rparr>"

definition new_object_data :: "object_with_metadata \<Rightarrow> object_data" where
  "new_object_data ob =
     \<lparr>od_object = ob, od_fungible_asset_metadata = None, od_fungible_asset_supply = None,
      od_concurrent_fungible_asset_supply = None, od_fungible_asset_store = None,
      od_concurrent_fungible_asset_balance = None\<rparr>"

definition fa_collect_object ::
  "extern \<Rightarrow> change option \<Rightarrow> (string \<rightharpoonup> object_data) \<Rightarrow> (string \<rightharpoonup> object_data) result" where
  "fa_collect_object ext wsc objects =
     and_then (unwrap wsc) (\<lambda>c.
       case c of
         WriteResource wr \<Rightarrow>
           and_then (expect_ok (read_result (object_from_write_resource ext wr))) (\<lambda>ob.
             Inr (case ob of
                    None \<Rightarrow> objects
                  | Some ow \<Rightarrow> objects(standardize_address ext (wr_address wr) \<mapsto> new_object_data ow)))
       | _ \<Rightarrow> Inr objects)"

definition fa_collect_deletion ::
  "extern \<Rightarrow> event \<Rightarrow> (string \<rightharpoonup> store_deletion_event) \<Rightarrow> (string \<rightharpoonup> store_deletion_event) result" where
  "fa_collect_deletion ext ev deleted =
     and_then (store_deletion_from_event ext (ev_type_str ev) (ev_data ev)) (\<lambda>d.
       Inr (case d of None \<Rightarrow> deleted | Some e \<Rightarrow> deleted(de_store e \<mapsto> e)))"

primrec fill_object :: "v2_fungible_asset_resource \<Rightarrow> object_data \<Rightarrow> object_data" where
  "fill_object (FaMetadata m) obj = obj\<lparr>od_fungible_asset_metadata := Some m\<rparr>"
| "fill_object (FaStore s) obj = obj\<lparr>od_fungible_asset_store := Some s\<rparr>"
| "fill_object (FaSupply s) obj = obj\<lparr>od_fungible_asset_supply := Some s\<rparr>"
| "fill_object (FaConcurrentSupply a) obj = obj\<lparr>od_concurrent_fungible_asset_supply := Some a\<rparr>"
| "fill_object (FaConcurrentBalance a) obj = obj\<lparr>od_concurrent_fungible_asset_balance := Some a\<rparr>"

definition fa_fill_objects ::
  "extern \<Rightarrow> sdk \<Rightarrow> write_resource \<Rightarrow> fa_txn \<Rightarrow> fa_txn result" where
  "fa_fill_objects ext sdk wr st =
     (let address = standardize_address ext (wr_address wr)
      in case ft_objects st address of
           None \<Rightarrow> Inr st
         | Some obj \<Rightarrow>
             and_then (expect_ok (v2_fa_from_write_resource ext sdk wr)) (\<lambda>res.
               Inr (case res of
                      None \<Rightarrow> st
                    | Some r \<Rightarrow> st\<lparr>ft_objects := (ft_objects st)(address \<mapsto> fill_object r obj)\<rparr>)))"

definition fa_scan_change ::
  "extern \<Rightarrow> sdk \<Rightarrow> i64 \<Rightarrow> datetime \<Rightarrow> nat \<times> change option \<Rightarrow> fa_txn \<Rightarrow> fa_txn result" where
  "fa_scan_change ext sdk version ts iwsc st =
     and_then (unwrap (snd iwsc)) (\<lambda>c.
       case c of
         WriteResource wr \<Rightarrow>
           and_then (expect_ok (balance_v1_from_write ext sdk wr (of_nat (fst iwsc)) version ts)) (\<lambda>b.
             fa_fill_objects ext sdk wr
               (case b of
                  None \<Rightarrow> st
                | Some (balance, event_to_coin) \<Rightarrow>
                    st\<lparr>ft_balances := ft_balances st @ [balance],
                      ft_event_to_coin := ft_event_to_coin st ++ event_to_coin\<rparr>))
       | DeleteResource dr \<Rightarrow>
           and_then (expect_ok (balance_v1_from_delete ext sdk dr (of_nat (fst iwsc)) version ts)) (\<lambda>b.
             Inr (case b of
                    None \<Rightarrow> st
                  | Some (balance, deleted_coin) \<Rightarrow>
                      st\<lparr>ft_balances := ft_balances st @ [balance],
                        ft_deleted_coin := ft_deleted_coin st ++ deleted_coin\<rparr>))
       | _ \<Rightarrow> Inr st)"

definition opt_push :: "'a option \<Rightarrow> 'a list" where
  "opt_push x = (case x of None \<Rightarrow> [] | Some y \<Rightarrow> [y])"

definition fa_event_step ::
  "extern \<Rightarrow> sdk \<Rightarrow> i64 \<Rightarrow> i64 \<Rightarrow> datetime \<Rightarrow> string option \<Rightarrow> nat \<times> event \<Rightarrow> fa_txn \<Rightarrow> fa_txn result" where
  "fa_event_step ext sdk version height ts entry_function iev st =
     and_then (expect_ok (activity_v1_from_event ext sdk (snd iev) version height ts entry_function
         (ft_event_to_coin st) (of_nat (fst iev)) (ft_deleted_coin st))) (\<lambda>v1.
     and_then (expect_ok (activity_v2_from_event ext (snd iev) version height ts (of_nat (fst iev))
         entry_function (ft_objects st) (ft_deleted_stores st))) (\<lambda>v2.
       Inr (st\<lparr>ft_activities := ft_activities st @ opt_push v1 @ opt_push v2\<rparr>)))"

definition fa_output_write ::
  "extern \<Rightarrow> sdk \<Rightarrow> i64 \<Rightarrow> datetime \<Rightarrow> i64 \<Rightarrow> write_resource \<Rightarrow> fa_txn \<Rightarrow> fa_txn result" where
  "fa_output_write ext sdk version ts index wr st =
     and_then (expect_ok (metadata_v1_from_write ext sdk wr version ts)) (\<lambda>m1.
       let st1 = (case m1 of
             None \<Rightarrow> st
           | Some m \<Rightarrow> st\<lparr>ft_metadata := AList.update (fam_asset_type m) m (ft_metadata st),
               ft_mappings := AList.update (fam_asset_type m)
                 (from_raw_fungible_asset_metadata ext sdk m) (ft_mappings st)\<rparr>)
       in and_then (expect_ok (metadata_v2_from_write ext sdk wr version ts (ft_objects st1))) (\<lambda>m2.
            let st2 = (case m2 of
                  None \<Rightarrow> st1
                | Some m \<Rightarrow> st1\<lparr>ft_metadata := AList.update (fam_asset_type m) m (ft_metadata st1)\<rparr>)
            in and_then (expect_ok (balance_v2_from_write ext sdk wr index version ts (ft_objects st2))) (\<lambda>b.
                 Inr (st2\<lparr>ft_balances := ft_balances st2 @ opt_push b\<rparr>))))"

definition fa_output_change ::
  "extern \<Rightarrow> sdk \<Rightarrow> i64 \<Rightarrow> datetime \<Rightarrow> i64 \<Rightarrow> nat \<times> change option \<Rightarrow> fa_txn \<Rightarrow> fa_txn result" where
  "fa_output_change ext sdk version ts epoch iwsc st =
     and_then (unwrap (snd iwsc)) (\<lambda>c.
       case c of
         WriteResource wr \<Rightarrow> fa_output_write ext sdk version ts (of_nat (fst iwsc)) wr st
       | WriteTableItem item \<Rightarrow>
           and_then (expect_ok (supply_from_write_table_item ext sdk item version ts epoch)) (\<lambda>s.
             Inr (st\<lparr>ft_supply := ft_supply st @ opt_push s\<rparr>))
       | DeleteResource dr \<Rightarrow>
           and_then (expect_ok (balance_v2_from_delete ext dr (of_nat (fst iwsc)) version ts
               (ft_deleted_stores st))) (\<lambda>b.
             Inr (st\<lparr>ft_balances := ft_balances st @ opt_push b\<rparr>))
       | _ \<Rightarrow> Inr st)"

definition fa_events_and_request ::
  "sdk \<Rightarrow> txn_data \<Rightarrow> (event list \<times> user_request option \<times> string option) result" where
  "fa_events_and_request sdk data =
     (case data of
        TxnBlockMetadata inner \<Rightarrow> Inr (bm_events inner, None, None)
      | TxnValidator events \<Rightarrow> Inr (events, None, None)
      | TxnGenesis inner \<Rightarrow> Inr (gn_events inner, None, None)
      | TxnUser inner \<Rightarrow>
          (case ut_request inner of
             None \<Rightarrow> Inl (Panic ''Sends is not present in user txn'')
           | Some req \<Rightarrow>
               Inr (ut_events inner, Some req, get_entry_function_from_user_request sdk req))
      | _ \<Rightarrow> Inr ([], None, None))"

definition fa_gas_step ::
  "extern \<Rightarrow> sdk \<Rightarrow> transaction_info \<Rightarrow> event list \<Rightarrow> user_request option \<Rightarrow> string option \<Rightarrow> i64 \<Rightarrow>
   datetime \<Rightarrow> i64 \<Rightarrow> fa_txn \<Rightarrow> fa_txn result" where
  "fa_gas_step ext sdk info events user_request entry_function version ts height st =
     (case user_request of
        None \<Rightarrow> Inr st
      | Some req \<Rightarrow>
          and_then (find_fee_statement ext events) (\<lambda>fee_statement.
          and_then (get_gas_event ext sdk info req entry_function version ts height fee_statement) (\<lambda>gas.
            Inr (st\<lparr>ft_activities := ft_activities st @ [gas]\<rparr>))))"

definition parse_fa_changes ::
  "extern \<Rightarrow> sdk \<Rightarrow> transaction \<Rightarrow> transaction_info \<Rightarrow> datetime \<Rightarrow> event list \<Rightarrow> user_request option \<Rightarrow>
   string option \<Rightarrow> fa_txn result" where
  "parse_fa_changes ext sdk txn info ts events user_request entry_function =
     (let version = tx_version txn; height = tx_block_height txn
      in and_then (fold_result (fa_collect_object ext) (ti_changes info) Map.empty) (\<lambda>objects.
         and_then (fold_result (fa_collect_deletion ext) events Map.empty) (\<lambda>deleted.
         and_then (fold_result (fa_scan_change ext sdk version ts) (enumerate 0 (ti_changes info))
             (empty_fa_txn\<lparr>ft_objects := objects, ft_deleted_stores := deleted\<rparr>)) (\<lambda>st3.
         and_then (fa_gas_step ext sdk info events user_request entry_function version ts height st3) (\<lambda>st.
         and_then (fold_result (fa_event_step ext sdk version height ts entry_function)
             (enumerate 0 events) st) (\<lambda>st4.
           fold_result (fa_output_change ext sdk version ts (tx_epoch txn))
             (enumerate 0 (ti_changes info)) st4))))))"

definition parse_fa_txn :: "extern \<Rightarrow> sdk \<Rightarrow> transaction \<Rightarrow> fa_txn result" where
  "parse_fa_txn ext sdk txn =
     (case tx_data txn of
        None \<Rightarrow> Inr empty_fa_txn
      | Some data \<Rightarrow>
          (case tx_info txn of
             None \<Rightarrow> Inl (Panic ''Transaction info doesn't exist!'')
           | Some info \<Rightarrow>
               (case tx_timestamp txn of
                  None \<Rightarrow> Inl (Panic ''Transaction timestamp doesn't exist!'')
                | Some timestamp \<Rightarrow>
                    (case from_timestamp_opt sdk (fst timestamp) 0 of
                       None \<Rightarrow> Inl (Panic ''Txn Timestamp is invalid!'')
                     | Some ts \<Rightarrow>
                         and_then (fa_events_and_request sdk data) (\<lambda>(events, user_request, entry_function).
                           parse_fa_changes ext sdk txn info ts events user_request entry_function)))))"

section \<open>A batch\<close>

record fa_data =
  fd_activities :: "fa_activity list"
  fd_metadata :: "fa_metadata_model list"
  fd_balances :: "fa_balance list"
  fd_current_v1 :: "unified_balance list"
  fd_current_v2 :: "unified_balance list"
  fd_supply :: "coin_supply list"
  fd_mappings :: "fa_to_coin_mapping list"

definition parse_v2_coin ::
  "extern \<Rightarrow> sdk \<Rightarrow> transaction list \<Rightarrow> (string \<rightharpoonup> string) option \<Rightarrow> fa_data result" where
  "parse_v2_coin ext sdk txns mapping =
     and_then (map_result (parse_fa_txn ext sdk) txns) (\<lambda>outs.
       let balances = concat (map ft_balances outs);
           metadata = fold (\<lambda>t. extend_map (ft_metadata t)) outs [];
           mappings = fold (\<lambda>t. extend_map (ft_mappings t)) outs []
       in and_then (from_fungible_asset_balances balances mapping) (\<lambda>(current_v1, current_v2).
            Inr \<lparr>fd_activities = concat (map ft_activities outs),
              fd_metadata = sort_key fam_asset_type (map snd metadata), fd_balances = balances,
              fd_current_v1 = sort_key cub_storage_id (map snd current_v1),
              fd_current_v2 = sort_key cub_storage_id (map snd current_v2),
              fd_supply = concat (map ft_supply outs),
              fd_mappings = sort_key ftc_coin_type (map snd mappings)\<rparr>))"

definition coin_mapping_change ::
  "extern \<Rightarrow> sdk \<Rightarrow> i64 \<Rightarrow> change option \<Rightarrow> (string \<times> string) list \<Rightarrow> (string \<times> string) list result" where
  "coin_mapping_change ext sdk version wsc kv =
     and_then (unwrap wsc) (\<lambda>c.
       case c of
         WriteResource wr \<Rightarrow>
           and_then (expect_ok (metadata_v1_from_write ext sdk wr version 0)) (\<lambda>m.
             Inr (case m of
                    None \<Rightarrow> kv
                  | Some md \<Rightarrow>
                      (let r = from_raw_fungible_asset_metadata ext sdk md
                       in AList.update (ftc_fungible_asset_metadata_address r) (ftc_coin_type r) kv)))
       | _ \<Rightarrow> Inr kv)"

definition coin_mapping_txn :: "extern \<Rightarrow> sdk \<Rightarrow> transaction \<Rightarrow> (string \<times> string) list result" where
  "coin_mapping_txn ext sdk txn =
     (case tx_info txn of
        None \<Rightarrow> Inl (Panic ''Transaction info doesn't exist!'')
      | Some info \<Rightarrow> fold_result (coin_mapping_change ext sdk (tx_version txn)) (ti_changes info) [])"

definition get_fa_to_coin_mapping :: "extern \<Rightarrow> sdk \<Rightarrow> transaction list \<Rightarrow> (string \<times> string) list result" where
  "get_fa_to_coin_mapping ext sdk txns =
     and_then (map_result (coin_mapping_txn ext sdk) txns) (\<lambda>outs. Inr (fold extend_map outs []))"

section \<open>The extractor\<close>

text \<open>
  The extractor keeps the mapping of assets to coins; its state after a batch comes first.
\<close>

definition bootstrap_fa_to_coin_mapping :: "bool \<Rightarrow> (string \<times> string) list option \<Rightarrow> (string \<times> string) list result" where
  "bootstrap_fa_to_coin_mapping conn_ok queried =
     (if conn_ok then get_all_mappings queried else Inl (ProcessError ''db_pool.get''))"

definition fa_extract ::
  "extern \<Rightarrow> sdk \<Rightarrow> (string \<times> string) list \<Rightarrow> transaction list \<Rightarrow> ((string \<times> string) list \<times> fa_data) result" where
  "fa_extract ext sdk mapping txns =
     and_then (get_fa_to_coin_mapping ext sdk txns) (\<lambda>new.
       let mapping' = extend_map new mapping
       in and_then (parse_v2_coin ext sdk txns (Some (map_of mapping'))) (\<lambda>data. Inr (mapping', data)))"

section \<open>What the passes change\<close>

definition fac_key :: "fa_activity \<Rightarrow> i64 \<times> i64" where
  "fac_key a = (fac_transaction_version a, fac_event_index a)"

definition balance_ok :: "extern \<Rightarrow> sdk \<Rightarrow> fa_balance \<Rightarrow> bool" where
  "balance_ok ext sdk b \<longleftrightarrow>
     (case token_standard_from_str (fab_token_standard b) of
        None \<Rightarrow> False
      | Some V1 \<Rightarrow> fab_is_primary b \<and>
          coin_storage_id ext sdk (fab_owner_address b) (fab_asset_type b) = Inr (fab_storage_id b)
      | Some V2 \<Rightarrow> fab_is_primary b \<longrightarrow>
          get_primary_fungible_store_address ext sdk (fab_owner_address b) (fab_asset_type b) =
            Inr (fab_storage_id b))"

lemma coin_balance_row_ok:
  "coin_balance_row ext sdk owner_address coin_type frozen amount index version ts = Inr b \<Longrightarrow>
     balance_ok ext sdk b"
  by (auto elim!: and_then_InrE simp: coin_balance_row_def balance_ok_def)

lemma balance_v1_from_write_ok:
  "balance_v1_from_write ext sdk wr index version ts = Inr (Some (b, m)) \<Longrightarrow> balance_ok ext sdk b"
  by (auto elim!: and_then_InrE simp: balance_v1_from_write_def dest!: coin_balance_row_ok
      split: option.splits coin_resource.splits)

lemma balance_v1_from_delete_ok:
  "balance_v1_from_delete ext sdk dr index version ts = Inr (Some (b, m)) \<Longrightarrow> balance_ok ext sdk b"
  by (auto elim!: and_then_InrE simp: balance_v1_from_delete_def Let_def dest!: coin_balance_row_ok
      split: option.splits coin_resource.splits)

lemma balance_v2_from_write_ok:
  "balance_v2_from_write ext sdk wr index version ts objects = Inr (Some b) \<Longrightarrow> balance_ok ext sdk b"
  by (auto elim!: and_then_InrE simp: balance_v2_from_write_def Let_def balance_ok_def is_primary_def split: option.split_asm)

lemma balance_v2_from_delete_ok:
  "balance_v2_from_delete ext dr index version ts deleted = Inr (Some b) \<Longrightarrow> balance_ok ext sdk b"
  by (auto elim!: and_then_InrE simp: balance_v2_from_delete_def balance_ok_def split: option.splits if_splits sum.splits)

lemma fa_fill_objects_keeps:
  "fa_fill_objects ext sdk wr st = Inr st' \<Longrightarrow>
     ft_activities st' = ft_activities st \<and> ft_metadata st' = ft_metadata st \<and>
     ft_balances st' = ft_balances st \<and> ft_mappings st' = ft_mappings st"
  by (auto elim!: and_then_InrE simp: fa_fill_objects_def Let_def split: option.splits)

lemma set_opt_push [simp]: "set (opt_push x) = set_option x"
  by (cases x) (simp_all add: opt_push_def)

lemma fa_scan_change_keeps:
  assumes "fa_scan_change ext sdk version ts iwsc st = Inr st'"
  shows "ft_activities st' = ft_activities st" "ft_metadata st' = ft_metadata st"
    "ft_mappings st' = ft_mappings st"
    "\<forall>b \<in> set (ft_balances st'). b \<in> set (ft_balances st) \<or> balance_ok ext sdk b"
  using assms
  by (auto elim!: and_then_InrE simp: fa_scan_change_def balance_v1_from_write_ok balance_v1_from_delete_ok
      dest!: fa_fill_objects_keeps split: change.splits option.splits)

lemma fa_event_step_keeps:
  assumes "fa_event_step ext sdk version height ts entry_function iev st = Inr st'"
  shows "ft_balances st' = ft_balances st" "ft_metadata st' = ft_metadata st"
    "ft_mappings st' = ft_mappings st"
  using assms by (auto elim!: and_then_InrE simp: fa_event_step_def)

lemma fa_gas_step_keeps:
  assumes "fa_gas_step ext sdk info events user_request entry_function version ts height st = Inr st'"
  shows "ft_balances st' = ft_balances st" "ft_metadata st' = ft_metadata st"
    "ft_mappings st' = ft_mappings st"
  using assms by (auto elim!: and_then_InrE simp: fa_gas_step_def split: option.splits)

lemma fa_output_write_keeps:
  assumes "fa_output_write ext sdk version ts index wr st = Inr st'"
  shows "ft_activities st' = ft_activities st \<and>
    (\<forall>b \<in> set (ft_balances st'). b \<in> set (ft_balances st) \<or> balance_ok ext sdk b)"
  using assms
  by (auto elim!: and_then_InrE simp: fa_output_write_def Let_def balance_v2_from_write_ok split: option.splits)

lemma fa_output_change_keeps:
  assumes "fa_output_change ext sdk version ts epoch iwsc st = Inr st'"
  shows "ft_activities st' = ft_activities st \<and>
    (\<forall>b \<in> set (ft_balances st'). b \<in> set (ft_balances st) \<or> balance_ok ext sdk b)"
  using assms
  by (fastforce elim!: and_then_InrE simp: fa_output_change_def balance_v2_from_delete_ok dest!: fa_output_write_keeps
      split: change.splits)

section \<open>Activities have distinct keys\<close>

lemma activity_v1_key:
  "activity_v1_from_event ext sdk ev version height ts entry_function m index d = Inr (Some a) \<Longrightarrow>
     fac_key a = (version, index) \<and> (\<exists>e. coin_event_from_event ext (ev_type_str ev) (ev_data ev) = Inr (Some e))"
  by (auto elim!: and_then_InrE simp: activity_v1_from_event_def fac_key_def split: option.splits prod.splits)

lemma activity_v2_key:
  "activity_v2_from_event ext ev version height ts index entry_function objects deleted = Inr (Some a) \<Longrightarrow>
     fac_key a = (version, index) \<and> (\<exists>e. fa_event_from_event ext (ev_type_str ev) (ev_data ev) = Inr (Some e))"
  by (auto elim!: and_then_InrE simp: activity_v2_from_event_def fac_key_def Let_def split: option.split_asm prod.splits)

lemma fa_event_step_activity:
  assumes "fa_event_step ext sdk version height ts entry_function iev st = Inr st'"
  shows "ft_activities st' = ft_activities st \<or>
    (\<exists>a. ft_activities st' = ft_activities st @ [a] \<and> fac_key a = (version, of_nat (fst iev)))"
proof -
  obtain v1 v2 where v: "activity_v1_from_event ext sdk (snd iev) version height ts entry_function
        (ft_event_to_coin st) (of_nat (fst iev)) (ft_deleted_coin st) = Inr v1"
      "activity_v2_from_event ext (snd iev) version height ts (of_nat (fst iev))
        entry_function (ft_objects st) (ft_deleted_stores st) = Inr v2"
      "ft_activities st' = ft_activities st @ opt_push v1 @ opt_push v2"
    using assms by (auto elim!: and_then_InrE simp: fa_event_step_def)
  have "v1 = None \<or> v2 = None"
    using v(1,2) by (cases v1; cases v2) (auto dest!: activity_v1_key activity_v2_key event_standards_disjoint)
  then show ?thesis
    using v by (cases v1; cases v2) (auto elim!: and_then_InrE simp: opt_push_def dest: activity_v1_key activity_v2_key)
qed

lemma fa_event_steps_activities:
  assumes "fold_result (fa_event_step ext sdk version height ts entry_function) (enumerate n events) st = Inr st'"
  shows "\<exists>new is. ft_activities st' = ft_activities st @ new \<and> distinct is \<and>
    set is \<subseteq> {n..<n + length events} \<and> map fac_key new = map (\<lambda>i. (version, of_nat i)) is"
  using assms
proof (induction events arbitrary: n st)
  case Nil
  then show ?case by (intro exI [of _ "[]"]) simp
next
  case (Cons ev events)
  then obtain st1 where st1: "fa_event_step ext sdk version height ts entry_function (n, ev) st = Inr st1"
      "fold_result (fa_event_step ext sdk version height ts entry_function) (enumerate (Suc n) events) st1 = Inr st'"
    by (auto split: sum.splits)
  from Cons.IH [OF st1(2)] obtain new js where IH: "ft_activities st' = ft_activities st1 @ new"
      "distinct js" "set js \<subseteq> {Suc n..<Suc n + length events}"
      "map fac_key new = map (\<lambda>i. (version, of_nat i)) js" by blast
  from fa_event_step_activity [OF st1(1)] show ?case
  proof (elim disjE exE conjE)
    assume "ft_activities st1 = ft_activities st"
    with IH have "ft_activities st' = ft_activities st @ new \<and> distinct js \<and>
        set js \<subseteq> {n..<n + length (ev # events)} \<and> map fac_key new = map (\<lambda>i. (version, of_nat i)) js"
      by auto
    then show ?thesis by blast
  next
    fix a assume "ft_activities st1 = ft_activities st @ [a]" "fac_key a = (version, of_nat (fst (n, ev)))"
    with IH have "ft_activities st' = ft_activities st @ (a # new) \<and> distinct (n # js) \<and>
        set (n # js) \<subseteq> {n..<n + length (ev # events)} \<and>
        map fac_key (a # new) = map (\<lambda>i. (version, of_nat i)) (n # js)"
      by auto
    then show ?thesis by blast
  qed
qed

definition txn_events :: "transaction \<Rightarrow> event list" where
  "txn_events txn =
     (case tx_data txn of
        Some (TxnUser inner) \<Rightarrow> ut_events inner
      | Some (TxnGenesis inner) \<Rightarrow> gn_events inner
      | Some (TxnBlockMetadata inner) \<Rightarrow> bm_events inner
      | Some (TxnValidator events) \<Rightarrow> events
      | _ \<Rightarrow> [])"

definition activity_indices_fit :: "transaction \<Rightarrow> bool" where
  "activity_indices_fit txn \<longleftrightarrow> length (txn_events txn) < 2 ^ 64 - 1"

lemma parse_fa_txn_cases [consumes 1, case_names no_data data]:
  assumes "parse_fa_txn ext sdk txn = Inr out"
  obtains "tx_data txn = None" "out = empty_fa_txn"
  | info ts req entry objects deleted st3 st st4 where "tx_data txn \<noteq> None" "tx_info txn = Some info"
      "fold_result (fa_collect_object ext) (ti_changes info) Map.empty = Inr objects"
      "fold_result (fa_scan_change ext sdk (tx_version txn) ts) (enumerate 0 (ti_changes info))
         (empty_fa_txn\<lparr>ft_objects := objects, ft_deleted_stores := deleted\<rparr>) = Inr st3"
      "fa_gas_step ext sdk info (txn_events txn) req entry (tx_version txn) ts (tx_block_height txn) st3 = Inr st"
      "fold_result (fa_event_step ext sdk (tx_version txn) (tx_block_height txn) ts entry)
         (enumerate 0 (txn_events txn)) st = Inr st4"
      "fold_result (fa_output_change ext sdk (tx_version txn) ts (tx_epoch txn))
         (enumerate 0 (ti_changes info)) st4 = Inr out"
proof (cases "tx_data txn")
  case None
  with assms show ?thesis by (intro that(1)) (simp_all add: parse_fa_txn_def)
next
  case (Some data)
  obtain info ts events req entry where p: "tx_info txn = Some info"
      "fa_events_and_request sdk data = Inr (events, req, entry)"
      "parse_fa_changes ext sdk txn info ts events req entry = Inr out"
    using assms Some by (auto elim!: and_then_InrE simp: parse_fa_txn_def split: option.splits)
  have ev: "events = txn_events txn"
    using p(2) by (auto elim!: and_then_InrE simp: fa_events_and_request_def txn_events_def Some split: txn_data.splits option.splits)
  show ?thesis
    using p(3) Some by (auto elim!: and_then_InrE simp: parse_fa_changes_def Let_def ev intro: that(2) [OF _ p(1)])
qed

lemma scan_changes_keep:
  assumes "fold_result (fa_scan_change ext sdk version ts) iwscs st = Inr st'"
  shows "ft_activities st' = ft_activities st \<and> ft_metadata st' = ft_metadata st \<and>
    ft_mappings st' = ft_mappings st \<and>
    (\<forall>b \<in> set (ft_balances st'). b \<in> set (ft_balances st) \<or> balance_ok ext sdk b)"
  by (rule fold_result_inv [where P = "\<lambda>t. ft_activities t = ft_activities st \<and>
      ft_metadata t = ft_metadata st \<and> ft_mappings t = ft_mappings st \<and>
      (\<forall>b \<in> set (ft_balances t). b \<in> set (ft_balances st) \<or> balance_ok ext sdk b)", OF _ assms])
    (use fa_scan_change_keeps in \<open>metis, simp\<close>)

lemma event_steps_keep:
  assumes "fold_result (fa_event_step ext sdk version height ts entry) ievs st = Inr st'"
  shows "ft_balances st' = ft_balances st \<and> ft_metadata st' = ft_metadata st \<and> ft_mappings st' = ft_mappings st"
  by (rule fold_result_inv [where P = "\<lambda>t. ft_balances t = ft_balances st \<and>
      ft_metadata t = ft_metadata st \<and> ft_mappings t = ft_mappings st", OF _ assms])
    (use fa_event_step_keeps in \<open>metis, simp\<close>)

lemma output_changes_keep:
  assumes "fold_result (fa_output_change ext sdk version ts epoch) iwscs st = Inr st'"
  shows "ft_activities st' = ft_activities st \<and>
    (\<forall>b \<in> set (ft_balances st'). b \<in> set (ft_balances st) \<or> balance_ok ext sdk b)"
  by (rule fold_result_inv [where P = "\<lambda>t. ft_activities t = ft_activities st \<and>
      (\<forall>b \<in> set (ft_balances t). b \<in> set (ft_balances st) \<or> balance_ok ext sdk b)", OF _ assms])
    (use fa_output_change_keeps in \<open>metis, simp\<close>)

lemma parse_fa_txn_balances:
  assumes "parse_fa_txn ext sdk txn = Inr out" and "b \<in> set (ft_balances out)"
  shows "balance_ok ext sdk b"
  using assms(1)
proof (cases rule: parse_fa_txn_cases)
  case no_data
  with assms(2) show ?thesis by (simp add: empty_fa_txn_def)
next
  case (data info ts req entry objects deleted st3 st st4)
  have "ft_balances st4 = ft_balances st3"
    using event_steps_keep [OF data(6)] fa_gas_step_keeps [OF data(5)] by simp
  then show ?thesis
    using assms(2) output_changes_keep [OF data(7)] scan_changes_keep [OF data(4)]
    by (auto simp: empty_fa_txn_def)
qed

lemma gas_event_key:
  "get_gas_event ext sdk info req entry version ts height fee = Inr a \<Longrightarrow>
     fac_key a = (version, burn_gas_event_index)"
  by (auto elim!: and_then_InrE simp: get_gas_event_def coin_gas_event_def fac_key_def)

lemma burn_index_fresh:
  assumes "i < 2 ^ 64 - 1" shows "of_nat i \<noteq> burn_gas_event_index"
proof
  assume eq: "of_nat i = burn_gas_event_index"
  have "burn_gas_event_index = (of_nat (2 ^ 64 - 1) :: i64)" by (simp add: burn_gas_event_index_def)
  with eq have "(of_nat i :: i64) = of_nat (2 ^ 64 - 1)" by simp
  then have "i = 2 ^ 64 - 1" by (rule of_nat_i64_inj [rotated 2]) (use assms in simp_all)
  with assms show False by simp
qed

lemma parse_fa_txn_activities:
  assumes "parse_fa_txn ext sdk txn = Inr out" and "activity_indices_fit txn"
  shows "distinct (map fac_key (ft_activities out)) \<and> fst ` set (map fac_key (ft_activities out)) \<subseteq> {tx_version txn}"
  using assms(1)
proof (cases rule: parse_fa_txn_cases)
  case no_data
  then show ?thesis by (simp add: empty_fa_txn_def)
next
  case (data info ts req entry objects deleted st3 st st4)
  obtain new js where new: "ft_activities out = ft_activities st @ new" "distinct js"
      "set js \<subseteq> {0..<0 + length (txn_events txn)}"
      "map fac_key new = map (\<lambda>i. (tx_version txn, of_nat i)) js"
    using fa_event_steps_activities [OF data(6)] output_changes_keep [OF data(7)] by auto
  have small: "i < 2 ^ 64 - 1" if "i \<in> set js" for i
    using that new(3) assms(2) by (auto simp: activity_indices_fit_def)
  have "inj_on (\<lambda>i. of_nat i :: i64) (set js)"
  proof (rule inj_onI)
    fix i j assume "i \<in> set js" "j \<in> set js" and eq: "(of_nat i :: i64) = of_nat j"
    then have "i < 2 ^ 64" "j < 2 ^ 64" using small [of i] small [of j] by simp_all
    with eq show "i = j" by (rule of_nat_i64_inj [rotated 2])
  qed
  then have "distinct (map fac_key new)"
    unfolding new(4) using new(2) by (auto simp: distinct_map inj_on_def)
  moreover have "(tx_version txn, burn_gas_event_index) \<notin> set (map fac_key new)"
    unfolding new(4) using burn_index_fresh [OF small] by (auto dest: sym)
  moreover have "fst ` set (map fac_key new) \<subseteq> {tx_version txn}" unfolding new(4) by auto
  moreover have "map fac_key (ft_activities st) \<in> {[], [(tx_version txn, burn_gas_event_index)]}"
    using data(5) scan_changes_keep [OF data(4)]
    by (auto elim!: and_then_InrE simp: fa_gas_step_def empty_fa_txn_def gas_event_key split: option.splits)
  moreover have "distinct (A @ B) \<and> fst ` set (A @ B) \<subseteq> {fst k}"
    if "distinct B" "k \<notin> set B" "fst ` set B \<subseteq> {fst k}" "A \<in> {[], [k]}"
    for A B :: "(i64 \<times> i64) list" and k using that by auto
  ultimately show ?thesis unfolding new(1) map_append by (metis fst_conv)
qed

lemma parse_v2_coin_cases:
  assumes "parse_v2_coin ext sdk txns mapping = Inr data"
  obtains outs current_v1 current_v2 where "map_result (parse_fa_txn ext sdk) txns = Inr outs"
    "fd_activities data = concat (map ft_activities outs)"
    "fd_balances data = concat (map ft_balances outs)"
    "from_fungible_asset_balances (fd_balances data) mapping = Inr (current_v1, current_v2)"
    "fd_current_v1 data = sort_key cub_storage_id (map snd current_v1)"
    "fd_current_v2 data = sort_key cub_storage_id (map snd current_v2)"
    "fd_metadata data = sort_key fam_asset_type (map snd (fold (\<lambda>t. extend_map (ft_metadata t)) outs []))"
    "fd_mappings data = sort_key ftc_coin_type (map snd (fold (\<lambda>t. extend_map (ft_mappings t)) outs []))"
  using assms by (auto elim!: and_then_InrE simp: parse_v2_coin_def Let_def split: prod.splits)

lemma batch_activity_keys:
  assumes "list_all2 (\<lambda>txn out. parse_fa_txn ext sdk txn = Inr out) txns outs"
    and "distinct (map tx_version txns)" and "\<forall>txn \<in> set txns. activity_indices_fit txn"
  shows "distinct (map fac_key (concat (map ft_activities outs))) \<and>
    fst ` set (map fac_key (concat (map ft_activities outs))) \<subseteq> tx_version ` set txns"
  using assms
proof (induction rule: list_all2_induct)
  case (Cons txn txns out outs)
  have one: "distinct (map fac_key (ft_activities out))"
      "fst ` set (map fac_key (ft_activities out)) \<subseteq> {tx_version txn}"
    using parse_fa_txn_activities [OF Cons(1)] Cons.prems by simp_all
  have rest: "distinct (map fac_key (concat (map ft_activities outs)))"
      "fst ` set (map fac_key (concat (map ft_activities outs))) \<subseteq> tx_version ` set txns"
    using Cons.IH Cons.prems by simp_all
  have "set (map fac_key (ft_activities out)) \<inter> set (map fac_key (concat (map ft_activities outs))) = {}"
  proof (rule ccontr)
    assume "\<not> ?thesis"
    then obtain k where "k \<in> set (map fac_key (ft_activities out))"
      "k \<in> set (map fac_key (concat (map ft_activities outs)))" by blast
    then have "fst k \<in> {tx_version txn}" "fst k \<in> tx_version ` set txns" using one(2) rest(2) by blast+
    with Cons.prems(1) show False by auto
  qed
  moreover have "fst ` set (map fac_key (concat (map ft_activities (out # outs)))) \<subseteq> tx_version ` set (txn # txns)"
  proof -
    have "set (map fac_key (concat (map ft_activities (out # outs)))) =
        set (map fac_key (ft_activities out)) \<union> set (map fac_key (concat (map ft_activities outs)))"
      by (simp add: image_Un)
    with one(2) rest(2) show ?thesis by (simp only: image_Un list.set image_insert) blast
  qed
  ultimately show ?case using one(1) rest(1) by simp
qed simp

lemma extract_activity_keys:
  assumes "fa_extract ext sdk mapping txns = Inr (mapping', data)"
    and "distinct (map tx_version txns)" and "\<forall>txn \<in> set txns. activity_indices_fit txn"
  shows "distinct (map fac_key (fd_activities data))"
proof -
  from assms(1) have "parse_v2_coin ext sdk txns (Some (map_of mapping')) = Inr data"
    by (auto elim!: and_then_InrE simp: fa_extract_def Let_def)
  then show ?thesis
    by (rule parse_v2_coin_cases)
      (use batch_activity_keys [OF _ assms(2,3)] in \<open>simp add: map_result_Inr_iff\<close>)
qed

text \<open>
  Claim C35: The activities of a batch have distinct keys (version, event index): an event yields at most
  one activity, of the coin or of the fungible asset standard, and the artificial gas event takes
  the index \<open>-1\<close>, which no event of a transaction with fewer than \<open>2 ^ 64 - 1\<close> events has.
\<close>

theorem activity_keys_distinct:
  assumes "fa_extract ext sdk mapping txns = Inr (mapping', data)"
    and "distinct (map tx_version txns)" and "\<forall>txn \<in> set txns. activity_indices_fit txn"
  shows "distinct (map fac_key (fd_activities data))"
  by (rule extract_activity_keys [OF assms])

section \<open>Coin balances and primary stores\<close>

text \<open>
  Claim C34: A coin balance and the balance of the owner's primary store of the paired fungible asset are
  filed under the same storage id, so they meet in one row of the current balances.
\<close>

theorem coin_and_primary_store_share_row:
  assumes "fa_extract ext sdk mapping txns = Inr (mapping', data)"
    and "c \<in> set (fd_balances data)" and "fab_token_standard c = ''v1''"
    and "f \<in> set (fd_balances data)" and "fab_token_standard f = ''v2''" and "fab_is_primary f"
    and "fab_owner_address f = fab_owner_address c"
    and "fab_asset_type f = get_paired_metadata_address ext sdk (fab_asset_type c)"
  shows "fab_storage_id f = fab_storage_id c"
proof -
  from assms(1) have "parse_v2_coin ext sdk txns (Some (map_of mapping')) = Inr data"
    by (auto elim!: and_then_InrE simp: fa_extract_def Let_def)
  then obtain outs where "list_all2 (\<lambda>txn out. parse_fa_txn ext sdk txn = Inr out) txns outs"
      "fd_balances data = concat (map ft_balances outs)"
    by (rule parse_v2_coin_cases) (simp add: map_result_Inr_iff)
  then have ok: "balance_ok ext sdk b" if "b \<in> set (fd_balances data)" for b
    using that parse_fa_txn_balances by (auto simp: list_all2_conv_all_nth) (metis in_set_conv_nth)
  show ?thesis using ok [OF assms(2)] ok [OF assms(4)] assms
    by (simp add: balance_ok_def coin_storage_id_def)
qed

section \<open>Current balances are the latest balances\<close>

definition of_standard :: "token_standard \<Rightarrow> fa_balance list \<Rightarrow> fa_balance list" where
  "of_standard standard = filter (\<lambda>b. token_standard_from_str (fab_token_standard b) = Some standard)"

definition unified_latest ::
  "(string \<rightharpoonup> string) option \<Rightarrow> token_standard \<Rightarrow> fa_balance list \<Rightarrow> (string \<times> unified_balance) list \<Rightarrow> bool" where
  "unified_latest mapping standard fabs m \<longleftrightarrow>
     holds_latest fab_storage_id (\<lambda>b. unified_row standard b mapping) (of_standard standard fabs) m"

lemma cub_storage_id_unified_row [simp]: "cub_storage_id (unified_row standard b mapping) = fab_storage_id b"
  by (simp add: unified_row_def Let_def)

lemma push_unified_latest:
  assumes "push_unified mapping b maps = Inr maps'"
    and "unified_latest mapping V1 fabs (fst maps)" and "unified_latest mapping V2 fabs (snd maps)"
  shows "unified_latest mapping V1 (fabs @ [b]) (fst maps') \<and> unified_latest mapping V2 (fabs @ [b]) (snd maps')"
proof (cases "token_standard_from_str (fab_token_standard b)")
  case None
  with assms(1) show ?thesis by (simp add: push_unified_def from_balance_def)
next
  case (Some standard)
  note snoc = holds_latest_snoc [of fab_storage_id "\<lambda>b. unified_row standard b mapping" "of_standard standard fabs" _ b]
  show ?thesis
  proof (cases standard)
    case V1
    with Some assms(1) have "maps' = (AList.update (fab_storage_id b) (unified_row V1 b mapping) (fst maps), snd maps)"
      by (simp add: push_unified_def from_balance_def)
    with assms(2,3) Some V1 snoc [of "fst maps"] show ?thesis by (simp add: unified_latest_def of_standard_def)
  next
    case V2
    with Some assms(1) have "maps' = (fst maps, AList.update (fab_storage_id b) (unified_row V2 b mapping) (snd maps))"
      by (simp add: push_unified_def from_balance_def)
    with assms(2,3) Some V2 snoc [of "snd maps"] show ?thesis by (simp add: unified_latest_def of_standard_def)
  qed
qed

lemma fold_push_unified_latest:
  "fold_result (push_unified mapping) bs maps = Inr maps' \<Longrightarrow>
   unified_latest mapping V1 fabs (fst maps) \<Longrightarrow> unified_latest mapping V2 fabs (snd maps) \<Longrightarrow>
   unified_latest mapping V1 (fabs @ bs) (fst maps') \<and> unified_latest mapping V2 (fabs @ bs) (snd maps')"
proof (induction bs arbitrary: fabs maps)
  case (Cons b bs)
  then obtain maps1 where m: "push_unified mapping b maps = Inr maps1"
      "fold_result (push_unified mapping) bs maps1 = Inr maps'" by (auto split: sum.splits)
  from push_unified_latest [OF m(1) Cons.prems(2,3)] Cons.IH [OF m(2), of "fabs @ [b]"] show ?case by simp
qed simp

lemma unified_balances_latest:
  assumes "from_fungible_asset_balances fabs mapping = Inr (current_v1, current_v2)"
  shows "unified_latest mapping V1 fabs current_v1 \<and> unified_latest mapping V2 fabs current_v2"
  using fold_push_unified_latest [OF assms [unfolded from_fungible_asset_balances_def], of "[]"]
  by (simp add: unified_latest_def of_standard_def)

definition latest_unified :: "(string \<times> string) list \<Rightarrow> token_standard \<Rightarrow> fa_balance list \<Rightarrow> string \<Rightarrow> unified_balance option" where
  "latest_unified mapping standard fabs =
     latest fab_storage_id (\<lambda>b. unified_row standard b (Some (map_of mapping))) (of_standard standard fabs)"

lemma unified_latest_values:
  assumes "unified_latest (Some (map_of mapping)) standard fabs m"
  shows "sorted (map cub_storage_id (sort_key cub_storage_id (map snd m))) \<and>
    distinct (map cub_storage_id (sort_key cub_storage_id (map snd m))) \<and>
    set (sort_key cub_storage_id (map snd m)) =
      {u. latest_unified mapping standard fabs (cub_storage_id u) = Some u}"
  using sorted_latest_values [OF assms [unfolded unified_latest_def], of cub_storage_id]
  by (simp add: latest_unified_def)

lemma extract_current_balances:
  assumes "fa_extract ext sdk mapping txns = Inr (mapping', data)"
  shows "sorted (map cub_storage_id (fd_current_v1 data)) \<and> distinct (map cub_storage_id (fd_current_v1 data)) \<and>
      set (fd_current_v1 data) = {u. latest_unified mapping' V1 (fd_balances data) (cub_storage_id u) = Some u}"
    and "sorted (map cub_storage_id (fd_current_v2 data)) \<and> distinct (map cub_storage_id (fd_current_v2 data)) \<and>
      set (fd_current_v2 data) = {u. latest_unified mapping' V2 (fd_balances data) (cub_storage_id u) = Some u}"
proof -
  from assms have "parse_v2_coin ext sdk txns (Some (map_of mapping')) = Inr data"
    by (auto elim!: and_then_InrE simp: fa_extract_def Let_def)
  then obtain c1 c2 where c: "from_fungible_asset_balances (fd_balances data) (Some (map_of mapping')) = Inr (c1, c2)"
      "fd_current_v1 data = sort_key cub_storage_id (map snd c1)"
      "fd_current_v2 data = sort_key cub_storage_id (map snd c2)"
    by (rule parse_v2_coin_cases)
  show "sorted (map cub_storage_id (fd_current_v1 data)) \<and> distinct (map cub_storage_id (fd_current_v1 data)) \<and>
      set (fd_current_v1 data) = {u. latest_unified mapping' V1 (fd_balances data) (cub_storage_id u) = Some u}"
    unfolding c(2) using unified_balances_latest [OF c(1)] by (intro unified_latest_values) simp
  show "sorted (map cub_storage_id (fd_current_v2 data)) \<and> distinct (map cub_storage_id (fd_current_v2 data)) \<and>
      set (fd_current_v2 data) = {u. latest_unified mapping' V2 (fd_balances data) (cub_storage_id u) = Some u}"
    unfolding c(3) using unified_balances_latest [OF c(1)] by (intro unified_latest_values) simp
qed

text \<open>
  Claim C29: The current coin balances of a batch are, per storage id, the last coin balance row of the
  batch, sorted by storage id and without duplicates; the current fungible asset balances
  likewise, with the coin type the mapping knows for the asset.
\<close>

theorem current_balances_are_latest:
  assumes "fa_extract ext sdk mapping txns = Inr (mapping', data)"
  shows "sorted (map cub_storage_id (fd_current_v1 data)) \<and> distinct (map cub_storage_id (fd_current_v1 data)) \<and>
    set (fd_current_v1 data) = {u. latest_unified mapping' V1 (fd_balances data) (cub_storage_id u) = Some u} \<and>
    sorted (map cub_storage_id (fd_current_v2 data)) \<and> distinct (map cub_storage_id (fd_current_v2 data)) \<and>
    set (fd_current_v2 data) = {u. latest_unified mapping' V2 (fd_balances data) (cub_storage_id u) = Some u}"
  using extract_current_balances [OF assms] by simp

section \<open>A sample batch\<close>

definition sample_guid :: "string \<Rightarrow> json" where
  "sample_guid n =
     JObject [(''guid'', JObject [(''id'', JObject [(''addr'', JString ''0x0a''), (''creation_num'', JString n)])])]"

definition sample_fa_world :: extern where
  "sample_fa_world = sample_world\<lparr>standardize_address := (\<lambda>a. if a = ''0x1'' then coin_addr else a), json_from_str := map_of
     [(''core'', JObject [(''allow_ungated_transfer'', JBool True),
        (''guid_creation_num'', JString ''7''), (''owner'', JString ''0x0a'')]),
      (''fee'', JObject [(''storage_fee_refund_octas'', JString ''77'')]),
      (''coinstore'', JObject [(''coin'', JObject [(''value'', JString ''50'')]),
        (''deposit_events'', sample_guid ''2''), (''withdraw_events'', sample_guid ''3''),
        (''frozen'', JBool False)]),
      (''coininfo'', JObject [(''name'', JString ''Coin''), (''symbol'', JString ''C''),
        (''decimals'', JNumber ''8''), (''supply'', JObject [(''vec'', JArray [])])]),
      (''store'', JObject [(''metadata'', JObject [(''inner'', JString ''0x0a'')]),
        (''balance'', JString ''9''), (''frozen'', JBool True)]),
      (''deposit'', JObject [(''amount'', JString ''50'')])]\<rparr>"

definition sample_coin_write :: "string \<Rightarrow> string \<Rightarrow> string \<Rightarrow> change" where
  "sample_coin_write name coin_type data = WriteResource
     \<lparr>wr_address = ''0x0a'', wr_type = Some \<lparr>st_address = ''0x1'', st_module = ''coin'', st_name = name,
        st_generic_type_params = [\<lparr>mt_content = Some (ContentStruct ''0x1''), mt_value = None\<rparr>]\<rparr>,
      wr_type_str = ''0x1::coin::'' @ name @ ''<'' @ coin_type @ ''>'', wr_data = data, wr_state_key_hash = [1]\<rparr>"

definition sample_store_write :: "string \<Rightarrow> change" where
  "sample_store_write address = WriteResource
     \<lparr>wr_address = address,
      wr_type = Some \<lparr>st_address = ''0x1'', st_module = ''fungible_asset'', st_name = ''FungibleStore'',
        st_generic_type_params = []\<rparr>,
      wr_type_str = ''0x1::fungible_asset::FungibleStore'', wr_data = ''store'', wr_state_key_hash = [1]\<rparr>"

definition sample_primary_store :: string where
  "sample_primary_store = ''0a0afc''"

definition sample_deposit :: event where
  "sample_deposit = \<lparr>ev_key = Some \<lparr>ek_creation_number = 2, ek_account_address = ''0x0a''\<rparr>,
     ev_sequence_number = 0, ev_type_str = ''0x1::coin::DepositEvent'', ev_data = ''deposit''\<rparr>"

definition sample_fa_txn :: transaction where
  "sample_fa_txn = (sample_user_txn 5
     [sample_coin_write ''CoinStore'' ''0x1::aptos_coin::AptosCoin'' ''coinstore'',
      sample_write sample_primary_store ''ObjectCore'' ''core'', sample_store_write sample_primary_store])
     \<lparr>tx_data := Some (TxnUser \<lparr>ut_events = [sample_deposit],
        ut_request = Some (sample_request\<lparr>ur_sender := ''0x0a''\<rparr>)\<rparr>)\<rparr>"

definition sample_fa_run :: "((string \<times> string) list \<times> fa_data) result" where
  "sample_fa_run = fa_extract sample_fa_world sample_sdk [] [sample_fa_txn]"

definition balance_view :: "fa_balance \<Rightarrow> string \<times> bool \<times> string \<times> string \<times> string" where
  "balance_view b =
     (fab_token_standard b, fab_is_primary b, fab_owner_address b, fab_asset_type b, fab_storage_id b)"

lemma sample_fa_runs:
  obtains mapping data where "fa_extract sample_fa_world sample_sdk [] [sample_fa_txn] = Inr (mapping, data)"
    "map fac_key (fd_activities data) = [(5, -1), (5, 0)]"
    "map balance_view (fd_balances data) =
       [(''v1'', True, ''0x0a'', ''0x1::aptos_coin::AptosCoin'', sample_primary_store),
        (''v2'', True, ''0x0a'', ''0x0a'', sample_primary_store)]"
    "map cub_amount_v1 (fd_current_v1 data) = [Some 50]"
    "map cub_amount_v2 (fd_current_v2 data) = [Some 9]"
    "map (\<lambda>u. (cub_storage_id u, cub_is_frozen u)) (fd_current_v1 data) = [(sample_primary_store, False)]"
    "map (\<lambda>u. (cub_storage_id u, cub_is_frozen u)) (fd_current_v2 data) = [(sample_primary_store, True)]"
    "fd_mappings data = []"
proof -
  have "(case sample_fa_run of
      Inl _ \<Rightarrow> False
    | Inr (mapping, data) \<Rightarrow>
        map fac_key (fd_activities data) = [(5, -1), (5, 0)] \<and>
        map balance_view (fd_balances data) =
          [(''v1'', True, ''0x0a'', ''0x1::aptos_coin::AptosCoin'', sample_primary_store),
           (''v2'', True, ''0x0a'', ''0x0a'', sample_primary_store)] \<and>
        map cub_amount_v1 (fd_current_v1 data) = [Some 50] \<and>
        map cub_amount_v2 (fd_current_v2 data) = [Some 9] \<and>
        map (\<lambda>u. (cub_storage_id u, cub_is_frozen u)) (fd_current_v1 data) = [(sample_primary_store, False)] \<and>
        map (\<lambda>u. (cub_storage_id u, cub_is_frozen u)) (fd_current_v2 data) = [(sample_primary_store, True)] \<and>
        fd_mappings data = [])"
    by code_simp
  then show ?thesis by (cases sample_fa_run) (auto simp: sample_fa_run_def intro: that)
qed

lemma sample_fa_txn_facts:
  "distinct (map tx_version [sample_fa_txn])" "\<forall>txn \<in> set [sample_fa_txn]. activity_indices_fit txn"
  by (simp_all add: activity_indices_fit_def sample_fa_txn_def sample_user_txn_def txn_events_def)

theorem activity_keys_distinct_witness:
  "\<exists>mapping data. fa_extract sample_fa_world sample_sdk [] [sample_fa_txn] = Inr (mapping, data) \<and>
     length (fd_activities data) = 2 \<and> distinct (map fac_key (fd_activities data))"
proof -
  obtain mapping data where run: "fa_extract sample_fa_world sample_sdk [] [sample_fa_txn] = Inr (mapping, data)"
    and keys: "map fac_key (fd_activities data) = [(5, -1), (5, 0)]" by (rule sample_fa_runs)
  have "length (fd_activities data) = 2" using arg_cong [OF keys, of length] by simp
  with activity_keys_distinct [OF run sample_fa_txn_facts] run show ?thesis by blast
qed

theorem coin_and_primary_store_share_row_witness:
  "\<exists>mapping data c f. fa_extract sample_fa_world sample_sdk [] [sample_fa_txn] = Inr (mapping, data) \<and>
     fd_balances data = [c, f] \<and> fab_asset_type c = ''0x1::aptos_coin::AptosCoin'' \<and>
     fab_token_standard f = ''v2'' \<and> fab_storage_id f = fab_storage_id c"
proof -
  obtain mapping data where run: "fa_extract sample_fa_world sample_sdk [] [sample_fa_txn] = Inr (mapping, data)"
    and view: "map balance_view (fd_balances data) =
       [(''v1'', True, ''0x0a'', ''0x1::aptos_coin::AptosCoin'', sample_primary_store),
        (''v2'', True, ''0x0a'', ''0x0a'', sample_primary_store)]" by (rule sample_fa_runs)
  from view obtain c f where b: "fd_balances data = [c, f]"
      "balance_view c = (''v1'', True, ''0x0a'', ''0x1::aptos_coin::AptosCoin'', sample_primary_store)"
      "balance_view f = (''v2'', True, ''0x0a'', ''0x0a'', sample_primary_store)"
    by (auto simp: map_eq_Cons_conv)
  have paired: "get_paired_metadata_address sample_fa_world sample_sdk ''0x1::aptos_coin::AptosCoin'' = ''0x0a''"
    by (simp add: get_paired_metadata_address_def sample_sdk_def)
  have "fab_storage_id f = fab_storage_id c"
    by (rule coin_and_primary_store_share_row [OF run])
      (use b paired in \<open>simp_all add: balance_view_def\<close>)
  with run b show ?thesis by (auto simp: balance_view_def)
qed

theorem current_balances_are_latest_witness:
  "\<exists>mapping data. fa_extract sample_fa_world sample_sdk [] [sample_fa_txn] = Inr (mapping, data) \<and>
     map cub_amount_v1 (fd_current_v1 data) = [Some 50] \<and>
     set (fd_current_v1 data) = {u. latest_unified mapping V1 (fd_balances data) (cub_storage_id u) = Some u}"
proof -
  obtain mapping data where run: "fa_extract sample_fa_world sample_sdk [] [sample_fa_txn] = Inr (mapping, data)"
    and amounts: "map cub_amount_v1 (fd_current_v1 data) = [Some 50]" by (rule sample_fa_runs)
  have "set (fd_current_v1 data) = {u. latest_unified mapping V1 (fd_balances data) (cub_storage_id u) = Some u}"
    using current_balances_are_latest [OF run] by (elim conjE)
  then show ?thesis by (intro exI conjI) (rule run amounts, assumption?)+
qed

end
