(* ===== verification/FungibleAssetStorer.thy ===== *)
theory FungibleAssetStorer
  imports FungibleAsset
begin

text \<open>
  The storer of the fungible asset processor: \<open>fungible_asset_storer.rs\<close>.  Five insertions run
  concurrently, two of them on one table: coin balances and fungible asset balances are columns
  of the rows of \<open>current_fungible_asset_balances\<close>.  In which order the database takes their
  statements is a parameter, the schedule.

  The locale \<open>column_group\<close> is the contract behind that design: a group of columns that only one
  kind of statement writes.  Its value after any sequence of statements is a function of the
  statements of that kind alone, so it does not depend on the schedule.
\<close>

section \<open>Groups of columns\<close>

definition columns_at :: "('r \<Rightarrow> 'k) \<Rightarrow> ('r \<Rightarrow> 'p) \<Rightarrow> 'p \<Rightarrow> 'k \<Rightarrow> 'r list \<Rightarrow> 'p" where
  "columns_at key cols absent k rows = (case find_row key k rows of None \<Rightarrow> absent | Some r \<Rightarrow> cols r)"

definition statement_rows :: "('s \<times> 'r list) list \<Rightarrow> ('s \<times> 'r) list" where
  "statement_rows stmts = concat (map (\<lambda>(s, c). map (Pair s) c) stmts)"

lemma statement_rows_simps [simp]:
  "statement_rows [] = []" "statement_rows ((s, c) # stmts) = map (Pair s) c @ statement_rows stmts"
  by (simp_all add: statement_rows_def)

locale column_group =
  fixes key :: "'r \<Rightarrow> 'k" and merge :: "'s \<Rightarrow> 'r \<Rightarrow> 'r \<Rightarrow> 'r" and wf :: "'s \<Rightarrow> 'r \<Rightarrow> bool"
    and mine :: "'s \<Rightarrow> bool" and cols :: "'r \<Rightarrow> 'p" and absent :: 'p and step :: "'r \<Rightarrow> 'p \<Rightarrow> 'p"
  assumes merge_key: "key n = key old \<Longrightarrow> key (merge s old n) = key old"
    and own: "mine s \<Longrightarrow> wf s n \<Longrightarrow> cols (merge s old n) = step n (cols old)"
    and own_new: "mine s \<Longrightarrow> wf s n \<Longrightarrow> cols n = step n absent"
    and other: "\<not> mine s \<Longrightarrow> wf s n \<Longrightarrow> cols (merge s old n) = cols old"
    and other_new: "\<not> mine s \<Longrightarrow> wf s n \<Longrightarrow> cols n = absent"
begin

lemma find_merge:
  "find_row key k (upsert key (merge s) n rows) =
     (if k = key n then Some (case find_row key k rows of None \<Rightarrow> n | Some old \<Rightarrow> merge s old n)
      else find_row key k rows)"
  by (induction rows) (auto simp: find_row_Cons merge_key)

lemma cols_upsert:
  "wf s n \<Longrightarrow> columns_at key cols absent k (upsert key (merge s) n rows) =
     (if mine s \<and> key n = k then step n (columns_at key cols absent k rows) else columns_at key cols absent k rows)"
  by (auto simp: columns_at_def find_merge own own_new other other_new split: option.splits)

lemma cols_fold:
  "(\<forall>(s, n) \<in> set sns. wf s n) \<Longrightarrow>
     columns_at key cols absent k (fold (\<lambda>(s, n). upsert key (merge s) n) sns rows) =
       fold step (map snd (filter (\<lambda>(s, n). mine s \<and> key n = k) sns)) (columns_at key cols absent k rows)"
proof (induction sns arbitrary: rows)
  case (Cons sn sns)
  obtain s n where "sn = (s, n)" by (cases sn)
  with Cons show ?case by (simp add: cols_upsert)
qed simp

lemma run_statements:
  "(\<forall>(s, c) \<in> set stmts. distinct (map key c)) \<Longrightarrow>
     run_chunks (\<lambda>(s, c). insert_do_update key (merge s) c) stmts rows =
       (fold (\<lambda>(s, n). upsert key (merge s) n) (statement_rows stmts) rows, None)"
proof (induction stmts arbitrary: rows)
  case (Cons sc stmts)
  obtain s c where sc: "sc = (s, c)" by (cases sc)
  have "fold (\<lambda>(s, n). upsert key (merge s) n) (map (Pair s) c) rows = fold (upsert key (merge s)) c rows" for rows
    by (induction c arbitrary: rows) auto
  with Cons show ?case by (simp add: sc insert_do_update_def)
qed simp

end

section \<open>Statements\<close>

definition merge_activity :: "fa_activity \<Rightarrow> fa_activity \<Rightarrow> fa_activity" where
  "merge_activity old n = old\<lparr>fac_storage_id := fac_storage_id n\<rparr>"

definition take_fa_metadata :: "fa_metadata_model \<Rightarrow> fa_metadata_model \<Rightarrow> fa_metadata_model" where
  "take_fa_metadata old n =
     old\<lparr>fam_creator_address := fam_creator_address n, fam_name := fam_name n, fam_symbol := fam_symbol n,
         fam_decimals := fam_decimals n, fam_icon_uri := fam_icon_uri n,
         fam_project_uri := fam_project_uri n,
         fam_last_transaction_version := fam_last_transaction_version n,
         fam_last_transaction_timestamp := fam_last_transaction_timestamp n,
         fam_supply_aggregator_table_handle_v1 := fam_supply_aggregator_table_handle_v1 n,
         fam_supply_aggregator_table_key_v1 := fam_supply_aggregator_table_key_v1 n,
         fam_token_standard := fam_token_standard n, fam_is_token_v2 := fam_is_token_v2 n,
         fam_supply_v2 := fam_supply_v2 n, fam_maximum_v2 := fam_maximum_v2 n\<rparr>"

definition merge_fa_metadata :: "fa_metadata_model \<Rightarrow> fa_metadata_model \<Rightarrow> fa_metadata_model" where
  "merge_fa_metadata old n =
     (if sint (fam_last_transaction_version old) \<le> sint (fam_last_transaction_version n)
      then take_fa_metadata old n else old)"

definition null_or_le :: "i64 option \<Rightarrow> i64 option \<Rightarrow> bool" where
  "null_or_le old n =
     (case (old, n) of (None, _) \<Rightarrow> True | (Some v, Some w) \<Rightarrow> sint v \<le> sint w | (Some v, None) \<Rightarrow> False)"

text \<open>
  \<open>null_or_le\<close> is \<open>old IS NULL OR old <= EXCLUDED.new\<close>; a comparison with \<open>NULL\<close> is not true.
\<close>

definition merge_balance_v1 :: "unified_balance \<Rightarrow> unified_balance \<Rightarrow> unified_balance" where
  "merge_balance_v1 old n =
     (if null_or_le (cub_last_transaction_version_v1 old) (cub_last_transaction_version_v1 n)
      then old\<lparr>cub_owner_address := cub_owner_address n, cub_asset_type_v1 := cub_asset_type_v1 n,
        cub_is_frozen := cub_is_frozen n, cub_amount_v1 := cub_amount_v1 n,
        cub_last_transaction_timestamp_v1 := cub_last_transaction_timestamp_v1 n,
        cub_last_transaction_version_v1 := cub_last_transaction_version_v1 n\<rparr>
      else old)"

definition merge_balance_v2 :: "unified_balance \<Rightarrow> unified_balance \<Rightarrow> unified_balance" where
  "merge_balance_v2 old n =
     (if null_or_le (cub_last_transaction_version_v2 old) (cub_last_transaction_version_v2 n)
      then old\<lparr>cub_owner_address := cub_owner_address n,
        cub_asset_type_v1 := opt_or (cub_asset_type_v1 n) (cub_asset_type_v1 old),
        cub_asset_type_v2 := cub_asset_type_v2 n, cub_is_primary := cub_is_primary n,
        cub_is_frozen := cub_is_frozen n, cub_amount_v2 := cub_amount_v2 n,
        cub_last_transaction_timestamp_v2 := cub_last_transaction_timestamp_v2 n,
        cub_last_transaction_version_v2 := cub_last_transaction_version_v2 n\<rparr>
      else old)"

definition merge_balance :: "token_standard \<Rightarrow> unified_balance \<Rightarrow> unified_balance \<Rightarrow> unified_balance" where
  "merge_balance standard = (case standard of V1 \<Rightarrow> merge_balance_v1 | V2 \<Rightarrow> merge_balance_v2)"

definition take_fa_mapping :: "fa_to_coin_mapping \<Rightarrow> fa_to_coin_mapping \<Rightarrow> fa_to_coin_mapping" where
  "take_fa_mapping old n =
     old\<lparr>ftc_coin_type := ftc_coin_type n, ftc_last_transaction_version := ftc_last_transaction_version n\<rparr>"

definition merge_fa_mapping :: "fa_to_coin_mapping \<Rightarrow> fa_to_coin_mapping \<Rightarrow> fa_to_coin_mapping" where
  "merge_fa_mapping old n =
     (if sint (ftc_last_transaction_version old) \<le> sint (ftc_last_transaction_version n)
      then take_fa_mapping old n else old)"

fun interleave :: "bool list \<Rightarrow> 'a list \<Rightarrow> 'a list \<Rightarrow> 'a list" where
  "interleave sched [] ys = ys"
| "interleave sched xs [] = xs"
| "interleave [] xs ys = xs @ ys"
| "interleave (b # sched) (x # xs) (y # ys) =
     (if b then x # interleave sched xs (y # ys) else y # interleave sched (x # xs) ys)"

record fa_db =
  fdb_activities :: "fa_activity list"
  fdb_metadata :: "fa_metadata_model list"
  fdb_balances :: "unified_balance list"
  fdb_mappings :: "fa_to_coin_mapping list"

record fa_chunks =
  fck_activities :: "fa_activity list \<Rightarrow> fa_activity list list"
  fck_metadata :: "fa_metadata_model list \<Rightarrow> fa_metadata_model list list"
  fck_balances :: "unified_balance list \<Rightarrow> unified_balance list list"
  fck_mappings :: "fa_to_coin_mapping list \<Rightarrow> fa_to_coin_mapping list list"

definition current_balances :: "u128 \<Rightarrow> unified_balance list \<Rightarrow> unified_balance list" where
  "current_balances flags = filter_data flags (table_flag ''CURRENT_FUNGIBLE_ASSET_BALANCES'')"

definition balance_statements ::
  "fa_chunks \<Rightarrow> bool list \<Rightarrow> u128 \<Rightarrow> fa_data \<Rightarrow> (token_standard \<times> unified_balance list) list" where
  "balance_statements ck sched flags data =
     interleave sched (map (Pair V1) (fck_balances ck (current_balances flags (fd_current_v1 data))))
       (map (Pair V2) (fck_balances ck (current_balances flags (fd_current_v2 data))))"

definition fa_store :: "fa_chunks \<Rightarrow> bool list \<Rightarrow> u128 \<Rightarrow> fa_data \<Rightarrow> fa_db \<Rightarrow> fa_db \<times> error option" where
  "fa_store ck sched flags data db =
     (let (activities, r1) = run_chunks (insert_do_update fac_key merge_activity)
            (fck_activities ck (filter_data flags (table_flag ''FUNGIBLE_ASSET_ACTIVITIES'') (fd_activities data)))
            (fdb_activities db);
          (metadata, r2) = run_chunks (insert_do_update fam_asset_type merge_fa_metadata)
            (fck_metadata ck (filter_data flags (table_flag ''FUNGIBLE_ASSET_METADATA'') (fd_metadata data)))
            (fdb_metadata db);
          (balances, r3) = run_chunks (\<lambda>(standard, c). insert_do_update cub_storage_id (merge_balance standard) c)
            (balance_statements ck sched flags data) (fdb_balances db);
          (mappings, r4) = run_chunks (insert_do_update ftc_fungible_asset_metadata_address merge_fa_mapping)
            (fck_mappings ck (filter_data flags (table_flag ''FUNGIBLE_ASSET_TO_COIN_MAPPINGS'') (fd_mappings data)))
            (fdb_mappings db)
      in (\<lparr>fdb_activities = activities, fdb_metadata = metadata, fdb_balances = balances,
           fdb_mappings = mappings\<rparr>, find_map id [r1, r2, r3, r4]))"

text \<open>
  Balance history rows and coin supplies are extracted but not stored by this processor.  The
  model reports one error for the two balance insertions.
\<close>

interpretation activity_table: idempotent_upsert fac_key merge_activity
  by unfold_locales (simp_all add: merge_activity_def fac_key_def)

interpretation fa_metadata_table:
  versioned_table fam_asset_type "\<lambda>m. sint (fam_last_transaction_version m)" take_fa_metadata merge_fa_metadata
  by unfold_locales (simp_all add: merge_fa_metadata_def take_fa_metadata_def)

interpretation fa_mapping_table:
  versioned_table ftc_fungible_asset_metadata_address "\<lambda>m. sint (ftc_last_transaction_version m)"
    take_fa_mapping merge_fa_mapping
  by unfold_locales (simp_all add: merge_fa_mapping_def take_fa_mapping_def)

section \<open>Columns of the balances\<close>

definition v1_columns :: "unified_balance \<Rightarrow> decimal option \<times> i64 option \<times> datetime option" where
  "v1_columns u = (cub_amount_v1 u, cub_last_transaction_version_v1 u, cub_last_transaction_timestamp_v1 u)"

definition v2_columns :: "unified_balance \<Rightarrow> string option \<times> decimal option \<times> i64 option \<times> datetime option" where
  "v2_columns u = (cub_asset_type_v2 u, cub_amount_v2 u, cub_last_transaction_version_v2 u,
     cub_last_transaction_timestamp_v2 u)"

definition v1_newer :: "unified_balance \<Rightarrow> decimal option \<times> i64 option \<times> datetime option \<Rightarrow>
    decimal option \<times> i64 option \<times> datetime option" where
  "v1_newer n old = (if null_or_le (fst (snd old)) (cub_last_transaction_version_v1 n) then v1_columns n else old)"

definition v2_newer :: "unified_balance \<Rightarrow> string option \<times> decimal option \<times> i64 option \<times> datetime option \<Rightarrow>
    string option \<times> decimal option \<times> i64 option \<times> datetime option" where
  "v2_newer n old =
     (if null_or_le (fst (snd (snd old))) (cub_last_transaction_version_v2 n) then v2_columns n else old)"

definition standard_row :: "token_standard \<Rightarrow> unified_balance \<Rightarrow> bool" where
  "standard_row standard u \<longleftrightarrow>
     (case standard of V1 \<Rightarrow> v2_columns u = (None, None, None, None) | V2 \<Rightarrow> v1_columns u = (None, None, None))"

interpretation v1_group: column_group cub_storage_id merge_balance standard_row "\<lambda>s. s = V1"
    v1_columns "(None, None, None)" v1_newer
  by unfold_locales
    (auto simp: merge_balance_def merge_balance_v1_def merge_balance_v2_def v1_columns_def v1_newer_def
      standard_row_def null_or_le_def split: token_standard.splits)

interpretation v2_group: column_group cub_storage_id merge_balance standard_row "\<lambda>s. s = V2"
    v2_columns "(None, None, None, None)" v2_newer
  by unfold_locales
    (auto simp: merge_balance_def merge_balance_v1_def merge_balance_v2_def v2_columns_def v2_newer_def
      standard_row_def null_or_le_def split: token_standard.splits)

lemma interleave_Nil2 [simp]: "interleave sched xs [] = xs"
  by (cases xs) simp_all

lemma set_interleave: "set (interleave sched xs ys) = set xs \<union> set ys"
  by (induction sched xs ys rule: interleave.induct) auto

lemma statement_rows_append: "statement_rows (xs @ ys) = statement_rows xs @ statement_rows ys"
  by (simp add: statement_rows_def)

definition rows_of_kind :: "'s \<Rightarrow> ('r \<Rightarrow> bool) \<Rightarrow> ('s \<times> 'r) list \<Rightarrow> 'r list" where
  "rows_of_kind t P sns = map snd (filter (\<lambda>(s, n). s = t \<and> P n) sns)"

lemma rows_of_kind_append [simp]: "rows_of_kind t P (xs @ ys) = rows_of_kind t P xs @ rows_of_kind t P ys"
  by (simp add: rows_of_kind_def)

lemma rows_of_kind_Pair: "rows_of_kind t P (map (Pair s) c) = (if s = t then filter P c else [])"
  by (induction c) (auto simp: rows_of_kind_def)

lemma rows_of_kind_statements:
  "rows_of_kind t P (statement_rows (map (Pair s) cs)) = (if s = t then filter P (concat cs) else [])"
  by (induction cs) (auto simp: rows_of_kind_Pair, simp_all add: rows_of_kind_def)

lemma rows_of_kind_interleave:
  assumes "s \<noteq> t"
  shows "rows_of_kind t P (statement_rows (interleave sched (map (Pair s) cs) (map (Pair t) ds))) = filter P (concat ds) \<and>
    rows_of_kind s P (statement_rows (interleave sched (map (Pair s) cs) (map (Pair t) ds))) = filter P (concat cs)"
proof (induction sched cs ds rule: interleave.induct)
  case (4 b sched c cs d ds)
  then show ?case using assms by (cases b) (auto simp: rows_of_kind_Pair)
qed (use assms in \<open>auto simp: statement_rows_append rows_of_kind_statements rows_of_kind_Pair\<close>)

section \<open>The maps of a batch carry their keys\<close>

definition fa_maps_ok :: "extern \<Rightarrow> sdk \<Rightarrow> fa_txn \<Rightarrow> bool" where
  "fa_maps_ok ext sdk st \<longleftrightarrow>
     keyed_by fam_asset_type (ft_metadata st) \<and> keyed_by ftc_coin_type (ft_mappings st) \<and>
     (\<forall>k m. (k, m) \<in> set (ft_mappings st) \<longrightarrow>
        ftc_fungible_asset_metadata_address m = get_paired_metadata_address ext sdk (ftc_coin_type m))"

lemma fa_output_write_maps_ok:
  "fa_output_write ext sdk version ts index wr st = Inr st' \<Longrightarrow> fa_maps_ok ext sdk st \<Longrightarrow> fa_maps_ok ext sdk st'"
  by (auto elim!: and_then_InrE simp: fa_output_write_def Let_def fa_maps_ok_def
      from_raw_fungible_asset_metadata_def intro!: keyed_by_update dest!: mem_update split: option.splits)

lemma fa_output_change_maps_ok:
  "fa_output_change ext sdk version ts epoch iwsc st = Inr st' \<Longrightarrow> fa_maps_ok ext sdk st \<Longrightarrow> fa_maps_ok ext sdk st'"
  by (auto elim!: and_then_InrE simp: fa_output_change_def fa_output_write_maps_ok split: change.splits)
    (simp_all add: fa_maps_ok_def)

lemma parse_fa_txn_maps_ok:
  assumes "parse_fa_txn ext sdk txn = Inr out"
  shows "fa_maps_ok ext sdk out"
  using assms
proof (cases rule: parse_fa_txn_cases)
  case no_data
  then show ?thesis by (simp add: empty_fa_txn_def fa_maps_ok_def)
next
  case (data info ts req entry objects deleted st3 st st4)
  have "ft_metadata st4 = []" "ft_mappings st4 = []"
    using event_steps_keep [OF data(6)] fa_gas_step_keeps [OF data(5)] scan_changes_keep [OF data(4)]
    by (auto simp: empty_fa_txn_def)
  then have "fa_maps_ok ext sdk st4" by (simp add: fa_maps_ok_def)
  then show ?thesis
    using fold_result_inv [where P = "fa_maps_ok ext sdk", OF _ data(7)] fa_output_change_maps_ok by blast
qed

lemma extract_maps:
  assumes "fa_extract ext sdk mapping txns = Inr (mapping', data)"
  shows "distinct (map fam_asset_type (fd_metadata data))"
    and "distinct (map ftc_coin_type (fd_mappings data))"
    and "\<forall>m \<in> set (fd_mappings data). ftc_fungible_asset_metadata_address m =
      get_paired_metadata_address ext sdk (ftc_coin_type m)"
proof -
  from assms have "parse_v2_coin ext sdk txns (Some (map_of mapping')) = Inr data"
    by (auto elim!: and_then_InrE simp: fa_extract_def Let_def)
  then obtain outs where outs: "list_all2 (\<lambda>txn out. parse_fa_txn ext sdk txn = Inr out) txns outs"
      "fd_metadata data = sort_key fam_asset_type (map snd (fold (\<lambda>t. extend_map (ft_metadata t)) outs []))"
      "fd_mappings data = sort_key ftc_coin_type (map snd (fold (\<lambda>t. extend_map (ft_mappings t)) outs []))"
    by (rule parse_v2_coin_cases) (simp add: map_result_Inr_iff)
  have ok: "fa_maps_ok ext sdk t" if "t \<in> set outs" for t
    using that outs(1) parse_fa_txn_maps_ok by (auto simp: list_all2_conv_all_nth in_set_conv_nth)
  show "distinct (map fam_asset_type (fd_metadata data))" "distinct (map ftc_coin_type (fd_mappings data))"
    unfolding outs(2,3) using ok by (intro keyed_by_distinct keyed_by_fold_extend; simp add: fa_maps_ok_def)+
  show "\<forall>m \<in> set (fd_mappings data). ftc_fungible_asset_metadata_address m =
      get_paired_metadata_address ext sdk (ftc_coin_type m)"
    using ok by (auto simp: outs(3) fa_maps_ok_def dest!: mem_fold_extend)
qed

section \<open>Storing a batch\<close>

definition fa_chunks_ok :: "fa_chunks \<Rightarrow> bool" where
  "fa_chunks_ok ck \<longleftrightarrow>
     (\<forall>xs. concat (fck_activities ck xs) = xs) \<and> (\<forall>xs. concat (fck_metadata ck xs) = xs) \<and>
     (\<forall>xs. concat (fck_balances ck xs) = xs) \<and> (\<forall>xs. concat (fck_mappings ck xs) = xs)"

lemma distinct_chunk: "distinct (map f (concat cs)) \<Longrightarrow> c \<in> set cs \<Longrightarrow> distinct (map f c)"
  by (induction cs) auto

lemma unified_standard_row [simp]: "standard_row standard (unified_row standard b mapping)"
  by (cases standard) (simp_all add: standard_row_def unified_row_def v1_columns_def v2_columns_def)

lemma current_standard_rows:
  assumes "fa_extract ext sdk mapping txns = Inr (mapping', data)"
  shows "\<forall>u \<in> set (fd_current_v1 data). standard_row V1 u" "\<forall>u \<in> set (fd_current_v2 data). standard_row V2 u"
  using extract_current_balances [OF assms] by (auto simp: latest_unified_def dest!: latest_SomeD)

lemma balance_statements_ok:
  assumes run: "fa_extract ext sdk mapping txns = Inr (mapping', data)" and ck: "fa_chunks_ok ck"
  shows "\<forall>(s, c) \<in> set (balance_statements ck sched flags data). distinct (map cub_storage_id c)"
    and "\<forall>(s, n) \<in> set (statement_rows (balance_statements ck sched flags data)). standard_row s n"
    and "rows_of_kind V1 P (statement_rows (balance_statements ck sched flags data)) =
      filter P (current_balances flags (fd_current_v1 data))"
    and "rows_of_kind V2 P (statement_rows (balance_statements ck sched flags data)) =
      filter P (current_balances flags (fd_current_v2 data))"
proof -
  have cat: "concat (fck_balances ck xs) = xs" for xs using ck by (simp add: fa_chunks_ok_def)
  have "distinct (map cub_storage_id (current_balances flags (fd_current_v1 data)))"
    "distinct (map cub_storage_id (current_balances flags (fd_current_v2 data)))"
    using extract_current_balances [OF run] by (simp_all add: current_balances_def filter_data_distinct)
  then show "\<forall>(s, c) \<in> set (balance_statements ck sched flags data). distinct (map cub_storage_id c)"
    by (auto simp: balance_statements_def set_interleave)
      (metis cat distinct_chunk)+
  have sub: "c \<in> set (fck_balances ck xs) \<Longrightarrow> n \<in> set c \<Longrightarrow> n \<in> set xs" for c n xs
    using cat [of xs] by (metis UN_I set_concat)
  have "n \<in> set (current_balances flags xs) \<Longrightarrow> n \<in> set xs" for n xs
    by (auto simp: current_balances_def filter_data_def split: if_splits)
  then show "\<forall>(s, n) \<in> set (statement_rows (balance_statements ck sched flags data)). standard_row s n"
    using current_standard_rows [OF run]
    by (auto simp: balance_statements_def statement_rows_def set_interleave dest!: sub)
  show "rows_of_kind V1 P (statement_rows (balance_statements ck sched flags data)) =
      filter P (current_balances flags (fd_current_v1 data))"
    "rows_of_kind V2 P (statement_rows (balance_statements ck sched flags data)) =
      filter P (current_balances flags (fd_current_v2 data))"
    by (simp_all add: balance_statements_def rows_of_kind_interleave cat)
qed

lemma distinct_mapping_addresses:
  assumes "fa_extract ext sdk mapping txns = Inr (mapping', data)"
    and "inj_on (get_paired_metadata_address ext sdk) (ftc_coin_type ` set (fd_mappings data))"
  shows "distinct (map ftc_fungible_asset_metadata_address (fd_mappings data))"
proof -
  note m = extract_maps [OF assms(1)]
  have "map ftc_fungible_asset_metadata_address (fd_mappings data) =
      map (get_paired_metadata_address ext sdk) (map ftc_coin_type (fd_mappings data))"
    using m(3) by simp
  also have "distinct \<dots>" using m(2) assms(2) by (subst distinct_map) simp
  finally show ?thesis .
qed

lemma fold_own_row:
  assumes "distinct (map key ns)"
  shows "fold step (filter (\<lambda>n. key n = k) ns) p =
    (case find_row key k ns of None \<Rightarrow> p | Some n \<Rightarrow> step n p)"
  using assms
proof (induction ns)
  case (Cons n ns)
  show ?case
  proof (cases "key n = k")
    case True
    then have "filter (\<lambda>n. key n = k) ns = []" using Cons.prems by (auto simp: filter_empty_conv) (metis image_eqI)
    with True show ?thesis by (simp add: find_row_Cons)
  next
    case False
    with Cons show ?thesis by (simp add: find_row_Cons)
  qed
qed simp

text \<open>What a batch makes of the columns of one standard in the row of a storage id.\<close>

definition stored_columns :: "(unified_balance \<Rightarrow> 'p \<Rightarrow> 'p) \<Rightarrow> u128 \<Rightarrow> unified_balance list \<Rightarrow> string \<Rightarrow> 'p \<Rightarrow> 'p" where
  "stored_columns newer flags rows k p =
     (case find_row cub_storage_id k (current_balances flags rows) of None \<Rightarrow> p | Some n \<Rightarrow> newer n p)"

lemma fa_store_batch:
  assumes run: "fa_extract ext sdk mapping txns = Inr (mapping', data)" and "distinct (map tx_version txns)"
    and "\<forall>txn \<in> set txns. activity_indices_fit txn"
    and "inj_on (get_paired_metadata_address ext sdk) (ftc_coin_type ` set (fd_mappings data))"
    and ck: "fa_chunks_ok ck"
  shows "snd (fa_store ck sched flags data db) = None"
    and "fdb_balances (fst (fa_store ck sched flags data db)) =
      fold (\<lambda>(s, n). upsert cub_storage_id (merge_balance s) n)
        (statement_rows (balance_statements ck sched flags data)) (fdb_balances db)"
    and "fdb_activities (fst (fa_store ck sched flags data db)) = fold (upsert fac_key merge_activity)
      (filter_data flags (table_flag ''FUNGIBLE_ASSET_ACTIVITIES'') (fd_activities data)) (fdb_activities db)"
proof -
  note b = v1_group.run_statements [OF balance_statements_ok(1) [OF run ck]]
  have "distinct (map fac_key (fd_activities data))"
    using extract_activity_keys [OF assms(1-3)] .
  note d = this extract_maps(1) [OF run] distinct_mapping_addresses [OF run assms(4)]
  note tables = activity_table.run_chunks_distinct fa_metadata_table.run_chunks_distinct
    fa_mapping_table.run_chunks_distinct
  show "snd (fa_store ck sched flags data db) = None"
    "fdb_balances (fst (fa_store ck sched flags data db)) =
      fold (\<lambda>(s, n). upsert cub_storage_id (merge_balance s) n)
        (statement_rows (balance_statements ck sched flags data)) (fdb_balances db)"
    "fdb_activities (fst (fa_store ck sched flags data db)) = fold (upsert fac_key merge_activity)
      (filter_data flags (table_flag ''FUNGIBLE_ASSET_ACTIVITIES'') (fd_activities data)) (fdb_activities db)"
    using ck by (simp_all add: fa_store_def b tables d filter_data_distinct fa_chunks_ok_def)
qed

lemma stored_columns_fold:
  "distinct (map cub_storage_id rows) \<Longrightarrow>
     fold newer (filter (\<lambda>n. cub_storage_id n = k) (current_balances flags rows)) p = stored_columns newer flags rows k p"
  by (subst fold_own_row) (simp_all add: current_balances_def filter_data_distinct stored_columns_def)

abbreviation coin_columns :: "string \<Rightarrow> unified_balance list \<Rightarrow> decimal option \<times> i64 option \<times> datetime option" where
  "coin_columns \<equiv> columns_at cub_storage_id v1_columns (None, None, None)"

abbreviation asset_columns ::
  "string \<Rightarrow> unified_balance list \<Rightarrow> string option \<times> decimal option \<times> i64 option \<times> datetime option" where
  "asset_columns \<equiv> columns_at cub_storage_id v2_columns (None, None, None, None)"

text \<open>
  Claim C28: A batch is stored without error for every way of cutting its rows into chunks and every order in
  which the database takes the statements of the two concurrent insertions of balances, provided
  no two coins of the batch are paired with one fungible asset.  Afterwards the coin columns
  (amount, version, timestamp) of each storage id are decided by the coin balances of the batch and
  what was stored, the fungible asset columns by the fungible asset balances and what was stored:
  the schedule does not matter.
\<close>

theorem fa_batch_stored:
  assumes "fa_extract ext sdk mapping txns = Inr (mapping', data)" and "distinct (map tx_version txns)"
    and "\<forall>txn \<in> set txns. activity_indices_fit txn"
    and "inj_on (get_paired_metadata_address ext sdk) (ftc_coin_type ` set (fd_mappings data))"
    and "fa_chunks_ok ck"
  shows "snd (fa_store ck sched flags data db) = None \<and>
    coin_columns k (fdb_balances (fst (fa_store ck sched flags data db))) =
      stored_columns v1_newer flags (fd_current_v1 data) k (coin_columns k (fdb_balances db)) \<and>
    asset_columns k (fdb_balances (fst (fa_store ck sched flags data db))) =
      stored_columns v2_newer flags (fd_current_v2 data) k (asset_columns k (fdb_balances db))"
proof -
  note store = fa_store_batch [OF assms] and stmts = balance_statements_ok [OF assms(1,5)]
  have d: "distinct (map cub_storage_id (fd_current_v1 data))" "distinct (map cub_storage_id (fd_current_v2 data))"
    using extract_current_balances [OF assms(1)] by simp_all
  show ?thesis
    unfolding store(2) v1_group.cols_fold [OF stmts(2)] v2_group.cols_fold [OF stmts(2)]
      rows_of_kind_def [symmetric] stmts(3,4) stored_columns_fold [OF d(1)] stored_columns_fold [OF d(2)]
    using store(1) by simp
qed

definition sample_fa_chunks :: fa_chunks where
  "sample_fa_chunks = \<lparr>fck_activities = (\<lambda>xs. [xs]), fck_metadata = (\<lambda>xs. [xs]),
     fck_balances = map (\<lambda>x. [x]), fck_mappings = (\<lambda>xs. [xs])\<rparr>"

definition empty_fa_db :: fa_db where
  "empty_fa_db = \<lparr>fdb_activities = [], fdb_metadata = [], fdb_balances = [], fdb_mappings = []\<rparr>"

lemma sample_fa_chunks_ok: "fa_chunks_ok sample_fa_chunks"
proof -
  have "concat (map (\<lambda>x. [x]) xs) = xs" for xs :: "unified_balance list" by (induction xs) simp_all
  then show ?thesis by (simp add: fa_chunks_ok_def sample_fa_chunks_def)
qed

theorem fa_batch_stored_witness:
  "\<exists>mapping data. fa_extract sample_fa_world sample_sdk [] [sample_fa_txn] = Inr (mapping, data) \<and>
     snd (fa_store sample_fa_chunks [False] 0 data empty_fa_db) = None \<and>
     fst (coin_columns sample_primary_store (fdb_balances (fst (fa_store sample_fa_chunks [False] 0 data empty_fa_db)))) =
       Some 50 \<and>
     fst (snd (asset_columns sample_primary_store
       (fdb_balances (fst (fa_store sample_fa_chunks [False] 0 data empty_fa_db))))) = Some 9"
proof -
  obtain mapping data where run: "fa_extract sample_fa_world sample_sdk [] [sample_fa_txn] = Inr (mapping, data)"
    and a: "map cub_amount_v1 (fd_current_v1 data) = [Some 50]" "map cub_amount_v2 (fd_current_v2 data) = [Some 9]"
      "map (\<lambda>u. (cub_storage_id u, cub_is_frozen u)) (fd_current_v1 data) = [(sample_primary_store, False)]"
      "map (\<lambda>u. (cub_storage_id u, cub_is_frozen u)) (fd_current_v2 data) = [(sample_primary_store, True)]"
      "fd_mappings data = []"
    by (rule sample_fa_runs)
  from a obtain u w where c: "fd_current_v1 data = [u]" "cub_amount_v1 u = Some 50" "cub_storage_id u = sample_primary_store"
      "fd_current_v2 data = [w]" "cub_amount_v2 w = Some 9" "cub_storage_id w = sample_primary_store"
    by (auto simp: map_eq_Cons_conv)
  have "inj_on (get_paired_metadata_address sample_fa_world sample_sdk) (ftc_coin_type ` set (fd_mappings data))"
    by (simp add: a)
  note stored = fa_batch_stored [OF run sample_fa_txn_facts this sample_fa_chunks_ok,
      of "[False]" 0 empty_fa_db sample_primary_store]
  have "stored_columns v1_newer 0 (fd_current_v1 data) sample_primary_store (None, None, None) = v1_columns u"
    "stored_columns v2_newer 0 (fd_current_v2 data) sample_primary_store (None, None, None, None) = v2_columns w"
    by (simp_all add: stored_columns_def c current_balances_def filter_data_def find_row_Cons v1_newer_def v2_newer_def null_or_le_def
        flags_is_empty_def)
  with stored run c show ?thesis
    by (auto simp: empty_fa_db_def columns_at_def v1_columns_def v2_columns_def)
qed

section \<open>What the schedule decides\<close>

text \<open>
  The owner and the frozen flag are columns of both statements, each guarded by the version of its
  own standard only.  When a coin balance and its primary store change in one batch, the statement
  that comes last decides them, also when its row is the older one.
\<close>

lemma frozen_flag_depends_on_schedule:
  assumes "fd_current_v1 data = [u]" and "standard_row V1 u" and "fd_current_v2 data = [w]" and "standard_row V2 w"
    and "cub_storage_id u = cub_storage_id w" and "fdb_balances db = []"
    and "filter_data flags (table_flag ''CURRENT_FUNGIBLE_ASSET_BALANCES'') = (\<lambda>xs. xs :: unified_balance list)"
  shows "map cub_is_frozen (fdb_balances (fst (fa_store sample_fa_chunks [True] flags data db))) = [cub_is_frozen w]"
    and "map cub_is_frozen (fdb_balances (fst (fa_store sample_fa_chunks [False] flags data db))) = [cub_is_frozen u]"
proof -
  have n: "cub_last_transaction_version_v2 u = None" "cub_last_transaction_version_v1 w = None"
    using assms(2,4) by (simp_all add: standard_row_def v1_columns_def v2_columns_def)
  show "map cub_is_frozen (fdb_balances (fst (fa_store sample_fa_chunks [True] flags data db))) = [cub_is_frozen w]"
    "map cub_is_frozen (fdb_balances (fst (fa_store sample_fa_chunks [False] flags data db))) = [cub_is_frozen u]"
    using assms by (simp_all add: fa_store_def Let_def case_prod_unfold balance_statements_def current_balances_def
        sample_fa_chunks_def insert_do_update_def merge_balance_def merge_balance_v1_def merge_balance_v2_def
        null_or_le_def n)
qed

end
