(* ===== verification/AnsModels.thy ===== *)
theory AnsModels
  imports CoinResources
begin

text \<open>
  The rows of the ANS processor (names of accounts) and how they are read from table items,
  resources and events: \<open>processors/ans/models\<close>.  Version 1 of the naming service keeps its names
  in tables, version 2 in resources and events.  The Postgres rows have the fields of the raw
  current rows, so one record stands for both.
\<close>

section \<open>Names\<close>

definition domain_length :: nat where
  "domain_length = 64"

definition get_string :: "string list \<Rightarrow> string option" where
  "get_string xs = (case xs of [] \<Rightarrow> None | x # _ \<Rightarrow> Some x)"

definition get_token_name :: "sdk \<Rightarrow> string \<Rightarrow> string \<Rightarrow> string" where
  "get_token_name sdk domain_name subdomain_name =
     (let domain = truncate_str sdk domain_name domain_length;
          subdomain = truncate_str sdk subdomain_name domain_length;
          token_name = domain @ ''.move''
      in if subdomain \<noteq> [] then subdomain @ ''.'' @ token_name else token_name)"

record name_record_key_v1 =
  nk_domain_name :: string
  nk_subdomain_name :: "string list"

definition get_domain_trunc :: "sdk \<Rightarrow> name_record_key_v1 \<Rightarrow> string" where
  "get_domain_trunc sdk k = truncate_str sdk (nk_domain_name k) domain_length"

definition get_subdomain_trunc :: "sdk \<Rightarrow> name_record_key_v1 \<Rightarrow> string" where
  "get_subdomain_trunc sdk k = truncate_str sdk (unwrap_or (get_string (nk_subdomain_name k)) []) domain_length"

definition key_token_name :: "sdk \<Rightarrow> name_record_key_v1 \<Rightarrow> string" where
  "key_token_name sdk k = get_token_name sdk (get_domain_trunc sdk k) (get_subdomain_trunc sdk k)"

record name_record_v1 =
  nr_expiration_time_sec :: decimal
  nr_property_version :: decimal
  nr_target_address :: "string list"

definition expiration_time :: "sdk \<Rightarrow> decimal \<Rightarrow> datetime" where
  "expiration_time sdk secs = parse_timestamp_secs sdk (bigdecimal_to_u64 sdk secs) 0"

definition target_address :: "extern \<Rightarrow> string list \<Rightarrow> string option" where
  "target_address ext xs = map_option (standardize_address ext) (get_string xs)"

datatype ans_table_item = AnsNameRecordKeyV1 name_record_key_v1 | AnsNameRecordV1 name_record_v1

definition json_optional_string :: "json \<Rightarrow> string \<Rightarrow> string list option" where
  "json_optional_string = json_vec json_as_str"

definition read_name_record_key_v1 :: "json \<Rightarrow> name_record_key_v1 option" where
  "read_name_record_key_v1 v =
     (case (json_str v ''domain_name'', json_optional_string v ''subdomain_name'') of
        (Some d, Some s) \<Rightarrow> Some \<lparr>nk_domain_name = d, nk_subdomain_name = s\<rparr> | _ \<Rightarrow> None)"

definition read_name_record_v1 :: "extern \<Rightarrow> json \<Rightarrow> name_record_v1 option" where
  "read_name_record_v1 ext v =
     (case (json_decimal ext v ''expiration_time_sec'', json_decimal ext v ''property_version'',
            json_optional_string v ''target_address'') of
        (Some e, Some p, Some t) \<Rightarrow>
          Some \<lparr>nr_expiration_time_sec = e, nr_property_version = p, nr_target_address = t\<rparr>
      | _ \<Rightarrow> None)"

definition from_table_item :: "extern \<Rightarrow> string \<Rightarrow> string \<Rightarrow> ans_table_item option result" where
  "from_table_item ext data_type_name data =
     (if data_type_name = ''NameRecordKeyV1'' then
        parsed_event (map_option AnsNameRecordKeyV1 (opt_and_then (json_from_str ext data) read_name_record_key_v1))
      else if data_type_name = ''NameRecordV1'' then
        parsed_event (map_option AnsNameRecordV1 (opt_and_then (json_from_str ext data) (read_name_record_v1 ext)))
      else Inr None)"

section \<open>Resources and events of version 2\<close>

record name_record_v2 =
  n2_domain_name :: string
  n2_expiration_time_sec :: decimal
  n2_target_address :: "string list"

record subdomain_ext_v2 =
  sx_subdomain_expiration_policy :: i64
  sx_subdomain_name :: string

datatype ans_write_resource = AnsNameRecordV2 name_record_v2 | AnsSubdomainExtV2 subdomain_ext_v2

definition json_i64 :: "json \<Rightarrow> string \<Rightarrow> i64 option" where
  "json_i64 v k = (case json_get v k of Some (JNumber n) \<Rightarrow> parse_i64 n | _ \<Rightarrow> None)"

definition read_name_record_v2 :: "extern \<Rightarrow> json \<Rightarrow> name_record_v2 option" where
  "read_name_record_v2 ext v =
     (case (json_str v ''domain_name'', json_decimal ext v ''expiration_time_sec'',
            json_optional_string v ''target_address'') of
        (Some d, Some e, Some t) \<Rightarrow>
          Some \<lparr>n2_domain_name = d, n2_expiration_time_sec = e, n2_target_address = t\<rparr>
      | _ \<Rightarrow> None)"

definition read_subdomain_ext_v2 :: "json \<Rightarrow> subdomain_ext_v2 option" where
  "read_subdomain_ext_v2 v =
     (case (json_i64 v ''subdomain_expiration_policy'', json_str v ''subdomain_name'') of
        (Some p, Some s) \<Rightarrow> Some \<lparr>sx_subdomain_expiration_policy = p, sx_subdomain_name = s\<rparr> | _ \<Rightarrow> None)"

definition ans_from_write_resource :: "extern \<Rightarrow> string \<Rightarrow> write_resource \<Rightarrow> ans_write_resource option result" where
  "ans_from_write_resource ext contract wr =
     and_then (get_outer_type_from_write_resource ext wr) (\<lambda>type_str.
       if type_str = contract @ ''::domains::NameRecord'' then
         parsed_event (map_option AnsNameRecordV2 (opt_and_then (json_from_str ext (wr_data wr)) (read_name_record_v2 ext)))
       else if type_str = contract @ ''::domains::SubdomainExt'' then
         parsed_event (map_option AnsSubdomainExtV2 (opt_and_then (json_from_str ext (wr_data wr)) read_subdomain_ext_v2))
       else Inr None)"

definition name_record_from_write_resource ::
  "extern \<Rightarrow> string \<Rightarrow> write_resource \<Rightarrow> name_record_v2 option result" where
  "name_record_from_write_resource ext contract wr =
     and_then (ans_from_write_resource ext contract wr) (\<lambda>r.
       Inr (case r of Some (AnsNameRecordV2 inner) \<Rightarrow> Some inner | _ \<Rightarrow> None))"

definition subdomain_from_write_resource ::
  "extern \<Rightarrow> string \<Rightarrow> write_resource \<Rightarrow> subdomain_ext_v2 option result" where
  "subdomain_from_write_resource ext contract wr =
     and_then (ans_from_write_resource ext contract wr) (\<lambda>r.
       Inr (case r of Some (AnsSubdomainExtV2 inner) \<Rightarrow> Some inner | _ \<Rightarrow> None))"

record renew_name_event =
  rn_domain_name :: string
  rn_expiration_time_secs :: decimal
  rn_is_primary_name :: bool
  rn_subdomain_name :: "string list"
  rn_target_address :: "string list"

record set_reverse_lookup_event =
  rl_account_addr :: string
  rl_curr_domain_name :: "string list"
  rl_curr_expiration_time_secs :: "decimal list"
  rl_curr_subdomain_name :: "string list"
  rl_prev_domain_name :: "string list"
  rl_prev_expiration_time_secs :: "decimal list"
  rl_prev_subdomain_name :: "string list"

datatype v2_ans_event = SetReverseLookup set_reverse_lookup_event | RenewName renew_name_event

definition read_renew_name :: "extern \<Rightarrow> json \<Rightarrow> renew_name_event option" where
  "read_renew_name ext v =
     (case (json_str v ''domain_name'', json_decimal ext v ''expiration_time_secs'', json_bool v ''is_primary_name'',
            json_optional_string v ''subdomain_name'', json_optional_string v ''target_address'') of
        (Some d, Some e, Some p, Some s, Some t) \<Rightarrow>
          Some \<lparr>rn_domain_name = d, rn_expiration_time_secs = e, rn_is_primary_name = p,
            rn_subdomain_name = s, rn_target_address = t\<rparr>
      | _ \<Rightarrow> None)"

definition json_optional_decimal :: "extern \<Rightarrow> json \<Rightarrow> string \<Rightarrow> decimal list option" where
  "json_optional_decimal ext = json_vec (\<lambda>w. opt_and_then (json_as_str w) (decimal_from_str ext))"

definition read_set_reverse_lookup :: "extern \<Rightarrow> json \<Rightarrow> set_reverse_lookup_event option" where
  "read_set_reverse_lookup ext v =
     (case (json_str v ''account_addr'', json_optional_string v ''curr_domain_name'',
            json_optional_decimal ext v ''curr_expiration_time_secs'', json_optional_string v ''curr_subdomain_name'',
            json_optional_string v ''prev_domain_name'',
            json_optional_decimal ext v ''prev_expiration_time_secs'', json_optional_string v ''prev_subdomain_name'') of
        (Some a, Some cd, Some ce, Some cs, Some pd, Some pe, Some ps) \<Rightarrow>
          Some \<lparr>rl_account_addr = a, rl_curr_domain_name = cd, rl_curr_expiration_time_secs = ce,
            rl_curr_subdomain_name = cs, rl_prev_domain_name = pd, rl_prev_expiration_time_secs = pe,
            rl_prev_subdomain_name = ps\<rparr>
      | _ \<Rightarrow> None)"

definition is_ans_event_supported :: "string \<Rightarrow> string \<Rightarrow> bool" where
  "is_ans_event_supported event_type contract \<longleftrightarrow>
     event_type \<in> set [contract @ ''::domains::SetReverseLookupEvent'', contract @ ''::domains::RenewNameEvent'']"

definition v2_ans_from_event :: "extern \<Rightarrow> string \<Rightarrow> event \<Rightarrow> v2_ans_event option result" where
  "v2_ans_from_event ext contract ev =
     (if \<not> is_ans_event_supported (ev_type_str ev) contract then Inr None
      else if ev_type_str ev = contract @ ''::domains::SetReverseLookupEvent'' then
        parsed_event (map_option SetReverseLookup
          (opt_and_then (json_from_str ext (ev_data ev)) (read_set_reverse_lookup ext)))
      else if ev_type_str ev = contract @ ''::domains::RenewNameEvent'' then
        parsed_event (map_option RenewName (opt_and_then (json_from_str ext (ev_data ev)) (read_renew_name ext)))
      else Inr None)"

definition renew_name_from_event :: "extern \<Rightarrow> string \<Rightarrow> event \<Rightarrow> renew_name_event option result" where
  "renew_name_from_event ext contract ev =
     and_then (expect_ok (v2_ans_from_event ext contract ev)) (\<lambda>e.
       Inr (case e of Some (RenewName inner) \<Rightarrow> Some inner | _ \<Rightarrow> None))"

definition set_reverse_lookup_from_event ::
  "extern \<Rightarrow> string \<Rightarrow> event \<Rightarrow> set_reverse_lookup_event option result" where
  "set_reverse_lookup_from_event ext contract ev =
     and_then (expect_ok (v2_ans_from_event ext contract ev)) (\<lambda>e.
       Inr (case e of Some (SetReverseLookup inner) \<Rightarrow> Some inner | _ \<Rightarrow> None))"

definition get_curr_domain_trunc :: "sdk \<Rightarrow> set_reverse_lookup_event \<Rightarrow> string" where
  "get_curr_domain_trunc sdk e = truncate_str sdk (unwrap_or (get_string (rl_curr_domain_name e)) []) domain_length"

definition get_curr_subdomain_trunc :: "sdk \<Rightarrow> set_reverse_lookup_event \<Rightarrow> string" where
  "get_curr_subdomain_trunc sdk e =
     truncate_str sdk (unwrap_or (get_string (rl_curr_subdomain_name e)) []) domain_length"

definition get_curr_token_name :: "sdk \<Rightarrow> set_reverse_lookup_event \<Rightarrow> string" where
  "get_curr_token_name sdk e = get_token_name sdk (get_curr_domain_trunc sdk e) (get_curr_subdomain_trunc sdk e)"

section \<open>Rows of version 1\<close>

record current_ans_lookup =
  cal_domain :: string
  cal_subdomain :: string
  cal_registered_address :: "string option"
  cal_last_transaction_version :: i64
  cal_expiration_timestamp :: datetime
  cal_token_name :: string
  cal_is_deleted :: bool

record ans_lookup =
  al_transaction_version :: i64
  al_write_set_change_index :: i64
  al_domain :: string
  al_subdomain :: string
  al_registered_address :: "string option"
  al_expiration_timestamp :: datetime
  al_token_name :: string
  al_is_deleted :: bool

record current_ans_primary_name =
  cap_registered_address :: string
  cap_domain :: "string option"
  cap_subdomain :: "string option"
  cap_token_name :: "string option"
  cap_is_deleted :: bool
  cap_last_transaction_version :: i64

record ans_primary_name =
  ap_transaction_version :: i64
  ap_write_set_change_index :: i64
  ap_registered_address :: string
  ap_domain :: "string option"
  ap_subdomain :: "string option"
  ap_token_name :: "string option"
  ap_is_deleted :: bool

definition name_record_rows ::
  "sdk \<Rightarrow> name_record_key_v1 \<Rightarrow> string option \<Rightarrow> datetime \<Rightarrow> bool \<Rightarrow> i64 \<Rightarrow> i64 \<Rightarrow> current_ans_lookup \<times> ans_lookup" where
  "name_record_rows sdk k registered expiration deleted version index =
     (\<lparr>cal_domain = get_domain_trunc sdk k, cal_subdomain = get_subdomain_trunc sdk k,
       cal_registered_address = registered, cal_last_transaction_version = version,
       cal_expiration_timestamp = expiration, cal_token_name = key_token_name sdk k, cal_is_deleted = deleted\<rparr>,
      \<lparr>al_transaction_version = version, al_write_set_change_index = index,
       al_domain = get_domain_trunc sdk k, al_subdomain = get_subdomain_trunc sdk k,
       al_registered_address = registered, al_expiration_timestamp = expiration,
       al_token_name = key_token_name sdk k, al_is_deleted = deleted\<rparr>)"

definition name_record_from_write_table_item ::
  "extern \<Rightarrow> sdk \<Rightarrow> string \<Rightarrow> write_table_item \<Rightarrow> i64 \<Rightarrow> i64 \<Rightarrow> (current_ans_lookup \<times> ans_lookup) option result" where
  "name_record_from_write_table_item ext sdk handle item version index =
     (case (standardize_address ext (wt_handle item) = standardize_address ext handle, wt_data item) of
        (True, Some data) \<Rightarrow>
          and_then (from_table_item ext (get_name_from_unnested_move_type sdk (wtd_key_type data)) (wtd_key data)) (\<lambda>ki.
            case ki of
              Some (AnsNameRecordKeyV1 k) \<Rightarrow>
                and_then (from_table_item ext (get_name_from_unnested_move_type sdk (wtd_value_type data)) (wtd_value data)) (\<lambda>vi.
                  Inr (case vi of
                         Some (AnsNameRecordV1 r) \<Rightarrow>
                           Some (name_record_rows sdk k (target_address ext (nr_target_address r))
                             (expiration_time sdk (nr_expiration_time_sec r)) False version index)
                       | _ \<Rightarrow> None))
            | _ \<Rightarrow> Inr None)
      | _ \<Rightarrow> Inr None)"

definition name_record_from_delete_table_item ::
  "extern \<Rightarrow> sdk \<Rightarrow> string \<Rightarrow> delete_table_item \<Rightarrow> i64 \<Rightarrow> i64 \<Rightarrow> (current_ans_lookup \<times> ans_lookup) option result" where
  "name_record_from_delete_table_item ext sdk handle item version index =
     (case (standardize_address ext (dt_handle item) = standardize_address ext handle, dt_data item) of
        (True, Some data) \<Rightarrow>
          and_then (from_table_item ext (get_name_from_unnested_move_type sdk (dtd_key_type data)) (dtd_key data)) (\<lambda>ki.
            Inr (case ki of
                   Some (AnsNameRecordKeyV1 k) \<Rightarrow> Some (name_record_rows sdk k None 0 True version index)
                 | _ \<Rightarrow> None))
      | _ \<Rightarrow> Inr None)"

definition primary_name_rows ::
  "string \<Rightarrow> (string \<times> string \<times> string) option \<Rightarrow> i64 \<Rightarrow> i64 \<Rightarrow> current_ans_primary_name \<times> ans_primary_name" where
  "primary_name_rows address name version index =
     (\<lparr>cap_registered_address = address, cap_domain = map_option fst name, cap_subdomain = map_option (fst \<circ> snd) name,
       cap_token_name = map_option (snd \<circ> snd) name, cap_is_deleted = (name = None),
       cap_last_transaction_version = version\<rparr>,
      \<lparr>ap_transaction_version = version, ap_write_set_change_index = index, ap_registered_address = address,
       ap_domain = map_option fst name, ap_subdomain = map_option (fst \<circ> snd) name,
       ap_token_name = map_option (snd \<circ> snd) name, ap_is_deleted = (name = None)\<rparr>)"

text \<open>\<open>serde_json::from_str::<String>(..).unwrap()\<close> panics unless the key is a JSON string.\<close>

definition decode_address_key :: "extern \<Rightarrow> string \<Rightarrow> string result" where
  "decode_address_key ext key =
     and_then (unwrap (opt_and_then (json_from_str ext key) json_as_str)) (\<lambda>a. Inr (standardize_address ext a))"

definition primary_name_from_write_table_item ::
  "extern \<Rightarrow> sdk \<Rightarrow> string \<Rightarrow> write_table_item \<Rightarrow> i64 \<Rightarrow> i64 \<Rightarrow>
   (current_ans_primary_name \<times> ans_primary_name) option result" where
  "primary_name_from_write_table_item ext sdk handle item version index =
     (case (standardize_address ext (wt_handle item) = standardize_address ext handle, wt_data item) of
        (True, Some data) \<Rightarrow>
          if wtd_key_type data \<noteq> ''address'' then Inr None
          else
            and_then (decode_address_key ext (wtd_key data)) (\<lambda>address.
            and_then (from_table_item ext (get_name_from_unnested_move_type sdk (wtd_value_type data)) (wtd_value data)) (\<lambda>vi.
              Inr (case vi of
                     Some (AnsNameRecordKeyV1 k) \<Rightarrow>
                       Some (primary_name_rows address
                         (Some (get_domain_trunc sdk k, get_subdomain_trunc sdk k, key_token_name sdk k)) version index)
                   | _ \<Rightarrow> None)))
      | _ \<Rightarrow> Inr None)"

definition primary_name_from_delete_table_item ::
  "extern \<Rightarrow> string \<Rightarrow> delete_table_item \<Rightarrow> i64 \<Rightarrow> i64 \<Rightarrow>
   (current_ans_primary_name \<times> ans_primary_name) option result" where
  "primary_name_from_delete_table_item ext handle item version index =
     (case (standardize_address ext (dt_handle item) = standardize_address ext handle, dt_data item) of
        (True, Some data) \<Rightarrow>
          if dtd_key_type data \<noteq> ''address'' then Inr None
          else
            and_then (decode_address_key ext (dtd_key data)) (\<lambda>address.
              Inr (Some (primary_name_rows address None version index)))
      | _ \<Rightarrow> Inr None)"

section \<open>Rows of version 2\<close>

record current_ans_lookup_v2 =
  clv_domain :: string
  clv_subdomain :: string
  clv_token_standard :: string
  clv_registered_address :: "string option"
  clv_last_transaction_version :: i64
  clv_expiration_timestamp :: datetime
  clv_token_name :: string
  clv_is_deleted :: bool
  clv_subdomain_expiration_policy :: "i64 option"

record ans_lookup_v2 =
  alv_transaction_version :: i64
  alv_write_set_change_index :: i64
  alv_domain :: string
  alv_subdomain :: string
  alv_token_standard :: string
  alv_registered_address :: "string option"
  alv_expiration_timestamp :: datetime
  alv_token_name :: string
  alv_is_deleted :: bool
  alv_subdomain_expiration_policy :: "i64 option"
  alv_block_timestamp :: datetime

record current_ans_primary_name_v2 =
  cpv_registered_address :: string
  cpv_token_standard :: string
  cpv_domain :: "string option"
  cpv_subdomain :: "string option"
  cpv_token_name :: "string option"
  cpv_is_deleted :: bool
  cpv_last_transaction_version :: i64

record ans_primary_name_v2 =
  apv_transaction_version :: i64
  apv_write_set_change_index :: i64
  apv_registered_address :: string
  apv_token_standard :: string
  apv_domain :: "string option"
  apv_subdomain :: "string option"
  apv_token_name :: "string option"
  apv_is_deleted :: bool
  apv_transaction_timestamp :: datetime

definition clv_pk :: "current_ans_lookup_v2 \<Rightarrow> string \<times> string \<times> string" where
  "clv_pk c = (clv_domain c, clv_subdomain c, clv_token_standard c)"

definition cpv_pk :: "current_ans_primary_name_v2 \<Rightarrow> string \<times> string" where
  "cpv_pk c = (cpv_registered_address c, cpv_token_standard c)"

definition lookup_v2_from_v1 ::
  "current_ans_lookup \<times> ans_lookup \<Rightarrow> datetime \<Rightarrow> current_ans_lookup_v2 \<times> ans_lookup_v2" where
  "lookup_v2_from_v1 cl ts =
     (let c = fst cl; l = snd cl
      in (\<lparr>clv_domain = cal_domain c, clv_subdomain = cal_subdomain c, clv_token_standard = token_standard_to_string V1,
           clv_registered_address = cal_registered_address c,
           clv_last_transaction_version = cal_last_transaction_version c,
           clv_expiration_timestamp = cal_expiration_timestamp c, clv_token_name = cal_token_name c,
           clv_is_deleted = cal_is_deleted c, clv_subdomain_expiration_policy = None\<rparr>,
          \<lparr>alv_transaction_version = al_transaction_version l, alv_write_set_change_index = al_write_set_change_index l,
           alv_domain = al_domain l, alv_subdomain = al_subdomain l, alv_token_standard = token_standard_to_string V1,
           alv_registered_address = al_registered_address l, alv_expiration_timestamp = al_expiration_timestamp l,
           alv_token_name = al_token_name l, alv_is_deleted = al_is_deleted l,
           alv_subdomain_expiration_policy = None, alv_block_timestamp = ts\<rparr>))"

definition name_record_from_write_resource_v2 ::
  "extern \<Rightarrow> sdk \<Rightarrow> string \<Rightarrow> write_resource \<Rightarrow> i64 \<Rightarrow> i64 \<Rightarrow> (string \<rightharpoonup> subdomain_ext_v2) \<Rightarrow> datetime \<Rightarrow>
   (current_ans_lookup_v2 \<times> ans_lookup_v2) option result" where
  "name_record_from_write_resource_v2 ext sdk contract wr version index subdomains ts =
     and_then (expect_ok (name_record_from_write_resource ext contract wr)) (\<lambda>inner.
       Inr (case inner of
              None \<Rightarrow> None
            | Some r \<Rightarrow>
                (let (subdomain, policy) = (case subdomains (standardize_address ext (wr_address wr)) of
                       Some s \<Rightarrow> (truncate_str sdk (sx_subdomain_name s) domain_length,
                                   Some (sx_subdomain_expiration_policy s))
                     | None \<Rightarrow> ([], None));
                     domain = truncate_str sdk (n2_domain_name r) domain_length;
                     token_name = get_token_name sdk domain subdomain;
                     registered = target_address ext (n2_target_address r);
                     expiration = expiration_time sdk (n2_expiration_time_sec r)
                 in Some (\<lparr>clv_domain = domain, clv_subdomain = subdomain,
                        clv_token_standard = token_standard_to_string V2, clv_registered_address = registered,
                        clv_last_transaction_version = version, clv_expiration_timestamp = expiration,
                        clv_token_name = token_name, clv_is_deleted = False,
                        clv_subdomain_expiration_policy = policy\<rparr>,
                       \<lparr>alv_transaction_version = version, alv_write_set_change_index = index,
                        alv_domain = domain, alv_subdomain = subdomain,
                        alv_token_standard = token_standard_to_string V2, alv_registered_address = registered,
                        alv_expiration_timestamp = expiration, alv_token_name = token_name,
                        alv_is_deleted = False, alv_subdomain_expiration_policy = policy,
                        alv_block_timestamp = ts\<rparr>))))"

definition primary_name_v2_from_v1 ::
  "current_ans_primary_name \<times> ans_primary_name \<Rightarrow> datetime \<Rightarrow> current_ans_primary_name_v2 \<times> ans_primary_name_v2" where
  "primary_name_v2_from_v1 cp ts =
     (let c = fst cp; p = snd cp
      in (\<lparr>cpv_registered_address = cap_registered_address c, cpv_token_standard = token_standard_to_string V1,
           cpv_domain = cap_domain c, cpv_subdomain = cap_subdomain c, cpv_token_name = cap_token_name c,
           cpv_is_deleted = cap_is_deleted c, cpv_last_transaction_version = cap_last_transaction_version c\<rparr>,
          \<lparr>apv_transaction_version = ap_transaction_version p, apv_write_set_change_index = ap_write_set_change_index p,
           apv_registered_address = ap_registered_address p, apv_token_standard = token_standard_to_string V1,
           apv_domain = ap_domain p, apv_subdomain = ap_subdomain p, apv_token_name = ap_token_name p,
           apv_is_deleted = ap_is_deleted p, apv_transaction_timestamp = ts\<rparr>))"

definition primary_name_v2_from_event ::
  "extern \<Rightarrow> sdk \<Rightarrow> string \<Rightarrow> event \<Rightarrow> i64 \<Rightarrow> i64 \<Rightarrow> datetime \<Rightarrow>
   (current_ans_primary_name_v2 \<times> ans_primary_name_v2) option result" where
  "primary_name_v2_from_event ext sdk contract ev version event_index ts =
     and_then (expect_ok (set_reverse_lookup_from_event ext contract ev)) (\<lambda>lookup.
       Inr (case lookup of
              None \<Rightarrow> None
            | Some e \<Rightarrow>
                (let address = standardize_address ext (rl_account_addr e);
                     unset = (get_curr_domain_trunc sdk e = []);
                     domain = (if unset then None else Some (get_curr_domain_trunc sdk e));
                     subdomain = (if unset then None else Some (get_curr_subdomain_trunc sdk e));
                     token_name = (if unset then None else Some (get_curr_token_name sdk e))
                 in Some (\<lparr>cpv_registered_address = address, cpv_token_standard = token_standard_to_string V2,
                        cpv_domain = domain, cpv_subdomain = subdomain, cpv_token_name = token_name,
                        cpv_is_deleted = unset, cpv_last_transaction_version = version\<rparr>,
                       \<lparr>apv_transaction_version = version, apv_write_set_change_index = - (event_index + 1),
                        apv_registered_address = address, apv_token_standard = token_standard_to_string V2,
                        apv_domain = domain, apv_subdomain = subdomain, apv_token_name = token_name,
                        apv_is_deleted = unset, apv_transaction_timestamp = ts\<rparr>))))"

end
