(* ===== verification/AnsProcessor.thy ===== *)
theory AnsProcessor
  imports AnsModels RowMaps BatchStore Config SampleChain "HOL-Library.Multiset"
begin

text \<open>
  The ANS processor: \<open>ans_extractor.rs\<close> with \<open>parse_ans\<close>, and \<open>ans_storer.rs\<close>.

  A user transaction is read in three passes: its events, the subdomain resources it wrote, and
  its changes.  The current rows of a batch are kept in two hash maps.  The code sorts their
  values by a part of the primary key only, so rows of the two standards that agree in that part
  keep the order of the hash map; that order is a parameter.

  Proved: current rows are the latest rows of the batch, rows are well formed, a batch is stored
  for every order of the maps and every way of cutting it into chunks, and stored rows never move
  to an earlier version.
\<close>

section \<open>The passes over a transaction\<close>

record ans_state =
  as_current_lookups :: "((string \<times> string \<times> string) \<times> current_ans_lookup_v2) list"
  as_lookups :: "ans_lookup_v2 list"
  as_current_names :: "((string \<times> string) \<times> current_ans_primary_name_v2) list"
  as_names :: "ans_primary_name_v2 list"

definition empty_ans_state :: ans_state where
  "empty_ans_state = \<lparr>as_current_lookups = [], as_lookups = [], as_current_names = [], as_names = []\<rparr>"

text \<open>
  The maps of version 1 rows and the list of renewal events are filled and then dropped, so they
  are not part of the state.
\<close>

definition push_lookup :: "(current_ans_lookup_v2 \<times> ans_lookup_v2) option \<Rightarrow> ans_state \<Rightarrow> ans_state" where
  "push_lookup r st =
     (case r of
        None \<Rightarrow> st
      | Some (c, l) \<Rightarrow> st\<lparr>as_current_lookups := AList.update (clv_pk c) c (as_current_lookups st),
          as_lookups := as_lookups st @ [l]\<rparr>)"

definition push_name :: "(current_ans_primary_name_v2 \<times> ans_primary_name_v2) option \<Rightarrow> ans_state \<Rightarrow> ans_state" where
  "push_name r st =
     (case r of
        None \<Rightarrow> st
      | Some (c, n) \<Rightarrow> st\<lparr>as_current_names := AList.update (cpv_pk c) c (as_current_names st),
          as_names := as_names st @ [n]\<rparr>)"

definition ans_event_step ::
  "extern \<Rightarrow> sdk \<Rightarrow> string \<Rightarrow> i64 \<Rightarrow> datetime \<Rightarrow> nat \<times> event \<Rightarrow> ans_state \<Rightarrow> ans_state result" where
  "ans_event_step ext sdk contract version ts iev st =
     and_then (expect_ok (renew_name_from_event ext contract (snd iev))) (\<lambda>_.
     and_then (expect_ok (primary_name_v2_from_event ext sdk contract (snd iev) version (of_nat (fst iev)) ts)) (\<lambda>r.
       Inr (push_name r st)))"

definition ans_subdomain_step ::
  "extern \<Rightarrow> string \<Rightarrow> change option \<Rightarrow> (string \<rightharpoonup> subdomain_ext_v2) \<Rightarrow> (string \<rightharpoonup> subdomain_ext_v2) result" where
  "ans_subdomain_step ext contract wsc subdomains =
     and_then (unwrap wsc) (\<lambda>c.
       case c of
         WriteResource wr \<Rightarrow>
           and_then (expect_ok (subdomain_from_write_resource ext contract wr)) (\<lambda>r.
             Inr (case r of
                    None \<Rightarrow> subdomains
                  | Some s \<Rightarrow> subdomains(standardize_address ext (wr_address wr) \<mapsto> s)))
       | _ \<Rightarrow> Inr subdomains)"

definition ans_change_step ::
  "extern \<Rightarrow> sdk \<Rightarrow> string \<Rightarrow> string \<Rightarrow> string \<Rightarrow> i64 \<Rightarrow> datetime \<Rightarrow> (string \<rightharpoonup> subdomain_ext_v2) \<Rightarrow>
   nat \<times> change option \<Rightarrow> ans_state \<Rightarrow> ans_state result" where
  "ans_change_step ext sdk names_handle records_handle contract version ts subdomains iwsc st =
     (let index = of_nat (fst iwsc)
      in and_then (unwrap (snd iwsc)) (\<lambda>c.
        case c of
          WriteTableItem item \<Rightarrow>
            and_then (expect_ok (name_record_from_write_table_item ext sdk records_handle item version index)) (\<lambda>r.
              let st1 = push_lookup (map_option (\<lambda>r. lookup_v2_from_v1 r ts) r) st
              in and_then (expect_ok (primary_name_from_write_table_item ext sdk names_handle item version index)) (\<lambda>n.
                   Inr (push_name (map_option (\<lambda>n. primary_name_v2_from_v1 n ts) n) st1)))
        | DeleteTableItem item \<Rightarrow>
            and_then (expect_ok (name_record_from_delete_table_item ext sdk records_handle item version index)) (\<lambda>r.
              let st1 = push_lookup (map_option (\<lambda>r. lookup_v2_from_v1 r ts) r) st
              in and_then (expect_ok (primary_name_from_delete_table_item ext names_handle item version index)) (\<lambda>n.
                   Inr (push_name (map_option (\<lambda>n. primary_name_v2_from_v1 n ts) n) st1)))
        | WriteResource wr \<Rightarrow>
            and_then (expect_ok (name_record_from_write_resource_v2 ext sdk contract wr version index subdomains ts)) (\<lambda>r.
              Inr (push_lookup r st))
        | _ \<Rightarrow> Inr st))"

definition ans_user_txn ::
  "extern \<Rightarrow> sdk \<Rightarrow> string \<Rightarrow> string \<Rightarrow> string \<Rightarrow> i64 \<Rightarrow> datetime \<Rightarrow> event list \<Rightarrow> transaction_info \<Rightarrow>
   ans_state \<Rightarrow> ans_state result" where
  "ans_user_txn ext sdk names_handle records_handle contract version ts events info st =
     and_then (fold_result (ans_event_step ext sdk contract version ts) (enumerate 0 events) st) (\<lambda>st1.
     and_then (fold_result (ans_subdomain_step ext contract) (ti_changes info) Map.empty) (\<lambda>subdomains.
       fold_result (ans_change_step ext sdk names_handle records_handle contract version ts subdomains)
         (enumerate 0 (ti_changes info)) st1))"

definition parse_ans_txn ::
  "extern \<Rightarrow> sdk \<Rightarrow> string \<Rightarrow> string \<Rightarrow> string \<Rightarrow> transaction \<Rightarrow> ans_state \<Rightarrow> ans_state result" where
  "parse_ans_txn ext sdk names_handle records_handle contract txn st =
     (case tx_data txn of
        None \<Rightarrow> Inr st
      | Some data \<Rightarrow>
          (case tx_info txn of
             None \<Rightarrow> Inl (Panic ''Transaction info doesn't exist!'')
           | Some info \<Rightarrow>
               (case tx_timestamp txn of
                  None \<Rightarrow> Inl (Panic ''Transaction timestamp doesn't exist!'')
                | Some timestamp \<Rightarrow>
                    (case from_timestamp_opt sdk (fst timestamp) 0 of
                       None \<Rightarrow> Inl (Panic ''Txn Timestamp is invalid!'')
                     | Some ts \<Rightarrow>
                         (case data of
                            TxnUser user \<Rightarrow>
                              ans_user_txn ext sdk names_handle records_handle contract (tx_version txn) ts
                                (ut_events user) info st
                          | _ \<Rightarrow> Inr st)))))"

section \<open>A batch\<close>

text \<open>The order in which \<open>into_values\<close> yields the rows of the two maps.\<close>

record ans_order =
  ao_lookups :: "((string \<times> string \<times> string) \<times> current_ans_lookup_v2) list \<Rightarrow> current_ans_lookup_v2 list"
  ao_names :: "((string \<times> string) \<times> current_ans_primary_name_v2) list \<Rightarrow> current_ans_primary_name_v2 list"

definition lookup_order :: "current_ans_lookup_v2 \<Rightarrow> string \<times> string" where
  "lookup_order c = (clv_domain c, clv_subdomain c)"

record ans_rows =
  ar_current_lookups :: "current_ans_lookup_v2 list"
  ar_lookups :: "ans_lookup_v2 list"
  ar_current_names :: "current_ans_primary_name_v2 list"
  ar_names :: "ans_primary_name_v2 list"

definition parse_ans ::
  "extern \<Rightarrow> sdk \<Rightarrow> ans_order \<Rightarrow> transaction list \<Rightarrow> string \<Rightarrow> string \<Rightarrow> string \<Rightarrow> ans_rows result" where
  "parse_ans ext sdk ord txns names_handle records_handle contract =
     and_then (fold_result (parse_ans_txn ext sdk names_handle records_handle contract) txns empty_ans_state) (\<lambda>st.
       Inr \<lparr>ar_current_lookups = sort_key lookup_order (ao_lookups ord (as_current_lookups st)),
         ar_lookups = as_lookups st,
         ar_current_names = sort_key cpv_registered_address (ao_names ord (as_current_names st)),
         ar_names = as_names st\<rparr>)"

definition ans_extract ::
  "extern \<Rightarrow> sdk \<Rightarrow> ans_order \<Rightarrow> ans_processor_config \<Rightarrow> transaction list \<Rightarrow>
   (current_ans_lookup_v2 list \<times> current_ans_primary_name_v2 list) result" where
  "ans_extract ext sdk ord config txns =
     and_then (parse_ans ext sdk ord txns (ans_v1_primary_names_table_handle config)
         (ans_v1_name_records_table_handle config) (ans_v2_contract_address config)) (\<lambda>rows.
       Inr (ar_current_lookups rows, ar_current_names rows))"

section \<open>The storer\<close>

definition take_lookup :: "current_ans_lookup_v2 \<Rightarrow> current_ans_lookup_v2 \<Rightarrow> current_ans_lookup_v2" where
  "take_lookup old n = old\<lparr>clv_registered_address := clv_registered_address n,
     clv_expiration_timestamp := clv_expiration_timestamp n,
     clv_last_transaction_version := clv_last_transaction_version n, clv_token_name := clv_token_name n,
     clv_is_deleted := clv_is_deleted n, clv_subdomain_expiration_policy := clv_subdomain_expiration_policy n\<rparr>"

definition merge_lookup :: "current_ans_lookup_v2 \<Rightarrow> current_ans_lookup_v2 \<Rightarrow> current_ans_lookup_v2" where
  "merge_lookup old n =
     (if sint (clv_last_transaction_version old) \<le> sint (clv_last_transaction_version n) then take_lookup old n else old)"

definition take_name ::
  "current_ans_primary_name_v2 \<Rightarrow> current_ans_primary_name_v2 \<Rightarrow> current_ans_primary_name_v2" where
  "take_name old n = old\<lparr>cpv_domain := cpv_domain n, cpv_subdomain := cpv_subdomain n,
     cpv_token_name := cpv_token_name n, cpv_is_deleted := cpv_is_deleted n,
     cpv_last_transaction_version := cpv_last_transaction_version n\<rparr>"

definition merge_name ::
  "current_ans_primary_name_v2 \<Rightarrow> current_ans_primary_name_v2 \<Rightarrow> current_ans_primary_name_v2" where
  "merge_name old n =
     (if sint (cpv_last_transaction_version old) \<le> sint (cpv_last_transaction_version n) then take_name old n else old)"

record ans_db =
  adb_lookups :: "current_ans_lookup_v2 list"
  adb_names :: "current_ans_primary_name_v2 list"

definition ans_store ::
  "(current_ans_lookup_v2 list \<Rightarrow> current_ans_lookup_v2 list list) \<Rightarrow>
   (current_ans_primary_name_v2 list \<Rightarrow> current_ans_primary_name_v2 list list) \<Rightarrow> u128 \<Rightarrow>
   current_ans_lookup_v2 list \<times> current_ans_primary_name_v2 list \<Rightarrow> ans_db \<Rightarrow> ans_db \<times> error option" where
  "ans_store chunk_l chunk_n flags data db =
     (let (lookups, r1) = run_chunks (insert_do_update clv_pk merge_lookup)
            (chunk_l (filter_data flags (table_flag ''CURRENT_ANS_LOOKUP_V2'') (fst data))) (adb_lookups db);
          (names, r2) = run_chunks (insert_do_update cpv_pk merge_name)
            (chunk_n (filter_data flags (table_flag ''CURRENT_ANS_PRIMARY_NAME_V2'') (snd data))) (adb_names db)
      in (\<lparr>adb_lookups = lookups, adb_names = names\<rparr>, opt_or r1 r2))"

text \<open>
  \<open>try_join!\<close> returns the error of the insertion that fails first.  The model reports an error
  when one of them fails and lets both finish.
\<close>

interpretation lookup_table:
  versioned_table clv_pk "\<lambda>c. sint (clv_last_transaction_version c)" take_lookup merge_lookup
  by unfold_locales (simp_all add: merge_lookup_def take_lookup_def clv_pk_def)

interpretation name_table:
  versioned_table cpv_pk "\<lambda>c. sint (cpv_last_transaction_version c)" take_name merge_name
  by unfold_locales (simp_all add: merge_name_def take_name_def cpv_pk_def)

section \<open>Current rows are the latest rows\<close>

definition current_of_lookup :: "ans_lookup_v2 \<Rightarrow> current_ans_lookup_v2" where
  "current_of_lookup l =
     \<lparr>clv_domain = alv_domain l, clv_subdomain = alv_subdomain l, clv_token_standard = alv_token_standard l,
      clv_registered_address = alv_registered_address l, clv_last_transaction_version = alv_transaction_version l,
      clv_expiration_timestamp = alv_expiration_timestamp l, clv_token_name = alv_token_name l,
      clv_is_deleted = alv_is_deleted l, clv_subdomain_expiration_policy = alv_subdomain_expiration_policy l\<rparr>"

definition current_of_name :: "ans_primary_name_v2 \<Rightarrow> current_ans_primary_name_v2" where
  "current_of_name n =
     \<lparr>cpv_registered_address = apv_registered_address n, cpv_token_standard = apv_token_standard n,
      cpv_domain = apv_domain n, cpv_subdomain = apv_subdomain n, cpv_token_name = apv_token_name n,
      cpv_is_deleted = apv_is_deleted n, cpv_last_transaction_version = apv_transaction_version n\<rparr>"

text \<open>
  Rows are well formed: a lookup carries the name that is composed of its domain and subdomain, a
  deleted one points nowhere, and only version 2 has expiration policies, for subdomains; a primary name has all
  of domain, subdomain and token name or is deleted and has none.
\<close>

definition lookup_ok :: "sdk \<Rightarrow> ans_lookup_v2 \<Rightarrow> bool" where
  "lookup_ok sdk l \<longleftrightarrow>
     alv_token_name l = get_token_name sdk (alv_domain l) (alv_subdomain l) \<and>
     (alv_is_deleted l \<longrightarrow> alv_registered_address l = None \<and> alv_token_standard l = ''v1'') \<and>
     (alv_token_standard l = ''v1'' \<and> alv_subdomain_expiration_policy l = None \<or> alv_token_standard l = ''v2'')"

definition name_ok :: "sdk \<Rightarrow> ans_primary_name_v2 \<Rightarrow> bool" where
  "name_ok sdk n \<longleftrightarrow>
     (if apv_is_deleted n then apv_domain n = None \<and> apv_subdomain n = None \<and> apv_token_name n = None
      else \<exists>d s. apv_domain n = Some d \<and> apv_subdomain n = Some s \<and> apv_token_name n = Some (get_token_name sdk d s)) \<and>
     apv_token_standard n \<in> {''v1'', ''v2''}"

definition lookup_pair :: "sdk \<Rightarrow> current_ans_lookup_v2 \<times> ans_lookup_v2 \<Rightarrow> bool" where
  "lookup_pair sdk p \<longleftrightarrow> fst p = current_of_lookup (snd p) \<and> lookup_ok sdk (snd p)"

definition name_pair :: "sdk \<Rightarrow> current_ans_primary_name_v2 \<times> ans_primary_name_v2 \<Rightarrow> bool" where
  "name_pair sdk p \<longleftrightarrow> fst p = current_of_name (snd p) \<and> name_ok sdk (snd p)"

lemma v1_lookup_pair:
  "lookup_pair sdk (lookup_v2_from_v1 (name_record_rows sdk k registered expiration False version index) ts)"
  "lookup_pair sdk (lookup_v2_from_v1 (name_record_rows sdk k None expiration True version index) ts)"
  by (simp_all add: lookup_pair_def lookup_v2_from_v1_def name_record_rows_def current_of_lookup_def lookup_ok_def
      key_token_name_def)

lemma v1_name_pair:
  "name_pair sdk (primary_name_v2_from_v1 (primary_name_rows address
     (Some (get_domain_trunc sdk k, get_subdomain_trunc sdk k, key_token_name sdk k)) version index) ts)"
  "name_pair sdk (primary_name_v2_from_v1 (primary_name_rows address None version index) ts)"
  by (simp_all add: name_pair_def primary_name_v2_from_v1_def primary_name_rows_def current_of_name_def name_ok_def
      key_token_name_def)

lemma write_table_item_pairs:
  "name_record_from_write_table_item ext sdk h item version index = Inr (Some r) \<Longrightarrow> lookup_pair sdk (lookup_v2_from_v1 r ts)"
  "primary_name_from_write_table_item ext sdk h item version index = Inr (Some n) \<Longrightarrow>
     name_pair sdk (primary_name_v2_from_v1 n ts)"
  by (auto elim!: and_then_InrE simp: name_record_from_write_table_item_def primary_name_from_write_table_item_def
      v1_lookup_pair v1_name_pair split: option.split_asm bool.split_asm if_splits ans_table_item.splits)

lemma delete_table_item_pairs:
  "name_record_from_delete_table_item ext sdk h item version index = Inr (Some r) \<Longrightarrow> lookup_pair sdk (lookup_v2_from_v1 r ts)"
  "primary_name_from_delete_table_item ext h item version index = Inr (Some n) \<Longrightarrow>
     name_pair sdk (primary_name_v2_from_v1 n ts)"
  by (auto elim!: and_then_InrE simp: name_record_from_delete_table_item_def primary_name_from_delete_table_item_def
      v1_lookup_pair v1_name_pair split: option.split_asm bool.split_asm if_splits ans_table_item.splits)

lemma write_resource_pair:
  "name_record_from_write_resource_v2 ext sdk contract wr version index subdomains ts = Inr (Some r) \<Longrightarrow>
     lookup_pair sdk r"
  by (auto elim!: and_then_InrE simp: name_record_from_write_resource_v2_def Let_def lookup_pair_def lookup_ok_def
      current_of_lookup_def split: option.split_asm prod.split_asm)

lemma event_pair:
  "primary_name_v2_from_event ext sdk contract ev version index ts = Inr (Some r) \<Longrightarrow> name_pair sdk r"
  by (auto elim!: and_then_InrE simp: primary_name_v2_from_event_def Let_def name_pair_def name_ok_def
      current_of_name_def get_curr_token_name_def split: option.split_asm)

section \<open>The invariant of the passes\<close>

definition alv_pk :: "ans_lookup_v2 \<Rightarrow> string \<times> string \<times> string" where
  "alv_pk l = (alv_domain l, alv_subdomain l, alv_token_standard l)"

definition apv_pk :: "ans_primary_name_v2 \<Rightarrow> string \<times> string" where
  "apv_pk n = (apv_registered_address n, apv_token_standard n)"

lemma clv_pk_current [simp]: "clv_pk (current_of_lookup l) = alv_pk l"
  by (simp add: clv_pk_def alv_pk_def current_of_lookup_def)

lemma cpv_pk_current [simp]: "cpv_pk (current_of_name n) = apv_pk n"
  by (simp add: cpv_pk_def apv_pk_def current_of_name_def)

definition ans_ok :: "sdk \<Rightarrow> ans_state \<Rightarrow> bool" where
  "ans_ok sdk st \<longleftrightarrow>
     holds_latest alv_pk current_of_lookup (as_lookups st) (as_current_lookups st) \<and>
     holds_latest apv_pk current_of_name (as_names st) (as_current_names st) \<and>
     (\<forall>l \<in> set (as_lookups st). lookup_ok sdk l) \<and> (\<forall>n \<in> set (as_names st). name_ok sdk n)"

lemma push_lookup_ok:
  assumes "ans_ok sdk st" and "\<And>p. r = Some p \<Longrightarrow> lookup_pair sdk p"
  shows "ans_ok sdk (push_lookup r st)"
proof (cases r)
  case (Some p)
  with assms(2) have "lookup_pair sdk p" by simp
  then show ?thesis
    using assms(1) holds_latest_snoc [of alv_pk current_of_lookup "as_lookups st" "as_current_lookups st" "snd p"]
    by (cases p) (simp add: Some push_lookup_def ans_ok_def lookup_pair_def)
qed (use assms in \<open>simp add: push_lookup_def\<close>)

lemma push_name_ok:
  assumes "ans_ok sdk st" and "\<And>p. r = Some p \<Longrightarrow> name_pair sdk p"
  shows "ans_ok sdk (push_name r st)"
proof (cases r)
  case (Some p)
  with assms(2) have "name_pair sdk p" by simp
  then show ?thesis
    using assms(1) holds_latest_snoc [of apv_pk current_of_name "as_names st" "as_current_names st" "snd p"]
    by (cases p) (simp add: Some push_name_def ans_ok_def name_pair_def)
qed (use assms in \<open>simp add: push_name_def\<close>)

lemma ans_event_step_ok:
  "ans_ok sdk st \<Longrightarrow> ans_event_step ext sdk contract version ts iev st = Inr st' \<Longrightarrow> ans_ok sdk st'"
  by (auto elim!: and_then_InrE simp: ans_event_step_def intro!: push_name_ok) (metis event_pair)

lemma ans_change_step_ok:
  "ans_ok sdk st \<Longrightarrow>
     ans_change_step ext sdk names_handle records_handle contract version ts subdomains iwsc st = Inr st' \<Longrightarrow> ans_ok sdk st'"
  by (auto elim!: and_then_InrE simp: ans_change_step_def Let_def intro!: push_name_ok push_lookup_ok
      split: change.splits)
    (metis write_table_item_pairs delete_table_item_pairs write_resource_pair)+

lemma parse_ans_txn_ok:
  assumes "ans_ok sdk st" and "parse_ans_txn ext sdk names_handle records_handle contract txn st = Inr st'"
  shows "ans_ok sdk st'"
proof (cases "st' = st")
  case False
  then obtain version ts events info subdomains st1 where
      1: "fold_result (ans_event_step ext sdk contract version ts) (enumerate 0 events) st = Inr st1"
    and 2: "fold_result (ans_change_step ext sdk names_handle records_handle contract version ts subdomains)
        (enumerate 0 (ti_changes info)) st1 = Inr st'"
    using assms(2) by (auto elim!: and_then_InrE simp: parse_ans_txn_def ans_user_txn_def split: option.splits txn_data.splits)
  have "ans_ok sdk st1"
    using fold_result_inv [where P = "ans_ok sdk", OF _ 1 assms(1)] ans_event_step_ok by blast
  then show ?thesis
    using fold_result_inv [where P = "ans_ok sdk", OF _ 2] ans_change_step_ok by blast
qed (use assms in simp)

definition ans_order_ok :: "ans_order \<Rightarrow> bool" where
  "ans_order_ok ord \<longleftrightarrow>
     (\<forall>m. mset (ao_lookups ord m) = mset (map snd m)) \<and> (\<forall>m. mset (ao_names ord m) = mset (map snd m))"

lemma permuted_latest_values:
  assumes "holds_latest key cur rows m" and "mset vs = mset (map snd m)" and "\<And>r. ckey (cur r) = key r"
  shows "distinct (map ckey (sort_key ord vs))" and "set (sort_key ord vs) = {c. latest key cur rows (ckey c) = Some c}"
proof -
  note v = holds_latest_values [of key cur rows m ckey, OF assms(1,3)]
  have "mset (map ckey vs) = mset (map ckey (map snd m))" using assms(2) by (metis mset_map)
  then have "distinct (map ckey vs)" using v(1) mset_eq_imp_distinct_iff by blast
  then show "distinct (map ckey (sort_key ord vs))" by (rule distinct_map_sort_key)
  show "set (sort_key ord vs) = {c. latest key cur rows (ckey c) = Some c}"
    using v(2) mset_eq_setD [OF assms(2)] by simp
qed

lemma parse_ans_cases:
  assumes "parse_ans ext sdk ord txns names_handle records_handle contract = Inr rows"
  obtains st where "ans_ok sdk st" "ar_lookups rows = as_lookups st" "ar_names rows = as_names st"
    "ar_current_lookups rows = sort_key lookup_order (ao_lookups ord (as_current_lookups st))"
    "ar_current_names rows = sort_key cpv_registered_address (ao_names ord (as_current_names st))"
proof -
  obtain st where st: "fold_result (parse_ans_txn ext sdk names_handle records_handle contract) txns empty_ans_state = Inr st"
      "rows = \<lparr>ar_current_lookups = sort_key lookup_order (ao_lookups ord (as_current_lookups st)),
         ar_lookups = as_lookups st, ar_current_names = sort_key cpv_registered_address (ao_names ord (as_current_names st)),
         ar_names = as_names st\<rparr>"
    using assms by (auto elim!: and_then_InrE simp: parse_ans_def)
  have "ans_ok sdk empty_ans_state" by (simp add: ans_ok_def empty_ans_state_def)
  then have "ans_ok sdk st" using fold_result_inv [where P = "ans_ok sdk", OF _ st(1)] parse_ans_txn_ok by blast
  with st(2) show ?thesis by (intro that) simp_all
qed

lemma parse_ans_currents:
  assumes "parse_ans ext sdk ord txns names_handle records_handle contract = Inr rows" and "ans_order_ok ord"
  shows "distinct (map clv_pk (ar_current_lookups rows))" "distinct (map cpv_pk (ar_current_names rows))"
    "sorted (map lookup_order (ar_current_lookups rows))" "sorted (map cpv_registered_address (ar_current_names rows))"
    "set (ar_current_lookups rows) = {c. latest alv_pk current_of_lookup (ar_lookups rows) (clv_pk c) = Some c}"
    "set (ar_current_names rows) = {c. latest apv_pk current_of_name (ar_names rows) (cpv_pk c) = Some c}"
proof -
  obtain st where st: "ans_ok sdk st" "ar_lookups rows = as_lookups st" "ar_names rows = as_names st"
    "ar_current_lookups rows = sort_key lookup_order (ao_lookups ord (as_current_lookups st))"
    "ar_current_names rows = sort_key cpv_registered_address (ao_names ord (as_current_names st))"
    using assms(1) by (rule parse_ans_cases)
  have l: "holds_latest alv_pk current_of_lookup (as_lookups st) (as_current_lookups st)"
      "mset (ao_lookups ord (as_current_lookups st)) = mset (map snd (as_current_lookups st))"
    and n: "holds_latest apv_pk current_of_name (as_names st) (as_current_names st)"
      "mset (ao_names ord (as_current_names st)) = mset (map snd (as_current_names st))"
    using st(1) assms(2) by (simp_all add: ans_ok_def ans_order_ok_def)
  note L = permuted_latest_values [of _ _ _ _ _ clv_pk, OF l] and N = permuted_latest_values [of _ _ _ _ _ cpv_pk, OF n]
  show "distinct (map clv_pk (ar_current_lookups rows))" "distinct (map cpv_pk (ar_current_names rows))"
    "sorted (map lookup_order (ar_current_lookups rows))" "sorted (map cpv_registered_address (ar_current_names rows))"
    "set (ar_current_lookups rows) = {c. latest alv_pk current_of_lookup (ar_lookups rows) (clv_pk c) = Some c}"
    "set (ar_current_names rows) = {c. latest apv_pk current_of_name (ar_names rows) (cpv_pk c) = Some c}"
    by (simp_all only: st L N clv_pk_current cpv_pk_current sorted_sort_key)
qed

text \<open>
  Claim C36: The rows of a batch are well formed, and its current rows are, per primary key, what the last
  row of the batch for that key says, in whatever order the hash maps are traversed: for names
  the key is domain, subdomain and token standard, for primary names the registered address and
  the token standard.
\<close>

theorem ans_currents_are_latest:
  assumes "parse_ans ext sdk ord txns names_handle records_handle contract = Inr rows" and "ans_order_ok ord"
  shows "distinct (map clv_pk (ar_current_lookups rows)) \<and> distinct (map cpv_pk (ar_current_names rows)) \<and>
    set (ar_current_lookups rows) = {c. latest alv_pk current_of_lookup (ar_lookups rows) (clv_pk c) = Some c} \<and>
    set (ar_current_names rows) = {c. latest apv_pk current_of_name (ar_names rows) (cpv_pk c) = Some c}"
  using parse_ans_currents [OF assms] by blast

text \<open>
  Claim C37: Every extracted row is well formed: its token name is composed of its domain and subdomain, a
  deleted name points to no address, and a primary name has all parts of its name or none.
\<close>

theorem ans_rows_well_formed:
  assumes "parse_ans ext sdk ord txns names_handle records_handle contract = Inr rows"
  shows "list_all (lookup_ok sdk) (ar_lookups rows) \<and> list_all (name_ok sdk) (ar_names rows)"
  using assms by (rule parse_ans_cases) (simp add: ans_ok_def list_all_iff)

section \<open>Storing a batch\<close>

lemma ans_store_distinct:
  assumes "distinct (map clv_pk (fst data))" and "distinct (map cpv_pk (snd data))"
    and "\<And>xs. concat (chunk_l xs) = xs" and "\<And>xs. concat (chunk_n xs) = xs"
  shows "ans_store chunk_l chunk_n flags data db =
    (\<lparr>adb_lookups = fold (upsert clv_pk merge_lookup)
        (filter_data flags (table_flag ''CURRENT_ANS_LOOKUP_V2'') (fst data)) (adb_lookups db),
      adb_names = fold (upsert cpv_pk merge_name)
        (filter_data flags (table_flag ''CURRENT_ANS_PRIMARY_NAME_V2'') (snd data)) (adb_names db)\<rparr>, None)"
  using assms by (simp add: ans_store_def lookup_table.run_chunks_distinct name_table.run_chunks_distinct
      filter_data_distinct opt_or_def)

text \<open>
  The storer accepts every batch, however its rows are cut into chunks and in whatever order the
  hash maps were traversed, and storing the batch again changes nothing.
\<close>

theorem ans_batch_stored_once:
  assumes "ans_extract ext sdk ord config txns = Inr data" and "ans_order_ok ord"
    and "\<And>xs. concat (chunk_l xs) = xs" and "\<And>xs. concat (chunk_n xs) = xs"
  shows "\<exists>db'. ans_store chunk_l chunk_n flags data db = (db', None) \<and>
    ans_store chunk_l chunk_n flags data db' = (db', None)"
proof -
  have d: "distinct (map clv_pk (fst data))" "distinct (map cpv_pk (snd data))"
    using assms(1) parse_ans_currents(1,2) [OF _ assms(2)] by (auto elim!: and_then_InrE simp: ans_extract_def)
  note store = ans_store_distinct [OF d assms(3,4)]
  show ?thesis
    by (simp add: store lookup_table.fold_upsert_twice name_table.fold_upsert_twice filter_data_distinct d)
qed

lemma ans_rows_never_regress:
  shows "find_row clv_pk k (adb_lookups db) = Some r \<Longrightarrow>
      \<exists>r'. find_row clv_pk k (adb_lookups (fst (ans_store chunk_l chunk_n flags data db))) = Some r' \<and>
        sint (clv_last_transaction_version r) \<le> sint (clv_last_transaction_version r')"
    and "find_row cpv_pk a (adb_names db) = Some n \<Longrightarrow>
      \<exists>n'. find_row cpv_pk a (adb_names (fst (ans_store chunk_l chunk_n flags data db))) = Some n' \<and>
        sint (cpv_last_transaction_version n) \<le> sint (cpv_last_transaction_version n')"
  using lookup_table.row_never_regresses name_table.row_never_regresses
  by (simp_all add: ans_store_def Let_def case_prod_unfold)

section \<open>The configured contract address\<close>

text \<open>
  Resources are matched against the standardised address of their type, events against the
  address as the event spells it, and both against the configured address as it is.  A configured
  address that is not in standard form therefore never matches a name record.
\<close>

lemma name_records_need_standard_address:
  assumes "ans_from_write_resource ext contract wr = Inr (Some r)"
  shows "\<exists>a m n. contract @ ''::domains::NameRecord'' = standardize_address ext a @ ''::'' @ m @ ''::'' @ n \<or>
    contract @ ''::domains::SubdomainExt'' = standardize_address ext a @ ''::'' @ m @ ''::'' @ n"
  using assms by (auto elim!: and_then_InrE simp: ans_from_write_resource_def get_outer_type_from_write_resource_def
      get_address_def Let_def split: option.splits if_splits) metis+

section \<open>A sample batch\<close>

definition sample_ans_world :: extern where
  "sample_ans_world = sample_world\<lparr>standardize_address := (\<lambda>a. a), json_from_str := map_of
     [(''key'', JObject [(''domain_name'', JString ''bob''), (''subdomain_name'', JObject [(''vec'', JArray [JString ''pay''])])]),
      (''rec'', JObject [(''expiration_time_sec'', JString ''7''), (''property_version'', JString ''0''),
        (''target_address'', JObject [(''vec'', JArray [JString ''0xa''])])]),
      (''set'', JObject [(''account_addr'', JString ''0xa''), (''curr_domain_name'', JObject [(''vec'', JArray [])]),
        (''curr_expiration_time_secs'', JObject [(''vec'', JArray [])]),
        (''curr_subdomain_name'', JObject [(''vec'', JArray [])]),
        (''prev_domain_name'', JObject [(''vec'', JArray [])]),
        (''prev_expiration_time_secs'', JObject [(''vec'', JArray [])]),
        (''prev_subdomain_name'', JObject [(''vec'', JArray [])])])]\<rparr>"

definition sample_ans_txn :: transaction where
  "sample_ans_txn = (sample_user_txn 5
     [WriteTableItem \<lparr>wt_state_key_hash = [1], wt_handle = ''0xr'', wt_key = ''key'',
        wt_data = Some \<lparr>wtd_key = ''key'', wtd_key_type = ''NameRecordKeyV1'',
          wtd_value = ''rec'', wtd_value_type = ''NameRecordV1''\<rparr>\<rparr>,
      DeleteTableItem \<lparr>dt_state_key_hash = [1], dt_handle = ''0xr'', dt_key = ''key'',
        dt_data = Some \<lparr>dtd_key = ''key'', dtd_key_type = ''NameRecordKeyV1''\<rparr>\<rparr>])
     \<lparr>tx_data := Some (TxnUser \<lparr>ut_events = [\<lparr>ev_key = None, ev_sequence_number = 0,
         ev_type_str = ''0xc::domains::SetReverseLookupEvent'', ev_data = ''set''\<rparr>],
        ut_request = Some sample_request\<rparr>)\<rparr>"

definition sample_ans_order :: ans_order where
  "sample_ans_order = \<lparr>ao_lookups = (\<lambda>m. rev (map snd m)), ao_names = map snd\<rparr>"

lemma sample_ans_order_ok: "ans_order_ok sample_ans_order"
  by (simp add: ans_order_ok_def sample_ans_order_def)

definition sample_ans_rows :: "ans_rows result" where
  "sample_ans_rows = parse_ans sample_ans_world sample_sdk sample_ans_order [sample_ans_txn] ''0xp'' ''0xr'' ''0xc''"

lemma sample_ans_runs:
  obtains rows where
    "parse_ans sample_ans_world sample_sdk sample_ans_order [sample_ans_txn] ''0xp'' ''0xr'' ''0xc'' = Inr rows"
    "map (\<lambda>c. (clv_pk c, clv_is_deleted c)) (ar_current_lookups rows) = [((''bob'', ''pay'', ''v1''), True)]"
    "map alv_registered_address (ar_lookups rows) = [Some ''0xa'', None]"
    "map alv_token_name (ar_lookups rows) = [''pay.bob.move'', ''pay.bob.move'']"
    "map (\<lambda>c. (cpv_pk c, cpv_is_deleted c)) (ar_current_names rows) = [((''0xa'', ''v2''), True)]"
    "length (ar_names rows) = 1"
proof -
  have "(case sample_ans_rows of
      Inl _ \<Rightarrow> False
    | Inr rows \<Rightarrow>
        map (\<lambda>c. (clv_pk c, clv_is_deleted c)) (ar_current_lookups rows) = [((''bob'', ''pay'', ''v1''), True)] \<and>
        map alv_registered_address (ar_lookups rows) = [Some ''0xa'', None] \<and>
        map alv_token_name (ar_lookups rows) = [''pay.bob.move'', ''pay.bob.move''] \<and>
        map (\<lambda>c. (cpv_pk c, cpv_is_deleted c)) (ar_current_names rows) = [((''0xa'', ''v2''), True)] \<and>
        length (ar_names rows) = 1)"
    by code_simp
  then show ?thesis by (cases sample_ans_rows) (auto simp: sample_ans_rows_def intro: that)
qed

theorem ans_currents_are_latest_witness:
  "\<exists>rows. parse_ans sample_ans_world sample_sdk sample_ans_order [sample_ans_txn] ''0xp'' ''0xr'' ''0xc'' = Inr rows \<and>
     length (ar_lookups rows) = 2 \<and> map clv_is_deleted (ar_current_lookups rows) = [True] \<and>
     set (ar_current_lookups rows) = {c. latest alv_pk current_of_lookup (ar_lookups rows) (clv_pk c) = Some c}"
proof -
  obtain rows where run: "parse_ans sample_ans_world sample_sdk sample_ans_order [sample_ans_txn] ''0xp'' ''0xr'' ''0xc'' = Inr rows"
    and r: "map (\<lambda>c. (clv_pk c, clv_is_deleted c)) (ar_current_lookups rows) = [((''bob'', ''pay'', ''v1''), True)]"
      "map alv_registered_address (ar_lookups rows) = [Some ''0xa'', None]"
    by (rule sample_ans_runs)
  have "length (ar_lookups rows) = 2" using arg_cong [OF r(2), of length] by simp
  moreover have "map clv_is_deleted (ar_current_lookups rows) = [True]" using r(1) by (auto simp: map_eq_Cons_conv)
  ultimately show ?thesis
    using ans_currents_are_latest [OF run sample_ans_order_ok] run by (intro exI [of _ rows] conjI) simp_all
qed

theorem ans_rows_well_formed_witness:
  "\<exists>rows. parse_ans sample_ans_world sample_sdk sample_ans_order [sample_ans_txn] ''0xp'' ''0xr'' ''0xc'' = Inr rows \<and>
     length (ar_lookups rows) = 2 \<and> length (ar_names rows) = 1 \<and>
     list_all (lookup_ok sample_sdk) (ar_lookups rows) \<and> list_all (name_ok sample_sdk) (ar_names rows)"
proof -
  obtain rows where run: "parse_ans sample_ans_world sample_sdk sample_ans_order [sample_ans_txn] ''0xp'' ''0xr'' ''0xc'' = Inr rows"
    and r: "map alv_registered_address (ar_lookups rows) = [Some ''0xa'', None]" "length (ar_names rows) = 1"
    by (rule sample_ans_runs)
  have "length (ar_lookups rows) = 2" using arg_cong [OF r(1), of length] by simp
  with ans_rows_well_formed [OF run] run r(2) show ?thesis by blast
qed

definition sample_ans_config :: ans_processor_config where
  "sample_ans_config = \<lparr>ans_default = default_default_processor_config, ans_v1_primary_names_table_handle = ''0xp'',
     ans_v1_name_records_table_handle = ''0xr'', ans_v2_contract_address = ''0xc''\<rparr>"

theorem ans_batch_stored_once_witness:
  "\<exists>data db'. ans_extract sample_ans_world sample_sdk sample_ans_order sample_ans_config [sample_ans_txn] = Inr data \<and>
     length (fst data) = 1 \<and>
     ans_store (map (\<lambda>x. [x])) (\<lambda>xs. [xs]) 0 data \<lparr>adb_lookups = [], adb_names = []\<rparr> = (db', None) \<and>
     ans_store (map (\<lambda>x. [x])) (\<lambda>xs. [xs]) 0 data db' = (db', None)"
proof -
  obtain rows where run: "parse_ans sample_ans_world sample_sdk sample_ans_order [sample_ans_txn] ''0xp'' ''0xr'' ''0xc'' = Inr rows"
    and r: "map (\<lambda>c. (clv_pk c, clv_is_deleted c)) (ar_current_lookups rows) = [((''bob'', ''pay'', ''v1''), True)]"
    by (rule sample_ans_runs)
  have data: "ans_extract sample_ans_world sample_sdk sample_ans_order sample_ans_config [sample_ans_txn] =
      Inr (ar_current_lookups rows, ar_current_names rows)"
    by (simp add: ans_extract_def sample_ans_config_def run)
  have "length (ar_current_lookups rows) = 1" using arg_cong [OF r, of length] by simp
  with ans_batch_stored_once [OF data sample_ans_order_ok, of "map (\<lambda>x. [x])" "\<lambda>xs. [xs]" 0
      "\<lparr>adb_lookups = [], adb_names = []\<rparr>"] data show ?thesis by auto
qed

end
