(* ===== verification/StakeModels.thy ===== *)
theory StakeModels
  imports CoinResources UserTransactions RowMaps
begin

text \<open>
  The rows of the stake processor that are read from one transaction without the database:
  \<open>processors/stake/models\<close>, resources, table items and events of staking pools, votes, activities
  and pools.

  \<open>BigDecimal\<close> division is rounded by its library, so it is a parameter \<open>dv\<close>; it panics when the
  divisor is zero.
\<close>

section \<open>Resources, table items and events\<close>

definition stake_addr :: string where
  "stake_addr = ''0x0000000000000000000000000000000000000000000000000000000000000001''"

record stake_pool_resource =
  spr_delegated_voter :: string
  spr_operator_address :: string

record pool_resource =
  plr_shares_inner :: string
  plr_total_coins :: decimal
  plr_total_shares :: decimal
  plr_scaling_factor :: decimal

record delegation_pool_resource =
  dpr_active_shares :: pool_resource
  dpr_inactive_shares :: string
  dpr_operator_commission_percentage :: decimal

text \<open>A \<open>Table\<close> is its handle.\<close>

definition read_table :: "json \<Rightarrow> string \<Rightarrow> string option" where
  "read_table v k = opt_and_then (json_get v k) (\<lambda>t. json_str t ''handle'')"

definition get_handle :: "extern \<Rightarrow> string \<Rightarrow> string" where
  "get_handle ext handle = standardize_address ext handle"

definition read_stake_pool :: "json \<Rightarrow> stake_pool_resource option" where
  "read_stake_pool v =
     (case (json_str v ''delegated_voter'', json_str v ''operator_address'') of
        (Some d, Some a) \<Rightarrow> Some \<lparr>spr_delegated_voter = d, spr_operator_address = a\<rparr> | _ \<Rightarrow> None)"

definition read_pool :: "extern \<Rightarrow> json \<Rightarrow> pool_resource option" where
  "read_pool ext v =
     (case (opt_and_then (json_get v ''shares'') (\<lambda>s. read_table s ''inner''), json_decimal ext v ''total_coins'',
            json_decimal ext v ''total_shares'', json_decimal ext v ''scaling_factor'') of
        (Some h, Some c, Some s, Some f) \<Rightarrow>
          Some \<lparr>plr_shares_inner = h, plr_total_coins = c, plr_total_shares = s, plr_scaling_factor = f\<rparr>
      | _ \<Rightarrow> None)"

definition read_delegation_pool :: "extern \<Rightarrow> json \<Rightarrow> delegation_pool_resource option" where
  "read_delegation_pool ext v =
     (case (opt_and_then (json_get v ''active_shares'') (read_pool ext), read_table v ''inactive_shares'',
            json_decimal ext v ''operator_commission_percentage'') of
        (Some a, Some i, Some p) \<Rightarrow>
          Some \<lparr>dpr_active_shares = a, dpr_inactive_shares = i, dpr_operator_commission_percentage = p\<rparr>
      | _ \<Rightarrow> None)"

definition pool_from_table_item_type :: "extern \<Rightarrow> string \<Rightarrow> string \<Rightarrow> pool_resource option result" where
  "pool_from_table_item_type ext data_type data =
     (if data_type = ''0x1::pool_u64_unbound::Pool'' then
        parsed_event (opt_and_then (json_from_str ext data) (read_pool ext))
      else Inr None)"

datatype stake_resource = StakePool stake_pool_resource | DelegationPool delegation_pool_resource

definition type_stake_pool :: string where
  "type_stake_pool = stake_addr @ ''::stake::StakePool''"

definition type_delegation_pool :: string where
  "type_delegation_pool = stake_addr @ ''::delegation_pool::DelegationPool''"

definition is_stake_resource_supported :: "string \<Rightarrow> bool" where
  "is_stake_resource_supported ty \<longleftrightarrow> ty \<in> set [type_stake_pool, type_delegation_pool]"

definition stake_from_resource :: "extern \<Rightarrow> string \<Rightarrow> json \<Rightarrow> stake_resource result" where
  "stake_from_resource ext ty data =
     (if ty = type_stake_pool then
        (case read_stake_pool data of
           None \<Rightarrow> Inl (ProcessError ''failed to parse type'') | Some i \<Rightarrow> Inr (StakePool i))
      else if ty = type_delegation_pool then
        (case read_delegation_pool ext data of
           None \<Rightarrow> Inl (ProcessError ''failed to parse type'') | Some i \<Rightarrow> Inr (DelegationPool i))
      else Inl (ProcessError ''Resource unsupported! Call is_resource_supported first.''))"

definition stake_from_write_resource ::
  "extern \<Rightarrow> write_resource \<Rightarrow> i64 \<Rightarrow> datetime \<Rightarrow> stake_resource option result" where
  "stake_from_write_resource ext wr version ts =
     and_then (get_outer_type_from_write_resource ext wr) (\<lambda>ty.
       if \<not> is_stake_resource_supported ty then Inr None
       else
         and_then (move_resource_from_write_resource ext wr 0 version 0 ts) (\<lambda>res.
           case res of
             None \<Rightarrow> Inr None
           | Some resource \<Rightarrow>
               and_then (unwrap (mr_data resource)) (\<lambda>data.
               and_then (stake_from_resource ext ty data) (\<lambda>r. Inr (Some r)))))"

record governance_vote_event =
  gv_proposal_id :: u64
  gv_voter :: string
  gv_stake_pool :: string
  gv_num_votes :: decimal
  gv_should_pass :: bool

record delegation_event =
  de_amount :: u64
  de_delegator_address :: string
  de_pool_address :: string

datatype stake_event = GovernanceVoteEvent governance_vote_event
  | DistributeRewardsEvent string u64
  | AddStakeEvent delegation_event
  | UnlockStakeEvent delegation_event
  | WithdrawStakeEvent delegation_event
  | ReactivateStakeEvent delegation_event

definition json_u64 :: "json \<Rightarrow> string \<Rightarrow> u64 option" where
  "json_u64 v k = opt_and_then (json_str v k) parse_u64"

definition read_governance_vote :: "extern \<Rightarrow> json \<Rightarrow> governance_vote_event option" where
  "read_governance_vote ext v =
     (case (json_u64 v ''proposal_id'', json_str v ''voter'', json_str v ''stake_pool'',
            json_decimal ext v ''num_votes'', json_bool v ''should_pass'') of
        (Some p, Some t, Some s, Some n, Some b) \<Rightarrow>
          Some \<lparr>gv_proposal_id = p, gv_voter = t, gv_stake_pool = s, gv_num_votes = n, gv_should_pass = b\<rparr>
      | _ \<Rightarrow> None)"

definition read_distribute_rewards :: "json \<Rightarrow> stake_event option" where
  "read_distribute_rewards v =
     (case (json_str v ''pool_address'', json_u64 v ''rewards_amount'') of
        (Some p, Some n) \<Rightarrow> Some (DistributeRewardsEvent p n) | _ \<Rightarrow> None)"

definition read_delegation_event :: "string \<Rightarrow> json \<Rightarrow> delegation_event option" where
  "read_delegation_event amount_field v =
     (case (json_u64 v amount_field, json_str v ''delegator_address'', json_str v ''pool_address'') of
        (Some n, Some d, Some p) \<Rightarrow> Some \<lparr>de_amount = n, de_delegator_address = d, de_pool_address = p\<rparr>
      | _ \<Rightarrow> None)"

text \<open>
  The four delegation events differ in the name of their amount: \<open>amount_added\<close>,
  \<open>amount_unlocked\<close>, \<open>amount_withdrawn\<close>, \<open>amount_reactivated\<close>.
\<close>

definition stake_event_from_event :: "extern \<Rightarrow> string \<Rightarrow> string \<Rightarrow> stake_event option result" where
  "stake_event_from_event ext data_type data =
     (let read = (\<lambda>r. parsed_event (opt_and_then (json_from_str ext data) r))
      in if data_type \<in> set [''0x1::aptos_governance::VoteEvent'', ''0x1::aptos_governance::Vote''] then
           read (\<lambda>v. map_option GovernanceVoteEvent (read_governance_vote ext v))
         else if data_type \<in> set [''0x1::stake::DistributeRewardsEvent'', ''0x1::stake::DistributeRewards''] then
           read read_distribute_rewards
         else if data_type \<in> set [''0x1::delegation_pool::AddStakeEvent'', ''0x1::delegation_pool::AddStake''] then
           read (\<lambda>v. map_option AddStakeEvent (read_delegation_event ''amount_added'' v))
         else if data_type \<in> set [''0x1::delegation_pool::UnlockStakeEvent'', ''0x1::delegation_pool::UnlockStake''] then
           read (\<lambda>v. map_option UnlockStakeEvent (read_delegation_event ''amount_unlocked'' v))
         else if data_type \<in> set [''0x1::delegation_pool::WithdrawStakeEvent'', ''0x1::delegation_pool::WithdrawStake''] then
           read (\<lambda>v. map_option WithdrawStakeEvent (read_delegation_event ''amount_withdrawn'' v))
         else if data_type \<in> set [''0x1::delegation_pool::ReactivateStakeEvent'', ''0x1::delegation_pool::ReactivateStake''] then
           read (\<lambda>v. map_option ReactivateStakeEvent (read_delegation_event ''amount_reactivated'' v))
         else Inr None)"

record vote_delegation =
  vd_key :: string
  vd_voter :: string
  vd_pending_voter :: string

definition read_vote_delegation :: "json \<Rightarrow> vote_delegation option" where
  "read_vote_delegation v =
     (case (json_str v ''key'', opt_and_then (json_get v ''value'') (\<lambda>w. json_str w ''voter''),
            opt_and_then (json_get v ''value'') (\<lambda>w. json_str w ''pending_voter'')) of
        (Some k, Some t, Some p) \<Rightarrow> Some \<lparr>vd_key = k, vd_voter = t, vd_pending_voter = p\<rparr> | _ \<Rightarrow> None)"

definition vote_delegations_from_table_item_type ::
  "extern \<Rightarrow> string \<Rightarrow> string \<Rightarrow> vote_delegation list option result" where
  "vote_delegations_from_table_item_type ext data_type data =
     (if data_type = ''vector<0x1::smart_table::Entry<address, 0x1::delegation_pool::VoteDelegation>>'' then
        parsed_event (opt_and_then (opt_and_then (json_from_str ext data) json_as_array)
          (\<lambda>xs. those (map read_vote_delegation xs)))
      else Inr None)"

text \<open>
  \<open>GovernanceRecords\<close> is read down to the handle of its \<open>vote_delegation\<close> buckets.  The data of
  every resource is unwrapped before its type is looked at.
\<close>

definition governance_records_from_write_resource ::
  "extern \<Rightarrow> write_resource \<Rightarrow> i64 \<Rightarrow> datetime \<Rightarrow> string option result" where
  "governance_records_from_write_resource ext wr version ts =
     and_then (get_outer_type_from_write_resource ext wr) (\<lambda>ty.
     and_then (move_resource_from_write_resource ext wr 0 version 0 ts) (\<lambda>res.
       case res of
         None \<Rightarrow> Inr None
       | Some resource \<Rightarrow>
           and_then (unwrap (mr_data resource)) (\<lambda>data.
             if ty = stake_addr @ ''::delegation_pool::GovernanceRecords'' then
               parsed_event (opt_and_then (opt_and_then (json_get data ''vote_delegation'')
                   (\<lambda>v. json_get v ''buckets'')) (\<lambda>b. read_table b ''inner''))
             else Inr None)))"

section \<open>Voters of staking pools\<close>

record current_staking_pool_voter =
  spv_staking_pool_address :: string
  spv_voter_address :: string
  spv_last_transaction_version :: i64
  spv_operator_address :: string
  spv_block_timestamp :: datetime

definition voter_change ::
  "extern \<Rightarrow> i64 \<Rightarrow> datetime \<Rightarrow> change option \<Rightarrow> (string \<times> current_staking_pool_voter) list \<Rightarrow>
   (string \<times> current_staking_pool_voter) list result" where
  "voter_change ext version ts wsc m =
     and_then (unwrap wsc) (\<lambda>c.
       case c of
         WriteResource wr \<Rightarrow>
           and_then (stake_from_write_resource ext wr version ts) (\<lambda>r.
             Inr (case r of
                    Some (StakePool inner) \<Rightarrow>
                      (let address = standardize_address ext (wr_address wr)
                       in AList.update address
                            \<lparr>spv_staking_pool_address = address,
                             spv_voter_address = standardize_address ext (spr_delegated_voter inner),
                             spv_last_transaction_version = version,
                             spv_operator_address = standardize_address ext (spr_operator_address inner),
                             spv_block_timestamp = ts\<rparr> m)
                  | _ \<Rightarrow> m))
       | _ \<Rightarrow> Inr m)"

definition voters_from_transaction ::
  "extern \<Rightarrow> transaction \<Rightarrow> (string \<times> current_staking_pool_voter) list result" where
  "voters_from_transaction ext txn =
     (case tx_timestamp txn of
        None \<Rightarrow> Inl (Panic ''Transaction timestamp doesn't exist!'')
      | Some timestamp \<Rightarrow>
          and_then (unwrap (tx_info txn)) (\<lambda>info.
            fold_result (voter_change ext (tx_version txn) (parse_timestamp ext timestamp (tx_version txn)))
              (ti_changes info) []))"

section \<open>Votes\<close>

record proposal_vote =
  pvt_transaction_version :: i64
  pvt_proposal_id :: i64
  pvt_voter_address :: string
  pvt_staking_pool_address :: string
  pvt_num_votes :: decimal
  pvt_should_pass :: bool
  pvt_transaction_timestamp :: datetime

definition vote_from_event ::
  "extern \<Rightarrow> transaction \<Rightarrow> event \<Rightarrow> proposal_vote list \<Rightarrow> proposal_vote list result" where
  "vote_from_event ext txn ev votes =
     and_then (stake_event_from_event ext (ev_type_str ev) (ev_data ev)) (\<lambda>e.
       case e of
         Some (GovernanceVoteEvent v) \<Rightarrow>
           and_then (unwrap (tx_timestamp txn)) (\<lambda>timestamp.
             Inr (votes @
               [\<lparr>pvt_transaction_version = tx_version txn, pvt_proposal_id = gv_proposal_id v,
                 pvt_voter_address = standardize_address ext (gv_voter v),
                 pvt_staking_pool_address = standardize_address ext (gv_stake_pool v),
                 pvt_num_votes = gv_num_votes v, pvt_should_pass = gv_should_pass v,
                 pvt_transaction_timestamp = parse_timestamp ext timestamp (tx_version txn)\<rparr>]))
       | _ \<Rightarrow> Inr votes)"

definition votes_from_transaction :: "extern \<Rightarrow> transaction \<Rightarrow> proposal_vote list result" where
  "votes_from_transaction ext txn =
     (case tx_data txn of
        Some (TxnUser user) \<Rightarrow> fold_result (vote_from_event ext txn) (ut_events user) []
      | _ \<Rightarrow> Inr [])"

section \<open>Activities\<close>

record staking_activity =
  dsa_transaction_version :: i64
  dsa_event_index :: i64
  dsa_delegator_address :: string
  dsa_pool_address :: string
  dsa_event_type :: string
  dsa_amount :: decimal
  dsa_block_timestamp :: datetime

primrec activity_parts :: "extern \<Rightarrow> stake_event \<Rightarrow> (string \<times> string \<times> u64) option" where
  "activity_parts ext (AddStakeEvent e) =
     Some (standardize_address ext (de_delegator_address e), standardize_address ext (de_pool_address e), de_amount e)"
| "activity_parts ext (UnlockStakeEvent e) =
     Some (standardize_address ext (de_delegator_address e), standardize_address ext (de_pool_address e), de_amount e)"
| "activity_parts ext (WithdrawStakeEvent e) =
     Some (standardize_address ext (de_delegator_address e), standardize_address ext (de_pool_address e), de_amount e)"
| "activity_parts ext (ReactivateStakeEvent e) =
     Some (standardize_address ext (de_delegator_address e), standardize_address ext (de_pool_address e), de_amount e)"
| "activity_parts ext (DistributeRewardsEvent pool amount) = Some ('''', standardize_address ext pool, amount)"
| "activity_parts ext (GovernanceVoteEvent v) = None"

definition activity_from_event ::
  "extern \<Rightarrow> i64 \<Rightarrow> datetime \<Rightarrow> nat \<times> event \<Rightarrow> staking_activity list \<Rightarrow> staking_activity list result" where
  "activity_from_event ext version ts iev activities =
     and_then (stake_event_from_event ext (ev_type_str (snd iev)) (ev_data (snd iev))) (\<lambda>e.
       Inr (case opt_and_then e (activity_parts ext) of
              None \<Rightarrow> activities
            | Some (delegator, pool, amount) \<Rightarrow>
                activities @
                  [\<lparr>dsa_transaction_version = version, dsa_event_index = of_nat (fst iev),
                    dsa_delegator_address = delegator, dsa_pool_address = pool,
                    dsa_event_type = ev_type_str (snd iev), dsa_amount = of_int (uint amount),
                    dsa_block_timestamp = ts\<rparr>]))"

definition activities_from_transaction :: "extern \<Rightarrow> transaction \<Rightarrow> staking_activity list result" where
  "activities_from_transaction ext txn =
     (case (case tx_data txn of
              Some (TxnUser user) \<Rightarrow> Some (ut_events user)
            | Some (TxnBlockMetadata block) \<Rightarrow> Some (bm_events block)
            | Some (TxnValidator events) \<Rightarrow> Some events
            | _ \<Rightarrow> None) of
        None \<Rightarrow> Inr []
      | Some events \<Rightarrow>
          and_then (unwrap (tx_timestamp txn)) (\<lambda>timestamp.
            fold_result (activity_from_event ext (tx_version txn) (parse_timestamp ext timestamp (tx_version txn)))
              (enumerate 0 events) []))"

section \<open>Pools\<close>

record delegator_pool =
  dlp_staking_pool_address :: string
  dlp_first_transaction_version :: i64

record delegator_pool_balance_metadata =
  dpm_transaction_version :: i64
  dpm_staking_pool_address :: string
  dpm_total_coins :: decimal
  dpm_total_shares :: decimal
  dpm_scaling_factor :: decimal
  dpm_operator_commission_percentage :: decimal
  dpm_active_share_table_handle :: string
  dpm_inactive_share_table_handle :: string

record pool_balance_metadata =
  plm_transaction_version :: i64
  plm_total_coins :: decimal
  plm_total_shares :: decimal
  plm_scaling_factor :: decimal
  plm_shares_table_handle :: string
  plm_parent_table_handle :: string

record delegator_pool_balance =
  dpb_transaction_version :: i64
  dpb_staking_pool_address :: string
  dpb_total_coins :: decimal
  dpb_total_shares :: decimal
  dpb_operator_commission_percentage :: decimal
  dpb_inactive_table_handle :: string
  dpb_active_table_handle :: string

record current_delegator_pool_balance =
  cdp_staking_pool_address :: string
  cdp_total_coins :: decimal
  cdp_total_shares :: decimal
  cdp_last_transaction_version :: i64
  cdp_operator_commission_percentage :: decimal
  cdp_inactive_table_handle :: string
  cdp_active_table_handle :: string

type_synonym division = "decimal \<Rightarrow> decimal \<Rightarrow> decimal"

definition big_div :: "division \<Rightarrow> decimal \<Rightarrow> decimal \<Rightarrow> decimal result" where
  "big_div dv x y = (if y = 0 then Inl (Panic ''Division by zero'') else Inr (dv x y))"

definition delegated_pool_metadata ::
  "extern \<Rightarrow> division \<Rightarrow> write_resource \<Rightarrow> i64 \<Rightarrow> datetime \<Rightarrow> delegator_pool_balance_metadata option result" where
  "delegated_pool_metadata ext dv wr version ts =
     and_then (stake_from_write_resource ext wr version ts) (\<lambda>r.
       case r of
         Some (DelegationPool inner) \<Rightarrow>
           (let active = dpr_active_shares inner
            in and_then (big_div dv (plr_total_shares active) (plr_scaling_factor active)) (\<lambda>total_shares.
                 Inr (Some
                   \<lparr>dpm_transaction_version = version, dpm_staking_pool_address = standardize_address ext (wr_address wr),
                    dpm_total_coins = plr_total_coins active, dpm_total_shares = total_shares,
                    dpm_scaling_factor = plr_scaling_factor active,
                    dpm_operator_commission_percentage = dpr_operator_commission_percentage inner,
                    dpm_active_share_table_handle = get_handle ext (plr_shares_inner active),
                    dpm_inactive_share_table_handle = get_handle ext (dpr_inactive_shares inner)\<rparr>)))
       | _ \<Rightarrow> Inr None)"

definition inactive_pool_metadata ::
  "extern \<Rightarrow> division \<Rightarrow> write_table_item \<Rightarrow> i64 \<Rightarrow> pool_balance_metadata option result" where
  "inactive_pool_metadata ext dv item version =
     and_then (unwrap (wt_data item)) (\<lambda>data.
     and_then (pool_from_table_item_type ext (wtd_value_type data) (wtd_value data)) (\<lambda>r.
       case r of
         None \<Rightarrow> Inr None
       | Some inner \<Rightarrow>
           and_then (big_div dv (plr_total_shares inner) (plr_scaling_factor inner)) (\<lambda>total_shares.
             Inr (Some
               \<lparr>plm_transaction_version = version, plm_total_coins = plr_total_coins inner,
                plm_total_shares = total_shares, plm_scaling_factor = plr_scaling_factor inner,
                plm_shares_table_handle = get_handle ext (plr_shares_inner inner),
                plm_parent_table_handle = standardize_address ext (wt_handle item)\<rparr>))))"

definition pool_from_write_resource ::
  "extern \<Rightarrow> division \<Rightarrow> write_resource \<Rightarrow> i64 \<Rightarrow> datetime \<Rightarrow>
   (delegator_pool \<times> delegator_pool_balance \<times> current_delegator_pool_balance) option result" where
  "pool_from_write_resource ext dv wr version ts =
     and_then (delegated_pool_metadata ext dv wr version ts) (\<lambda>r.
       Inr (case r of
              None \<Rightarrow> None
            | Some b \<Rightarrow> Some
                (\<lparr>dlp_staking_pool_address = dpm_staking_pool_address b,
                  dlp_first_transaction_version = dpm_transaction_version b\<rparr>,
                 \<lparr>dpb_transaction_version = dpm_transaction_version b,
                  dpb_staking_pool_address = dpm_staking_pool_address b, dpb_total_coins = dpm_total_coins b,
                  dpb_total_shares = dpm_total_shares b,
                  dpb_operator_commission_percentage = dpm_operator_commission_percentage b,
                  dpb_inactive_table_handle = dpm_inactive_share_table_handle b,
                  dpb_active_table_handle = dpm_active_share_table_handle b\<rparr>,
                 \<lparr>cdp_staking_pool_address = dpm_staking_pool_address b, cdp_total_coins = dpm_total_coins b,
                  cdp_total_shares = dpm_total_shares b, cdp_last_transaction_version = dpm_transaction_version b,
                  cdp_operator_commission_percentage = dpm_operator_commission_percentage b,
                  cdp_inactive_table_handle = dpm_inactive_share_table_handle b,
                  cdp_active_table_handle = dpm_active_share_table_handle b\<rparr>)))"

type_synonym pool_rows =
  "(string \<times> delegator_pool) list \<times> delegator_pool_balance list \<times> (string \<times> current_delegator_pool_balance) list"

definition pool_change ::
  "extern \<Rightarrow> division \<Rightarrow> i64 \<Rightarrow> datetime \<Rightarrow> change option \<Rightarrow> pool_rows \<Rightarrow> pool_rows result" where
  "pool_change ext dv version ts wsc rows =
     and_then (unwrap wsc) (\<lambda>c.
       case c of
         WriteResource wr \<Rightarrow>
           and_then (pool_from_write_resource ext dv wr version ts) (\<lambda>r.
             Inr (case (r, rows) of
                    (None, _) \<Rightarrow> rows
                  | (Some (pool, balance, current), (pools, balances, currents)) \<Rightarrow>
                      (AList.update (dlp_staking_pool_address pool) pool pools, balances @ [balance],
                       AList.update (dlp_staking_pool_address pool) current currents)))
       | _ \<Rightarrow> Inr rows)"

definition pools_from_transaction :: "extern \<Rightarrow> division \<Rightarrow> transaction \<Rightarrow> pool_rows result" where
  "pools_from_transaction ext dv txn =
     (case tx_data txn of
        None \<Rightarrow> Inr ([], [], [])
      | Some data \<Rightarrow>
          (case tx_timestamp txn of
             None \<Rightarrow> Inl (Panic ''Transaction timestamp doesn't exist!'')
           | Some timestamp \<Rightarrow>
               (case data of
                  TxnUser user \<Rightarrow>
                    (case tx_info txn of
                       None \<Rightarrow> Inl (Panic ''Transaction info doesn't exist!'')
                     | Some info \<Rightarrow>
                         fold_result (pool_change ext dv (tx_version txn)
                           (parse_timestamp ext timestamp (tx_version txn))) (ti_changes info) ([], [], []))
                | _ \<Rightarrow> Inr ([], [], []))))"

end
