(* ===== verification/StakeBalances.thy ===== *)
theory StakeBalances
  imports StakeModels DefaultProcessor
begin

text \<open>
  Balances of delegators and their voters (\<open>delegator_balances.rs\<close>, \<open>current_delegated_voter.rs\<close>),
  which need lookups in the database, and \<open>parse_stake_data\<close>, which reads a batch.

  A staking pool keeps active shares in one table and, per lockup cycle, inactive shares in a
  table of their own, found through a table of pools.  Handles are resolved from the changes of
  the batch or, failing that, from rows stored earlier.
\<close>

section \<open>Queries\<close>

text \<open>
  The answers of the three queries may differ at every attempt and for every change (given by
  version and index) that asks.
\<close>

record stake_db =
  sdb_query_retries :: nat
  sdb_by_inactive_share_handle :: "i64 \<Rightarrow> nat \<Rightarrow> nat \<Rightarrow> string \<Rightarrow> string option"
  sdb_by_table_handle :: "i64 \<Rightarrow> nat \<Rightarrow> nat \<Rightarrow> string \<Rightarrow> string option"
  sdb_by_pk :: "i64 \<Rightarrow> nat \<Rightarrow> nat \<Rightarrow> string \<times> string \<Rightarrow> unit option"

function query_with_retries :: "(nat \<Rightarrow> 'a option) \<Rightarrow> nat \<Rightarrow> nat \<Rightarrow> 'a option" where
  "query_with_retries query retries tried =
     (if tried < retries then
        (case query (tried + 1) of
           Some r \<Rightarrow> Some r
         | None \<Rightarrow> query_with_retries query retries (tried + 1))
      else None)"
  by pat_completeness auto

termination
  by (relation "measure (\<lambda>(query, retries, tried). retries - tried)") auto

declare query_with_retries.simps [simp del]

definition get_staking_pool_from_inactive_share_handle ::
  "stake_db \<Rightarrow> i64 \<Rightarrow> nat \<Rightarrow> string \<Rightarrow> string option" where
  "get_staking_pool_from_inactive_share_handle db version index handle =
     query_with_retries (\<lambda>tried. sdb_by_inactive_share_handle db version index tried handle) (sdb_query_retries db) 0"

definition get_delegation_pool_address_by_table_handle ::
  "stake_db \<Rightarrow> i64 \<Rightarrow> nat \<Rightarrow> string \<Rightarrow> string option" where
  "get_delegation_pool_address_by_table_handle db version index handle =
     query_with_retries (\<lambda>tried. sdb_by_table_handle db version index tried handle) (sdb_query_retries db) 0"

definition get_existence_by_pk :: "stake_db \<Rightarrow> i64 \<Rightarrow> nat \<Rightarrow> string \<Rightarrow> string \<Rightarrow> bool" where
  "get_existence_by_pk db version index delegator pool \<longleftrightarrow>
     query_with_retries (\<lambda>tried. sdb_by_pk db version index tried (delegator, pool)) (sdb_query_retries db) 0 \<noteq> None"

section \<open>Balances of delegators\<close>

record current_delegator_balance =
  cdl_delegator_address :: string
  cdl_pool_address :: string
  cdl_pool_type :: string
  cdl_table_handle :: string
  cdl_last_transaction_version :: i64
  cdl_shares :: decimal
  cdl_parent_table_handle :: string
  cdl_block_timestamp :: datetime

record delegator_balance =
  dlb_transaction_version :: i64
  dlb_write_set_change_index :: i64
  dlb_delegator_address :: string
  dlb_pool_address :: string
  dlb_pool_type :: string
  dlb_table_handle :: string
  dlb_shares :: decimal
  dlb_parent_table_handle :: string
  dlb_block_timestamp :: datetime

type_synonym share_to_staking_pool = "string \<rightharpoonup> delegator_pool_balance_metadata"
type_synonym share_to_pool = "string \<rightharpoonup> pool_balance_metadata"

definition balance_rows ::
  "i64 \<Rightarrow> nat \<Rightarrow> datetime \<Rightarrow> string \<Rightarrow> string \<Rightarrow> string \<Rightarrow> string \<Rightarrow> decimal \<Rightarrow> string \<Rightarrow> string \<Rightarrow>
   delegator_balance \<times> current_delegator_balance" where
  "balance_rows version index ts delegator pool pool_type handle shares parent current_parent =
     (\<lparr>dlb_transaction_version = version, dlb_write_set_change_index = of_nat index,
       dlb_delegator_address = delegator, dlb_pool_address = pool, dlb_pool_type = pool_type,
       dlb_table_handle = handle, dlb_shares = shares, dlb_parent_table_handle = parent, dlb_block_timestamp = ts\<rparr>,
      \<lparr>cdl_delegator_address = delegator, cdl_pool_address = pool, cdl_pool_type = pool_type,
       cdl_table_handle = handle, cdl_last_transaction_version = version, cdl_shares = shares,
       cdl_parent_table_handle = current_parent, cdl_block_timestamp = ts\<rparr>)"

definition written_shares ::
  "extern \<Rightarrow> sdk \<Rightarrow> division \<Rightarrow> write_table_item \<Rightarrow> i64 \<Rightarrow> datetime \<Rightarrow> decimal \<Rightarrow> decimal result" where
  "written_shares ext sdk dv item version ts scaling_factor =
     and_then (from_write_table_item ext sdk item 0 version 0 ts) (\<lambda>(base, _).
     and_then (postgres_table_item_of ext base) (\<lambda>table_item.
     and_then (unwrap (pti_decoded_value table_item)) (\<lambda>decoded.
     and_then (unwrap (json_as_str decoded)) (\<lambda>s.
       case decimal_from_str ext s of
         None \<Rightarrow> Inl (ProcessError ''cannot parse string as u128'')
       | Some shares \<Rightarrow> big_div dv shares scaling_factor))))"

definition active_share_from_write ::
  "extern \<Rightarrow> sdk \<Rightarrow> division \<Rightarrow> write_table_item \<Rightarrow> i64 \<Rightarrow> nat \<Rightarrow> share_to_staking_pool \<Rightarrow> datetime \<Rightarrow>
   (delegator_balance \<times> current_delegator_balance) option result" where
  "active_share_from_write ext sdk dv item version index active_pools ts =
     (let handle = standardize_address ext (wt_handle item)
      in case active_pools handle of
           None \<Rightarrow> Inr None
         | Some pool_balance \<Rightarrow>
             and_then (written_shares ext sdk dv item version ts (dpm_scaling_factor pool_balance)) (\<lambda>shares.
               Inr (Some (balance_rows version index ts (standardize_address ext (wt_key item))
                 (dpm_staking_pool_address pool_balance) ''active_shares'' handle shares handle handle))))"

definition inactive_share_from_write ::
  "extern \<Rightarrow> sdk \<Rightarrow> division \<Rightarrow> stake_db \<Rightarrow> write_table_item \<Rightarrow> i64 \<Rightarrow> nat \<Rightarrow> share_to_staking_pool \<Rightarrow>
   share_to_pool \<Rightarrow> datetime \<Rightarrow> (delegator_balance \<times> current_delegator_balance) option result" where
  "inactive_share_from_write ext sdk dv db item version index inactive_pools inactive_shares ts =
     (let handle = standardize_address ext (wt_handle item)
      in case inactive_shares handle of
           None \<Rightarrow> Inr None
         | Some pool_balance \<Rightarrow>
             (let inactive_handle = plm_parent_table_handle pool_balance
              in case (case inactive_pools inactive_handle of
                         Some m \<Rightarrow> Some (dpm_staking_pool_address m)
                       | None \<Rightarrow> get_staking_pool_from_inactive_share_handle db version index inactive_handle) of
                   None \<Rightarrow> Inr None
                 | Some pool \<Rightarrow>
                     and_then (written_shares ext sdk dv item version ts (plm_scaling_factor pool_balance)) (\<lambda>shares.
                       Inr (Some (balance_rows version index ts (standardize_address ext (wt_key item)) pool
                         ''inactive_shares'' handle shares inactive_handle inactive_handle)))))"

definition active_share_from_delete ::
  "extern \<Rightarrow> delete_table_item \<Rightarrow> i64 \<Rightarrow> nat \<Rightarrow> share_to_staking_pool \<Rightarrow> datetime \<Rightarrow>
   (delegator_balance \<times> current_delegator_balance) option" where
  "active_share_from_delete ext item version index active_pools ts =
     (let handle = standardize_address ext (dt_handle item)
      in map_option (\<lambda>pool_balance. balance_rows version index ts (standardize_address ext (dt_key item))
           (dpm_staking_pool_address pool_balance) ''active_shares'' handle 0 handle handle) (active_pools handle))"

definition inactive_share_from_delete ::
  "extern \<Rightarrow> stake_db \<Rightarrow> delete_table_item \<Rightarrow> i64 \<Rightarrow> nat \<Rightarrow> share_to_staking_pool \<Rightarrow> share_to_pool \<Rightarrow> datetime \<Rightarrow>
   (delegator_balance \<times> current_delegator_balance) option result" where
  "inactive_share_from_delete ext db item version index inactive_pools inactive_shares ts =
     (let handle = standardize_address ext (dt_handle item)
      in case inactive_shares handle of
           None \<Rightarrow> Inr None
         | Some pool_balance \<Rightarrow>
             (let inactive_handle = plm_parent_table_handle pool_balance
              in case (case inactive_pools inactive_handle of
                         Some m \<Rightarrow> Some (dpm_staking_pool_address m)
                       | None \<Rightarrow> get_staking_pool_from_inactive_share_handle db version index inactive_handle) of
                   None \<Rightarrow> Inl (ProcessError ''Failed to get staking pool from inactive share handle'')
                 | Some pool \<Rightarrow>
                     Inr (Some (balance_rows version index ts (standardize_address ext (dt_key item)) pool
                       ''inactive_shares'' handle 0 inactive_handle handle))))"

definition inactive_maps_change ::
  "extern \<Rightarrow> division \<Rightarrow> i64 \<Rightarrow> datetime \<Rightarrow> change option \<Rightarrow> share_to_staking_pool \<times> share_to_pool \<Rightarrow>
   (share_to_staking_pool \<times> share_to_pool) result" where
  "inactive_maps_change ext dv version ts wsc maps =
     and_then (unwrap wsc) (\<lambda>c.
       case c of
         WriteResource wr \<Rightarrow>
           and_then (expect_ok (delegated_pool_metadata ext dv wr version ts)) (\<lambda>r.
             Inr (case r of
                    None \<Rightarrow> maps
                  | Some b \<Rightarrow> ((fst maps)(dpm_inactive_share_table_handle b \<mapsto> b), snd maps)))
       | WriteTableItem item \<Rightarrow>
           and_then (expect_ok (inactive_pool_metadata ext dv item version)) (\<lambda>r.
             Inr (case r of
                    None \<Rightarrow> maps
                  | Some b \<Rightarrow> (fst maps, (snd maps)(plm_shares_table_handle b \<mapsto> b))))
       | _ \<Rightarrow> Inr maps)"

definition cdl_key :: "current_delegator_balance \<Rightarrow> string \<times> string \<times> string" where
  "cdl_key c = (cdl_delegator_address c, cdl_pool_address c, cdl_pool_type c)"

type_synonym balance_state =
  "delegator_balance list \<times> ((string \<times> string \<times> string) \<times> current_delegator_balance) list"

definition maybe_delegator_balance ::
  "extern \<Rightarrow> sdk \<Rightarrow> division \<Rightarrow> stake_db \<Rightarrow> i64 \<Rightarrow> datetime \<Rightarrow> share_to_staking_pool \<Rightarrow> share_to_staking_pool \<Rightarrow>
   share_to_pool \<Rightarrow> nat \<Rightarrow> change \<Rightarrow> (delegator_balance \<times> current_delegator_balance) option result" where
  "maybe_delegator_balance ext sdk dv db version ts active_pools inactive_pools inactive_shares index c =
     (case c of
        DeleteTableItem item \<Rightarrow>
          (case active_share_from_delete ext item version index active_pools ts of
             Some b \<Rightarrow> Inr (Some b)
           | None \<Rightarrow> expect_ok (inactive_share_from_delete ext db item version index inactive_pools inactive_shares ts))
      | WriteTableItem item \<Rightarrow>
          and_then (expect_ok (active_share_from_write ext sdk dv item version index active_pools ts)) (\<lambda>r.
            case r of
              Some b \<Rightarrow> Inr (Some b)
            | None \<Rightarrow> expect_ok (inactive_share_from_write ext sdk dv db item version index inactive_pools
                inactive_shares ts))
      | _ \<Rightarrow> Inr None)"

definition balance_change ::
  "extern \<Rightarrow> sdk \<Rightarrow> division \<Rightarrow> stake_db \<Rightarrow> i64 \<Rightarrow> datetime \<Rightarrow> share_to_staking_pool \<Rightarrow> share_to_staking_pool \<Rightarrow>
   share_to_pool \<Rightarrow> nat \<times> change option \<Rightarrow> balance_state \<Rightarrow> balance_state result" where
  "balance_change ext sdk dv db version ts active_pools inactive_pools inactive_shares iwsc st =
     and_then (unwrap (snd iwsc)) (\<lambda>c.
     and_then (maybe_delegator_balance ext sdk dv db version ts active_pools inactive_pools inactive_shares
         (fst iwsc) c) (\<lambda>r.
       Inr (case r of
              None \<Rightarrow> st
            | Some (b, current) \<Rightarrow> (fst st @ [b], AList.update (cdl_key current) current (snd st)))))"

definition balances_from_transaction ::
  "extern \<Rightarrow> sdk \<Rightarrow> division \<Rightarrow> stake_db \<Rightarrow> transaction \<Rightarrow> share_to_staking_pool \<Rightarrow> balance_state result" where
  "balances_from_transaction ext sdk dv db txn active_pools =
     and_then (unwrap (tx_timestamp txn)) (\<lambda>timestamp.
     and_then (unwrap (tx_info txn)) (\<lambda>info.
       let version = tx_version txn; ts = parse_timestamp ext timestamp version
       in and_then (fold_result (inactive_maps_change ext dv version ts) (ti_changes info) (Map.empty, Map.empty)) (\<lambda>maps.
            fold_result (balance_change ext sdk dv db version ts active_pools (fst maps) (snd maps))
              (enumerate 0 (ti_changes info)) ([], []))))"

section \<open>Voters of delegators\<close>

record current_delegated_voter =
  cdv_delegation_pool_address :: string
  cdv_delegator_address :: string
  cdv_table_handle :: "string option"
  cdv_voter :: "string option"
  cdv_pending_voter :: "string option"
  cdv_last_transaction_version :: i64
  cdv_last_transaction_timestamp :: datetime

definition cdv_pk :: "current_delegated_voter \<Rightarrow> string \<times> string" where
  "cdv_pk v = (cdv_delegation_pool_address v, cdv_delegator_address v)"

type_synonym voter_map = "((string \<times> string) \<times> current_delegated_voter) list"

definition delegated_voter_row ::
  "extern \<Rightarrow> string \<Rightarrow> string \<Rightarrow> i64 \<Rightarrow> datetime \<Rightarrow> vote_delegation \<Rightarrow> current_delegated_voter" where
  "delegated_voter_row ext pool handle version ts inner =
     \<lparr>cdv_delegation_pool_address = pool, cdv_delegator_address = standardize_address ext (vd_key inner),
      cdv_table_handle = Some handle, cdv_voter = Some (standardize_address ext (vd_voter inner)),
      cdv_pending_voter = Some (standardize_address ext (vd_pending_voter inner)),
      cdv_last_transaction_version = version, cdv_last_transaction_timestamp = ts\<rparr>"

definition delegated_voters_from_write_table_item ::
  "extern \<Rightarrow> stake_db \<Rightarrow> write_table_item \<Rightarrow> i64 \<Rightarrow> nat \<Rightarrow> datetime \<Rightarrow> (string \<rightharpoonup> string) \<Rightarrow> voter_map result" where
  "delegated_voters_from_write_table_item ext db item version index ts handles =
     and_then (unwrap (wt_data item)) (\<lambda>data.
       let handle = standardize_address ext (wt_handle item)
       in and_then (vote_delegations_from_table_item_type ext (wtd_value_type data) (wtd_value data)) (\<lambda>r.
            Inr (case r of
                   None \<Rightarrow> []
                 | Some delegations \<Rightarrow>
                     (let pool = (case handles handle of
                            Some p \<Rightarrow> p
                          | None \<Rightarrow> unwrap_or (get_delegation_pool_address_by_table_handle db version index handle) [])
                      in if pool \<noteq> [] then
                           fold (\<lambda>inner. let v = delegated_voter_row ext pool handle version ts inner
                               in AList.update (cdv_pk v) v) delegations []
                         else []))))"

definition delegator_pre_contract_deployment ::
  "extern \<Rightarrow> sdk \<Rightarrow> division \<Rightarrow> stake_db \<Rightarrow> write_table_item \<Rightarrow> i64 \<Rightarrow> nat \<Rightarrow> datetime \<Rightarrow> share_to_staking_pool \<Rightarrow>
   voter_map \<Rightarrow> current_delegated_voter option result" where
  "delegator_pre_contract_deployment ext sdk dv db item version index ts active_pools voters =
     and_then (active_share_from_write ext sdk dv item version 0 active_pools ts) (\<lambda>r.
       Inr (case r of
              None \<Rightarrow> None
            | Some (_, active) \<Rightarrow>
                (let pool = cdl_pool_address active; delegator = cdl_delegator_address active;
                     already_exists = (case map_of voters (pool, delegator) of
                         Some _ \<Rightarrow> True | None \<Rightarrow> get_existence_by_pk db version index delegator pool)
                 in if already_exists then None
                    else Some \<lparr>cdv_delegation_pool_address = pool, cdv_delegator_address = delegator,
                           cdv_table_handle = None, cdv_voter = Some delegator, cdv_pending_voter = Some delegator,
                           cdv_last_transaction_version = version, cdv_last_transaction_timestamp = ts\<rparr>)))"

section \<open>A batch\<close>

record stake_state =
  ss_voters :: "(string \<times> current_staking_pool_voter) list"
  ss_votes :: "proposal_vote list"
  ss_activities :: "staking_activity list"
  ss_balances :: "delegator_balance list"
  ss_current_balances :: "((string \<times> string \<times> string) \<times> current_delegator_balance) list"
  ss_pools :: "(string \<times> delegator_pool) list"
  ss_pool_balances :: "delegator_pool_balance list"
  ss_current_pool_balances :: "(string \<times> current_delegator_pool_balance) list"
  ss_active_pools :: share_to_staking_pool
  ss_delegated_voters :: voter_map
  ss_vote_handles :: "string \<rightharpoonup> string"

definition empty_stake_state :: stake_state where
  "empty_stake_state = \<lparr>ss_voters = [], ss_votes = [], ss_activities = [], ss_balances = [],
     ss_current_balances = [], ss_pools = [], ss_pool_balances = [], ss_current_pool_balances = [],
     ss_active_pools = Map.empty, ss_delegated_voters = [], ss_vote_handles = Map.empty\<rparr>"

definition stake_metadata_change ::
  "extern \<Rightarrow> division \<Rightarrow> i64 \<Rightarrow> datetime \<Rightarrow> change option \<Rightarrow> stake_state \<Rightarrow> stake_state result" where
  "stake_metadata_change ext dv version ts wsc st =
     and_then (unwrap wsc) (\<lambda>c.
       case c of
         WriteResource wr \<Rightarrow>
           and_then (governance_records_from_write_resource ext wr version ts) (\<lambda>g.
           and_then (expect_ok (delegated_pool_metadata ext dv wr version ts)) (\<lambda>m.
             let st1 = (case g of
                   None \<Rightarrow> st
                 | Some handle \<Rightarrow> st\<lparr>ss_vote_handles :=
                     (ss_vote_handles st)(get_handle ext handle \<mapsto> standardize_address ext (wr_address wr))\<rparr>)
             in Inr (case m of
                       None \<Rightarrow> st1
                     | Some b \<Rightarrow> st1\<lparr>ss_active_pools := (ss_active_pools st1)(dpm_active_share_table_handle b \<mapsto> b)\<rparr>)))
       | _ \<Rightarrow> Inr st)"

definition delegated_voter_change ::
  "extern \<Rightarrow> stake_db \<Rightarrow> i64 \<Rightarrow> datetime \<Rightarrow> nat \<times> change option \<Rightarrow> stake_state \<Rightarrow> stake_state result" where
  "delegated_voter_change ext db version ts iwsc st =
     and_then (unwrap (snd iwsc)) (\<lambda>c.
       case c of
         WriteTableItem item \<Rightarrow>
           and_then (expect_ok (delegated_voters_from_write_table_item ext db item version (fst iwsc) ts
               (ss_vote_handles st))) (\<lambda>m.
             Inr (st\<lparr>ss_delegated_voters := extend_map m (ss_delegated_voters st)\<rparr>))
       | _ \<Rightarrow> Inr st)"

definition default_voter_change ::
  "extern \<Rightarrow> sdk \<Rightarrow> division \<Rightarrow> stake_db \<Rightarrow> i64 \<Rightarrow> datetime \<Rightarrow> nat \<times> change option \<Rightarrow> stake_state \<Rightarrow> stake_state result" where
  "default_voter_change ext sdk dv db version ts iwsc st =
     and_then (unwrap (snd iwsc)) (\<lambda>c.
       case c of
         WriteTableItem item \<Rightarrow>
           and_then (expect_ok (delegator_pre_contract_deployment ext sdk dv db item version (fst iwsc) ts
               (ss_active_pools st) (ss_delegated_voters st))) (\<lambda>r.
             Inr (case r of
                    None \<Rightarrow> st
                  | Some v \<Rightarrow> st\<lparr>ss_delegated_voters := AList.update (cdv_pk v) v (ss_delegated_voters st)\<rparr>))
       | _ \<Rightarrow> Inr st)"

definition stake_votes_and_pools :: "extern \<Rightarrow> division \<Rightarrow> transaction \<Rightarrow> stake_state \<Rightarrow> stake_state result" where
  "stake_votes_and_pools ext dv txn st =
     and_then (expect_ok (voters_from_transaction ext txn)) (\<lambda>voters.
     and_then (expect_ok (votes_from_transaction ext txn)) (\<lambda>votes.
     and_then (expect_ok (activities_from_transaction ext txn)) (\<lambda>activities.
     and_then (expect_ok (pools_from_transaction ext dv txn)) (\<lambda>(pools, balances, currents).
       Inr (st\<lparr>ss_voters := extend_map voters (ss_voters st), ss_votes := ss_votes st @ votes,
         ss_activities := ss_activities st @ activities, ss_pools := extend_map pools (ss_pools st),
         ss_pool_balances := ss_pool_balances st @ balances,
         ss_current_pool_balances := extend_map currents (ss_current_pool_balances st)\<rparr>)))))"

definition stake_balances_and_voters ::
  "extern \<Rightarrow> sdk \<Rightarrow> division \<Rightarrow> stake_db \<Rightarrow> transaction \<Rightarrow> transaction_info \<Rightarrow> datetime \<Rightarrow> stake_state \<Rightarrow> stake_state result" where
  "stake_balances_and_voters ext sdk dv db txn info ts st =
     and_then (expect_ok (balances_from_transaction ext sdk dv db txn (ss_active_pools st))) (\<lambda>(balances, currents).
     and_then (fold_result (delegated_voter_change ext db (tx_version txn) ts) (enumerate 0 (ti_changes info))
         (st\<lparr>ss_balances := ss_balances st @ balances,
            ss_current_balances := extend_map currents (ss_current_balances st)\<rparr>)) (\<lambda>st1.
       fold_result (default_voter_change ext sdk dv db (tx_version txn) ts) (enumerate 0 (ti_changes info)) st1))"

definition parse_stake_txn ::
  "extern \<Rightarrow> sdk \<Rightarrow> division \<Rightarrow> stake_db option \<Rightarrow> transaction \<Rightarrow> stake_state \<Rightarrow> stake_state result" where
  "parse_stake_txn ext sdk dv conn txn st =
     and_then (unwrap (tx_timestamp txn)) (\<lambda>timestamp.
       let ts = parse_timestamp ext timestamp (tx_version txn)
       in and_then (stake_votes_and_pools ext dv txn st) (\<lambda>st1.
            case tx_info txn of
              None \<Rightarrow> Inl (Panic ''Transaction info doesn't exist!'')
            | Some info \<Rightarrow>
                and_then (fold_result (stake_metadata_change ext dv (tx_version txn) ts) (ti_changes info) st1) (\<lambda>st2.
                  case conn of
                    None \<Rightarrow> Inr st2
                  | Some db \<Rightarrow> stake_balances_and_voters ext sdk dv db txn info ts st2)))"

record stake_data =
  sd_voters :: "current_staking_pool_voter list"
  sd_votes :: "proposal_vote list"
  sd_activities :: "staking_activity list"
  sd_balances :: "delegator_balance list"
  sd_current_balances :: "current_delegator_balance list"
  sd_pools :: "delegator_pool list"
  sd_pool_balances :: "delegator_pool_balance list"
  sd_current_pool_balances :: "current_delegator_pool_balance list"
  sd_delegated_voters :: "current_delegated_voter list"

definition parse_stake_data ::
  "extern \<Rightarrow> sdk \<Rightarrow> division \<Rightarrow> stake_db option \<Rightarrow> transaction list \<Rightarrow> stake_data result" where
  "parse_stake_data ext sdk dv conn txns =
     and_then (fold_result (parse_stake_txn ext sdk dv conn) txns empty_stake_state) (\<lambda>st.
       Inr \<lparr>sd_voters = sort_key spv_staking_pool_address (map snd (ss_voters st)),
         sd_votes = ss_votes st, sd_activities = ss_activities st, sd_balances = ss_balances st,
         sd_current_balances = sort_key cdl_key (map snd (ss_current_balances st)),
         sd_pools = sort_key dlp_staking_pool_address (map snd (ss_pools st)),
         sd_pool_balances = ss_pool_balances st,
         sd_current_pool_balances = sort_key cdp_staking_pool_address (map snd (ss_current_pool_balances st)),
         sd_delegated_voters = sort_key (\<lambda>v. (cdv_delegator_address v, cdv_delegation_pool_address v))
           (map snd (ss_delegated_voters st))\<rparr>)"

end
