(* ===== verification/StakeProcessor.thy ===== *)
theory StakeProcessor
  imports StakeBalances BatchStore
begin

text \<open>
  Extractor and storer of the stake processor (\<open>stake_extractor.rs\<close>, \<open>stake_storer.rs\<close>) and what a
  batch becomes: current pool balances are the latest ones, a batch is stored for every way of
  cutting its nine tables into chunks, a default voter is only made up for delegators nothing is
  known about.  Three properties state behaviour that looks unintended: a batch keeps one current
  balance per delegator, pool and type although the table has one per share table; a pool's first
  version is the last version of the batch that wrote it; the row of a deleted inactive share
  names the wrong parent table.
\<close>

section \<open>The extractor\<close>

record postgres_staking_pool_voter =
  ppv_staking_pool_address :: string
  ppv_voter_address :: string
  ppv_last_transaction_version :: i64
  ppv_operator_address :: string

record postgres_staking_activity =
  psa_transaction_version :: i64
  psa_event_index :: i64
  psa_delegator_address :: string
  psa_pool_address :: string
  psa_event_type :: string
  psa_amount :: decimal

record postgres_delegator_balance =
  pdl_transaction_version :: i64
  pdl_write_set_change_index :: i64
  pdl_delegator_address :: string
  pdl_pool_address :: string
  pdl_pool_type :: string
  pdl_table_handle :: string
  pdl_shares :: decimal
  pdl_parent_table_handle :: string

record postgres_current_delegator_balance =
  pcb_delegator_address :: string
  pcb_pool_address :: string
  pcb_pool_type :: string
  pcb_table_handle :: string
  pcb_last_transaction_version :: i64
  pcb_shares :: decimal
  pcb_parent_table_handle :: string

definition postgres_staking_pool_voter_of :: "current_staking_pool_voter \<Rightarrow> postgres_staking_pool_voter" where
  "postgres_staking_pool_voter_of b =
     \<lparr>ppv_staking_pool_address = spv_staking_pool_address b, ppv_voter_address = spv_voter_address b,
      ppv_last_transaction_version = spv_last_transaction_version b, ppv_operator_address = spv_operator_address b\<rparr>"

definition postgres_staking_activity_of :: "staking_activity \<Rightarrow> postgres_staking_activity" where
  "postgres_staking_activity_of b =
     \<lparr>psa_transaction_version = dsa_transaction_version b, psa_event_index = dsa_event_index b,
      psa_delegator_address = dsa_delegator_address b, psa_pool_address = dsa_pool_address b,
      psa_event_type = dsa_event_type b, psa_amount = dsa_amount b\<rparr>"

definition postgres_delegator_balance_of :: "delegator_balance \<Rightarrow> postgres_delegator_balance" where
  "postgres_delegator_balance_of b =
     \<lparr>pdl_transaction_version = dlb_transaction_version b, pdl_write_set_change_index = dlb_write_set_change_index b,
      pdl_delegator_address = dlb_delegator_address b, pdl_pool_address = dlb_pool_address b,
      pdl_pool_type = dlb_pool_type b, pdl_table_handle = dlb_table_handle b, pdl_shares = dlb_shares b,
      pdl_parent_table_handle = dlb_parent_table_handle b\<rparr>"

definition postgres_current_delegator_balance_of :: "current_delegator_balance \<Rightarrow> postgres_current_delegator_balance" where
  "postgres_current_delegator_balance_of b =
     \<lparr>pcb_delegator_address = cdl_delegator_address b, pcb_pool_address = cdl_pool_address b,
      pcb_pool_type = cdl_pool_type b, pcb_table_handle = cdl_table_handle b,
      pcb_last_transaction_version = cdl_last_transaction_version b, pcb_shares = cdl_shares b,
      pcb_parent_table_handle = cdl_parent_table_handle b\<rparr>"

record stake_tables =
  st_voters :: "postgres_staking_pool_voter list"
  st_votes :: "proposal_vote list"
  st_activities :: "postgres_staking_activity list"
  st_balances :: "postgres_delegator_balance list"
  st_current_balances :: "postgres_current_delegator_balance list"
  st_pools :: "delegator_pool list"
  st_pool_balances :: "delegator_pool_balance list"
  st_current_pool_balances :: "current_delegator_pool_balance list"
  st_delegated_voters :: "current_delegated_voter list"

text \<open>
  The Postgres rows of votes, pools, pool balances and delegated voters have the fields of the raw
  rows.  \<open>stake_tables\<close> is both what a batch hands to the storer and the state of the database.
\<close>

definition stake_extract ::
  "extern \<Rightarrow> sdk \<Rightarrow> division \<Rightarrow> stake_db option \<Rightarrow> transaction list \<Rightarrow> stake_tables result" where
  "stake_extract ext sdk dv conn txns =
     (case conn of
        None \<Rightarrow> Inl (DBStoreError ''Failed to get connection from pool'')
      | Some db \<Rightarrow>
          (case parse_stake_data ext sdk dv (Some db) txns of
             Inl (ProcessError m) \<Rightarrow> Inl (ProcessError ''Error parsing stake data'')
           | Inl e \<Rightarrow> Inl e
           | Inr d \<Rightarrow> Inr
               \<lparr>st_voters = map postgres_staking_pool_voter_of (sd_voters d), st_votes = sd_votes d,
                st_activities = map postgres_staking_activity_of (sd_activities d),
                st_balances = map postgres_delegator_balance_of (sd_balances d),
                st_current_balances = map postgres_current_delegator_balance_of (sd_current_balances d),
                st_pools = sd_pools d, st_pool_balances = sd_pool_balances d,
                st_current_pool_balances = sd_current_pool_balances d,
                st_delegated_voters = sd_delegated_voters d\<rparr>))"

section \<open>The storer\<close>

definition take_pool_voter :: "postgres_staking_pool_voter \<Rightarrow> postgres_staking_pool_voter \<Rightarrow> postgres_staking_pool_voter" where
  "take_pool_voter old n = old\<lparr>ppv_staking_pool_address := ppv_staking_pool_address n,
     ppv_voter_address := ppv_voter_address n, ppv_last_transaction_version := ppv_last_transaction_version n,
     ppv_operator_address := ppv_operator_address n\<rparr>"

definition merge_pool_voter :: "postgres_staking_pool_voter \<Rightarrow> postgres_staking_pool_voter \<Rightarrow> postgres_staking_pool_voter" where
  "merge_pool_voter old n =
     (if sint (ppv_last_transaction_version old) \<le> sint (ppv_last_transaction_version n)
      then take_pool_voter old n else old)"

definition vote_pk :: "proposal_vote \<Rightarrow> i64 \<times> i64 \<times> string" where
  "vote_pk v = (pvt_transaction_version v, pvt_proposal_id v, pvt_voter_address v)"

definition activity_pk :: "postgres_staking_activity \<Rightarrow> i64 \<times> i64" where
  "activity_pk a = (psa_transaction_version a, psa_event_index a)"

definition balance_pk :: "postgres_delegator_balance \<Rightarrow> i64 \<times> i64" where
  "balance_pk b = (pdl_transaction_version b, pdl_write_set_change_index b)"

definition current_balance_pk :: "postgres_current_delegator_balance \<Rightarrow> string \<times> string \<times> string \<times> string" where
  "current_balance_pk b =
     (pcb_delegator_address b, pcb_pool_address b, pcb_pool_type b, pcb_table_handle b)"

definition take_current_balance ::
  "postgres_current_delegator_balance \<Rightarrow> postgres_current_delegator_balance \<Rightarrow> postgres_current_delegator_balance" where
  "take_current_balance old n = old\<lparr>pcb_last_transaction_version := pcb_last_transaction_version n,
     pcb_shares := pcb_shares n, pcb_parent_table_handle := pcb_parent_table_handle n\<rparr>"

definition merge_current_balance ::
  "postgres_current_delegator_balance \<Rightarrow> postgres_current_delegator_balance \<Rightarrow> postgres_current_delegator_balance" where
  "merge_current_balance old n =
     (if sint (pcb_last_transaction_version old) \<le> sint (pcb_last_transaction_version n)
      then take_current_balance old n else old)"

definition take_pool :: "delegator_pool \<Rightarrow> delegator_pool \<Rightarrow> delegator_pool" where
  "take_pool old n = old\<lparr>dlp_first_transaction_version := dlp_first_transaction_version n\<rparr>"

definition merge_pool :: "delegator_pool \<Rightarrow> delegator_pool \<Rightarrow> delegator_pool" where
  "merge_pool old n =
     (if sint (dlp_first_transaction_version old) \<ge> sint (dlp_first_transaction_version n)
      then take_pool old n else old)"

definition pool_balance_pk :: "delegator_pool_balance \<Rightarrow> i64 \<times> string" where
  "pool_balance_pk b = (dpb_transaction_version b, dpb_staking_pool_address b)"

definition take_current_pool ::
  "current_delegator_pool_balance \<Rightarrow> current_delegator_pool_balance \<Rightarrow> current_delegator_pool_balance" where
  "take_current_pool old n = old\<lparr>cdp_total_coins := cdp_total_coins n, cdp_total_shares := cdp_total_shares n,
     cdp_last_transaction_version := cdp_last_transaction_version n,
     cdp_operator_commission_percentage := cdp_operator_commission_percentage n,
     cdp_inactive_table_handle := cdp_inactive_table_handle n, cdp_active_table_handle := cdp_active_table_handle n\<rparr>"

definition merge_current_pool ::
  "current_delegator_pool_balance \<Rightarrow> current_delegator_pool_balance \<Rightarrow> current_delegator_pool_balance" where
  "merge_current_pool old n =
     (if sint (cdp_last_transaction_version old) \<le> sint (cdp_last_transaction_version n)
      then take_current_pool old n else old)"

definition take_delegated_voter ::
  "current_delegated_voter \<Rightarrow> current_delegated_voter \<Rightarrow> current_delegated_voter" where
  "take_delegated_voter old n = old\<lparr>cdv_voter := cdv_voter n, cdv_pending_voter := cdv_pending_voter n,
     cdv_last_transaction_timestamp := cdv_last_transaction_timestamp n,
     cdv_last_transaction_version := cdv_last_transaction_version n, cdv_table_handle := cdv_table_handle n\<rparr>"

definition merge_delegated_voter ::
  "current_delegated_voter \<Rightarrow> current_delegated_voter \<Rightarrow> current_delegated_voter" where
  "merge_delegated_voter old n =
     (if sint (cdv_last_transaction_version old) \<le> sint (cdv_last_transaction_version n)
      then take_delegated_voter old n else old)"

record stake_chunks =
  sc_voters :: "postgres_staking_pool_voter list \<Rightarrow> postgres_staking_pool_voter list list"
  sc_votes :: "proposal_vote list \<Rightarrow> proposal_vote list list"
  sc_activities :: "postgres_staking_activity list \<Rightarrow> postgres_staking_activity list list"
  sc_balances :: "postgres_delegator_balance list \<Rightarrow> postgres_delegator_balance list list"
  sc_current_balances :: "postgres_current_delegator_balance list \<Rightarrow> postgres_current_delegator_balance list list"
  sc_pools :: "delegator_pool list \<Rightarrow> delegator_pool list list"
  sc_pool_balances :: "delegator_pool_balance list \<Rightarrow> delegator_pool_balance list list"
  sc_current_pool_balances :: "current_delegator_pool_balance list \<Rightarrow> current_delegator_pool_balance list list"
  sc_delegated_voters :: "current_delegated_voter list \<Rightarrow> current_delegated_voter list list"

definition stake_store :: "stake_chunks \<Rightarrow> u128 \<Rightarrow> stake_tables \<Rightarrow> stake_tables \<Rightarrow> stake_tables \<times> error option" where
  "stake_store ck flags data db =
     (let (voters, r1) = run_chunks (insert_do_update ppv_staking_pool_address merge_pool_voter)
            (sc_voters ck (filter_data flags (table_flag ''CURRENT_STAKING_POOL_VOTER'') (st_voters data))) (st_voters db);
          (votes, r2) = run_chunks (insert_do_nothing vote_pk)
            (sc_votes ck (filter_data flags (table_flag ''PROPOSAL_VOTES'') (st_votes data))) (st_votes db);
          (activities, r3) = run_chunks (insert_do_nothing activity_pk)
            (sc_activities ck (filter_data flags (table_flag ''DELEGATED_STAKING_ACTIVITIES'') (st_activities data)))
            (st_activities db);
          (balances, r4) = run_chunks (insert_do_nothing balance_pk)
            (sc_balances ck (filter_data flags (table_flag ''DELEGATOR_BALANCES'') (st_balances data))) (st_balances db);
          (currents, r5) = run_chunks (insert_do_update current_balance_pk merge_current_balance)
            (sc_current_balances ck (filter_data flags (table_flag ''CURRENT_DELEGATOR_BALANCES'') (st_current_balances data)))
            (st_current_balances db);
          (pools, r6) = run_chunks (insert_do_update dlp_staking_pool_address merge_pool)
            (sc_pools ck (filter_data flags (table_flag ''DELEGATED_STAKING_POOLS'') (st_pools data))) (st_pools db);
          (pool_balances, r7) = run_chunks (insert_do_nothing pool_balance_pk)
            (sc_pool_balances ck (filter_data flags (table_flag ''DELEGATED_STAKING_POOL_BALANCES'') (st_pool_balances data)))
            (st_pool_balances db);
          (current_pools, r8) = run_chunks (insert_do_update cdp_staking_pool_address merge_current_pool)
            (sc_current_pool_balances ck
              (filter_data flags (table_flag ''CURRENT_DELEGATED_STAKING_POOL_BALANCES'') (st_current_pool_balances data)))
            (st_current_pool_balances db);
          (delegated, r9) = run_chunks (insert_do_update cdv_pk merge_delegated_voter)
            (sc_delegated_voters ck (filter_data flags (table_flag ''CURRENT_DELEGATED_VOTER'') (st_delegated_voters data)))
            (st_delegated_voters db)
      in (\<lparr>st_voters = voters, st_votes = votes, st_activities = activities, st_balances = balances,
           st_current_balances = currents, st_pools = pools, st_pool_balances = pool_balances,
           st_current_pool_balances = current_pools, st_delegated_voters = delegated\<rparr>,
          find_map id [r1, r2, r3, r4, r5, r6, r7, r8, r9]))"

interpretation pool_voter_table:
  versioned_table ppv_staking_pool_address "\<lambda>v. sint (ppv_last_transaction_version v)" take_pool_voter merge_pool_voter
  by unfold_locales (simp_all add: merge_pool_voter_def take_pool_voter_def)

interpretation current_balance_table:
  versioned_table current_balance_pk "\<lambda>b. sint (pcb_last_transaction_version b)" take_current_balance merge_current_balance
  by unfold_locales (simp_all add: merge_current_balance_def take_current_balance_def current_balance_pk_def)

text \<open>Pools keep the smallest version, so their order is the reverse one.\<close>

interpretation pool_table:
  versioned_table dlp_staking_pool_address "\<lambda>p. - sint (dlp_first_transaction_version p)" take_pool merge_pool
  by unfold_locales (simp_all add: merge_pool_def take_pool_def)

interpretation current_pool_table:
  versioned_table cdp_staking_pool_address "\<lambda>b. sint (cdp_last_transaction_version b)" take_current_pool merge_current_pool
  by unfold_locales (simp_all add: merge_current_pool_def take_current_pool_def)

interpretation delegated_voter_table:
  versioned_table cdv_pk "\<lambda>v. sint (cdv_last_transaction_version v)" take_delegated_voter merge_delegated_voter
  by unfold_locales (simp_all add: merge_delegated_voter_def take_delegated_voter_def cdv_pk_def)

section \<open>What a transaction adds\<close>

type_synonym share_balance = "(string \<times> string \<times> string) \<times> string \<times> i64 \<times> decimal"

definition dlb_key :: "delegator_balance \<Rightarrow> string \<times> string \<times> string" where
  "dlb_key b = (dlb_delegator_address b, dlb_pool_address b, dlb_pool_type b)"

definition view_of_balance :: "delegator_balance \<Rightarrow> share_balance" where
  "view_of_balance b = (dlb_key b, dlb_table_handle b, dlb_transaction_version b, dlb_shares b)"

definition view_of_current :: "current_delegator_balance \<Rightarrow> share_balance" where
  "view_of_current c = (cdl_key c, cdl_table_handle c, cdl_last_transaction_version c, cdl_shares c)"

definition balances_ok :: "balance_state \<Rightarrow> bool" where
  "balances_ok st \<longleftrightarrow> keyed_by cdl_key (snd st) \<and>
     holds_latest dlb_key view_of_balance (fst st) (map_values view_of_current (snd st))"

lemma balance_rows_agree:
  assumes "balance_rows version index ts d p ty h s parent cparent = (b, c)"
  shows "view_of_current c = view_of_balance b" "cdl_key c = dlb_key b"
  using assms by (auto simp: balance_rows_def view_of_balance_def view_of_current_def cdl_key_def dlb_key_def)

lemma maybe_delegator_balance_agrees:
  assumes "maybe_delegator_balance ext sdk dv db version ts active inactive shares index c = Inr (Some (b, current))"
  shows "view_of_current current = view_of_balance b \<and> cdl_key current = dlb_key b"
  using assms
  by (auto elim!: and_then_InrE simp: maybe_delegator_balance_def active_share_from_delete_def inactive_share_from_delete_def
      active_share_from_write_def inactive_share_from_write_def Let_def dest: balance_rows_agree
      split: change.split_asm option.split_asm)

lemma balance_change_ok:
  assumes "balances_ok st" and "balance_change ext sdk dv db version ts active inactive shares iwsc st = Inr st'"
  shows "balances_ok st'"
proof (cases "st' = st")
  case False
  then obtain c b current where r: "maybe_delegator_balance ext sdk dv db version ts active inactive shares (fst iwsc) c =
        Inr (Some (b, current))" "st' = (fst st @ [b], AList.update (cdl_key current) current (snd st))"
    using assms(2) by (auto elim!: and_then_InrE simp: balance_change_def split: option.splits)
  from maybe_delegator_balance_agrees [OF r(1)] show ?thesis
    using assms(1) holds_latest_snoc [of dlb_key view_of_balance "fst st" "map_values view_of_current (snd st)" b]
    by (simp add: balances_ok_def r(2) keyed_by_update)
qed (use assms in simp)

lemma balances_from_transaction_ok:
  assumes "balances_from_transaction ext sdk dv db txn active = Inr st"
  shows "balances_ok st"
proof -
  obtain version ts inactive shares changes where run: "fold_result (balance_change ext sdk dv db version ts active inactive shares)
      (enumerate 0 changes) ([], []) = Inr st"
    using assms by (auto elim!: and_then_InrE simp: balances_from_transaction_def Let_def)
  have "balances_ok ([], [])" by (simp add: balances_ok_def)
  then show ?thesis
    using fold_result_inv [where P = balances_ok, OF _ run] balance_change_ok by blast
qed

definition pool_of_balance :: "delegator_pool_balance \<Rightarrow> delegator_pool" where
  "pool_of_balance b = \<lparr>dlp_staking_pool_address = dpb_staking_pool_address b,
     dlp_first_transaction_version = dpb_transaction_version b\<rparr>"

definition current_of_pool_balance :: "delegator_pool_balance \<Rightarrow> current_delegator_pool_balance" where
  "current_of_pool_balance b = \<lparr>cdp_staking_pool_address = dpb_staking_pool_address b,
     cdp_total_coins = dpb_total_coins b, cdp_total_shares = dpb_total_shares b,
     cdp_last_transaction_version = dpb_transaction_version b,
     cdp_operator_commission_percentage = dpb_operator_commission_percentage b,
     cdp_inactive_table_handle = dpb_inactive_table_handle b, cdp_active_table_handle = dpb_active_table_handle b\<rparr>"

definition pools_ok :: "pool_rows \<Rightarrow> bool" where
  "pools_ok rows \<longleftrightarrow> (case rows of (pools, balances, currents) \<Rightarrow>
     holds_latest dpb_staking_pool_address pool_of_balance balances pools \<and>
     holds_latest dpb_staking_pool_address current_of_pool_balance balances currents)"

lemma pool_change_ok:
  assumes "pools_ok rows" and "pool_change ext dv version ts wsc rows = Inr rows'"
  shows "pools_ok rows'"
proof (cases "rows' = rows")
  case False
  obtain pools balances currents where rows: "rows = (pools, balances, currents)" by (cases rows)
  from False obtain b where b: "rows' =
      (AList.update (dpb_staking_pool_address b) (pool_of_balance b) pools, balances @ [b],
       AList.update (dpb_staking_pool_address b) (current_of_pool_balance b) currents)"
    using assms(2) by (auto elim!: and_then_InrE simp: rows pool_change_def pool_from_write_resource_def
        pool_of_balance_def current_of_pool_balance_def split: change.split_asm option.split_asm)
  show ?thesis using assms(1) by (auto simp: pools_ok_def rows b intro: holds_latest_snoc)
qed (use assms in simp)

lemma pools_from_transaction_ok:
  assumes "pools_from_transaction ext dv txn = Inr rows"
  shows "pools_ok rows"
proof -
  have nil: "pools_ok ([], [], [])" by (simp add: pools_ok_def)
  show ?thesis
  proof (cases "rows = ([], [], [])")
    case False
    then obtain version ts changes where run:
        "fold_result (pool_change ext dv version ts) changes ([], [], []) = Inr rows"
      using assms by (auto simp: pools_from_transaction_def split: option.splits txn_data.splits)
    show ?thesis using fold_result_inv [where P = pools_ok, OF _ run nil] pool_change_ok by blast
  qed (simp add: nil)
qed

lemma voters_from_transaction_keyed:
  assumes "voters_from_transaction ext txn = Inr m"
  shows "keyed_by spv_staking_pool_address m"
proof -
  obtain version ts changes where run: "fold_result (voter_change ext version ts) changes [] = Inr m"
    using assms by (auto elim!: and_then_InrE simp: voters_from_transaction_def split: option.splits)
  have "keyed_by spv_staking_pool_address m'"
    if "keyed_by spv_staking_pool_address m0" "voter_change ext version ts c m0 = Inr m'" for c m0 m'
    using that by (auto elim!: and_then_InrE simp: voter_change_def Let_def intro!: keyed_by_update
        split: change.splits option.splits stake_resource.splits)
  then show ?thesis
    using fold_result_inv [where P = "keyed_by spv_staking_pool_address", OF _ run] by (metis keyed_by_Nil)
qed

lemma fold_update_keyed:
  "keyed_by f m \<Longrightarrow> keyed_by f (fold (\<lambda>x. AList.update (f (g x)) (g x)) xs m)"
  by (induction xs arbitrary: m) (auto intro: keyed_by_update)

lemma delegated_voters_keyed:
  "delegated_voters_from_write_table_item ext db item version index ts handles = Inr m \<Longrightarrow> keyed_by cdv_pk m"
  by (auto elim!: and_then_InrE simp: delegated_voters_from_write_table_item_def Let_def
      intro!: fold_update_keyed split: option.splits if_splits)

section \<open>The invariant of a batch\<close>

definition stake_ok :: "stake_state \<Rightarrow> bool" where
  "stake_ok st \<longleftrightarrow>
     keyed_by spv_staking_pool_address (ss_voters st) \<and> keyed_by cdv_pk (ss_delegated_voters st) \<and>
     balances_ok (ss_balances st, ss_current_balances st) \<and>
     pools_ok (ss_pools st, ss_pool_balances st, ss_current_pool_balances st)"

lemma balances_ok_extend:
  "balances_ok (bs, cs) \<Longrightarrow> balances_ok (bs', cs') \<Longrightarrow> balances_ok (bs @ bs', extend_map cs' cs)"
  by (auto simp: balances_ok_def intro: keyed_by_extend_map holds_latest_extend)

lemma pools_ok_extend:
  "pools_ok (ps, bs, cs) \<Longrightarrow> pools_ok (ps', bs', cs') \<Longrightarrow> pools_ok (extend_map ps' ps, bs @ bs', extend_map cs' cs)"
  by (auto simp: pools_ok_def intro: holds_latest_extend)

lemma stake_votes_and_pools_ok:
  assumes "stake_votes_and_pools ext dv txn st = Inr st'" and "stake_ok st"
  shows "stake_ok st'"
proof -
  obtain voters votes activities pools balances currents where p: "voters_from_transaction ext txn = Inr voters"
      "pools_from_transaction ext dv txn = Inr (pools, balances, currents)"
      "st' = st\<lparr>ss_voters := extend_map voters (ss_voters st), ss_votes := ss_votes st @ votes,
         ss_activities := ss_activities st @ activities, ss_pools := extend_map pools (ss_pools st),
         ss_pool_balances := ss_pool_balances st @ balances,
         ss_current_pool_balances := extend_map currents (ss_current_pool_balances st)\<rparr>"
    using assms(1) by (auto elim!: and_then_InrE simp: stake_votes_and_pools_def)
  show ?thesis
    using assms(2) voters_from_transaction_keyed [OF p(1)] pools_from_transaction_ok [OF p(2)]
    by (simp add: stake_ok_def p(3) keyed_by_extend_map pools_ok_extend)
qed

lemma stake_metadata_change_ok:
  "stake_metadata_change ext dv version ts wsc st = Inr st' \<Longrightarrow> stake_ok st \<Longrightarrow> stake_ok st'"
  by (auto elim!: and_then_InrE simp: stake_metadata_change_def stake_ok_def Let_def split: change.splits option.splits)

lemma delegated_voter_change_ok:
  "delegated_voter_change ext db version ts iwsc st = Inr st' \<Longrightarrow> stake_ok st \<Longrightarrow> stake_ok st'"
  by (auto elim!: and_then_InrE simp: delegated_voter_change_def stake_ok_def
      intro!: keyed_by_extend_map dest!: delegated_voters_keyed split: change.splits)

lemma default_voter_change_ok:
  "default_voter_change ext sdk dv db version ts iwsc st = Inr st' \<Longrightarrow> stake_ok st \<Longrightarrow> stake_ok st'"
  by (auto elim!: and_then_InrE simp: default_voter_change_def stake_ok_def intro!: keyed_by_update
      split: change.splits option.splits)

lemma stake_balances_and_voters_ok:
  assumes "stake_balances_and_voters ext sdk dv db txn info ts st = Inr st'" and "stake_ok st"
  shows "stake_ok st'"
proof -
  obtain balances currents st1 where p:
      "balances_from_transaction ext sdk dv db txn (ss_active_pools st) = Inr (balances, currents)"
      "fold_result (delegated_voter_change ext db (tx_version txn) ts) (enumerate 0 (ti_changes info))
         (st\<lparr>ss_balances := ss_balances st @ balances,
            ss_current_balances := extend_map currents (ss_current_balances st)\<rparr>) = Inr st1"
      "fold_result (default_voter_change ext sdk dv db (tx_version txn) ts) (enumerate 0 (ti_changes info)) st1 = Inr st'"
    using assms(1) by (auto elim!: and_then_InrE simp: stake_balances_and_voters_def)
  have "stake_ok (st\<lparr>ss_balances := ss_balances st @ balances,
      ss_current_balances := extend_map currents (ss_current_balances st)\<rparr>)"
    using assms(2) balances_from_transaction_ok [OF p(1)] by (simp add: stake_ok_def balances_ok_extend)
  then have "stake_ok st1"
    using fold_result_inv [where P = stake_ok, OF _ p(2)] delegated_voter_change_ok by blast
  then show ?thesis
    using fold_result_inv [where P = stake_ok, OF _ p(3)] default_voter_change_ok by blast
qed

lemma parse_stake_txn_ok:
  assumes "parse_stake_txn ext sdk dv conn txn st = Inr st'" and "stake_ok st"
  shows "stake_ok st'"
proof -
  obtain ts st1 info st2 where p: "stake_votes_and_pools ext dv txn st = Inr st1"
      "fold_result (stake_metadata_change ext dv (tx_version txn) ts) (ti_changes info) st1 = Inr st2"
      "st' = st2 \<or> (\<exists>db. stake_balances_and_voters ext sdk dv db txn info ts st2 = Inr st')"
    using assms(1) by (auto elim!: and_then_InrE simp: parse_stake_txn_def Let_def split: option.splits) blast
  have "stake_ok st1" using stake_votes_and_pools_ok [OF p(1) assms(2)] .
  then have "stake_ok st2"
    using fold_result_inv [where P = stake_ok, OF _ p(2)] stake_metadata_change_ok by blast
  with p(3) show ?thesis using stake_balances_and_voters_ok by blast
qed

lemma parse_stake_data_cases:
  assumes "parse_stake_data ext sdk dv conn txns = Inr d"
  obtains st where "stake_ok st" "sd_voters d = sort_key spv_staking_pool_address (map snd (ss_voters st))"
    "sd_balances d = ss_balances st" "sd_current_balances d = sort_key cdl_key (map snd (ss_current_balances st))"
    "sd_pools d = sort_key dlp_staking_pool_address (map snd (ss_pools st))" "sd_pool_balances d = ss_pool_balances st"
    "sd_current_pool_balances d = sort_key cdp_staking_pool_address (map snd (ss_current_pool_balances st))"
    "sd_delegated_voters d = sort_key (\<lambda>v. (cdv_delegator_address v, cdv_delegation_pool_address v))
       (map snd (ss_delegated_voters st))"
proof -
  obtain st where st: "fold_result (parse_stake_txn ext sdk dv conn) txns empty_stake_state = Inr st"
      "d = \<lparr>sd_voters = sort_key spv_staking_pool_address (map snd (ss_voters st)),
         sd_votes = ss_votes st, sd_activities = ss_activities st, sd_balances = ss_balances st,
         sd_current_balances = sort_key cdl_key (map snd (ss_current_balances st)),
         sd_pools = sort_key dlp_staking_pool_address (map snd (ss_pools st)),
         sd_pool_balances = ss_pool_balances st,
         sd_current_pool_balances = sort_key cdp_staking_pool_address (map snd (ss_current_pool_balances st)),
         sd_delegated_voters = sort_key (\<lambda>v. (cdv_delegator_address v, cdv_delegation_pool_address v))
           (map snd (ss_delegated_voters st))\<rparr>"
    using assms by (auto elim!: and_then_InrE simp: parse_stake_data_def)
  have "stake_ok empty_stake_state" by (simp add: stake_ok_def empty_stake_state_def balances_ok_def pools_ok_def)
  then have "stake_ok st" using fold_result_inv [where P = stake_ok, OF _ st(1)] parse_stake_txn_ok by blast
  with st(2) show ?thesis by (intro that) simp_all
qed

lemma view_key [simp]: "fst (view_of_current c) = cdl_key c" "fst (view_of_balance b) = dlb_key b"
  by (simp_all add: view_of_current_def view_of_balance_def)

lemma stake_current_balances:
  assumes "parse_stake_data ext sdk dv conn txns = Inr d"
  shows "distinct (map cdl_key (sd_current_balances d))"
    and "set (map view_of_current (sd_current_balances d)) =
      {v. latest dlb_key view_of_balance (sd_balances d) (fst v) = Some v}"
proof -
  obtain st where st: "stake_ok st" "sd_balances d = ss_balances st"
      "sd_current_balances d = sort_key cdl_key (map snd (ss_current_balances st))"
    using assms by (rule parse_stake_data_cases)
  have ok: "keyed_by cdl_key (ss_current_balances st)"
      "holds_latest dlb_key view_of_balance (ss_balances st) (map_values view_of_current (ss_current_balances st))"
    using st(1) by (simp_all add: stake_ok_def balances_ok_def)
  show "distinct (map cdl_key (sd_current_balances d))" unfolding st(3) by (rule keyed_by_distinct [OF ok(1)])
  have "set (map view_of_current (sd_current_balances d)) = set (map snd (map_values view_of_current (ss_current_balances st)))"
    by (simp add: st(3) snd_map_values image_image)
  also have "\<dots> = {v. latest dlb_key view_of_balance (ss_balances st) (fst v) = Some v}"
    by (rule holds_latest_values(2) [OF ok(2), where ckey = fst]) simp
  finally show "set (map view_of_current (sd_current_balances d)) =
      {v. latest dlb_key view_of_balance (sd_balances d) (fst v) = Some v}" by (simp add: st(2))
qed

lemma stake_current_pools:
  assumes "parse_stake_data ext sdk dv conn txns = Inr d"
  shows "distinct (map dlp_staking_pool_address (sd_pools d)) \<and>
      set (sd_pools d) = {p. latest dpb_staking_pool_address pool_of_balance (sd_pool_balances d)
        (dlp_staking_pool_address p) = Some p}"
    and "distinct (map cdp_staking_pool_address (sd_current_pool_balances d)) \<and>
      set (sd_current_pool_balances d) = {c. latest dpb_staking_pool_address current_of_pool_balance (sd_pool_balances d)
        (cdp_staking_pool_address c) = Some c}"
proof -
  obtain st where st: "stake_ok st" "sd_pool_balances d = ss_pool_balances st"
      "sd_pools d = sort_key dlp_staking_pool_address (map snd (ss_pools st))"
      "sd_current_pool_balances d = sort_key cdp_staking_pool_address (map snd (ss_current_pool_balances st))"
    using assms by (rule parse_stake_data_cases)
  have ok: "holds_latest dpb_staking_pool_address pool_of_balance (ss_pool_balances st) (ss_pools st)"
      "holds_latest dpb_staking_pool_address current_of_pool_balance (ss_pool_balances st) (ss_current_pool_balances st)"
    using st(1) by (simp_all add: stake_ok_def pools_ok_def)
  show "distinct (map dlp_staking_pool_address (sd_pools d)) \<and>
      set (sd_pools d) = {p. latest dpb_staking_pool_address pool_of_balance (sd_pool_balances d)
        (dlp_staking_pool_address p) = Some p}"
    using sorted_latest_values [OF ok(1), of dlp_staking_pool_address] by (simp add: st pool_of_balance_def)
  show "distinct (map cdp_staking_pool_address (sd_current_pool_balances d)) \<and>
      set (sd_current_pool_balances d) = {c. latest dpb_staking_pool_address current_of_pool_balance (sd_pool_balances d)
        (cdp_staking_pool_address c) = Some c}"
    using sorted_latest_values [OF ok(2), of cdp_staking_pool_address] by (simp add: st current_of_pool_balance_def)
qed

section \<open>Balances of delegators\<close>

text \<open>
  Claim C38: A batch has one current balance per delegator, pool and pool type, and it is the last balance
  row of the batch for these three: same share table, version and shares.
\<close>

theorem stake_balances_are_latest:
  assumes "parse_stake_data ext sdk dv conn txns = Inr d"
  shows "distinct (map cdl_key (sd_current_balances d)) \<and>
    set (map view_of_current (sd_current_balances d)) =
      {v. latest dlb_key view_of_balance (sd_balances d) (fst v) = Some v}"
  using stake_current_balances [OF assms] by simp

text \<open>
  The table of current balances has one row per share table too.  A delegator with inactive shares
  of two lockup cycles in one batch keeps only the row that was written last; the other share
  table's new balance is lost.
\<close>

lemma earlier_share_table_lost:
  assumes run: "parse_stake_data ext sdk dv conn txns = Inr d" and split: "sd_balances d = rows @ [last_row]"
    and "c \<in> set (sd_current_balances d)" and "cdl_key c = dlb_key last_row"
  shows "cdl_table_handle c = dlb_table_handle last_row"
proof -
  have "view_of_current c \<in> set (map view_of_current (sd_current_balances d))" using assms(3) by simp
  then have "latest dlb_key view_of_balance (sd_balances d) (cdl_key c) = Some (view_of_current c)"
    by (simp only: stake_current_balances(2) [OF run]) simp
  then have "view_of_current c = view_of_balance last_row"
    using assms(4) by (simp add: split latest_snoc)
  then show ?thesis by (simp add: view_of_current_def view_of_balance_def)
qed

text \<open>
  The current row of a deleted inactive share names its own share table as parent, the history row
  the table of pools.  Lookups search the parent table among the current rows.
\<close>

lemma deleted_share_parent_handle:
  assumes "inactive_share_from_delete ext db item version index inactive shares ts = Inr (Some (b, c))"
  shows "cdl_parent_table_handle c = cdl_table_handle c \<and>
    (\<exists>m. shares (dlb_table_handle b) = Some m \<and> dlb_parent_table_handle b = plm_parent_table_handle m)"
  using assms by (auto simp: inactive_share_from_delete_def balance_rows_def Let_def split: option.splits)

section \<open>Pools\<close>

text \<open>
  The pool rows of a batch carry as first transaction version the version of the last write to the
  pool in the batch, not of the first; current pool balances are the last ones of the batch.
\<close>

theorem pool_rows_of_batch:
  assumes "parse_stake_data ext sdk dv conn txns = Inr d"
  shows "distinct (map dlp_staking_pool_address (sd_pools d)) \<and>
    set (sd_pools d) = {p. latest dpb_staking_pool_address pool_of_balance (sd_pool_balances d)
      (dlp_staking_pool_address p) = Some p} \<and>
    distinct (map cdp_staking_pool_address (sd_current_pool_balances d)) \<and>
    set (sd_current_pool_balances d) = {c. latest dpb_staking_pool_address current_of_pool_balance (sd_pool_balances d)
      (cdp_staking_pool_address c) = Some c}"
  using stake_current_pools [OF assms] by simp

text \<open>In the table the version only decreases.\<close>

lemma pool_first_version_never_increases:
  assumes "find_row dlp_staking_pool_address address (st_pools db) = Some p"
  shows "\<exists>p'. find_row dlp_staking_pool_address address (st_pools (fst (stake_store ck flags data db))) = Some p' \<and>
    sint (dlp_first_transaction_version p') \<le> sint (dlp_first_transaction_version p)"
  using pool_table.row_never_regresses [OF assms]
  by (simp add: stake_store_def Let_def case_prod_unfold)

section \<open>Voters\<close>

lemma query_with_retries_first:
  "query_with_retries query retries tried = find_map query [Suc tried..<Suc retries]"
proof (induction query retries tried rule: query_with_retries.induct)
  case (1 query retries tried)
  show ?case
  proof (cases "tried < retries")
    case True
    then have "[Suc tried..<Suc retries] = Suc tried # [Suc (Suc tried)..<Suc retries]"
      by (simp add: upt_conv_Cons)
    with 1 True show ?thesis by (subst query_with_retries.simps) (simp del: upt_Suc split: option.splits)
  next
    case False
    then show ?thesis by (subst query_with_retries.simps) simp
  qed
qed

text \<open>
  Claim C39: A delegator gets itself as default voter exactly when its active shares were written, the batch
  has no voter row for it and none of at most \<open>query_retries\<close> queries found a stored one.  A query
  that fails counts as one that found nothing.
\<close>

theorem default_voter_iff_unknown:
  assumes "active_share_from_write ext sdk dv item version 0 active ts = Inr (Some (b, a))"
  shows "delegator_pre_contract_deployment ext sdk dv db item version index ts active voters =
    Inr (if map_of voters (cdl_pool_address a, cdl_delegator_address a) = None \<and>
            find_map (\<lambda>tried. sdb_by_pk db version index tried (cdl_delegator_address a, cdl_pool_address a))
              [1..<Suc (sdb_query_retries db)] = None
         then Some \<lparr>cdv_delegation_pool_address = cdl_pool_address a, cdv_delegator_address = cdl_delegator_address a,
                cdv_table_handle = None, cdv_voter = Some (cdl_delegator_address a),
                cdv_pending_voter = Some (cdl_delegator_address a), cdv_last_transaction_version = version,
                cdv_last_transaction_timestamp = ts\<rparr>
         else None)"
  by (simp add: delegator_pre_contract_deployment_def assms Let_def get_existence_by_pk_def query_with_retries_first
      split: option.split)

section \<open>Storing a batch\<close>

definition stake_chunks_ok :: "stake_chunks \<Rightarrow> bool" where
  "stake_chunks_ok ck \<longleftrightarrow>
     (\<forall>xs. concat (sc_voters ck xs) = xs) \<and> (\<forall>xs. concat (sc_current_balances ck xs) = xs) \<and>
     (\<forall>xs. concat (sc_pools ck xs) = xs) \<and> (\<forall>xs. concat (sc_current_pool_balances ck xs) = xs) \<and>
     (\<forall>xs. concat (sc_delegated_voters ck xs) = xs)"

definition stake_keys_distinct :: "stake_tables \<Rightarrow> bool" where
  "stake_keys_distinct t \<longleftrightarrow>
     distinct (map ppv_staking_pool_address (st_voters t)) \<and> distinct (map current_balance_pk (st_current_balances t)) \<and>
     distinct (map dlp_staking_pool_address (st_pools t)) \<and>
     distinct (map cdp_staking_pool_address (st_current_pool_balances t)) \<and>
     distinct (map cdv_pk (st_delegated_voters t))"

lemma stake_extract_cases:
  assumes "stake_extract ext sdk dv conn txns = Inr t"
  obtains db d where "conn = Some db" "parse_stake_data ext sdk dv (Some db) txns = Inr d"
    "st_voters t = map postgres_staking_pool_voter_of (sd_voters d)"
    "st_current_balances t = map postgres_current_delegator_balance_of (sd_current_balances d)"
    "st_pools t = sd_pools d" "st_current_pool_balances t = sd_current_pool_balances d"
    "st_delegated_voters t = sd_delegated_voters d"
  using assms by (auto simp: stake_extract_def split: option.split_asm sum.split_asm error.split_asm intro: that)

lemma stake_extract_keys:
  assumes "stake_extract ext sdk dv conn txns = Inr t"
  shows "stake_keys_distinct t"
  using assms
proof (rule stake_extract_cases)
  fix db d assume e: "parse_stake_data ext sdk dv (Some db) txns = Inr d"
    "st_voters t = map postgres_staking_pool_voter_of (sd_voters d)"
    "st_current_balances t = map postgres_current_delegator_balance_of (sd_current_balances d)"
    "st_pools t = sd_pools d" "st_current_pool_balances t = sd_current_pool_balances d"
    "st_delegated_voters t = sd_delegated_voters d"
  obtain st where st: "stake_ok st" "sd_voters d = sort_key spv_staking_pool_address (map snd (ss_voters st))"
      "sd_delegated_voters d = sort_key (\<lambda>v. (cdv_delegator_address v, cdv_delegation_pool_address v))
         (map snd (ss_delegated_voters st))"
    using e(1) by (rule parse_stake_data_cases)
  have "map ppv_staking_pool_address (st_voters t) = map spv_staking_pool_address (sd_voters d)"
    by (simp add: e postgres_staking_pool_voter_of_def)
  moreover have "keyed_by spv_staking_pool_address (ss_voters st)" using st(1) by (simp add: stake_ok_def)
  ultimately have "distinct (map ppv_staking_pool_address (st_voters t))" using keyed_by_distinct by (metis st(2))
  moreover have "map (\<lambda>(a, b, c, h). (a, b, c)) (map current_balance_pk (st_current_balances t)) =
      map cdl_key (sd_current_balances d)"
    by (simp add: e postgres_current_delegator_balance_of_def current_balance_pk_def cdl_key_def)
  then have "distinct (map current_balance_pk (st_current_balances t))"
    using stake_current_balances(1) [OF e(1)] by (metis distinct_map)
  moreover have "distinct (map cdv_pk (map snd (ss_delegated_voters st)))"
    using st(1) by (metis keyed_by_def keyed_by_values stake_ok_def)
  then have "distinct (map cdv_pk (st_delegated_voters t))" unfolding e(6) st(3) by (rule distinct_map_sort_key)
  ultimately show ?thesis using stake_current_pools [OF e(1)] by (simp add: stake_keys_distinct_def e)
qed

lemma stake_store_distinct:
  assumes "stake_chunks_ok ck" and "stake_keys_distinct data"
  shows "stake_store ck flags data db =
    (\<lparr>st_voters = fold (upsert ppv_staking_pool_address merge_pool_voter)
        (filter_data flags (table_flag ''CURRENT_STAKING_POOL_VOTER'') (st_voters data)) (st_voters db),
      st_votes = fold (insert_ignore vote_pk)
        (concat (sc_votes ck (filter_data flags (table_flag ''PROPOSAL_VOTES'') (st_votes data)))) (st_votes db),
      st_activities = fold (insert_ignore activity_pk)
        (concat (sc_activities ck (filter_data flags (table_flag ''DELEGATED_STAKING_ACTIVITIES'') (st_activities data))))
        (st_activities db),
      st_balances = fold (insert_ignore balance_pk)
        (concat (sc_balances ck (filter_data flags (table_flag ''DELEGATOR_BALANCES'') (st_balances data)))) (st_balances db),
      st_current_balances = fold (upsert current_balance_pk merge_current_balance)
        (filter_data flags (table_flag ''CURRENT_DELEGATOR_BALANCES'') (st_current_balances data)) (st_current_balances db),
      st_pools = fold (upsert dlp_staking_pool_address merge_pool)
        (filter_data flags (table_flag ''DELEGATED_STAKING_POOLS'') (st_pools data)) (st_pools db),
      st_pool_balances = fold (insert_ignore pool_balance_pk)
        (concat (sc_pool_balances ck (filter_data flags (table_flag ''DELEGATED_STAKING_POOL_BALANCES'') (st_pool_balances data))))
        (st_pool_balances db),
      st_current_pool_balances = fold (upsert cdp_staking_pool_address merge_current_pool)
        (filter_data flags (table_flag ''CURRENT_DELEGATED_STAKING_POOL_BALANCES'') (st_current_pool_balances data))
        (st_current_pool_balances db),
      st_delegated_voters = fold (upsert cdv_pk merge_delegated_voter)
        (filter_data flags (table_flag ''CURRENT_DELEGATED_VOTER'') (st_delegated_voters data)) (st_delegated_voters db)\<rparr>, None)"
  using assms
  by (simp add: stake_store_def run_chunks_do_nothing stake_chunks_ok_def stake_keys_distinct_def filter_data_distinct
      pool_voter_table.run_chunks_distinct current_balance_table.run_chunks_distinct pool_table.run_chunks_distinct
      current_pool_table.run_chunks_distinct delegated_voter_table.run_chunks_distinct)

text \<open>
  Claim C40: The stake storer accepts every extracted batch for every way of cutting the nine tables into
  chunks, and storing the batch again changes nothing.
\<close>

theorem stake_batch_stored_once:
  assumes "stake_extract ext sdk dv conn txns = Inr data" and "stake_chunks_ok ck"
  shows "\<exists>db'. stake_store ck flags data db = (db', None) \<and> stake_store ck flags data db' = (db', None)"
proof -
  note keys = stake_extract_keys [OF assms(1)]
  then have d: "distinct (map ppv_staking_pool_address (st_voters data))" "distinct (map current_balance_pk (st_current_balances data))"
      "distinct (map dlp_staking_pool_address (st_pools data))"
      "distinct (map cdp_staking_pool_address (st_current_pool_balances data))" "distinct (map cdv_pk (st_delegated_voters data))"
    by (simp_all add: stake_keys_distinct_def)
  show ?thesis
    by (simp add: stake_store_distinct [OF assms(2) keys] fold_insert_ignore_twice filter_data_distinct d
        pool_voter_table.fold_upsert_twice current_balance_table.fold_upsert_twice pool_table.fold_upsert_twice
        current_pool_table.fold_upsert_twice delegated_voter_table.fold_upsert_twice)
qed

section \<open>A sample batch\<close>

definition sample_table_json :: "string \<Rightarrow> json" where
  "sample_table_json handle = JObject [(''handle'', JString handle)]"

definition sample_stake_world :: extern where
  "sample_stake_world = sample_world\<lparr>standardize_address := (\<lambda>a. if a = ''0x1'' then stake_addr else a), json_from_str := map_of
     [(''pool'', JObject [(''active_shares'', JObject [(''shares'', JObject [(''inner'', sample_table_json ''0xs'')]),
          (''total_coins'', JString ''90''), (''total_shares'', JString ''60''), (''scaling_factor'', JString ''2'')]),
        (''inactive_shares'', sample_table_json ''0xi''), (''operator_commission_percentage'', JString ''5'')]),
      (''key'', JString ''0xd''), (''share'', JString ''20'')]\<rparr>"

definition sample_pool_write :: change where
  "sample_pool_write = WriteResource
     \<lparr>wr_address = ''0xp'', wr_type = Some \<lparr>st_address = ''0x1'', st_module = ''delegation_pool'', st_name = ''DelegationPool'',
        st_generic_type_params = []\<rparr>,
      wr_type_str = ''0x1::delegation_pool::DelegationPool'', wr_data = ''pool'', wr_state_key_hash = [1]\<rparr>"

definition sample_share_item :: write_table_item where
  "sample_share_item = \<lparr>wt_state_key_hash = [1], wt_handle = ''0xs'', wt_key = ''0xd'',
     wt_data = Some \<lparr>wtd_key = ''key'', wtd_key_type = ''address'', wtd_value = ''share'', wtd_value_type = ''u128''\<rparr>\<rparr>"

definition sample_stake_txn :: transaction where
  "sample_stake_txn = (sample_user_txn 5 [sample_pool_write, WriteTableItem sample_share_item])
     \<lparr>tx_data := Some (TxnUser \<lparr>ut_events = [], ut_request = Some sample_request\<rparr>)\<rparr>"

definition sample_stake_db :: stake_db where
  "sample_stake_db = \<lparr>sdb_query_retries = 2, sdb_by_inactive_share_handle = (\<lambda>version index tried handle. None),
     sdb_by_table_handle = (\<lambda>version index tried handle. None), sdb_by_pk = (\<lambda>version index tried key. None)\<rparr>"

definition sample_stake_run :: "stake_data result" where
  "sample_stake_run = parse_stake_data sample_stake_world sample_sdk (/) (Some sample_stake_db) [sample_stake_txn]"

lemma sample_stake_runs:
  obtains d where
    "parse_stake_data sample_stake_world sample_sdk (/) (Some sample_stake_db) [sample_stake_txn] = Inr d"
    "map view_of_current (sd_current_balances d) = [((''0xd'', ''0xp'', ''active_shares''), ''0xs'', 5, 10)]"
    "sd_pools d = [\<lparr>dlp_staking_pool_address = ''0xp'', dlp_first_transaction_version = 5\<rparr>]"
    "map cdv_voter (sd_delegated_voters d) = [Some ''0xd'']"
proof -
  have "(case sample_stake_run of
      Inl _ \<Rightarrow> False
    | Inr d \<Rightarrow>
        map view_of_current (sd_current_balances d) = [((''0xd'', ''0xp'', ''active_shares''), ''0xs'', 5, 10)] \<and>
        sd_pools d = [\<lparr>dlp_staking_pool_address = ''0xp'', dlp_first_transaction_version = 5\<rparr>] \<and>
        map cdv_voter (sd_delegated_voters d) = [Some ''0xd''])"
    by code_simp
  then show ?thesis by (cases sample_stake_run) (auto simp: sample_stake_run_def intro: that)
qed

theorem stake_balances_are_latest_witness:
  "\<exists>d. parse_stake_data sample_stake_world sample_sdk (/) (Some sample_stake_db) [sample_stake_txn] = Inr d \<and>
     {v. latest dlb_key view_of_balance (sd_balances d) (fst v) = Some v} =
       {((''0xd'', ''0xp'', ''active_shares''), ''0xs'', 5, 10)}"
proof -
  obtain d where run: "parse_stake_data sample_stake_world sample_sdk (/) (Some sample_stake_db) [sample_stake_txn] = Inr d"
    and v: "map view_of_current (sd_current_balances d) = [((''0xd'', ''0xp'', ''active_shares''), ''0xs'', 5, 10)]"
    by (rule sample_stake_runs)
  have "set (map view_of_current (sd_current_balances d)) =
      {v. latest dlb_key view_of_balance (sd_balances d) (fst v) = Some v}"
    using stake_balances_are_latest [OF run] by simp
  with v have "{v. latest dlb_key view_of_balance (sd_balances d) (fst v) = Some v} =
      {((''0xd'', ''0xp'', ''active_shares''), ''0xs'', 5, 10)}" by simp
  with run show ?thesis by blast
qed

theorem pool_rows_of_batch_witness:
  "\<exists>d. parse_stake_data sample_stake_world sample_sdk (/) (Some sample_stake_db) [sample_stake_txn] = Inr d \<and>
     {p. latest dpb_staking_pool_address pool_of_balance (sd_pool_balances d) (dlp_staking_pool_address p) = Some p} =
       {\<lparr>dlp_staking_pool_address = ''0xp'', dlp_first_transaction_version = 5\<rparr>}"
proof -
  obtain d where run: "parse_stake_data sample_stake_world sample_sdk (/) (Some sample_stake_db) [sample_stake_txn] = Inr d"
    and p: "sd_pools d = [\<lparr>dlp_staking_pool_address = ''0xp'', dlp_first_transaction_version = 5\<rparr>]"
    by (rule sample_stake_runs)
  have "set (sd_pools d) =
      {p. latest dpb_staking_pool_address pool_of_balance (sd_pool_balances d) (dlp_staking_pool_address p) = Some p}"
    using pool_rows_of_batch [OF run] by simp
  with p have "{p. latest dpb_staking_pool_address pool_of_balance (sd_pool_balances d) (dlp_staking_pool_address p) = Some p} =
      {\<lparr>dlp_staking_pool_address = ''0xp'', dlp_first_transaction_version = 5\<rparr>}" by simp
  with run show ?thesis by blast
qed

definition sample_pool_metadata :: delegator_pool_balance_metadata where
  "sample_pool_metadata = \<lparr>dpm_transaction_version = 5, dpm_staking_pool_address = ''0xp'', dpm_total_coins = 90,
     dpm_total_shares = 30, dpm_scaling_factor = 2, dpm_operator_commission_percentage = 5,
     dpm_active_share_table_handle = ''0xs'', dpm_inactive_share_table_handle = ''0xi''\<rparr>"

lemma sample_active_share:
  obtains b a where "active_share_from_write sample_stake_world sample_sdk (/) sample_share_item 5 0
      [''0xs'' \<mapsto> sample_pool_metadata] 0 = Inr (Some (b, a))"
    "cdl_pool_address a = ''0xp''" "cdl_delegator_address a = ''0xd''"
proof -
  have "(case active_share_from_write sample_stake_world sample_sdk (/) sample_share_item 5 0
        [''0xs'' \<mapsto> sample_pool_metadata] 0 of
      Inr (Some (b, a)) \<Rightarrow> cdl_pool_address a = ''0xp'' \<and> cdl_delegator_address a = ''0xd'' | _ \<Rightarrow> False)"
    by code_simp
  then show ?thesis by (auto intro: that split: sum.splits option.splits prod.splits)
qed

theorem default_voter_iff_unknown_witness:
  "\<exists>v. delegator_pre_contract_deployment sample_stake_world sample_sdk (/) sample_stake_db sample_share_item 5 1 0
     [''0xs'' \<mapsto> sample_pool_metadata] [] = Inr (Some v) \<and> cdv_voter v = Some ''0xd''"
proof -
  obtain b a where share: "active_share_from_write sample_stake_world sample_sdk (/) sample_share_item 5 0
      [''0xs'' \<mapsto> sample_pool_metadata] 0 = Inr (Some (b, a))"
    and a: "cdl_pool_address a = ''0xp''" "cdl_delegator_address a = ''0xd''" by (rule sample_active_share)
  show ?thesis
    using default_voter_iff_unknown [OF share, of sample_stake_db 1 "[]"]
    by (simp add: a sample_stake_db_def find_map_None_iff del: upt_Suc)
qed

definition sample_stake_chunks :: stake_chunks where
  "sample_stake_chunks = \<lparr>sc_voters = (\<lambda>xs. [xs]), sc_votes = (\<lambda>xs. [xs]), sc_activities = (\<lambda>xs. [xs]),
     sc_balances = (\<lambda>xs. [xs]), sc_current_balances = map (\<lambda>x. [x]), sc_pools = map (\<lambda>x. [x]),
     sc_pool_balances = (\<lambda>xs. [xs]), sc_current_pool_balances = (\<lambda>xs. [xs]), sc_delegated_voters = (\<lambda>xs. [xs])\<rparr>"

definition empty_stake_tables :: stake_tables where
  "empty_stake_tables = \<lparr>st_voters = [], st_votes = [], st_activities = [], st_balances = [], st_current_balances = [],
     st_pools = [], st_pool_balances = [], st_current_pool_balances = [], st_delegated_voters = []\<rparr>"

theorem stake_batch_stored_once_witness:
  "\<exists>data db'. stake_extract sample_stake_world sample_sdk (/) (Some sample_stake_db) [sample_stake_txn] = Inr data \<and>
     length (st_pools data) = 1 \<and> stake_store sample_stake_chunks 0 data empty_stake_tables = (db', None) \<and>
     stake_store sample_stake_chunks 0 data db' = (db', None)"
proof -
  obtain d where run: "parse_stake_data sample_stake_world sample_sdk (/) (Some sample_stake_db) [sample_stake_txn] = Inr d"
    and p: "sd_pools d = [\<lparr>dlp_staking_pool_address = ''0xp'', dlp_first_transaction_version = 5\<rparr>]"
    by (rule sample_stake_runs)
  obtain data where data: "stake_extract sample_stake_world sample_sdk (/) (Some sample_stake_db) [sample_stake_txn] = Inr data"
      "st_pools data = sd_pools d"
    by (simp add: stake_extract_def run)
  have "stake_chunks_ok sample_stake_chunks" by (simp add: stake_chunks_ok_def sample_stake_chunks_def)
  with stake_batch_stored_once [OF data(1)] data p show ?thesis by (metis One_nat_def length_Cons list.size(3))
qed

end
