(* ===== verification/TokenModels.thy ===== *)
theory TokenModels
  imports CoinResources StakeBalances
begin

text \<open>
  The Move types of tokens as the token processor reads them.  Version 1 keeps tokens in tables:
  their items, events and resources are \<open>token_models/token_utils.rs\<close>, and the owners of the
  tables \<open>token_models/tokens.rs\<close>.  Version 2 keeps a token in an object: its resources and
  events are \<open>token_v2_models/v2_token_utils.rs\<close> and \<open>V2TokenResource\<close> of \<open>db/resources.rs\<close>.
\<close>

section \<open>Names and addresses\<close>

definition name_length :: nat where
  "name_length = 128"

definition token_uri_length :: nat where
  "token_uri_length = 512"

definition v1_token_store_table_type :: string where
  "v1_token_store_table_type = ''0x3::token::TokenStore''"

definition token_addr :: string where
  "token_addr = ''0x0000000000000000000000000000000000000000000000000000000000000003''"

definition token_v2_addr :: string where
  "token_v2_addr = ''0x0000000000000000000000000000000000000000000000000000000000000004''"

record token_data_id_type =
  tdi_creator :: string
  tdi_collection :: string
  tdi_name :: string

record token_id_type =
  tid_token_data_id :: token_data_id_type
  tid_property_version :: decimal

record collection_data_id_type =
  cdi_creator :: string
  cdi_name :: string

definition collection_data_id_to_string :: "extern \<Rightarrow> collection_data_id_type \<Rightarrow> string" where
  "collection_data_id_to_string ext c = standardize_address ext (cdi_creator c) @ ''::'' @ cdi_name c"

definition collection_data_id_to_hash :: "extern \<Rightarrow> sdk \<Rightarrow> collection_data_id_type \<Rightarrow> string" where
  "collection_data_id_to_hash ext sdk c = hash_str sdk (collection_data_id_to_string ext c)"

definition collection_data_id_to_id :: "extern \<Rightarrow> sdk \<Rightarrow> collection_data_id_type \<Rightarrow> string" where
  "collection_data_id_to_id ext sdk c = ''0x'' @ collection_data_id_to_hash ext sdk c"

definition token_data_id_to_string :: "extern \<Rightarrow> token_data_id_type \<Rightarrow> string" where
  "token_data_id_to_string ext t =
     standardize_address ext (tdi_creator t) @ ''::'' @ tdi_collection t @ ''::'' @ tdi_name t"

definition to_hash :: "extern \<Rightarrow> sdk \<Rightarrow> token_data_id_type \<Rightarrow> string" where
  "to_hash ext sdk t = hash_str sdk (token_data_id_to_string ext t)"

definition to_id :: "extern \<Rightarrow> sdk \<Rightarrow> token_data_id_type \<Rightarrow> string" where
  "to_id ext sdk t = ''0x'' @ to_hash ext sdk t"

definition get_collection_trunc :: "sdk \<Rightarrow> token_data_id_type \<Rightarrow> string" where
  "get_collection_trunc sdk t = truncate_str sdk (tdi_collection t) name_length"

definition token_name_trunc :: "sdk \<Rightarrow> token_data_id_type \<Rightarrow> string" where
  "token_name_trunc sdk t = truncate_str sdk (tdi_name t) name_length"

definition collection_of_token :: "token_data_id_type \<Rightarrow> collection_data_id_type" where
  "collection_of_token t = \<lparr>cdi_creator = tdi_creator t, cdi_name = tdi_collection t\<rparr>"

definition get_collection_data_id_hash :: "extern \<Rightarrow> sdk \<Rightarrow> token_data_id_type \<Rightarrow> string" where
  "get_collection_data_id_hash ext sdk t = collection_data_id_to_hash ext sdk (collection_of_token t)"

definition get_collection_id :: "extern \<Rightarrow> sdk \<Rightarrow> token_data_id_type \<Rightarrow> string" where
  "get_collection_id ext sdk t = collection_data_id_to_id ext sdk (collection_of_token t)"

definition token_creator_address :: "extern \<Rightarrow> token_data_id_type \<Rightarrow> string" where
  "token_creator_address ext t = standardize_address ext (tdi_creator t)"

definition trunc_name :: "sdk \<Rightarrow> string \<Rightarrow> string" where
  "trunc_name sdk s = truncate_str sdk s name_length"

definition trunc_uri :: "sdk \<Rightarrow> string \<Rightarrow> string" where
  "trunc_uri sdk s = truncate_str sdk s token_uri_length"

text \<open>\<open>trunc_name\<close> and \<open>trunc_uri\<close> are the getters \<open>get_name_trunc\<close> and \<open>get_uri_trunc\<close> of the types below.\<close>

section \<open>Table items of version 1\<close>

record token_mutability =
  tmu_description :: bool
  tmu_maximum :: bool
  tmu_properties :: bool
  tmu_royalty :: bool
  tmu_uri :: bool

record royalty_type =
  roy_payee_address :: string
  roy_royalty_points_denominator :: decimal
  roy_royalty_points_numerator :: decimal

definition get_payee_address :: "extern \<Rightarrow> royalty_type \<Rightarrow> string" where
  "get_payee_address ext r = standardize_address ext (roy_payee_address r)"

record token_data_type =
  tdt_default_properties :: json
  tdt_description :: string
  tdt_largest_property_version :: decimal
  tdt_maximum :: decimal
  tdt_mutability_config :: token_mutability
  tdt_name :: string
  tdt_royalty :: royalty_type
  tdt_supply :: decimal
  tdt_uri :: string

record token_type =
  tkt_amount :: decimal
  tkt_id :: token_id_type
  tkt_token_properties :: json

record collection_mutability =
  cmu_description :: bool
  cmu_maximum :: bool
  cmu_uri :: bool

record collection_data_type =
  cdt_description :: string
  cdt_maximum :: decimal
  cdt_mutability_config :: collection_mutability
  cdt_name :: string
  cdt_supply :: decimal
  cdt_uri :: string

record token_offer_id_type =
  tof_to_addr :: string
  tof_token_id :: token_id_type

definition offer_to_address :: "extern \<Rightarrow> token_offer_id_type \<Rightarrow> string" where
  "offer_to_address ext offer = standardize_address ext (tof_to_addr offer)"

definition read_token_data_id :: "json \<Rightarrow> token_data_id_type option" where
  "read_token_data_id v =
     (case (json_str v ''creator'', json_str v ''collection'', json_str v ''name'') of
        (Some c, Some l, Some n) \<Rightarrow> Some \<lparr>tdi_creator = c, tdi_collection = l, tdi_name = n\<rparr> | _ \<Rightarrow> None)"

definition read_token_id :: "extern \<Rightarrow> json \<Rightarrow> token_id_type option" where
  "read_token_id ext v =
     (case (opt_and_then (json_get v ''token_data_id'') read_token_data_id, json_decimal ext v ''property_version'') of
        (Some t, Some p) \<Rightarrow> Some \<lparr>tid_token_data_id = t, tid_property_version = p\<rparr> | _ \<Rightarrow> None)"

definition read_token_mutability :: "json \<Rightarrow> token_mutability option" where
  "read_token_mutability v =
     (case (json_bool v ''description'', json_bool v ''maximum'', json_bool v ''properties'', json_bool v ''royalty'',
            json_bool v ''uri'') of
        (Some d, Some m, Some p, Some r, Some u) \<Rightarrow>
          Some \<lparr>tmu_description = d, tmu_maximum = m, tmu_properties = p, tmu_royalty = r, tmu_uri = u\<rparr>
      | _ \<Rightarrow> None)"

definition read_royalty :: "extern \<Rightarrow> json \<Rightarrow> royalty_type option" where
  "read_royalty ext v =
     (case (json_str v ''payee_address'', json_decimal ext v ''royalty_points_denominator'',
            json_decimal ext v ''royalty_points_numerator'') of
        (Some a, Some d, Some n) \<Rightarrow>
          Some \<lparr>roy_payee_address = a, roy_royalty_points_denominator = d, roy_royalty_points_numerator = n\<rparr>
      | _ \<Rightarrow> None)"

definition read_token_data :: "extern \<Rightarrow> sdk \<Rightarrow> json \<Rightarrow> token_data_type option" where
  "read_token_data ext sdk v =
     (case (opt_and_then (json_get v ''default_properties'') (property_map_of_json sdk), json_str v ''description'',
            json_decimal ext v ''largest_property_version'', json_decimal ext v ''maximum'',
            opt_and_then (json_get v ''mutability_config'') read_token_mutability, json_str v ''name'',
            opt_and_then (json_get v ''royalty'') (read_royalty ext), json_decimal ext v ''supply'', json_str v ''uri'') of
        (Some p, Some d, Some l, Some m, Some c, Some n, Some r, Some s, Some u) \<Rightarrow>
          Some \<lparr>tdt_default_properties = p, tdt_description = d, tdt_largest_property_version = l, tdt_maximum = m,
            tdt_mutability_config = c, tdt_name = n, tdt_royalty = r, tdt_supply = s, tdt_uri = u\<rparr>
      | _ \<Rightarrow> None)"

definition read_token :: "extern \<Rightarrow> sdk \<Rightarrow> json \<Rightarrow> token_type option" where
  "read_token ext sdk v =
     (case (json_decimal ext v ''amount'', opt_and_then (json_get v ''id'') (read_token_id ext),
            opt_and_then (json_get v ''token_properties'') (property_map_of_json sdk)) of
        (Some a, Some i, Some p) \<Rightarrow> Some \<lparr>tkt_amount = a, tkt_id = i, tkt_token_properties = p\<rparr> | _ \<Rightarrow> None)"

definition read_collection_mutability :: "json \<Rightarrow> collection_mutability option" where
  "read_collection_mutability v =
     (case (json_bool v ''description'', json_bool v ''maximum'', json_bool v ''uri'') of
        (Some d, Some m, Some u) \<Rightarrow> Some \<lparr>cmu_description = d, cmu_maximum = m, cmu_uri = u\<rparr> | _ \<Rightarrow> None)"

definition read_collection_data :: "extern \<Rightarrow> json \<Rightarrow> collection_data_type option" where
  "read_collection_data ext v =
     (case (json_str v ''description'', json_decimal ext v ''maximum'',
            opt_and_then (json_get v ''mutability_config'') read_collection_mutability, json_str v ''name'',
            json_decimal ext v ''supply'', json_str v ''uri'') of
        (Some d, Some m, Some c, Some n, Some s, Some u) \<Rightarrow>
          Some \<lparr>cdt_description = d, cdt_maximum = m, cdt_mutability_config = c, cdt_name = n, cdt_supply = s, cdt_uri = u\<rparr>
      | _ \<Rightarrow> None)"

definition read_token_offer_id :: "extern \<Rightarrow> json \<Rightarrow> token_offer_id_type option" where
  "read_token_offer_id ext v =
     (case (json_str v ''to_addr'', opt_and_then (json_get v ''token_id'') (read_token_id ext)) of
        (Some a, Some t) \<Rightarrow> Some \<lparr>tof_to_addr = a, tof_token_id = t\<rparr> | _ \<Rightarrow> None)"

datatype token_write_set = TokenDataId token_data_id_type | TokenId token_id_type | TokenData token_data_type
  | Token token_type | CollectionData collection_data_type | TokenOfferId token_offer_id_type

definition from_table_item_type :: "extern \<Rightarrow> sdk \<Rightarrow> string \<Rightarrow> string \<Rightarrow> token_write_set option result" where
  "from_table_item_type ext sdk data_type data =
     (let v = json_from_str ext data
      in if data_type = ''0x3::token::TokenDataId'' then
           parsed_event (map_option TokenDataId (opt_and_then v read_token_data_id))
         else if data_type = ''0x3::token::TokenId'' then
           parsed_event (map_option TokenId (opt_and_then v (read_token_id ext)))
         else if data_type = ''0x3::token::TokenData'' then
           parsed_event (map_option TokenData (opt_and_then v (read_token_data ext sdk)))
         else if data_type = ''0x3::token::Token'' then
           parsed_event (map_option Token (opt_and_then v (read_token ext sdk)))
         else if data_type = ''0x3::token::CollectionData'' then
           parsed_event (map_option CollectionData (opt_and_then v (read_collection_data ext)))
         else if data_type = ''0x3::token_transfers::TokenOfferId'' then
           parsed_event (map_option TokenOfferId (opt_and_then v (read_token_offer_id ext)))
         else Inr None)"

section \<open>Events of version 1\<close>

text \<open>
  The payload of an event is the amount and the id of the token.  Module events (the second of
  each pair) also carry the account, offers the receiver.
\<close>

datatype token_event =
    MintTokenEvent decimal token_data_id_type
  | TokenMint string decimal token_data_id_type
  | BurnTokenEvent decimal token_id_type
  | TokenBurn string decimal token_id_type
  | MutateTokenPropertyMapEvent token_id_type token_id_type
  | MutatePropertyMap string token_id_type token_id_type
  | WithdrawTokenEvent decimal token_id_type
  | TokenWithdraw string decimal token_id_type
  | DepositTokenEvent decimal token_id_type
  | TokenDeposit string decimal token_id_type
  | OfferTokenEvent decimal string token_id_type
  | TokenOffer decimal string string token_id_type
  | CancelTokenOfferEvent decimal string token_id_type
  | TokenCancelOffer decimal string string token_id_type
  | ClaimTokenEvent decimal string token_id_type
  | TokenClaim decimal string string token_id_type

definition read_amount_id ::
  "extern \<Rightarrow> (json \<Rightarrow> 'i option) \<Rightarrow> (decimal \<Rightarrow> 'i \<Rightarrow> token_event) \<Rightarrow> json \<Rightarrow> token_event option" where
  "read_amount_id ext read mk v =
     (case (json_decimal ext v ''amount'', opt_and_then (json_get v ''id'') read) of
        (Some a, Some i) \<Rightarrow> Some (mk a i) | _ \<Rightarrow> None)"

definition read_account_amount_id ::
  "extern \<Rightarrow> string \<Rightarrow> (json \<Rightarrow> 'i option) \<Rightarrow> (string \<Rightarrow> decimal \<Rightarrow> 'i \<Rightarrow> token_event) \<Rightarrow> json \<Rightarrow> token_event option" where
  "read_account_amount_id ext account read mk v =
     (case json_str v account of None \<Rightarrow> None | Some c \<Rightarrow> read_amount_id ext read (mk c) v)"

definition read_mutation :: "extern \<Rightarrow> (token_id_type \<Rightarrow> token_id_type \<Rightarrow> token_event) \<Rightarrow> json \<Rightarrow> token_event option" where
  "read_mutation ext mk v =
     (case (opt_and_then (json_get v ''old_id'') (read_token_id ext), opt_and_then (json_get v ''new_id'') (read_token_id ext)) of
        (Some i, Some j) \<Rightarrow> Some (mk i j) | _ \<Rightarrow> None)"

definition read_account_mutation :: "extern \<Rightarrow> json \<Rightarrow> token_event option" where
  "read_account_mutation ext v =
     (case json_str v ''account'' of None \<Rightarrow> None | Some a \<Rightarrow> read_mutation ext (MutatePropertyMap a) v)"

definition read_offer :: "extern \<Rightarrow> (decimal \<Rightarrow> string \<Rightarrow> token_id_type \<Rightarrow> token_event) \<Rightarrow> json \<Rightarrow> token_event option" where
  "read_offer ext mk v =
     (case (json_decimal ext v ''amount'', json_str v ''to_address'', opt_and_then (json_get v ''token_id'') (read_token_id ext)) of
        (Some a, Some t, Some i) \<Rightarrow> Some (mk a t i) | _ \<Rightarrow> None)"

definition read_account_offer ::
  "extern \<Rightarrow> (decimal \<Rightarrow> string \<Rightarrow> string \<Rightarrow> token_id_type \<Rightarrow> token_event) \<Rightarrow> json \<Rightarrow> token_event option" where
  "read_account_offer ext mk v =
     (case json_str v ''account'' of None \<Rightarrow> None | Some c \<Rightarrow> read_offer ext (\<lambda>a. mk a c) v)"

definition token_event_from_event :: "extern \<Rightarrow> string \<Rightarrow> string \<Rightarrow> token_event option result" where
  "token_event_from_event ext data_type data =
     (let parse = (\<lambda>read. parsed_event (opt_and_then (json_from_str ext data) read))
      in if data_type = ''0x3::token::MintTokenEvent'' then parse (read_amount_id ext read_token_data_id MintTokenEvent)
         else if data_type = ''0x3::token::Mint'' then
           parse (read_account_amount_id ext ''creator'' read_token_data_id TokenMint)
         else if data_type = ''0x3::token::BurnTokenEvent'' then parse (read_amount_id ext (read_token_id ext) BurnTokenEvent)
         else if data_type = ''0x3::token::Burn'' then
           parse (read_account_amount_id ext ''account'' (read_token_id ext) TokenBurn)
         else if data_type = ''0x3::token::MutateTokenPropertyMapEvent'' then
           parse (read_mutation ext MutateTokenPropertyMapEvent)
         else if data_type = ''0x3::token::MutatePropertyMap'' then parse (read_account_mutation ext)
         else if data_type = ''0x3::token::WithdrawEvent'' then
           parse (read_amount_id ext (read_token_id ext) WithdrawTokenEvent)
         else if data_type = ''0x3::token::TokenWithdraw'' then
           parse (read_account_amount_id ext ''account'' (read_token_id ext) TokenWithdraw)
         else if data_type = ''0x3::token::DepositEvent'' then
           parse (read_amount_id ext (read_token_id ext) DepositTokenEvent)
         else if data_type = ''0x3::token::TokenDeposit'' then
           parse (read_account_amount_id ext ''account'' (read_token_id ext) TokenDeposit)
         else if data_type = ''0x3::token_transfers::TokenOfferEvent'' then parse (read_offer ext OfferTokenEvent)
         else if data_type = ''0x3::token_transfers::Offer'' then parse (read_account_offer ext TokenOffer)
         else if data_type = ''0x3::token_transfers::TokenCancelOfferEvent'' then
           parse (read_offer ext CancelTokenOfferEvent)
         else if data_type = ''0x3::token_transfers::CancelOffer'' then parse (read_account_offer ext TokenCancelOffer)
         else if data_type = ''0x3::token_transfers::TokenClaimEvent'' then parse (read_offer ext ClaimTokenEvent)
         else if data_type = ''0x3::token_transfers::Claim'' then parse (read_account_offer ext TokenClaim)
         else Inr None)"

section \<open>Resources of version 1 and the owners of their tables\<close>

text \<open>Each resource is the handle of the table its rows are found in; a collection has two.\<close>

datatype token_resource = CollectionResource string string | TokenStoreResource string | PendingClaimsResource string

definition is_token_resource_supported :: "string \<Rightarrow> bool" where
  "is_token_resource_supported ty \<longleftrightarrow>
     ty \<in> set [token_addr @ ''::token::Collections'', token_addr @ ''::token::TokenStore'',
       token_addr @ ''::token_transfers::PendingClaims'']"

definition token_from_resource :: "extern \<Rightarrow> string \<Rightarrow> json \<Rightarrow> token_resource result" where
  "token_from_resource ext ty data =
     (let ok = (\<lambda>r. case r of None \<Rightarrow> Inl (ProcessError ''failed to parse type'') | Some x \<Rightarrow> Inr x)
      in if ty = token_addr @ ''::token::Collections'' then
           ok (case (read_table data ''collection_data'', read_table data ''token_data'') of
                 (Some c, Some t) \<Rightarrow> Some (CollectionResource c t) | _ \<Rightarrow> None)
         else if ty = token_addr @ ''::token::TokenStore'' then ok (map_option TokenStoreResource (read_table data ''tokens''))
         else if ty = token_addr @ ''::token_transfers::PendingClaims'' then
           ok (map_option PendingClaimsResource (read_table data ''pending_claims''))
         else Inl (ProcessError ''Resource unsupported! Call is_resource_supported first.''))"

record table_metadata_for_token =
  tmt_owner_address :: string
  tmt_table_type :: string

definition table_owner_address :: "extern \<Rightarrow> table_metadata_for_token \<Rightarrow> string" where
  "table_owner_address ext m = standardize_address ext (tmt_owner_address m)"

primrec token_resource_handle :: "extern \<Rightarrow> token_resource \<Rightarrow> string" where
  "token_resource_handle ext (CollectionResource c t) = get_handle ext c"
| "token_resource_handle ext (TokenStoreResource t) = get_handle ext t"
| "token_resource_handle ext (PendingClaimsResource t) = get_handle ext t"

definition get_table_handle_to_owner ::
  "extern \<Rightarrow> write_resource \<Rightarrow> i64 \<Rightarrow> datetime \<Rightarrow> (string \<times> table_metadata_for_token) list option result" where
  "get_table_handle_to_owner ext wr version ts =
     and_then (get_outer_type_from_write_resource ext wr) (\<lambda>ty.
       if \<not> is_token_resource_supported ty then Inr None
       else
         (case move_resource_from_write_resource ext wr 0 version 0 ts of
            Inl e \<Rightarrow> Inl (ProcessError ''Error processing write resource'')
          | Inr None \<Rightarrow> Inr None
          | Inr (Some resource) \<Rightarrow>
              and_then (unwrap (mr_data resource)) (\<lambda>data.
              and_then (token_from_resource ext ty data) (\<lambda>r.
                Inr (Some [(standardize_address ext (token_resource_handle ext r),
                  \<lparr>tmt_owner_address = mr_resource_address resource, tmt_table_type = wr_type_str wr\<rparr>)])))))"

definition table_handle_change ::
  "extern \<Rightarrow> i64 \<Rightarrow> datetime \<Rightarrow> change option \<Rightarrow> (string \<times> table_metadata_for_token) list
     \<Rightarrow> (string \<times> table_metadata_for_token) list result" where
  "table_handle_change ext version ts wsc owners =
     and_then (unwrap wsc) (\<lambda>c.
       case c of
         WriteResource wr \<Rightarrow>
           and_then (expect_ok (get_table_handle_to_owner ext wr version ts)) (\<lambda>m.
             Inr (case m of None \<Rightarrow> owners | Some new \<Rightarrow> extend_map new owners))
       | _ \<Rightarrow> Inr owners)"

definition table_handle_txn ::
  "extern \<Rightarrow> transaction \<Rightarrow> (string \<times> table_metadata_for_token) list
     \<Rightarrow> (string \<times> table_metadata_for_token) list result" where
  "table_handle_txn ext txn owners =
     (case tx_data txn of
        Some (TxnUser _) \<Rightarrow>
          (case tx_info txn of
             None \<Rightarrow> Inl (Panic ''Transaction info doesn't exist!'')
           | Some info \<Rightarrow>
               and_then (unwrap (tx_timestamp txn)) (\<lambda>t.
                 fold_result (table_handle_change ext (tx_version txn) (parse_timestamp ext t (tx_version txn)))
                   (ti_changes info) owners))
      | _ \<Rightarrow> Inr owners)"

definition get_table_handle_to_owner_from_transactions ::
  "extern \<Rightarrow> transaction list \<Rightarrow> (string \<times> table_metadata_for_token) list result" where
  "get_table_handle_to_owner_from_transactions ext txns = fold_result (table_handle_txn ext) txns []"

type_synonym table_handle_to_owner = "string \<rightharpoonup> table_metadata_for_token"

section \<open>Resources of version 2\<close>

record collection_resource =
  clr_creator :: string
  clr_description :: string
  clr_name :: string
  clr_uri :: string

record token_v2_resource =
  tkr_collection :: string
  tkr_description :: string
  tkr_name :: string
  tkr_uri :: string

record fixed_supply =
  fx_current_supply :: decimal
  fx_max_supply :: decimal
  fx_total_minted :: decimal

record unlimited_supply =
  un_current_supply :: decimal
  un_total_minted :: decimal

text \<open>
  \<open>AptosCollection\<close> is the pair of its two flags, \<open>ConcurrentSupply\<close> the pair of its aggregators
  (each a value and a maximum), \<open>PropertyMapModel\<close> and \<open>TokenIdentifiers\<close> what the SDK reads of
  their only field.  \<open>tkr_collection\<close> is the address inside the reference.
\<close>

definition type_of_v2 :: "string \<Rightarrow> string" where
  "type_of_v2 name = token_v2_addr @ name"

definition collection_try_from :: "extern \<Rightarrow> write_resource \<Rightarrow> collection_resource option" where
  "collection_try_from ext wr =
     opt_and_then (json_from_str ext (wr_data wr)) (\<lambda>v.
       case (json_str v ''creator'', json_str v ''description'', json_str v ''name'', json_str v ''uri'') of
         (Some c, Some d, Some n, Some u) \<Rightarrow> Some \<lparr>clr_creator = c, clr_description = d, clr_name = n, clr_uri = u\<rparr>
       | _ \<Rightarrow> None)"

definition token_v2_try_from :: "extern \<Rightarrow> write_resource \<Rightarrow> token_v2_resource option" where
  "token_v2_try_from ext wr =
     opt_and_then (json_from_str ext (wr_data wr)) (\<lambda>v.
       case (reference_inner v ''collection'', json_str v ''description'', json_str v ''name'', json_str v ''uri'') of
         (Some c, Some d, Some n, Some u) \<Rightarrow> Some \<lparr>tkr_collection = c, tkr_description = d, tkr_name = n, tkr_uri = u\<rparr>
       | _ \<Rightarrow> None)"

definition aptos_collection_try_from :: "extern \<Rightarrow> write_resource \<Rightarrow> (bool \<times> bool) option" where
  "aptos_collection_try_from ext wr =
     opt_and_then (json_from_str ext (wr_data wr)) (\<lambda>v.
       case (json_bool v ''mutable_description'', json_bool v ''mutable_uri'') of
         (Some d, Some u) \<Rightarrow> Some (d, u) | _ \<Rightarrow> None)"

definition fixed_supply_try_from :: "extern \<Rightarrow> write_resource \<Rightarrow> fixed_supply option" where
  "fixed_supply_try_from ext wr =
     opt_and_then (json_from_str ext (wr_data wr)) (\<lambda>v.
       case (json_decimal ext v ''current_supply'', json_decimal ext v ''max_supply'', json_decimal ext v ''total_minted'') of
         (Some c, Some m, Some t) \<Rightarrow> Some \<lparr>fx_current_supply = c, fx_max_supply = m, fx_total_minted = t\<rparr> | _ \<Rightarrow> None)"

definition unlimited_supply_try_from :: "extern \<Rightarrow> write_resource \<Rightarrow> unlimited_supply option" where
  "unlimited_supply_try_from ext wr =
     opt_and_then (json_from_str ext (wr_data wr)) (\<lambda>v.
       case (json_decimal ext v ''current_supply'', json_decimal ext v ''total_minted'') of
         (Some c, Some t) \<Rightarrow> Some \<lparr>un_current_supply = c, un_total_minted = t\<rparr> | _ \<Rightarrow> None)"

type_synonym aggregator = "decimal \<times> decimal"

definition concurrent_supply_try_from :: "extern \<Rightarrow> sdk \<Rightarrow> write_resource \<Rightarrow> (aggregator \<times> aggregator) option" where
  "concurrent_supply_try_from ext sdk wr =
     (case (aggregator_try_from ext sdk ''current_supply'' wr, aggregator_try_from ext sdk ''total_minted'' wr) of
        (Some c, Some t) \<Rightarrow> Some (c, t) | _ \<Rightarrow> None)"

definition property_map_try_from :: "extern \<Rightarrow> sdk \<Rightarrow> write_resource \<Rightarrow> json option" where
  "property_map_try_from ext sdk wr =
     opt_and_then (json_from_str ext (wr_data wr)) (\<lambda>v.
       opt_and_then (json_get v ''inner'') (token_object_property_map_of_json sdk))"

definition token_identifiers_try_from :: "extern \<Rightarrow> sdk \<Rightarrow> write_resource \<Rightarrow> string option" where
  "token_identifiers_try_from ext sdk wr =
     opt_and_then (json_from_str ext (wr_data wr)) (\<lambda>v.
       opt_and_then (json_get v ''name'') (derived_string_of_json sdk))"

definition account_try_from :: "extern \<Rightarrow> write_resource \<Rightarrow> string option" where
  "account_try_from ext wr = opt_and_then (json_from_str ext (wr_data wr)) (\<lambda>v. json_str v ''authentication_key'')"

datatype v2_token_resource = ResAptosCollection "bool \<times> bool" | ResCollection collection_resource
  | ResConcurrentSupply "aggregator \<times> aggregator" | ResFixedSupply fixed_supply | ResObjectCore object_core
  | ResPropertyMapModel json | ResTokenIdentifiers string | ResTokenV2 token_v2_resource
  | ResUnlimitedSupply unlimited_supply | ResUntransferable bool | ResAccount string

definition v2_token_from_write_resource :: "extern \<Rightarrow> sdk \<Rightarrow> write_resource \<Rightarrow> v2_token_resource option result" where
  "v2_token_from_write_resource ext sdk wr =
     and_then (get_outer_type_from_write_resource ext wr) (\<lambda>ty.
       if ty = coin_addr @ ''::account::Account'' then parsed_event (map_option ResAccount (account_try_from ext wr))
       else if ty = type_of_v2 ''::aptos_token::AptosCollection'' then
         parsed_event (map_option ResAptosCollection (aptos_collection_try_from ext wr))
       else if ty = type_of_v2 ''::collection::Collection'' then
         parsed_event (map_option ResCollection (collection_try_from ext wr))
       else if ty = type_of_v2 ''::collection::ConcurrentSupply'' then
         parsed_event (map_option ResConcurrentSupply (concurrent_supply_try_from ext sdk wr))
       else if ty = type_of_v2 ''::collection::FixedSupply'' then
         parsed_event (map_option ResFixedSupply (fixed_supply_try_from ext wr))
       else if ty = type_object_core then parsed_event (map_option ResObjectCore (object_core_try_from ext wr))
       else if ty = type_of_v2 ''::property_map::PropertyMap'' then
         parsed_event (map_option ResPropertyMapModel (property_map_try_from ext sdk wr))
       else if ty = type_of_v2 ''::token::TokenIdentifiers'' then
         parsed_event (map_option ResTokenIdentifiers (token_identifiers_try_from ext sdk wr))
       else if ty = type_of_v2 ''::token::Token'' then parsed_event (map_option ResTokenV2 (token_v2_try_from ext wr))
       else if ty = type_of_v2 ''::collection::UnlimitedSupply'' then
         parsed_event (map_option ResUnlimitedSupply (unlimited_supply_try_from ext wr))
       else if ty = type_untransferable then parsed_event (map_option ResUntransferable (untransferable_try_from ext wr))
       else Inr None)"

section \<open>Events of version 2\<close>

record burn_event_v2 =
  brn_collection :: string
  brn_index :: decimal
  brn_token :: string
  brn_previous_owner :: string

record transfer_event =
  tre_from :: string
  tre_to :: string
  tre_object :: string

datatype v2_token_event =
    V2Mint string decimal string
  | V2MintEvent decimal string
  | V2TokenMutationEvent string string string
  | V2TokenMutation string string string string
  | V2Burn burn_event_v2
  | V2BurnEvent decimal string
  | V2TransferEvent transfer_event

text \<open>
  The arguments are those of the events: collection, index and token of \<open>Mint\<close>, index and token of
  \<open>MintEvent\<close> and \<open>BurnEvent\<close>, field name, old and new value of a mutation, after the token's
  address in a module event.
\<close>

definition read_v2_mint :: "sdk \<Rightarrow> json \<Rightarrow> v2_token_event option" where
  "read_v2_mint sdk v =
     (case (json_str v ''collection'', opt_and_then (json_get v ''index'') (aggregator_snapshot_of_json sdk), json_str v ''token'') of
        (Some c, Some i, Some t) \<Rightarrow> Some (V2Mint c i t) | _ \<Rightarrow> None)"

definition read_index_token :: "extern \<Rightarrow> (decimal \<Rightarrow> string \<Rightarrow> v2_token_event) \<Rightarrow> json \<Rightarrow> v2_token_event option" where
  "read_index_token ext mk v =
     (case (json_decimal ext v ''index'', json_str v ''token'') of (Some i, Some t) \<Rightarrow> Some (mk i t) | _ \<Rightarrow> None)"

definition read_v2_mutation ::
  "(string \<Rightarrow> string \<Rightarrow> string \<Rightarrow> v2_token_event) \<Rightarrow> json \<Rightarrow> v2_token_event option" where
  "read_v2_mutation mk v =
     (case (json_str v ''mutated_field_name'', json_str v ''old_value'', json_str v ''new_value'') of
        (Some f, Some a, Some b) \<Rightarrow> Some (mk f a b) | _ \<Rightarrow> None)"

definition read_v2_burn :: "extern \<Rightarrow> json \<Rightarrow> burn_event_v2 option" where
  "read_v2_burn ext v =
     (case (json_str v ''collection'', json_decimal ext v ''index'', json_str v ''token'', json_str v ''previous_owner'') of
        (Some c, Some i, Some t, Some p) \<Rightarrow>
          Some \<lparr>brn_collection = c, brn_index = i, brn_token = t, brn_previous_owner = p\<rparr>
      | _ \<Rightarrow> None)"

definition read_transfer :: "json \<Rightarrow> transfer_event option" where
  "read_transfer v =
     (case (json_str v ''from'', json_str v ''to'', json_str v ''object'') of
        (Some f, Some t, Some b) \<Rightarrow> Some \<lparr>tre_from = f, tre_to = t, tre_object = b\<rparr> | _ \<Rightarrow> None)"

definition v2_event_from_event :: "extern \<Rightarrow> sdk \<Rightarrow> string \<Rightarrow> string \<Rightarrow> v2_token_event option result" where
  "v2_event_from_event ext sdk data_type data =
     (let parse = (\<lambda>read. parsed_event (opt_and_then (json_from_str ext data) read))
      in if data_type = ''0x4::collection::Mint'' then parse (read_v2_mint sdk)
         else if data_type = ''0x4::collection::MintEvent'' then parse (read_index_token ext V2MintEvent)
         else if data_type = ''0x4::token::MutationEvent'' then parse (read_v2_mutation V2TokenMutationEvent)
         else if data_type = ''0x4::token::Mutation'' then
           parse (\<lambda>v. opt_and_then (json_str v ''token_address'') (\<lambda>a. read_v2_mutation (V2TokenMutation a) v))
         else if data_type = ''0x4::collection::Burn'' then parse (\<lambda>v. map_option V2Burn (read_v2_burn ext v))
         else if data_type = ''0x4::collection::BurnEvent'' then parse (read_index_token ext V2BurnEvent)
         else if data_type = ''0x1::object::TransferEvent'' \<or> data_type = ''0x1::object::Transfer'' then
           parse (\<lambda>v. map_option V2TransferEvent (read_transfer v))
         else Inr None)"

definition burn_token_address :: "extern \<Rightarrow> burn_event_v2 \<Rightarrow> string" where
  "burn_token_address ext b = standardize_address ext (brn_token b)"

definition burn_collection_address :: "extern \<Rightarrow> burn_event_v2 \<Rightarrow> string" where
  "burn_collection_address ext b = standardize_address ext (brn_collection b)"

definition get_previous_owner_address :: "extern \<Rightarrow> burn_event_v2 \<Rightarrow> string option" where
  "get_previous_owner_address ext b =
     (if brn_previous_owner b = [] then None else Some (standardize_address ext (brn_previous_owner b)))"

definition get_from_address :: "extern \<Rightarrow> transfer_event \<Rightarrow> string" where
  "get_from_address ext t = standardize_address ext (tre_from t)"

definition get_to_address :: "extern \<Rightarrow> transfer_event \<Rightarrow> string" where
  "get_to_address ext t = standardize_address ext (tre_to t)"

definition get_object_address :: "extern \<Rightarrow> transfer_event \<Rightarrow> string" where
  "get_object_address ext t = standardize_address ext (tre_object t)"

text \<open>An event belongs to version 1 or to version 2 of the token standard, never to both.\<close>

lemma token_events_disjoint:
  assumes "token_event_from_event ext ty data = Inr (Some e)"
    and "v2_event_from_event ext sdk ty data' = Inr (Some f)"
  shows False
  using assms by (auto simp: token_event_from_event_def v2_event_from_event_def Let_def split: if_splits)

end
