(* ===== verification/TokenRows.thy ===== *)
theory TokenRows
  imports TokenModels
begin

text \<open>
  The rows of the token processor and how they are read from table items, resources and events:
  \<open>v2_collections.rs\<close>, \<open>v2_token_datas.rs\<close>, \<open>v2_token_ownerships.rs\<close>, \<open>v2_token_activities.rs\<close>,
  \<open>v2_token_metadata.rs\<close>, \<open>token_claims.rs\<close> and \<open>token_royalty.rs\<close>.  The Postgres rows have the
  fields of the raw rows, so one record stands for both.
\<close>

section \<open>Rows\<close>

record collection_v2 =
  col_transaction_version :: i64
  col_write_set_change_index :: i64
  col_collection_id :: string
  col_creator_address :: string
  col_collection_name :: string
  col_description :: string
  col_uri :: string
  col_current_supply :: decimal
  col_max_supply :: "decimal option"
  col_total_minted_v2 :: "decimal option"
  col_mutable_description :: "bool option"
  col_mutable_uri :: "bool option"
  col_table_handle_v1 :: "string option"
  col_collection_properties :: "json option"
  col_token_standard :: string
  col_transaction_timestamp :: datetime

record current_collection_v2 =
  ccl_collection_id :: string
  ccl_creator_address :: string
  ccl_collection_name :: string
  ccl_description :: string
  ccl_uri :: string
  ccl_current_supply :: decimal
  ccl_max_supply :: "decimal option"
  ccl_total_minted_v2 :: "decimal option"
  ccl_mutable_description :: "bool option"
  ccl_mutable_uri :: "bool option"
  ccl_table_handle_v1 :: "string option"
  ccl_token_standard :: string
  ccl_collection_properties :: "json option"
  ccl_last_transaction_version :: i64
  ccl_last_transaction_timestamp :: datetime

record token_data_v2 =
  tdd_transaction_version :: i64
  tdd_write_set_change_index :: i64
  tdd_token_data_id :: string
  tdd_collection_id :: string
  tdd_token_name :: string
  tdd_maximum :: "decimal option"
  tdd_supply :: "decimal option"
  tdd_largest_property_version_v1 :: "decimal option"
  tdd_token_uri :: string
  tdd_token_properties :: json
  tdd_description :: string
  tdd_token_standard :: string
  tdd_is_fungible_v2 :: "bool option"
  tdd_transaction_timestamp :: datetime
  tdd_decimals :: "i64 option"
  tdd_is_deleted_v2 :: "bool option"

record current_token_data_v2 =
  ctd_token_data_id :: string
  ctd_collection_id :: string
  ctd_token_name :: string
  ctd_maximum :: "decimal option"
  ctd_supply :: "decimal option"
  ctd_largest_property_version_v1 :: "decimal option"
  ctd_token_uri :: string
  ctd_token_properties :: json
  ctd_description :: string
  ctd_token_standard :: string
  ctd_is_fungible_v2 :: "bool option"
  ctd_last_transaction_version :: i64
  ctd_last_transaction_timestamp :: datetime
  ctd_decimals :: "i64 option"
  ctd_is_deleted_v2 :: "bool option"

record token_ownership_v2 =
  own_transaction_version :: i64
  own_write_set_change_index :: i64
  own_token_data_id :: string
  own_property_version_v1 :: decimal
  own_owner_address :: "string option"
  own_storage_id :: string
  own_amount :: decimal
  own_table_type_v1 :: "string option"
  own_token_properties_mutated_v1 :: "json option"
  own_is_soulbound_v2 :: "bool option"
  own_token_standard :: string
  own_is_fungible_v2 :: "bool option"
  own_transaction_timestamp :: datetime
  own_non_transferrable_by_owner :: "bool option"

record current_token_ownership_v2 =
  cto_token_data_id :: string
  cto_property_version_v1 :: decimal
  cto_owner_address :: string
  cto_storage_id :: string
  cto_amount :: decimal
  cto_table_type_v1 :: "string option"
  cto_token_properties_mutated_v1 :: "json option"
  cto_is_soulbound_v2 :: "bool option"
  cto_token_standard :: string
  cto_is_fungible_v2 :: "bool option"
  cto_last_transaction_version :: i64
  cto_last_transaction_timestamp :: datetime
  cto_non_transferrable_by_owner :: "bool option"

record nft_ownership_v2 =
  nft_token_data_id :: string
  nft_owner_address :: string
  nft_is_soulbound :: "bool option"

record token_activity_v2 =
  tav_transaction_version :: i64
  tav_event_index :: i64
  tav_event_account_address :: string
  tav_token_data_id :: string
  tav_property_version_v1 :: decimal
  tav_type :: string
  tav_from_address :: "string option"
  tav_to_address :: "string option"
  tav_token_amount :: decimal
  tav_before_value :: "string option"
  tav_after_value :: "string option"
  tav_entry_function_id_str :: "string option"
  tav_token_standard :: string
  tav_is_fungible_v2 :: "bool option"
  tav_transaction_timestamp :: datetime

record current_token_pending_claim =
  cpc_token_data_id_hash :: string
  cpc_property_version :: decimal
  cpc_from_address :: string
  cpc_to_address :: string
  cpc_collection_data_id_hash :: string
  cpc_creator_address :: string
  cpc_collection_name :: string
  cpc_name :: string
  cpc_amount :: decimal
  cpc_table_handle :: string
  cpc_last_transaction_version :: i64
  cpc_last_transaction_timestamp :: datetime
  cpc_token_data_id :: string
  cpc_collection_id :: string

record current_token_royalty_v1 =
  ctr_token_data_id :: string
  ctr_payee_address :: string
  ctr_royalty_points_numerator :: decimal
  ctr_royalty_points_denominator :: decimal
  ctr_last_transaction_version :: i64
  ctr_last_transaction_timestamp :: datetime

record current_token_v2_metadata =
  ctm_object_address :: string
  ctm_resource_type :: string
  ctm_data :: json
  ctm_state_key_hash :: string
  ctm_last_transaction_version :: i64
  ctm_last_transaction_timestamp :: datetime

section \<open>What a batch knows of its objects, and the database\<close>

record token_object =
  tob_object :: object_with_metadata
  tob_transfer_events :: "(i64 \<times> transfer_event) list"
  tob_untransferable :: "bool option"
  tob_fungible_asset_metadata :: "fungible_asset_metadata option"
  tob_aptos_collection :: "(bool \<times> bool) option"
  tob_fixed_supply :: "fixed_supply option"
  tob_property_map :: "json option"
  tob_token :: "token_v2_resource option"
  tob_unlimited_supply :: "unlimited_supply option"
  tob_concurrent_supply :: "(aggregator \<times> aggregator) option"
  tob_token_identifier :: "string option"

type_synonym token_objects = "string \<rightharpoonup> token_object"

text \<open>
  The fields of \<open>ObjectAggregatedData\<close> this processor fills.  The two queries see the tables
  \<open>current_collections_v2\<close> and \<open>current_token_ownerships_v2\<close> as they are, and in the order they are
  returned, at the given attempt while the change of the given version and index is handled;
  \<open>None\<close> stands for a failed query.
\<close>

record token_db =
  tdb_query_retries :: nat
  tdb_collections :: "i64 \<Rightarrow> i64 \<Rightarrow> nat \<Rightarrow> current_collection_v2 list option"
  tdb_ownerships :: "i64 \<Rightarrow> i64 \<Rightarrow> nat \<Rightarrow> current_token_ownership_v2 list option"

definition get_by_table_handle :: "current_collection_v2 list \<Rightarrow> string \<Rightarrow> string option" where
  "get_by_table_handle rows handle =
     (case rev (filter (\<lambda>r. ccl_table_handle_v1 r = Some handle) rows) of
        [] \<Rightarrow> None | r # _ \<Rightarrow> Some (ccl_creator_address r))"

definition get_collection_creator_for_v1 :: "token_db \<Rightarrow> i64 \<Rightarrow> i64 \<Rightarrow> string \<Rightarrow> string option" where
  "get_collection_creator_for_v1 db version index handle =
     query_with_retries (\<lambda>tried. opt_and_then (tdb_collections db version index tried)
       (\<lambda>rows. get_by_table_handle rows handle)) (tdb_query_retries db) 0"

definition latest_owned_nft :: "current_token_ownership_v2 list \<Rightarrow> string \<Rightarrow> current_token_ownership_v2 option" where
  "latest_owned_nft rows id' = find (\<lambda>r. cto_token_data_id r = id' \<and> 0 < cto_amount r) rows"

definition get_latest_owned_nft_by_token_data_id ::
  "token_db \<Rightarrow> i64 \<Rightarrow> i64 \<Rightarrow> string \<Rightarrow> nft_ownership_v2 option" where
  "get_latest_owned_nft_by_token_data_id db version index id' =
     query_with_retries (\<lambda>tried. opt_and_then (tdb_ownerships db version index tried)
       (\<lambda>rows. map_option (\<lambda>r. \<lparr>nft_token_data_id = cto_token_data_id r, nft_owner_address = cto_owner_address r,
          nft_is_soulbound = cto_is_soulbound_v2 r\<rparr>) (latest_owned_nft rows id'))) (tdb_query_retries db) 0"

section \<open>Collections\<close>

definition u64_max :: decimal where
  "u64_max = 18446744073709551615"

definition collection_of_current :: "i64 \<Rightarrow> current_collection_v2 \<Rightarrow> collection_v2" where
  "collection_of_current index c =
     \<lparr>col_transaction_version = ccl_last_transaction_version c, col_write_set_change_index = index,
      col_collection_id = ccl_collection_id c, col_creator_address = ccl_creator_address c,
      col_collection_name = ccl_collection_name c, col_description = ccl_description c, col_uri = ccl_uri c,
      col_current_supply = ccl_current_supply c, col_max_supply = ccl_max_supply c,
      col_total_minted_v2 = ccl_total_minted_v2 c, col_mutable_description = ccl_mutable_description c,
      col_mutable_uri = ccl_mutable_uri c, col_table_handle_v1 = ccl_table_handle_v1 c,
      col_collection_properties = ccl_collection_properties c, col_token_standard = ccl_token_standard c,
      col_transaction_timestamp = ccl_last_transaction_timestamp c\<rparr>"

definition collection_supply :: "token_object \<Rightarrow> decimal \<times> decimal option \<times> decimal option" where
  "collection_supply ob =
     (case tob_concurrent_supply ob of
        Some (current, minted) \<Rightarrow>
          (fst current, if snd current = u64_max then None else Some (snd current), Some (fst minted))
      | None \<Rightarrow>
          (case tob_fixed_supply ob of
             Some s \<Rightarrow> (fx_current_supply s, Some (fx_max_supply s), Some (fx_total_minted s))
           | None \<Rightarrow>
               (case tob_unlimited_supply ob of
                  Some s \<Rightarrow> (un_current_supply s, None, Some (un_total_minted s))
                | None \<Rightarrow> (0, None, None))))"

text \<open>
  The history row and the current row of a collection hold the same values, so the pair is the
  current row and \<open>collection_of_current\<close> of it; ownerships are written the same way below.
\<close>

definition collection_v2_from_write_resource ::
  "extern \<Rightarrow> sdk \<Rightarrow> write_resource \<Rightarrow> i64 \<Rightarrow> i64 \<Rightarrow> datetime \<Rightarrow> token_objects
     \<Rightarrow> (collection_v2 \<times> current_collection_v2) option result" where
  "collection_v2_from_write_resource ext sdk wr version index ts objects =
     and_then (read_result (from_write_resource ext (type_of_v2 ''::collection::Collection'') (collection_try_from ext) wr)) (\<lambda>r.
       case r of
         None \<Rightarrow> Inr None
       | Some inner \<Rightarrow>
           (let address = standardize_address ext (wr_address wr)
            in case objects address of
                 None \<Rightarrow> Inr None
               | Some ob \<Rightarrow>
                   (let (current, maximum, minted) = collection_supply ob;
                        c = \<lparr>ccl_collection_id = address, ccl_creator_address = standardize_address ext (clr_creator inner),
                          ccl_collection_name = trunc_name sdk (clr_name inner), ccl_description = clr_description inner,
                          ccl_uri = trunc_uri sdk (clr_uri inner), ccl_current_supply = current, ccl_max_supply = maximum,
                          ccl_total_minted_v2 = minted,
                          ccl_mutable_description = map_option fst (tob_aptos_collection ob),
                          ccl_mutable_uri = map_option snd (tob_aptos_collection ob), ccl_table_handle_v1 = None,
                          ccl_token_standard = token_standard_to_string V2,
                          ccl_collection_properties = Some (unwrap_or (tob_property_map ob) JNull),
                          ccl_last_transaction_version = version, ccl_last_transaction_timestamp = ts\<rparr>
                    in Inr (Some (collection_of_current index c, c)))))"

definition default_creator_address :: string where
  "default_creator_address = ''unknown''"

definition collection_creator_v1 ::
  "extern \<Rightarrow> token_db option \<Rightarrow> i64 \<Rightarrow> i64 \<Rightarrow> table_handle_to_owner \<Rightarrow> string \<Rightarrow> string option" where
  "collection_creator_v1 ext db version index owners handle =
     (case owners (standardize_address ext handle) of
        Some m \<Rightarrow> Some (table_owner_address ext m)
      | None \<Rightarrow>
          (case db of
             None \<Rightarrow> Some default_creator_address
           | Some ctx \<Rightarrow> get_collection_creator_for_v1 ctx version index handle))"

definition collection_v1_from_write_table_item ::
  "extern \<Rightarrow> sdk \<Rightarrow> token_db option \<Rightarrow> write_table_item \<Rightarrow> i64 \<Rightarrow> i64 \<Rightarrow> datetime \<Rightarrow> table_handle_to_owner
     \<Rightarrow> (collection_v2 \<times> current_collection_v2) option result" where
  "collection_v1_from_write_table_item ext sdk db item version index ts owners =
     and_then (unwrap (wt_data item)) (\<lambda>data.
     and_then (from_table_item_type ext sdk (wtd_value_type data) (wtd_value data)) (\<lambda>v.
       case v of
         Some (CollectionData d) \<Rightarrow>
           (case collection_creator_v1 ext db version index owners (wt_handle item) of
              None \<Rightarrow> Inr None
            | Some creator \<Rightarrow>
                (let collection = \<lparr>cdi_creator = standardize_address ext creator, cdi_name = cdt_name d\<rparr>;
                     c = \<lparr>ccl_collection_id = collection_data_id_to_id ext sdk collection,
                       ccl_creator_address = cdi_creator collection, ccl_collection_name = trunc_name sdk (cdt_name d),
                       ccl_description = cdt_description d, ccl_uri = trunc_uri sdk (cdt_uri d),
                       ccl_current_supply = cdt_supply d, ccl_max_supply = Some (cdt_maximum d),
                       ccl_total_minted_v2 = None,
                       ccl_mutable_description = Some (cmu_description (cdt_mutability_config d)),
                       ccl_mutable_uri = Some (cmu_uri (cdt_mutability_config d)),
                       ccl_table_handle_v1 = Some (wt_handle item), ccl_token_standard = token_standard_to_string V1,
                       ccl_collection_properties = Some JNull, ccl_last_transaction_version = version,
                       ccl_last_transaction_timestamp = ts\<rparr>
                 in Inr (Some (collection_of_current index c, c))))
       | _ \<Rightarrow> Inr None))"

section \<open>Token data\<close>

definition token_data_of_current :: "i64 \<Rightarrow> current_token_data_v2 \<Rightarrow> token_data_v2" where
  "token_data_of_current index c =
     \<lparr>tdd_transaction_version = ctd_last_transaction_version c, tdd_write_set_change_index = index,
      tdd_token_data_id = ctd_token_data_id c, tdd_collection_id = ctd_collection_id c,
      tdd_token_name = ctd_token_name c, tdd_maximum = ctd_maximum c, tdd_supply = ctd_supply c,
      tdd_largest_property_version_v1 = ctd_largest_property_version_v1 c, tdd_token_uri = ctd_token_uri c,
      tdd_token_properties = ctd_token_properties c, tdd_description = ctd_description c,
      tdd_token_standard = ctd_token_standard c, tdd_is_fungible_v2 = ctd_is_fungible_v2 c,
      tdd_transaction_timestamp = ctd_last_transaction_timestamp c, tdd_decimals = ctd_decimals c,
      tdd_is_deleted_v2 = None\<rparr>"

definition token_data_v2_from_write_resource ::
  "extern \<Rightarrow> sdk \<Rightarrow> write_resource \<Rightarrow> i64 \<Rightarrow> i64 \<Rightarrow> datetime \<Rightarrow> token_objects
     \<Rightarrow> (token_data_v2 \<times> current_token_data_v2) option result" where
  "token_data_v2_from_write_resource ext sdk wr version index ts objects =
     and_then (read_result (from_write_resource ext (type_of_v2 ''::token::Token'') (token_v2_try_from ext) wr)) (\<lambda>r.
       case r of
         None \<Rightarrow> Inr None
       | Some inner \<Rightarrow>
           (let id' = standardize_address ext (wr_address wr)
            in case objects id' of
                 None \<Rightarrow> Inr None
               | Some ob \<Rightarrow>
                   (let c = \<lparr>ctd_token_data_id = id', ctd_collection_id = standardize_address ext (tkr_collection inner),
                      ctd_token_name = trunc_name sdk (case tob_token_identifier ob of Some n \<Rightarrow> n | None \<Rightarrow> tkr_name inner),
                      ctd_maximum = None, ctd_supply = None, ctd_largest_property_version_v1 = None,
                      ctd_token_uri = trunc_uri sdk (tkr_uri inner),
                      ctd_token_properties = unwrap_or (tob_property_map ob) JNull, ctd_description = tkr_description inner,
                      ctd_token_standard = token_standard_to_string V2,
                      ctd_is_fungible_v2 = Some (tob_fungible_asset_metadata ob \<noteq> None),
                      ctd_last_transaction_version = version, ctd_last_transaction_timestamp = ts,
                      ctd_decimals = None, ctd_is_deleted_v2 = Some False\<rparr>
                    in Inr (Some (token_data_of_current index c, c)))))"

type_synonym token_v2_burned = "string \<rightharpoonup> burn_event_v2"

definition burned_token_data ::
  "extern \<Rightarrow> string \<Rightarrow> i64 \<Rightarrow> datetime \<Rightarrow> token_v2_burned \<Rightarrow> current_token_data_v2 option" where
  "burned_token_data ext address version ts burned =
     (let id' = standardize_address ext address
      in map_option (\<lambda>b. \<lparr>ctd_token_data_id = id', ctd_collection_id = burn_collection_address ext b,
           ctd_token_name = [], ctd_maximum = None, ctd_supply = None, ctd_largest_property_version_v1 = None,
           ctd_token_uri = [], ctd_token_properties = JNull, ctd_description = [],
           ctd_token_standard = token_standard_to_string V2, ctd_is_fungible_v2 = Some False,
           ctd_last_transaction_version = version, ctd_last_transaction_timestamp = ts, ctd_decimals = None,
           ctd_is_deleted_v2 = Some True\<rparr>) (burned (standardize_address ext id')))"

definition burned_token_data_from_write ::
  "extern \<Rightarrow> write_resource \<Rightarrow> i64 \<Rightarrow> datetime \<Rightarrow> token_v2_burned \<Rightarrow> current_token_data_v2 option" where
  "burned_token_data_from_write ext wr = burned_token_data ext (wr_address wr)"

definition burned_token_data_from_delete ::
  "extern \<Rightarrow> delete_resource \<Rightarrow> i64 \<Rightarrow> datetime \<Rightarrow> token_v2_burned \<Rightarrow> current_token_data_v2 option" where
  "burned_token_data_from_delete ext dr = burned_token_data ext (dr_address dr)"

text \<open>The two functions have one body, \<open>burned_token_data\<close>.\<close>

definition token_data_items ::
  "extern \<Rightarrow> sdk \<Rightarrow> write_table_item \<Rightarrow> (token_data_id_type \<times> token_data_type) option result" where
  "token_data_items ext sdk item =
     and_then (unwrap (wt_data item)) (\<lambda>data.
     and_then (from_table_item_type ext sdk (wtd_value_type data) (wtd_value data)) (\<lambda>v.
       case v of
         Some (TokenData d) \<Rightarrow>
           and_then (from_table_item_type ext sdk (wtd_key_type data) (wtd_key data)) (\<lambda>k.
             Inr (case k of Some (TokenDataId t) \<Rightarrow> Some (t, d) | _ \<Rightarrow> None))
       | _ \<Rightarrow> Inr None))"

text \<open>
  \<open>token_data_items\<close> is how token datas and royalties both start: a table item whose value is a
  \<open>TokenData\<close> and whose key is a \<open>TokenDataId\<close>.
\<close>

definition token_data_v1_from_write_table_item ::
  "extern \<Rightarrow> sdk \<Rightarrow> write_table_item \<Rightarrow> i64 \<Rightarrow> i64 \<Rightarrow> datetime \<Rightarrow> (token_data_v2 \<times> current_token_data_v2) option result" where
  "token_data_v1_from_write_table_item ext sdk item version index ts =
     and_then (token_data_items ext sdk item) (\<lambda>r.
       Inr (map_option (\<lambda>(t, d).
         let c = \<lparr>ctd_token_data_id = to_id ext sdk t, ctd_collection_id = get_collection_id ext sdk t,
               ctd_token_name = token_name_trunc sdk t, ctd_maximum = Some (tdt_maximum d), ctd_supply = Some (tdt_supply d),
               ctd_largest_property_version_v1 = Some (tdt_largest_property_version d),
               ctd_token_uri = trunc_uri sdk (tdt_uri d), ctd_token_properties = tdt_default_properties d,
               ctd_description = tdt_description d, ctd_token_standard = token_standard_to_string V1,
               ctd_is_fungible_v2 = None, ctd_last_transaction_version = version, ctd_last_transaction_timestamp = ts,
               ctd_decimals = None, ctd_is_deleted_v2 = None\<rparr>
         in (token_data_of_current index c, c)) r))"

definition royalty_v1_from_write_table_item ::
  "extern \<Rightarrow> sdk \<Rightarrow> write_table_item \<Rightarrow> i64 \<Rightarrow> datetime \<Rightarrow> current_token_royalty_v1 option result" where
  "royalty_v1_from_write_table_item ext sdk item version ts =
     and_then (token_data_items ext sdk item) (\<lambda>r.
       Inr (map_option (\<lambda>(t, d).
         \<lparr>ctr_token_data_id = to_id ext sdk t, ctr_payee_address = get_payee_address ext (tdt_royalty d),
          ctr_royalty_points_numerator = roy_royalty_points_numerator (tdt_royalty d),
          ctr_royalty_points_denominator = roy_royalty_points_denominator (tdt_royalty d),
          ctr_last_transaction_version = version, ctr_last_transaction_timestamp = ts\<rparr>) r))"

section \<open>Ownerships\<close>

definition cto_pk :: "current_token_ownership_v2 \<Rightarrow> string \<times> decimal \<times> string \<times> string" where
  "cto_pk c = (cto_token_data_id c, cto_property_version_v1 c, cto_owner_address c, cto_storage_id c)"

definition ownership_of_current :: "i64 \<Rightarrow> current_token_ownership_v2 \<Rightarrow> token_ownership_v2" where
  "ownership_of_current index c =
     \<lparr>own_transaction_version = cto_last_transaction_version c, own_write_set_change_index = index,
      own_token_data_id = cto_token_data_id c, own_property_version_v1 = cto_property_version_v1 c,
      own_owner_address = Some (cto_owner_address c), own_storage_id = cto_storage_id c, own_amount = cto_amount c,
      own_table_type_v1 = cto_table_type_v1 c, own_token_properties_mutated_v1 = cto_token_properties_mutated_v1 c,
      own_is_soulbound_v2 = cto_is_soulbound_v2 c, own_token_standard = cto_token_standard c,
      own_is_fungible_v2 = cto_is_fungible_v2 c, own_transaction_timestamp = cto_last_transaction_timestamp c,
      own_non_transferrable_by_owner = cto_non_transferrable_by_owner c\<rparr>"

definition nft_current ::
  "string \<Rightarrow> string \<Rightarrow> decimal \<Rightarrow> bool option \<Rightarrow> bool option \<Rightarrow> bool option \<Rightarrow> i64 \<Rightarrow> datetime \<Rightarrow> current_token_ownership_v2" where
  "nft_current id' owner amount soulbound fungible non_transferrable version ts =
     \<lparr>cto_token_data_id = id', cto_property_version_v1 = 0, cto_owner_address = owner, cto_storage_id = id',
      cto_amount = amount, cto_table_type_v1 = None, cto_token_properties_mutated_v1 = None,
      cto_is_soulbound_v2 = soulbound, cto_token_standard = token_standard_to_string V2,
      cto_is_fungible_v2 = fungible, cto_last_transaction_version = version, cto_last_transaction_timestamp = ts,
      cto_non_transferrable_by_owner = non_transferrable\<rparr>"

text \<open>
  \<open>nft_current\<close> is a row of a version 2 token: property version 0, stored at its own address, no
  table.
\<close>

definition real_transfers :: "extern \<Rightarrow> token_object \<Rightarrow> (i64 \<times> transfer_event) list" where
  "real_transfers ext ob = filter (\<lambda>(i, e). get_to_address ext e \<noteq> get_from_address ext e) (tob_transfer_events ob)"

definition insert_ownership ::
  "current_token_ownership_v2 \<Rightarrow> ((string \<times> decimal \<times> string \<times> string) \<times> current_token_ownership_v2) list
     \<Rightarrow> ((string \<times> decimal \<times> string \<times> string) \<times> current_token_ownership_v2) list" where
  "insert_ownership c m = AList.update (cto_pk c) c m"

definition nft_ownership_rows ::
  "extern \<Rightarrow> token_data_v2 \<Rightarrow> token_object \<Rightarrow> (i64 \<times> current_token_ownership_v2) list" where
  "nft_ownership_rows ext td ob =
     (let core = om_object_core (tob_object ob);
          soulbound = (if tob_untransferable ob \<noteq> None then True else \<not> oc_allow_ungated_transfer core);
          row = (\<lambda>owner amount non_transferrable. nft_current (tdd_token_data_id td) owner amount (Some soulbound) None
            (Some non_transferrable) (tdd_transaction_version td) (tdd_transaction_timestamp td));
          current = row (get_owner_address ext core) 1 (\<not> oc_allow_ungated_transfer core);
          previous = map (\<lambda>(i, e). (- i, row (get_from_address ext e) 0 soulbound)) (real_transfers ext ob)
      in (tdd_write_set_change_index td, current) # previous)"

definition get_nft_v2_from_token_data ::
  "extern \<Rightarrow> token_data_v2 \<Rightarrow> token_objects
     \<Rightarrow> (token_ownership_v2 list \<times> ((string \<times> decimal \<times> string \<times> string) \<times> current_token_ownership_v2) list) result" where
  "get_nft_v2_from_token_data ext td objects =
     (case objects (tdd_token_data_id td) of
        None \<Rightarrow> Inl (ProcessError ''If token data exists objectcore must exist'')
      | Some ob \<Rightarrow>
          (let rows = nft_ownership_rows ext td ob
           in Inr (map (\<lambda>(i, c). ownership_of_current i c) rows, fold insert_ownership (map snd rows) [])))"

text \<open>
  Each row of \<open>nft_ownership_rows\<close> is pushed to the history and inserted into the map: first the
  owner with amount 1, then the sender of each transfer with amount 0.
\<close>

definition default_owner_address :: string where
  "default_owner_address = ''unknown''"

definition burned_previous_owner ::
  "extern \<Rightarrow> token_db option \<Rightarrow> i64 \<Rightarrow> i64 \<Rightarrow> (string \<rightharpoonup> nft_ownership_v2) \<Rightarrow> burn_event_v2 \<Rightarrow> string \<Rightarrow> string" where
  "burned_previous_owner ext db version index prior burn address =
     (case get_previous_owner_address ext burn of
        Some owner \<Rightarrow> owner
      | None \<Rightarrow>
          (case prior address of
             Some inner \<Rightarrow> nft_owner_address inner
           | None \<Rightarrow>
               (case db of
                  None \<Rightarrow> default_owner_address
                | Some ctx \<Rightarrow>
                    (case get_latest_owned_nft_by_token_data_id ctx version index address of
                       Some nft \<Rightarrow> nft_owner_address nft
                     | None \<Rightarrow> default_owner_address))))"

definition get_burned_nft_v2_helper ::
  "extern \<Rightarrow> token_db option \<Rightarrow> string \<Rightarrow> i64 \<Rightarrow> i64 \<Rightarrow> datetime \<Rightarrow> (string \<rightharpoonup> nft_ownership_v2) \<Rightarrow> token_v2_burned
     \<Rightarrow> (token_ownership_v2 \<times> current_token_ownership_v2) option" where
  "get_burned_nft_v2_helper ext db token_address version index ts prior burned =
     (let address = standardize_address ext token_address
      in map_option (\<lambda>burn.
           let c = nft_current address (burned_previous_owner ext db version index prior burn address) 0 None None None version ts
           in (ownership_of_current index c, c)) (burned address))"

definition burned_nft_from_write_resource ::
  "extern \<Rightarrow> token_db option \<Rightarrow> write_resource \<Rightarrow> i64 \<Rightarrow> i64 \<Rightarrow> datetime \<Rightarrow> (string \<rightharpoonup> nft_ownership_v2) \<Rightarrow> token_v2_burned
     \<Rightarrow> token_objects \<Rightarrow> (token_ownership_v2 \<times> current_token_ownership_v2) option result" where
  "burned_nft_from_write_resource ext db wr version index ts prior burned objects =
     (let id' = standardize_address ext (wr_address wr)
      in if burned (standardize_address ext id') = None then Inr None
         else and_then (read_result (object_from_write_resource ext wr)) (\<lambda>r.
           case r of
             Some ob \<Rightarrow>
               (let core = om_object_core ob;
                    soulbound = (if map_option tob_untransferable (objects id') \<noteq> None then True
                                 else \<not> oc_allow_ungated_transfer core);
                    c = nft_current id' (get_owner_address ext core) 0 (Some soulbound) (Some False)
                      (Some (\<not> oc_allow_ungated_transfer core)) version ts
                in Inr (Some (ownership_of_current index c, c)))
           | None \<Rightarrow> Inr (get_burned_nft_v2_helper ext db id' version index ts prior burned)))"

definition burned_nft_from_delete_resource ::
  "extern \<Rightarrow> token_db option \<Rightarrow> delete_resource \<Rightarrow> i64 \<Rightarrow> i64 \<Rightarrow> datetime \<Rightarrow> (string \<rightharpoonup> nft_ownership_v2) \<Rightarrow> token_v2_burned
     \<Rightarrow> (token_ownership_v2 \<times> current_token_ownership_v2) option" where
  "burned_nft_from_delete_resource ext db dr version index ts prior burned =
     get_burned_nft_v2_helper ext db (standardize_address ext (dr_address dr)) version index ts prior burned"

record token_activity_helper_v1 =
  tah_token_data_id_struct :: token_data_id_type
  tah_property_version :: decimal
  tah_from_address :: "string option"
  tah_to_address :: "string option"
  tah_token_amount :: decimal

type_synonym token_v1_events = "string \<rightharpoonup> token_activity_helper_v1"

definition table_owner ::
  "extern \<Rightarrow> table_handle_to_owner \<Rightarrow> string \<Rightarrow> token_activity_helper_v1 option \<Rightarrow> (token_activity_helper_v1 \<Rightarrow> string option)
     \<Rightarrow> (string \<times> string) option result" where
  "table_owner ext owners handle helper address_of =
     (case owners handle of
        Some tm \<Rightarrow>
          Inr (if tmt_table_type tm \<noteq> v1_token_store_table_type then None
               else Some (table_owner_address ext tm, tmt_table_type tm))
      | None \<Rightarrow>
          (case helper of
             None \<Rightarrow> Inr None
           | Some h \<Rightarrow> and_then (unwrap (address_of h)) (\<lambda>owner. Inr (Some (owner, v1_token_store_table_type)))))"

text \<open>
  \<open>table_owner\<close> finds the owner of a token store, from the batch's table handles or else from
  the deposit or withdrawal event of the token.
\<close>

definition v1_current ::
  "extern \<Rightarrow> sdk \<Rightarrow> token_id_type \<Rightarrow> string \<Rightarrow> string \<Rightarrow> decimal \<Rightarrow> string \<Rightarrow> json option \<Rightarrow> i64 \<Rightarrow> datetime
     \<Rightarrow> current_token_ownership_v2" where
  "v1_current ext sdk token owner handle amount table_type properties version ts =
     \<lparr>cto_token_data_id = to_id ext sdk (tid_token_data_id token), cto_property_version_v1 = tid_property_version token,
      cto_owner_address = owner, cto_storage_id = handle, cto_amount = amount, cto_table_type_v1 = Some table_type,
      cto_token_properties_mutated_v1 = properties, cto_is_soulbound_v2 = None,
      cto_token_standard = token_standard_to_string V1, cto_is_fungible_v2 = None, cto_last_transaction_version = version,
      cto_last_transaction_timestamp = ts, cto_non_transferrable_by_owner = None\<rparr>"

definition ownership_v1_from_write_table_item ::
  "extern \<Rightarrow> sdk \<Rightarrow> write_table_item \<Rightarrow> i64 \<Rightarrow> i64 \<Rightarrow> datetime \<Rightarrow> table_handle_to_owner \<Rightarrow> token_v1_events
     \<Rightarrow> (token_ownership_v2 \<times> current_token_ownership_v2 option) option result" where
  "ownership_v1_from_write_table_item ext sdk item version index ts owners deposited =
     and_then (unwrap (wt_data item)) (\<lambda>data.
     and_then (from_table_item_type ext sdk (wtd_value_type data) (wtd_value data)) (\<lambda>v.
       case v of
         Some (Token token) \<Rightarrow>
           (let handle = standardize_address ext (wt_handle item)
            in and_then (table_owner ext owners handle (deposited (to_id ext sdk (tid_token_data_id (tkt_id token)))) tah_to_address) (\<lambda>r.
                 Inr (map_option (\<lambda>(owner, table_type).
                   let c = v1_current ext sdk (tkt_id token) owner handle (ensure_not_negative sdk (tkt_amount token))
                         table_type (Some (tkt_token_properties token)) version ts
                   in (ownership_of_current index c, Some c)) r)))
       | _ \<Rightarrow> Inr None))"

definition ownership_v1_from_delete_table_item ::
  "extern \<Rightarrow> sdk \<Rightarrow> delete_table_item \<Rightarrow> i64 \<Rightarrow> i64 \<Rightarrow> datetime \<Rightarrow> table_handle_to_owner \<Rightarrow> token_v1_events
     \<Rightarrow> (token_ownership_v2 \<times> current_token_ownership_v2 option) option result" where
  "ownership_v1_from_delete_table_item ext sdk item version index ts owners withdrawn =
     and_then (unwrap (dt_data item)) (\<lambda>data.
     and_then (from_table_item_type ext sdk (dtd_key_type data) (dtd_key data)) (\<lambda>k.
       case k of
         Some (TokenId token) \<Rightarrow>
           (let handle = standardize_address ext (dt_handle item)
            in and_then (table_owner ext owners handle (withdrawn (to_id ext sdk (tid_token_data_id token))) tah_from_address) (\<lambda>r.
                 Inr (map_option (\<lambda>(owner, table_type).
                   let c = v1_current ext sdk token owner handle 0 table_type None version ts
                   in (ownership_of_current index c, Some c)) r)))
       | _ \<Rightarrow> Inr None))"

section \<open>Pending claims\<close>

definition cpc_pk :: "current_token_pending_claim \<Rightarrow> string \<times> decimal \<times> string \<times> string" where
  "cpc_pk c = (cpc_token_data_id_hash c, cpc_property_version c, cpc_from_address c, cpc_to_address c)"

definition pending_claim ::
  "extern \<Rightarrow> sdk \<Rightarrow> token_offer_id_type \<Rightarrow> string \<Rightarrow> decimal \<Rightarrow> string \<Rightarrow> i64 \<Rightarrow> datetime \<Rightarrow> current_token_pending_claim" where
  "pending_claim ext sdk offer owner amount handle version ts =
     (let token = tid_token_data_id (tof_token_id offer)
      in \<lparr>cpc_token_data_id_hash = to_hash ext sdk token, cpc_property_version = tid_property_version (tof_token_id offer),
          cpc_from_address = owner, cpc_to_address = offer_to_address ext offer,
          cpc_collection_data_id_hash = get_collection_data_id_hash ext sdk token,
          cpc_creator_address = token_creator_address ext token, cpc_collection_name = get_collection_trunc sdk token,
          cpc_name = token_name_trunc sdk token, cpc_amount = amount, cpc_table_handle = handle,
          cpc_last_transaction_version = version, cpc_last_transaction_timestamp = ts,
          cpc_token_data_id = to_id ext sdk token, cpc_collection_id = get_collection_id ext sdk token\<rparr>)"

definition claim_from_write_table_item ::
  "extern \<Rightarrow> sdk \<Rightarrow> write_table_item \<Rightarrow> i64 \<Rightarrow> datetime \<Rightarrow> table_handle_to_owner \<Rightarrow> current_token_pending_claim option result" where
  "claim_from_write_table_item ext sdk item version ts owners =
     and_then (unwrap (wt_data item)) (\<lambda>data.
     and_then (from_table_item_type ext sdk (wtd_key_type data) (wtd_key data)) (\<lambda>k.
       case k of
         Some (TokenOfferId offer) \<Rightarrow>
           and_then (from_table_item_type ext sdk (wtd_value_type data) (wtd_value data)) (\<lambda>v.
             let handle = standardize_address ext (wt_handle item)
             in Inr (case (v, owners handle) of
                  (Some (Token token), Some tm) \<Rightarrow>
                    Some (pending_claim ext sdk offer (table_owner_address ext tm) (tkt_amount token) handle version ts)
                | _ \<Rightarrow> None))
       | _ \<Rightarrow> Inr None))"

definition claim_owner ::
  "extern \<Rightarrow> table_handle_to_owner \<Rightarrow> token_v1_events \<Rightarrow> token_v1_events \<Rightarrow> string \<Rightarrow> string \<Rightarrow> string option" where
  "claim_owner ext owners claimed canceled handle id' =
     (case owners handle of
        Some tm \<Rightarrow> Some (table_owner_address ext tm)
      | None \<Rightarrow>
          (case canceled id' of
             Some h \<Rightarrow> tah_from_address h
           | None \<Rightarrow> (case claimed id' of Some h \<Rightarrow> tah_from_address h | None \<Rightarrow> None)))"

definition claim_from_delete_table_item ::
  "extern \<Rightarrow> sdk \<Rightarrow> delete_table_item \<Rightarrow> i64 \<Rightarrow> datetime \<Rightarrow> table_handle_to_owner \<Rightarrow> token_v1_events \<Rightarrow> token_v1_events
     \<Rightarrow> current_token_pending_claim option result" where
  "claim_from_delete_table_item ext sdk item version ts owners claimed canceled =
     and_then (unwrap (dt_data item)) (\<lambda>data.
     and_then (from_table_item_type ext sdk (dtd_key_type data) (dtd_key data)) (\<lambda>k.
       case k of
         Some (TokenOfferId offer) \<Rightarrow>
           (let handle = standardize_address ext (dt_handle item)
            in case claim_owner ext owners claimed canceled handle (to_id ext sdk (tid_token_data_id (tof_token_id offer))) of
                 None \<Rightarrow> Inl (Panic ''Missing table handle metadata for claim.'')
               | Some owner \<Rightarrow> Inr (Some (pending_claim ext sdk offer owner 0 handle version ts)))
       | _ \<Rightarrow> Inr None))"

section \<open>Token metadata\<close>

definition ctm_pk :: "current_token_v2_metadata \<Rightarrow> string \<times> string" where
  "ctm_pk m = (ctm_object_address m, ctm_resource_type m)"

definition token_metadata_from_write_resource ::
  "extern \<Rightarrow> sdk \<Rightarrow> write_resource \<Rightarrow> i64 \<Rightarrow> token_objects \<Rightarrow> datetime \<Rightarrow> current_token_v2_metadata option result" where
  "token_metadata_from_write_resource ext sdk wr version objects ts =
     (let address = standardize_address ext (wr_address wr)
      in case objects address of
           None \<Rightarrow> Inr None
         | Some ob \<Rightarrow>
             if tob_token ob = None then Inr None
             else and_then (unwrap (wr_type wr)) (\<lambda>tag.
               if get_address ext (convert_move_struct_tag ext tag) \<in> set [coin_addr, token_addr, token_v2_addr] then Inr None
               else
                 (case move_resource_from_write_resource ext wr 0 version 0 ts of
                    Inl e \<Rightarrow> Inl (ProcessError ''Error processing write resource'')
                  | Inr None \<Rightarrow> Inr None
                  | Inr (Some resource) \<Rightarrow>
                      if om_state_key_hash (tob_object ob) \<noteq> mr_state_key_hash resource then Inr None
                      else
                        (case mr_data resource of
                           None \<Rightarrow> Inl (ProcessError ''data must be present in write resource'')
                         | Some data \<Rightarrow>
                             Inr (Some \<lparr>ctm_object_address = address,
                               ctm_resource_type = trunc_name sdk (mr_resource_type resource), ctm_data = data,
                               ctm_state_key_hash = mr_state_key_hash resource, ctm_last_transaction_version = version,
                               ctm_last_transaction_timestamp = ts\<rparr>)))))"

section \<open>Activities\<close>

record token_event_maps =
  tem_claimed :: token_v1_events
  tem_canceled :: token_v1_events
  tem_withdrawn :: token_v1_events
  tem_deposited :: token_v1_events

definition token_event_account :: "extern \<Rightarrow> event \<Rightarrow> string result" where
  "token_event_account ext ev = and_then (unwrap (ev_key ev)) (\<lambda>k. Inr (standardize_address ext (ek_account_address k)))"

definition id_helper ::
  "token_id_type \<Rightarrow> string option \<Rightarrow> string option \<Rightarrow> decimal \<Rightarrow> token_activity_helper_v1" where
  "id_helper token from to' amount =
     \<lparr>tah_token_data_id_struct = tid_token_data_id token, tah_property_version = tid_property_version token,
      tah_from_address = from, tah_to_address = to', tah_token_amount = amount\<rparr>"

definition data_id_helper :: "token_data_id_type \<Rightarrow> string \<Rightarrow> decimal \<Rightarrow> token_activity_helper_v1" where
  "data_id_helper token from amount =
     \<lparr>tah_token_data_id_struct = token, tah_property_version = 0, tah_from_address = Some from, tah_to_address = None,
      tah_token_amount = amount\<rparr>"

primrec activity_helper_v1 :: "extern \<Rightarrow> string \<Rightarrow> token_event \<Rightarrow> token_activity_helper_v1" where
  "activity_helper_v1 ext account (MintTokenEvent a i) = data_id_helper i account a"
| "activity_helper_v1 ext account (TokenMint c a i) = data_id_helper i (standardize_address ext c) a"
| "activity_helper_v1 ext account (BurnTokenEvent a i) = id_helper i (Some account) None a"
| "activity_helper_v1 ext account (TokenBurn c a i) = id_helper i (Some (standardize_address ext c)) None a"
| "activity_helper_v1 ext account (MutateTokenPropertyMapEvent i j) = id_helper j (Some account) None 0"
| "activity_helper_v1 ext account (MutatePropertyMap c i j) = id_helper j (Some (standardize_address ext c)) None 0"
| "activity_helper_v1 ext account (WithdrawTokenEvent a i) = id_helper i (Some account) None a"
| "activity_helper_v1 ext account (TokenWithdraw c a i) = id_helper i (Some (standardize_address ext c)) None a"
| "activity_helper_v1 ext account (DepositTokenEvent a i) = id_helper i None (Some (standardize_address ext account)) a"
| "activity_helper_v1 ext account (TokenDeposit c a i) = id_helper i None (Some (standardize_address ext c)) a"
| "activity_helper_v1 ext account (OfferTokenEvent a t i) = id_helper i (Some account) (Some (standardize_address ext t)) a"
| "activity_helper_v1 ext account (TokenOffer a c t i) =
     id_helper i (Some (standardize_address ext c)) (Some (standardize_address ext t)) a"
| "activity_helper_v1 ext account (CancelTokenOfferEvent a t i) =
     id_helper i (Some account) (Some (standardize_address ext t)) a"
| "activity_helper_v1 ext account (TokenCancelOffer a c t i) =
     id_helper i (Some (standardize_address ext c)) (Some (standardize_address ext t)) a"
| "activity_helper_v1 ext account (ClaimTokenEvent a t i) = id_helper i (Some account) (Some (standardize_address ext t)) a"
| "activity_helper_v1 ext account (TokenClaim a c t i) =
     id_helper i (Some (standardize_address ext c)) (Some (standardize_address ext t)) a"

fun track_event :: "token_event \<Rightarrow> string \<Rightarrow> token_activity_helper_v1 \<Rightarrow> token_event_maps \<Rightarrow> token_event_maps" where
  "track_event (TokenWithdraw c a i) id' h m = m\<lparr>tem_withdrawn := (tem_withdrawn m)(id' \<mapsto> h)\<rparr>"
| "track_event (TokenDeposit c a i) id' h m = m\<lparr>tem_deposited := (tem_deposited m)(id' \<mapsto> h)\<rparr>"
| "track_event (CancelTokenOfferEvent a t i) id' h m = m\<lparr>tem_canceled := (tem_canceled m)(id' \<mapsto> h)\<rparr>"
| "track_event (TokenCancelOffer a c t i) id' h m = m\<lparr>tem_canceled := (tem_canceled m)(id' \<mapsto> h)\<rparr>"
| "track_event (ClaimTokenEvent a t i) id' h m = m\<lparr>tem_claimed := (tem_claimed m)(id' \<mapsto> h)\<rparr>"
| "track_event (TokenClaim a c t i) id' h m = m\<lparr>tem_claimed := (tem_claimed m)(id' \<mapsto> h)\<rparr>"
| "track_event _ id' h m = m"

definition activity_v1_from_parsed_event ::
  "extern \<Rightarrow> sdk \<Rightarrow> event \<Rightarrow> i64 \<Rightarrow> datetime \<Rightarrow> i64 \<Rightarrow> string option \<Rightarrow> token_event_maps
     \<Rightarrow> (token_activity_v2 option \<times> token_event_maps) result" where
  "activity_v1_from_parsed_event ext sdk ev version ts index entry maps =
     and_then (token_event_from_event ext (ev_type_str ev) (ev_data ev)) (\<lambda>r.
       case r of
         None \<Rightarrow> Inr (None, maps)
       | Some te \<Rightarrow>
           and_then (token_event_account ext ev) (\<lambda>account.
             let h = activity_helper_v1 ext account te; id' = to_id ext sdk (tah_token_data_id_struct h)
             in Inr (Some \<lparr>tav_transaction_version = version, tav_event_index = index, tav_event_account_address = account,
                  tav_token_data_id = id', tav_property_version_v1 = tah_property_version h, tav_type = ev_type_str ev,
                  tav_from_address = tah_from_address h, tav_to_address = tah_to_address h,
                  tav_token_amount = tah_token_amount h, tav_before_value = None, tav_after_value = None,
                  tav_entry_function_id_str = entry, tav_token_standard = token_standard_to_string V1,
                  tav_is_fungible_v2 = None, tav_transaction_timestamp = ts\<rparr>, track_event te id' h maps)))"

record token_activity_helper_v2 =
  thv_from_address :: "string option"
  thv_to_address :: "string option"
  thv_token_amount :: decimal
  thv_before_value :: "string option"
  thv_after_value :: "string option"
  thv_event_type :: string

fun v2_token_of_event :: "extern \<Rightarrow> string \<Rightarrow> v2_token_event \<Rightarrow> string" where
  "v2_token_of_event ext account (V2MintEvent i t) = standardize_address ext t"
| "v2_token_of_event ext account (V2Mint c i t) = standardize_address ext t"
| "v2_token_of_event ext account (V2BurnEvent i t) = standardize_address ext t"
| "v2_token_of_event ext account (V2Burn b) = burn_token_address ext b"
| "v2_token_of_event ext account (V2TransferEvent e) = get_object_address ext e"
| "v2_token_of_event ext account _ = account"

definition helper_v2 ::
  "string \<Rightarrow> string option \<Rightarrow> decimal \<Rightarrow> (string \<times> string) option \<Rightarrow> string \<Rightarrow> token_activity_helper_v2" where
  "helper_v2 from to' amount change ty =
     \<lparr>thv_from_address = Some from, thv_to_address = to', thv_token_amount = amount,
      thv_before_value = map_option fst change, thv_after_value = map_option snd change, thv_event_type = ty\<rparr>"

primrec activity_helper_v2 ::
  "extern \<Rightarrow> string \<Rightarrow> string \<Rightarrow> string \<Rightarrow> v2_token_event \<Rightarrow> token_activity_helper_v2" where
  "activity_helper_v2 ext owner sender ty (V2MintEvent i t) = helper_v2 owner None 1 None ty"
| "activity_helper_v2 ext owner sender ty (V2Mint c i t) = helper_v2 owner None 1 None ''0x4::collection::MintEvent''"
| "activity_helper_v2 ext owner sender ty (V2TokenMutationEvent f a b) = helper_v2 sender None 0 (Some (a, b)) ty"
| "activity_helper_v2 ext owner sender ty (V2TokenMutation t f a b) =
     helper_v2 t None 0 (Some (a, b)) ''0x4::collection::MutationEvent''"
| "activity_helper_v2 ext owner sender ty (V2BurnEvent i t) = helper_v2 owner None 1 None ty"
| "activity_helper_v2 ext owner sender ty (V2Burn b) = helper_v2 owner None 1 None ''0x4::collection::BurnEvent''"
| "activity_helper_v2 ext owner sender ty (V2TransferEvent e) =
     helper_v2 (get_from_address ext e) (Some (get_to_address ext e)) 1 None ty"

definition unknown_token_helper :: "extern \<Rightarrow> string \<Rightarrow> v2_token_event \<Rightarrow> token_activity_helper_v2" where
  "unknown_token_helper ext ty te =
     \<lparr>thv_from_address = (case te of V2Burn b \<Rightarrow> get_previous_owner_address ext b | _ \<Rightarrow> None), thv_to_address = None,
      thv_token_amount = 1, thv_before_value = None, thv_after_value = None, thv_event_type = ty\<rparr>"

definition activity_v2_from_parsed_event ::
  "extern \<Rightarrow> sdk \<Rightarrow> event \<Rightarrow> i64 \<Rightarrow> datetime \<Rightarrow> i64 \<Rightarrow> string option \<Rightarrow> token_objects \<Rightarrow> string
     \<Rightarrow> token_activity_v2 option result" where
  "activity_v2_from_parsed_event ext sdk ev version ts index entry objects sender =
     and_then (v2_event_from_event ext sdk (ev_type_str ev) (ev_data ev)) (\<lambda>r.
       case r of
         None \<Rightarrow> Inr None
       | Some te \<Rightarrow>
           and_then (token_event_account ext ev) (\<lambda>account.
             let id' = v2_token_of_event ext account te;
                 h = (case objects id' of
                        Some ob \<Rightarrow> activity_helper_v2 ext (get_owner_address ext (om_object_core (tob_object ob))) sender
                          (ev_type_str ev) te
                      | None \<Rightarrow> unknown_token_helper ext (ev_type_str ev) te)
             in Inr (Some \<lparr>tav_transaction_version = version, tav_event_index = index, tav_event_account_address = account,
                  tav_token_data_id = id', tav_property_version_v1 = 0, tav_type = thv_event_type h,
                  tav_from_address = thv_from_address h, tav_to_address = thv_to_address h,
                  tav_token_amount = thv_token_amount h, tav_before_value = thv_before_value h,
                  tav_after_value = thv_after_value h, tav_entry_function_id_str = entry,
                  tav_token_standard = token_standard_to_string V2, tav_is_fungible_v2 = None,
                  tav_transaction_timestamp = ts\<rparr>)))"

end
