(* ===== verification/TokenProcessor.thy ===== *)
theory TokenProcessor
  imports TokenRows BatchStore RowMaps
begin

text \<open>
  The extraction of the token processor: \<open>parse_v2_token\<close> of \<open>token_v2_processor_helpers.rs\<close> with its
  four loops over a transaction, and \<open>token_v2_extractor.rs\<close>.

  Each transaction first collects what it says about its objects (loops 1 and 2), then its events
  (loop 3: burns, transfers, offers and the activities), then builds the rows from its changes
  (loop 4).  Objects and the last known owners live for the whole batch, the events of a
  transaction only for that transaction.
\<close>

section \<open>State\<close>

record token_state =
  tks_collections :: "collection_v2 list"
  tks_token_datas :: "token_data_v2 list"
  tks_ownerships :: "token_ownership_v2 list"
  tks_activities :: "token_activity_v2 list"
  tks_current_collections :: "(string \<times> current_collection_v2) list"
  tks_current_token_datas :: "(string \<times> current_token_data_v2) list"
  tks_deleted_token_datas :: "(string \<times> current_token_data_v2) list"
  tks_current_ownerships :: "((string \<times> decimal \<times> string \<times> string) \<times> current_token_ownership_v2) list"
  tks_deleted_ownerships :: "((string \<times> decimal \<times> string \<times> string) \<times> current_token_ownership_v2) list"
  tks_prior_nft_ownership :: "string \<rightharpoonup> nft_ownership_v2"
  tks_objects :: token_objects
  tks_metadata :: "((string \<times> string) \<times> current_token_v2_metadata) list"
  tks_royalties :: "(string \<times> current_token_royalty_v1) list"
  tks_claims :: "((string \<times> decimal \<times> string \<times> string) \<times> current_token_pending_claim) list"

definition empty_token_state :: token_state where
  "empty_token_state =
     \<lparr>tks_collections = [], tks_token_datas = [], tks_ownerships = [], tks_activities = [],
      tks_current_collections = [], tks_current_token_datas = [], tks_deleted_token_datas = [],
      tks_current_ownerships = [], tks_deleted_ownerships = [], tks_prior_nft_ownership = Map.empty,
      tks_objects = Map.empty, tks_metadata = [], tks_royalties = [], tks_claims = []\<rparr>"

section \<open>Objects\<close>

definition new_token_object :: "object_with_metadata \<Rightarrow> token_object" where
  "new_token_object ob =
     \<lparr>tob_object = ob, tob_transfer_events = [], tob_untransferable = None, tob_fungible_asset_metadata = None,
      tob_aptos_collection = None, tob_fixed_supply = None, tob_property_map = None, tob_token = None,
      tob_unlimited_supply = None, tob_concurrent_supply = None, tob_token_identifier = None\<rparr>"

definition collect_token_object :: "extern \<Rightarrow> change option \<Rightarrow> token_objects \<Rightarrow> token_objects result" where
  "collect_token_object ext wsc objects =
     and_then (unwrap wsc) (\<lambda>c.
       case c of
         WriteResource wr \<Rightarrow>
           and_then (expect_ok (read_result (object_from_write_resource ext wr))) (\<lambda>r.
             Inr (case r of
                    None \<Rightarrow> objects
                  | Some ob \<Rightarrow> objects(standardize_address ext (wr_address wr) \<mapsto> new_token_object ob)))
       | _ \<Rightarrow> Inr objects)"

fun set_v2_resource :: "v2_token_resource \<Rightarrow> token_object \<Rightarrow> token_object" where
  "set_v2_resource (ResFixedSupply s) ob = ob\<lparr>tob_fixed_supply := Some s\<rparr>"
| "set_v2_resource (ResUnlimitedSupply s) ob = ob\<lparr>tob_unlimited_supply := Some s\<rparr>"
| "set_v2_resource (ResAptosCollection c) ob = ob\<lparr>tob_aptos_collection := Some c\<rparr>"
| "set_v2_resource (ResPropertyMapModel m) ob = ob\<lparr>tob_property_map := Some m\<rparr>"
| "set_v2_resource (ResConcurrentSupply s) ob = ob\<lparr>tob_concurrent_supply := Some s\<rparr>"
| "set_v2_resource (ResTokenV2 t) ob = ob\<lparr>tob_token := Some t\<rparr>"
| "set_v2_resource (ResTokenIdentifiers t) ob = ob\<lparr>tob_token_identifier := Some t\<rparr>"
| "set_v2_resource (ResUntransferable u) ob = ob\<lparr>tob_untransferable := Some u\<rparr>"
| "set_v2_resource _ ob = ob"

definition fill_token_object :: "extern \<Rightarrow> sdk \<Rightarrow> change option \<Rightarrow> token_objects \<Rightarrow> token_objects result" where
  "fill_token_object ext sdk wsc objects =
     and_then (unwrap wsc) (\<lambda>c.
       case c of
         WriteResource wr \<Rightarrow>
           (let address = standardize_address ext (wr_address wr)
            in case objects address of
                 None \<Rightarrow> Inr objects
               | Some ob \<Rightarrow>
                   and_then (expect_ok (v2_token_from_write_resource ext sdk wr)) (\<lambda>r.
                   and_then (expect_ok (read_result
                     (from_write_resource ext (type_fungible_asset ''Metadata'') (metadata_try_from ext) wr))) (\<lambda>fm.
                     let ob' = (case r of None \<Rightarrow> ob | Some res \<Rightarrow> set_v2_resource res ob)
                     in Inr (objects(address \<mapsto>
                          (case fm of None \<Rightarrow> ob' | Some m \<Rightarrow> ob'\<lparr>tob_fungible_asset_metadata := Some m\<rparr>))))))
       | _ \<Rightarrow> Inr objects)"

section \<open>Events\<close>

record token_txn =
  ttx_burned :: token_v2_burned
  ttx_minted :: "string set"
  ttx_maps :: token_event_maps
  ttx_objects :: token_objects
  ttx_activities :: "token_activity_v2 list"

definition track_v2_event ::
  "extern \<Rightarrow> nat \<Rightarrow> nat \<Rightarrow> event \<Rightarrow> v2_token_event option \<Rightarrow> token_txn \<Rightarrow> token_txn result" where
  "track_v2_event ext n_events index ev r st =
     (case r of
        Some (V2Burn b) \<Rightarrow> Inr (st\<lparr>ttx_burned := (ttx_burned st)(burn_token_address ext b \<mapsto> b)\<rparr>)
      | Some (V2Mint c i t) \<Rightarrow> Inr (st\<lparr>ttx_minted := insert (standardize_address ext t) (ttx_minted st)\<rparr>)
      | Some (V2BurnEvent i t) \<Rightarrow>
          and_then (token_event_account ext ev) (\<lambda>account.
            let b = \<lparr>brn_collection = account, brn_index = i, brn_token = standardize_address ext t, brn_previous_owner = []\<rparr>
            in Inr (st\<lparr>ttx_burned := (ttx_burned st)(burn_token_address ext b \<mapsto> b)\<rparr>))
      | Some (V2MintEvent i t) \<Rightarrow> Inr (st\<lparr>ttx_minted := insert (standardize_address ext t) (ttx_minted st)\<rparr>)
      | Some (V2TransferEvent e) \<Rightarrow>
          Inr (case ttx_objects st (get_object_address ext e) of
                 None \<Rightarrow> st
               | Some ob \<Rightarrow>
                   st\<lparr>ttx_objects := (ttx_objects st)(get_object_address ext e \<mapsto>
                     ob\<lparr>tob_transfer_events := tob_transfer_events ob @ [(of_nat (if index = 0 then n_events else index), e)]\<rparr>)\<rparr>)
      | _ \<Rightarrow> Inr st)"

definition token_event_step ::
  "extern \<Rightarrow> sdk \<Rightarrow> i64 \<Rightarrow> datetime \<Rightarrow> string option \<Rightarrow> string \<Rightarrow> nat \<Rightarrow> nat \<times> event \<Rightarrow> token_txn \<Rightarrow> token_txn result" where
  "token_event_step ext sdk version ts entry sender n_events iev st =
     (case iev of (index, ev) \<Rightarrow>
        and_then (expect_ok (v2_event_from_event ext sdk (ev_type_str ev) (ev_data ev))) (\<lambda>r.
        and_then (track_v2_event ext n_events index ev r st) (\<lambda>st1.
        and_then (expect_ok (activity_v1_from_parsed_event ext sdk ev version ts (of_nat index) entry (ttx_maps st1))) (\<lambda>(a1, maps).
        and_then (expect_ok (activity_v2_from_parsed_event ext sdk ev version ts (of_nat index) entry (ttx_objects st1) sender)) (\<lambda>a2.
          Inr (st1\<lparr>ttx_maps := maps,
            ttx_activities := ttx_activities st1 @ (case a1 of None \<Rightarrow> [] | Some a \<Rightarrow> [a]) @ (case a2 of None \<Rightarrow> [] | Some a \<Rightarrow> [a])\<rparr>))))))"

text \<open>
  The code asks the event in turn for a burn, a mint, an old burn, an old mint and a transfer;
  each answer parses the event again.  The model parses it once.
\<close>

section \<open>Changes\<close>

definition push_collection :: "(collection_v2 \<times> current_collection_v2) option \<Rightarrow> token_state \<Rightarrow> token_state" where
  "push_collection r st =
     (case r of
        None \<Rightarrow> st
      | Some (c, current) \<Rightarrow>
          st\<lparr>tks_collections := tks_collections st @ [c],
             tks_current_collections := AList.update (ccl_collection_id current) current (tks_current_collections st)\<rparr>)"

definition push_token_data :: "(token_data_v2 \<times> current_token_data_v2) option \<Rightarrow> token_state \<Rightarrow> token_state" where
  "push_token_data r st =
     (case r of
        None \<Rightarrow> st
      | Some (d, current) \<Rightarrow>
          st\<lparr>tks_token_datas := tks_token_datas st @ [d],
             tks_current_token_datas := AList.update (ctd_token_data_id current) current (tks_current_token_datas st)\<rparr>)"

definition push_deleted_token_data :: "current_token_data_v2 option \<Rightarrow> token_state \<Rightarrow> token_state" where
  "push_deleted_token_data r st =
     (case r of
        None \<Rightarrow> st
      | Some d \<Rightarrow> st\<lparr>tks_deleted_token_datas := AList.update (ctd_token_data_id d) d (tks_deleted_token_datas st)\<rparr>)"

definition push_royalty :: "current_token_royalty_v1 option \<Rightarrow> token_state \<Rightarrow> token_state" where
  "push_royalty r st =
     (case r of
        None \<Rightarrow> st
      | Some d \<Rightarrow> st\<lparr>tks_royalties := AList.update (ctr_token_data_id d) d (tks_royalties st)\<rparr>)"

definition push_claim :: "current_token_pending_claim option \<Rightarrow> token_state \<Rightarrow> token_state" where
  "push_claim r st =
     (case r of None \<Rightarrow> st | Some c \<Rightarrow> st\<lparr>tks_claims := AList.update (cpc_pk c) c (tks_claims st)\<rparr>)"

definition push_metadata :: "current_token_v2_metadata option \<Rightarrow> token_state \<Rightarrow> token_state" where
  "push_metadata r st =
     (case r of None \<Rightarrow> st | Some m \<Rightarrow> st\<lparr>tks_metadata := AList.update (ctm_pk m) m (tks_metadata st)\<rparr>)"

definition remember_owner :: "current_token_ownership_v2 \<Rightarrow> token_state \<Rightarrow> token_state" where
  "remember_owner c st =
     st\<lparr>tks_prior_nft_ownership := (tks_prior_nft_ownership st)(cto_token_data_id c \<mapsto>
       \<lparr>nft_token_data_id = cto_token_data_id c, nft_owner_address = cto_owner_address c,
        nft_is_soulbound = cto_is_soulbound_v2 c\<rparr>)\<rparr>"

definition push_written_ownership ::
  "(token_ownership_v2 \<times> current_token_ownership_v2 option) option \<Rightarrow> token_state \<Rightarrow> token_state" where
  "push_written_ownership r st =
     (case r of
        None \<Rightarrow> st
      | Some (row, current) \<Rightarrow>
          (let st1 = st\<lparr>tks_ownerships := tks_ownerships st @ [row]\<rparr>
           in case current of
                None \<Rightarrow> st1
              | Some c \<Rightarrow>
                  (remember_owner c st1)\<lparr>tks_current_ownerships := insert_ownership c (tks_current_ownerships st1)\<rparr>))"

definition push_deleted_ownership ::
  "(token_ownership_v2 \<times> current_token_ownership_v2 option) option \<Rightarrow> token_state \<Rightarrow> token_state" where
  "push_deleted_ownership r st =
     (case r of
        None \<Rightarrow> st
      | Some (row, current) \<Rightarrow>
          (let st1 = st\<lparr>tks_ownerships := tks_ownerships st @ [row]\<rparr>
           in case current of
                None \<Rightarrow> st1
              | Some c \<Rightarrow>
                  (remember_owner c st1)\<lparr>tks_deleted_ownerships := insert_ownership c (tks_deleted_ownerships st1)\<rparr>))"

definition push_nft_ownerships ::
  "token_ownership_v2 list \<times> ((string \<times> decimal \<times> string \<times> string) \<times> current_token_ownership_v2) list
     \<Rightarrow> token_state \<Rightarrow> token_state result" where
  "push_nft_ownerships r st =
     (case r of (rows, currents) \<Rightarrow>
        and_then (case rows of
                    [] \<Rightarrow> Inr st
                  | row # _ \<Rightarrow>
                      and_then (unwrap (own_owner_address row)) (\<lambda>owner.
                        Inr (st\<lparr>tks_prior_nft_ownership := (tks_prior_nft_ownership st)(own_token_data_id row \<mapsto>
                          \<lparr>nft_token_data_id = own_token_data_id row, nft_owner_address = owner,
                           nft_is_soulbound = own_is_soulbound_v2 row\<rparr>)\<rparr>)))
          (\<lambda>st1. Inr (st1\<lparr>tks_ownerships := tks_ownerships st1 @ rows,
             tks_current_ownerships := extend_map currents (tks_current_ownerships st1)\<rparr>)))"

definition token_write_table_item ::
  "extern \<Rightarrow> sdk \<Rightarrow> token_db option \<Rightarrow> i64 \<Rightarrow> datetime \<Rightarrow> table_handle_to_owner \<Rightarrow> token_txn \<Rightarrow> i64 \<Rightarrow> write_table_item
     \<Rightarrow> token_state \<Rightarrow> token_state result" where
  "token_write_table_item ext sdk db version ts owners ctx index item st =
     and_then (expect_ok (collection_v1_from_write_table_item ext sdk db item version index ts owners)) (\<lambda>collection.
     and_then (expect_ok (token_data_v1_from_write_table_item ext sdk item version index ts)) (\<lambda>token_data.
     and_then (expect_ok (royalty_v1_from_write_table_item ext sdk item version ts)) (\<lambda>royalty.
     and_then (expect_ok (ownership_v1_from_write_table_item ext sdk item version index ts owners
       (tem_deposited (ttx_maps ctx)))) (\<lambda>ownership.
     and_then (expect_ok (claim_from_write_table_item ext sdk item version ts owners)) (\<lambda>claim.
       Inr (push_claim claim (push_written_ownership ownership (push_royalty royalty
         (push_token_data token_data (push_collection collection st))))))))))"

definition token_delete_table_item ::
  "extern \<Rightarrow> sdk \<Rightarrow> i64 \<Rightarrow> datetime \<Rightarrow> table_handle_to_owner \<Rightarrow> token_txn \<Rightarrow> i64 \<Rightarrow> delete_table_item
     \<Rightarrow> token_state \<Rightarrow> token_state result" where
  "token_delete_table_item ext sdk version ts owners ctx index item st =
     and_then (expect_ok (ownership_v1_from_delete_table_item ext sdk item version index ts owners
       (tem_withdrawn (ttx_maps ctx)))) (\<lambda>ownership.
     and_then (expect_ok (claim_from_delete_table_item ext sdk item version ts owners
       (tem_claimed (ttx_maps ctx)) (tem_canceled (ttx_maps ctx)))) (\<lambda>claim.
       Inr (push_claim claim (push_deleted_ownership ownership st))))"

definition token_nft_data ::
  "extern \<Rightarrow> (token_data_v2 \<times> current_token_data_v2) option \<Rightarrow> token_state \<Rightarrow> token_state result" where
  "token_nft_data ext r st =
     (case r of
        None \<Rightarrow> Inr st
      | Some (d, current) \<Rightarrow>
          and_then (expect_ok (get_nft_v2_from_token_data ext d (tks_objects st))) (\<lambda>ownerships.
          and_then (push_nft_ownerships ownerships st) (\<lambda>st1. Inr (push_token_data (Some (d, current)) st1))))"

definition token_write_resource ::
  "extern \<Rightarrow> sdk \<Rightarrow> token_db option \<Rightarrow> i64 \<Rightarrow> datetime \<Rightarrow> token_txn \<Rightarrow> i64 \<Rightarrow> write_resource
     \<Rightarrow> token_state \<Rightarrow> token_state result" where
  "token_write_resource ext sdk db version ts ctx index wr st =
     and_then (expect_ok (collection_v2_from_write_resource ext sdk wr version index ts (tks_objects st))) (\<lambda>collection.
     and_then (expect_ok (token_data_v2_from_write_resource ext sdk wr version index ts (tks_objects st))) (\<lambda>token_data.
     and_then (token_nft_data ext token_data (push_collection collection st)) (\<lambda>st1.
     and_then (expect_ok (burned_nft_from_write_resource ext db wr version index ts (tks_prior_nft_ownership st1)
       (ttx_burned ctx) (tks_objects st1))) (\<lambda>burned.
     and_then (expect_ok (token_metadata_from_write_resource ext sdk wr version (tks_objects st1) ts)) (\<lambda>metadata.
       Inr (push_metadata metadata
         (push_deleted_ownership (map_option (\<lambda>(row, c). (row, Some c)) burned)
           (push_deleted_token_data (burned_token_data_from_write ext wr version ts (ttx_burned ctx)) st1))))))))"

definition token_delete_resource ::
  "extern \<Rightarrow> token_db option \<Rightarrow> i64 \<Rightarrow> datetime \<Rightarrow> token_txn \<Rightarrow> i64 \<Rightarrow> delete_resource \<Rightarrow> token_state \<Rightarrow> token_state" where
  "token_delete_resource ext db version ts ctx index dr st =
     push_deleted_ownership (map_option (\<lambda>(row, c). (row, Some c))
       (burned_nft_from_delete_resource ext db dr version index ts (tks_prior_nft_ownership st) (ttx_burned ctx)))
       (push_deleted_token_data (burned_token_data_from_delete ext dr version ts (ttx_burned ctx)) st)"

definition token_change ::
  "extern \<Rightarrow> sdk \<Rightarrow> token_db option \<Rightarrow> i64 \<Rightarrow> datetime \<Rightarrow> table_handle_to_owner \<Rightarrow> token_txn \<Rightarrow> nat \<times> change option
     \<Rightarrow> token_state \<Rightarrow> token_state result" where
  "token_change ext sdk db version ts owners ctx iwsc st =
     and_then (unwrap (snd iwsc)) (\<lambda>c.
       let index = of_nat (fst iwsc)
       in case c of
            WriteTableItem item \<Rightarrow> token_write_table_item ext sdk db version ts owners ctx index item st
          | DeleteTableItem item \<Rightarrow> token_delete_table_item ext sdk version ts owners ctx index item st
          | WriteResource wr \<Rightarrow> token_write_resource ext sdk db version ts ctx index wr st
          | DeleteResource dr \<Rightarrow> Inr (token_delete_resource ext db version ts ctx index dr st)
          | _ \<Rightarrow> Inr st)"

section \<open>A batch\<close>

definition token_events ::
  "extern \<Rightarrow> sdk \<Rightarrow> i64 \<Rightarrow> datetime \<Rightarrow> user_request \<Rightarrow> event list \<Rightarrow> token_objects \<Rightarrow> token_txn result" where
  "token_events ext sdk version ts req events objects =
     fold_result (token_event_step ext sdk version ts (get_entry_function_from_user_request sdk req) (ur_sender req) (length events))
       (enumerate 0 events)
       \<lparr>ttx_burned = Map.empty, ttx_minted = {},
        ttx_maps = \<lparr>tem_claimed = Map.empty, tem_canceled = Map.empty, tem_withdrawn = Map.empty, tem_deposited = Map.empty\<rparr>,
        ttx_objects = objects, ttx_activities = []\<rparr>"

definition parse_token_user ::
  "extern \<Rightarrow> sdk \<Rightarrow> token_db option \<Rightarrow> table_handle_to_owner \<Rightarrow> i64 \<Rightarrow> datetime \<Rightarrow> change option list \<Rightarrow> user_transaction
     \<Rightarrow> token_state \<Rightarrow> token_state result" where
  "parse_token_user ext sdk db owners version ts changes inner st =
     (case ut_request inner of
        None \<Rightarrow> Inl (Panic ''Sends is not present in user txn'')
      | Some req \<Rightarrow>
          and_then (fold_result (collect_token_object ext) changes (tks_objects st)) (\<lambda>cores.
          and_then (fold_result (fill_token_object ext sdk) changes cores) (\<lambda>objects.
          and_then (token_events ext sdk version ts req (ut_events inner) objects) (\<lambda>ctx.
            fold_result (token_change ext sdk db version ts owners ctx) (enumerate 0 changes)
              (st\<lparr>tks_objects := ttx_objects ctx, tks_activities := tks_activities st @ ttx_activities ctx\<rparr>)))))"

definition parse_token_txn ::
  "extern \<Rightarrow> sdk \<Rightarrow> token_db option \<Rightarrow> table_handle_to_owner \<Rightarrow> transaction \<Rightarrow> token_state \<Rightarrow> token_state result" where
  "parse_token_txn ext sdk db owners txn st =
     (case tx_data txn of
        None \<Rightarrow> Inr st
      | Some data \<Rightarrow>
          and_then (unwrap (tx_timestamp txn)) (\<lambda>t.
            case tx_info txn of
              None \<Rightarrow> Inl (Panic ''Transaction info doesn't exist!'')
            | Some info \<Rightarrow>
                (case data of
                   TxnUser inner \<Rightarrow>
                     parse_token_user ext sdk db owners (tx_version txn) (parse_timestamp ext t (tx_version txn))
                       (ti_changes info) inner st
                 | _ \<Rightarrow> Inr st)))"

record token_rows =
  trw_collections :: "collection_v2 list"
  trw_token_datas :: "token_data_v2 list"
  trw_ownerships :: "token_ownership_v2 list"
  trw_current_collections :: "current_collection_v2 list"
  trw_current_token_datas :: "current_token_data_v2 list"
  trw_deleted_token_datas :: "current_token_data_v2 list"
  trw_current_ownerships :: "current_token_ownership_v2 list"
  trw_deleted_ownerships :: "current_token_ownership_v2 list"
  trw_activities :: "token_activity_v2 list"
  trw_metadata :: "current_token_v2_metadata list"
  trw_royalties :: "current_token_royalty_v1 list"
  trw_claims :: "current_token_pending_claim list"

definition parse_v2_token ::
  "extern \<Rightarrow> sdk \<Rightarrow> token_db option \<Rightarrow> table_handle_to_owner \<Rightarrow> transaction list \<Rightarrow> token_rows result" where
  "parse_v2_token ext sdk db owners txns =
     and_then (fold_result (parse_token_txn ext sdk db owners) txns empty_token_state) (\<lambda>st.
       Inr \<lparr>trw_collections = tks_collections st, trw_token_datas = tks_token_datas st, trw_ownerships = tks_ownerships st,
         trw_current_collections = sort_key ccl_collection_id (map snd (tks_current_collections st)),
         trw_current_token_datas = sort_key ctd_token_data_id (map snd (tks_current_token_datas st)),
         trw_deleted_token_datas = sort_key ctd_token_data_id (map snd (tks_deleted_token_datas st)),
         trw_current_ownerships = sort_key cto_pk (map snd (tks_current_ownerships st)),
         trw_deleted_ownerships = sort_key cto_pk (map snd (tks_deleted_ownerships st)),
         trw_activities = tks_activities st,
         trw_metadata = sort_key ctm_pk (map snd (tks_metadata st)),
         trw_royalties = sort_key ctr_token_data_id (map snd (tks_royalties st)),
         trw_claims = sort_key cpc_pk (map snd (tks_claims st))\<rparr>)"

text \<open>
  Every map is sorted by its full key, so the order in which a hash map is traversed does not
  matter.
\<close>

record token_batch =
  tkb_collections :: "current_collection_v2 list"
  tkb_token_datas :: "current_token_data_v2 list"
  tkb_deleted_token_datas :: "current_token_data_v2 list"
  tkb_ownerships :: "current_token_ownership_v2 list"
  tkb_deleted_ownerships :: "current_token_ownership_v2 list"
  tkb_activities :: "token_activity_v2 list"
  tkb_royalties :: "current_token_royalty_v1 list"
  tkb_claims :: "current_token_pending_claim list"

definition token_extract ::
  "extern \<Rightarrow> sdk \<Rightarrow> token_db option \<Rightarrow> transaction list \<Rightarrow> token_batch result" where
  "token_extract ext sdk conn txns =
     (case conn of
        None \<Rightarrow> Inl (DBStoreError ''Failed to get connection from pool'')
      | Some db \<Rightarrow>
          and_then (get_table_handle_to_owner_from_transactions ext txns) (\<lambda>owners.
          and_then (parse_v2_token ext sdk (Some db) (map_of owners) txns) (\<lambda>rows.
            Inr \<lparr>tkb_collections = trw_current_collections rows, tkb_token_datas = trw_current_token_datas rows,
              tkb_deleted_token_datas = trw_deleted_token_datas rows, tkb_ownerships = trw_current_ownerships rows,
              tkb_deleted_ownerships = trw_deleted_ownerships rows, tkb_activities = trw_activities rows,
              tkb_royalties = trw_royalties rows, tkb_claims = trw_claims rows\<rparr>)))"

end
