(* ===== verification/TokenCurrents.thy ===== *)
theory TokenCurrents
  imports TokenProcessor
begin

text \<open>
  What a batch of the token processor extracts: the current rows are the last word of the history
  rows, burned tokens and deleted ownerships are kept apart from written ones, and the activities
  have keys of their own.
\<close>

section \<open>Current rows of history rows\<close>

definition current_of_collection :: "collection_v2 \<Rightarrow> current_collection_v2" where
  "current_of_collection c =
     \<lparr>ccl_collection_id = col_collection_id c, ccl_creator_address = col_creator_address c,
      ccl_collection_name = col_collection_name c, ccl_description = col_description c, ccl_uri = col_uri c,
      ccl_current_supply = col_current_supply c, ccl_max_supply = col_max_supply c,
      ccl_total_minted_v2 = col_total_minted_v2 c, ccl_mutable_description = col_mutable_description c,
      ccl_mutable_uri = col_mutable_uri c, ccl_table_handle_v1 = col_table_handle_v1 c,
      ccl_token_standard = col_token_standard c, ccl_collection_properties = col_collection_properties c,
      ccl_last_transaction_version = col_transaction_version c,
      ccl_last_transaction_timestamp = col_transaction_timestamp c\<rparr>"

definition current_of_token_data :: "token_data_v2 \<Rightarrow> current_token_data_v2" where
  "current_of_token_data d =
     \<lparr>ctd_token_data_id = tdd_token_data_id d, ctd_collection_id = tdd_collection_id d,
      ctd_token_name = tdd_token_name d, ctd_maximum = tdd_maximum d, ctd_supply = tdd_supply d,
      ctd_largest_property_version_v1 = tdd_largest_property_version_v1 d, ctd_token_uri = tdd_token_uri d,
      ctd_token_properties = tdd_token_properties d, ctd_description = tdd_description d,
      ctd_token_standard = tdd_token_standard d, ctd_is_fungible_v2 = tdd_is_fungible_v2 d,
      ctd_last_transaction_version = tdd_transaction_version d,
      ctd_last_transaction_timestamp = tdd_transaction_timestamp d, ctd_decimals = tdd_decimals d,
      ctd_is_deleted_v2 = (if tdd_token_standard d = ''v2'' then Some False else None)\<rparr>"

definition current_of_ownership :: "token_ownership_v2 \<Rightarrow> current_token_ownership_v2" where
  "current_of_ownership r =
     \<lparr>cto_token_data_id = own_token_data_id r, cto_property_version_v1 = own_property_version_v1 r,
      cto_owner_address = the (own_owner_address r), cto_storage_id = own_storage_id r, cto_amount = own_amount r,
      cto_table_type_v1 = own_table_type_v1 r, cto_token_properties_mutated_v1 = own_token_properties_mutated_v1 r,
      cto_is_soulbound_v2 = own_is_soulbound_v2 r, cto_token_standard = own_token_standard r,
      cto_is_fungible_v2 = own_is_fungible_v2 r, cto_last_transaction_version = own_transaction_version r,
      cto_last_transaction_timestamp = own_transaction_timestamp r,
      cto_non_transferrable_by_owner = own_non_transferrable_by_owner r\<rparr>"

definition own_pk :: "token_ownership_v2 \<Rightarrow> string \<times> decimal \<times> string \<times> string" where
  "own_pk r = (own_token_data_id r, own_property_version_v1 r, the (own_owner_address r), own_storage_id r)"

text \<open>
  Ownership rows of deletions (a deleted table item, a burned token) can be told from those of
  writes: a deleted item has no properties, and the row of a burned token either lacks the
  transfer flag or says that the token is not fungible, which the row of a written one never does.
\<close>

definition own_is_deletion :: "token_ownership_v2 \<Rightarrow> bool" where
  "own_is_deletion r \<longleftrightarrow>
     (if own_token_standard r = ''v1'' then own_token_properties_mutated_v1 r = None
      else own_is_fungible_v2 r \<noteq> None \<or> own_non_transferrable_by_owner r = None)"

lemma current_of_collection_inverse [simp]: "current_of_collection (collection_of_current i c) = c"
  by (simp add: current_of_collection_def collection_of_current_def)

lemma collection_of_current_id [simp]: "col_collection_id (collection_of_current i c) = ccl_collection_id c"
  by (simp add: collection_of_current_def)

lemma current_of_ownership_inverse [simp]: "current_of_ownership (ownership_of_current i c) = c"
  by (simp add: current_of_ownership_def ownership_of_current_def)

lemma own_pk_of_current [simp]: "own_pk (ownership_of_current i c) = cto_pk c"
  by (simp add: own_pk_def cto_pk_def ownership_of_current_def)

lemma pk_current_of [simp]:
  "ccl_collection_id (current_of_collection c) = col_collection_id c"
  "ctd_token_data_id (current_of_token_data d) = tdd_token_data_id d"
  "cto_pk (current_of_ownership r) = own_pk r"
  by (simp_all add: current_of_collection_def current_of_token_data_def current_of_ownership_def cto_pk_def own_pk_def)

section \<open>The rows the readers build\<close>

lemma collection_rows_agree:
  "collection_v2_from_write_resource ext sdk wr version index ts objects = Inr (Some (c, cur)) \<Longrightarrow> c = collection_of_current index cur"
  "collection_v1_from_write_table_item ext sdk db item version index ts owners = Inr (Some (c, cur)) \<Longrightarrow>
     c = collection_of_current index cur"
  by (auto elim!: and_then_InrE simp: collection_v2_from_write_resource_def collection_v1_from_write_table_item_def Let_def
      split: option.split_asm prod.split_asm token_write_set.split_asm)

definition token_data_agrees :: "(token_data_v2 \<times> current_token_data_v2) option \<Rightarrow> bool" where
  "token_data_agrees r \<longleftrightarrow>
     (case r of None \<Rightarrow> True | Some (d, cur) \<Rightarrow> cur = current_of_token_data d)"

lemma token_data_rows_agree:
  "token_data_v2_from_write_resource ext sdk wr version index ts objects = Inr r \<Longrightarrow> token_data_agrees r"
  "token_data_v1_from_write_table_item ext sdk item version index ts = Inr r \<Longrightarrow> token_data_agrees r"
  by (auto elim!: and_then_InrE simp: token_data_v2_from_write_resource_def token_data_v1_from_write_table_item_def Let_def
      token_data_agrees_def token_data_of_current_def current_of_token_data_def split: option.split_asm option.splits)

text \<open>
  \<open>ownership_agrees deleted r\<close>: a row, if any, is the history row of its current row and is of the
  given kind; rows of deletions have amount 0.
\<close>

definition ownership_agrees :: "bool \<Rightarrow> (token_ownership_v2 \<times> current_token_ownership_v2 option) option \<Rightarrow> bool" where
  "ownership_agrees deleted r \<longleftrightarrow>
     (case r of
        None \<Rightarrow> True
      | Some (row, c) \<Rightarrow> (\<exists>cur. c = Some cur \<and> cur = current_of_ownership row \<and> cto_pk cur = own_pk row) \<and>
          own_is_deletion row = deleted \<and> (deleted \<longrightarrow> own_amount row = 0))"

lemma ownership_v1_agrees:
  "ownership_v1_from_write_table_item ext sdk item version index ts owners deposited = Inr r \<Longrightarrow> ownership_agrees False r"
  "ownership_v1_from_delete_table_item ext sdk ditem version index ts owners withdrawn = Inr r \<Longrightarrow> ownership_agrees True r"
  by (auto elim!: and_then_InrE simp: ownership_v1_from_write_table_item_def ownership_v1_from_delete_table_item_def Let_def
      ownership_agrees_def own_is_deletion_def v1_current_def ownership_of_current_def current_of_ownership_def
      cto_pk_def own_pk_def split: option.split_asm prod.split_asm token_write_set.split_asm option.splits)

definition with_current ::
  "(token_ownership_v2 \<times> current_token_ownership_v2) option \<Rightarrow> (token_ownership_v2 \<times> current_token_ownership_v2 option) option" where
  "with_current r = map_option (\<lambda>(row, c). (row, Some c)) r"

lemma burned_helper_agrees: "ownership_agrees True (with_current (get_burned_nft_v2_helper ext db a version index ts prior burned))"
  by (auto simp: get_burned_nft_v2_helper_def Let_def with_current_def ownership_agrees_def own_is_deletion_def nft_current_def
      ownership_of_current_def current_of_ownership_def cto_pk_def own_pk_def split: option.splits)

lemma burned_write_agrees:
  assumes "burned_nft_from_write_resource ext db wr version index ts prior burned objects = Inr r"
  shows "ownership_agrees True (with_current r)"
proof (cases "\<exists>a. r = get_burned_nft_v2_helper ext db a version index ts prior burned")
  case True
  then show ?thesis using burned_helper_agrees by auto
next
  case False
  with assms obtain owner soulbound nt id' where "r = None \<or>
      r = Some (ownership_of_current index (nft_current id' owner 0 (Some soulbound) (Some False) (Some nt) version ts),
        nft_current id' owner 0 (Some soulbound) (Some False) (Some nt) version ts)"
    by (auto elim!: and_then_InrE simp: burned_nft_from_write_resource_def Let_def split: if_splits option.split_asm)
  then show ?thesis
    by (auto simp: with_current_def ownership_agrees_def own_is_deletion_def nft_current_def
        ownership_of_current_def current_of_ownership_def cto_pk_def own_pk_def)
qed

lemma fold_insert_ownership_latest:
  "holds_latest own_pk current_of_ownership (map (\<lambda>(i, c). ownership_of_current i c) rows)
     (fold insert_ownership (map snd rows) [])"
proof (induction rows rule: rev_induct)
  case (snoc p rows)
  obtain i c where "p = (i, c)" by (cases p)
  with holds_latest_snoc [OF snoc, of "ownership_of_current i c"] show ?case by (simp add: insert_ownership_def)
qed simp

lemma nft_rows_agree:
  assumes "get_nft_v2_from_token_data ext td objects = Inr (rows, currents)"
  shows "holds_latest own_pk current_of_ownership rows currents" "\<forall>r \<in> set rows. \<not> own_is_deletion r"
proof -
  obtain ob where r: "rows = map (\<lambda>(i, c). ownership_of_current i c) (nft_ownership_rows ext td ob)"
      "currents = fold insert_ownership (map snd (nft_ownership_rows ext td ob)) []"
    using assms by (auto simp: get_nft_v2_from_token_data_def Let_def split: option.split_asm)
  then show "holds_latest own_pk current_of_ownership rows currents" using fold_insert_ownership_latest by simp
  show "\<forall>r \<in> set rows. \<not> own_is_deletion r"
    by (auto simp: r(1) nft_ownership_rows_def Let_def own_is_deletion_def ownership_of_current_def nft_current_def)
qed

section \<open>The invariant of a batch\<close>

definition token_ok :: "token_state \<Rightarrow> bool" where
  "token_ok st \<longleftrightarrow>
     holds_latest col_collection_id current_of_collection (tks_collections st) (tks_current_collections st) \<and>
     holds_latest tdd_token_data_id current_of_token_data (tks_token_datas st) (tks_current_token_datas st) \<and>
     holds_latest own_pk current_of_ownership (filter (\<lambda>r. \<not> own_is_deletion r) (tks_ownerships st)) (tks_current_ownerships st) \<and>
     holds_latest own_pk current_of_ownership (filter own_is_deletion (tks_ownerships st)) (tks_deleted_ownerships st) \<and>
     (\<forall>r \<in> set (tks_ownerships st). own_is_deletion r \<longrightarrow> own_amount r = 0) \<and>
     keyed_by ctd_token_data_id (tks_deleted_token_datas st) \<and>
     (\<forall>e \<in> set (tks_deleted_token_datas st). ctd_is_deleted_v2 (snd e) = Some True) \<and>
     keyed_by ctm_pk (tks_metadata st) \<and> keyed_by ctr_token_data_id (tks_royalties st) \<and> keyed_by cpc_pk (tks_claims st)"

lemma empty_token_ok: "token_ok empty_token_state"
  by (simp add: token_ok_def empty_token_state_def)

lemma token_ok_objects [simp]:
  "token_ok (st\<lparr>tks_objects := objects, tks_activities := activities\<rparr>) = token_ok st"
  by (simp add: token_ok_def)

lemma push_collection_ok:
  assumes "token_ok st" and "\<And>c cur. r = Some (c, cur) \<Longrightarrow> c = collection_of_current index cur"
  shows "token_ok (push_collection r st)"
proof (cases r)
  case (Some p)
  then obtain cur where "r = Some (collection_of_current index cur, cur)" using assms(2) by (cases p) auto
  with assms(1) holds_latest_snoc [of col_collection_id current_of_collection "tks_collections st" "tks_current_collections st"
      "collection_of_current index cur"] show ?thesis
    by (simp add: token_ok_def push_collection_def)
qed (use assms in \<open>simp add: push_collection_def\<close>)

lemma push_token_data_ok:
  assumes "token_ok st" and "token_data_agrees r"
  shows "token_ok (push_token_data r st)"
proof (cases r)
  case (Some p)
  then obtain d where "r = Some (d, current_of_token_data d)" using assms(2) by (cases p) (auto simp: token_data_agrees_def)
  with assms(1) holds_latest_snoc [of tdd_token_data_id current_of_token_data "tks_token_datas st" "tks_current_token_datas st" d]
  show ?thesis by (simp add: token_ok_def push_token_data_def)
qed (use assms in \<open>simp add: push_token_data_def\<close>)

lemma push_keyed_ok:
  "token_ok st \<Longrightarrow> token_ok (push_royalty roy st)"
  "token_ok st \<Longrightarrow> token_ok (push_claim cl st)"
  "token_ok st \<Longrightarrow> token_ok (push_metadata m st)"
  by (auto simp: token_ok_def push_royalty_def push_claim_def push_metadata_def keyed_by_update split: option.splits)

lemma push_deleted_token_data_ok:
  assumes "token_ok st" and "\<And>d. r = Some d \<Longrightarrow> ctd_is_deleted_v2 d = Some True"
  shows "token_ok (push_deleted_token_data r st)"
  using assms by (auto simp: token_ok_def push_deleted_token_data_def keyed_by_update dest!: mem_update split: option.splits)

lemma push_written_ownership_ok:
  assumes "token_ok st" and "ownership_agrees False r"
  shows "token_ok (push_written_ownership r st)"
proof (cases r)
  case (Some p)
  then obtain row where p: "r = Some (row, Some (current_of_ownership row))" "\<not> own_is_deletion row"
    using assms(2) by (cases p) (auto simp: ownership_agrees_def)
  with assms(1) holds_latest_snoc [of own_pk current_of_ownership "filter (\<lambda>r. \<not> own_is_deletion r) (tks_ownerships st)"
      "tks_current_ownerships st" row] show ?thesis
    by (auto simp: token_ok_def push_written_ownership_def remember_owner_def insert_ownership_def)
qed (use assms in \<open>simp add: push_written_ownership_def\<close>)

lemma push_deleted_ownership_ok:
  assumes "token_ok st" and "ownership_agrees True r"
  shows "token_ok (push_deleted_ownership r st)"
proof (cases r)
  case (Some p)
  then obtain row where p: "r = Some (row, Some (current_of_ownership row))" "own_is_deletion row" "own_amount row = 0"
    using assms(2) by (cases p) (auto simp: ownership_agrees_def)
  with assms(1) holds_latest_snoc [of own_pk current_of_ownership "filter own_is_deletion (tks_ownerships st)"
      "tks_deleted_ownerships st" row] show ?thesis
    by (auto simp: token_ok_def push_deleted_ownership_def remember_owner_def insert_ownership_def)
qed (use assms in \<open>simp add: push_deleted_ownership_def\<close>)

lemma push_nft_ownerships_ok:
  assumes "token_ok st" and "holds_latest own_pk current_of_ownership rows currents" and "\<forall>r \<in> set rows. \<not> own_is_deletion r"
    and "push_nft_ownerships (rows, currents) st = Inr st'"
  shows "token_ok st'"
proof -
  obtain st1 where prior: "st1 = st \<or> (\<exists>p. st1 = st\<lparr>tks_prior_nft_ownership := p\<rparr>)"
    and st': "st' = st1\<lparr>tks_ownerships := tks_ownerships st1 @ rows,
      tks_current_ownerships := extend_map currents (tks_current_ownerships st1)\<rparr>"
    using assms(4) unfolding push_nft_ownerships_def by (auto elim!: and_then_InrE split: list.split_asm)
  have st1: "token_ok st1" using prior assms(1) by (auto simp: token_ok_def)
  have "filter (\<lambda>r. \<not> own_is_deletion r) rows = rows" "filter own_is_deletion rows = []"
    using assms(3) by (simp_all add: filter_id_conv)
  with st1 assms(2,3) holds_latest_extend [of own_pk current_of_ownership
      "filter (\<lambda>r. \<not> own_is_deletion r) (tks_ownerships st1)" "tks_current_ownerships st1" rows currents]
  show ?thesis by (auto simp: token_ok_def st')
qed

lemma burned_token_data_deleted: "burned_token_data ext a version ts burned = Some d \<Longrightarrow> ctd_is_deleted_v2 d = Some True"
  by (auto simp: burned_token_data_def Let_def)

lemma token_nft_data_ok:
  assumes "token_nft_data ext r st = Inr st'" and "token_ok st" and "token_data_agrees r"
  shows "token_ok st'"
proof (cases r)
  case (Some p)
  obtain d cur where p: "p = (d, cur)" by (cases p)
  from assms(1) obtain rows currents st1 where n: "get_nft_v2_from_token_data ext d (tks_objects st) = Inr (rows, currents)"
      "push_nft_ownerships (rows, currents) st = Inr st1" "st' = push_token_data r st1"
    by (auto elim!: and_then_InrE simp: token_nft_data_def Some p)
  from push_nft_ownerships_ok [OF assms(2) nft_rows_agree [OF n(1)] n(2)] show ?thesis
    unfolding n(3) using assms(3) by (rule push_token_data_ok)
qed (use assms in \<open>simp add: token_nft_data_def\<close>)

lemma token_write_table_item_ok:
  assumes "token_write_table_item ext sdk db version ts owners ctx index item st = Inr st'" and "token_ok st"
  shows "token_ok st'"
  using assms
  by (auto elim!: and_then_InrE simp: token_write_table_item_def
      intro!: push_keyed_ok push_written_ownership_ok push_token_data_ok push_collection_ok
      dest: collection_rows_agree token_data_rows_agree ownership_v1_agrees)

lemma token_delete_table_item_ok:
  assumes "token_delete_table_item ext sdk version ts owners ctx index item st = Inr st'" and "token_ok st"
  shows "token_ok st'"
  using assms
  by (auto elim!: and_then_InrE simp: token_delete_table_item_def intro!: push_keyed_ok push_deleted_ownership_ok
      dest: ownership_v1_agrees)

lemma token_write_resource_ok:
  assumes "token_write_resource ext sdk db version ts ctx index wr st = Inr st'" and "token_ok st"
  shows "token_ok st'"
proof -
  obtain collection token_data st1 burned metadata where w:
      "collection_v2_from_write_resource ext sdk wr version index ts (tks_objects st) = Inr collection"
      "token_data_v2_from_write_resource ext sdk wr version index ts (tks_objects st) = Inr token_data"
      "token_nft_data ext token_data (push_collection collection st) = Inr st1"
      "burned_nft_from_write_resource ext db wr version index ts (tks_prior_nft_ownership st1) (ttx_burned ctx) (tks_objects st1) =
         Inr burned"
      "st' = push_metadata metadata (push_deleted_ownership (with_current burned)
         (push_deleted_token_data (burned_token_data_from_write ext wr version ts (ttx_burned ctx)) st1))"
    using assms(1) by (auto elim!: and_then_InrE simp: token_write_resource_def with_current_def)
  have "token_ok (push_collection collection st)"
    using assms(2) w(1) by (auto intro!: push_collection_ok dest: collection_rows_agree)
  then have "token_ok st1" using token_nft_data_ok [OF w(3)] token_data_rows_agree(1) [OF w(2)] by blast
  then show ?thesis
    unfolding w(5) using burned_write_agrees [OF w(4)]
    by (intro push_keyed_ok push_deleted_ownership_ok push_deleted_token_data_ok)
      (auto simp: burned_token_data_from_write_def dest: burned_token_data_deleted)
qed

lemma token_delete_resource_ok: "token_ok st \<Longrightarrow> token_ok (token_delete_resource ext db version ts ctx index dr st)"
  unfolding token_delete_resource_def with_current_def [symmetric] burned_nft_from_delete_resource_def
    burned_token_data_from_delete_def
  by (intro push_deleted_ownership_ok push_deleted_token_data_ok burned_helper_agrees) (auto dest: burned_token_data_deleted)

lemma token_change_ok:
  assumes "token_change ext sdk db version ts owners ctx iwsc st = Inr st'" and "token_ok st"
  shows "token_ok st'"
  using assms
  by (auto elim!: and_then_InrE simp: token_change_def Let_def token_delete_resource_ok split: change.split_asm
      dest: token_write_table_item_ok token_delete_table_item_ok token_write_resource_ok)

lemma parse_token_txn_ok:
  assumes "parse_token_txn ext sdk db owners txn st = Inr st'" and "token_ok st"
  shows "token_ok st'"
proof (cases "st' = st")
  case False
  then obtain version ts ctx iwscs st1 where run:
      "fold_result (token_change ext sdk db version ts owners ctx) iwscs st1 = Inr st'" "token_ok st1"
    using assms by (auto elim!: and_then_InrE simp: parse_token_txn_def parse_token_user_def split: option.split_asm txn_data.split_asm)
  then show ?thesis using fold_result_inv [where P = token_ok, OF _ run(1)] token_change_ok by blast
qed (use assms in simp)

lemma parse_v2_token_cases:
  assumes "parse_v2_token ext sdk db owners txns = Inr rows"
  obtains st where "token_ok st" "fold_result (parse_token_txn ext sdk db owners) txns empty_token_state = Inr st"
    "trw_collections rows = tks_collections st" "trw_token_datas rows = tks_token_datas st"
    "trw_ownerships rows = tks_ownerships st" "trw_activities rows = tks_activities st"
    "trw_current_collections rows = sort_key ccl_collection_id (map snd (tks_current_collections st))"
    "trw_current_token_datas rows = sort_key ctd_token_data_id (map snd (tks_current_token_datas st))"
    "trw_deleted_token_datas rows = sort_key ctd_token_data_id (map snd (tks_deleted_token_datas st))"
    "trw_current_ownerships rows = sort_key cto_pk (map snd (tks_current_ownerships st))"
    "trw_deleted_ownerships rows = sort_key cto_pk (map snd (tks_deleted_ownerships st))"
    "trw_metadata rows = sort_key ctm_pk (map snd (tks_metadata st))"
    "trw_royalties rows = sort_key ctr_token_data_id (map snd (tks_royalties st))"
    "trw_claims rows = sort_key cpc_pk (map snd (tks_claims st))"
proof -
  obtain st where run: "fold_result (parse_token_txn ext sdk db owners) txns empty_token_state = Inr st"
    using assms by (auto elim!: and_then_InrE simp: parse_v2_token_def)
  have "token_ok st"
    using fold_result_inv [where P = token_ok, OF _ run] parse_token_txn_ok empty_token_ok by blast
  with run assms show ?thesis by (intro that) (auto simp: parse_v2_token_def)
qed

text \<open>The maps of a batch, as facts about the rows it extracts.\<close>

lemma token_currents:
  assumes "parse_v2_token ext sdk db owners txns = Inr rows"
  shows "set (trw_current_collections rows) =
      {c. latest col_collection_id current_of_collection (trw_collections rows) (ccl_collection_id c) = Some c}"
    and "set (trw_current_token_datas rows) =
      {c. latest tdd_token_data_id current_of_token_data (trw_token_datas rows) (ctd_token_data_id c) = Some c}"
    and "set (trw_current_ownerships rows) =
      {c. latest own_pk current_of_ownership (filter (\<lambda>r. \<not> own_is_deletion r) (trw_ownerships rows)) (cto_pk c) = Some c}"
    and "set (trw_deleted_ownerships rows) =
      {c. latest own_pk current_of_ownership (filter own_is_deletion (trw_ownerships rows)) (cto_pk c) = Some c}"
    and "\<forall>c \<in> set (trw_deleted_ownerships rows). cto_amount c = 0"
proof -
  obtain st where st: "token_ok st" "trw_collections rows = tks_collections st" "trw_token_datas rows = tks_token_datas st"
    "trw_ownerships rows = tks_ownerships st"
    "trw_current_collections rows = sort_key ccl_collection_id (map snd (tks_current_collections st))"
    "trw_current_token_datas rows = sort_key ctd_token_data_id (map snd (tks_current_token_datas st))"
    "trw_current_ownerships rows = sort_key cto_pk (map snd (tks_current_ownerships st))"
    "trw_deleted_ownerships rows = sort_key cto_pk (map snd (tks_deleted_ownerships st))"
    using assms by (rule parse_v2_token_cases)
  then show "set (trw_current_collections rows) =
      {c. latest col_collection_id current_of_collection (trw_collections rows) (ccl_collection_id c) = Some c}"
    "set (trw_current_token_datas rows) =
      {c. latest tdd_token_data_id current_of_token_data (trw_token_datas rows) (ctd_token_data_id c) = Some c}"
    "set (trw_current_ownerships rows) =
      {c. latest own_pk current_of_ownership (filter (\<lambda>r. \<not> own_is_deletion r) (trw_ownerships rows)) (cto_pk c) = Some c}"
    and deleted: "set (trw_deleted_ownerships rows) =
      {c. latest own_pk current_of_ownership (filter own_is_deletion (trw_ownerships rows)) (cto_pk c) = Some c}"
    by (simp_all only: sorted_latest_values pk_current_of token_ok_def)
  show "\<forall>c \<in> set (trw_deleted_ownerships rows). cto_amount c = 0"
  proof
    fix c assume "c \<in> set (trw_deleted_ownerships rows)"
    then have "latest own_pk current_of_ownership (filter own_is_deletion (tks_ownerships st)) (cto_pk c) = Some c"
      unfolding deleted st(4) by simp
    from latest_SomeD [OF this] obtain r where
      "r \<in> set (tks_ownerships st)" "own_is_deletion r" "current_of_ownership r = c" by auto
    then show "cto_amount c = 0" using st(1) by (auto simp: token_ok_def current_of_ownership_def)
  qed
qed

lemma token_rows_distinct:
  assumes "parse_v2_token ext sdk db owners txns = Inr rows"
  shows "distinct (map ccl_collection_id (trw_current_collections rows))"
    "distinct (map ctd_token_data_id (trw_current_token_datas rows))"
    "distinct (map ctd_token_data_id (trw_deleted_token_datas rows))"
    "distinct (map cto_pk (trw_current_ownerships rows))" "distinct (map cto_pk (trw_deleted_ownerships rows))"
    "distinct (map ctm_pk (trw_metadata rows))" "distinct (map ctr_token_data_id (trw_royalties rows))"
    "distinct (map cpc_pk (trw_claims rows))"
proof -
  obtain st where ok: "token_ok st" and st:
    "trw_current_collections rows = sort_key ccl_collection_id (map snd (tks_current_collections st))"
    "trw_current_token_datas rows = sort_key ctd_token_data_id (map snd (tks_current_token_datas st))"
    "trw_deleted_token_datas rows = sort_key ctd_token_data_id (map snd (tks_deleted_token_datas st))"
    "trw_current_ownerships rows = sort_key cto_pk (map snd (tks_current_ownerships st))"
    "trw_deleted_ownerships rows = sort_key cto_pk (map snd (tks_deleted_ownerships st))"
    "trw_metadata rows = sort_key ctm_pk (map snd (tks_metadata st))"
    "trw_royalties rows = sort_key ctr_token_data_id (map snd (tks_royalties st))"
    "trw_claims rows = sort_key cpc_pk (map snd (tks_claims st))"
    using assms by (rule parse_v2_token_cases)
  have l: "holds_latest col_collection_id current_of_collection (tks_collections st) (tks_current_collections st)"
      "holds_latest tdd_token_data_id current_of_token_data (tks_token_datas st) (tks_current_token_datas st)"
      "holds_latest own_pk current_of_ownership (filter (\<lambda>r. \<not> own_is_deletion r) (tks_ownerships st)) (tks_current_ownerships st)"
      "holds_latest own_pk current_of_ownership (filter own_is_deletion (tks_ownerships st)) (tks_deleted_ownerships st)"
    and k: "keyed_by ctd_token_data_id (tks_deleted_token_datas st)" "keyed_by ctm_pk (tks_metadata st)"
      "keyed_by ctr_token_data_id (tks_royalties st)" "keyed_by cpc_pk (tks_claims st)"
    using ok by (simp_all add: token_ok_def)
  show "distinct (map ccl_collection_id (trw_current_collections rows))"
    "distinct (map ctd_token_data_id (trw_current_token_datas rows))"
    "distinct (map cto_pk (trw_current_ownerships rows))" "distinct (map cto_pk (trw_deleted_ownerships rows))"
    unfolding st
    using sorted_latest_values [of _ _ _ _ ccl_collection_id, OF l(1)]
      sorted_latest_values [of _ _ _ _ ctd_token_data_id, OF l(2)]
      sorted_latest_values [of _ _ _ _ cto_pk, OF l(3)] sorted_latest_values [of _ _ _ _ cto_pk, OF l(4)] by simp_all
  show "distinct (map ctd_token_data_id (trw_deleted_token_datas rows))"
    "distinct (map ctm_pk (trw_metadata rows))" "distinct (map ctr_token_data_id (trw_royalties rows))"
    "distinct (map cpc_pk (trw_claims rows))"
    unfolding st by (rule keyed_by_distinct [OF k(1)] keyed_by_distinct [OF k(2)] keyed_by_distinct [OF k(3)]
      keyed_by_distinct [OF k(4)])+
qed

text \<open>
  Claim C31: The current rows of a batch are the last word of its history rows: per collection, per
  token, and per owned token.  An ownership whose last change is a write and one whose last change
  is a deletion are kept in two lists, each the last word of the rows of its kind, and a deleted
  ownership has amount 0.
\<close>

theorem token_currents_are_latest:
  assumes "parse_v2_token ext sdk db owners txns = Inr rows"
  shows "set (trw_current_collections rows) =
      {c. latest col_collection_id current_of_collection (trw_collections rows) (ccl_collection_id c) = Some c} \<and>
    set (trw_current_token_datas rows) =
      {c. latest tdd_token_data_id current_of_token_data (trw_token_datas rows) (ctd_token_data_id c) = Some c} \<and>
    set (trw_current_ownerships rows) =
      {c. latest own_pk current_of_ownership (filter (\<lambda>r. \<not> own_is_deletion r) (trw_ownerships rows)) (cto_pk c) = Some c} \<and>
    set (trw_deleted_ownerships rows) =
      {c. latest own_pk current_of_ownership (filter own_is_deletion (trw_ownerships rows)) (cto_pk c) = Some c} \<and>
    list_all (\<lambda>c. cto_amount c = 0) (trw_deleted_ownerships rows)"
  using token_currents [OF assms] by (simp add: list_all_iff)

section \<open>Owners of a transferred token\<close>

definition nft_key :: "token_data_v2 \<Rightarrow> string \<Rightarrow> string \<times> decimal \<times> string \<times> string" where
  "nft_key td owner = (tdd_token_data_id td, 0, owner, tdd_token_data_id td)"

definition transfer_senders :: "extern \<Rightarrow> token_object \<Rightarrow> string list" where
  "transfer_senders ext ob = map (\<lambda>(i, e). get_from_address ext e) (real_transfers ext ob)"

lemma nft_amounts:
  assumes "get_nft_v2_from_token_data ext td objects = Inr (rows, currents)"
    and "objects (tdd_token_data_id td) = Some ob"
  shows "map_option cto_amount (map_of currents (nft_key td a)) =
    (if a \<in> set (transfer_senders ext ob) then Some 0
     else if a = get_owner_address ext (om_object_core (tob_object ob)) then Some 1 else None)"
proof -
  obtain soulbound nt where rows: "rows =
      ownership_of_current (tdd_write_set_change_index td) (nft_current (tdd_token_data_id td)
        (get_owner_address ext (om_object_core (tob_object ob))) 1 (Some soulbound) None (Some nt)
        (tdd_transaction_version td) (tdd_transaction_timestamp td)) #
      map (\<lambda>(i, e). ownership_of_current (- i) (nft_current (tdd_token_data_id td) (get_from_address ext e) 0 (Some soulbound) None
        (Some soulbound) (tdd_transaction_version td) (tdd_transaction_timestamp td))) (real_transfers ext ob)"
    (is "rows = ?owner # map ?sender _")
    using assms by (auto simp: get_nft_v2_from_token_data_def nft_ownership_rows_def Let_def comp_def case_prod_unfold)
  let ?prev = "map ?sender (real_transfers ext ob)"
  have "map_of currents = latest own_pk current_of_ownership (?owner # ?prev)"
    using nft_rows_agree(1) [OF assms(1)] by (simp add: holds_latest_def rows)
  also have "\<dots> = latest own_pk current_of_ownership [?owner] ++ latest own_pk current_of_ownership ?prev"
    using latest_append [of own_pk current_of_ownership "[?owner]" ?prev] by simp
  finally have m: "map_of currents = \<dots>" .
  have keys: "nft_key td a \<in> own_pk ` set ?prev \<longleftrightarrow> a \<in> set (transfer_senders ext ob)"
    by (auto simp: nft_key_def transfer_senders_def cto_pk_def nft_current_def image_image case_prod_unfold)
  have none: "latest own_pk current_of_ownership ?prev (nft_key td a) = None \<longleftrightarrow> a \<notin> set (transfer_senders ext ob)"
    by (simp only: latest_None_iff keys)
  show ?thesis
  proof (cases "latest own_pk current_of_ownership ?prev (nft_key td a)")
    case None
    with none have "a \<notin> set (transfer_senders ext ob)" by blast
    then show ?thesis
      using None by (simp add: m map_add_def latest_def nft_key_def own_pk_def ownership_of_current_def nft_current_def
          current_of_ownership_def)
  next
    case (Some c)
    with none have "a \<in> set (transfer_senders ext ob)" by simp
    moreover have "cto_amount c = 0"
      using latest_SomeD [OF Some] by (auto simp: current_of_ownership_def ownership_of_current_def nft_current_def)
    ultimately show ?thesis using Some by (simp add: m map_add_def)
  qed
qed

text \<open>
  Claim C32: What the transfers of a token leave in the current ownerships: each sender has amount
  0, and the owner has amount 1 unless it is also a sender.  A token that leaves its owner and
  comes back within the transaction is therefore owned by nobody.
\<close>

theorem nft_transfer_amounts:
  assumes "get_nft_v2_from_token_data ext td objects = Inr (rows, currents)"
    and "objects (tdd_token_data_id td) = Some ob"
  shows "map_option cto_amount (map_of currents (nft_key td a)) =
    (if a \<in> set (transfer_senders ext ob) then Some 0
     else if a = get_owner_address ext (om_object_core (tob_object ob)) then Some 1 else None)"
  by (rule nft_amounts [OF assms])

text \<open>The consequence for a round trip, of which the sample below is a case.\<close>

lemma round_trip_has_no_owner:
  assumes "get_nft_v2_from_token_data ext td objects = Inr (rows, currents)" and "objects (tdd_token_data_id td) = Some ob"
    and "get_owner_address ext (om_object_core (tob_object ob)) \<in> set (transfer_senders ext ob)"
  shows "\<forall>c \<in> set (map snd currents). cto_amount c = 0"
proof
  fix c assume "c \<in> set (map snd currents)"
  moreover have "holds_latest own_pk current_of_ownership rows currents" by (rule nft_rows_agree(1) [OF assms(1)])
  ultimately have l: "latest own_pk current_of_ownership rows (cto_pk c) = Some c"
    using holds_latest_values(2) [of own_pk current_of_ownership rows currents cto_pk] by simp
  have "cto_pk c = nft_key td (cto_owner_address c)"
    using latest_SomeD [OF l] assms(1,2)
    by (auto simp: get_nft_v2_from_token_data_def nft_ownership_rows_def Let_def cto_pk_def nft_key_def nft_current_def)
  moreover have "map_of currents (cto_pk c) = Some c"
    using l nft_rows_agree(1) [OF assms(1)] by (simp add: holds_latest_def)
  ultimately have "map_option cto_amount (map_of currents (nft_key td (cto_owner_address c))) = Some (cto_amount c)" by simp
  then show "cto_amount c = 0"
    unfolding nft_amounts [OF assms(1,2)] using assms(3) by (auto split: if_splits)
qed

section \<open>Burned tokens\<close>

text \<open>
  The row of a burned token whose object remains says it is soulbound whenever the batch knows the
  object, transferable or not: the code asks whether the object has an entry, not whether the entry
  has the marker.
\<close>

lemma burned_nft_always_soulbound:
  assumes "burned_nft_from_write_resource ext db wr version index ts prior burned objects = Inr (Some (row, c))"
    and "object_from_write_resource ext wr = Inr (Some (Some ob))"
    and "objects (standardize_address ext (wr_address wr)) = Some agg"
  shows "cto_is_soulbound_v2 c = Some True"
  using assms by (auto simp: burned_nft_from_write_resource_def Let_def read_result_def nft_current_def split: if_splits)

section \<open>Activities\<close>

definition tav_key :: "token_activity_v2 \<Rightarrow> i64 \<times> i64" where
  "tav_key a = (tav_transaction_version a, tav_event_index a)"

lemma token_event_step_activity:
  assumes "token_event_step ext sdk version ts entry sender n (index, ev) st = Inr st'"
  shows "ttx_activities st' = ttx_activities st \<or>
    (\<exists>a. ttx_activities st' = ttx_activities st @ [a] \<and> tav_key a = (version, of_nat index))"
proof -
  obtain r st1 a1 maps a2 where s: "v2_event_from_event ext sdk (ev_type_str ev) (ev_data ev) = Inr r"
      "track_v2_event ext n index ev r st = Inr st1"
      "activity_v1_from_parsed_event ext sdk ev version ts (of_nat index) entry (ttx_maps st1) = Inr (a1, maps)"
      "activity_v2_from_parsed_event ext sdk ev version ts (of_nat index) entry (ttx_objects st1) sender = Inr a2"
      "ttx_activities st' = ttx_activities st1 @ (case a1 of None \<Rightarrow> [] | Some a \<Rightarrow> [a]) @ (case a2 of None \<Rightarrow> [] | Some a \<Rightarrow> [a])"
    using assms by (auto elim!: and_then_InrE simp: token_event_step_def)
  have same: "ttx_activities st1 = ttx_activities st"
    using s(2) by (auto elim!: and_then_InrE simp: track_v2_event_def Let_def split: option.split_asm v2_token_event.split_asm)
  have 1: "(\<exists>e. token_event_from_event ext (ev_type_str ev) (ev_data ev) = Inr (Some e)) \<and> tav_key a = (version, of_nat index)"
    if "a1 = Some a" for a
    using s(3) that by (auto elim!: and_then_InrE simp: activity_v1_from_parsed_event_def Let_def tav_key_def split: option.split_asm)
  have 2: "(\<exists>e. v2_event_from_event ext sdk (ev_type_str ev) (ev_data ev) = Inr (Some e)) \<and> tav_key a = (version, of_nat index)"
    if "a2 = Some a" for a
    using s(4) that by (auto elim!: and_then_InrE simp: activity_v2_from_parsed_event_def Let_def tav_key_def split: option.split_asm)
  have "a1 = None \<or> a2 = None" using 1 2 token_events_disjoint by (cases a1; cases a2) blast+
  then show ?thesis using s(5) same 1 2 by (cases a1; cases a2) auto
qed

lemma token_event_steps_activities:
  assumes "fold_result (token_event_step ext sdk version ts entry sender n) (enumerate k events) st = Inr st'"
  shows "\<exists>new js. ttx_activities st' = ttx_activities st @ new \<and> distinct js \<and> set js \<subseteq> {k..<k + length events} \<and>
    map tav_key new = map (\<lambda>i. (version, of_nat i)) js"
  using assms
proof (induction events arbitrary: k st)
  case Nil
  then show ?case by (intro exI [of _ "[]"]) simp
next
  case (Cons ev events)
  then obtain st1 where st1: "token_event_step ext sdk version ts entry sender n (k, ev) st = Inr st1"
      "fold_result (token_event_step ext sdk version ts entry sender n) (enumerate (Suc k) events) st1 = Inr st'"
    by (auto split: sum.splits)
  from Cons.IH [OF st1(2)] obtain new js where IH: "ttx_activities st' = ttx_activities st1 @ new" "distinct js"
      "set js \<subseteq> {Suc k..<Suc k + length events}" "map tav_key new = map (\<lambda>i. (version, of_nat i)) js" by blast
  from token_event_step_activity [OF st1(1)] show ?case
  proof (elim disjE exE conjE)
    assume "ttx_activities st1 = ttx_activities st"
    with IH show ?thesis by (intro exI [of _ new] exI [of _ js]) auto
  next
    fix a assume "ttx_activities st1 = ttx_activities st @ [a]" "tav_key a = (version, of_nat k)"
    with IH show ?thesis by (intro exI [of _ "a # new"] exI [of _ "k # js"]) auto
  qed
qed

definition token_events_fit :: "transaction \<Rightarrow> bool" where
  "token_events_fit txn \<longleftrightarrow>
     (case tx_data txn of Some (TxnUser inner) \<Rightarrow> length (ut_events inner) \<le> 2 ^ 64 | _ \<Rightarrow> True)"

lemma push_activities [simp]:
  "tks_activities (push_collection c st) = tks_activities st" "tks_activities (push_token_data d st) = tks_activities st"
  "tks_activities (push_deleted_token_data e st) = tks_activities st" "tks_activities (push_royalty roy st) = tks_activities st"
  "tks_activities (push_claim cl st) = tks_activities st" "tks_activities (push_metadata m st) = tks_activities st"
  "tks_activities (push_written_ownership w st) = tks_activities st"
  "tks_activities (push_deleted_ownership w st) = tks_activities st"
  by (simp_all add: push_collection_def push_token_data_def push_royalty_def push_claim_def push_metadata_def
      push_written_ownership_def push_deleted_ownership_def push_deleted_token_data_def remember_owner_def Let_def
      split: option.split prod.split)

lemma push_nft_activities: "push_nft_ownerships r st = Inr st' \<Longrightarrow> tks_activities st' = tks_activities st"
  by (auto elim!: and_then_InrE simp: push_nft_ownerships_def split: prod.split_asm list.split_asm)

lemma token_nft_data_activities: "token_nft_data ext r st = Inr st' \<Longrightarrow> tks_activities st' = tks_activities st"
  by (auto elim!: and_then_InrE simp: token_nft_data_def dest: push_nft_activities split: option.split_asm)

lemma token_change_activities:
  assumes "token_change ext sdk db version ts owners ctx iwsc st = Inr st'"
  shows "tks_activities st' = tks_activities st"
proof -
  have "tks_activities st' = tks_activities st" if "token_write_resource ext sdk db version ts ctx index wr st = Inr st'" for index wr
    using that by (auto elim!: and_then_InrE simp: token_write_resource_def dest: token_nft_data_activities)
  moreover have "tks_activities st' = tks_activities st"
    if "token_write_table_item ext sdk db version ts owners ctx index item st = Inr st'" for index item
    using that by (auto elim!: and_then_InrE simp: token_write_table_item_def)
  moreover have "tks_activities st' = tks_activities st"
    if "token_delete_table_item ext sdk version ts owners ctx index item st = Inr st'" for index item
    using that by (auto elim!: and_then_InrE simp: token_delete_table_item_def)
  ultimately show ?thesis
    using assms by (auto elim!: and_then_InrE simp: token_change_def Let_def token_delete_resource_def split: change.split_asm)
qed

lemma parse_token_txn_activities:
  assumes "parse_token_txn ext sdk db owners txn st = Inr st'" and "token_events_fit txn"
  shows "\<exists>new. tks_activities st' = tks_activities st @ new \<and> distinct (map tav_key new) \<and>
    fst ` set (map tav_key new) \<subseteq> {tx_version txn}"
proof (cases "st' = st")
  case False
  then obtain ts inner req objects ctx iwscs where t: "tx_data txn = Some (TxnUser inner)"
      "token_events ext sdk (tx_version txn) ts req (ut_events inner) objects = Inr ctx"
      "fold_result (token_change ext sdk db (tx_version txn) ts owners ctx) iwscs
         (st\<lparr>tks_objects := ttx_objects ctx, tks_activities := tks_activities st @ ttx_activities ctx\<rparr>) = Inr st'"
    using assms(1) by (auto elim!: and_then_InrE simp: parse_token_txn_def parse_token_user_def split: option.split_asm txn_data.split_asm)
  have "tks_activities st' = tks_activities st @ ttx_activities ctx"
    by (rule fold_result_inv [where P = "\<lambda>s. tks_activities s = tks_activities st @ ttx_activities ctx", OF _ t(3)])
      (auto dest: token_change_activities)
  moreover obtain js where js: "distinct js" "set js \<subseteq> {0..<length (ut_events inner)}"
      "map tav_key (ttx_activities ctx) = map (\<lambda>i. (tx_version txn, of_nat i)) js"
    using token_event_steps_activities [of ext sdk "tx_version txn" ts _ _ _ 0] t(2) by (fastforce simp: token_events_def)
  have "i < 2 ^ 64" if "i \<in> set js" for i
    using js(2) that assms(2) by (fastforce simp: token_events_fit_def t(1))
  then have "inj_on (\<lambda>i. (tx_version txn, of_nat i :: i64)) (set js)"
    by (intro inj_onI) (auto dest!: of_nat_i64_inj [rotated 2])
  then have "distinct (map tav_key (ttx_activities ctx))" unfolding js(3) using js(1) by (simp add: distinct_map)
  moreover have "fst ` set (map tav_key (ttx_activities ctx)) \<subseteq> {tx_version txn}" unfolding js(3) by auto
  ultimately show ?thesis by blast
qed (use exI [of _ "[]"] in auto)

lemma disjoint_rest: "B \<subseteq> A \<union> {v} \<Longrightarrow> v \<notin> T \<Longrightarrow> A \<inter> insert v T = {} \<Longrightarrow> B \<inter> T = {}"
  by blast

lemma disjoint_new: "B \<subseteq> {v} \<Longrightarrow> A \<inter> insert v T = {} \<Longrightarrow> A \<inter> B = {}"
  by blast

lemma token_activity_keys_from:
  assumes "fold_result (parse_token_txn ext sdk db owners) txns st = Inr st'" and "distinct (map tx_version txns)"
    and "\<forall>txn \<in> set txns. token_events_fit txn" and "distinct (map tav_key (tks_activities st))"
    and "fst ` set (map tav_key (tks_activities st)) \<inter> tx_version ` set txns = {}"
  shows "distinct (map tav_key (tks_activities st'))"
  using assms
proof (induction txns arbitrary: st)
  case (Cons txn txns)
  obtain st1 where st1: "parse_token_txn ext sdk db owners txn st = Inr st1"
      "fold_result (parse_token_txn ext sdk db owners) txns st1 = Inr st'"
    using Cons.prems(1) by (auto split: sum.splits)
  obtain new where new: "tks_activities st1 = tks_activities st @ new" "distinct (map tav_key new)"
      "fst ` set (map tav_key new) \<subseteq> {tx_version txn}"
    using parse_token_txn_activities [OF st1(1)] Cons.prems(3) by auto
  have disj: "fst ` set (map tav_key (tks_activities st)) \<inter> fst ` set (map tav_key new) = {}"
    using disjoint_new [OF new(3)] Cons.prems(5) by (simp only: list.set image_insert)
  then have "distinct (map tav_key (tks_activities st1))"
    using Cons.prems(4) new(2) unfolding new(1) map_append distinct_append by (metis disjoint_iff image_eqI)
  moreover have "fst ` set (map tav_key (tks_activities st1)) \<inter> tx_version ` set txns = {}"
  proof -
    have "fst ` set (map tav_key (tks_activities st1)) \<subseteq> fst ` set (map tav_key (tks_activities st)) \<union> {tx_version txn}"
      unfolding new(1) map_append set_append image_Un using new(3) by (rule Un_mono [OF subset_refl])
    moreover have "tx_version txn \<notin> tx_version ` set txns" using Cons.prems(2) by simp
    moreover have "fst ` set (map tav_key (tks_activities st)) \<inter> insert (tx_version txn) (tx_version ` set txns) = {}"
      using Cons.prems(5) by (simp only: list.set image_insert)
    ultimately show ?thesis by (rule disjoint_rest)
  qed
  ultimately show ?case using Cons.IH [OF st1(2)] Cons.prems(2,3) by simp
qed simp

lemma token_activity_keys:
  assumes "parse_v2_token ext sdk db owners txns = Inr rows" and "distinct (map tx_version txns)"
    and "\<forall>txn \<in> set txns. token_events_fit txn"
  shows "distinct (map tav_key (trw_activities rows))"
  using assms(1)
proof (rule parse_v2_token_cases)
  fix st assume "fold_result (parse_token_txn ext sdk db owners) txns empty_token_state = Inr st"
    "trw_activities rows = tks_activities st"
  then show ?thesis using token_activity_keys_from [OF _ assms(2,3)] by (simp add: empty_token_state_def)
qed

section \<open>A sample batch\<close>

text \<open>
  Version 5 deposits a token of version 1 of the standard with account \<open>0xa\<close>; version 6 withdraws
  it and burns the token object \<open>0x7\<close>.
\<close>

definition sample_token_id :: json where
  "sample_token_id = JObject [(''token_data_id'', JObject [(''creator'', JString ''0xc''), (''collection'', JString ''k''),
     (''name'', JString ''n'')]), (''property_version'', JString ''0'')]"

definition sample_token_world :: extern where
  "sample_token_world = sample_world\<lparr>standardize_address := (\<lambda>a. a), json_from_str := map_of
     [(''tid'', sample_token_id),
      (''tok'', JObject [(''account'', JString ''0xa''), (''amount'', JString ''1''), (''id'', sample_token_id),
        (''token_properties'', JNull)]),
      (''burn'', JObject [(''collection'', JString ''0xc''), (''index'', JString ''1''), (''token'', JString ''0x7''),
        (''previous_owner'', JString ''0xb'')])]\<rparr>"

definition sample_token_event :: "string \<Rightarrow> string \<Rightarrow> event" where
  "sample_token_event ty data = \<lparr>ev_key = Some \<lparr>ek_creation_number = 0, ek_account_address = ''0x0''\<rparr>,
     ev_sequence_number = 0, ev_type_str = ty, ev_data = data\<rparr>"

definition sample_token_txn :: "u64 \<Rightarrow> event list \<Rightarrow> change list \<Rightarrow> transaction" where
  "sample_token_txn version events changes = (sample_user_txn version changes)
     \<lparr>tx_data := Some (TxnUser \<lparr>ut_events = events, ut_request = Some sample_request\<rparr>)\<rparr>"

definition sample_token_txns :: "transaction list" where
  "sample_token_txns =
     [sample_token_txn 5 [sample_token_event ''0x3::token::TokenDeposit'' ''tok'']
        [WriteTableItem \<lparr>wt_state_key_hash = [1], wt_handle = ''0xh'', wt_key = ''tid'',
           wt_data = Some \<lparr>wtd_key = ''tid'', wtd_key_type = ''0x3::token::TokenId'',
             wtd_value = ''tok'', wtd_value_type = ''0x3::token::Token''\<rparr>\<rparr>],
      sample_token_txn 6 [sample_token_event ''0x3::token::TokenWithdraw'' ''tok'', sample_token_event ''0x4::collection::Burn'' ''burn'']
        [DeleteTableItem \<lparr>dt_state_key_hash = [1], dt_handle = ''0xh'', dt_key = ''tid'',
           dt_data = Some \<lparr>dtd_key = ''tid'', dtd_key_type = ''0x3::token::TokenId''\<rparr>\<rparr>,
         sample_delete ''0x7'']]"

definition sample_token_db :: token_db where
  "sample_token_db = \<lparr>tdb_query_retries = 0, tdb_collections = (\<lambda>v i n. None), tdb_ownerships = (\<lambda>v i n. None)\<rparr>"

definition sample_token_rows :: "token_rows result" where
  "sample_token_rows = parse_v2_token sample_token_world sample_sdk (Some sample_token_db) Map.empty sample_token_txns"

lemma sample_token_runs:
  obtains rows where
    "parse_v2_token sample_token_world sample_sdk (Some sample_token_db) Map.empty sample_token_txns = Inr rows"
    "map own_amount (trw_ownerships rows) = [1, 0, 0]" "map own_is_deletion (trw_ownerships rows) = [False, True, True]"
    "map (\<lambda>c. (cto_owner_address c, cto_last_transaction_version c)) (trw_current_ownerships rows) = [(''0xa'', 5)]"
    "map (\<lambda>c. (cto_owner_address c, cto_last_transaction_version c)) (trw_deleted_ownerships rows) = [(''0xb'', 6), (''0xa'', 6)]"
    "map (\<lambda>c. (ctd_token_data_id c, ctd_last_transaction_version c)) (trw_deleted_token_datas rows) = [(''0x7'', 6)]"
    "trw_current_token_datas rows = []" "map tav_key (trw_activities rows) = [(5, 0), (6, 0), (6, 1)]"
proof -
  have "(case sample_token_rows of
      Inl _ \<Rightarrow> False
    | Inr rows \<Rightarrow>
        map own_amount (trw_ownerships rows) = [1, 0, 0] \<and> map own_is_deletion (trw_ownerships rows) = [False, True, True] \<and>
        map (\<lambda>c. (cto_owner_address c, cto_last_transaction_version c)) (trw_current_ownerships rows) = [(''0xa'', 5)] \<and>
        map (\<lambda>c. (cto_owner_address c, cto_last_transaction_version c)) (trw_deleted_ownerships rows) = [(''0xb'', 6), (''0xa'', 6)] \<and>
        map (\<lambda>c. (ctd_token_data_id c, ctd_last_transaction_version c)) (trw_deleted_token_datas rows) = [(''0x7'', 6)] \<and>
        trw_current_token_datas rows = [] \<and> map tav_key (trw_activities rows) = [(5, 0), (6, 0), (6, 1)])"
    by code_simp
  then show ?thesis by (cases sample_token_rows) (auto simp: sample_token_rows_def intro: that)
qed

theorem token_currents_are_latest_witness:
  "\<exists>rows. parse_v2_token sample_token_world sample_sdk (Some sample_token_db) Map.empty sample_token_txns = Inr rows \<and>
     length (trw_ownerships rows) = 3 \<and> length (trw_deleted_ownerships rows) = 2 \<and>
     list_all (\<lambda>c. cto_amount c = 0) (trw_deleted_ownerships rows)"
proof -
  obtain rows where run: "parse_v2_token sample_token_world sample_sdk (Some sample_token_db) Map.empty sample_token_txns = Inr rows"
    and r: "map own_amount (trw_ownerships rows) = [1, 0, 0]"
      "map (\<lambda>c. (cto_owner_address c, cto_last_transaction_version c)) (trw_deleted_ownerships rows) = [(''0xb'', 6), (''0xa'', 6)]"
    by (rule sample_token_runs)
  have "length (trw_ownerships rows) = 3" "length (trw_deleted_ownerships rows) = 2"
    using arg_cong [OF r(1), of length] arg_cong [OF r(2), of length] by simp_all
  with token_currents_are_latest [OF run] run show ?thesis by blast
qed

text \<open>A token that goes from \<open>0xa\<close> to \<open>0xb\<close> and back.\<close>

definition sample_round_trip :: token_object where
  "sample_round_trip = (new_token_object \<lparr>om_object_core = \<lparr>oc_allow_ungated_transfer = True, oc_guid_creation_num = 7, oc_owner = ''0xa''\<rparr>,
       om_state_key_hash = ''h''\<rparr>)\<lparr>tob_transfer_events :=
     [(1, \<lparr>tre_from = ''0xa'', tre_to = ''0xb'', tre_object = ''0x7''\<rparr>), (2, \<lparr>tre_from = ''0xb'', tre_to = ''0xa'', tre_object = ''0x7''\<rparr>)]\<rparr>"

definition sample_nft_data :: token_data_v2 where
  "sample_nft_data =
     \<lparr>tdd_transaction_version = 5, tdd_write_set_change_index = 0, tdd_token_data_id = ''0x7'', tdd_collection_id = ''0xc'',
      tdd_token_name = ''n'', tdd_maximum = None, tdd_supply = None, tdd_largest_property_version_v1 = None, tdd_token_uri = [],
      tdd_token_properties = JNull, tdd_description = [], tdd_token_standard = ''v2'', tdd_is_fungible_v2 = Some False,
      tdd_transaction_timestamp = 0, tdd_decimals = None, tdd_is_deleted_v2 = None\<rparr>"

theorem nft_transfer_amounts_witness:
  "\<exists>rows currents. get_nft_v2_from_token_data sample_token_world sample_nft_data [''0x7'' \<mapsto> sample_round_trip] = Inr (rows, currents) \<and>
     map_option cto_amount (map_of currents (nft_key sample_nft_data ''0xa'')) = Some 0"
proof -
  obtain rows currents where run:
      "get_nft_v2_from_token_data sample_token_world sample_nft_data [''0x7'' \<mapsto> sample_round_trip] = Inr (rows, currents)"
    by (auto simp: get_nft_v2_from_token_data_def sample_nft_data_def Let_def)
  have "''0xa'' \<in> set (transfer_senders sample_token_world sample_round_trip)" by code_simp
  with nft_transfer_amounts [OF run, of sample_round_trip "''0xa''"] run show ?thesis
    by (auto simp: sample_nft_data_def)
qed

end
