(* ===== verification/TokenStorer.thy ===== *)
theory TokenStorer
  imports TokenCurrents FungibleAssetStorer
begin

text \<open>
  The storer of the token processor (\<open>token_v2_storer.rs\<close>, \<open>token_v2_processor_queries.rs\<close>).  Eight
  insertions run concurrently; two of them write \<open>current_token_datas_v2\<close> and two
  \<open>current_token_ownerships_v2\<close>, one for what was written and one for what was deleted.  In which
  order the database takes the statements of such a pair is a parameter, the schedule.
\<close>

section \<open>Conflict clauses\<close>

definition take_collection :: "current_collection_v2 \<Rightarrow> current_collection_v2 \<Rightarrow> current_collection_v2" where
  "take_collection old n =
     old\<lparr>ccl_creator_address := ccl_creator_address n, ccl_collection_name := ccl_collection_name n,
         ccl_description := ccl_description n, ccl_uri := ccl_uri n, ccl_current_supply := ccl_current_supply n,
         ccl_max_supply := ccl_max_supply n, ccl_total_minted_v2 := ccl_total_minted_v2 n,
         ccl_mutable_description := ccl_mutable_description n, ccl_mutable_uri := ccl_mutable_uri n,
         ccl_table_handle_v1 := ccl_table_handle_v1 n, ccl_token_standard := ccl_token_standard n,
         ccl_last_transaction_version := ccl_last_transaction_version n,
         ccl_collection_properties := ccl_collection_properties n,
         ccl_last_transaction_timestamp := ccl_last_transaction_timestamp n\<rparr>"

definition merge_collection :: "current_collection_v2 \<Rightarrow> current_collection_v2 \<Rightarrow> current_collection_v2" where
  "merge_collection old n =
     (if sint (ccl_last_transaction_version old) \<le> sint (ccl_last_transaction_version n)
      then take_collection old n else old)"

datatype row_kind = Written | Deleted

definition take_token_data :: "current_token_data_v2 \<Rightarrow> current_token_data_v2 \<Rightarrow> current_token_data_v2" where
  "take_token_data old n =
     old\<lparr>ctd_collection_id := ctd_collection_id n, ctd_token_name := ctd_token_name n, ctd_maximum := ctd_maximum n,
         ctd_supply := ctd_supply n, ctd_largest_property_version_v1 := ctd_largest_property_version_v1 n,
         ctd_token_uri := ctd_token_uri n, ctd_description := ctd_description n,
         ctd_token_properties := ctd_token_properties n, ctd_token_standard := ctd_token_standard n,
         ctd_is_fungible_v2 := ctd_is_fungible_v2 n, ctd_last_transaction_version := ctd_last_transaction_version n,
         ctd_last_transaction_timestamp := ctd_last_transaction_timestamp n, ctd_decimals := ctd_decimals n\<rparr>"

definition take_deleted_token_data :: "current_token_data_v2 \<Rightarrow> current_token_data_v2 \<Rightarrow> current_token_data_v2" where
  "take_deleted_token_data old n =
     old\<lparr>ctd_last_transaction_version := ctd_last_transaction_version n,
         ctd_last_transaction_timestamp := ctd_last_transaction_timestamp n, ctd_is_deleted_v2 := ctd_is_deleted_v2 n\<rparr>"

definition merge_token_data :: "row_kind \<Rightarrow> current_token_data_v2 \<Rightarrow> current_token_data_v2 \<Rightarrow> current_token_data_v2" where
  "merge_token_data kind old n =
     (if sint (ctd_last_transaction_version old) \<le> sint (ctd_last_transaction_version n)
      then (case kind of Written \<Rightarrow> take_token_data old n | Deleted \<Rightarrow> take_deleted_token_data old n) else old)"

definition take_ownership ::
  "current_token_ownership_v2 \<Rightarrow> current_token_ownership_v2 \<Rightarrow> current_token_ownership_v2" where
  "take_ownership old n =
     old\<lparr>cto_amount := cto_amount n, cto_table_type_v1 := cto_table_type_v1 n,
         cto_token_properties_mutated_v1 := cto_token_properties_mutated_v1 n, cto_is_soulbound_v2 := cto_is_soulbound_v2 n,
         cto_token_standard := cto_token_standard n, cto_is_fungible_v2 := cto_is_fungible_v2 n,
         cto_last_transaction_version := cto_last_transaction_version n,
         cto_last_transaction_timestamp := cto_last_transaction_timestamp n,
         cto_non_transferrable_by_owner := cto_non_transferrable_by_owner n\<rparr>"

definition take_deleted_ownership ::
  "current_token_ownership_v2 \<Rightarrow> current_token_ownership_v2 \<Rightarrow> current_token_ownership_v2" where
  "take_deleted_ownership old n =
     old\<lparr>cto_amount := cto_amount n, cto_last_transaction_version := cto_last_transaction_version n,
         cto_last_transaction_timestamp := cto_last_transaction_timestamp n, cto_is_fungible_v2 := cto_is_fungible_v2 n\<rparr>"

definition merge_ownership ::
  "row_kind \<Rightarrow> current_token_ownership_v2 \<Rightarrow> current_token_ownership_v2 \<Rightarrow> current_token_ownership_v2" where
  "merge_ownership kind old n =
     (if sint (cto_last_transaction_version old) \<le> sint (cto_last_transaction_version n)
      then (case kind of Written \<Rightarrow> take_ownership old n | Deleted \<Rightarrow> take_deleted_ownership old n) else old)"

definition merge_token_activity :: "token_activity_v2 \<Rightarrow> token_activity_v2 \<Rightarrow> token_activity_v2" where
  "merge_token_activity old n = old\<lparr>tav_is_fungible_v2 := tav_is_fungible_v2 n\<rparr>"

definition take_royalty :: "current_token_royalty_v1 \<Rightarrow> current_token_royalty_v1 \<Rightarrow> current_token_royalty_v1" where
  "take_royalty old n =
     old\<lparr>ctr_payee_address := ctr_payee_address n, ctr_royalty_points_numerator := ctr_royalty_points_numerator n,
         ctr_royalty_points_denominator := ctr_royalty_points_denominator n,
         ctr_last_transaction_version := ctr_last_transaction_version n,
         ctr_last_transaction_timestamp := ctr_last_transaction_timestamp n\<rparr>"

definition merge_royalty :: "current_token_royalty_v1 \<Rightarrow> current_token_royalty_v1 \<Rightarrow> current_token_royalty_v1" where
  "merge_royalty old n =
     (if sint (ctr_last_transaction_version old) \<le> sint (ctr_last_transaction_version n) then take_royalty old n else old)"

definition take_claim :: "current_token_pending_claim \<Rightarrow> current_token_pending_claim \<Rightarrow> current_token_pending_claim" where
  "take_claim old n =
     old\<lparr>cpc_collection_data_id_hash := cpc_collection_data_id_hash n, cpc_creator_address := cpc_creator_address n,
         cpc_collection_name := cpc_collection_name n, cpc_name := cpc_name n, cpc_amount := cpc_amount n,
         cpc_table_handle := cpc_table_handle n, cpc_last_transaction_version := cpc_last_transaction_version n,
         cpc_token_data_id := cpc_token_data_id n, cpc_collection_id := cpc_collection_id n\<rparr>"

definition merge_claim :: "current_token_pending_claim \<Rightarrow> current_token_pending_claim \<Rightarrow> current_token_pending_claim" where
  "merge_claim old n =
     (if sint (cpc_last_transaction_version old) \<le> sint (cpc_last_transaction_version n) then take_claim old n else old)"

section \<open>The storer\<close>

record token_tables =
  tbl_collections :: "current_collection_v2 list"
  tbl_token_datas :: "current_token_data_v2 list"
  tbl_ownerships :: "current_token_ownership_v2 list"
  tbl_activities :: "token_activity_v2 list"
  tbl_royalties :: "current_token_royalty_v1 list"
  tbl_claims :: "current_token_pending_claim list"

record token_chunks =
  tck_collections :: "current_collection_v2 list \<Rightarrow> current_collection_v2 list list"
  tck_token_datas :: "current_token_data_v2 list \<Rightarrow> current_token_data_v2 list list"
  tck_ownerships :: "current_token_ownership_v2 list \<Rightarrow> current_token_ownership_v2 list list"
  tck_activities :: "token_activity_v2 list \<Rightarrow> token_activity_v2 list list"
  tck_royalties :: "current_token_royalty_v1 list \<Rightarrow> current_token_royalty_v1 list list"
  tck_claims :: "current_token_pending_claim list \<Rightarrow> current_token_pending_claim list list"

record token_schedule =
  tsc_token_datas :: "bool list"
  tsc_ownerships :: "bool list"

definition paired_statements :: "('r list \<Rightarrow> 'r list list) \<Rightarrow> bool list \<Rightarrow> 'r list \<Rightarrow> 'r list \<Rightarrow> (row_kind \<times> 'r list) list" where
  "paired_statements chunk sched written deleted =
     interleave sched (map (Pair Written) (chunk written)) (map (Pair Deleted) (chunk deleted))"

definition kept_token_datas :: "u128 \<Rightarrow> current_token_data_v2 list \<Rightarrow> current_token_data_v2 list" where
  "kept_token_datas flags = filter_data flags (table_flag ''CURRENT_TOKEN_DATAS_V2'')"

definition kept_ownerships :: "u128 \<Rightarrow> current_token_ownership_v2 list \<Rightarrow> current_token_ownership_v2 list" where
  "kept_ownerships flags = filter_data flags (table_flag ''CURRENT_TOKEN_OWNERSHIPS_V2'')"

definition token_store ::
  "token_chunks \<Rightarrow> token_schedule \<Rightarrow> u128 \<Rightarrow> token_batch \<Rightarrow> token_tables \<Rightarrow> token_tables \<times> error option" where
  "token_store ck sched flags data db =
     (let (collections, r1) = run_chunks (insert_do_update ccl_collection_id merge_collection)
            (tck_collections ck (filter_data flags (table_flag ''CURRENT_COLLECTIONS_V2'') (tkb_collections data)))
            (tbl_collections db);
          (token_datas, r2) = run_chunks (\<lambda>(kind, c). insert_do_update ctd_token_data_id (merge_token_data kind) c)
            (paired_statements (tck_token_datas ck) (tsc_token_datas sched) (kept_token_datas flags (tkb_token_datas data))
              (kept_token_datas flags (tkb_deleted_token_datas data))) (tbl_token_datas db);
          (ownerships, r3) = run_chunks (\<lambda>(kind, c). insert_do_update cto_pk (merge_ownership kind) c)
            (paired_statements (tck_ownerships ck) (tsc_ownerships sched) (kept_ownerships flags (tkb_ownerships data))
              (kept_ownerships flags (tkb_deleted_ownerships data))) (tbl_ownerships db);
          (activities, r4) = run_chunks (insert_do_update tav_key merge_token_activity)
            (tck_activities ck (filter_data flags (table_flag ''TOKEN_ACTIVITIES_V2'') (tkb_activities data)))
            (tbl_activities db);
          (royalties, r5) = run_chunks (insert_do_update ctr_token_data_id merge_royalty)
            (tck_royalties ck (filter_data flags (table_flag ''CURRENT_TOKEN_ROYALTY_V1'') (tkb_royalties data)))
            (tbl_royalties db);
          (claims, r6) = run_chunks (insert_do_update cpc_pk merge_claim)
            (tck_claims ck (filter_data flags (table_flag ''CURRENT_TOKEN_PENDING_CLAIMS'') (tkb_claims data)))
            (tbl_claims db)
      in (\<lparr>tbl_collections = collections, tbl_token_datas = token_datas, tbl_ownerships = ownerships,
           tbl_activities = activities, tbl_royalties = royalties, tbl_claims = claims\<rparr>,
          find_map id [r1, r2, r3, r4, r5, r6]))"

text \<open>The model reports one error for the two insertions of a pair.\<close>

interpretation token_collection_table:
  versioned_table ccl_collection_id "\<lambda>c. sint (ccl_last_transaction_version c)" take_collection merge_collection
  by unfold_locales (simp_all add: merge_collection_def take_collection_def)

interpretation token_royalty_table:
  versioned_table ctr_token_data_id "\<lambda>c. sint (ctr_last_transaction_version c)" take_royalty merge_royalty
  by unfold_locales (simp_all add: merge_royalty_def take_royalty_def)

interpretation token_claim_table:
  versioned_table cpc_pk "\<lambda>c. sint (cpc_last_transaction_version c)" take_claim merge_claim
  by unfold_locales (simp_all add: merge_claim_def take_claim_def cpc_pk_def)

interpretation token_activity_table: idempotent_upsert tav_key merge_token_activity
  by unfold_locales (simp_all add: merge_token_activity_def tav_key_def)

section \<open>Columns both statements write\<close>

text \<open>
  Both statements on ownerships write the amount and guard it with the version; both on token
  datas write the version, and the deletion flag is written by deletions alone.
\<close>

type_synonym own_column_values = "(i64 \<times> datetime \<times> decimal \<times> bool option) option"

definition own_columns :: "current_token_ownership_v2 \<Rightarrow> own_column_values" where
  "own_columns c = Some (cto_last_transaction_version c, cto_last_transaction_timestamp c, cto_amount c, cto_is_fungible_v2 c)"

definition own_newer :: "current_token_ownership_v2 \<Rightarrow> own_column_values \<Rightarrow> own_column_values" where
  "own_newer n old =
     (case old of
        None \<Rightarrow> own_columns n
      | Some (v, _) \<Rightarrow> if sint v \<le> sint (cto_last_transaction_version n) then own_columns n else old)"

interpretation ownership_group:
  column_group cto_pk merge_ownership "\<lambda>s n. True" "\<lambda>s. True" own_columns None own_newer
  by unfold_locales (auto simp: merge_ownership_def take_ownership_def take_deleted_ownership_def own_columns_def own_newer_def
      cto_pk_def split: row_kind.splits)

type_synonym burn_column_values = "(i64 \<times> bool option) option"

definition burn_columns :: "current_token_data_v2 \<Rightarrow> burn_column_values" where
  "burn_columns c = Some (ctd_last_transaction_version c, ctd_is_deleted_v2 c)"

definition burn_newer :: "current_token_data_v2 \<Rightarrow> burn_column_values \<Rightarrow> burn_column_values" where
  "burn_newer n old =
     (case old of
        None \<Rightarrow> burn_columns n
      | Some (v, deleted) \<Rightarrow>
          if sint v \<le> sint (ctd_last_transaction_version n)
          then Some (ctd_last_transaction_version n, if ctd_is_deleted_v2 n = Some True then Some True else deleted) else old)"

definition burn_row :: "row_kind \<Rightarrow> current_token_data_v2 \<Rightarrow> bool" where
  "burn_row kind n \<longleftrightarrow> (kind = Deleted) = (ctd_is_deleted_v2 n = Some True)"

interpretation burn_group:
  column_group ctd_token_data_id merge_token_data burn_row "\<lambda>s. True" burn_columns None burn_newer
  by unfold_locales (auto simp: merge_token_data_def take_token_data_def take_deleted_token_data_def burn_columns_def burn_newer_def
      burn_row_def split: row_kind.splits)

section \<open>Interleaved statements\<close>

lemma rows_in_shuffles:
  "map snd (filter (\<lambda>(s, n). P n) sns) \<in> shuffles (rows_of_kind Written P sns) (rows_of_kind Deleted P sns)"
proof (induction sns)
  case (Cons sn sns)
  obtain s n where sn: "sn = (s, n)" by (cases sn)
  with Cons show ?case
    by (cases s) (auto simp: rows_of_kind_def intro: Cons_in_shuffles_leftI Cons_in_shuffles_rightI)
qed (simp add: rows_of_kind_def)

lemma paired_rows:
  assumes "\<And>xs. concat (chunk xs) = xs"
  shows "map snd (filter (\<lambda>(s, n). P n) (statement_rows (paired_statements chunk sched written deleted))) \<in>
    shuffles (filter P written) (filter P deleted)"
  using rows_in_shuffles [of P "statement_rows (paired_statements chunk sched written deleted)"]
    rows_of_kind_interleave [of Written Deleted P sched "chunk written" "chunk deleted"]
  by (simp add: paired_statements_def assms)

lemma paired_rows_kind:
  assumes "\<And>xs. concat (chunk xs) = xs"
  shows "set (statement_rows (paired_statements chunk sched written deleted)) = Pair Written ` set written \<union> Pair Deleted ` set deleted"
proof -
  have "set written = (\<Union>c \<in> set (chunk written). set c)" "set deleted = (\<Union>c \<in> set (chunk deleted). set c)"
    by (metis assms set_concat)+
  then show ?thesis by (auto simp: statement_rows_def paired_statements_def set_interleave)
qed

lemma filter_key_distinct: "distinct (map key xs) \<Longrightarrow> x \<in> set xs \<Longrightarrow> filter (\<lambda>y. key y = key x) xs = [x]"
proof (induction xs)
  case (Cons y xs)
  then show ?case by (cases "y = x") (auto simp: filter_empty_conv image_iff)
qed simp

lemma filter_key_cases:
  assumes "distinct (map key xs)"
  obtains "filter (\<lambda>y. key y = k) xs = []" | x where "x \<in> set xs" "key x = k" "filter (\<lambda>y. key y = k) xs = [x]"
proof (cases "\<exists>x \<in> set xs. key x = k")
  case True
  then obtain x where "x \<in> set xs" "key x = k" by blast
  with filter_key_distinct [OF assms, of x] that(2) show ?thesis by auto
next
  case False
  with that(1) show ?thesis by (auto simp: filter_empty_conv)
qed

lemma paired_statements_distinct:
  assumes "\<And>xs. concat (chunk xs) = xs" and "distinct (map key written)" and "distinct (map key deleted)"
  shows "\<forall>(s, c) \<in> set (paired_statements chunk sched written deleted). distinct (map key c)"
  using assms distinct_chunk [of key "chunk written"] distinct_chunk [of key "chunk deleted"]
  by (auto simp: paired_statements_def set_interleave)

section \<open>Storing a batch\<close>

definition token_chunks_ok :: "token_chunks \<Rightarrow> bool" where
  "token_chunks_ok ck \<longleftrightarrow>
     (\<forall>xs. concat (tck_collections ck xs) = xs) \<and> (\<forall>xs. concat (tck_token_datas ck xs) = xs) \<and>
     (\<forall>xs. concat (tck_ownerships ck xs) = xs) \<and> (\<forall>xs. concat (tck_activities ck xs) = xs) \<and>
     (\<forall>xs. concat (tck_royalties ck xs) = xs) \<and> (\<forall>xs. concat (tck_claims ck xs) = xs)"

definition token_keys_distinct :: "token_batch \<Rightarrow> bool" where
  "token_keys_distinct b \<longleftrightarrow>
     distinct (map ccl_collection_id (tkb_collections b)) \<and> distinct (map ctd_token_data_id (tkb_token_datas b)) \<and>
     distinct (map ctd_token_data_id (tkb_deleted_token_datas b)) \<and> distinct (map cto_pk (tkb_ownerships b)) \<and>
     distinct (map cto_pk (tkb_deleted_ownerships b)) \<and> distinct (map tav_key (tkb_activities b)) \<and>
     distinct (map ctr_token_data_id (tkb_royalties b)) \<and> distinct (map cpc_pk (tkb_claims b))"

lemma token_extract_cases:
  assumes "token_extract ext sdk conn txns = Inr data"
  obtains db owners rows where "parse_v2_token ext sdk (Some db) owners txns = Inr rows"
    "data = \<lparr>tkb_collections = trw_current_collections rows, tkb_token_datas = trw_current_token_datas rows,
       tkb_deleted_token_datas = trw_deleted_token_datas rows, tkb_ownerships = trw_current_ownerships rows,
       tkb_deleted_ownerships = trw_deleted_ownerships rows, tkb_activities = trw_activities rows,
       tkb_royalties = trw_royalties rows, tkb_claims = trw_claims rows\<rparr>"
  using assms by (auto elim!: and_then_InrE simp: token_extract_def split: option.split_asm intro: that)

lemma token_extract_keys:
  assumes "token_extract ext sdk conn txns = Inr data" and "distinct (map tx_version txns)"
    and "\<forall>txn \<in> set txns. token_events_fit txn"
  shows "token_keys_distinct data"
  using assms(1)
proof (rule token_extract_cases)
  fix db owners rows
  assume p: "parse_v2_token ext sdk (Some db) owners txns = Inr rows"
    "data = \<lparr>tkb_collections = trw_current_collections rows, tkb_token_datas = trw_current_token_datas rows,
       tkb_deleted_token_datas = trw_deleted_token_datas rows, tkb_ownerships = trw_current_ownerships rows,
       tkb_deleted_ownerships = trw_deleted_ownerships rows, tkb_activities = trw_activities rows,
       tkb_royalties = trw_royalties rows, tkb_claims = trw_claims rows\<rparr>"
  show ?thesis
    using token_rows_distinct [OF p(1)] token_activity_keys [OF p(1) assms(2,3)] by (simp add: token_keys_distinct_def p(2))
qed

lemma current_never_burned: "ctd_is_deleted_v2 (current_of_token_data d) \<noteq> Some True"
  by (simp add: current_of_token_data_def)

lemma token_extract_kinds:
  assumes "token_extract ext sdk conn txns = Inr data"
  shows "\<forall>d \<in> set (tkb_deleted_token_datas data). ctd_is_deleted_v2 d = Some True"
    and "\<forall>d \<in> set (tkb_token_datas data). ctd_is_deleted_v2 d \<noteq> Some True"
proof -
  obtain db owners rows where p: "parse_v2_token ext sdk (Some db) owners txns = Inr rows"
      "tkb_token_datas data = trw_current_token_datas rows" "tkb_deleted_token_datas data = trw_deleted_token_datas rows"
    using assms by (rule token_extract_cases) simp
  obtain st where st: "token_ok st" "trw_deleted_token_datas rows = sort_key ctd_token_data_id (map snd (tks_deleted_token_datas st))"
    using p(1) by (rule parse_v2_token_cases)
  then show "\<forall>d \<in> set (tkb_deleted_token_datas data). ctd_is_deleted_v2 d = Some True"
    by (auto simp: p(3) token_ok_def)
  show "\<forall>d \<in> set (tkb_token_datas data). ctd_is_deleted_v2 d \<noteq> Some True"
  proof
    fix d assume "d \<in> set (tkb_token_datas data)"
    then have l: "latest tdd_token_data_id current_of_token_data (trw_token_datas rows) (ctd_token_data_id d) = Some d"
      using token_currents(2) [OF p(1)] by (simp add: p(2))
    from latest_SomeD [OF l] show "ctd_is_deleted_v2 d \<noteq> Some True" using current_never_burned by metis
  qed
qed

lemma kept_distinct:
  "distinct (map f xs) \<Longrightarrow> distinct (map f (kept_token_datas flags xs))"
  "distinct (map g ys) \<Longrightarrow> distinct (map g (kept_ownerships flags ys))"
  by (simp_all add: kept_token_datas_def kept_ownerships_def filter_data_distinct)

lemma token_store_result:
  assumes "token_chunks_ok ck" and "token_keys_distinct data"
  shows "snd (token_store ck sched flags data db) = None"
    and "tbl_token_datas (fst (token_store ck sched flags data db)) =
      fold (\<lambda>(s, n). upsert ctd_token_data_id (merge_token_data s) n)
        (statement_rows (paired_statements (tck_token_datas ck) (tsc_token_datas sched)
          (kept_token_datas flags (tkb_token_datas data)) (kept_token_datas flags (tkb_deleted_token_datas data))))
        (tbl_token_datas db)"
    and "tbl_ownerships (fst (token_store ck sched flags data db)) =
      fold (\<lambda>(s, n). upsert cto_pk (merge_ownership s) n)
        (statement_rows (paired_statements (tck_ownerships ck) (tsc_ownerships sched)
          (kept_ownerships flags (tkb_ownerships data)) (kept_ownerships flags (tkb_deleted_ownerships data))))
        (tbl_ownerships db)"
proof -
  have c: "\<And>xs. concat (tck_token_datas ck xs) = xs" "\<And>xs. concat (tck_ownerships ck xs) = xs"
    using assms(1) by (simp_all add: token_chunks_ok_def)
  have d: "distinct (map ctd_token_data_id (tkb_token_datas data))" "distinct (map ctd_token_data_id (tkb_deleted_token_datas data))"
      "distinct (map cto_pk (tkb_ownerships data))" "distinct (map cto_pk (tkb_deleted_ownerships data))"
    using assms(2) by (simp_all add: token_keys_distinct_def)
  note datas = burn_group.run_statements
    [OF paired_statements_distinct [OF c(1) kept_distinct(1) [OF d(1)] kept_distinct(1) [OF d(2)]]]
  note owns = ownership_group.run_statements
    [OF paired_statements_distinct [OF c(2) kept_distinct(2) [OF d(3)] kept_distinct(2) [OF d(4)]]]
  note single = token_collection_table.run_chunks_distinct token_activity_table.run_chunks_distinct
    token_royalty_table.run_chunks_distinct token_claim_table.run_chunks_distinct
  have k: "distinct (map ccl_collection_id (tkb_collections data))" "distinct (map tav_key (tkb_activities data))"
      "distinct (map ctr_token_data_id (tkb_royalties data))" "distinct (map cpc_pk (tkb_claims data))"
    using assms(2) by (simp_all add: token_keys_distinct_def)
  show "snd (token_store ck sched flags data db) = None"
    using assms(1) k by (simp add: token_store_def datas owns single filter_data_distinct token_chunks_ok_def)
  show "tbl_token_datas (fst (token_store ck sched flags data db)) =
      fold (\<lambda>(s, n). upsert ctd_token_data_id (merge_token_data s) n)
        (statement_rows (paired_statements (tck_token_datas ck) (tsc_token_datas sched)
          (kept_token_datas flags (tkb_token_datas data)) (kept_token_datas flags (tkb_deleted_token_datas data))))
        (tbl_token_datas db)"
    by (simp add: token_store_def datas split: prod.split)
  show "tbl_ownerships (fst (token_store ck sched flags data db)) =
      fold (\<lambda>(s, n). upsert cto_pk (merge_ownership s) n)
        (statement_rows (paired_statements (tck_ownerships ck) (tsc_ownerships sched)
          (kept_ownerships flags (tkb_ownerships data)) (kept_ownerships flags (tkb_deleted_ownerships data))))
        (tbl_ownerships db)"
    by (simp add: token_store_def owns split: prod.split)
qed


lemma stored_burn_columns:
  assumes "token_chunks_ok ck" and "token_keys_distinct data"
    and "\<forall>d \<in> set (tkb_deleted_token_datas data). ctd_is_deleted_v2 d = Some True"
    and "\<forall>d \<in> set (tkb_token_datas data). ctd_is_deleted_v2 d \<noteq> Some True"
  obtains rows where
    "rows \<in> shuffles (filter (\<lambda>n. ctd_token_data_id n = k) (kept_token_datas flags (tkb_token_datas data)))
       (filter (\<lambda>n. ctd_token_data_id n = k) (kept_token_datas flags (tkb_deleted_token_datas data)))"
    "columns_at ctd_token_data_id burn_columns None k (tbl_token_datas (fst (token_store ck sched flags data db))) =
       fold burn_newer rows (columns_at ctd_token_data_id burn_columns None k (tbl_token_datas db))"
proof -
  have c: "\<And>xs. concat (tck_token_datas ck xs) = xs" using assms(1) by (simp add: token_chunks_ok_def)
  let ?stmts = "paired_statements (tck_token_datas ck) (tsc_token_datas sched)
    (kept_token_datas flags (tkb_token_datas data)) (kept_token_datas flags (tkb_deleted_token_datas data))"
  have "\<forall>(s, n) \<in> set (statement_rows ?stmts). burn_row s n"
    using assms(3,4) unfolding paired_rows_kind [OF c]
    by (auto simp: burn_row_def kept_token_datas_def filter_data_def split: if_splits)
  then show ?thesis
    by (intro that [OF paired_rows [OF c, where P = "\<lambda>n. ctd_token_data_id n = k" and sched = "tsc_token_datas sched"]])
      (simp add: token_store_result(2) [OF assms(1,2)] burn_group.cols_fold)
qed

lemma sint_i64_eq: "sint v = sint w \<longleftrightarrow> v = (w :: i64)"
  using word_eq_iff_signed [of v w, where ?'a = int] by simp



section \<open>Burned tokens\<close>

lemma burn_wins:
  assumes "rows \<in> shuffles ws [d]" and "ws = [] \<or> (\<exists>w. ws = [w] \<and>
      sint (ctd_last_transaction_version w) \<le> sint (ctd_last_transaction_version d))"
    and "ctd_is_deleted_v2 d = Some True"
    and "\<forall>v b. cols = Some (v, b) \<longrightarrow> sint v \<le> sint (ctd_last_transaction_version d)"
  shows "fold burn_newer rows cols = Some (ctd_last_transaction_version d, Some True)"
  using assms
  by (auto simp: burn_newer_def burn_columns_def sint_i64_eq split: option.splits if_splits)

text \<open>
  Claim C33: A burned token ends up marked as deleted, with the version of its burn, under every
  schedule, if no later write of the token is in the batch or stored already.
\<close>

theorem burned_tokens_marked:
  assumes "token_extract ext sdk conn txns = Inr data" and "distinct (map tx_version txns)"
    and "\<forall>txn \<in> set txns. token_events_fit txn" and "token_chunks_ok ck"
    and "d \<in> set (kept_token_datas flags (tkb_deleted_token_datas data))"
    and "\<forall>w \<in> set (tkb_token_datas data). ctd_token_data_id w = ctd_token_data_id d \<longrightarrow>
      sint (ctd_last_transaction_version w) \<le> sint (ctd_last_transaction_version d)"
    and "\<forall>r. find_row ctd_token_data_id (ctd_token_data_id d) (tbl_token_datas db) = Some r \<longrightarrow>
      sint (ctd_last_transaction_version r) \<le> sint (ctd_last_transaction_version d)"
  shows "\<exists>r. find_row ctd_token_data_id (ctd_token_data_id d) (tbl_token_datas (fst (token_store ck sched flags data db))) = Some r \<and>
    ctd_is_deleted_v2 r = Some True \<and> ctd_last_transaction_version r = ctd_last_transaction_version d"
proof -
  note keys = token_extract_keys [OF assms(1-3)] and kinds = token_extract_kinds [OF assms(1)]
  let ?k = "ctd_token_data_id d"
  let ?w = "kept_token_datas flags (tkb_token_datas data)" and ?d = "kept_token_datas flags (tkb_deleted_token_datas data)"
  have dist: "distinct (map ctd_token_data_id ?w)" "distinct (map ctd_token_data_id ?d)"
    using keys by (simp_all add: token_keys_distinct_def kept_distinct)
  have sub: "set ?w \<subseteq> set (tkb_token_datas data)" "set ?d \<subseteq> set (tkb_deleted_token_datas data)"
    by (auto simp: kept_token_datas_def filter_data_def split: if_splits)
  obtain rows where r: "rows \<in> shuffles (filter (\<lambda>n. ctd_token_data_id n = ?k) ?w) (filter (\<lambda>n. ctd_token_data_id n = ?k) ?d)"
    "columns_at ctd_token_data_id burn_columns None ?k (tbl_token_datas (fst (token_store ck sched flags data db))) =
       fold burn_newer rows (columns_at ctd_token_data_id burn_columns None ?k (tbl_token_datas db))"
    using assms(4) keys kinds by (rule stored_burn_columns)
  have one: "filter (\<lambda>n. ctd_token_data_id n = ?k) ?w = [] \<or> (\<exists>w. filter (\<lambda>n. ctd_token_data_id n = ?k) ?w = [w] \<and>
      sint (ctd_last_transaction_version w) \<le> sint (ctd_last_transaction_version d))"
    by (rule filter_key_cases [OF dist(1), of ?k]) (use assms(6) sub in blast)+
  have "fold burn_newer rows (columns_at ctd_token_data_id burn_columns None ?k (tbl_token_datas db)) =
      Some (ctd_last_transaction_version d, Some True)"
    using r(1) one unfolding filter_key_distinct [OF dist(2) assms(5)]
    by (rule burn_wins) (use assms(5,7) kinds(1) sub(2) in \<open>auto simp: columns_at_def burn_columns_def split: option.splits\<close>)
  with r(2) show ?thesis by (auto simp: columns_at_def burn_columns_def split: option.splits)
qed

section \<open>What the schedule decides\<close>

definition sample_token_chunks :: token_chunks where
  "sample_token_chunks =
     \<lparr>tck_collections = (\<lambda>xs. [xs]), tck_token_datas = (\<lambda>xs. [xs]), tck_ownerships = map (\<lambda>x. [x]),
      tck_activities = (\<lambda>xs. [xs]), tck_royalties = (\<lambda>xs. [xs]), tck_claims = (\<lambda>xs. [xs])\<rparr>"

lemma sample_token_chunks_ok: "token_chunks_ok sample_token_chunks"
  by (simp add: token_chunks_ok_def sample_token_chunks_def)

definition empty_token_tables :: token_tables where
  "empty_token_tables =
     \<lparr>tbl_collections = [], tbl_token_datas = [], tbl_ownerships = [], tbl_activities = [], tbl_royalties = [], tbl_claims = []\<rparr>"

definition sample_written_token :: "i64 \<Rightarrow> current_token_data_v2" where
  "sample_written_token version = (current_of_token_data sample_nft_data)\<lparr>ctd_last_transaction_version := version\<rparr>"

definition sample_burned_token :: "i64 \<Rightarrow> current_token_data_v2" where
  "sample_burned_token version = the (burned_token_data sample_token_world ''0x7'' version 0
     [''0x7'' \<mapsto> \<lparr>brn_collection = ''0xc'', brn_index = 1, brn_token = ''0x7'', brn_previous_owner = []\<rparr>])"

definition sample_token_batch :: "i64 \<Rightarrow> i64 \<Rightarrow> token_batch" where
  "sample_token_batch written burned =
     \<lparr>tkb_collections = [], tkb_token_datas = [sample_written_token written],
      tkb_deleted_token_datas = [sample_burned_token burned], tkb_ownerships = [], tkb_deleted_ownerships = [],
      tkb_activities = [], tkb_royalties = [], tkb_claims = []\<rparr>"

definition sample_store :: "bool \<Rightarrow> token_batch \<Rightarrow> token_tables" where
  "sample_store write_first batch =
     fst (token_store sample_token_chunks \<lparr>tsc_token_datas = [write_first], tsc_ownerships = []\<rparr> 0 batch empty_token_tables)"

text \<open>
  A token minted and burned in one batch keeps its name only if its write is taken first; a token
  burned and minted again in one batch is marked as deleted if its burn is taken first.
\<close>

lemmas sample_store_simps = sample_store_def token_store_def paired_statements_def kept_token_datas_def kept_ownerships_def
  filter_data_def flags_is_empty_def sample_token_chunks_def empty_token_tables_def sample_token_batch_def insert_do_update_def
  sample_written_token_def sample_burned_token_def burned_token_data_def current_of_token_data_def sample_nft_data_def
  sample_token_world_def merge_token_data_def take_token_data_def take_deleted_token_data_def Let_def

lemma token_name_depends_on_schedule:
  "map ctd_token_name (tbl_token_datas (sample_store True (sample_token_batch 5 6))) = [''n'']"
  "map ctd_token_name (tbl_token_datas (sample_store False (sample_token_batch 5 6))) = [[]]"
  by (simp_all add: sample_store_simps)

lemma deletion_flag_depends_on_schedule:
  "map ctd_is_deleted_v2 (tbl_token_datas (sample_store True (sample_token_batch 6 5))) = [Some False]"
  "map ctd_is_deleted_v2 (tbl_token_datas (sample_store False (sample_token_batch 6 5))) = [Some True]"
  by (simp_all add: sample_store_simps)

section \<open>The sample batch\<close>

lemma sample_token_fits: "distinct (map tx_version sample_token_txns)" "\<forall>txn \<in> set sample_token_txns. token_events_fit txn"
  by (simp_all add: sample_token_txns_def sample_token_txn_def sample_user_txn_def token_events_fit_def)

lemma sample_token_extracts:
  obtains data where "token_extract sample_token_world sample_sdk (Some sample_token_db) sample_token_txns = Inr data"
    "map cto_last_transaction_version (tkb_ownerships data) = [5]"
    "map cto_last_transaction_version (tkb_deleted_ownerships data) = [6, 6]"
    "map (\<lambda>c. (ctd_token_data_id c, ctd_last_transaction_version c)) (tkb_deleted_token_datas data) = [(''0x7'', 6)]"
    "tkb_token_datas data = []"
proof -
  obtain rows where run: "parse_v2_token sample_token_world sample_sdk (Some sample_token_db) Map.empty sample_token_txns = Inr rows"
    and r: "map (\<lambda>c. (cto_owner_address c, cto_last_transaction_version c)) (trw_current_ownerships rows) = [(''0xa'', 5)]"
      "map (\<lambda>c. (cto_owner_address c, cto_last_transaction_version c)) (trw_deleted_ownerships rows) = [(''0xb'', 6), (''0xa'', 6)]"
      "map (\<lambda>c. (ctd_token_data_id c, ctd_last_transaction_version c)) (trw_deleted_token_datas rows) = [(''0x7'', 6)]"
      "trw_current_token_datas rows = []"
    by (rule sample_token_runs)
  have "get_table_handle_to_owner_from_transactions sample_token_world sample_token_txns = Inr []" by code_simp
  then have ex: "token_extract sample_token_world sample_sdk (Some sample_token_db) sample_token_txns =
      Inr \<lparr>tkb_collections = trw_current_collections rows, tkb_token_datas = trw_current_token_datas rows,
        tkb_deleted_token_datas = trw_deleted_token_datas rows, tkb_ownerships = trw_current_ownerships rows,
        tkb_deleted_ownerships = trw_deleted_ownerships rows, tkb_activities = trw_activities rows,
        tkb_royalties = trw_royalties rows, tkb_claims = trw_claims rows\<rparr>"
    by (simp add: token_extract_def run)
  show ?thesis
    by (rule that [OF ex]) (use r in \<open>auto simp: map_eq_Cons_conv\<close>)
qed


theorem burned_tokens_marked_witness:
  "\<exists>data r. token_extract sample_token_world sample_sdk (Some sample_token_db) sample_token_txns = Inr data \<and>
     find_row ctd_token_data_id ''0x7'' (tbl_token_datas (fst (token_store sample_token_chunks
       \<lparr>tsc_token_datas = [False], tsc_ownerships = []\<rparr> 0 data empty_token_tables))) = Some r \<and>
     ctd_is_deleted_v2 r = Some True \<and> ctd_last_transaction_version r = 6"
proof -
  obtain data where data: "token_extract sample_token_world sample_sdk (Some sample_token_db) sample_token_txns = Inr data"
    and v: "map (\<lambda>c. (ctd_token_data_id c, ctd_last_transaction_version c)) (tkb_deleted_token_datas data) = [(''0x7'', 6)]"
      "tkb_token_datas data = []"
    by (rule sample_token_extracts)
  obtain d where d: "tkb_deleted_token_datas data = [d]" "ctd_token_data_id d = ''0x7''" "ctd_last_transaction_version d = 6"
    using v(1) by (auto simp: map_eq_Cons_conv)
  have "d \<in> set (kept_token_datas 0 (tkb_deleted_token_datas data))"
    by (simp add: d(1) kept_token_datas_def filter_data_def flags_is_empty_def)
  from burned_tokens_marked [OF data sample_token_fits sample_token_chunks_ok this, of empty_token_tables
      "\<lparr>tsc_token_datas = [False], tsc_ownerships = []\<rparr>"] data show ?thesis
    by (auto simp: v(2) d empty_token_tables_def find_row_def)
qed

end
