(* ===== verification/Spec2Isabelle.thy ===== *)
theory Spec2Isabelle
  imports TableFlags EnricherLoop ReputationExtractor ParquetTracker ReputationApi
    UserTransactions AccountTransactions ObjectsProcessor AccountRestoration EventsProcessor
    DefaultProcessor FungibleAssetStorer AnsProcessor StakeProcessor TokenStorer
begin

text \<open>
  A verification library for the Movement indexer processors (repository
  \<open>aptos-indexer-processors-v2\<close>).  The program reads a stream of transactions and turns it into
  tables; a run is a chain of steps (extractor, storer, version tracker) that the SDK feeds with
  batches of consecutive versions.

  \<^bold>\<open>Parts, theories and sources\<close> (paths under \<open>src/\<close>)

  \<^item> \<open>Prelude\<close>: integer widths, errors as values, the standard library functions the code calls, JSON
    values, SQL tables as lists of rows with \<open>INSERT .. ON CONFLICT\<close>.  The locale \<open>keyed_upsert\<close> is
    the contract of such a statement; every table of the model interprets it.
  \<^item> \<open>TableFlags\<close>: \<open>processor/src/utils/table_flags.rs\<close>, the 128-bit set of tables to write.
  \<^item> \<open>Config\<close>: \<open>processor/src/config\<close>, modes, processor configurations, status table names.
  \<^item> \<open>StatusSaver\<close>: \<open>processors/processor_status_saver.rs\<close>, \<open>db/backfill_processor_status.rs\<close>:
    checkpoints, start and end versions in default, backfill and testing mode.
  \<^item> \<open>ChainData\<close>: the protobuf messages the processors read and the readers of \<open>ObjectCore\<close>.
  \<^item> \<open>BridgePayload\<close>: \<open>intent_payload.rs\<close>, \<open>lz_payload.rs\<close>, EVM addresses and GUIDs in call data.
  \<^item> \<open>ReputationModel\<close>, \<open>ReputationExtractor\<close>, \<open>ReputationStorer\<close>: the address reputation processor,
    from events to transfer edges, bridge inflows and the rollup of EVM sources per address.
  \<^item> \<open>LzEnricher\<close>, \<open>Hypernative\<close>, \<open>EnricherLoop\<close>: its background loop, which resolves LayerZero GUIDs to
    EVM addresses and screens these addresses.  Extractor and storer send addresses and GUIDs to it;
    it writes the same tables.  The loop is the inductive relation \<open>loop_step\<close>, one step per branch of
    the \<open>select!\<close>; pending futures are data.  The locales \<open>lz_db\<close>, \<open>evm_screening_db\<close> and
    \<open>connection_state\<close> are the traits \<open>LzDb\<close>, \<open>EvmScreeningDb\<close> and \<open>EvmConnectionState\<close>, each
    interpreted on the model of the implementation the program uses.
  \<^item> \<open>ParquetBuffer\<close>, \<open>ParquetTracker\<close>: \<open>parquet_processors/parquet_utils\<close> and
    \<open>parquet_processor_status_saver.rs\<close>: row buffers, uploads, gap detection, per-table checkpoints.  The
    locale \<open>parquet_status_saver\<close> is the trait \<open>ParquetProcessorStatusSaverTrait\<close>.
  \<^item> \<open>ReputationApi\<close>: \<open>api/address_reputation\<close>, the REST service over the reputation tables.
  \<^item> \<open>BatchStore\<close>: what the storers of the chain processors share, chunked \<open>INSERT .. ON CONFLICT\<close>
    statements that PostgreSQL refuses when they would touch a row twice.  The locale
    \<open>idempotent_upsert\<close> is the contract of a statement that may be replayed, \<open>versioned_table\<close> that
    of the \<open>current_*\<close> tables whose rows only move to later versions.
  \<^item> \<open>Signatures\<close>, \<open>UserTransactions\<close>: \<open>processors/user_transaction\<close>, signatures of every scheme
    flattened into rows, user transactions with their fees.
  \<^item> \<open>AccountTransactions\<close>: \<open>processors/account_transactions\<close>, the accounts a transaction touches.
  \<^item> \<open>ObjectsProcessor\<close>: \<open>processors/objects\<close>, object rows and current objects with the database
    lookup for deleted objects.
  \<^item> \<open>AccountRestoration\<close>: \<open>processors/account_restoration\<close>, authentication keys and public keys of
    accounts.
  \<^item> \<open>EventsProcessor\<close>: \<open>processors/events\<close> and \<open>processors/gas_fees\<close>.
  \<^item> \<open>DefaultProcessor\<close>: \<open>processors/default\<close>, table items, modules and block metadata, and the parquet
    rows of transactions and write set changes.
  \<^item> \<open>CoinResources\<close>: the readers of coin and fungible asset resources and events.
  \<^item> \<open>FungibleAssetModels\<close>, \<open>FungibleAsset\<close>: \<open>processors/fungible_asset\<close>, balances, metadata, supplies and
    activities of coins and fungible assets, the passes over a transaction that collect them, and the
    mapping from fungible assets to coins that the extractor keeps between batches.
  \<^item> \<open>FungibleAssetStorer\<close>: its storer, with the two concurrent insertions into the table of current
    balances.  The locale \<open>column_group\<close> is the contract of columns that one kind of statement owns.
  \<^item> \<open>AnsModels\<close>, \<open>AnsProcessor\<close>: \<open>processors/ans\<close>, names and primary names of accounts, from table
    items, resources and events to the two tables of current rows.
  \<^item> \<open>StakeModels\<close>, \<open>StakeBalances\<close>, \<open>StakeProcessor\<close>: \<open>processors/stake\<close>, staking pools, balances and
    voters of delegators with the lookups they need, votes and activities; nine tables.
  \<^item> \<open>TokenModels\<close>, \<open>TokenRows\<close>: \<open>processors/token_v2/token_models\<close> and \<open>token_v2_models\<close>, the
    Move types of tokens of both standards and the rows of collections, token data, ownerships,
    activities, claims, royalties and metadata, with the two database lookups.
  \<^item> \<open>TokenProcessor\<close>, \<open>TokenCurrents\<close>: \<open>token_v2_processor_helpers.rs\<close> and \<open>token_v2_extractor.rs\<close>,
    the four loops over a transaction and the state they share across a batch; the invariant of that
    state, what transfers and burns leave behind.
  \<^item> \<open>TokenStorer\<close>: \<open>token_v2_storer.rs\<close> and \<open>token_v2_processor_queries.rs\<close>.  Two of its tables are
    written by two concurrent insertions each; their order is a parameter, and \<open>column_group\<close> gives
    the columns that do not depend on it.
  \<^item> \<open>RowMaps\<close>: hash maps filled row by row; after a batch they hold the latest row per key.
  \<^item> \<open>SampleExtern\<close>, \<open>SampleChain\<close>: a concrete environment and concrete messages for the witnesses.
  \<^item> this theory: properties that span the extractor, the storer and the loop.

  \<^bold>\<open>How the model reads\<close>

  A struct is a record, an enum a datatype, \<open>i64\<close> and \<open>u64\<close> are 64-bit words (signed comparisons through
  \<open>sint\<close>), \<open>BigDecimal\<close> and SQL \<open>NUMERIC\<close> are rationals.  A handler takes its state and returns the new
  state with a value of \<open>error + 'a\<close>; every early return and panic is a branch.  Which database
  calls fail in an execution is a function argument (\<open>faults\<close>), so a property that does not mention it
  holds for every pattern of failures.  Code outside the repository is a parameter: the record
  \<open>extern\<close> (JSON, hex and decimal parsers, \<open>standardize_address\<close>), HTTP answers, clocks, the
  upload client, \<open>NUMERIC\<close> division, the order in which a database scans rows, the record \<open>sdk\<close>
  (protobuf enum names, timestamps, entry functions), BCS decoding, and how the SDK cuts a batch into
  chunks.  Unsigned arithmetic wraps, as in a release build.

  \<^bold>\<open>What the lemmas show\<close>

  Checkpoints never move backwards and restarts resume where they should (\<open>StatusSaver\<close>); rows are
  neither lost, duplicated nor reordered on their way into files and a parquet checkpoint is never
  ahead of the uploads (\<open>ParquetBuffer\<close>, \<open>ParquetTracker\<close>); extracted rows have unique keys and are
  stored verbatim, all or nothing (\<open>ReputationExtractor\<close>, \<open>ReputationStorer\<close>, this theory); the
  rollup keeps its invariant and accounts for every direct fund; decoders accept exactly the
  well-formed payloads and read back what an encoder writes; the loop keeps at most one ping in
  flight, retries boundedly, and its futures drain; the rate limiter keeps its rate; the API's window
  query is a maximum per address.  For the chain processors: the flattening of a signature fails
  exactly on incomplete messages and names the right signer; the rows of a batch have distinct
  conflict keys, so the storers succeed for every chunking and may be replayed; current rows are the
  latest rows of a batch and never regress in the table.  Where two insertions write one table
  concurrently (balances, token data, ownerships), the properties hold for every schedule, and lemmas
  show which columns depend on it.  Several properties state behaviour that differs from the
  comments or the apparent intention of the code: the statement says so.

  \<^bold>\<open>Bounds\<close>

  The upload loop terminates by its own retry bound, the sweep of the loop's futures by the measure
  \<open>work\<close> (at most 12 per GUID).  No fuel is used.  \<open>seen_ord\<close> is exact for versions below
  \<open>2 ^ 39\<close> and event indices below \<open>2 ^ 24\<close>; the event index fits when a transaction has fewer than
  \<open>2 ^ 64 + 1\<close> events (\<open>events_fit\<close>).

  \<^bold>\<open>Not modelled\<close>

  Most parquet variants of the row types (those of tokens included) and the wiring of steps in
  \<open>run_processor\<close>; the struct \<open>Token\<close> of \<open>tokens.rs\<close> and the \<open>Display\<close> of \<open>TokenIdType\<close> and
  \<open>TypeInfo\<close>, which only messages use; parquet serialisation, the storage and HTTP clients, metrics, logging, process start and YAML
  parsing (input/output or libraries); \<open>db/schema.rs\<close> and the migrations (declarations); the semaphore
  that bounds concurrent requests (only its 429 pause flag is kept).
\<close>

section \<open>Lemmas\<close>

lemma extracted_versions:
  assumes "extractor_process ext registry txns = Inr out" and "\<forall>txn \<in> set txns. events_fit txn"
  shows "(\<forall>e \<in> set (ex_edges out). te_transaction_version e \<in> tx_version ` set txns) \<and>
    (\<forall>bi \<in> set (ex_inflows out). bi_transaction_version bi \<in> tx_version ` set txns)"
proof -
  from extractor_outs [OF assms(1) [unfolded extractor_process_def]] obtain outs where
    outs: "list_all2 (\<lambda>t r. extract_txn ext registry t empty_extracted = Inr r) txns outs"
    and out: "out = foldr append_extracted outs empty_extracted" by auto
  have "list_all2 (\<lambda>t r. out_ok (tx_version t) r) txns outs"
    using outs assms(2) by (induction txns outs rule: list_all2_induct) (auto intro: extract_txn_ok)
  from batch_versions [OF this] show ?thesis by (simp add: out foldr_append_fields)
qed

text \<open>No stored row belongs to one of the versions of the batch.\<close>

definition new_versions :: "transaction list \<Rightarrow> reputation_db \<Rightarrow> bool" where
  "new_versions txns db \<longleftrightarrow>
     (\<forall>e \<in> set (rd_edges db). te_transaction_version e \<notin> tx_version ` set txns) \<and>
     (\<forall>bi \<in> set (rd_inflows db). bi_transaction_version bi \<notin> tx_version ` set txns)"

lemma distinct_sort_edges: "distinct (map te_key es) \<Longrightarrow> distinct (map te_key (sort_edges es))"
proof -
  assume "distinct (map te_key es)"
  then have "distinct es" "inj_on te_key (set es)" by (simp_all add: distinct_map)
  then show ?thesis by (simp add: distinct_map sort_edges_def)
qed

lemma fresh_tables:
  assumes run: "extractor_process ext registry txns = Inr out" and "distinct (map tx_version txns)"
    and fit: "\<forall>txn \<in> set txns. events_fit txn" and new: "new_versions txns db"
    and stored: "storer_process d cfg faults (ex_edges out, ex_inflows out) meta db = (Inr m, guids, db')"
  shows "rd_edges db' = rd_edges db @ sort_edges (ex_edges out)"
    and "rd_inflows db' = rd_inflows db @ ex_inflows out" and "rd_scores db' = rd_scores db"
    and "guids = forwarded_guids faults (ex_inflows out)"
proof -
  note keyed = extractor_batch_ok [OF run assms(2) fit] and vs = extracted_versions [OF run fit]
  have b: "batch_transaction d cfg faults (sort_edges (ex_edges out)) (ex_inflows out) db = Inr db'"
    and g: "guids = forwarded_guids faults (ex_inflows out)"
    using storer_process_cases [OF stored] by auto
  note tables = batch_tables [OF b]
  have "te_key e \<noteq> te_key e'" if "e \<in> set (ex_edges out)" "e' \<in> set (rd_edges db)" for e e'
    using that vs new unfolding new_versions_def te_key_def prod.inject by metis
  then have "te_key ` set (sort_edges (ex_edges out)) \<inter> te_key ` set (rd_edges db) = {}"
    unfolding set_sort_edges by blast
  with keyed show "rd_edges db' = rd_edges db @ sort_edges (ex_edges out)"
    by (simp add: tables(1) fold_insert_ignore_fresh distinct_sort_edges)
  have "bi_key b \<noteq> bi_key b'" if "b \<in> set (ex_inflows out)" "b' \<in> set (rd_inflows db)" for b b'
    using that vs new unfolding new_versions_def bi_key_def prod.inject by metis
  then have "bi_key ` set (ex_inflows out) \<inter> bi_key ` set (rd_inflows db) = {}" by blast
  with keyed show "rd_inflows db' = rd_inflows db @ ex_inflows out"
    by (simp add: tables(2) fold_insert_ignore_fresh)
  show "rd_scores db' = rd_scores db" by (rule tables(3))
  show "guids = forwarded_guids faults (ex_inflows out)" by (rule g)
qed

definition sample_pipeline_db :: reputation_db where
  "sample_pipeline_db = snd (snd (storer_process (/) default_address_reputation_config (\<lambda>_. False)
     (ex_edges sample_extracted, ex_inflows sample_extracted) default_txn_metadata empty_reputation_db))"

lemma sample_pipeline_run:
  "\<exists>guids. storer_process (/) default_address_reputation_config (\<lambda>_. False)
     (ex_edges sample_extracted, ex_inflows sample_extracted) default_txn_metadata empty_reputation_db =
     (Inr default_txn_metadata, guids, sample_pipeline_db)"
proof -
  have "fst (storer_process (/) default_address_reputation_config (\<lambda>_. False)
     (ex_edges sample_extracted, ex_inflows sample_extracted) default_txn_metadata empty_reputation_db) =
     Inr default_txn_metadata" by code_simp
  then show ?thesis
    by (simp add: sample_pipeline_db_def prod_eq_iff)
qed

lemma sample_new_versions: "new_versions [sample_txn] empty_reputation_db"
  by (simp add: new_versions_def empty_reputation_db_def)

section \<open>Properties\<close>

text \<open>
  Claim C5: Extractor and storer together.  When a batch of transactions with versions that are not
  yet stored is extracted and the storer reports success, the edge table has grown by exactly the
  extracted edges in (version, event index) order, the inflow table by exactly the extracted inflows,
  and the score table is unchanged.
\<close>

theorem fresh_batch_stored_verbatim:
  assumes "extractor_process ext registry txns = Inr out" and "distinct (map tx_version txns)"
    and "\<forall>txn \<in> set txns. events_fit txn" and "new_versions txns db"
    and "storer_process d cfg faults (ex_edges out, ex_inflows out) meta db = (Inr m, guids, db')"
  shows "rd_edges db' = rd_edges db @ sort_edges (ex_edges out) \<and>
    rd_inflows db' = rd_inflows db @ ex_inflows out \<and> rd_scores db' = rd_scores db"
  using fresh_tables [OF assms] by simp

theorem fresh_batch_stored_verbatim_witness:
  "rd_edges sample_pipeline_db = sort_edges (ex_edges sample_extracted) \<and>
   rd_inflows sample_pipeline_db = ex_inflows sample_extracted"
proof -
  obtain guids where run: "storer_process (/) default_address_reputation_config (\<lambda>_. False)
     (ex_edges sample_extracted, ex_inflows sample_extracted) default_txn_metadata empty_reputation_db =
     (Inr default_txn_metadata, guids, sample_pipeline_db)" using sample_pipeline_run by blast
  show ?thesis
    using fresh_batch_stored_verbatim [OF sample_extractor_run _ sample_txn_fits sample_new_versions run]
    by (simp add: empty_reputation_db_def)
qed



end
